(* ===== verification/Modbus.thy ===== *)
theory Modbus
  imports Prelude
begin

text \<open>
  \<open>lantern-domain/src/modbus.rs\<close>: register addresses and counts, slave identifiers, register
  tables, functions with their protocol limits, validated register blocks, byte and word order, and
  the settings of a serial link. The newtypes around machine integers are the integers, and their
  \<open>new\<close> functions carry the validation. The release profile builds with overflow checks, so
  an arithmetic overflow is a panic: \<open>register_block_end\<close> is partial.
\<close>

type_synonym register_address = u16
type_synonym register_count = u16
type_synonym slave_id = u8

datatype modbus_table = InputRegisters | HoldingRegisters

datatype (plugins only: code size) modbus_function =
    ReadHoldingRegisters
  | ReadInputRegisters
  | WriteSingleRegister
  | WriteMultipleRegisters

datatype (plugins only: code size) register_range_error =
    ZeroCount
  | InvalidSlave u8
  | FunctionLimit modbus_function u16
  | FunctionTableMismatch modbus_function modbus_table
  | AddressOverflow u16 u16

definition register_count_new :: "u16 \<Rightarrow> register_range_error + register_count" where
  "register_count_new value = (if value = 0 then Err ZeroCount else Ok value)"

definition slave_id_new :: "u8 \<Rightarrow> register_range_error + slave_id" where
  "slave_id_new value =
     (if value = 0 \<or> value > 247 then Err (InvalidSlave value) else Ok value)"

definition is_write :: "modbus_function \<Rightarrow> bool" where
  "is_write f \<longleftrightarrow> f = WriteSingleRegister \<or> f = WriteMultipleRegisters"

fun validate_count :: "modbus_function \<Rightarrow> register_count \<Rightarrow> register_range_error + unit" where
  "validate_count ReadHoldingRegisters c =
     (if c \<le> 125 then Ok () else Err (FunctionLimit ReadHoldingRegisters c))"
| "validate_count ReadInputRegisters c =
     (if c \<le> 125 then Ok () else Err (FunctionLimit ReadInputRegisters c))"
| "validate_count WriteSingleRegister c =
     (if c = 1 then Ok () else Err (FunctionLimit WriteSingleRegister c))"
| "validate_count WriteMultipleRegisters c =
     (if c \<le> 123 then Ok () else Err (FunctionLimit WriteMultipleRegisters c))"

fun validate_table :: "modbus_function \<Rightarrow> modbus_table \<Rightarrow> register_range_error + unit" where
  "validate_table ReadInputRegisters InputRegisters = Ok ()"
| "validate_table ReadHoldingRegisters HoldingRegisters = Ok ()"
| "validate_table WriteSingleRegister HoldingRegisters = Ok ()"
| "validate_table WriteMultipleRegisters HoldingRegisters = Ok ()"
| "validate_table f t = Err (FunctionTableMismatch f t)"

record register_block =
  rb_table :: modbus_table
  rb_start :: register_address
  rb_count :: register_count

definition register_block_new ::
  "modbus_table \<Rightarrow> register_address \<Rightarrow> register_count \<Rightarrow> modbus_function
     \<Rightarrow> register_range_error + register_block" where
  "register_block_new table start count function =
     and_then (validate_table function table) (\<lambda>_.
     and_then (validate_count function count) (\<lambda>_.
       let last_offset = count - 1 in
       if checked_add_word start last_offset = None then Err (AddressOverflow start count)
       else Ok \<lparr>rb_table = table, rb_start = start, rb_count = count\<rparr>))"

text \<open>
  \<open>RegisterBlock::end\<close> adds the count before it subtracts one: the first sum must fit in
  16 bits. \<open>None\<close> is the overflow panic.
\<close>

definition register_block_end :: "register_block \<Rightarrow> register_address option" where
  "register_block_end b =
     Option.bind (checked_add_word (rb_start b) (rb_count b)) (\<lambda>s. checked_sub_word s 1)"

datatype byte_order = BigEndian | LittleEndian
datatype word_order = MostSignificantFirst | LeastSignificantFirst

datatype link_settings_error = ZeroBaudRate

definition baud_rate_new :: "u32 \<Rightarrow> link_settings_error + u32" where
  "baud_rate_new value = (if value = 0 then Err ZeroBaudRate else Ok value)"

datatype (plugins only: code size) parity = NoParity | EvenParity | OddParity
datatype data_bits = Seven | Eight
datatype stop_bits = One | Two
datatype rs485_mode = AdapterManaged | LinuxIoctl

record link_settings =
  ls_baud_rate :: u32
  ls_parity :: parity
  ls_data_bits :: data_bits
  ls_stop_bits :: stop_bits
  ls_response_timeout :: duration
  ls_slave_id :: slave_id
  ls_rs485_mode :: rs485_mode

subsection \<open>Accepted blocks\<close>

lemma validate_count_Ok_iff:
  "validate_count f c = Ok u \<longleftrightarrow>
     (case f of ReadHoldingRegisters \<Rightarrow> unat c \<le> 125 | ReadInputRegisters \<Rightarrow> unat c \<le> 125
      | WriteSingleRegister \<Rightarrow> unat c = 1 | WriteMultipleRegisters \<Rightarrow> unat c \<le> 123)"
  by (cases f) (auto simp: word_le_nat_alt word_unat_eq_iff)

lemma validate_table_Ok_iff:
  "validate_table f t = Ok u \<longleftrightarrow> (f = ReadInputRegisters \<longleftrightarrow> t = InputRegisters)"
  by (cases f; cases t) auto

lemma register_block_new_OkD:
  assumes "register_block_new t s c f = Ok b"
  shows "b = \<lparr>rb_table = t, rb_start = s, rb_count = c\<rparr>"
    and "validate_table f t = Ok ()" and "validate_count f c = Ok ()"
    and "unat s + unat (c - 1) < 2 ^ 16"
  using assms
  by (auto simp: register_block_new_def and_then_Ok_iff checked_add_word_def Let_def
      split: if_splits)

lemma register_block_new_read_Ok:
  assumes "validate_table f t = Ok ()" and "0 < unat c" and "unat c \<le> 125"
    and "unat s + unat c \<le> 65536" and "\<not> is_write f"
  shows "register_block_new t s c f = Ok \<lparr>rb_table = t, rb_start = s, rb_count = c\<rparr>"
proof -
  have "validate_count f c = Ok ()"
    using assms by (cases f) (auto simp: is_write_def word_le_nat_alt)
  moreover have "unat (c - 1) = unat c - 1"
    using assms(2) by (simp add: unat_sub_if')
  ultimately show ?thesis
    using assms by (simp add: register_block_new_def checked_add_word_def Let_def)
qed

definition block_last :: "register_block \<Rightarrow> nat" where
  "block_last b = unat (rb_start b) + unat (rb_count b) - 1"

lemma register_block_end_Some:
  assumes "register_block_end b = Some e"
  shows "unat e + 1 = unat (rb_start b) + unat (rb_count b)"
  using assms
  by (auto simp: register_block_end_def Option.bind_eq_Some_conv dest!: checked_add_word_Some checked_sub_word_Some)

lemma register_block_end_defined:
  "0 < unat (rb_count b) \<Longrightarrow>
     register_block_end b \<noteq> None \<longleftrightarrow> unat (rb_start b) + unat (rb_count b) < 65536"
  by (auto simp: register_block_end_def checked_add_word_def checked_sub_word_def unat_word_ariths
      split: if_splits)

end
