(* ===== verification/Values.thy ===== *)
theory Values
  imports Modbus
begin

text \<open>
  The value types of \<open>lantern-domain\<close>: textual identifiers (\<open>ids.rs\<close>), access classes and
  drive-state guards (\<open>access.rs\<close>), identification results (\<open>identity.rs\<close>), raw registers,
  telemetry samples and gaps (\<open>telemetry.rs\<close>), units bound to quantities (\<open>quantity.rs\<close>),
  engineering values and fixed-point scales (\<open>value.rs\<close>). Strings are their UTF-8 bytes.
  \<open>rust_decimal::Decimal\<close> is a type variable \<open>'d\<close> with its operations in a record
  \<open>'d decimal_ops\<close>, which every definition that computes with decimals takes as an argument.
\<close>

subsection \<open>Identifiers\<close>

datatype (plugins only: code size) id_error = IdEmpty | IdTooLong | IdInvalidCharacter nat char

definition is_ascii_alphanumeric :: "char \<Rightarrow> bool" where
  "is_ascii_alphanumeric c \<longleftrightarrow>
     (let n = (of_char c :: nat) in
      (48 \<le> n \<and> n \<le> 57) \<or> (65 \<le> n \<and> n \<le> 90) \<or> (97 \<le> n \<and> n \<le> 122))"

fun first_invalid :: "(char \<Rightarrow> bool) \<Rightarrow> nat \<Rightarrow> string \<Rightarrow> (nat \<times> char) option" where
  "first_invalid ok i [] = None"
| "first_invalid ok i (c # cs) = (if ok c then first_invalid ok (Suc i) cs else Some (i, c))"

definition MAX_ID_LEN :: nat where "MAX_ID_LEN = 128"

definition id_char :: "char \<Rightarrow> bool" where
  "id_char c \<longleftrightarrow> is_ascii_alphanumeric c \<or> c \<in> set ''-_.:''"

definition validate_text_id :: "string \<Rightarrow> id_error + unit" where
  "validate_text_id value =
     (if value = [] then Err IdEmpty
      else if length value > MAX_ID_LEN then Err IdTooLong
      else case first_invalid id_char 0 value of
          Some (i, c) \<Rightarrow> Err (IdInvalidCharacter i c)
        | None \<Rightarrow> Ok ())"

type_synonym text_id = string
type_synonym profile_id = text_id
type_synonym parameter_id = text_id
type_synonym device_fingerprint = text_id
type_synonym quantity_id = text_id

definition parse_id :: "string \<Rightarrow> id_error + text_id" where
  "parse_id value = and_then (validate_text_id value) (\<lambda>_. Ok value)"

type_synonym request_id = u64
type_synonym session_id = u128
type_synonym backup_id = u128
type_synonym operation_id = u128
type_synonym plan_id = u128

lemma first_invalid_None_iff: "first_invalid ok i cs = None \<longleftrightarrow> list_all ok cs"
  by (induction cs arbitrary: i) auto

lemma parse_id_Ok_iff:
  "parse_id s = Ok t \<longleftrightarrow> t = s \<and> s \<noteq> [] \<and> length s \<le> MAX_ID_LEN \<and> list_all id_char s"
  using first_invalid_None_iff [of id_char 0 s]
  by (auto simp: parse_id_def validate_text_id_def and_then_Ok_iff
      split: option.splits prod.splits if_splits)

subsection \<open>Access classes and drive-state guards\<close>

datatype (plugins only: code size) parameter_access = ReadOnly | WritableWhenStopped | Commissioning | Dangerous
datatype (plugins only: code size) restore_policy = Normal | LinkCritical | RestartRequired | ManualOnly
datatype (plugins only: code size) drive_state = Stopped | Running | Faulted | UnknownState
datatype (plugins only: code size) required_drive_state = AnyState | RequireStopped | RequireFaulted

fun is_satisfied_by :: "required_drive_state \<Rightarrow> drive_state \<Rightarrow> bool" where
  "is_satisfied_by AnyState s = True"
| "is_satisfied_by RequireStopped s = (s = Stopped)"
| "is_satisfied_by RequireFaulted s = (s = Faulted)"

subsection \<open>Raw registers, telemetry quality\<close>

type_synonym monotonic_instant = u128
type_synonym utc_timestamp = int
type_synonym raw_registers = "u16 list"

datatype raw_registers_error = RawEmpty | RawTooMany nat

definition raw_registers_new :: "u16 list \<Rightarrow> raw_registers_error + raw_registers" where
  "raw_registers_new registers =
     (if registers = [] then Err RawEmpty
      else if length registers > 125 then Err (RawTooMany (length registers))
      else Ok registers)"

datatype (plugins only: code size) telemetry_quality =
    Good | Stale | Timeout | ProtocolException | DecodeError | Disconnected | Unavailable

definition can_satisfy_write_guard :: "telemetry_quality \<Rightarrow> bool" where
  "can_satisfy_write_guard q \<longleftrightarrow> q = Good"

subsection \<open>Identification results\<close>

datatype (plugins only: code size) identification_match = Match | Partial | Mismatch | Ambiguous | IdentificationError

record identification_probe_result =
  ipr_probe_id :: string
  ipr_raw :: raw_registers
  ipr_matched :: bool

record verified_device_identity =
  vdi_profile_id :: profile_id
  vdi_fingerprint :: device_fingerprint
  vdi_probes :: "identification_probe_result list"

record identification_report =
  ir_profile_id :: profile_id
  ir_outcome :: identification_match
  ir_probes :: "identification_probe_result list"

subsection \<open>Engineering values and decimals\<close>

datatype (plugins only: code size) 'd engineering_value =
    Fixed 'd
  | Float32Bits u32
  | Float64Bits u64
  | EnumRaw int
  | BitfieldRaw u64

datatype (plugins only: code size) rounding_mode =
    MidpointNearestEven
  | MidpointAwayFromZero
  | TowardZero
  | AwayFromZero
  | TowardPositiveInfinity
  | TowardNegativeInfinity

record 'd decimal_ops =
  dec_max_scale :: nat
  dec_zero :: 'd
  dec_one :: 'd
  dec_is_zero :: "'d \<Rightarrow> bool"
  dec_from_i128 :: "int \<Rightarrow> 'd"
  dec_to_i128 :: "'d \<Rightarrow> int option"
  dec_checked_add :: "'d \<Rightarrow> 'd \<Rightarrow> 'd option"
  dec_checked_sub :: "'d \<Rightarrow> 'd \<Rightarrow> 'd option"
  dec_checked_mul :: "'d \<Rightarrow> 'd \<Rightarrow> 'd option"
  dec_checked_div :: "'d \<Rightarrow> 'd \<Rightarrow> 'd option"
  dec_rem :: "'d \<Rightarrow> 'd \<Rightarrow> 'd"
  dec_round_dp :: "'d \<Rightarrow> nat \<Rightarrow> rounding_mode \<Rightarrow> 'd"
  dec_less :: "'d \<Rightarrow> 'd \<Rightarrow> bool"
  dec_value :: "'d \<Rightarrow> rat"
  dec_normalized_text :: "'d \<Rightarrow> string"

record 'd fixed_scale =
  fs_multiplier :: 'd
  fs_divisor :: 'd
  fs_offset :: 'd
  fs_decimal_places :: nat
  fs_rounding :: rounding_mode

datatype (plugins only: code size) scale_error =
    ZeroMultiplier
  | ZeroDivisor
  | TooManyDecimalPlaces nat
  | ArithmeticOverflow
  | NotRepresentable

definition fixed_scale_new ::
  "'d decimal_ops \<Rightarrow> 'd \<Rightarrow> 'd \<Rightarrow> 'd \<Rightarrow> nat \<Rightarrow> rounding_mode \<Rightarrow> scale_error + 'd fixed_scale" where
  "fixed_scale_new D multiplier divisor offset decimal_places rounding =
     (if dec_is_zero D multiplier then Err ZeroMultiplier
      else if dec_is_zero D divisor then Err ZeroDivisor
      else if decimal_places > dec_max_scale D then Err (TooManyDecimalPlaces decimal_places)
      else Ok \<lparr>fs_multiplier = multiplier, fs_divisor = divisor, fs_offset = offset,
               fs_decimal_places = decimal_places, fs_rounding = rounding\<rparr>)"

definition fixed_scale_identity :: "'d decimal_ops \<Rightarrow> 'd fixed_scale" where
  "fixed_scale_identity D =
     \<lparr>fs_multiplier = dec_one D, fs_divisor = dec_one D, fs_offset = dec_zero D,
      fs_decimal_places = 0, fs_rounding = MidpointNearestEven\<rparr>"

definition scale_decode_i128 :: "'d decimal_ops \<Rightarrow> 'd fixed_scale \<Rightarrow> int \<Rightarrow> scale_error + 'd" where
  "scale_decode_i128 D s raw =
     ok_or ArithmeticOverflow
       (map_option (\<lambda>value. dec_round_dp D value (fs_decimal_places s) (fs_rounding s))
         (Option.bind (dec_checked_mul D (dec_from_i128 D raw) (fs_multiplier s)) (\<lambda>value.
          Option.bind (dec_checked_div D value (fs_divisor s)) (\<lambda>value.
          dec_checked_add D value (fs_offset s)))))"

definition scale_encode_i128 :: "'d decimal_ops \<Rightarrow> 'd fixed_scale \<Rightarrow> 'd \<Rightarrow> scale_error + int" where
  "scale_encode_i128 D s value =
     and_then
       (ok_or ArithmeticOverflow
         (Option.bind (dec_checked_sub D value (fs_offset s)) (\<lambda>value.
          Option.bind (dec_checked_mul D value (fs_divisor s)) (\<lambda>value.
          dec_checked_div D value (fs_multiplier s)))))
       (\<lambda>raw. ok_or NotRepresentable (dec_to_i128 D (dec_round_dp D raw 0 (fs_rounding s))))"

subsection \<open>Quantities and units\<close>

datatype (plugins only: code size) quantity_kind =
    Frequency | RotationalSpeed | Current | Voltage | Power | Energy | Torque | Temperature
  | Time | Ratio | Pressure | Flow | Count | DigitalState | Unitless | Custom quantity_id

record unit_id =
  unit_text :: string
  unit_quantity :: quantity_kind

datatype (plugins only: code size) unit_error =
    UnitInvalidId id_error
  | UnitTooLong
  | UnitInvalidCharacter nat char
  | QuantityMismatch string quantity_kind quantity_kind
  | UnknownStandardUnit string
  | CustomUnitRequiresCustomQuantity string
  | CustomQuantityRequiresCustomUnit string

definition unit_char :: "char \<Rightarrow> bool" where
  "unit_char c \<longleftrightarrow> is_ascii_alphanumeric c \<or> c \<in> set ''._-%/''"

definition validate_unit_id :: "string \<Rightarrow> unit_error + unit" where
  "validate_unit_id s =
     (if s = [] then Err (UnitInvalidId IdEmpty)
      else if length s > 64 then Err UnitTooLong
      else case first_invalid unit_char 0 s of
          Some (i, c) \<Rightarrow> Err (UnitInvalidCharacter i c)
        | None \<Rightarrow> Ok ())"

definition standard_units :: "(string \<times> quantity_kind) list" where
  "standard_units =
     [(''hz'', Frequency), (''khz'', Frequency), (''rpm'', RotationalSpeed), (''rps'', RotationalSpeed),
      (''a'', Current), (''ma'', Current), (''v'', Voltage), (''kv'', Voltage),
      (''w'', Power), (''kw'', Power), (''wh'', Energy), (''kwh'', Energy), (''nm'', Torque),
      (''celsius'', Temperature), (''kelvin'', Temperature), (''s'', Time), (''ms'', Time), (''us'', Time),
      (''%'', Ratio), (''ratio'', Ratio), (''pa'', Pressure), (''kpa'', Pressure), (''bar'', Pressure),
      (''l/min'', Flow), (''m3/h'', Flow), (''count'', Count), (''bool'', DigitalState), (''1'', Unitless)]"

definition standard_quantity :: "string \<Rightarrow> quantity_kind option" where
  "standard_quantity s = map_of standard_units s"

definition is_custom :: "quantity_kind \<Rightarrow> bool" where
  "is_custom q = (case q of Custom _ \<Rightarrow> True | _ \<Rightarrow> False)"

definition unit_id_new :: "quantity_kind \<Rightarrow> string \<Rightarrow> unit_error + unit_id" where
  "unit_id_new q s =
     and_then (validate_unit_id s) (\<lambda>_.
       let is_custom_unit = (take 7 s = ''custom.'') in
       if is_custom_unit \<and> \<not> is_custom q then Err (CustomUnitRequiresCustomQuantity s)
       else if is_custom q \<and> \<not> is_custom_unit then Err (CustomQuantityRequiresCustomUnit s)
       else case standard_quantity s of
           Some expected \<Rightarrow>
             if expected \<noteq> q then Err (QuantityMismatch s expected q)
             else Ok \<lparr>unit_text = s, unit_quantity = q\<rparr>
         | None \<Rightarrow>
             if \<not> is_custom_unit then Err (UnknownStandardUnit s)
             else Ok \<lparr>unit_text = s, unit_quantity = q\<rparr>)"

subsection \<open>Facts about units\<close>

lemma standard_units_all:
  "list_all (\<lambda>(s, q). \<not> is_custom q \<and> take 7 s \<noteq> ''custom.'') standard_units"
  by (simp add: standard_units_def is_custom_def)

lemma standard_units_not_custom:
  "standard_quantity s = Some q \<Longrightarrow> \<not> is_custom q \<and> take 7 s \<noteq> ''custom.''"
  using standard_units_all by (auto simp: standard_quantity_def list_all_iff dest!: map_of_SomeD)

lemma unit_id_new_Ok_iff:
  "unit_id_new q s = Ok u \<longleftrightarrow>
     validate_unit_id s = Ok () \<and> u = \<lparr>unit_text = s, unit_quantity = q\<rparr> \<and>
     (standard_quantity s = Some q \<or>
      (standard_quantity s = None \<and> take 7 s = ''custom.'' \<and> is_custom q))"
  by (auto simp: unit_id_new_def and_then_Ok_iff Let_def dest: standard_units_not_custom
      split: option.splits if_splits)

end
