(* ===== verification/Codec.thy ===== *)
theory Codec
  imports Values
begin

unbundle bit_operations_syntax

text \<open>
  \<open>lantern-domain/src/codec.rs\<close>: the register codec. A codec is an encoding, a byte order, a
  word order and an optional fixed-point scale. \<open>words_to_bits\<close> and \<open>bits_to_words\<close> move
  between 16-bit registers and a 64-bit pattern; \<open>decode\<close> and \<open>encode\<close> move between
  registers and engineering values, through binary coded decimal or a fixed-point scale where the
  encoding asks for one. \<open>i64\<close> and \<open>i128\<close> values are integers; the encodings bound them.
\<close>

datatype (plugins only: code size) register_encoding =
    Unsigned16 | Signed16 | Unsigned32 | Signed32 | Unsigned64 | Signed64
  | Float32 | Float64 | Bcd16 | Bcd32 | Enum16 | Enum32
  | Bitfield16 | Bitfield32 | Bitfield64

fun register_width :: "register_encoding \<Rightarrow> nat" where
  "register_width Unsigned16 = 1"
| "register_width Signed16 = 1"
| "register_width Bcd16 = 1"
| "register_width Enum16 = 1"
| "register_width Bitfield16 = 1"
| "register_width Unsigned32 = 2"
| "register_width Signed32 = 2"
| "register_width Float32 = 2"
| "register_width Bcd32 = 2"
| "register_width Enum32 = 2"
| "register_width Bitfield32 = 2"
| "register_width Unsigned64 = 4"
| "register_width Signed64 = 4"
| "register_width Float64 = 4"
| "register_width Bitfield64 = 4"

record 'd register_codec =
  rc_encoding :: register_encoding
  rc_byte_order :: byte_order
  rc_word_order :: word_order
  rc_fixed_scale :: "'d fixed_scale option"

datatype (plugins only: code size) codec_error =
    UnexpectedScale register_encoding
  | RegisterWidth nat nat
  | ValueKindMismatch register_encoding
  | OutOfRange
  | InvalidBcdDigit nat u8
  | ScaleFailure scale_error

definition supports_scale :: "register_encoding \<Rightarrow> bool" where
  "supports_scale e \<longleftrightarrow>
     e \<in> {Unsigned16, Signed16, Unsigned32, Signed32, Unsigned64, Signed64, Bcd16, Bcd32}"

definition register_codec_new ::
  "register_encoding \<Rightarrow> byte_order \<Rightarrow> word_order \<Rightarrow> 'd fixed_scale option
     \<Rightarrow> codec_error + 'd register_codec" where
  "register_codec_new encoding byte_order word_order fixed_scale =
     (if fixed_scale \<noteq> None \<and> \<not> supports_scale encoding then Err (UnexpectedScale encoding)
      else Ok \<lparr>rc_encoding = encoding, rc_byte_order = byte_order, rc_word_order = word_order,
               rc_fixed_scale = fixed_scale\<rparr>)"

subsection \<open>Words and bits\<close>

definition swap_bytes :: "u16 \<Rightarrow> u16" where
  "swap_bytes w = push_bit 8 w OR drop_bit 8 w"

definition to_be_bytes :: "u16 \<Rightarrow> u8 \<times> u8" where
  "to_be_bytes w = (ucast (drop_bit 8 w), ucast w)"

definition to_le_bytes :: "u16 \<Rightarrow> u8 \<times> u8" where
  "to_le_bytes w = (ucast w, ucast (drop_bit 8 w))"

definition shift_in_word :: "byte_order \<Rightarrow> u64 \<Rightarrow> u16 \<Rightarrow> u64" where
  "shift_in_word order bits word =
     (let bytes = (case order of BigEndian \<Rightarrow> to_be_bytes word | LittleEndian \<Rightarrow> to_le_bytes word);
          bits = push_bit 8 bits OR ucast (fst bytes)
      in push_bit 8 bits OR ucast (snd bytes))"

definition words_to_bits :: "'d register_codec \<Rightarrow> u16 list \<Rightarrow> u64" where
  "words_to_bits c registers =
     foldl (shift_in_word (rc_byte_order c)) 0
       (if rc_word_order c = LeastSignificantFirst then rev registers else registers)"

definition bits_to_words :: "'d register_codec \<Rightarrow> u64 \<Rightarrow> u16 list" where
  "bits_to_words c bits =
     (let width = register_width (rc_encoding c);
          words = map (\<lambda>index.
            let shift = (width - index - 1) * 16;
                canonical = ucast (drop_bit shift bits AND 0xffff)
            in case rc_byte_order c of BigEndian \<Rightarrow> canonical | LittleEndian \<Rightarrow> swap_bytes canonical)
            [0..<width]
      in if rc_word_order c = LeastSignificantFirst then rev words else words)"

subsection \<open>Range checks and binary coded decimal\<close>

definition checked_unsigned :: "int \<Rightarrow> int \<Rightarrow> codec_error + u64" where
  "checked_unsigned raw maximum =
     (if raw < 0 \<or> raw > maximum then Err OutOfRange
      else if raw < 2 ^ 64 then Ok (word_of_int raw) else Err OutOfRange)"

definition checked_signed :: "int \<Rightarrow> int \<Rightarrow> int \<Rightarrow> codec_error + int" where
  "checked_signed raw minimum maximum =
     (if raw < minimum \<or> raw > maximum then Err OutOfRange
      else if - (2 ^ 63) \<le> raw \<and> raw < 2 ^ 63 then Ok raw else Err OutOfRange)"

fun decode_bcd_loop :: "u64 \<Rightarrow> nat \<Rightarrow> u64 \<Rightarrow> codec_error + u64" where
  "decode_bcd_loop bits 0 value = Ok value"
| "decode_bcd_loop bits (Suc index) value =
     (let digit = drop_bit (index * 4) bits AND 0xf
      in if digit > 9 then Err (InvalidBcdDigit index (ucast digit))
         else decode_bcd_loop bits index (value * 10 + digit))"

definition decode_bcd :: "u64 \<Rightarrow> nat \<Rightarrow> codec_error + u64" where
  "decode_bcd bits digits = decode_bcd_loop bits digits 0"

fun encode_bcd_loop :: "nat \<Rightarrow> nat \<Rightarrow> u64 \<Rightarrow> u64 \<Rightarrow> u64 \<times> u64" where
  "encode_bcd_loop 0 index remaining bits = (remaining, bits)"
| "encode_bcd_loop (Suc left) index remaining bits =
     encode_bcd_loop left (Suc index) (remaining div 10)
       (bits OR push_bit (index * 4) (remaining mod 10))"

definition encode_bcd :: "int \<Rightarrow> nat \<Rightarrow> codec_error + u64" where
  "encode_bcd raw digits =
     (if raw < 0 then Err OutOfRange
      else if raw \<ge> 2 ^ 64 then Err OutOfRange
      else let (remaining, bits) = encode_bcd_loop digits 0 (word_of_int raw) 0
           in if remaining \<noteq> 0 then Err OutOfRange else Ok bits)"

subsection \<open>Decoding and encoding\<close>

definition validate_width :: "'d register_codec \<Rightarrow> nat \<Rightarrow> codec_error + unit" where
  "validate_width c actual =
     (let expected = register_width (rc_encoding c)
      in if actual \<noteq> expected then Err (RegisterWidth expected actual) else Ok ())"

definition raw_bits :: "'d register_codec \<Rightarrow> u16 list \<Rightarrow> codec_error + u64" where
  "raw_bits c registers =
     and_then (validate_width c (length registers)) (\<lambda>_. Ok (words_to_bits c registers))"

definition decode_fixed :: "'d decimal_ops \<Rightarrow> 'd register_codec \<Rightarrow> int \<Rightarrow> codec_error + 'd engineering_value" where
  "decode_fixed D c raw =
     and_then
       (case rc_fixed_scale c of
          Some scale \<Rightarrow> map_err ScaleFailure (scale_decode_i128 D scale raw)
        | None \<Rightarrow> Ok (dec_from_i128 D raw))
       (\<lambda>value. Ok (Fixed value))"

definition encode_fixed :: "'d decimal_ops \<Rightarrow> 'd register_codec \<Rightarrow> 'd \<Rightarrow> codec_error + int" where
  "encode_fixed D c value =
     (case rc_fixed_scale c of
        Some scale \<Rightarrow> map_err ScaleFailure (scale_encode_i128 D scale value)
      | None \<Rightarrow> map_err ScaleFailure (scale_encode_i128 D (fixed_scale_identity D) value))"

definition decode ::
  "'d decimal_ops \<Rightarrow> 'd register_codec \<Rightarrow> u16 list \<Rightarrow> codec_error + 'd engineering_value" where
  "decode D c registers =
     and_then (validate_width c (length registers)) (\<lambda>_.
       let bits = words_to_bits c registers in
       case rc_encoding c of
         Unsigned16 \<Rightarrow> decode_fixed D c (uint (ucast bits :: u16))
       | Signed16 \<Rightarrow> decode_fixed D c (sint (ucast bits :: u16))
       | Unsigned32 \<Rightarrow> decode_fixed D c (uint (ucast bits :: u32))
       | Signed32 \<Rightarrow> decode_fixed D c (sint (ucast bits :: u32))
       | Unsigned64 \<Rightarrow> decode_fixed D c (uint bits)
       | Signed64 \<Rightarrow> decode_fixed D c (sint bits)
       | Float32 \<Rightarrow> Ok (Float32Bits (ucast bits))
       | Float64 \<Rightarrow> Ok (Float64Bits bits)
       | Bcd16 \<Rightarrow> and_then (decode_bcd bits 4) (\<lambda>v. decode_fixed D c (uint v))
       | Bcd32 \<Rightarrow> and_then (decode_bcd bits 8) (\<lambda>v. decode_fixed D c (uint v))
       | Enum16 \<Rightarrow> Ok (EnumRaw (uint (ucast bits :: u16)))
       | Enum32 \<Rightarrow> Ok (EnumRaw (uint (ucast bits :: u32)))
       | Bitfield16 \<Rightarrow> Ok (BitfieldRaw (ucast (ucast bits :: u16)))
       | Bitfield32 \<Rightarrow> Ok (BitfieldRaw (ucast (ucast bits :: u32)))
       | Bitfield64 \<Rightarrow> Ok (BitfieldRaw bits))"

definition try_unsigned :: "nat \<Rightarrow> int \<Rightarrow> codec_error + u64" where
  "try_unsigned w raw = (if 0 \<le> raw \<and> raw < 2 ^ w then Ok (word_of_int raw) else Err OutOfRange)"

definition encode_bits ::
  "'d decimal_ops \<Rightarrow> 'd register_codec \<Rightarrow> 'd engineering_value \<Rightarrow> codec_error + u64" where
  "encode_bits D c value =
     (case (rc_encoding c, value) of
        (Unsigned16, Fixed v) \<Rightarrow> and_then (encode_fixed D c v) (\<lambda>raw. checked_unsigned raw (2 ^ 16 - 1))
      | (Signed16, Fixed v) \<Rightarrow>
          and_then (encode_fixed D c v) (\<lambda>raw.
          and_then (checked_signed raw (- (2 ^ 15)) (2 ^ 15 - 1)) (\<lambda>raw.
            Ok (ucast (word_of_int raw :: u16))))
      | (Unsigned32, Fixed v) \<Rightarrow> and_then (encode_fixed D c v) (\<lambda>raw. checked_unsigned raw (2 ^ 32 - 1))
      | (Signed32, Fixed v) \<Rightarrow>
          and_then (encode_fixed D c v) (\<lambda>raw.
          and_then (checked_signed raw (- (2 ^ 31)) (2 ^ 31 - 1)) (\<lambda>raw.
            Ok (ucast (word_of_int raw :: u32))))
      | (Unsigned64, Fixed v) \<Rightarrow> and_then (encode_fixed D c v) (\<lambda>raw. checked_unsigned raw (2 ^ 64 - 1))
      | (Signed64, Fixed v) \<Rightarrow>
          and_then (encode_fixed D c v) (\<lambda>raw.
          and_then (checked_signed raw (- (2 ^ 63)) (2 ^ 63 - 1)) (\<lambda>raw. Ok (word_of_int raw)))
      | (Float32, Float32Bits bits) \<Rightarrow> Ok (ucast bits)
      | (Float64, Float64Bits bits) \<Rightarrow> Ok bits
      | (Bcd16, Fixed v) \<Rightarrow> and_then (encode_fixed D c v) (\<lambda>raw. encode_bcd raw 4)
      | (Bcd32, Fixed v) \<Rightarrow> and_then (encode_fixed D c v) (\<lambda>raw. encode_bcd raw 8)
      | (Enum16, EnumRaw raw) \<Rightarrow> try_unsigned 16 raw
      | (Enum32, EnumRaw raw) \<Rightarrow> try_unsigned 32 raw
      | (Bitfield16, BitfieldRaw raw) \<Rightarrow> try_unsigned 16 (uint raw)
      | (Bitfield32, BitfieldRaw raw) \<Rightarrow> try_unsigned 32 (uint raw)
      | (Bitfield64, BitfieldRaw raw) \<Rightarrow> Ok raw
      | _ \<Rightarrow> Err (ValueKindMismatch (rc_encoding c)))"

definition encode ::
  "'d decimal_ops \<Rightarrow> 'd register_codec \<Rightarrow> 'd engineering_value \<Rightarrow> codec_error + u16 list" where
  "encode D c value = and_then (encode_bits D c value) (\<lambda>bits. Ok (bits_to_words c bits))"

end
