(* ===== verification/Bus.thy ===== *)
theory Bus
  imports Values
begin

text \<open>
  \<open>lantern-app/src/bus.rs\<close>: the vocabulary of the serial bus. Request classes with their
  priority order and queue capacities, request contexts, read requests with their validation, the
  prepared write that only the write kernel constructs, bus errors and the statistics snapshot.
  The construction privileges of Rust's module system (who may build a context of which class) are
  types, not computations, and are not part of the model.
\<close>

subsection \<open>Request classes\<close>

datatype (plugins only: code size) request_class = SafetyOneShot | Interactive | TelemetryCritical | Telemetry | Background

definition request_class_rank :: "request_class \<Rightarrow> nat" where
  "request_class_rank c =
     (case c of SafetyOneShot \<Rightarrow> 0 | Interactive \<Rightarrow> 1 | TelemetryCritical \<Rightarrow> 2 | Telemetry \<Rightarrow> 3
      | Background \<Rightarrow> 4)"

lemma request_class_rank_inj: "request_class_rank a = request_class_rank b \<longleftrightarrow> a = b"
  by (cases a; cases b) (simp_all add: request_class_rank_def)

instantiation request_class :: linorder
begin

definition less_eq_request_class :: "request_class \<Rightarrow> request_class \<Rightarrow> bool" where
  "less_eq_request_class a b \<longleftrightarrow> request_class_rank a \<le> request_class_rank b"

definition less_request_class :: "request_class \<Rightarrow> request_class \<Rightarrow> bool" where
  "less_request_class a b \<longleftrightarrow> request_class_rank a < request_class_rank b"

instance
  by standard
    (auto simp: less_eq_request_class_def less_request_class_def request_class_rank_inj)

end

definition capacity :: "request_class \<Rightarrow> nat" where
  "capacity c =
     (case c of SafetyOneShot \<Rightarrow> 16 | Interactive \<Rightarrow> 64 | TelemetryCritical \<Rightarrow> 64 | Telemetry \<Rightarrow> 256
      | Background \<Rightarrow> 32)"

definition is_periodic_allowed :: "request_class \<Rightarrow> bool" where
  "is_periodic_allowed c \<longleftrightarrow> c \<noteq> SafetyOneShot"

subsection \<open>Errors\<close>

datatype (plugins only: code size) bus_error =
    InvalidRequest string
  | BusPortRemoved
  | PermissionDenied
  | PortBusy
  | BusIo string
  | TimeoutBeforeSend
  | ResponseTimeout
  | InvalidFrameOrTransport
  | BusProtocolException u8
  | InvalidResponse
  | BusCancelled
  | QueueFull
  | BusOutcomeUnknown
  | BusShutdown

definition is_transient_read_error :: "bus_error \<Rightarrow> bool" where
  "is_transient_read_error e \<longleftrightarrow>
     (case e of BusIo _ \<Rightarrow> True | ResponseTimeout \<Rightarrow> True | InvalidFrameOrTransport \<Rightarrow> True | _ \<Rightarrow> False)"

subsection \<open>Contexts and requests\<close>

record bus_request_context =
  brc_request_id :: request_id
  brc_session_id :: session_id
  brc_class :: request_class
  brc_deadline :: instant
  brc_operation_id :: "operation_id option"

definition bus_request_context_new ::
  "request_id \<Rightarrow> session_id \<Rightarrow> request_class \<Rightarrow> instant \<Rightarrow> operation_id option \<Rightarrow> bus_request_context" where
  "bus_request_context_new request_id session_id class deadline operation_id =
     \<lparr>brc_request_id = request_id, brc_session_id = session_id, brc_class = class,
      brc_deadline = deadline, brc_operation_id = operation_id\<rparr>"

definition interactive_context ::
  "request_id \<Rightarrow> session_id \<Rightarrow> instant \<Rightarrow> operation_id option \<Rightarrow> bus_request_context" where
  "interactive_context request_id session_id deadline operation_id =
     bus_request_context_new request_id session_id Interactive deadline operation_id"

definition background_context ::
  "request_id \<Rightarrow> session_id \<Rightarrow> instant \<Rightarrow> operation_id option \<Rightarrow> bus_request_context" where
  "background_context request_id session_id deadline operation_id =
     bus_request_context_new request_id session_id Background deadline operation_id"

definition periodic_context ::
  "request_id \<Rightarrow> session_id \<Rightarrow> request_class \<Rightarrow> instant \<Rightarrow> bus_error + bus_request_context" where
  "periodic_context request_id session_id class deadline =
     (if \<not> is_periodic_allowed class \<or> class = Interactive
      then Err (InvalidRequest ''periodic context requires an application polling class'')
      else Ok (bus_request_context_new request_id session_id class deadline None))"

definition safety_one_shot ::
  "request_id \<Rightarrow> session_id \<Rightarrow> instant \<Rightarrow> operation_id option \<Rightarrow> bus_request_context" where
  "safety_one_shot request_id session_id deadline operation_id =
     bus_request_context_new request_id session_id SafetyOneShot deadline operation_id"

record read_bus_request =
  rbr_context :: bus_request_context
  rbr_slave :: slave_id
  rbr_function :: modbus_function
  rbr_block :: register_block
  rbr_periodic :: bool

definition read_request_validate :: "read_bus_request \<Rightarrow> bus_error + unit" where
  "read_request_validate r =
     (if is_write (rbr_function r) then Err (InvalidRequest ''read request uses a write function'')
      else if rbr_periodic r \<and> \<not> is_periodic_allowed (brc_class (rbr_context r))
      then Err (InvalidRequest ''periodic request cannot use SafetyOneShot'')
      else map_err (\<lambda>_. InvalidRequest ''invalid Modbus read block'')
             (and_then (validate_table (rbr_function r) (rb_table (rbr_block r)))
               (\<lambda>_. validate_count (rbr_function r) (rb_count (rbr_block r)))))"

definition read_request_one_shot ::
  "bus_request_context \<Rightarrow> slave_id \<Rightarrow> modbus_function \<Rightarrow> register_block \<Rightarrow> bus_error + read_bus_request" where
  "read_request_one_shot context slave function block =
     (let request = \<lparr>rbr_context = context, rbr_slave = slave, rbr_function = function,
                     rbr_block = block, rbr_periodic = False\<rparr>
      in and_then (read_request_validate request) (\<lambda>_. Ok request))"

definition read_request_periodic ::
  "bus_request_context \<Rightarrow> slave_id \<Rightarrow> modbus_function \<Rightarrow> register_block \<Rightarrow> bus_error + read_bus_request" where
  "read_request_periodic context slave function block =
     (let request = \<lparr>rbr_context = context, rbr_slave = slave, rbr_function = function,
                     rbr_block = block, rbr_periodic = True\<rparr>
      in and_then (read_request_validate request) (\<lambda>_. Ok request))"

record prepared_bus_write =
  pbw_context :: bus_request_context
  pbw_slave :: slave_id
  pbw_function :: modbus_function
  pbw_block :: register_block
  pbw_values :: raw_registers

definition from_write_authority ::
  "bus_request_context \<Rightarrow> slave_id \<Rightarrow> modbus_function \<Rightarrow> register_block \<Rightarrow> raw_registers
     \<Rightarrow> bus_error + prepared_bus_write" where
  "from_write_authority context slave function block values =
     (if \<not> is_write function then Err (InvalidRequest ''write capability uses a read function'')
      else and_then
        (map_err (\<lambda>_. InvalidRequest ''invalid Modbus write block'')
          (and_then (validate_table function (rb_table block))
            (\<lambda>_. validate_count function (rb_count block))))
        (\<lambda>_. if unat (rb_count block) \<noteq> length values
             then Err (InvalidRequest ''write value width does not match block'')
             else Ok \<lparr>pbw_context = context, pbw_slave = slave, pbw_function = function,
                      pbw_block = block, pbw_values = values\<rparr>))"

record bus_statistics_snapshot =
  bss_reads_started :: u64
  bss_writes_started :: u64
  bss_class_started :: "u64 list"
  bss_function_started :: "u64 list"
  bss_successful_transactions :: u64
  bss_failed_transactions :: u64
  bss_read_retries :: u64
  bss_write_retries :: u64
  bss_timeout_before_send :: u64
  bss_queue_full :: u64
  bss_safety_bursts :: u64
  bss_t35_delay :: duration
  bss_busy_time :: duration
  bss_utilization_ppm :: u32
  bss_queue_depths :: "nat list"
  bss_queue_wait_p50_micros :: "u64 option"
  bss_queue_wait_p95_micros :: "u64 option"
  bss_queue_wait_p99_micros :: "u64 option"
  bss_round_trip_p50_micros :: "u64 option"
  bss_round_trip_p95_micros :: "u64 option"
  bss_round_trip_p99_micros :: "u64 option"
  bss_last_error :: "bus_error option"

subsection \<open>What an accepted request satisfies\<close>

lemma read_request_validate_Ok_iff:
  "read_request_validate r = Ok () \<longleftrightarrow>
     \<not> is_write (rbr_function r) \<and>
     (rbr_periodic r \<longrightarrow> brc_class (rbr_context r) \<noteq> SafetyOneShot) \<and>
     (rbr_function r = ReadInputRegisters \<longleftrightarrow> rb_table (rbr_block r) = InputRegisters) \<and>
     unat (rb_count (rbr_block r)) \<le> 125"
  by (cases "rbr_function r")
    (auto simp: read_request_validate_def is_periodic_allowed_def is_write_def and_then_Ok_iff
      validate_table_Ok_iff validate_count_Ok_iff word_le_nat_alt)

lemma read_request_one_shot_Ok_iff:
  "read_request_one_shot ctx slave f b = Ok r \<longleftrightarrow>
     r = \<lparr>rbr_context = ctx, rbr_slave = slave, rbr_function = f, rbr_block = b, rbr_periodic = False\<rparr> \<and>
     read_request_validate r = Ok ()"
  by (auto simp: read_request_one_shot_def Let_def and_then_Ok_iff)

lemma from_write_authority_OkD:
  assumes "from_write_authority ctx slave f b vs = Ok w"
  shows "w = \<lparr>pbw_context = ctx, pbw_slave = slave, pbw_function = f, pbw_block = b, pbw_values = vs\<rparr>"
    and "is_write f" and "rb_table b = HoldingRegisters"
    and "length vs = unat (rb_count b)" and "unat (rb_count b) \<le> 123"
  using assms
  by (auto simp: from_write_authority_def and_then_Ok_iff is_write_def validate_table_Ok_iff
      validate_count_Ok_iff split: if_splits modbus_function.splits modbus_table.splits)
     (cases "rb_table b"; simp)+

end
