(* ===== verification/Records.thy ===== *)
theory Records
  imports Bus
begin

text \<open>
  The records that cross component boundaries: the write lifecycle's outcomes, audit records and
  single-use tokens (\<open>lantern-domain/src/write.rs\<close>), telemetry samples and gaps
  (\<open>telemetry.rs\<close>), backup snapshots and differences (\<open>backup.rs\<close>), fault transitions
  and freeze frames (\<open>fault.rs\<close>), and the errors and snapshots of the application's ports
  (\<open>lantern-app/src/ports.rs\<close>).
\<close>

subsection \<open>Guarded writes\<close>

record 'd write_intent =
  wi_session_id :: session_id
  wi_fingerprint :: device_fingerprint
  wi_profile_hash :: string
  wi_parameter_id :: parameter_id
  wi_previous_raw :: raw_registers
  wi_previous_engineering :: "'d engineering_value"
  wi_previous_observed_at :: monotonic_instant
  wi_requested_engineering :: "'d engineering_value"
  wi_preview_raw :: "raw_registers option"
  wi_created_at :: monotonic_instant

datatype (plugins only: code size) decision_outcome =
    DecisionExpired | DecisionCancelled | RejectedByPolicy | ProfileNotTrusted
  | PreconditionChanged | DecisionAuditUnavailable

datatype (plugins only: code size) device_write_outcome =
    Verified | DeviceRejected | ReadBackMismatch | OutcomeUnknown | TransportLost | AuditDegraded

datatype write_outcome = NotExecuted decision_outcome | Executed device_write_outcome

datatype (plugins only: code size) read_back_outcome = RbVerified | RbMismatch | RbTimedOut | RbUnavailable

datatype (plugins only: code size) read_back_evidence =
    EvNotAttempted
  | EvVerified u8 raw_registers
  | EvMismatch u8 raw_registers
  | EvUnavailable u8 string

record decision_audit_record =
  dar_plan_id :: plan_id
  dar_session_id :: session_id
  dar_fingerprint :: device_fingerprint
  dar_profile_hash :: string
  dar_parameter_id :: parameter_id
  dar_context_hash :: "string option"
  dar_decision :: decision_outcome
  dar_at :: monotonic_instant

record 'd device_write_preparation =
  dwp_plan_id :: plan_id
  dwp_operation_id :: operation_id
  dwp_request_id :: request_id
  dwp_session_id :: session_id
  dwp_fingerprint :: device_fingerprint
  dwp_profile_hash :: string
  dwp_parameter_id :: parameter_id
  dwp_context_hash :: string
  dwp_old_raw :: raw_registers
  dwp_old_engineering :: "'d engineering_value"
  dwp_target_raw :: raw_registers
  dwp_target_engineering :: "'d engineering_value"
  dwp_write_function :: modbus_function

record prepared_token =
  pt_token_id :: u128
  pt_plan_id :: plan_id
  pt_request_id :: request_id
  pt_context_hash :: string

definition for_preparation :: "u128 \<Rightarrow> 'd device_write_preparation \<Rightarrow> prepared_token" where
  "for_preparation token_id p =
     \<lparr>pt_token_id = token_id, pt_plan_id = dwp_plan_id p, pt_request_id = dwp_request_id p,
      pt_context_hash = dwp_context_hash p\<rparr>"

definition matches_preparation :: "prepared_token \<Rightarrow> 'd device_write_preparation \<Rightarrow> bool" where
  "matches_preparation t p \<longleftrightarrow>
     pt_plan_id t = dwp_plan_id p \<and> pt_request_id t = dwp_request_id p \<and>
     pt_context_hash t = dwp_context_hash p"

record operation_audit_start =
  oas_operation_id :: operation_id
  oas_backup_id :: backup_id
  oas_plan_hash :: string
  oas_session_id :: session_id
  oas_fingerprint :: device_fingerprint
  oas_profile_hash :: string
  oas_at :: monotonic_instant

datatype operation_audit_outcome = OperationCompleted | OperationAborted

record operation_audit_finish =
  oaf_outcome :: operation_audit_outcome
  oaf_final_step_index :: "nat option"
  oaf_summary :: string
  oaf_at :: monotonic_instant

record operation_token =
  ot_token_id :: u128
  ot_operation_id :: operation_id
  ot_backup_id :: backup_id
  ot_plan_hash :: string
  ot_session_id :: session_id
  ot_fingerprint :: device_fingerprint
  ot_profile_hash :: string

definition for_start :: "u128 \<Rightarrow> operation_audit_start \<Rightarrow> operation_token" where
  "for_start token_id s =
     \<lparr>ot_token_id = token_id, ot_operation_id = oas_operation_id s, ot_backup_id = oas_backup_id s,
      ot_plan_hash = oas_plan_hash s, ot_session_id = oas_session_id s,
      ot_fingerprint = oas_fingerprint s, ot_profile_hash = oas_profile_hash s\<rparr>"

definition matches_start :: "operation_token \<Rightarrow> operation_audit_start \<Rightarrow> bool" where
  "matches_start t s \<longleftrightarrow>
     ot_operation_id t = oas_operation_id s \<and> ot_backup_id t = oas_backup_id s \<and>
     ot_plan_hash t = oas_plan_hash s \<and> ot_session_id t = oas_session_id s \<and>
     ot_fingerprint t = oas_fingerprint s \<and> ot_profile_hash t = oas_profile_hash s"

subsection \<open>Telemetry samples and gaps\<close>

record 'd telemetry_sample_core =
  tsc_session_id :: session_id
  tsc_parameter_id :: parameter_id
  tsc_raw :: raw_registers
  tsc_engineering :: "'d engineering_value"
  tsc_quality :: telemetry_quality
  tsc_monotonic_time :: monotonic_instant
  tsc_utc_time :: utc_timestamp
  tsc_request_id :: request_id

record telemetry_gap_core =
  tgc_session_id :: session_id
  tgc_start_utc :: utc_timestamp
  tgc_end_utc :: utc_timestamp
  tgc_start_monotonic :: monotonic_instant
  tgc_end_monotonic :: monotonic_instant
  tgc_dropped_count :: u64

definition gap_from_dropped_sample :: "'d telemetry_sample_core \<Rightarrow> telemetry_gap_core" where
  "gap_from_dropped_sample s =
     \<lparr>tgc_session_id = tsc_session_id s, tgc_start_utc = tsc_utc_time s, tgc_end_utc = tsc_utc_time s,
      tgc_start_monotonic = tsc_monotonic_time s, tgc_end_monotonic = tsc_monotonic_time s,
      tgc_dropped_count = 1\<rparr>"

definition extend_with_dropped_sample ::
  "telemetry_gap_core \<Rightarrow> 'd telemetry_sample_core \<Rightarrow> telemetry_gap_core" where
  "extend_with_dropped_sample g s =
     g\<lparr>tgc_end_utc := tsc_utc_time s, tgc_end_monotonic := tsc_monotonic_time s,
       tgc_dropped_count := sat_inc (tgc_dropped_count g)\<rparr>"

datatype 'd csv_telemetry_item =
    CsvSample "'d telemetry_sample_core" | CsvGap telemetry_gap_core

subsection \<open>Backups\<close>

datatype backup_completeness = BackupComplete | BackupIncomplete

record backup_read_error =
  bre_parameter_id :: parameter_id
  bre_reason :: string

record 'd backup_parameter_value =
  bpv_code :: string
  bpv_raw :: raw_registers
  bpv_engineering :: "'d engineering_value"
  bpv_quantity :: string
  bpv_unit :: string
  bpv_quality :: telemetry_quality
  bpv_observed_at :: monotonic_instant
  bpv_access :: parameter_access
  bpv_restore_policy :: restore_policy

record 'd backup_snapshot =
  bs_app_version :: string
  bs_build_id :: string
  bs_backup_id :: backup_id
  bs_started_at :: utc_timestamp
  bs_finished_at :: utc_timestamp
  bs_profile_id :: profile_id
  bs_profile_revision :: u32
  bs_profile_origin :: string
  bs_source_hash :: string
  bs_profile_hash :: string
  bs_device_fingerprint :: device_fingerprint
  bs_vendor :: string
  bs_model :: string
  bs_slave_id :: u8
  bs_adapter :: string
  bs_link_settings :: string
  bs_drive_state :: drive_state
  bs_completeness :: backup_completeness
  bs_values :: "(parameter_id, 'd backup_parameter_value) btree_map"
  bs_errors :: "backup_read_error list"

definition is_complete :: "'d backup_snapshot \<Rightarrow> bool" where
  "is_complete s \<longleftrightarrow> bs_completeness s = BackupComplete"

datatype (plugins only: code size) backup_diff_status =
    Unchanged | Changed | OnlyLeft | OnlyRight | Unreadable | Incompatible | NotRestorable

datatype (plugins only: code size) restore_eligibility_kind =
    Eligible | ElReadOnly | ElCommissioning | ElDangerous | ElLinkCritical | ElRestartRequired
  | ElManualOnly | MissingReadBackPolicy | MissingWriteFunction | GuardNotStopped

record 'd backup_difference =
  bd_parameter_id :: parameter_id
  bd_status :: backup_diff_status
  bd_eligibility :: restore_eligibility_kind
  bd_left :: "'d backup_parameter_value option"
  bd_right :: "'d backup_parameter_value option"

subsection \<open>Application ports\<close>

type_synonym path = string

record adapter_identity =
  ai_stable_id :: "path option"
  ai_canonical_device :: path
  ai_vendor_id :: "u16 option"
  ai_product_id :: "u16 option"
  ai_serial_number :: "string option"

datatype audit_error = AuditErrUnavailable | AuditErrPersistence string
datatype profile_trust_error = TrustUnavailable | TrustHashMismatch string
datatype session_control_error = ScPreconditionChanged | ScOther string

record write_session_snapshot =
  wss_session_id :: session_id
  wss_fingerprint :: device_fingerprint
  wss_profile_hash :: string
  wss_connected :: bool
  wss_armed :: bool
  wss_audit_healthy :: bool
  wss_operation_idle :: bool
  wss_drive_state :: drive_state
  wss_guard_revision :: u64
  wss_slave_id :: slave_id

subsection \<open>Token binding\<close>

lemma token_for_own_preparation [simp]: "matches_preparation (for_preparation i p) p"
  by (simp add: matches_preparation_def for_preparation_def)

lemma token_for_own_start [simp]: "matches_start (for_start i s) s"
  by (simp add: matches_start_def for_start_def)

end
