(* ===== verification/Profile.thy ===== *)
theory Profile
  imports Codec Records
begin

text \<open>
  \<open>lantern-profile/src/validate/mod.rs\<close>: the validated device profile, the read-only view of
  a device that every other component works from: its parameters (address block, codec, limits,
  access class, read-back policy), the serial protocol limits, the identification probes, the
  sources of the drive state and of faults, presets and the restore order. The normalized source
  document that the profile keeps for hashing and reporting is not part of the record. Hashes
  (\<open>hash.rs\<close>) are their 32 bytes.
\<close>

type_synonym hash_bytes = "u8 list"

datatype (plugins only: code size) 'd read_back_policy =
    ExactRaw
  | AcceptedRawSet "raw_registers list"
  | FloatExactBits
  | FloatAbsRelTolerance 'd 'd

record 'd validated_parameter =
  vp_id :: parameter_id
  vp_code :: string
  vp_name :: string
  vp_description :: string
  vp_source_address_notation :: string
  vp_source_address_value :: u32
  vp_block :: register_block
  vp_codec :: "'d register_codec"
  vp_enum_values :: "(int, string) btree_map"
  vp_bit_flags :: "(u8, string) btree_map"
  vp_quantity :: quantity_kind
  vp_unit :: unit_id
  vp_access :: parameter_access
  vp_restore_policy :: restore_policy
  vp_required_drive_state :: required_drive_state
  vp_write_function :: "modbus_function option"
  vp_read_back :: "'d read_back_policy"
  vp_minimum :: "'d option"
  vp_maximum :: "'d option"
  vp_step :: "'d option"
  vp_forbidden_raw :: "raw_registers list"
  vp_backup :: bool
  vp_do_not_bridge :: bool
  vp_maximum_bridge_gap :: u16

record validated_protocol =
  vpr_default_link :: link_settings
  vpr_allowed_baud_rates :: "u32 list"
  vpr_allowed_parities :: "parity list"
  vpr_allowed_data_bits :: "data_bits list"
  vpr_allowed_stop_bits :: "stop_bits list"
  vpr_minimum_inter_frame_delay :: duration

record validated_probe =
  vpb_id :: string
  vpb_description :: string
  vpb_block :: register_block
  vpb_expected_raw :: "raw_registers list"

record validated_parameter_group =
  vpg_id :: string
  vpg_name :: string
  vpg_parameters :: "parameter_id list"

datatype fault_source_kind = ScalarCode | BitSet

record validated_drive_state_source =
  dss_parameter_id :: parameter_id
  dss_stopped_raw :: "raw_registers list"
  dss_running_raw :: "raw_registers list"
  dss_faulted_raw :: "raw_registers list"

definition classify :: "validated_drive_state_source \<Rightarrow> raw_registers \<Rightarrow> drive_state" where
  "classify s raw =
     (if raw \<in> set (dss_stopped_raw s) then Stopped
      else if raw \<in> set (dss_running_raw s) then Running
      else if raw \<in> set (dss_faulted_raw s) then Faulted
      else UnknownState)"

record validated_fault_source =
  vfs_kind :: fault_source_kind
  vfs_parameter_id :: parameter_id
  vfs_no_fault :: u64

datatype (plugins only: code size) fault_severity = SevInfo | SevWarning | SevFault | SevCritical

record validated_fault_definition =
  vfd_raw :: u64
  vfd_code :: string
  vfd_name :: string
  vfd_description :: string
  vfd_severity :: fault_severity
  vfd_freeze_frame :: "parameter_id list"

record validated_telemetry_preset =
  vtp_id :: string
  vtp_name :: string
  vtp_parameters :: "parameter_id list"

record 'd validated_device_profile =
  vdp_profile_id :: profile_id
  vdp_revision :: u32
  vdp_vendor :: string
  vdp_family :: string
  vdp_model :: string
  vdp_source_hash :: hash_bytes
  vdp_profile_hash :: hash_bytes
  vdp_protocol :: validated_protocol
  vdp_probes :: "validated_probe list"
  vdp_parameters :: "(parameter_id, 'd validated_parameter) btree_map"
  vdp_aliases :: "(string, parameter_id) btree_map"
  vdp_groups :: "validated_parameter_group list"
  vdp_drive_state_source :: "validated_drive_state_source option"
  vdp_fault_source :: "validated_fault_source option"
  vdp_faults :: "(u64, validated_fault_definition) btree_map"
  vdp_presets :: "validated_telemetry_preset list"
  vdp_restore_order :: "parameter_id list"

definition profile_parameter :: "'d validated_device_profile \<Rightarrow> parameter_id \<Rightarrow> 'd validated_parameter option" where
  "profile_parameter p i = bt_get (vdp_parameters p) i"

definition read_function_of :: "'d validated_parameter \<Rightarrow> modbus_function" where
  "read_function_of p =
     (case rb_table (vp_block p) of
        HoldingRegisters \<Rightarrow> ReadHoldingRegisters
      | InputRegisters \<Rightarrow> ReadInputRegisters)"

lemma classify_Stopped_iff: "classify s raw = Stopped \<longleftrightarrow> raw \<in> set (dss_stopped_raw s)"
  by (simp add: classify_def)

lemma read_function_not_write [simp]: "\<not> is_write (read_function_of p)"
  by (simp add: read_function_of_def is_write_def split: modbus_table.splits)

end
