(* ===== verification/Session.thy ===== *)
theory Session
  imports Profile
begin

text \<open>
  \<open>lantern-app/src/session.rs\<close>: the session state machine. A session is disconnected,
  connecting, identifying, active or shutting down; an active session carries its connectivity,
  its write authorization, the health of the durable audit and the operation in progress.
  \<open>reduce\<close> consumes one input and yields the next state and the effects to run.
  \<open>next_retry_at\<close> is the exact sum of the instant and the delay (the code's sum panics only
  beyond the range of \<open>Instant\<close>).
\<close>

subsection \<open>State\<close>

record verified_session_identity =
  vsi_device :: verified_device_identity
  vsi_profile_hash :: hash_bytes

datatype (plugins only: code size) session_fault =
    FaultTransport bus_error | FaultPortRemoved | FaultIdentityChanged | FaultIdentificationFailed

datatype (plugins only: code size) connectivity =
    Connected
  | Reconnecting (rc_attempt: u32) (rc_next_retry_at: instant) (rc_last_error: session_fault)
      (rc_open_in_progress: bool)
  | ConnFaulted session_fault

datatype (plugins only: code size) disarm_reason =
    InitialDisarm | UserDisarm | TransportLostDisarm | ReconnectedDisarm | AuditDegradedDisarm
  | OperationFinishedDisarm | ArmingExpiredDisarm | IdleExpiredDisarm | OutcomeUnknownDisarm

datatype (plugins only: code size) authorization =
    ProcessDisabled
  | Disarmed disarm_reason
  | Arming string instant
  | Armed instant

datatype audit_health = Healthy | Degraded string instant

datatype (plugins only: code size) operation_state =
    Idle
  | SingleWrite operation_id plan_id
  | RestoreOp operation_id string nat

record active_session =
  as_session_id :: session_id
  as_identity :: verified_session_identity
  as_port_identity :: adapter_identity
  as_connectivity :: connectivity
  as_authorization :: authorization
  as_audit_health :: audit_health
  as_operation :: operation_state

datatype (plugins only: code size) session_state =
    DisconnectedState "identification_report option"
  | Connecting u32
  | Identifying adapter_identity
  | Active active_session
  | ShuttingDown

datatype (plugins only: code size) session_input =
    Connect
  | CancelConnect
  | PortOpened adapter_identity
  | PortOpenFailed session_fault
  | IdentificationFinished identification_report "verified_session_identity option" session_id
  | Disconnect
  | TransportLostInput session_fault instant
  | PortRemovedInput instant
  | ReconnectTimerElapsed instant
  | ReconnectPortOpened adapter_identity
  | ReconnectFailed session_fault instant
  | ReconnectIdentificationFinished identification_report "verified_session_identity option"
      adapter_identity
  | RetryNow
  | ArmWrites string instant
  | ConfirmArming string instant instant
  | CancelArming
  | DisarmWrites
  | ArmingExpired
  | IdleDisarmElapsed
  | WriteConfirmed operation_id plan_id
  | WriteFinished write_outcome instant
  | RestoreStarted operation_id string
  | RestoreAdvanced nat
  | RestoreFinished
  | RestoreAborted
  | AuditPersistenceFailed string instant
  | Shutdown
  | ShutdownComplete

datatype (plugins only: code size) session_effect =
    OpenPort | ClosePort | StartIdentification | StartReconnectIdentification
  | ScheduleReconnect instant | CancelReconnect | AbortOperation | StopPlanner | FinalizeStorage
  | ShutdownBusActor | FinalizeLogs | RestoreTerminal

record session_transition =
  st_state :: session_state
  st_effects :: "session_effect list"

record session_state_machine =
  ssm_state :: session_state
  ssm_process_writes_enabled :: bool

definition session_new :: "bool \<Rightarrow> session_state_machine" where
  "session_new enabled =
     \<lparr>ssm_state = DisconnectedState None, ssm_process_writes_enabled = enabled\<rparr>"

definition session_id_of :: "session_state_machine \<Rightarrow> session_id option" where
  "session_id_of m = (case ssm_state m of Active a \<Rightarrow> Some (as_session_id a) | _ \<Rightarrow> None)"

subsection \<open>Helpers\<close>

definition RECONNECT_DELAYS :: "duration list" where
  "RECONNECT_DELAYS =
     [from_millis 250, from_millis 500, from_secs 1, from_secs 2, from_secs 4, from_secs 8]"

definition reconnect_delay :: "u32 \<Rightarrow> duration" where
  "reconnect_delay attempt = RECONNECT_DELAYS ! min (unat attempt) (length RECONNECT_DELAYS - 1)"

definition transition :: "session_state \<Rightarrow> session_effect list \<Rightarrow> session_transition" where
  "transition s es = \<lparr>st_state = s, st_effects = es\<rparr>"

definition disconnected ::
  "identification_report option \<Rightarrow> session_effect list \<Rightarrow> session_transition" where
  "disconnected report es = transition (DisconnectedState report) es"

definition disconnect_effects :: "bool \<Rightarrow> session_effect list" where
  "disconnect_effects operation_active =
     (if operation_active then [AbortOperation] else []) @ [CancelReconnect, StopPlanner, ClosePort]"

definition disarmed_for_process :: "bool \<Rightarrow> disarm_reason \<Rightarrow> authorization" where
  "disarmed_for_process enabled reason = (if enabled then Disarmed reason else ProcessDisabled)"

definition is_reconnecting :: "connectivity \<Rightarrow> bool" where
  "is_reconnecting c = (case c of Reconnecting _ _ _ _ \<Rightarrow> True | _ \<Rightarrow> False)"

definition is_disarmed :: "authorization \<Rightarrow> bool" where
  "is_disarmed z = (case z of Disarmed _ \<Rightarrow> True | _ \<Rightarrow> False)"

definition is_arming :: "authorization \<Rightarrow> bool" where
  "is_arming z = (case z of Arming _ _ \<Rightarrow> True | _ \<Rightarrow> False)"

definition is_armed :: "authorization \<Rightarrow> bool" where
  "is_armed z = (case z of Armed _ \<Rightarrow> True | _ \<Rightarrow> False)"

definition next_attempt :: "connectivity \<Rightarrow> u32" where
  "next_attempt c = (case c of Reconnecting attempt _ _ _ \<Rightarrow> sat_inc attempt | _ \<Rightarrow> 0)"

definition transport_lost :: "active_session \<Rightarrow> session_fault \<Rightarrow> instant \<Rightarrow> session_transition" where
  "transport_lost a cause now =
     (let had_operation = as_operation a \<noteq> Idle;
          attempt = next_attempt (as_connectivity a);
          next_retry_at = now + reconnect_delay attempt;
          a = a\<lparr>as_connectivity := Reconnecting attempt next_retry_at cause False,
                as_authorization :=
                  (case as_authorization a of ProcessDisabled \<Rightarrow> ProcessDisabled
                   | _ \<Rightarrow> Disarmed TransportLostDisarm),
                as_operation := Idle\<rparr>;
          effects = (if had_operation then [AbortOperation, ClosePort] else [ClosePort])
                    @ [ScheduleReconnect next_retry_at]
      in transition (Active a) effects)"

definition reconnect_failed ::
  "active_session \<Rightarrow> session_fault \<Rightarrow> instant \<Rightarrow> bool \<Rightarrow> session_transition" where
  "reconnect_failed a cause now enabled =
     (let attempt = next_attempt (as_connectivity a);
          next_retry_at = now + reconnect_delay attempt
      in transition
           (Active (a\<lparr>as_connectivity := Reconnecting attempt next_retry_at cause False,
                      as_authorization := disarmed_for_process enabled TransportLostDisarm,
                      as_operation := Idle\<rparr>))
           [ClosePort, ScheduleReconnect next_retry_at])"

definition same_identity :: "verified_session_identity \<Rightarrow> verified_session_identity \<Rightarrow> bool" where
  "same_identity l r \<longleftrightarrow>
     vdi_fingerprint (vsi_device l) = vdi_fingerprint (vsi_device r) \<and>
     vdi_profile_id (vsi_device l) = vdi_profile_id (vsi_device r) \<and>
     vsi_profile_hash l = vsi_profile_hash r"

definition can_arm :: "active_session \<Rightarrow> bool" where
  "can_arm a \<longleftrightarrow>
     as_connectivity a = Connected \<and> is_disarmed (as_authorization a) \<and>
     as_audit_health a = Healthy \<and> as_operation a = Idle"

definition operation_allowed :: "active_session \<Rightarrow> bool" where
  "operation_allowed a \<longleftrightarrow>
     as_connectivity a = Connected \<and> is_armed (as_authorization a) \<and>
     as_audit_health a = Healthy \<and> as_operation a = Idle"

subsection \<open>Transitions\<close>

definition identification_finished ::
  "adapter_identity \<Rightarrow> bool \<Rightarrow> identification_report \<Rightarrow> verified_session_identity option \<Rightarrow> session_id
     \<Rightarrow> session_transition" where
  "identification_finished opened_port enabled report verified sid =
     (case (ir_outcome report = Match, verified) of
        (True, Some identity) \<Rightarrow>
          transition
            (Active \<lparr>as_session_id = sid, as_identity = identity, as_port_identity = opened_port,
                     as_connectivity = Connected,
                     as_authorization = (if enabled then Disarmed InitialDisarm else ProcessDisabled),
                     as_audit_health = Healthy, as_operation = Idle\<rparr>) []
      | _ \<Rightarrow> disconnected (Some report) [ClosePort])"

definition reopen :: "active_session \<Rightarrow> connectivity \<Rightarrow> session_transition" where
  "reopen a c =
     (case c of
        Reconnecting attempt next_retry_at last_error _ \<Rightarrow>
          transition (Active (a\<lparr>as_connectivity := Reconnecting attempt next_retry_at last_error True\<rparr>))
            [CancelReconnect, OpenPort]
      | _ \<Rightarrow> transition (Active a) [])"

definition reconnect_timer_elapsed :: "active_session \<Rightarrow> instant \<Rightarrow> session_transition" where
  "reconnect_timer_elapsed a now =
     (case as_connectivity a of
        Reconnecting attempt next_retry_at last_error _ \<Rightarrow>
          if next_retry_at \<le> now then reopen a (as_connectivity a) else transition (Active a) []
      | _ \<Rightarrow> transition (Active a) [])"

definition reconnect_identification_finished ::
  "active_session \<Rightarrow> bool \<Rightarrow> identification_report \<Rightarrow> verified_session_identity option
     \<Rightarrow> adapter_identity \<Rightarrow> session_transition" where
  "reconnect_identification_finished a enabled report verified port_identity =
     (if ir_outcome report = Match \<and>
         (case verified of None \<Rightarrow> False | Some identity \<Rightarrow> same_identity (as_identity a) identity)
      then transition
             (Active (a\<lparr>as_port_identity := port_identity, as_connectivity := Connected,
                        as_authorization := disarmed_for_process enabled ReconnectedDisarm,
                        as_operation := Idle\<rparr>)) []
      else transition
             (Active (a\<lparr>as_connectivity := ConnFaulted FaultIdentityChanged,
                        as_authorization := disarmed_for_process enabled TransportLostDisarm,
                        as_operation := Idle\<rparr>))
             [StopPlanner, ClosePort])"

definition confirm_arming ::
  "active_session \<Rightarrow> string \<Rightarrow> instant \<Rightarrow> instant \<Rightarrow> session_transition" where
  "confirm_arming a challenge now idle_expires_at =
     (case as_authorization a of
        Arming expected expires_at \<Rightarrow>
          if expected = challenge \<and> now \<le> expires_at \<and> as_audit_health a = Healthy \<and>
             as_connectivity a = Connected \<and> as_operation a = Idle
          then transition (Active (a\<lparr>as_authorization := Armed idle_expires_at\<rparr>)) []
          else transition (Active a) []
      | _ \<Rightarrow> transition (Active a) [])"

definition disarm_active :: "active_session \<Rightarrow> bool \<Rightarrow> disarm_reason \<Rightarrow> session_transition" where
  "disarm_active a enabled reason =
     transition (Active (a\<lparr>as_authorization := disarmed_for_process enabled reason\<rparr>)) []"

definition write_finished :: "active_session \<Rightarrow> bool \<Rightarrow> write_outcome \<Rightarrow> instant \<Rightarrow> session_transition" where
  "write_finished a enabled outcome now =
     (let a = a\<lparr>as_operation := Idle\<rparr>
      in if outcome = Executed OutcomeUnknown \<or> outcome = Executed TransportLost
         then transition
                (Active (a\<lparr>as_authorization := disarmed_for_process enabled OutcomeUnknownDisarm\<rparr>)) []
         else if outcome = Executed AuditDegraded \<or> outcome = NotExecuted DecisionAuditUnavailable
         then transition
                (Active (a\<lparr>as_authorization := disarmed_for_process enabled AuditDegradedDisarm,
                           as_audit_health := Degraded ''write audit finalization failed'' now\<rparr>)) []
         else transition (Active a) [])"

definition is_single_write :: "operation_state \<Rightarrow> bool" where
  "is_single_write p = (case p of SingleWrite _ _ \<Rightarrow> True | _ \<Rightarrow> False)"

definition is_restore :: "operation_state \<Rightarrow> bool" where
  "is_restore p = (case p of RestoreOp _ _ _ \<Rightarrow> True | _ \<Rightarrow> False)"

definition restore_advanced :: "active_session \<Rightarrow> nat \<Rightarrow> session_transition" where
  "restore_advanced a next_index =
     (case as_operation a of
        RestoreOp operation_id plan_hash _ \<Rightarrow>
          transition (Active (a\<lparr>as_operation := RestoreOp operation_id plan_hash next_index\<rparr>)) []
      | _ \<Rightarrow> transition (Active a) [])"

definition restore_ended :: "active_session \<Rightarrow> bool \<Rightarrow> session_transition" where
  "restore_ended a enabled =
     transition
       (Active (a\<lparr>as_operation := Idle,
                  as_authorization := disarmed_for_process enabled OperationFinishedDisarm\<rparr>)) []"

definition audit_persistence_failed ::
  "active_session \<Rightarrow> bool \<Rightarrow> string \<Rightarrow> instant \<Rightarrow> session_transition" where
  "audit_persistence_failed a enabled cause now =
     (let had_operation = as_operation a \<noteq> Idle
      in transition
           (Active (a\<lparr>as_audit_health := Degraded cause now,
                      as_authorization := disarmed_for_process enabled AuditDegradedDisarm,
                      as_operation := Idle\<rparr>))
           (if had_operation then [AbortOperation] else []))"

definition shutdown_effects :: "session_effect list" where
  "shutdown_effects =
     [AbortOperation, StopPlanner, FinalizeStorage, ShutdownBusActor, FinalizeLogs, RestoreTerminal]"

text \<open>The arms of \<open>reduce\<close> for a session that is active.\<close>

definition reduce_active :: "active_session \<Rightarrow> bool \<Rightarrow> session_input \<Rightarrow> session_transition" where
  "reduce_active a enabled input =
     (case input of
        Disconnect \<Rightarrow> disconnected None (disconnect_effects (as_operation a \<noteq> Idle))
      | TransportLostInput cause now \<Rightarrow> transport_lost a cause now
      | PortRemovedInput now \<Rightarrow> transport_lost a FaultPortRemoved now
      | ReconnectTimerElapsed now \<Rightarrow> reconnect_timer_elapsed a now
      | RetryNow \<Rightarrow> reopen a (as_connectivity a)
      | ReconnectPortOpened _ \<Rightarrow>
          if is_reconnecting (as_connectivity a)
          then transition (Active a) [StartReconnectIdentification] else transition (Active a) []
      | ReconnectFailed cause now \<Rightarrow>
          if is_reconnecting (as_connectivity a)
          then reconnect_failed a cause now enabled else transition (Active a) []
      | ReconnectIdentificationFinished report verified port_identity \<Rightarrow>
          reconnect_identification_finished a enabled report verified port_identity
      | ArmWrites challenge expires_at \<Rightarrow>
          if can_arm a
          then transition (Active (a\<lparr>as_authorization := Arming challenge expires_at\<rparr>)) []
          else transition (Active a) []
      | ConfirmArming challenge now idle_expires_at \<Rightarrow> confirm_arming a challenge now idle_expires_at
      | CancelArming \<Rightarrow> disarm_active a enabled UserDisarm
      | DisarmWrites \<Rightarrow> disarm_active a enabled UserDisarm
      | ArmingExpired \<Rightarrow> disarm_active a enabled ArmingExpiredDisarm
      | IdleDisarmElapsed \<Rightarrow> disarm_active a enabled IdleExpiredDisarm
      | WriteConfirmed operation_id plan_id \<Rightarrow>
          if operation_allowed a
          then transition (Active (a\<lparr>as_operation := SingleWrite operation_id plan_id\<rparr>)) []
          else transition (Active a) []
      | WriteFinished outcome now \<Rightarrow>
          if is_single_write (as_operation a)
          then write_finished a enabled outcome now else transition (Active a) []
      | RestoreStarted operation_id plan_hash \<Rightarrow>
          if operation_allowed a
          then transition (Active (a\<lparr>as_operation := RestoreOp operation_id plan_hash 0\<rparr>)) []
          else transition (Active a) []
      | RestoreAdvanced next_index \<Rightarrow> restore_advanced a next_index
      | RestoreFinished \<Rightarrow>
          if is_restore (as_operation a) then restore_ended a enabled else transition (Active a) []
      | RestoreAborted \<Rightarrow>
          if is_restore (as_operation a) then restore_ended a enabled else transition (Active a) []
      | AuditPersistenceFailed cause now \<Rightarrow> audit_persistence_failed a enabled cause now
      | Shutdown \<Rightarrow> transition ShuttingDown shutdown_effects
      | _ \<Rightarrow> transition (Active a) [])"

definition reduce :: "session_state \<Rightarrow> bool \<Rightarrow> session_input \<Rightarrow> session_transition" where
  "reduce state enabled input =
     (case state of
        Active a \<Rightarrow> reduce_active a enabled input
      | DisconnectedState report \<Rightarrow>
          (case input of
             Connect \<Rightarrow> transition (Connecting 0) [OpenPort]
           | Shutdown \<Rightarrow> transition ShuttingDown shutdown_effects
           | _ \<Rightarrow> transition state [])
      | Connecting attempt \<Rightarrow>
          (case input of
             PortOpened identity \<Rightarrow> transition (Identifying identity) [StartIdentification]
           | PortOpenFailed _ \<Rightarrow> disconnected None []
           | CancelConnect \<Rightarrow> disconnected None [ClosePort]
           | Shutdown \<Rightarrow> transition ShuttingDown shutdown_effects
           | _ \<Rightarrow> transition state [])
      | Identifying opened_port \<Rightarrow>
          (case input of
             CancelConnect \<Rightarrow> disconnected None [ClosePort]
           | IdentificationFinished report verified sid \<Rightarrow>
               identification_finished opened_port enabled report verified sid
           | Shutdown \<Rightarrow> transition ShuttingDown shutdown_effects
           | _ \<Rightarrow> transition state [])
      | ShuttingDown \<Rightarrow>
          (case input of
             ShutdownComplete \<Rightarrow> disconnected None []
           | _ \<Rightarrow> transition ShuttingDown []))"

definition session_transition_step ::
  "session_state_machine \<Rightarrow> session_input \<Rightarrow> session_state_machine \<times> session_effect list" where
  "session_transition_step m input =
     (let t = reduce (ssm_state m) (ssm_process_writes_enabled m) input
      in (m\<lparr>ssm_state := st_state t\<rparr>, st_effects t))"

subsection \<open>The invariant of an active session\<close>

definition active_inv :: "bool \<Rightarrow> active_session \<Rightarrow> bool" where
  "active_inv enabled a \<longleftrightarrow>
     (as_authorization a = ProcessDisabled \<longleftrightarrow> \<not> enabled) \<and>
     (is_armed (as_authorization a) \<longrightarrow> as_connectivity a = Connected \<and> as_audit_health a = Healthy) \<and>
     (is_arming (as_authorization a) \<longrightarrow>
        as_connectivity a = Connected \<and> as_audit_health a = Healthy \<and> as_operation a = Idle) \<and>
     (as_operation a \<noteq> Idle \<longrightarrow> as_connectivity a = Connected \<and> as_audit_health a = Healthy)"

definition session_inv :: "session_state_machine \<Rightarrow> bool" where
  "session_inv m =
     (case ssm_state m of Active a \<Rightarrow> active_inv (ssm_process_writes_enabled m) a | _ \<Rightarrow> True)"

inductive session_reachable :: "bool \<Rightarrow> session_state_machine \<Rightarrow> bool" for enabled where
  session_start: "session_reachable enabled (session_new enabled)"
| session_next: "session_reachable enabled m \<Longrightarrow>
     session_reachable enabled (fst (session_transition_step m input))"

lemmas active_simps = reduce_active_def transition_def disconnected_def transport_lost_def
  reconnect_failed_def reopen_def reconnect_timer_elapsed_def reconnect_identification_finished_def
  confirm_arming_def disarm_active_def write_finished_def restore_advanced_def restore_ended_def
  audit_persistence_failed_def disarmed_for_process_def Let_def

lemmas kind_defs = is_armed_def is_arming_def is_disarmed_def is_reconnecting_def
  is_single_write_def is_restore_def

lemma kind_simps [simp]:
  "is_armed (Armed t)" "\<not> is_armed (Disarmed r)" "\<not> is_armed ProcessDisabled" "\<not> is_armed (Arming c t)"
  "is_arming (Arming c t)" "\<not> is_arming (Disarmed r)" "\<not> is_arming ProcessDisabled" "\<not> is_arming (Armed t)"
  "is_disarmed (Disarmed r)" "\<not> is_disarmed ProcessDisabled" "\<not> is_disarmed (Armed t)"
  "\<not> is_disarmed (Arming c t)"
  "is_single_write (SingleWrite o' p)" "\<not> is_single_write Idle" "\<not> is_single_write (RestoreOp o' h i)"
  "is_restore (RestoreOp o' h i)" "\<not> is_restore Idle" "\<not> is_restore (SingleWrite o' p)"
  "is_reconnecting (Reconnecting n t f b)" "\<not> is_reconnecting Connected" "\<not> is_reconnecting (ConnFaulted f)"
  by (simp_all add: kind_defs)

lemma kind_iffs:
  "is_armed z \<longleftrightarrow> (\<exists>t. z = Armed t)" "is_arming z \<longleftrightarrow> (\<exists>c t. z = Arming c t)"
  "is_disarmed z \<longleftrightarrow> (\<exists>r. z = Disarmed r)"
  by (cases z; simp)+

lemma connectivity_cases3:
  "is_reconnecting c \<or> c = Connected \<or> (\<exists>f. c = ConnFaulted f)"
  by (cases c) simp_all

lemma active_inv_cases:
  assumes "active_inv enabled a"
  obtains "as_authorization a = ProcessDisabled" "\<not> enabled" "as_operation a = Idle"
  | "as_authorization a = ProcessDisabled" "\<not> enabled"
    "as_connectivity a = Connected" "as_audit_health a = Healthy"
  | r where "as_authorization a = Disarmed r" "enabled" "as_operation a = Idle"
  | r where "as_authorization a = Disarmed r" "enabled"
    "as_connectivity a = Connected" "as_audit_health a = Healthy"
  | c t where "as_authorization a = Arming c t" "enabled"
    "as_connectivity a = Connected" "as_audit_health a = Healthy" "as_operation a = Idle"
  | t where "as_authorization a = Armed t" "enabled"
    "as_connectivity a = Connected" "as_audit_health a = Healthy"
  using assms by (cases "as_authorization a"; auto simp: active_inv_def)

lemma active_inv_intros:
  "as_connectivity a = Connected \<Longrightarrow> as_audit_health a = Healthy \<Longrightarrow>
     (as_authorization a = ProcessDisabled \<longleftrightarrow> \<not> enabled) \<Longrightarrow>
     (is_arming (as_authorization a) \<Longrightarrow> as_operation a = Idle) \<Longrightarrow> active_inv enabled a"
  "(as_authorization a = ProcessDisabled \<longleftrightarrow> \<not> enabled) \<Longrightarrow> \<not> is_armed (as_authorization a) \<Longrightarrow>
     \<not> is_arming (as_authorization a) \<Longrightarrow> as_operation a = Idle \<Longrightarrow> active_inv enabled a"
  by (auto simp: active_inv_def)

lemma active_inv_step:
  assumes inv: "active_inv enabled a" and step: "st_state (reduce_active a enabled input) = Active b"
  shows "active_inv enabled b"
  using inv
proof (cases rule: active_inv_cases)
  case 1
  with step show ?thesis
    by (cases input; auto simp: active_simps active_inv_def can_arm_def operation_allowed_def
        split: connectivity.splits if_splits)
next
  case 2
  with step show ?thesis
    by (cases input; auto simp: active_simps active_inv_def can_arm_def operation_allowed_def
        split: operation_state.splits if_splits)
next
  case (3 r)
  with step show ?thesis
    by (cases input; auto simp: active_simps active_inv_def can_arm_def operation_allowed_def
        split: connectivity.splits if_splits)
next
  case (4 r)
  with step show ?thesis
    by (cases input; auto simp: active_simps active_inv_def can_arm_def operation_allowed_def
        split: operation_state.splits if_splits)
next
  case (5 c t)
  with step show ?thesis
    by (cases input; auto simp: active_simps active_inv_def can_arm_def operation_allowed_def
        split: if_splits)
next
  case (6 t)
  with step show ?thesis
    by (cases input; auto simp: active_simps active_inv_def can_arm_def operation_allowed_def
        split: operation_state.splits if_splits)
qed

lemma reduce_to_Active:
  assumes "st_state (reduce s enabled input) = Active b"
  obtains a where "s = Active a" "st_state (reduce_active a enabled input) = Active b"
  | port report identity sid where "s = Identifying port"
    "input = IdentificationFinished report (Some identity) sid" "ir_outcome report = Match"
    "b = \<lparr>as_session_id = sid, as_identity = identity, as_port_identity = port,
          as_connectivity = Connected,
          as_authorization = (if enabled then Disarmed InitialDisarm else ProcessDisabled),
          as_audit_health = Healthy, as_operation = Idle\<rparr>"
  using assms
  by (cases s; cases input)
    (auto simp: reduce_def transition_def disconnected_def identification_finished_def
      split: option.splits bool.splits)

lemma session_inv_step:
  assumes "session_inv m" shows "session_inv (fst (session_transition_step m input))"
proof (cases "st_state (reduce (ssm_state m) (ssm_process_writes_enabled m) input)")
  case (Active b)
  then have "active_inv (ssm_process_writes_enabled m) b"
  proof (cases rule: reduce_to_Active)
    case (1 a)
    with assms show ?thesis by (auto simp: session_inv_def intro: active_inv_step)
  next
    case (2 port report identity sid)
    then show ?thesis by (simp add: active_inv_def)
  qed
  with Active show ?thesis by (simp add: session_inv_def session_transition_step_def Let_def)
qed (simp_all add: session_inv_def session_transition_step_def Let_def)

lemma session_reachable_inv: "session_reachable enabled m \<Longrightarrow> session_inv m"
  by (induction rule: session_reachable.induct)
    (simp_all add: session_inv_step, simp add: session_inv_def session_new_def)

lemma session_reachable_enabled:
  "session_reachable enabled m \<Longrightarrow> ssm_process_writes_enabled m = enabled"
  by (induction rule: session_reachable.induct)
    (simp_all add: session_new_def session_transition_step_def Let_def)

subsection \<open>One step of an active session\<close>

lemma active_step_identity:
  "st_state (reduce_active a enabled input) = Active b \<Longrightarrow>
     as_session_id b = as_session_id a \<and> as_identity b = as_identity a"
  by (cases input)
    (auto simp: active_simps split: connectivity.splits authorization.splits operation_state.splits if_splits)

lemma active_step_degraded:
  "st_state (reduce_active a enabled input) = Active b \<Longrightarrow> as_audit_health a \<noteq> Healthy \<Longrightarrow>
     as_audit_health b \<noteq> Healthy"
  by (cases input)
    (auto simp: active_simps split: connectivity.splits authorization.splits operation_state.splits if_splits)

lemma active_step_arms:
  "st_state (reduce_active a enabled input) = Active b \<Longrightarrow>
     as_authorization b = Armed t \<Longrightarrow> as_authorization a \<noteq> Armed t \<Longrightarrow>
     (\<exists>c now e. input = ConfirmArming c now t \<and> as_authorization a = Arming c e \<and> now \<le> e)"
  by (cases input)
    (auto simp: active_simps split: connectivity.splits authorization.splits operation_state.splits if_splits)

lemma active_step_begins:
  "st_state (reduce_active a enabled input) = Active b \<Longrightarrow>
     as_operation a = Idle \<Longrightarrow> as_operation b \<noteq> Idle \<Longrightarrow>
     operation_allowed a \<and>
     ((\<exists>o' p. input = WriteConfirmed o' p \<and> as_operation b = SingleWrite o' p) \<or>
      (\<exists>o' h. input = RestoreStarted o' h \<and> as_operation b = RestoreOp o' h 0))"
  by (cases input)
    (auto simp: active_simps split: connectivity.splits authorization.splits operation_state.splits if_splits)

lemma active_step_challenges:
  "st_state (reduce_active a enabled input) = Active b \<Longrightarrow>
     as_authorization b = Arming c t \<Longrightarrow> as_authorization a \<noteq> Arming c t \<Longrightarrow>
     input = ArmWrites c t \<and> can_arm a"
  by (cases input)
    (auto simp: active_simps split: connectivity.splits authorization.splits operation_state.splits if_splits)

lemma active_step_connects:
  "st_state (reduce_active a enabled input) = Active b \<Longrightarrow>
     as_connectivity b = Connected \<Longrightarrow> as_connectivity a \<noteq> Connected \<Longrightarrow>
     (\<exists>report v port. input = ReconnectIdentificationFinished report (Some v) port \<and>
        ir_outcome report = Match \<and> same_identity (as_identity a) v \<and> as_port_identity b = port) \<and>
     as_authorization b = disarmed_for_process enabled ReconnectedDisarm \<and> as_operation b = Idle"
  by (cases input)
    (auto simp: active_simps split: connectivity.splits authorization.splits operation_state.splits
      if_splits option.splits)

subsection \<open>Runs\<close>

fun session_run :: "session_state_machine \<Rightarrow> session_input list \<Rightarrow> session_state_machine" where
  "session_run m [] = m"
| "session_run m (i # is) = session_run (fst (session_transition_step m i)) is"

lemma reconnect_delay_bounds: "from_millis 250 \<le> reconnect_delay n" "reconnect_delay n \<le> from_secs 8"
proof -
  have "reconnect_delay n \<in> set RECONNECT_DELAYS"
    unfolding reconnect_delay_def by (rule nth_mem) (simp add: RECONNECT_DELAYS_def)
  then show "from_millis 250 \<le> reconnect_delay n" "reconnect_delay n \<le> from_secs 8"
    by (auto simp: RECONNECT_DELAYS_def)
qed

lemma reconnect_delays_sorted: "sorted RECONNECT_DELAYS"
  by (simp add: RECONNECT_DELAYS_def)

lemma reconnect_delay_mono: "m \<le> n \<Longrightarrow> reconnect_delay m \<le> reconnect_delay n"
  unfolding reconnect_delay_def
  by (rule sorted_nth_mono [OF reconnect_delays_sorted])
    (auto simp: RECONNECT_DELAYS_def word_le_nat_alt)


subsection \<open>Authority along a run\<close>

text \<open>
  The events after which an active session must not be armed or about to be: a withdrawal, an expiry, a
  broken link, its repair, a failed attempt at it, a degraded audit, a write whose outcome is open or
  whose record failed, and the end of a restore. The end of an operation counts while one is in progress.
\<close>

definition disarms :: "session_state \<Rightarrow> session_input \<Rightarrow> bool" where
  "disarms state i =
     (case state of
        Active a \<Rightarrow>
          (case i of
             CancelArming \<Rightarrow> True | DisarmWrites \<Rightarrow> True | ArmingExpired \<Rightarrow> True | IdleDisarmElapsed \<Rightarrow> True
           | TransportLostInput _ _ \<Rightarrow> True | PortRemovedInput _ \<Rightarrow> True
           | ReconnectFailed _ _ \<Rightarrow> is_reconnecting (as_connectivity a)
           | ReconnectIdentificationFinished _ _ _ \<Rightarrow> True
           | AuditPersistenceFailed _ _ \<Rightarrow> True
           | WriteFinished outcome _ \<Rightarrow> is_single_write (as_operation a) \<and>
               outcome \<in> {Executed OutcomeUnknown, Executed TransportLost, Executed AuditDegraded,
                 NotExecuted DecisionAuditUnavailable}
           | RestoreFinished \<Rightarrow> is_restore (as_operation a)
           | RestoreAborted \<Rightarrow> is_restore (as_operation a)
           | Disconnect \<Rightarrow> True | Shutdown \<Rightarrow> True
           | _ \<Rightarrow> False)
      | _ \<Rightarrow> False)"

lemma active_step_disarms:
  "st_state (reduce_active a enabled input) = Active b \<Longrightarrow> disarms (Active a) input \<Longrightarrow>
     \<not> is_armed (as_authorization b) \<and> \<not> is_arming (as_authorization b)"
  by (cases input)
    (auto simp: active_simps disarms_def split: authorization.splits if_splits)

text \<open>No event of the run from \<open>m\<close> disarms in the state that it meets.\<close>

fun undisturbed :: "session_state_machine \<Rightarrow> session_input list \<Rightarrow> bool" where
  "undisturbed m [] \<longleftrightarrow> True"
| "undisturbed m (i # is) \<longleftrightarrow> \<not> disarms (ssm_state m) i \<and> undisturbed (fst (session_transition_step m i)) is"

lemma session_run_append: "session_run m (xs @ ys) = session_run (session_run m xs) ys"
  by (induction xs arbitrary: m) simp_all

lemma undisturbed_append: "undisturbed m (xs @ ys) \<longleftrightarrow> undisturbed m xs \<and> undisturbed (session_run m xs) ys"
  by (induction xs arbitrary: m) auto

lemma session_run_snoc:
  "ssm_state (session_run m (xs @ [i])) =
     st_state (reduce (ssm_state (session_run m xs)) (ssm_process_writes_enabled (session_run m xs)) i)"
  by (simp add: session_run_append session_transition_step_def Let_def)

lemma session_run_enabled [simp]:
  "ssm_process_writes_enabled (session_run m is) = ssm_process_writes_enabled m"
  by (induction m "is" rule: session_run.induct)
    (simp_all add: session_transition_step_def Let_def)

lemma session_run_reachable: "session_reachable enabled m \<Longrightarrow> session_reachable enabled (session_run m is)"
  by (induction m "is" rule: session_run.induct) (simp_all add: session_next)

lemma run_arming:
  assumes "ssm_state (session_run (session_new enabled) is) = Active b" and "as_authorization b = Arming c e"
  shows "\<exists>pre mid. is = pre @ ArmWrites c e # mid \<and>
    undisturbed (session_run (session_new enabled) (pre @ [ArmWrites c e])) mid"
  using assms
proof (induction "is" arbitrary: b rule: rev_induct)
  case Nil
  then show ?case by (simp add: session_new_def)
next
  case (snoc i "is")
  from snoc.prems(1) show ?case unfolding session_run_snoc
  proof (cases rule: reduce_to_Active)
    case (1 a)
    show ?thesis
    proof (cases "as_authorization a = Arming c e")
      case True
      from snoc.IH [OF 1(1) True] obtain pre mid where run: "is = pre @ ArmWrites c e # mid"
        "undisturbed (session_run (session_new enabled) (pre @ [ArmWrites c e])) mid" by blast
      have "\<not> disarms (ssm_state (session_run (session_new enabled) is)) i"
        using active_step_disarms [OF 1(2)] 1(1) snoc.prems(2) by auto
      with run show ?thesis
        by (intro exI [of _ pre] exI [of _ "mid @ [i]"])
          (simp add: undisturbed_append session_run_append)
    next
      case False
      with active_step_challenges [OF 1(2) snoc.prems(2)] show ?thesis
        by (intro exI [of _ "is"] exI [of _ "[]"]) simp
    qed
  next
    case (2 port report identity sid)
    with snoc.prems(2) show ?thesis by (auto split: if_splits)
  qed
qed

lemma run_armed:
  assumes "ssm_state (session_run (session_new enabled) is) = Active b" and "as_authorization b = Armed t"
  shows "\<exists>pre c e mid now post. is = pre @ ArmWrites c e # mid @ ConfirmArming c now t # post \<and> now \<le> e \<and>
    undisturbed (session_run (session_new enabled) (pre @ [ArmWrites c e])) (mid @ ConfirmArming c now t # post)"
  using assms
proof (induction "is" arbitrary: b rule: rev_induct)
  case Nil
  then show ?case by (simp add: session_new_def)
next
  case (snoc i "is")
  from snoc.prems(1) show ?case unfolding session_run_snoc
  proof (cases rule: reduce_to_Active)
    case (1 a)
    have calm: "\<not> disarms (ssm_state (session_run (session_new enabled) is)) i"
      using active_step_disarms [OF 1(2)] 1(1) snoc.prems(2) by auto
    show ?thesis
    proof (cases "as_authorization a = Armed t")
      case True
      from snoc.IH [OF 1(1) True] obtain pre c e mid now post where
        run: "is = pre @ ArmWrites c e # mid @ ConfirmArming c now t # post" "now \<le> e"
        "undisturbed (session_run (session_new enabled) (pre @ [ArmWrites c e])) (mid @ ConfirmArming c now t # post)"
        by blast
      with calm run show ?thesis
        by (intro exI [of _ pre] exI [of _ c] exI [of _ e] exI [of _ mid] exI [of _ now]
            exI [of _ "post @ [i]"]) (simp add: undisturbed_append session_run_append)
    next
      case False
      from active_step_arms [OF 1(2) snoc.prems(2) False] obtain c now e where
        i: "i = ConfirmArming c now t" "as_authorization a = Arming c e" "now \<le> e" by blast
      with run_arming [OF 1(1)] obtain pre mid where
        "is = pre @ ArmWrites c e # mid" "undisturbed (session_run (session_new enabled) (pre @ [ArmWrites c e])) mid"
        by blast
      with i calm show ?thesis
        by (intro exI [of _ pre] exI [of _ c] exI [of _ e] exI [of _ mid] exI [of _ now] exI [of _ "[]"])
          (simp add: undisturbed_append session_run_append)
    qed
  next
    case (2 port report identity sid)
    with snoc.prems(2) show ?thesis by (auto split: if_splits)
  qed
qed

subsection \<open>Runs within one session\<close>

definition leaves_session :: "session_input \<Rightarrow> bool" where
  "leaves_session i \<longleftrightarrow> i = Disconnect \<or> i = Shutdown"

lemma active_step_stays:
  "\<not> leaves_session input \<Longrightarrow> \<exists>b. st_state (reduce_active a enabled input) = Active b"
  by (cases input)
    (auto simp: active_simps leaves_session_def
      split: connectivity.splits authorization.splits operation_state.splits)

lemma session_run_stays:
  assumes "ssm_state m = Active a" and "list_all (\<lambda>i. \<not> leaves_session i) is"
  shows "\<exists>b. ssm_state (session_run m is) = Active b \<and>
    as_session_id b = as_session_id a \<and> as_identity b = as_identity a \<and>
    (as_audit_health a \<noteq> Healthy \<longrightarrow> as_audit_health b \<noteq> Healthy)"
  using assms
proof (induction m "is" arbitrary: a rule: session_run.induct)
  case (1 m)
  then show ?case by simp
next
  case (2 m i "is")
  then obtain b where b: "st_state (reduce_active a (ssm_process_writes_enabled m) i) = Active b"
    using active_step_stays by fastforce
  then have "ssm_state (fst (session_transition_step m i)) = Active b"
    using 2 by (simp add: session_transition_step_def Let_def reduce_def)
  from "2.IH" [OF this] "2.prems" obtain c where "ssm_state (session_run m (i # is)) = Active c"
    "as_session_id c = as_session_id b" "as_identity c = as_identity b"
    "as_audit_health b \<noteq> Healthy \<longrightarrow> as_audit_health c \<noteq> Healthy" by auto
  with active_step_identity [OF b] active_step_degraded [OF b] show ?case by auto
qed

subsection \<open>Reconnecting and shutting down\<close>

lemma reconnect_failures:
  assumes "ssm_state m = Active a" and "as_connectivity a = Reconnecting n (t0 + reconnect_delay n) f b"
    and "unat n + length ts < 2 ^ 32"
  shows "\<exists>c g b'. ssm_state (session_run m (map (ReconnectFailed cause) ts)) = Active c \<and>
    as_connectivity c = Reconnecting (n + of_nat (length ts))
      (last (t0 # ts) + reconnect_delay (n + of_nat (length ts))) g b'"
  using assms
proof (induction ts arbitrary: m a n t0 f b)
  case Nil
  then show ?case by simp
next
  case (Cons t ts)
  let ?n = "n + 1"
  have sat: "sat_inc n = ?n" "unat ?n = unat n + 1"
    using Cons.prems(3) by (auto simp: sat_add_def unat_word_ariths)
  let ?m = "fst (session_transition_step m (ReconnectFailed cause t))"
  obtain a' where a': "ssm_state ?m = Active a'"
    "as_connectivity a' = Reconnecting ?n (t + reconnect_delay ?n) cause False"
    using Cons.prems(1,2)
    by (auto simp: session_transition_step_def reduce_def reduce_active_def reconnect_failed_def
        transition_def next_attempt_def sat Let_def)
  show ?case
    using Cons.IH [OF a'] Cons.prems(3) sat(2)
    by (auto simp: add.assoc)
qed

lemma reconnect_failures_quiet:
  assumes "ssm_state m = Active a" and "\<not> is_armed (as_authorization a)" and "as_operation a = Idle"
    and "ssm_state (session_run m (map (ReconnectFailed cause) ts)) = Active c"
  shows "\<not> is_armed (as_authorization c) \<and> as_operation c = Idle"
  using assms
proof (induction ts arbitrary: m a)
  case (Cons t ts)
  from Cons.prems(1-3)
  have "\<exists>b. ssm_state (fst (session_transition_step m (ReconnectFailed cause t))) = Active b \<and>
      \<not> is_armed (as_authorization b) \<and> as_operation b = Idle"
    by (simp add: session_transition_step_def reduce_def reduce_active_def reconnect_failed_def
        transition_def disarmed_for_process_def Let_def)
  then obtain b where "ssm_state (fst (session_transition_step m (ReconnectFailed cause t))) = Active b"
    "\<not> is_armed (as_authorization b)" "as_operation b = Idle" by blast
  from Cons.IH [OF this] Cons.prems(4) show ?case by simp
qed simp

lemma shutdown_absorbs:
  "ssm_state m = ShuttingDown \<Longrightarrow> ShutdownComplete \<notin> set is \<Longrightarrow> ssm_state (session_run m is) = ShuttingDown"
proof (induction m "is" rule: session_run.induct)
  case (2 m i "is")
  then have "i \<noteq> ShutdownComplete" by auto
  then have "ssm_state (fst (session_transition_step m i)) = ShuttingDown"
    using "2.prems"(1)
    by (cases i) (simp_all add: session_transition_step_def reduce_def transition_def Let_def)
  with 2 show ?case by simp
qed simp

subsection \<open>Properties\<close>

definition demo_adapter :: adapter_identity where
  "demo_adapter = \<lparr>ai_stable_id = None, ai_canonical_device = ''/dev/ttyUSB0'', ai_vendor_id = None,
     ai_product_id = None, ai_serial_number = None\<rparr>"

definition demo_identity :: verified_session_identity where
  "demo_identity = \<lparr>vsi_device = \<lparr>vdi_profile_id = ''vfd.a'', vdi_fingerprint = ''fp'', vdi_probes = []\<rparr>,
     vsi_profile_hash = [0]\<rparr>"

definition demo_report :: identification_report where
  "demo_report = \<lparr>ir_profile_id = ''vfd.a'', ir_outcome = Match, ir_probes = []\<rparr>"

definition demo_connect_run :: "session_input list" where
  "demo_connect_run =
     [Connect, PortOpened demo_adapter, IdentificationFinished demo_report (Some demo_identity) 1]"

definition demo_active :: active_session where
  "demo_active = \<lparr>as_session_id = 1, as_identity = demo_identity, as_port_identity = demo_adapter,
     as_connectivity = Connected, as_authorization = Disarmed InitialDisarm,
     as_audit_health = Healthy, as_operation = Idle\<rparr>"

lemma demo_connected:
  "session_run (session_new True) demo_connect_run =
     \<lparr>ssm_state = Active demo_active, ssm_process_writes_enabled = True\<rparr>"
  by (simp add: demo_connect_run_def session_new_def session_transition_step_def reduce_def transition_def
      identification_finished_def demo_report_def demo_active_def Let_def)

lemma demo_step:
  "session_run \<lparr>ssm_state = Active a, ssm_process_writes_enabled = e\<rparr> (i # is) =
     session_run \<lparr>ssm_state = st_state (reduce_active a e i), ssm_process_writes_enabled = e\<rparr> is"
  by (simp add: session_transition_step_def reduce_def Let_def)

lemma demo_reachable: "session_reachable True \<lparr>ssm_state = Active demo_active, ssm_process_writes_enabled = True\<rparr>"
  using session_run_reachable [OF session_start, of True demo_connect_run] by (simp only: demo_connected)

definition demo_arming_run :: "session_input list" where
  "demo_arming_run = demo_connect_run @ [ArmWrites ''code'' 5, ConfirmArming ''code'' 3 9]"

lemma demo_armed:
  "ssm_state (session_run (session_new True) demo_arming_run) =
     Active (demo_active\<lparr>as_authorization := Armed 9\<rparr>)"
  by (simp add: demo_arming_run_def session_run_append demo_connected session_transition_step_def
      reduce_def reduce_active_def can_arm_def confirm_arming_def transition_def demo_active_def Let_def)

text \<open>
  C21. Write authority is only ever obtained through the challenge, and never outlives a disarming
  event. Whatever inputs a session has consumed since it was created, if it is now armed until \<open>t\<close>,
  then writes are enabled for the process, the link is connected, the durable audit is healthy, and
  the inputs contain an arming request with a challenge, followed by a confirmation of that same
  challenge no later than its expiry, with no disarming event after the request (neither before nor
  after the confirmation): no withdrawal, expiry, broken or repaired link or degraded audit, no write
  in progress that ended with an open outcome or without its record, and no end of a restore.
\<close>

theorem session_armed_needs_challenge:
  assumes "ssm_state (session_run (session_new enabled) is) = Active b"
    and "as_authorization b = Armed t"
  shows "enabled \<and> as_connectivity b = Connected \<and> as_audit_health b = Healthy \<and>
    (\<exists>pre c e mid now post.
       is = pre @ ArmWrites c e # mid @ ConfirmArming c now t # post \<and> now \<le> e \<and>
       undisturbed (session_run (session_new enabled) (pre @ [ArmWrites c e])) (mid @ ConfirmArming c now t # post))"
proof -
  have "session_inv (session_run (session_new enabled) is)"
    by (rule session_reachable_inv [OF session_run_reachable [OF session_start]])
  with assms have "active_inv enabled b" by (simp add: session_inv_def session_new_def)
  with assms(2) have "enabled \<and> as_connectivity b = Connected \<and> as_audit_health b = Healthy"
    by (auto simp: active_inv_def)
  with run_armed [OF assms] show ?thesis by blast
qed

theorem session_armed_needs_challenge_witness:
  "\<exists>pre c e mid now post.
     demo_arming_run = pre @ ArmWrites c e # mid @ ConfirmArming c now 9 # post \<and> now \<le> e \<and>
     undisturbed (session_run (session_new True) (pre @ [ArmWrites c e])) (mid @ ConfirmArming c now 9 # post)"
  using session_armed_needs_challenge [OF demo_armed, of 9] by simp

text \<open>
  C22. An operation starts only with authority. In every reachable session, when one input takes an
  active session from no operation to a write or a restore, the session was connected, armed, with
  a healthy audit, in a process with writes enabled, and the input was the confirmation of that
  very write or the start of that very restore (which begins at step 0).
\<close>

theorem session_operation_needs_authority:
  assumes "session_reachable enabled m" and "ssm_state m = Active a" and "as_operation a = Idle"
    and "ssm_state (fst (session_transition_step m input)) = Active b" and "as_operation b \<noteq> Idle"
  shows "enabled \<and> as_connectivity a = Connected \<and> (\<exists>t. as_authorization a = Armed t) \<and>
    as_audit_health a = Healthy \<and>
    ((\<exists>o' p. input = WriteConfirmed o' p \<and> as_operation b = SingleWrite o' p) \<or>
     (\<exists>o' h. input = RestoreStarted o' h \<and> as_operation b = RestoreOp o' h 0))"
proof -
  have "st_state (reduce_active a enabled input) = Active b"
    using assms session_reachable_enabled [OF assms(1)]
    by (simp add: session_transition_step_def reduce_def Let_def)
  from active_step_begins [OF this assms(3,5)] have *: "operation_allowed a"
    "(\<exists>o' p. input = WriteConfirmed o' p \<and> as_operation b = SingleWrite o' p) \<or>
      (\<exists>o' h. input = RestoreStarted o' h \<and> as_operation b = RestoreOp o' h 0)" by simp_all
  moreover have "active_inv enabled a"
    using session_reachable_inv [OF assms(1)] session_reachable_enabled [OF assms(1)] assms(2)
    by (simp add: session_inv_def)
  ultimately show ?thesis by (auto simp: operation_allowed_def active_inv_def kind_iffs)
qed

theorem session_operation_needs_authority_witness:
  "as_authorization (demo_active\<lparr>as_authorization := Armed 9\<rparr>) = Armed 9 \<and>
   (\<exists>t. as_authorization (demo_active\<lparr>as_authorization := Armed 9\<rparr>) = Armed t)"
proof -
  let ?a = "demo_active\<lparr>as_authorization := Armed 9\<rparr>"
  have m: "session_reachable True (session_run (session_new True) demo_arming_run)"
    by (intro session_run_reachable session_start)
  have s: "ssm_state (fst (session_transition_step (session_run (session_new True) demo_arming_run)
      (WriteConfirmed 7 8))) = Active (?a\<lparr>as_operation := SingleWrite 7 8\<rparr>)"
    by (simp add: session_transition_step_def demo_armed reduce_def reduce_active_def
        operation_allowed_def transition_def Let_def) (simp add: demo_active_def)
  show ?thesis
    using session_operation_needs_authority [OF m demo_armed _ s] by (simp add: demo_active_def)
qed

text \<open>
  C23. A degraded audit cannot be cleared within a session. From a reachable active session whose
  audit is degraded, any inputs other than an explicit disconnect or shutdown (transport loss and
  reconnection included) leave the session active with the same session id and device identity,
  the audit still degraded, no write authority, no arming challenge and no operation.
\<close>

theorem session_audit_degradation_is_sticky:
  assumes "session_reachable enabled m" and "ssm_state m = Active a" and "as_audit_health a \<noteq> Healthy"
    and "list_all (\<lambda>i. \<not> leaves_session i) is"
  shows "\<exists>b. ssm_state (session_run m is) = Active b \<and>
    as_session_id b = as_session_id a \<and> as_identity b = as_identity a \<and>
    as_audit_health b \<noteq> Healthy \<and> \<not> is_armed (as_authorization b) \<and>
    \<not> is_arming (as_authorization b) \<and> as_operation b = Idle"
proof -
  obtain b where b: "ssm_state (session_run m is) = Active b"
    "as_session_id b = as_session_id a" "as_identity b = as_identity a" "as_audit_health b \<noteq> Healthy"
    using session_run_stays [OF assms(2,4)] assms(3) by blast
  have "session_inv (session_run m is)"
    using assms(1) by (intro session_reachable_inv session_run_reachable)
  with b have "active_inv (ssm_process_writes_enabled m) b" by (simp add: session_inv_def)
  with b show ?thesis by (auto simp: active_inv_def)
qed

theorem session_audit_degradation_is_sticky_witness:
  "\<exists>b. ssm_state (session_run (session_run (session_new True)
      (demo_connect_run @ [AuditPersistenceFailed ''disk'' 4])) [ArmWrites ''c'' 5, RetryNow]) = Active b \<and>
    as_audit_health b \<noteq> Healthy"
proof -
  let ?m = "session_run (session_new True) (demo_connect_run @ [AuditPersistenceFailed ''disk'' 4])"
  have m: "ssm_state ?m = Active (demo_active\<lparr>as_audit_health := Degraded ''disk'' 4,
      as_authorization := Disarmed AuditDegradedDisarm\<rparr>)"
    by (simp only: session_run_append demo_connected demo_step)
      (simp add: reduce_active_def audit_persistence_failed_def transition_def disarmed_for_process_def
        demo_active_def)
  show ?thesis
    using session_audit_degradation_is_sticky [OF session_run_reachable [OF session_start] m,
        of "[ArmWrites ''c'' 5, RetryNow]"]
    by (auto simp: leaves_session_def)
qed

text \<open>
  Reconnection backs off and stays bounded. After a transport loss at \<open>t0\<close> and any number
  of failed attempts at times \<open>ts\<close>, the session is still active and reconnecting, its attempt
  counter is the number of failures, and the next try is scheduled from the last failure with the
  delay of the table 250 ms, 500 ms, 1 s, 2 s, 4 s, 8 s, the last entry from the fifth failure on;
  the delay is never more than 8 s and the transport loss removed any authority and operation.
\<close>

theorem session_reconnect_backoff:
  assumes "ssm_state m = Active a" and "\<not> is_reconnecting (as_connectivity a)"
    and "length ts < 2 ^ 32"
  shows "\<exists>c g busy. ssm_state (session_run m (TransportLostInput f t0 # map (ReconnectFailed cause) ts)) = Active c \<and>
    as_connectivity c = Reconnecting (of_nat (length ts))
      (last (t0 # ts) + RECONNECT_DELAYS ! min (length ts) 5) g busy \<and>
    RECONNECT_DELAYS ! min (length ts) 5 \<le> from_secs 8 \<and>
    \<not> is_armed (as_authorization c) \<and> as_operation c = Idle"
proof -
  let ?m = "fst (session_transition_step m (TransportLostInput f t0))"
  obtain b where b: "ssm_state ?m = Active b"
    "as_connectivity b = Reconnecting 0 (t0 + reconnect_delay 0) f False"
    "\<not> is_armed (as_authorization b)" "as_operation b = Idle"
    using assms(1,2)
    by (cases "as_connectivity a"; cases "as_authorization a")
      (simp_all add: session_transition_step_def reduce_def reduce_active_def transport_lost_def
        transition_def next_attempt_def Let_def)
  have len: "unat (of_nat (length ts) :: u32) = length ts"
    using assms(3) by (simp add: unsigned_of_nat take_bit_nat_eq_self)
  obtain c g busy where c: "ssm_state (session_run ?m (map (ReconnectFailed cause) ts)) = Active c"
    "as_connectivity c = Reconnecting (of_nat (length ts))
      (last (t0 # ts) + reconnect_delay (of_nat (length ts))) g busy"
    using reconnect_failures [OF b(1,2), of ts cause] assms(3) by auto
  have "\<not> is_armed (as_authorization c) \<and> as_operation c = Idle"
    using reconnect_failures_quiet [OF b(1,3,4) c(1)] .
  moreover have "reconnect_delay (of_nat (length ts)) = RECONNECT_DELAYS ! min (length ts) 5"
    unfolding reconnect_delay_def len
    by (rule arg_cong [of _ _ "\<lambda>k. RECONNECT_DELAYS ! min (length ts) k"]) (simp add: RECONNECT_DELAYS_def)
  ultimately show ?thesis
    using c reconnect_delay_bounds(2) [of "of_nat (length ts)"] by auto
qed

theorem session_reconnect_backoff_witness:
  "\<exists>c g busy. ssm_state (session_run (session_run (session_new True) demo_connect_run)
      (TransportLostInput FaultPortRemoved 10 # map (ReconnectFailed FaultPortRemoved) [20, 30])) = Active c \<and>
    as_connectivity c = Reconnecting 2 (30 + from_secs 1) g busy"
proof -
  have a: "ssm_state (session_run (session_new True) demo_connect_run) = Active demo_active"
    "\<not> is_reconnecting (as_connectivity demo_active)" "length [20, 30 :: nat] < 2 ^ 32"
    by (simp_all add: demo_connected demo_active_def)
  have "RECONNECT_DELAYS ! min (length [20, 30 :: nat]) 5 = from_secs 1"
    by (simp add: RECONNECT_DELAYS_def)
  moreover have "of_nat (length [20, 30 :: nat]) = (2 :: u32)" by simp
  moreover have "last [10, 20, 30 :: nat] = 30" by simp
  ultimately show ?thesis
    using session_reconnect_backoff [OF a, of FaultPortRemoved 10 FaultPortRemoved] by metis
qed

text \<open>
  C24. A broken link comes back only to the same device. When one input makes an active session
  connected again, it is a reconnect identification that matched with the fingerprint, profile id
  and profile hash that the session had before; the session keeps that identity and its id, takes over
  the port, and comes back idle and disarmed (or, in a process without writes, disabled), neither
  armed nor waiting for a confirmation.
\<close>

theorem session_reconnects_to_same_device:
  assumes "ssm_state m = Active a" and "as_connectivity a \<noteq> Connected"
    and "ssm_state (fst (session_transition_step m input)) = Active b" and "as_connectivity b = Connected"
  shows "\<exists>report v port. input = ReconnectIdentificationFinished report (Some v) port \<and>
    ir_outcome report = Match \<and>
    vdi_fingerprint (vsi_device v) = vdi_fingerprint (vsi_device (as_identity a)) \<and>
    vdi_profile_id (vsi_device v) = vdi_profile_id (vsi_device (as_identity a)) \<and>
    vsi_profile_hash v = vsi_profile_hash (as_identity a) \<and>
    as_identity b = as_identity a \<and> as_session_id b = as_session_id a \<and> as_port_identity b = port \<and>
    as_authorization b = (if ssm_process_writes_enabled m then Disarmed ReconnectedDisarm else ProcessDisabled) \<and>
    as_operation b = Idle"
proof -
  have s: "st_state (reduce_active a (ssm_process_writes_enabled m) input) = Active b"
    using assms(1,3) by (simp add: session_transition_step_def reduce_def Let_def)
  show ?thesis
    using active_step_connects [OF s assms(4,2)] active_step_identity [OF s]
    by (auto simp: same_identity_def disarmed_for_process_def)
qed

theorem session_reconnects_to_same_device_witness:
  "\<exists>b. ssm_state (fst (session_transition_step
      (session_run (session_new True) (demo_connect_run @ [PortRemovedInput 5]))
      (ReconnectIdentificationFinished demo_report (Some demo_identity) demo_adapter))) = Active b \<and>
    as_authorization b = Disarmed ReconnectedDisarm"
proof -
  let ?m = "session_run (session_new True) (demo_connect_run @ [PortRemovedInput 5])"
  let ?i = "ReconnectIdentificationFinished demo_report (Some demo_identity) demo_adapter"
  obtain a where a: "ssm_state ?m = Active a" "as_connectivity a \<noteq> Connected" "as_identity a = demo_identity"
    by (simp only: session_run_append demo_connected demo_step)
      (simp add: reduce_active_def transport_lost_def transition_def demo_active_def Let_def)
  obtain b where b: "ssm_state (fst (session_transition_step ?m ?i)) = Active b" "as_connectivity b = Connected"
    using a by (simp add: session_transition_step_def reduce_def reduce_active_def
        reconnect_identification_finished_def transition_def demo_report_def same_identity_def Let_def)
  from session_reconnects_to_same_device [OF a(1,2) b] b show ?thesis by (auto simp: session_new_def)
qed

text \<open>
  Shutdown is final and orderly. From every state but an ongoing shutdown, the shutdown input
  aborts the operation, stops the planner, finalizes the storage, shuts the bus actor down,
  finalizes the logs and restores the terminal, in this order; afterwards no input other than the
  completion of the shutdown changes the state.
\<close>

theorem session_shutdown_is_final:
  assumes "ssm_state m \<noteq> ShuttingDown" and "ShutdownComplete \<notin> set is"
  shows "snd (session_transition_step m Shutdown) =
      [AbortOperation, StopPlanner, FinalizeStorage, ShutdownBusActor, FinalizeLogs, RestoreTerminal] \<and>
    ssm_state (session_run m (Shutdown # is)) = ShuttingDown"
proof -
  have "snd (session_transition_step m Shutdown) = shutdown_effects \<and>
      ssm_state (fst (session_transition_step m Shutdown)) = ShuttingDown"
    using assms(1)
    by (cases "ssm_state m")
      (simp_all add: session_transition_step_def reduce_def reduce_active_def transition_def Let_def)
  with shutdown_absorbs [OF _ assms(2)] show ?thesis by (simp add: shutdown_effects_def)
qed

theorem session_shutdown_is_final_witness:
  "ssm_state (session_run (session_new True) (Shutdown # [Connect, RetryNow])) = ShuttingDown"
  using session_shutdown_is_final [of "session_new True" "[Connect, RetryNow]"]
  by (simp add: session_new_def)


end
