(* ===== verification/Ports.thy ===== *)
theory Ports
  imports Profile
begin

text \<open>
  \<open>lantern-app/src/ports.rs\<close>: the ports through which the application layer reaches the bus,
  the durable audit, the profile trust store, the clocks and the session. An adapter is a function
  of a world \<open>'w\<close> that returns its result and the next world; since the world may change in any
  way at any call, the model covers every adapter and everything else that runs between two awaits.
  Each call is recorded with its result in a trace, which no definition of the code reads: it is
  what the properties of the asynchronous handlers are stated about.
\<close>

datatype (plugins only: code size) 'd port_event =
    EvRead read_bus_request "bus_error + raw_registers"
  | EvWrite prepared_bus_write "bus_error + unit"
  | EvAuditAvailable bool
  | EvDecision decision_audit_record "audit_error + unit"
  | EvPrepare "'d device_write_preparation" "audit_error + prepared_token"
  | EvFinalize prepared_token device_write_outcome read_back_evidence "audit_error + unit"
  | EvBeginOperation operation_audit_start "audit_error + operation_token"
  | EvFinishOperation operation_token operation_audit_finish "audit_error + unit"
  | EvProfile string "profile_trust_error + 'd validated_device_profile"
  | EvTrusted profile_id bool
  | EvMonotonic u128
  | EvSleep duration
  | EvNow instant
  | EvSnapshot write_session_snapshot
  | EvBeginSingle operation_id plan_id "session_control_error + unit"
  | EvFinishSingle write_outcome
  | EvBeginRestore operation_id string "session_control_error + unit"
  | EvRestoreMatches operation_id string nat bool
  | EvAdvanceRestore operation_id string nat "session_control_error + unit"
  | EvFinishRestore operation_id string "session_control_error + unit"
  | EvAbortRestore operation_id string "session_control_error + unit"
  | EvDisarm
  | EvDegrade
  | EvDiagnostic string

record ('w, 'd) ports =
  po_read :: "read_bus_request \<Rightarrow> 'w \<Rightarrow> (bus_error + raw_registers) \<times> 'w"
  po_execute :: "prepared_bus_write \<Rightarrow> 'w \<Rightarrow> (bus_error + unit) \<times> 'w"
  po_is_available :: "'w \<Rightarrow> bool \<times> 'w"
  po_record_decision :: "decision_audit_record \<Rightarrow> 'w \<Rightarrow> (audit_error + unit) \<times> 'w"
  po_prepare_device_write :: "'d device_write_preparation \<Rightarrow> 'w \<Rightarrow> (audit_error + prepared_token) \<times> 'w"
  po_finalize_device_write ::
    "prepared_token \<Rightarrow> device_write_outcome \<Rightarrow> read_back_evidence \<Rightarrow> 'w \<Rightarrow> (audit_error + unit) \<times> 'w"
  po_begin_operation :: "operation_audit_start \<Rightarrow> 'w \<Rightarrow> (audit_error + operation_token) \<times> 'w"
  po_finish_operation :: "operation_token \<Rightarrow> operation_audit_finish \<Rightarrow> 'w \<Rightarrow> (audit_error + unit) \<times> 'w"
  po_is_trusted :: "profile_id \<Rightarrow> 'w \<Rightarrow> bool \<times> 'w"
  po_active_profile_by_hash :: "string \<Rightarrow> 'w \<Rightarrow> (profile_trust_error + 'd validated_device_profile) \<times> 'w"
  po_monotonic_ns :: "'w \<Rightarrow> u128 \<times> 'w"
  po_sleep :: "duration \<Rightarrow> 'w \<Rightarrow> unit \<times> 'w"
  po_instant_now :: "'w \<Rightarrow> instant \<times> 'w"
  po_snapshot :: "'w \<Rightarrow> write_session_snapshot \<times> 'w"
  po_begin_single_write :: "operation_id \<Rightarrow> plan_id \<Rightarrow> 'w \<Rightarrow> (session_control_error + unit) \<times> 'w"
  po_finish_single_write :: "write_outcome \<Rightarrow> 'w \<Rightarrow> unit \<times> 'w"
  po_begin_restore :: "operation_id \<Rightarrow> string \<Rightarrow> 'w \<Rightarrow> (session_control_error + unit) \<times> 'w"
  po_restore_matches :: "operation_id \<Rightarrow> string \<Rightarrow> nat \<Rightarrow> 'w \<Rightarrow> bool \<times> 'w"
  po_advance_restore :: "operation_id \<Rightarrow> string \<Rightarrow> nat \<Rightarrow> 'w \<Rightarrow> (session_control_error + unit) \<times> 'w"
  po_finish_restore :: "operation_id \<Rightarrow> string \<Rightarrow> 'w \<Rightarrow> (session_control_error + unit) \<times> 'w"
  po_abort_restore :: "operation_id \<Rightarrow> string \<Rightarrow> 'w \<Rightarrow> (session_control_error + unit) \<times> 'w"
  po_disarm :: "'w \<Rightarrow> unit \<times> 'w"
  po_degrade_audit_and_disarm :: "'w \<Rightarrow> unit \<times> 'w"
  po_report_write_diagnostic :: "string \<Rightarrow> 'w \<Rightarrow> unit \<times> 'w"

record ('w, 'd) actor =
  ac_world :: 'w
  ac_trace :: "'d port_event list"

type_synonym ('w, 'd, 'z, 'r) port_monad = "(('w, 'd, 'z) actor_scheme, 'r) state"

definition call :: "('w \<Rightarrow> 'r \<times> 'w) \<Rightarrow> ('r \<Rightarrow> 'd port_event) \<Rightarrow> ('w, 'd, 'z, 'r) port_monad" where
  "call f ev = State (\<lambda>s. case f (ac_world s) of
     (r, w) \<Rightarrow> (r, s\<lparr>ac_world := w, ac_trace := ac_trace s @ [ev r]\<rparr>))"

subsection \<open>What a handler may emit\<close>

text \<open>
  \<open>emits m P\<close>: from every state, \<open>m\<close> extends the trace by events \<open>es\<close> that are related to
  its result by \<open>P\<close>, whatever the adapters answer.
\<close>

named_theorems emits_intro \<open>rules that derive what a handler emits from its parts\<close>

definition emits :: "('w, 'd, 'z, 'r) port_monad \<Rightarrow> ('r \<Rightarrow> 'd port_event list \<Rightarrow> bool) \<Rightarrow> bool" where
  "emits m P \<longleftrightarrow>
     (\<forall>s. \<exists>es. ac_trace (snd (run_state m s)) = ac_trace s @ es \<and> P (fst (run_state m s)) es)"

lemma emits_return [emits_intro]: "P x [] \<Longrightarrow> emits (State_Monad.return x) P"
  by (simp add: emits_def)

lemma emits_call [emits_intro]: "(\<And>r. P r [ev r]) \<Longrightarrow> emits (call f ev) P"
  by (auto simp: emits_def call_def split: prod.splits)

lemma emits_silent: "(\<And>s. ac_trace (h s) = ac_trace s) \<Longrightarrow> (\<And>s. P (g s) []) \<Longrightarrow>
    emits (State (\<lambda>s. (g s, h s))) P"
  by (simp add: emits_def)

lemma emits_bind:
  assumes m: "emits m P" and f: "\<And>x es. P x es \<Longrightarrow> emits (f x) (\<lambda>r fs. Q r (es @ fs))"
  shows "emits (State_Monad.bind m f) Q"
  unfolding emits_def
proof
  fix s
  obtain x t where xt: "run_state m s = (x, t)" by fastforce
  with m obtain es where es: "ac_trace t = ac_trace s @ es" "P x es"
    unfolding emits_def by (metis fst_conv snd_conv)
  from f [OF es(2)] obtain fs where "ac_trace (snd (run_state (f x) t)) = ac_trace t @ fs"
    "Q (fst (run_state (f x) t)) (es @ fs)"
    unfolding emits_def by blast
  with es xt show "\<exists>es. ac_trace (snd (run_state (State_Monad.bind m f) s)) = ac_trace s @ es \<and>
      Q (fst (run_state (State_Monad.bind m f) s)) es"
    by auto
qed

lemma emits_call_bind [emits_intro]:
  "(\<And>x. emits (k x) (\<lambda>r fs. Q r (ev x # fs))) \<Longrightarrow> emits (State_Monad.bind (call f ev) k) Q"
  by (rule emits_bind [where P = "\<lambda>x es. es = [ev x]"]) (auto intro: emits_intro)

lemma emits_mono: "emits m P \<Longrightarrow> (\<And>r es. P r es \<Longrightarrow> Q r es) \<Longrightarrow> emits m Q"
  unfolding emits_def by blast

lemma emits_if [emits_intro]:
  "(b \<Longrightarrow> emits m P) \<Longrightarrow> (\<not> b \<Longrightarrow> emits n P) \<Longrightarrow> emits (if b then m else n) P"
  by simp

lemma emits_case_option [emits_intro]:
  "(x = None \<Longrightarrow> emits m P) \<Longrightarrow> (\<And>y. x = Some y \<Longrightarrow> emits (f y) P) \<Longrightarrow>
     emits (case x of None \<Rightarrow> m | Some y \<Rightarrow> f y) P"
  by (cases x) auto

lemma emits_case_sum [emits_intro]:
  "(\<And>e. x = Inl e \<Longrightarrow> emits (f e) P) \<Longrightarrow> (\<And>y. x = Inr y \<Longrightarrow> emits (g y) P) \<Longrightarrow>
     emits (case x of Inl e \<Rightarrow> f e | Inr y \<Rightarrow> g y) P"
  by (cases x) auto

lemma emits_case_prod [emits_intro]:
  "(\<And>a b. x = (a, b) \<Longrightarrow> emits (f a b) P) \<Longrightarrow> emits (case x of (a, b) \<Rightarrow> f a b) P"
  by (cases x) auto

lemma emits_run: "emits m P \<Longrightarrow> run_state m s = (r, s') \<Longrightarrow>
    \<exists>es. ac_trace s' = ac_trace s @ es \<and> P r es"
  unfolding emits_def by (metis fst_conv snd_conv)

subsection \<open>Kinds of events\<close>

definition is_physical_write :: "'d port_event \<Rightarrow> bool" where
  "is_physical_write e = (case e of EvWrite _ _ \<Rightarrow> True | _ \<Rightarrow> False)"

definition is_bus_traffic :: "'d port_event \<Rightarrow> bool" where
  "is_bus_traffic e = (case e of EvWrite _ _ \<Rightarrow> True | EvRead _ _ \<Rightarrow> True | _ \<Rightarrow> False)"

abbreviation no_write :: "'d port_event list \<Rightarrow> bool" where
  "no_write es \<equiv> list_all (\<lambda>e. \<not> is_physical_write e) es"

lemma event_kind_simps [simp]:
  "is_physical_write (EvWrite w r)" "\<not> is_physical_write (EvRead q x)"
  "\<not> is_physical_write (EvAuditAvailable b)" "\<not> is_physical_write (EvDecision d u)"
  "\<not> is_physical_write (EvPrepare p t)" "\<not> is_physical_write (EvFinalize k o' e u)"
  "\<not> is_physical_write (EvBeginOperation s t')" "\<not> is_physical_write (EvFinishOperation t'' f u)"
  "\<not> is_physical_write (EvProfile h p')" "\<not> is_physical_write (EvTrusted i b)"
  "\<not> is_physical_write (EvMonotonic m)" "\<not> is_physical_write (EvSleep d')"
  "\<not> is_physical_write (EvNow n)" "\<not> is_physical_write (EvSnapshot ss)"
  "\<not> is_physical_write (EvBeginSingle oi pl v)" "\<not> is_physical_write (EvFinishSingle wo)"
  "\<not> is_physical_write (EvBeginRestore oi h v)" "\<not> is_physical_write (EvRestoreMatches oi h k' b)"
  "\<not> is_physical_write (EvAdvanceRestore oi h k' v)" "\<not> is_physical_write (EvFinishRestore oi h v)"
  "\<not> is_physical_write (EvAbortRestore oi h v)" "\<not> is_physical_write EvDisarm"
  "\<not> is_physical_write EvDegrade" "\<not> is_physical_write (EvDiagnostic m')"
  by (simp_all add: is_physical_write_def)

end
