(* ===== verification/Texts.thy ===== *)
theory Texts
  imports Codec Records
begin

text \<open>
  The texts that reach durable records: decimal numbers, the display forms of bus errors, codec
  errors, scale errors and audit errors, and the debug names of encodings and decisions.
\<close>

fun nat_text :: "nat \<Rightarrow> string" where
  "nat_text n = (if n < 10 then [hex_digit n] else nat_text (n div 10) @ [hex_digit (n mod 10)])"

declare nat_text.simps [simp del]

definition int_text :: "int \<Rightarrow> string" where
  "int_text i = (if i < 0 then CHR ''-'' # nat_text (nat (- i)) else nat_text (nat i))"

definition bus_error_text :: "bus_error \<Rightarrow> string" where
  "bus_error_text e =
     (case e of
        InvalidRequest m \<Rightarrow> ''invalid bus request: '' @ m
      | BusPortRemoved \<Rightarrow> ''serial port was removed''
      | PermissionDenied \<Rightarrow> ''permission denied''
      | PortBusy \<Rightarrow> ''serial port is busy''
      | BusIo m \<Rightarrow> ''I/O error: '' @ m
      | TimeoutBeforeSend \<Rightarrow> ''request deadline expired before transmission''
      | ResponseTimeout \<Rightarrow> ''response timeout''
      | InvalidFrameOrTransport \<Rightarrow> ''invalid frame or transport failure''
      | BusProtocolException code \<Rightarrow> ''Modbus exception '' @ nat_text (unat code)
      | InvalidResponse \<Rightarrow> ''invalid Modbus response''
      | BusCancelled \<Rightarrow> ''request was cancelled''
      | QueueFull \<Rightarrow> ''bounded bus queue is full''
      | BusOutcomeUnknown \<Rightarrow> ''write started but its outcome is unknown''
      | BusShutdown \<Rightarrow> ''bus actor is shutting down'')"

definition encoding_name :: "register_encoding \<Rightarrow> string" where
  "encoding_name e =
     (case e of
        Unsigned16 \<Rightarrow> ''Unsigned16'' | Signed16 \<Rightarrow> ''Signed16''
      | Unsigned32 \<Rightarrow> ''Unsigned32'' | Signed32 \<Rightarrow> ''Signed32''
      | Unsigned64 \<Rightarrow> ''Unsigned64'' | Signed64 \<Rightarrow> ''Signed64''
      | Float32 \<Rightarrow> ''Float32'' | Float64 \<Rightarrow> ''Float64'' | Bcd16 \<Rightarrow> ''Bcd16'' | Bcd32 \<Rightarrow> ''Bcd32''
      | Enum16 \<Rightarrow> ''Enum16'' | Enum32 \<Rightarrow> ''Enum32'' | Bitfield16 \<Rightarrow> ''Bitfield16''
      | Bitfield32 \<Rightarrow> ''Bitfield32'' | Bitfield64 \<Rightarrow> ''Bitfield64'')"

definition scale_error_text :: "scale_error \<Rightarrow> string" where
  "scale_error_text e =
     (case e of
        ZeroMultiplier \<Rightarrow> ''fixed scale multiplier must be non-zero''
      | ZeroDivisor \<Rightarrow> ''fixed scale divisor must be non-zero''
      | TooManyDecimalPlaces n \<Rightarrow>
          ''fixed scale decimal places '' @ nat_text n @ '' exceed Decimal capacity''
      | ArithmeticOverflow \<Rightarrow> ''fixed-point arithmetic overflow''
      | NotRepresentable \<Rightarrow> ''engineering value is not representable as an integer raw value'')"

definition codec_error_text :: "codec_error \<Rightarrow> string" where
  "codec_error_text e =
     (case e of
        UnexpectedScale enc \<Rightarrow> ''encoding '' @ encoding_name enc @ '' cannot use a fixed-point scale''
      | RegisterWidth expected actual \<Rightarrow>
          ''expected '' @ nat_text expected @ '' registers, received '' @ nat_text actual
      | ValueKindMismatch enc \<Rightarrow>
          ''engineering value kind does not match encoding '' @ encoding_name enc
      | OutOfRange \<Rightarrow> ''raw value is outside the encoding range''
      | InvalidBcdDigit index digit \<Rightarrow>
          ''invalid BCD digit '' @ nat_text (unat digit) @ '' at nibble '' @ nat_text index
      | ScaleFailure s \<Rightarrow> scale_error_text s)"

definition audit_error_text :: "audit_error \<Rightarrow> string" where
  "audit_error_text e =
     (case e of
        AuditErrUnavailable \<Rightarrow> ''durable audit is unavailable''
      | AuditErrPersistence m \<Rightarrow> ''durable audit failed: '' @ m)"

definition decision_name :: "decision_outcome \<Rightarrow> string" where
  "decision_name d =
     (case d of DecisionExpired \<Rightarrow> ''Expired'' | DecisionCancelled \<Rightarrow> ''Cancelled''
      | RejectedByPolicy \<Rightarrow> ''RejectedByPolicy'' | ProfileNotTrusted \<Rightarrow> ''ProfileNotTrusted''
      | PreconditionChanged \<Rightarrow> ''PreconditionChanged''
      | DecisionAuditUnavailable \<Rightarrow> ''AuditUnavailable'')"

lemma nat_text_not_Nil [simp]: "nat_text n \<noteq> []"
  by (subst nat_text.simps) simp

end
