(* ===== verification/Backup.thy ===== *)
theory Backup
  imports Ports Texts
begin

text \<open>
  \<open>lantern-app/src/backup.rs\<close>: capturing a configuration backup from the device, the semantic
  difference of two backups, and the eligibility of a parameter for an automated restore.
\<close>

definition MAX_BACKUP_VALUES :: nat where
  "MAX_BACKUP_VALUES = 20000"

datatype (plugins only: code size) backup_error =
    BackupInvalidConfiguration | BackupSessionUnavailable | BackupProfileUnavailable | BackupTooManyValues

record backup_capture_context =
  bcc_app_version :: string
  bcc_build_id :: string
  bcc_profile_origin :: string
  bcc_adapter :: string
  bcc_link_settings :: string
  bcc_drive_state :: drive_state
  bcc_started_at :: utc_timestamp
  bcc_finished_at :: utc_timestamp

record ('w, 'd) backup_coordinator = "('w, 'd) actor" +
  bk_next_backup_id :: u128
  bk_next_request_id :: u64

record ('w, 'd) backup_env =
  be_ports :: "('w, 'd) ports"
  be_decimal :: "'d decimal_ops"
  be_request_timeout :: duration

definition backup_coordinator_new ::
  "'w \<Rightarrow> duration \<Rightarrow> backup_error + ('w, 'd) backup_coordinator" where
  "backup_coordinator_new w request_timeout =
     (if request_timeout = 0 then Err BackupInvalidConfiguration
      else Ok \<lparr>ac_world = w, ac_trace = [], bk_next_backup_id = 1, bk_next_request_id = 1\<rparr>)"

type_synonym ('w, 'd, 'r) backup_monad = "(('w, 'd) backup_coordinator, 'r) state"

subsection \<open>Eligibility and difference\<close>

definition restore_eligibility :: "'d validated_parameter \<Rightarrow> restore_eligibility_kind" where
  "restore_eligibility p =
     (case vp_access p of
        ReadOnly \<Rightarrow> ElReadOnly
      | Commissioning \<Rightarrow> ElCommissioning
      | Dangerous \<Rightarrow> ElDangerous
      | WritableWhenStopped \<Rightarrow>
          (case vp_restore_policy p of
             LinkCritical \<Rightarrow> ElLinkCritical
           | RestartRequired \<Rightarrow> ElRestartRequired
           | ManualOnly \<Rightarrow> ElManualOnly
           | Normal \<Rightarrow>
               if vp_required_drive_state p \<noteq> RequireStopped then GuardNotStopped
               else if \<not> (case vp_write_function p of None \<Rightarrow> False | Some f \<Rightarrow> is_write f)
               then MissingWriteFunction
               else Eligible))"

definition diff_status ::
  "bool \<Rightarrow> restore_eligibility_kind \<Rightarrow> 'd backup_parameter_value option \<Rightarrow> 'd backup_parameter_value option
     \<Rightarrow> backup_diff_status" where
  "diff_status profile_compatible eligibility lv rv =
     (case (lv, rv) of
        (Some _, None) \<Rightarrow> OnlyLeft
      | (None, Some _) \<Rightarrow> OnlyRight
      | (None, None) \<Rightarrow> Incompatible
      | (Some l, Some r) \<Rightarrow>
          if \<not> profile_compatible then Incompatible
          else if bpv_code l \<noteq> bpv_code r \<or> bpv_quantity l \<noteq> bpv_quantity r \<or> bpv_unit l \<noteq> bpv_unit r
          then Incompatible
          else if bpv_quality l \<noteq> Good \<or> bpv_quality r \<noteq> Good then Unreadable
          else if eligibility \<noteq> Eligible then NotRestorable
          else if bpv_raw l = bpv_raw r \<and> bpv_engineering l = bpv_engineering r then Unchanged
          else Changed)"

definition semantic_backup_diff ::
  "'d backup_snapshot \<Rightarrow> 'd backup_snapshot \<Rightarrow> 'd validated_device_profile option
     \<Rightarrow> 'd backup_difference list" where
  "semantic_backup_diff l r profile =
     (let ids = btree_set (map fst (bs_values l) @ map fst (bs_values r));
          profile_compatible = (bs_profile_hash l = bs_profile_hash r)
      in map (\<lambda>i.
           let lv = bt_get (bs_values l) i;
               rv = bt_get (bs_values r) i;
               eligibility =
                 (case Option.bind profile (\<lambda>p. profile_parameter p i) of
                    None \<Rightarrow> Eligible | Some p \<Rightarrow> restore_eligibility p)
           in \<lparr>bd_parameter_id = i, bd_status = diff_status profile_compatible eligibility lv rv,
               bd_eligibility = eligibility, bd_left = lv, bd_right = rv\<rparr>) ids)"

definition backup_session_available :: "write_session_snapshot \<Rightarrow> bool" where
  "backup_session_available s \<longleftrightarrow> wss_connected s \<and> wss_profile_hash s \<noteq> [] \<and> wss_fingerprint s \<noteq> []"

definition same_backup_context :: "write_session_snapshot \<Rightarrow> write_session_snapshot \<Rightarrow> bool" where
  "same_backup_context l r \<longleftrightarrow>
     wss_connected l \<and> wss_connected r \<and> wss_session_id l = wss_session_id r \<and>
     wss_fingerprint l = wss_fingerprint r \<and> wss_profile_hash l = wss_profile_hash r \<and>
     wss_slave_id l = wss_slave_id r"

definition quantity_key :: "quantity_kind \<Rightarrow> string" where
  "quantity_key q =
     (case q of
        Frequency \<Rightarrow> ''frequency'' | RotationalSpeed \<Rightarrow> ''rotational_speed'' | Current \<Rightarrow> ''current''
      | Voltage \<Rightarrow> ''voltage'' | Power \<Rightarrow> ''power'' | Energy \<Rightarrow> ''energy'' | Torque \<Rightarrow> ''torque''
      | Temperature \<Rightarrow> ''temperature'' | Time \<Rightarrow> ''time'' | Ratio \<Rightarrow> ''ratio'' | Pressure \<Rightarrow> ''pressure''
      | Flow \<Rightarrow> ''flow'' | Count \<Rightarrow> ''count'' | DigitalState \<Rightarrow> ''digital_state''
      | Unitless \<Rightarrow> ''unitless'' | Custom i \<Rightarrow> ''custom:'' @ i)"

subsection \<open>Capture\<close>

definition backup_read_parameter_raw ::
  "('w, 'd) backup_env \<Rightarrow> 'd validated_parameter \<Rightarrow> session_id \<Rightarrow> slave_id
     \<Rightarrow> ('w, 'd, bus_error + raw_registers) backup_monad" where
  "backup_read_parameter_raw E p sid slave =
     (let f = read_function_of p; b = vp_block p in
      case register_block_new (rb_table b) (rb_start b) (rb_count b) f of
        Inl _ \<Rightarrow> State_Monad.return (Err (InvalidRequest ''invalid profile backup read block''))
      | Inr block \<Rightarrow> do {
          request_id \<leftarrow> State (\<lambda>s. (bk_next_request_id s, s\<lparr>bk_next_request_id := sat_inc (bk_next_request_id s)\<rparr>));
          now \<leftarrow> call (po_instant_now (be_ports E)) EvNow;
          case read_request_one_shot
                 (interactive_context request_id sid (now + be_request_timeout E) None) slave f block of
            Inl e \<Rightarrow> State_Monad.return (Err e)
          | Inr request \<Rightarrow> call (po_read (be_ports E) request) (EvRead request)
        })"

type_synonym 'd captured = "(parameter_id, 'd backup_parameter_value) btree_map \<times> backup_read_error list"

fun capture_loop ::
  "('w, 'd) backup_env \<Rightarrow> write_session_snapshot \<Rightarrow> 'd validated_parameter list \<Rightarrow> 'd captured
     \<Rightarrow> ('w, 'd, 'd captured) backup_monad" where
  "capture_loop E before [] acc = State_Monad.return acc"
| "capture_loop E before (p # ps) (values, errors) = do {
     read \<leftarrow> backup_read_parameter_raw E p (wss_session_id before) (wss_slave_id before);
     case read of
       Inl e \<Rightarrow> capture_loop E before ps
         (values, errors @ [\<lparr>bre_parameter_id = vp_id p, bre_reason = bus_error_text e\<rparr>])
     | Inr raw \<Rightarrow> do {
         snap \<leftarrow> call (po_snapshot (be_ports E)) EvSnapshot;
         if \<not> same_backup_context before snap
         then State_Monad.return (values, errors @
           [\<lparr>bre_parameter_id = vp_id p, bre_reason = ''verified session changed during backup''\<rparr>])
         else case decode (be_decimal E) (vp_codec p) raw of
           Inl e \<Rightarrow> capture_loop E before ps
             (values, errors @ [\<lparr>bre_parameter_id = vp_id p, bre_reason = codec_error_text e\<rparr>])
         | Inr engineering \<Rightarrow> do {
             t \<leftarrow> call (po_monotonic_ns (be_ports E)) EvMonotonic;
             capture_loop E before ps
               (bt_insert (vp_id p)
                  \<lparr>bpv_code = vp_code p, bpv_raw = raw, bpv_engineering = engineering,
                   bpv_quantity = quantity_key (vp_quantity p), bpv_unit = unit_text (vp_unit p),
                   bpv_quality = Good, bpv_observed_at = t, bpv_access = vp_access p,
                   bpv_restore_policy = vp_restore_policy p\<rparr> values, errors)
           }
       }
   }"

definition capture_finish ::
  "backup_capture_context \<Rightarrow> write_session_snapshot \<Rightarrow> 'd validated_device_profile \<Rightarrow> 'd captured
     \<Rightarrow> backup_id \<Rightarrow> 'd backup_snapshot" where
  "capture_finish ctx before profile captured backup_id =
     \<lparr>bs_app_version = bcc_app_version ctx, bs_build_id = bcc_build_id ctx, bs_backup_id = backup_id,
      bs_started_at = bcc_started_at ctx, bs_finished_at = bcc_finished_at ctx,
      bs_profile_id = vdp_profile_id profile, bs_profile_revision = vdp_revision profile,
      bs_profile_origin = bcc_profile_origin ctx, bs_source_hash = to_hex (vdp_source_hash profile),
      bs_profile_hash = to_hex (vdp_profile_hash profile), bs_device_fingerprint = wss_fingerprint before,
      bs_vendor = vdp_vendor profile, bs_model = vdp_model profile, bs_slave_id = wss_slave_id before,
      bs_adapter = bcc_adapter ctx, bs_link_settings = bcc_link_settings ctx,
      bs_drive_state = bcc_drive_state ctx,
      bs_completeness = (if snd captured = [] then BackupComplete else BackupIncomplete),
      bs_values = fst captured, bs_errors = snd captured\<rparr>"

definition selected_parameters :: "'d validated_device_profile \<Rightarrow> 'd validated_parameter list" where
  "selected_parameters profile = filter vp_backup (map snd (vdp_parameters profile))"

definition capture ::
  "('w, 'd) backup_env \<Rightarrow> backup_capture_context \<Rightarrow> ('w, 'd, backup_error + 'd backup_snapshot) backup_monad" where
  "capture E ctx = do {
     before \<leftarrow> call (po_snapshot (be_ports E)) EvSnapshot;
     if \<not> backup_session_available before then State_Monad.return (Err BackupSessionUnavailable)
     else do {
       active \<leftarrow> call (po_active_profile_by_hash (be_ports E) (wss_profile_hash before))
                    (EvProfile (wss_profile_hash before));
       case active of
         Inl _ \<Rightarrow> State_Monad.return (Err BackupProfileUnavailable)
       | Inr profile \<Rightarrow>
           if to_hex (vdp_profile_hash profile) \<noteq> wss_profile_hash before
           then State_Monad.return (Err BackupProfileUnavailable)
           else if length (selected_parameters profile) > MAX_BACKUP_VALUES
           then State_Monad.return (Err BackupTooManyValues)
           else do {
             captured \<leftarrow> capture_loop E before (selected_parameters profile) ([], []);
             snap \<leftarrow> call (po_snapshot (be_ports E)) EvSnapshot;
             let captured = (if same_backup_context before snap then captured
               else (fst captured, snd captured @
                 [\<lparr>bre_parameter_id = ''backup.session'',
                   bre_reason = ''verified session changed before backup finalization''\<rparr>]));
             backup_id \<leftarrow> State (\<lambda>s. (bk_next_backup_id s, s\<lparr>bk_next_backup_id := sat_inc (bk_next_backup_id s)\<rparr>));
             State_Monad.return (Ok (capture_finish ctx before profile captured backup_id))
           }
     }
   }"

end
