(* ===== verification/Codec_Facts.thy ===== *)
theory Codec_Facts
  imports Codec
begin
unbundle bit_operations_syntax

text \<open>
  What the register codec guarantees: byte and word order are undone by the inverse conversion,
  binary coded decimal decodes and encodes back to the same digits, and a decoded block encodes
  back to the registers it was decoded from.
\<close>

subsection \<open>Word-level round trips\<close>

definition ordered_word :: "byte_order \<Rightarrow> u16 \<Rightarrow> u16" where
  "ordered_word order w = (case order of BigEndian \<Rightarrow> w | LittleEndian \<Rightarrow> swap_bytes w)"

lemma swap_bytes_swap_bytes [simp]: "swap_bytes (swap_bytes w) = w"
  by (rule bit_word_eqI) (auto simp: swap_bytes_def bit_simps)

lemma ordered_word_involutive [simp]: "ordered_word b (ordered_word b w) = w"
  by (cases b) (simp_all add: ordered_word_def)

lemma shift_in_word_eq: "shift_in_word b bits w = push_bit 16 bits OR ucast (ordered_word b w)"
  by (rule bit_word_eqI)
    (auto simp: shift_in_word_def to_be_bytes_def to_le_bytes_def ordered_word_def swap_bytes_def
      Let_def bit_simps split: byte_order.splits dest: bit_imp_le_length)

lemma low_word_shift_in [simp]: "ucast (shift_in_word b bits w) = ordered_word b w"
  by (rule bit_word_eqI) (auto simp: shift_in_word_eq bit_simps)

lemma drop_word_shift_in:
  "drop_bit (k + 16) (shift_in_word b bits w) = drop_bit k (take_bit 48 bits)"
  by (rule bit_word_eqI) (auto simp: shift_in_word_eq bit_simps dest: bit_imp_le_length)

lemma and_0xffff: "x AND 0xffff = take_bit 16 x" for x :: u64
  by (simp add: take_bit_eq_mask mask_eq_exp_minus_1)

lemma extract_word: "ucast (take_bit 16 x) = (ucast x :: u16)" for x :: u64
  by (rule bit_word_eqI) (auto simp: bit_simps)

lemma bits_to_words_eq:
  "bits_to_words c bits =
     (let ws = map (\<lambda>i. ordered_word (rc_byte_order c)
                 (ucast (drop_bit ((register_width (rc_encoding c) - i - 1) * 16) bits)))
               [0..<register_width (rc_encoding c)]
      in if rc_word_order c = LeastSignificantFirst then rev ws else ws)"
  by (simp add: bits_to_words_def Let_def and_0xffff extract_word ordered_word_def
      split: byte_order.splits)

lemma length_bits_to_words [simp]: "length (bits_to_words c bits) = register_width (rc_encoding c)"
  by (simp add: bits_to_words_eq Let_def)

lemma register_width_cases: "register_width e \<in> {1, 2, 4}"
  by (cases e) simp_all

definition pack :: "byte_order \<Rightarrow> u16 list \<Rightarrow> u64" where
  "pack b ws = foldl (shift_in_word b) 0 ws"

definition unpack :: "byte_order \<Rightarrow> nat \<Rightarrow> u64 \<Rightarrow> u16 list" where
  "unpack b n bits = map (\<lambda>i. ordered_word b (ucast (drop_bit ((n - i - 1) * 16) bits))) [0..<n]"

lemma unpack_Suc: "unpack b (Suc n) bits = unpack b n (drop_bit 16 bits) @ [ordered_word b (ucast bits)]"
proof -
  have "drop_bit ((Suc n - i - 1) * 16) bits = drop_bit ((n - i - 1) * 16) (drop_bit 16 bits)"
    if "i < n" for i
  proof -
    have "Suc n - i - 1 = Suc (n - i - 1)" using that by simp
    then show ?thesis by (simp only: mult_Suc drop_bit_drop_bit add.commute)
  qed
  then show ?thesis by (simp add: unpack_def)
qed

lemma pack_snoc: "pack b (ws @ [w]) = shift_in_word b (pack b ws) w"
  by (simp add: pack_def)

lemma drop_bit_shift_in: "drop_bit 16 (shift_in_word b bits w) = take_bit 48 bits"
  using drop_word_shift_in [of 0] by simp

lemma pack_bound: "length ws \<le> n \<Longrightarrow> n \<le> 4 \<Longrightarrow> take_bit (16 * n) (pack b ws) = pack b ws"
proof (induction ws arbitrary: n rule: rev_induct)
  case Nil
  then show ?case by (simp add: pack_def)
next
  case (snoc w ws)
  from snoc.prems obtain m where n: "n = Suc m" by (cases n) auto
  with snoc have IH: "take_bit (16 * m) (pack b ws) = pack b ws" by auto
  have "bit (pack b ws) k \<Longrightarrow> k < 16 * m" for k
    using IH by (metis bit_take_bit_iff)
  then show ?case unfolding pack_snoc shift_in_word_eq n
    by (intro bit_word_eqI) (auto simp: bit_simps dest: bit_imp_le_length; force)
qed

lemma unpack_pack: "length ws = n \<Longrightarrow> n \<le> 4 \<Longrightarrow> unpack b n (pack b ws) = ws"
proof (induction ws arbitrary: n rule: rev_induct)
  case Nil
  then show ?case by (simp add: unpack_def)
next
  case (snoc w ws)
  then have "take_bit 48 (pack b ws) = pack b ws"
    using pack_bound [of ws 3 b] by simp
  with snoc show ?case
    by (auto simp: unpack_Suc pack_snoc drop_bit_shift_in)
qed

lemma pack_unpack: "n \<le> 4 \<Longrightarrow> pack b (unpack b n bits) = take_bit (16 * n) bits"
proof (induction n arbitrary: bits)
  case 0
  then show ?case by (simp add: unpack_def pack_def)
next
  case (Suc n)
  then show ?case
    by (simp add: unpack_Suc pack_snoc shift_in_word_eq)
      (intro bit_word_eqI, auto simp: bit_simps)
qed

lemma words_to_bits_pack:
  "words_to_bits c ws =
     pack (rc_byte_order c) (if rc_word_order c = LeastSignificantFirst then rev ws else ws)"
  by (simp add: words_to_bits_def pack_def)

lemma bits_to_words_unpack:
  "bits_to_words c bits =
     (let ws = unpack (rc_byte_order c) (register_width (rc_encoding c)) bits
      in if rc_word_order c = LeastSignificantFirst then rev ws else ws)"
  by (simp add: bits_to_words_eq unpack_def Let_def)

lemma register_width_le: "register_width e \<le> 4"
  by (cases e) simp_all

lemma bits_words_round_trip:
  "length ws = register_width (rc_encoding c) \<Longrightarrow> bits_to_words c (words_to_bits c ws) = ws"
  using register_width_le [of "rc_encoding c"]
  by (simp add: words_to_bits_pack bits_to_words_unpack unpack_pack Let_def)

lemma words_bits_round_trip:
  "words_to_bits c (bits_to_words c bits) = take_bit (16 * register_width (rc_encoding c)) bits"
  using register_width_le [of "rc_encoding c"]
  by (simp add: words_to_bits_pack bits_to_words_unpack pack_unpack Let_def)

lemma words_to_bits_bound:
  "length ws = register_width (rc_encoding c) \<Longrightarrow>
     take_bit (16 * register_width (rc_encoding c)) (words_to_bits c ws) = words_to_bits c ws"
  using register_width_le [of "rc_encoding c"]
  by (simp add: words_to_bits_pack pack_bound)

subsection \<open>Binary coded decimal\<close>

definition bcd_of :: "nat \<Rightarrow> nat \<Rightarrow> nat" where
  "bcd_of d r = (\<Sum>i<d. r div 10 ^ i mod 10 * 16 ^ i)"

lemma digit_shift: "(a::nat) < B \<Longrightarrow> d \<le> 15 \<Longrightarrow> a + d * B < 16 * B"
  using mult_le_mono1 [of d 15 B] by linarith

lemma bcd_of_bound: "bcd_of d r < 16 ^ d"
proof (induction d)
  case 0
  then show ?case by (simp add: bcd_of_def)
next
  case (Suc d)
  have "r div 10 ^ d mod 10 \<le> 15"
    using mod_less_divisor [of 10 "r div 10 ^ d"] by linarith
  with Suc digit_shift [of "bcd_of d r" "16 ^ d"] show ?case by (simp add: bcd_of_def)
qed

lemma pow16: "(16::nat) ^ i = 2 ^ (4 * i)"
  by (simp add: power_mult)

lemma unat_take_bit: "unat (take_bit n w) = unat w mod 2 ^ n"
  by (rule trans [OF unsigned_take_bit_eq take_bit_eq_mod])

lemma unat_drop_bit: "unat (drop_bit n w) = unat w div 2 ^ n"
  by (rule trans [OF unat_drop_bit_eq drop_bit_eq_div])

lemma unat_push_bit: "unat w * 2 ^ n < 2 ^ LENGTH('a) \<Longrightarrow> unat (push_bit n w) = unat w * 2 ^ n"
  for w :: "'a::len word"
  by (subst unsigned_push_bit_eq) (simp add: take_bit_eq_mod push_bit_eq_mult)

lemma nibble: "unat (drop_bit (i * 4) bits AND 0xf) = unat bits div 16 ^ i mod 16" for bits :: u64
proof -
  have "drop_bit (i * 4) bits AND 0xf = take_bit 4 (drop_bit (i * 4) bits)"
    by (simp add: take_bit_eq_mask mask_eq_exp_minus_1)
  then show ?thesis
    by (simp only: unat_take_bit unat_drop_bit pow16 mult.commute [of i 4]) simp
qed

lemma decode_bcd_loop_spec:
  assumes "decode_bcd_loop bits n value = Ok v"
    and "n \<le> 8" and "unat value < 10 ^ (8 - n)"
  shows "unat v div 10 ^ n = unat value \<and> bcd_of n (unat v) = unat bits mod 16 ^ n \<and> unat v < 10 ^ 8"
  using assms
proof (induction bits n "value" rule: decode_bcd_loop.induct)
  case (1 bits v0)
  then show ?case by (simp add: bcd_of_def)
next
  case (2 bits i v0)
  define d where "d = drop_bit (i * 4) bits AND 0xf"
  have d9: "\<not> d > 9" and rec: "decode_bcd_loop bits i (v0 * 10 + d) = Ok v"
    using "2.prems"(1) by (auto simp: d_def Let_def split: if_splits)
  have ud: "unat d = unat bits div 16 ^ i mod 16" by (simp add: d_def nibble)
  have ud9: "unat d \<le> 9" using d9 by (simp add: word_less_nat_alt)
  have p: "(10::nat) ^ (8 - i) = 10 * 10 ^ (8 - Suc i)"
    using "2.prems"(2) by (metis Suc_diff_le diff_Suc_Suc power_Suc)
  have "unat v0 * 10 + unat d < 10 ^ (8 - i)" using "2.prems"(3) ud9 p by linarith
  moreover have "(10::nat) ^ (8 - i) \<le> 10 ^ 8" by (intro power_increasing) auto
  moreover have "(10::nat) ^ 8 < 2 ^ 64" by simp
  ultimately have lt: "unat v0 * 10 + unat d < 10 ^ (8 - i)" "unat v0 * 10 + unat d < 2 ^ 64"
    by (auto intro: less_trans less_le_trans)
  then have uv: "unat (v0 * 10 + d) = unat v0 * 10 + unat d"
    by (simp add: unat_word_ariths)
  have IH: "unat v div 10 ^ i = unat v0 * 10 + unat d"
    "bcd_of i (unat v) = unat bits mod 16 ^ i" "unat v < 10 ^ 8"
    using "2.IH" [OF d_def] d9 rec "2.prems"(2) lt(1) uv by auto
  have "unat v div 10 ^ Suc i = (unat v0 * 10 + unat d) div 10"
    using IH(1) by (simp add: div_mult2_eq mult.commute [of 10] del: div_mult_self3)
  moreover have "bcd_of (Suc i) (unat v) = unat bits mod 16 ^ i + (unat v0 * 10 + unat d) mod 10 * 16 ^ i"
    using IH(1,2) by (simp add: bcd_of_def)
  moreover have "(unat v0 * 10 + unat d) mod 10 = unat d" using ud9 by simp
  moreover have "unat bits mod 16 ^ Suc i = unat bits mod 16 ^ i + unat bits div 16 ^ i mod 16 * 16 ^ i"
    by (metis mod_mult2_eq mult.commute power_Suc2 add.commute)
  ultimately show ?case using ud ud9 IH(3) by simp
qed

lemma bit_below: "unat w < 2 ^ n \<Longrightarrow> bit w k \<Longrightarrow> k < n" for w :: "'a::len word"
  by (metis bit_take_bit_iff take_bit_nat_eq_self unsigned_take_bit_eq word_unat_eq_iff)

lemma nibble_or:
  fixes bits d :: u64
  assumes b: "unat bits < 16 ^ i" and i: "i < 16" and d: "unat d < 16"
  shows "unat (bits OR push_bit (i * 4) d) = unat bits + unat d * 16 ^ i"
proof -
  have or: "bits OR push_bit (i * 4) d = bits + push_bit (i * 4) d"
    by (rule disjunctive_add_eq_or [symmetric], rule bit_word_eqI)
      (use bit_below [of bits "i * 4"] b in \<open>fastforce simp: bit_simps pow16 mult.commute\<close>)
  have "(16::nat) ^ Suc i \<le> 16 ^ 16" using i by (intro power_increasing) auto
  moreover have "(16::nat) ^ 16 = 2 ^ 64" by simp
  moreover have sum: "unat bits + unat d * 16 ^ i < 16 * 16 ^ i"
    using digit_shift [OF b, of "unat d"] d by simp
  ultimately have lt: "unat bits + unat d * 16 ^ i < 2 ^ 64" by (simp only: power_Suc)
  then have "unat (push_bit (i * 4) d) = unat d * 16 ^ i"
    using unat_push_bit [of d "i * 4"] by (simp add: pow16 mult.commute [of i 4])
  then show ?thesis unfolding or using lt by (simp add: unat_word_ariths)
qed

lemma bcd_of_Suc: "bcd_of (Suc d) r = r mod 10 + 16 * bcd_of d (r div 10)"
  by (simp add: bcd_of_def sum.lessThan_Suc_shift sum_distrib_left div_mult2_eq [symmetric] mult_ac
      del: sum.lessThan_Suc)

lemma encode_bcd_loop_spec:
  assumes "encode_bcd_loop left i remaining bits = (r, res)"
    and "unat bits < 16 ^ i" and "i + left \<le> 8"
  shows "unat r = unat remaining div 10 ^ left \<and>
    unat res = unat bits + 16 ^ i * bcd_of left (unat remaining)"
  using assms
proof (induction left i remaining bits rule: encode_bcd_loop.induct)
  case (1 i remaining bits)
  then show ?case by (simp add: bcd_of_def)
next
  case (2 left i remaining bits)
  let ?d = "remaining mod 10"
  have ud: "unat ?d = unat remaining mod 10" and uq: "unat (remaining div 10) = unat remaining div 10"
    by (simp_all add: unat_mod unat_div)
  have lt: "unat ?d < 16" unfolding ud using mod_less_divisor [of 10 "unat remaining"] by linarith
  have step: "unat (bits OR push_bit (i * 4) ?d) = unat bits + unat ?d * 16 ^ i"
    by (rule nibble_or) (use "2.prems" lt in auto)
  have "unat (bits OR push_bit (i * 4) ?d) < 16 ^ Suc i"
    using digit_shift [OF "2.prems"(2), of "unat ?d"] lt step by simp
  then have "unat r = unat (remaining div 10) div 10 ^ left \<and>
      unat res = unat (bits OR push_bit (i * 4) ?d) + 16 ^ Suc i * bcd_of left (unat (remaining div 10))"
    using "2.IH" "2.prems" by simp
  then show ?case
    unfolding uq ud step bcd_of_Suc by (simp add: div_mult2_eq algebra_simps)
qed

lemma bcd_round_trip:
  assumes "decode_bcd bits n = Ok v" and "n \<le> 8" and "take_bit (4 * n) bits = bits"
  shows "encode_bcd (uint v) n = Ok bits"
proof -
  obtain r res where enc: "encode_bcd_loop n 0 v 0 = (r, res)" by fastforce
  have dec: "unat v div 10 ^ n = 0" "bcd_of n (unat v) = unat bits mod 16 ^ n" "unat v < 10 ^ 8"
    using decode_bcd_loop_spec [of bits n 0 v] assms(1,2) by (auto simp: decode_bcd_def)
  have e: "unat r = unat v div 10 ^ n" "unat res = bcd_of n (unat v)"
    using encode_bcd_loop_spec [OF enc] assms(2) by simp_all
  have "unat bits mod 16 ^ n = unat bits"
    using arg_cong [OF assms(3), of unat] by (simp only: unat_take_bit pow16)
  with e dec have "r = 0" "res = bits"
    by (simp_all add: word_unat_eq_iff)
  moreover have "uint v \<ge> 0" "\<not> uint v \<ge> 2 ^ 64" using uint_bounded [of v] by (auto simp: not_le)
  ultimately show ?thesis by (simp add: encode_bcd_def enc)
qed


subsection \<open>Round trip of whole codecs\<close>

definition decimal_integers_exact :: "'d decimal_ops \<Rightarrow> bool" where
  "decimal_integers_exact D \<longleftrightarrow>
     (\<forall>n. - (2 ^ 63) \<le> n \<and> n < 2 ^ 64 \<longrightarrow>
       dec_checked_sub D (dec_from_i128 D n) (dec_zero D) = Some (dec_from_i128 D n) \<and>
       dec_checked_mul D (dec_from_i128 D n) (dec_one D) = Some (dec_from_i128 D n) \<and>
       dec_checked_div D (dec_from_i128 D n) (dec_one D) = Some (dec_from_i128 D n) \<and>
       dec_round_dp D (dec_from_i128 D n) 0 MidpointNearestEven = dec_from_i128 D n \<and>
       dec_to_i128 D (dec_from_i128 D n) = Some n)"

lemma encode_fixed_integer:
  assumes "decimal_integers_exact D" and "rc_fixed_scale c = None" and "- (2 ^ 63) \<le> n" and "n < 2 ^ 64"
  shows "encode_fixed D c (dec_from_i128 D n) = Ok n"
  using assms
  by (simp add: encode_fixed_def scale_encode_i128_def fixed_scale_identity_def decimal_integers_exact_def
      ok_or_def)

lemma ucast_down_up:
  "ucast (ucast b :: u16) = take_bit 16 b" "ucast (ucast b :: u32) = take_bit 32 b" for b :: u64
  by (rule bit_word_eqI, auto simp: bit_simps dest: bit_imp_le_length)+

lemma word_of_uint_down:
  "word_of_int (uint (ucast b :: u16)) = take_bit 16 b"
  "word_of_int (uint (ucast b :: u32)) = take_bit 32 b" for b :: u64
  by (simp_all only: ucast_down_up [symmetric] ucast_eq)

lemma sint_range: "- (2 ^ (LENGTH('a) - 1)) \<le> sint w" "sint w \<le> 2 ^ (LENGTH('a) - 1) - 1"
  for w :: "'a::len word"
  using sint_ge [of w] sint_lt [of w] by simp_all

lemma uint_range: "uint w < 2 ^ LENGTH('a)" for w :: "'a::len word"
  by (rule uint_lt2p)

lemma uint_take_bit_lt: "take_bit n w = w \<Longrightarrow> uint w < 2 ^ n" for w :: "'a::len word"
  by (metis unsigned_take_bit_eq take_bit_int_less_exp)

lemma decode_encode_bits:
  assumes D: "decimal_integers_exact D" and ns: "rc_fixed_scale c = None"
    and dec: "decode D c ws = Ok v"
  shows "encode_bits D c v = Ok (words_to_bits c ws)"
proof -
  let ?b = "words_to_bits c ws"
  have len: "length ws = register_width (rc_encoding c)"
    using dec by (auto simp: decode_def and_then_Ok_iff validate_width_def Let_def split: if_splits)
  note bound = words_to_bits_bound [OF len] uint_take_bit_lt [OF words_to_bits_bound [OF len]]
  note ef = encode_fixed_integer [OF D ns]
  have pos: "- (2 ^ 63) \<le> uint w" for w :: "'w::len word"
    by (rule order_trans [OF _ uint_ge_0]) simp
  have e: "encode_fixed D c (dec_from_i128 D (uint d)) = Ok (uint d)"
    "encode_fixed D c (dec_from_i128 D (uint x)) = Ok (uint x)"
    "encode_fixed D c (dec_from_i128 D (uint y)) = Ok (uint y)"
    "encode_fixed D c (dec_from_i128 D (sint x)) = Ok (sint x)"
    "encode_fixed D c (dec_from_i128 D (sint y)) = Ok (sint y)"
    "encode_fixed D c (dec_from_i128 D (sint d)) = Ok (sint d)" for d :: u64 and x :: u16 and y :: u32
    using uint_range [of d] uint_range [of x] uint_range [of y] pos [of d] pos [of x] pos [of y]
      sint_range [of x] sint_range [of y] sint_range [of d]
    by (intro ef; simp)+
  note rng = sint_range [of "ucast ?b :: u16"] sint_range [of "ucast ?b :: u32"] sint_range [of ?b]
    uint_range [of "ucast ?b :: u16"] uint_range [of "ucast ?b :: u32"] uint_range [of ?b]
  have v: "v = (case rc_encoding c of
      Unsigned16 \<Rightarrow> Fixed (dec_from_i128 D (uint (ucast ?b :: u16)))
    | Signed16 \<Rightarrow> Fixed (dec_from_i128 D (sint (ucast ?b :: u16)))
    | Unsigned32 \<Rightarrow> Fixed (dec_from_i128 D (uint (ucast ?b :: u32)))
    | Signed32 \<Rightarrow> Fixed (dec_from_i128 D (sint (ucast ?b :: u32)))
    | Unsigned64 \<Rightarrow> Fixed (dec_from_i128 D (uint ?b))
    | Signed64 \<Rightarrow> Fixed (dec_from_i128 D (sint ?b))
    | _ \<Rightarrow> v)"
    using dec len ns
    by (cases "rc_encoding c")
      (simp_all add: decode_def validate_width_def decode_fixed_def Let_def)
  show ?thesis
  proof (cases "rc_encoding c")
    case Bcd16
    with dec len ns obtain d where "decode_bcd ?b 4 = Ok d" "v = Fixed (dec_from_i128 D (uint d))"
      by (auto simp: decode_def validate_width_def decode_fixed_def Let_def and_then_Ok_iff)
    with Bcd16 bound uint_range [of d] show ?thesis
      using bcd_round_trip [of ?b 4 d] e by (simp add: encode_bits_def)
  next
    case Bcd32
    with dec len ns obtain d where "decode_bcd ?b 8 = Ok d" "v = Fixed (dec_from_i128 D (uint d))"
      by (auto simp: decode_def validate_width_def decode_fixed_def Let_def and_then_Ok_iff)
    with Bcd32 bound uint_range [of d] show ?thesis
      using bcd_round_trip [of ?b 8 d] e by (simp add: encode_bits_def)
  next
    case Unsigned16
    with v rng bound show ?thesis
      by (simp add: e encode_bits_def checked_unsigned_def ucast_down_up)
  next
    case Unsigned32
    with v rng bound show ?thesis
      by (simp add: e encode_bits_def checked_unsigned_def ucast_down_up)
  next
    case Unsigned64
    with v rng bound show ?thesis
      by (simp add: e encode_bits_def checked_unsigned_def)
  next
    case Signed16
    with v rng bound show ?thesis
      by (simp add: e encode_bits_def checked_signed_def ucast_down_up)
  next
    case Signed32
    with v rng bound show ?thesis
      by (simp add: e encode_bits_def checked_signed_def ucast_down_up)
  next
    case Signed64
    with v rng bound show ?thesis
      by (simp add: e encode_bits_def checked_signed_def)
  next
    case Enum16
    with dec len rng bound show ?thesis
      by (auto simp: decode_def validate_width_def Let_def encode_bits_def try_unsigned_def ucast_down_up)
  next
    case Enum32
    with dec len rng bound show ?thesis
      by (auto simp: decode_def validate_width_def Let_def encode_bits_def try_unsigned_def ucast_down_up)
  next
    case Bitfield16
    with dec len rng bound show ?thesis
      by (auto simp: decode_def validate_width_def Let_def encode_bits_def try_unsigned_def ucast_down_up)
  next
    case Bitfield32
    with dec len rng bound show ?thesis
      by (auto simp: decode_def validate_width_def Let_def encode_bits_def try_unsigned_def ucast_down_up)
  qed (use dec len bound in \<open>auto simp: decode_def validate_width_def Let_def encode_bits_def ucast_down_up\<close>)
qed

lemma decode_length: "decode D c ws = Ok v \<Longrightarrow> length ws = register_width (rc_encoding c)"
  by (auto simp: decode_def and_then_Ok_iff validate_width_def Let_def split: if_splits)

lemma encode_length: "encode D c v = Ok ws \<Longrightarrow> length ws = register_width (rc_encoding c)"
  by (auto simp: encode_def and_then_Ok_iff)

lemma decode_encode:
  assumes "decimal_integers_exact D" and "rc_fixed_scale c = None" and "decode D c ws = Ok v"
  shows "encode D c v = Ok ws"
  using decode_encode_bits [OF assms] decode_length [OF assms(3)] bits_words_round_trip [of ws c]
  by (simp add: encode_def)

end
