(* ===== verification/Samples.thy ===== *)
theory Samples
  imports Codec_Facts Profile
begin

text \<open>
  Concrete values at which the properties are instantiated: decimals as exact rationals, a codec, a
  device profile with one writable parameter and a drive-state register, and a session snapshot.
\<close>

definition rat_round :: "rat \<Rightarrow> nat \<Rightarrow> rat" where
  "rat_round x n =
     (let y = x * 10 ^ n; k = \<lfloor>y\<rfloor>; r = y - of_int k
      in of_int (if r < 1 / 2 then k else if r > 1 / 2 then k + 1 else if even k then k else k + 1) / 10 ^ n)"

definition rat_decimal :: "rat decimal_ops" where
  "rat_decimal = \<lparr>dec_max_scale = 28, dec_zero = 0, dec_one = 1, dec_is_zero = (\<lambda>x. x = 0),
     dec_from_i128 = of_int, dec_to_i128 = (\<lambda>x. if of_int \<lfloor>x\<rfloor> = x then Some \<lfloor>x\<rfloor> else None),
     dec_checked_add = (\<lambda>x y. Some (x + y)), dec_checked_sub = (\<lambda>x y. Some (x - y)),
     dec_checked_mul = (\<lambda>x y. Some (x * y)), dec_checked_div = (\<lambda>x y. if y = 0 then None else Some (x / y)),
     dec_rem = (\<lambda>x y. x - y * of_int \<lfloor>x / y\<rfloor>), dec_round_dp = (\<lambda>x n m. rat_round x n),
     dec_less = (<), dec_value = (\<lambda>x. x), dec_normalized_text = (\<lambda>x. [])\<rparr>"

lemma rat_round_int [simp]: "rat_round (of_int k) 0 = of_int k"
  by (simp add: rat_round_def)

lemma rat_decimal_exact: "decimal_integers_exact rat_decimal"
  by (simp add: decimal_integers_exact_def rat_decimal_def)

definition demo_codec :: "rat register_codec" where
  "demo_codec = \<lparr>rc_encoding = Unsigned16, rc_byte_order = BigEndian,
     rc_word_order = MostSignificantFirst, rc_fixed_scale = None\<rparr>"

definition demo_block :: "register_address \<Rightarrow> register_block" where
  "demo_block a = \<lparr>rb_table = HoldingRegisters, rb_start = a, rb_count = 1\<rparr>"

definition demo_parameter :: "rat validated_parameter" where
  "demo_parameter = \<lparr>vp_id = ''ramp'', vp_code = ''C1'', vp_name = '''', vp_description = '''',
     vp_source_address_notation = '''', vp_source_address_value = 10, vp_block = demo_block 10,
     vp_codec = demo_codec, vp_enum_values = [], vp_bit_flags = [], vp_quantity = Unitless,
     vp_unit = \<lparr>unit_text = ''1'', unit_quantity = Unitless\<rparr>, vp_access = WritableWhenStopped,
     vp_restore_policy = Normal, vp_required_drive_state = RequireStopped,
     vp_write_function = Some WriteSingleRegister, vp_read_back = ExactRaw, vp_minimum = Some 0,
     vp_maximum = Some 100, vp_step = Some 1, vp_forbidden_raw = [[7]], vp_backup = True,
     vp_do_not_bridge = False, vp_maximum_bridge_gap = 0\<rparr>"

definition demo_state_parameter :: "rat validated_parameter" where
  "demo_state_parameter = demo_parameter\<lparr>vp_id := ''state'', vp_code := ''S1'', vp_block := demo_block 20,
     vp_access := ReadOnly, vp_write_function := None, vp_backup := False\<rparr>"

definition demo_link :: link_settings where
  "demo_link = \<lparr>ls_baud_rate = 9600, ls_parity = NoParity, ls_data_bits = Eight, ls_stop_bits = One,
     ls_response_timeout = from_millis 500, ls_slave_id = 1, ls_rs485_mode = AdapterManaged\<rparr>"

definition demo_profile :: "rat validated_device_profile" where
  "demo_profile = \<lparr>vdp_profile_id = ''vfd.a'', vdp_revision = 1, vdp_vendor = '''', vdp_family = '''',
     vdp_model = '''', vdp_source_hash = [0], vdp_profile_hash = [0],
     vdp_protocol = \<lparr>vpr_default_link = demo_link, vpr_allowed_baud_rates = [9600],
       vpr_allowed_parities = [NoParity], vpr_allowed_data_bits = [Eight], vpr_allowed_stop_bits = [One],
       vpr_minimum_inter_frame_delay = 0\<rparr>,
     vdp_probes = [], vdp_parameters = [(''ramp'', demo_parameter), (''state'', demo_state_parameter)],
     vdp_aliases = [], vdp_groups = [],
     vdp_drive_state_source = Some \<lparr>dss_parameter_id = ''state'', dss_stopped_raw = [[0]],
       dss_running_raw = [[1]], dss_faulted_raw = [[2]]\<rparr>,
     vdp_fault_source = None, vdp_faults = [], vdp_presets = [], vdp_restore_order = [''ramp'']\<rparr>"

definition demo_snapshot :: write_session_snapshot where
  "demo_snapshot = \<lparr>wss_session_id = 1, wss_fingerprint = ''fp'', wss_profile_hash = ''00'',
     wss_connected = True, wss_armed = True, wss_audit_healthy = True, wss_operation_idle = True,
     wss_drive_state = Stopped, wss_guard_revision = 3, wss_slave_id = 1\<rparr>"

lemma demo_hash [simp]: "to_hex (vdp_profile_hash demo_profile) = ''00''"
proof -
  have "char_of (48 :: nat) = CHR ''0''" by code_simp
  then show ?thesis by (simp add: demo_profile_def to_hex_def hex_byte_def hex_digit_def)
qed

lemma demo_decode: "decode rat_decimal demo_codec [w] = Ok (Fixed (of_int (uint w)))"
proof -
  have "take_bit 16 (uint w) = uint w" by (rule bintr_uint) simp
  then show ?thesis
    by (simp add: decode_def demo_codec_def validate_width_def decode_fixed_def rat_decimal_def Let_def
        words_to_bits_def shift_in_word_eq ordered_word_def unsigned_ucast_eq)
qed

end
