(* ===== verification/Restore.thy ===== *)
theory Restore
  imports Backup Samples
begin

text \<open>
  \<open>lantern-app/src/restore.rs\<close> and \<open>restore_permit.rs\<close>: the restore plan built from a
  complete source backup and a fresh backup of the device, and the permit that one approved plan
  grants. SHA-256 is the argument \<open>sha256\<close>.
\<close>

type_synonym sha256 = "u8 list \<Rightarrow> u8 list"

record restore_plan_step =
  rps_index :: nat
  rps_parameter_id :: parameter_id
  rps_expected_old_raw :: raw_registers
  rps_target_raw :: raw_registers

datatype (plugins only: code size) restore_skip_reason =
    SkipUnchanged | OnlyInSourceBackup | OnlyOnDevice | SkipUnreadable | SkipIncompatible
  | NotInRestoreOrder | Eligibility restore_eligibility_kind

record restore_skipped =
  rsk_parameter_id :: parameter_id
  rsk_reason :: restore_skip_reason

record approved_restore_plan =
  arp_operation_id :: operation_id
  arp_backup_id :: backup_id
  arp_pre_restore_backup_id :: backup_id
  arp_session_id :: session_id
  arp_fingerprint :: device_fingerprint
  arp_profile_hash :: string
  arp_steps :: "restore_plan_step list"
  arp_plan_hash :: string
  arp_skipped :: "restore_skipped list"
  arp_challenge :: string
  arp_expires_at :: monotonic_instant

datatype restore_confirmation = RestoreConfirm string | RestoreCancelled

datatype (plugins only: code size) restore_plan_error =
    IncompleteBackup | SessionUnavailable | ProfileMismatch | FingerprintMismatch
  | InvalidBackupParameter parameter_id | NoEligibleChanges | RestorePreconditionChanged

record restore_plan_build_context =
  rbc_operation_id :: operation_id
  rbc_expires_at :: monotonic_instant

subsection \<open>Hashing\<close>

definition restore_hash_raw :: "raw_registers \<Rightarrow> u8 list" where
  "restore_hash_raw raw =
     be_bytes 8 (length raw) @ concat (map (\<lambda>w. be_bytes 2 (unat w)) raw)"

definition hash_len_prefixed :: "u8 list \<Rightarrow> u8 list" where
  "hash_len_prefixed bytes = be_bytes 8 (length bytes) @ bytes"

definition ordered_plan_bytes :: "restore_plan_step list \<Rightarrow> u8 list" where
  "ordered_plan_bytes steps =
     concat (map (\<lambda>s. be_bytes 8 (rps_index s) @ hash_len_prefixed (str_bytes (rps_parameter_id s)) @
                      restore_hash_raw (rps_expected_old_raw s) @ restore_hash_raw (rps_target_raw s)) steps)"

definition ordered_plan_hash :: "sha256 \<Rightarrow> restore_plan_step list \<Rightarrow> string" where
  "ordered_plan_hash sha256 steps = to_hex (sha256 (ordered_plan_bytes steps))"

subsection \<open>Building the plan\<close>

definition restore_parameter_allowed :: "'d validated_parameter \<Rightarrow> bool" where
  "restore_parameter_allowed p \<longleftrightarrow> restore_eligibility p = Eligible"

definition backup_value_valid ::
  "'d decimal_ops \<Rightarrow> 'd validated_parameter \<Rightarrow> 'd backup_parameter_value \<Rightarrow> bool" where
  "backup_value_valid D p v \<longleftrightarrow>
     \<not> (bpv_quality v \<noteq> Good \<or> bpv_code v \<noteq> vp_code p \<or> bpv_unit v \<noteq> unit_text (vp_unit p) \<or>
        length (bpv_raw v) \<noteq> unat (rb_count (vp_block p)) \<or>
        result_ok (decode D (vp_codec p) (bpv_raw v)) \<noteq> Some (bpv_engineering v) \<or>
        bpv_raw v \<in> set (vp_forbidden_raw p))"

fun validate_backup_entries ::
  "'d decimal_ops \<Rightarrow> 'd validated_device_profile \<Rightarrow> (parameter_id \<times> 'd backup_parameter_value) list
     \<Rightarrow> restore_plan_error + unit" where
  "validate_backup_entries D profile [] = Ok ()"
| "validate_backup_entries D profile ((i, v) # rest) =
     (case profile_parameter profile i of
        None \<Rightarrow> Err (InvalidBackupParameter i)
      | Some p \<Rightarrow>
          if \<not> backup_value_valid D p v then Err (InvalidBackupParameter i)
          else validate_backup_entries D profile rest)"

definition validate_backup_values ::
  "'d decimal_ops \<Rightarrow> 'd backup_snapshot \<Rightarrow> 'd validated_device_profile \<Rightarrow> restore_plan_error + unit" where
  "validate_backup_values D backup profile = validate_backup_entries D profile (bs_values backup)"

definition find_difference :: "'d backup_difference list \<Rightarrow> parameter_id \<Rightarrow> 'd backup_difference option" where
  "find_difference diff i = map_of (rev (map (\<lambda>e. (bd_parameter_id e, e)) diff)) i"

definition status_skip_reason :: "'d backup_difference \<Rightarrow> restore_skip_reason" where
  "status_skip_reason e =
     (case bd_status e of
        Unchanged \<Rightarrow> SkipUnchanged
      | OnlyLeft \<Rightarrow> OnlyInSourceBackup
      | OnlyRight \<Rightarrow> OnlyOnDevice
      | Unreadable \<Rightarrow> SkipUnreadable
      | Incompatible \<Rightarrow> SkipIncompatible
      | NotRestorable \<Rightarrow> Eligibility (bd_eligibility e)
      | Changed \<Rightarrow> Eligibility (bd_eligibility e))"

fun plan_steps ::
  "'d backup_difference list \<Rightarrow> parameter_id list \<Rightarrow> restore_plan_step list \<times> restore_skipped list
     \<Rightarrow> restore_plan_step list \<times> restore_skipped list" where
  "plan_steps diff [] acc = acc"
| "plan_steps diff (i # is) (steps, skipped) =
     (case find_difference diff i of
        None \<Rightarrow> plan_steps diff is
          (steps, skipped @ [\<lparr>rsk_parameter_id = i, rsk_reason = SkipIncompatible\<rparr>])
      | Some e \<Rightarrow>
          if bd_status e = Changed \<and> bd_eligibility e = Eligible
          then plan_steps diff is
            (steps @ [\<lparr>rps_index = length steps, rps_parameter_id = i,
                       rps_expected_old_raw = bpv_raw (the (bd_right e)),
                       rps_target_raw = bpv_raw (the (bd_left e))\<rparr>], skipped)
          else plan_steps diff is
            (steps, skipped @ [\<lparr>rsk_parameter_id = i, rsk_reason = status_skip_reason e\<rparr>]))"

definition unordered_skips :: "'d backup_difference list \<Rightarrow> parameter_id list \<Rightarrow> restore_skipped list" where
  "unordered_skips diff order =
     map (\<lambda>e. \<lparr>rsk_parameter_id = bd_parameter_id e, rsk_reason = NotInRestoreOrder\<rparr>)
       (filter (\<lambda>e. bd_parameter_id e \<notin> set order) diff)"

definition build_restore_plan ::
  "'d decimal_ops \<Rightarrow> sha256 \<Rightarrow> 'd backup_snapshot \<Rightarrow> 'd backup_snapshot \<Rightarrow> 'd validated_device_profile
     \<Rightarrow> write_session_snapshot \<Rightarrow> restore_plan_build_context
     \<Rightarrow> restore_plan_error + approved_restore_plan" where
  "build_restore_plan D sha256 source current profile session ctx =
     (if \<not> is_complete source \<or> \<not> is_complete current then Err IncompleteBackup
      else if \<not> wss_connected session \<or> \<not> wss_audit_healthy session \<or> \<not> wss_operation_idle session
      then Err SessionUnavailable
      else let profile_hash = to_hex (vdp_profile_hash profile) in
      if bs_profile_hash source \<noteq> profile_hash \<or> bs_profile_hash current \<noteq> profile_hash \<or>
         wss_profile_hash session \<noteq> profile_hash \<or>
         bs_profile_id source \<noteq> vdp_profile_id profile \<or>
         bs_profile_id current \<noteq> vdp_profile_id profile \<or>
         bs_profile_revision source \<noteq> vdp_revision profile \<or>
         bs_profile_revision current \<noteq> vdp_revision profile
      then Err ProfileMismatch
      else if bs_device_fingerprint source \<noteq> wss_fingerprint session \<or>
              bs_device_fingerprint current \<noteq> wss_fingerprint session
      then Err FingerprintMismatch
      else and_then (validate_backup_values D source profile) (\<lambda>_.
           and_then (validate_backup_values D current profile) (\<lambda>_.
             let diff = semantic_backup_diff source current (Some profile);
                 (steps, skipped) = plan_steps diff (vdp_restore_order profile) ([], []);
                 skipped = skipped @ unordered_skips diff (vdp_restore_order profile)
             in if steps = [] then Err NoEligibleChanges
                else let plan_hash = ordered_plan_hash sha256 steps;
                         challenge = ''restore:'' @ take 12 plan_hash @ '':'' @ nat_text (length steps)
                     in Ok \<lparr>arp_operation_id = rbc_operation_id ctx, arp_backup_id = bs_backup_id source,
                            arp_pre_restore_backup_id = bs_backup_id current,
                            arp_session_id = wss_session_id session,
                            arp_fingerprint = wss_fingerprint session, arp_profile_hash = profile_hash,
                            arp_steps = steps, arp_plan_hash = plan_hash, arp_skipped = skipped,
                            arp_challenge = challenge, arp_expires_at = rbc_expires_at ctx\<rparr>)))"

subsection \<open>The permit\<close>

record restore_step_result =
  rsr_index :: nat
  rsr_parameter_id :: parameter_id
  rsr_outcome :: device_write_outcome

record restore_operation_permit =
  rop_token :: "operation_token option"
  rop_plan :: approved_restore_plan
  rop_next_index :: nat
  rop_results :: "restore_step_result list"
  rop_active :: bool

definition permit_new :: "operation_token \<Rightarrow> approved_restore_plan \<Rightarrow> restore_operation_permit" where
  "permit_new token plan =
     \<lparr>rop_token = Some token, rop_plan = plan, rop_next_index = 0, rop_results = [], rop_active = True\<rparr>"

definition token_matches_plan :: "restore_operation_permit \<Rightarrow> bool" where
  "token_matches_plan p =
     (case rop_token p of
        None \<Rightarrow> False
      | Some t \<Rightarrow>
          ot_operation_id t = arp_operation_id (rop_plan p) \<and> ot_backup_id t = arp_backup_id (rop_plan p) \<and>
          ot_plan_hash t = arp_plan_hash (rop_plan p) \<and> ot_session_id t = arp_session_id (rop_plan p) \<and>
          ot_fingerprint t = arp_fingerprint (rop_plan p) \<and>
          ot_profile_hash t = arp_profile_hash (rop_plan p))"

text \<open>\<open>next_index\<close> counts the steps of a vector and cannot saturate a \<open>usize\<close>.\<close>

definition record_verified_step ::
  "device_write_outcome \<Rightarrow> restore_operation_permit \<Rightarrow> restore_operation_permit" where
  "record_verified_step outcome p =
     (let step = arp_steps (rop_plan p) ! rop_next_index p
      in p\<lparr>rop_results := rop_results p @
             [\<lparr>rsr_index = rps_index step, rsr_parameter_id = rps_parameter_id step, rsr_outcome = outcome\<rparr>],
           rop_next_index := rop_next_index p + 1\<rparr>)"

definition record_terminal_step ::
  "nat \<Rightarrow> parameter_id \<Rightarrow> device_write_outcome \<Rightarrow> restore_operation_permit \<Rightarrow> restore_operation_permit" where
  "record_terminal_step index parameter_id outcome p =
     p\<lparr>rop_results := rop_results p @
         [\<lparr>rsr_index = index, rsr_parameter_id = parameter_id, rsr_outcome = outcome\<rparr>],
       rop_active := False\<rparr>"

definition permit_deactivate :: "restore_operation_permit \<Rightarrow> restore_operation_permit" where
  "permit_deactivate p = p\<lparr>rop_active := False\<rparr>"

definition take_token :: "restore_operation_permit \<Rightarrow> operation_token option \<times> restore_operation_permit" where
  "take_token p = (rop_token p, p\<lparr>rop_active := False, rop_token := None\<rparr>)"

subsection \<open>Plans\<close>

lemma restore_eligibility_Eligible_iff:
  "restore_eligibility p = Eligible \<longleftrightarrow>
     vp_access p = WritableWhenStopped \<and> vp_restore_policy p = Normal \<and>
     vp_required_drive_state p = RequireStopped \<and> (\<exists>f. vp_write_function p = Some f \<and> is_write f)"
  by (auto simp: restore_eligibility_def split: parameter_access.splits restore_policy.splits option.splits)

lemma diff_status_Changed:
  "diff_status c e lv rv = Changed \<Longrightarrow>
     \<exists>l r. lv = Some l \<and> rv = Some r \<and> c \<and> e = Eligible \<and> bpv_quality l = Good \<and> bpv_quality r = Good \<and>
       (bpv_raw l \<noteq> bpv_raw r \<or> bpv_engineering l \<noteq> bpv_engineering r)"
  by (auto simp: diff_status_def split: option.splits if_splits)

lemma find_difference_Some:
  "find_difference diff i = Some e \<Longrightarrow> e \<in> set diff \<and> bd_parameter_id e = i"
  by (auto simp: find_difference_def dest!: map_of_SomeD)

lemma in_diffD:
  "e \<in> set (semantic_backup_diff l r (Some profile)) \<Longrightarrow>
     bd_left e = bt_get (bs_values l) (bd_parameter_id e) \<and>
     bd_right e = bt_get (bs_values r) (bd_parameter_id e) \<and>
     bd_status e = diff_status (bs_profile_hash l = bs_profile_hash r) (bd_eligibility e) (bd_left e) (bd_right e) \<and>
     bd_eligibility e = (case profile_parameter profile (bd_parameter_id e) of
        None \<Rightarrow> Eligible | Some p \<Rightarrow> restore_eligibility p)"
  by (auto simp: semantic_backup_diff_def Let_def)

lemma diff_ids:
  "bd_parameter_id ` set (semantic_backup_diff l r p) =
     set (map fst (bs_values l)) \<union> set (map fst (bs_values r))"
  by (force simp: semantic_backup_diff_def Let_def image_image)

lemma validate_backup_entries_Ok:
  "validate_backup_entries D profile es = Ok () \<Longrightarrow> (i, v) \<in> set es \<Longrightarrow>
     \<exists>p. profile_parameter profile i = Some p \<and> backup_value_valid D p v"
  by (induction es) (auto split: option.splits if_splits)

definition takes_part :: "'d backup_difference list \<Rightarrow> parameter_id \<Rightarrow> bool" where
  "takes_part diff i \<longleftrightarrow>
     (case find_difference diff i of None \<Rightarrow> False
      | Some e \<Rightarrow> bd_status e = Changed \<and> bd_eligibility e = Eligible)"

lemma plan_steps_spec:
  assumes "plan_steps diff is (steps0, sk0) = (steps, sk)"
  shows "\<exists>new. steps = steps0 @ new \<and> map rps_index new = [length steps0..<length steps0 + length new] \<and>
      map rps_parameter_id new = filter (takes_part diff) is \<and>
      (\<forall>s\<in>set new. \<exists>e. find_difference diff (rps_parameter_id s) = Some e \<and>
         bd_status e = Changed \<and> bd_eligibility e = Eligible \<and>
         rps_expected_old_raw s = bpv_raw (the (bd_right e)) \<and> rps_target_raw s = bpv_raw (the (bd_left e)))"
    and "\<exists>nsk. sk = sk0 @ nsk \<and> map rsk_parameter_id nsk = filter (\<lambda>i. \<not> takes_part diff i) is"
  using assms
proof (induction diff "is" "(steps0, sk0)" arbitrary: steps0 sk0 rule: plan_steps.induct)
  case (1 diff)
  { case 1 then show ?case by simp next case 2 then show ?case by simp }
next
  case (2 diff i "is" steps0 sk0)
  note IH = "2.hyps"
  show "\<exists>new. steps = steps0 @ new \<and> map rps_index new = [length steps0..<length steps0 + length new] \<and>
      map rps_parameter_id new = filter (takes_part diff) (i # is) \<and>
      (\<forall>s\<in>set new. \<exists>e. find_difference diff (rps_parameter_id s) = Some e \<and>
         bd_status e = Changed \<and> bd_eligibility e = Eligible \<and>
         rps_expected_old_raw s = bpv_raw (the (bd_right e)) \<and> rps_target_raw s = bpv_raw (the (bd_left e)))"
    if a: "plan_steps diff (i # is) (steps0, sk0) = (steps, sk)"
  proof (cases "takes_part diff i")
    case True
    then obtain e where e: "find_difference diff i = Some e" "bd_status e = Changed" "bd_eligibility e = Eligible"
      by (auto simp: takes_part_def split: option.splits)
    define s where "s = \<lparr>rps_index = length steps0, rps_parameter_id = i,
      rps_expected_old_raw = bpv_raw (the (bd_right e)), rps_target_raw = bpv_raw (the (bd_left e))\<rparr>"
    from a e have r: "plan_steps diff is (steps0 @ [s], sk0) = (steps, sk)" by (simp add: s_def)
    from IH(3) [OF e(1) _ r [unfolded s_def]] e obtain new where
      "steps = (steps0 @ [s]) @ new" "map rps_index new = [Suc (length steps0)..<Suc (length steps0) + length new]"
      "map rps_parameter_id new = filter (takes_part diff) is"
      "\<forall>s\<in>set new. \<exists>e. find_difference diff (rps_parameter_id s) = Some e \<and>
         bd_status e = Changed \<and> bd_eligibility e = Eligible \<and>
         rps_expected_old_raw s = bpv_raw (the (bd_right e)) \<and> rps_target_raw s = bpv_raw (the (bd_left e))"
      by (auto simp: s_def)
    with e True show ?thesis
      by (intro exI [of _ "s # new"]) (auto simp: s_def upt_conv_Cons simp del: upt_Suc)
  next
    case False
    then show ?thesis
      using a IH(1) IH(5) by (cases "find_difference diff i") (auto simp: takes_part_def split: if_splits)
  qed
  show "\<exists>nsk. sk = sk0 @ nsk \<and> map rsk_parameter_id nsk = filter (\<lambda>i. \<not> takes_part diff i) (i # is)"
    if a: "plan_steps diff (i # is) (steps0, sk0) = (steps, sk)"
  proof (cases "find_difference diff i")
    case None
    with a IH(2) [OF None] show ?thesis by (force simp: takes_part_def)
  next
    case (Some e)
    with a IH(4) [OF Some] IH(6) [OF Some] show ?thesis
      by (cases "bd_status e = Changed \<and> bd_eligibility e = Eligible") (force simp: takes_part_def)+
  qed
qed


lemma build_restore_plan_OkD:
  assumes "build_restore_plan D sha256 source current profile session ctx = Ok plan"
  shows "is_complete source" "is_complete current"
    "wss_connected session" "wss_audit_healthy session" "wss_operation_idle session"
    "bs_profile_hash source = to_hex (vdp_profile_hash profile)"
    "bs_profile_hash current = to_hex (vdp_profile_hash profile)"
    "wss_profile_hash session = to_hex (vdp_profile_hash profile)"
    "bs_device_fingerprint source = wss_fingerprint session"
    "bs_device_fingerprint current = wss_fingerprint session"
    "validate_backup_values D source profile = Ok ()" "validate_backup_values D current profile = Ok ()"
    "arp_steps plan \<noteq> []" "arp_plan_hash plan = ordered_plan_hash sha256 (arp_steps plan)"
    "arp_session_id plan = wss_session_id session" "arp_fingerprint plan = wss_fingerprint session"
    "arp_profile_hash plan = to_hex (vdp_profile_hash profile)"
    "arp_operation_id plan = rbc_operation_id ctx" "arp_expires_at plan = rbc_expires_at ctx"
    "arp_challenge plan = ''restore:'' @ take 12 (arp_plan_hash plan) @ '':'' @ nat_text (length (arp_steps plan))"
    "\<exists>skipped. plan_steps (semantic_backup_diff source current (Some profile)) (vdp_restore_order profile) ([], [])
       = (arp_steps plan, skipped) \<and>
       arp_skipped plan = skipped @ unordered_skips (semantic_backup_diff source current (Some profile)) (vdp_restore_order profile)"
  using assms
  by (auto simp: build_restore_plan_def and_then_Ok_iff Let_def split: if_splits prod.splits)

lemma restore_step_source:
  assumes ok: "build_restore_plan D sha256 source current profile session ctx = Ok plan"
    and s: "s \<in> set (arp_steps plan)"
  shows "rps_parameter_id s \<in> set (vdp_restore_order profile) \<and>
    (\<exists>p l r. profile_parameter profile (rps_parameter_id s) = Some p \<and> restore_parameter_allowed p \<and>
       bt_get (bs_values source) (rps_parameter_id s) = Some l \<and>
       bt_get (bs_values current) (rps_parameter_id s) = Some r \<and>
       backup_value_valid D p l \<and> backup_value_valid D p r \<and>
       rps_target_raw s = bpv_raw l \<and> rps_expected_old_raw s = bpv_raw r \<and>
       (bpv_raw l \<noteq> bpv_raw r \<or> bpv_engineering l \<noteq> bpv_engineering r))"
proof -
  let ?diff = "semantic_backup_diff source current (Some profile)"
  obtain skipped where ps: "plan_steps ?diff (vdp_restore_order profile) ([], []) = (arp_steps plan, skipped)"
    using build_restore_plan_OkD(21) [OF ok] by blast
  from plan_steps_spec(1) [OF ps] have
    ids: "map rps_parameter_id (arp_steps plan) = filter (takes_part ?diff) (vdp_restore_order profile)" and
    all: "\<forall>s\<in>set (arp_steps plan). \<exists>e. find_difference ?diff (rps_parameter_id s) = Some e \<and>
         bd_status e = Changed \<and> bd_eligibility e = Eligible \<and>
         rps_expected_old_raw s = bpv_raw (the (bd_right e)) \<and> rps_target_raw s = bpv_raw (the (bd_left e))"
    by auto
  have "rps_parameter_id s \<in> set (map rps_parameter_id (arp_steps plan))" using s by auto
  then have "rps_parameter_id s \<in> set (filter (takes_part ?diff) (vdp_restore_order profile))"
    by (simp only: ids)
  then have order: "rps_parameter_id s \<in> set (vdp_restore_order profile)" by simp
  from all s obtain e where e: "find_difference ?diff (rps_parameter_id s) = Some e" "bd_status e = Changed"
    "bd_eligibility e = Eligible" "rps_expected_old_raw s = bpv_raw (the (bd_right e))"
    "rps_target_raw s = bpv_raw (the (bd_left e))" by blast
  from find_difference_Some [OF e(1)] in_diffD have d:
    "bd_parameter_id e = rps_parameter_id s"
    "bd_left e = bt_get (bs_values source) (rps_parameter_id s)"
    "bd_right e = bt_get (bs_values current) (rps_parameter_id s)"
    "bd_status e = diff_status (bs_profile_hash source = bs_profile_hash current) (bd_eligibility e) (bd_left e) (bd_right e)"
    "bd_eligibility e = (case profile_parameter profile (rps_parameter_id s) of
        None \<Rightarrow> Eligible | Some p \<Rightarrow> restore_eligibility p)"
    by force+
  from diff_status_Changed e(2) d(4) obtain l r where lr: "bd_left e = Some l" "bd_right e = Some r"
    "bpv_raw l \<noteq> bpv_raw r \<or> bpv_engineering l \<noteq> bpv_engineering r" by metis
  have "(rps_parameter_id s, l) \<in> set (bs_values source)" "(rps_parameter_id s, r) \<in> set (bs_values current)"
    using lr d(2,3) by (auto intro: map_of_SomeD)
  with validate_backup_entries_Ok build_restore_plan_OkD(11,12) [OF ok] obtain p where
    p: "profile_parameter profile (rps_parameter_id s) = Some p" "backup_value_valid D p l" "backup_value_valid D p r"
    unfolding validate_backup_values_def by (metis option.inject)
  have "restore_parameter_allowed p" using d(5) e(3) p(1) by (simp add: restore_parameter_allowed_def)
  moreover have "bt_get (bs_values source) (rps_parameter_id s) = Some l"
    "bt_get (bs_values current) (rps_parameter_id s) = Some r" using lr d(2,3) by simp_all
  moreover have "rps_target_raw s = bpv_raw l" "rps_expected_old_raw s = bpv_raw r" using e(4,5) lr by simp_all
  ultimately show ?thesis using order p lr(3) by blast
qed

lemma restore_plan_ids:
  assumes ok: "build_restore_plan D sha256 source current profile session ctx = Ok plan"
  shows "\<exists>P. map rps_parameter_id (arp_steps plan) = filter P (vdp_restore_order profile) \<and>
    rsk_parameter_id ` set (arp_skipped plan) =
      {i \<in> set (vdp_restore_order profile). \<not> P i} \<union>
      (set (map fst (bs_values source)) \<union> set (map fst (bs_values current)) - set (vdp_restore_order profile))"
    and "map rps_index (arp_steps plan) = [0..<length (arp_steps plan)]"
proof -
  let ?diff = "semantic_backup_diff source current (Some profile)"
  let ?order = "vdp_restore_order profile"
  obtain skipped where ps: "plan_steps ?diff ?order ([], []) = (arp_steps plan, skipped)"
    and sk: "arp_skipped plan = skipped @ unordered_skips ?diff ?order"
    using build_restore_plan_OkD(21) [OF ok] by blast
  from plan_steps_spec(1) [OF ps] have
    ids: "map rps_parameter_id (arp_steps plan) = filter (takes_part ?diff) ?order"
    and idx: "map rps_index (arp_steps plan) = [0..<length (arp_steps plan)]" by auto
  from plan_steps_spec(2) [OF ps] have
    "map rsk_parameter_id skipped = filter (\<lambda>i. \<not> takes_part ?diff i) ?order" by auto
  then have "rsk_parameter_id ` set skipped = {i \<in> set ?order. \<not> takes_part ?diff i}"
    by (metis list.set_map set_filter)
  moreover have "rsk_parameter_id ` set (unordered_skips ?diff ?order) =
      bd_parameter_id ` set ?diff - set ?order"
    by (auto simp: unordered_skips_def image_image)
  ultimately have "rsk_parameter_id ` set (arp_skipped plan) =
      {i \<in> set ?order. \<not> takes_part ?diff i} \<union>
      (set (map fst (bs_values source)) \<union> set (map fst (bs_values current)) - set ?order)"
    unfolding sk set_append image_Un diff_ids by simp
  with ids show "\<exists>P. map rps_parameter_id (arp_steps plan) = filter P ?order \<and>
    rsk_parameter_id ` set (arp_skipped plan) = {i \<in> set ?order. \<not> P i} \<union>
      (set (map fst (bs_values source)) \<union> set (map fst (bs_values current)) - set ?order)"
    by blast
  show "map rps_index (arp_steps plan) = [0..<length (arp_steps plan)]" by (rule idx)
qed

subsection \<open>Properties\<close>

definition demo_value :: "u16 \<Rightarrow> rat backup_parameter_value" where
  "demo_value w = \<lparr>bpv_code = ''C1'', bpv_raw = [w], bpv_engineering = Fixed (of_int (uint w)),
     bpv_quantity = ''unitless'', bpv_unit = ''1'', bpv_quality = Good, bpv_observed_at = 0,
     bpv_access = WritableWhenStopped, bpv_restore_policy = Normal\<rparr>"

definition demo_backup :: "u16 \<Rightarrow> rat backup_snapshot" where
  "demo_backup w = \<lparr>bs_app_version = [], bs_build_id = [], bs_backup_id = ucast w, bs_started_at = 0,
     bs_finished_at = 0, bs_profile_id = ''vfd.a'', bs_profile_revision = 1, bs_profile_origin = [],
     bs_source_hash = [], bs_profile_hash = ''00'', bs_device_fingerprint = ''fp'', bs_vendor = [],
     bs_model = [], bs_slave_id = 1, bs_adapter = [], bs_link_settings = [], bs_drive_state = Stopped,
     bs_completeness = BackupComplete, bs_values = [(''ramp'', demo_value w)], bs_errors = []\<rparr>"

lemma demo_backup_valid: "w \<noteq> 7 \<Longrightarrow> validate_backup_values rat_decimal (demo_backup w) demo_profile = Ok ()"
  by (simp add: validate_backup_values_def demo_backup_def profile_parameter_def demo_profile_def
      backup_value_valid_def demo_value_def demo_parameter_def demo_decode demo_block_def)

lemma demo_diff:
  "semantic_backup_diff (demo_backup 5) (demo_backup 3) (Some demo_profile) =
     [\<lparr>bd_parameter_id = ''ramp'', bd_status = Changed, bd_eligibility = Eligible,
       bd_left = Some (demo_value 5), bd_right = Some (demo_value 3)\<rparr>]"
  by (simp add: semantic_backup_diff_def demo_backup_def btree_set_def profile_parameter_def demo_profile_def
      restore_eligibility_def demo_parameter_def is_write_def diff_status_def demo_value_def)

definition demo_context :: restore_plan_build_context where
  "demo_context = \<lparr>rbc_operation_id = 9, rbc_expires_at = 100\<rparr>"

definition demo_step :: restore_plan_step where
  "demo_step = \<lparr>rps_index = 0, rps_parameter_id = ''ramp'', rps_expected_old_raw = [3], rps_target_raw = [5]\<rparr>"

lemma demo_plan:
  "\<exists>plan. build_restore_plan rat_decimal (\<lambda>_. replicate 32 0) (demo_backup 5) (demo_backup 3) demo_profile
     demo_snapshot demo_context = Ok plan \<and> arp_steps plan = [demo_step]"
  by (simp add: build_restore_plan_def demo_backup_valid demo_diff Let_def)
    (simp add: demo_backup_def demo_snapshot_def demo_profile_def is_complete_def find_difference_def
      demo_value_def unordered_skips_def demo_step_def Let_def)



text \<open>
  A restore plan leaves nothing out silently. Every parameter of the restore order and every
  parameter found in either backup is either a step of the plan or listed as skipped, nothing else
  is, and no parameter is both.
\<close>

theorem restore_plan_accounts_for_every_parameter:
  assumes "build_restore_plan D sha256 source current profile session ctx = Ok plan"
  shows "rps_parameter_id ` set (arp_steps plan) \<union> rsk_parameter_id ` set (arp_skipped plan) =
      set (vdp_restore_order profile) \<union> set (map fst (bs_values source)) \<union> set (map fst (bs_values current)) \<and>
    rps_parameter_id ` set (arp_steps plan) \<inter> rsk_parameter_id ` set (arp_skipped plan) = {}"
proof -
  from restore_plan_ids(1) [OF assms] obtain P where
    ids: "map rps_parameter_id (arp_steps plan) = filter P (vdp_restore_order profile)" and
    sk: "rsk_parameter_id ` set (arp_skipped plan) = {i \<in> set (vdp_restore_order profile). \<not> P i} \<union>
      (set (map fst (bs_values source)) \<union> set (map fst (bs_values current)) - set (vdp_restore_order profile))"
    by blast
  have "rps_parameter_id ` set (arp_steps plan) = {i \<in> set (vdp_restore_order profile). P i}"
    by (metis ids list.set_map set_filter)
  with sk show ?thesis by auto
qed

theorem restore_plan_accounts_for_every_parameter_witness:
  "\<exists>plan. build_restore_plan rat_decimal (\<lambda>_. replicate 32 0) (demo_backup 5) (demo_backup 3) demo_profile
     demo_snapshot demo_context = Ok plan \<and>
     rps_parameter_id ` set (arp_steps plan) \<union> rsk_parameter_id ` set (arp_skipped plan) = {''ramp''}"
  using demo_plan restore_plan_accounts_for_every_parameter
  by (fastforce simp: demo_profile_def demo_backup_def)

end
