(* ===== verification/Floats.thy ===== *)
theory Floats
  imports Prelude
begin

unbundle bit_operations_syntax

text \<open>
  The \<open>f64\<close> arithmetic that the read-back tolerance uses. A float is its rational value, an
  infinity, or not a number; the sign of a zero is not observable by what the code computes with
  it. Arithmetic is exact arithmetic followed by rounding to the nearest representable value, ties
  to the even significand, with gradual underflow and overflow to infinity.
\<close>

datatype f64 = Finite rat | Infinite bool | NotANumber

definition pow2 :: "int \<Rightarrow> rat" where
  "pow2 e = (if 0 \<le> e then 2 ^ nat e else 1 / 2 ^ nat (- e))"

definition ieee_value :: "nat \<Rightarrow> int \<Rightarrow> nat \<Rightarrow> nat \<Rightarrow> nat \<Rightarrow> f64" where
  "ieee_value mant_bits bias exp_max e m =
     (if e = exp_max then (if m = 0 then Infinite False else NotANumber)
      else if e = 0 then Finite (of_nat m * pow2 (1 - bias - int mant_bits))
      else Finite (of_nat (2 ^ mant_bits + m) * pow2 (int e - bias - int mant_bits)))"

fun f64_neg :: "f64 \<Rightarrow> f64" where
  "f64_neg (Finite x) = Finite (- x)"
| "f64_neg (Infinite n) = Infinite (\<not> n)"
| "f64_neg NotANumber = NotANumber"

definition f64_from_bits :: "u64 \<Rightarrow> f64" where
  "f64_from_bits b =
     (let v = ieee_value 52 1023 2047 (unat (drop_bit 52 b AND 0x7ff)) (unat (take_bit 52 b))
      in if bit b 63 then f64_neg v else v)"

definition f64_from_f32_bits :: "u32 \<Rightarrow> f64" where
  "f64_from_f32_bits b =
     (let v = ieee_value 23 127 255 (unat (drop_bit 23 b AND 0xff)) (unat (take_bit 23 b))
      in if bit b 31 then f64_neg v else v)"

definition f64_is_finite :: "f64 \<Rightarrow> bool" where
  "f64_is_finite x \<longleftrightarrow> (case x of Finite _ \<Rightarrow> True | _ \<Rightarrow> False)"

definition round_half_even :: "rat \<Rightarrow> int" where
  "round_half_even q =
     (let n = \<lfloor>q\<rfloor>; r = q - of_int n
      in if r < 1 / 2 then n else if r > 1 / 2 then n + 1 else if even n then n else n + 1)"

fun bit_length :: "nat \<Rightarrow> nat" where
  "bit_length n = (if n = 0 then 0 else Suc (bit_length (n div 2)))"

declare bit_length.simps [simp del]

definition floor_log2 :: "rat \<Rightarrow> int" where
  "floor_log2 x =
     (let (p, q) = quotient_of x; k = int (bit_length (nat p)) - int (bit_length (nat q))
      in if pow2 k \<le> x then k else k - 1)"

definition f64_round :: "rat \<Rightarrow> f64" where
  "f64_round x =
     (if x = 0 then Finite 0
      else let e = max (floor_log2 \<bar>x\<bar> - 52) (- 1074);
               y = of_int (round_half_even (\<bar>x\<bar> / pow2 e)) * pow2 e
           in if pow2 1024 \<le> y then Infinite (x < 0) else Finite (if x < 0 then - y else y))"

fun f64_abs :: "f64 \<Rightarrow> f64" where
  "f64_abs (Finite x) = Finite \<bar>x\<bar>"
| "f64_abs (Infinite _) = Infinite False"
| "f64_abs NotANumber = NotANumber"

fun f64_add :: "f64 \<Rightarrow> f64 \<Rightarrow> f64" where
  "f64_add (Finite x) (Finite y) = f64_round (x + y)"
| "f64_add (Infinite a) (Infinite b) = (if a = b then Infinite a else NotANumber)"
| "f64_add (Infinite a) (Finite _) = Infinite a"
| "f64_add (Finite _) (Infinite b) = Infinite b"
| "f64_add _ _ = NotANumber"

definition f64_sub :: "f64 \<Rightarrow> f64 \<Rightarrow> f64" where
  "f64_sub x y = f64_add x (f64_neg y)"

fun f64_mul :: "f64 \<Rightarrow> f64 \<Rightarrow> f64" where
  "f64_mul (Finite x) (Finite y) = f64_round (x * y)"
| "f64_mul (Infinite a) (Infinite b) = Infinite (a \<noteq> b)"
| "f64_mul (Infinite a) (Finite y) = (if y = 0 then NotANumber else Infinite (a \<noteq> (y < 0)))"
| "f64_mul (Finite x) (Infinite b) = (if x = 0 then NotANumber else Infinite ((x < 0) \<noteq> b))"
| "f64_mul _ _ = NotANumber"

fun f64_le :: "f64 \<Rightarrow> f64 \<Rightarrow> bool" where
  "f64_le (Finite x) (Finite y) = (x \<le> y)"
| "f64_le (Infinite a) (Infinite b) = (a \<or> \<not> b)"
| "f64_le (Infinite a) (Finite _) = a"
| "f64_le (Finite _) (Infinite b) = (\<not> b)"
| "f64_le _ _ = False"

lemma f64_sub_self [simp]: "f64_is_finite x \<Longrightarrow> f64_sub x x = Finite 0"
  by (cases x) (simp_all add: f64_is_finite_def f64_sub_def f64_round_def)

lemma f64_le_NaN [simp]: "\<not> f64_le NotANumber x" "\<not> f64_le x NotANumber"
  by (cases x; simp)+

end
