(* ===== verification/Write_Coordinator.thy ===== *)
theory Write_Coordinator
  imports Restore Floats
begin

unbundle bit_operations_syntax

text \<open>
  \<open>lantern-app/src/write_coordinator.rs\<close>: the guarded write kernel. Phase one
  (\<open>prepare_write\<close>) checks an intent against the session, the trusted profile and fresh reads and
  stores a short-lived plan; phase two (\<open>confirm_write\<close>) consumes the plan, repeats every check,
  persists the preparation and performs the one physical write with its read-back. Restores run
  step by step through the same \<open>execute_once\<close>. Handlers are computations of the state monad over
  the coordinator's state; the sealed authority token of the code carries no data and is not
  represented.
\<close>

subsection \<open>Configuration, plans, authority\<close>

record write_coordinator_config =
  wcc_process_writes_enabled :: bool
  wcc_plan_ttl :: duration
  wcc_request_timeout :: duration
  wcc_read_back_attempts :: u8
  wcc_read_back_settle_delay :: duration

definition default_write_config :: write_coordinator_config where
  "default_write_config = \<lparr>wcc_process_writes_enabled = False, wcc_plan_ttl = from_secs 15,
     wcc_request_timeout = from_secs 1, wcc_read_back_attempts = 3,
     wcc_read_back_settle_delay = from_millis 100\<rparr>"

datatype 'd write_confirmation_model = Standard | CommissioningModel string "'d engineering_value"

datatype (plugins only: code size) 'd write_confirmation =
    Confirm string
  | ConfirmCommissioning string string "'d engineering_value"
  | ConfirmCancelled

record 'd prepared_write_plan =
  pwp_plan_id :: plan_id
  pwp_operation_id :: operation_id
  pwp_session_id :: session_id
  pwp_fingerprint :: device_fingerprint
  pwp_profile_hash :: string
  pwp_parameter_id :: parameter_id
  pwp_context_hash :: string
  pwp_previous_raw :: raw_registers
  pwp_previous_engineering :: "'d engineering_value"
  pwp_requested_engineering :: "'d engineering_value"
  pwp_target_raw :: raw_registers
  pwp_confirmation :: "'d write_confirmation_model"
  pwp_challenge :: string
  pwp_expires_at :: monotonic_instant

record operation_step_authority =
  osa_operation_id :: operation_id
  osa_plan_hash :: string
  osa_session_id :: session_id
  osa_fingerprint :: device_fingerprint
  osa_profile_hash :: string
  osa_step_index :: nat
  osa_parameter_id :: parameter_id
  osa_expected_old_raw :: raw_registers
  osa_target_raw :: raw_registers
  osa_context_hash :: string

record 'd stored_plan =
  sp_plan :: "'d prepared_write_plan"
  sp_guard_revision :: u64

datatype 'd execution_authority =
    Manual "'d prepared_write_plan" | OperationStep operation_step_authority

definition ea_operation_id :: "'d execution_authority \<Rightarrow> operation_id" where
  "ea_operation_id a = (case a of Manual p \<Rightarrow> pwp_operation_id p | OperationStep s \<Rightarrow> osa_operation_id s)"

definition ea_session_id :: "'d execution_authority \<Rightarrow> session_id" where
  "ea_session_id a = (case a of Manual p \<Rightarrow> pwp_session_id p | OperationStep s \<Rightarrow> osa_session_id s)"

definition ea_fingerprint :: "'d execution_authority \<Rightarrow> device_fingerprint" where
  "ea_fingerprint a = (case a of Manual p \<Rightarrow> pwp_fingerprint p | OperationStep s \<Rightarrow> osa_fingerprint s)"

definition ea_profile_hash :: "'d execution_authority \<Rightarrow> string" where
  "ea_profile_hash a = (case a of Manual p \<Rightarrow> pwp_profile_hash p | OperationStep s \<Rightarrow> osa_profile_hash s)"

definition ea_parameter_id :: "'d execution_authority \<Rightarrow> parameter_id" where
  "ea_parameter_id a = (case a of Manual p \<Rightarrow> pwp_parameter_id p | OperationStep s \<Rightarrow> osa_parameter_id s)"

definition ea_expected_old_raw :: "'d execution_authority \<Rightarrow> raw_registers" where
  "ea_expected_old_raw a =
     (case a of Manual p \<Rightarrow> pwp_previous_raw p | OperationStep s \<Rightarrow> osa_expected_old_raw s)"

definition ea_target_raw :: "'d execution_authority \<Rightarrow> raw_registers" where
  "ea_target_raw a = (case a of Manual p \<Rightarrow> pwp_target_raw p | OperationStep s \<Rightarrow> osa_target_raw s)"

definition ea_context_hash :: "'d execution_authority \<Rightarrow> string" where
  "ea_context_hash a = (case a of Manual p \<Rightarrow> pwp_context_hash p | OperationStep s \<Rightarrow> osa_context_hash s)"

definition operation_step_is_well_formed :: "'d execution_authority \<Rightarrow> bool" where
  "operation_step_is_well_formed a =
     (case a of Manual _ \<Rightarrow> True
      | OperationStep s \<Rightarrow>
          osa_plan_hash s \<noteq> [] \<and> osa_context_hash s \<noteq> [] \<and> osa_step_index s < 2 ^ 64 - 1)"

datatype (plugins only: code size) write_coordinator_error =
    InvalidConfiguration string
  | WriteNotExecuted decision_outcome
  | UnknownOrConsumedPlan
  | RestorePlanFailed restore_plan_error
  | RestoreRejected
  | RestoreAuditUnavailable
  | InvalidRestorePermit
  | RestoreFinalizationFailed

record ('w, 'd) write_coordinator = "('w, 'd) actor" +
  wc_plans :: "(plan_id, 'd stored_plan) btree_map"
  wc_next_plan_id :: u128
  wc_next_operation_id :: u128
  wc_next_request_id :: u64

record ('w, 'd) write_env =
  we_ports :: "('w, 'd) ports"
  we_config :: write_coordinator_config
  we_decimal :: "'d decimal_ops"
  we_sha256 :: sha256

type_synonym ('w, 'd, 'r) write_monad = "(('w, 'd) write_coordinator, 'r) state"

definition write_coordinator_new ::
  "'w \<Rightarrow> write_coordinator_config \<Rightarrow> write_coordinator_error + ('w, 'd) write_coordinator" where
  "write_coordinator_new w config =
     (if wcc_plan_ttl config = 0 \<or> wcc_plan_ttl config > from_secs 15
      then Err (InvalidConfiguration ''plan_ttl must be in 1ns..=15s'')
      else if wcc_request_timeout config = 0
      then Err (InvalidConfiguration ''request_timeout must be non-zero'')
      else if \<not> (1 \<le> wcc_read_back_attempts config \<and> wcc_read_back_attempts config \<le> 4)
      then Err (InvalidConfiguration ''read_back_attempts must be in 1..=4'')
      else Ok \<lparr>ac_world = w, ac_trace = [], wc_plans = [], wc_next_plan_id = 1,
               wc_next_operation_id = 1, wc_next_request_id = 1\<rparr>)"

definition allocate_plan_id :: "('w, 'd, plan_id) write_monad" where
  "allocate_plan_id =
     State (\<lambda>s. (wc_next_plan_id s, s\<lparr>wc_next_plan_id := sat_inc (wc_next_plan_id s)\<rparr>))"

definition allocate_operation_id :: "('w, 'd, operation_id) write_monad" where
  "allocate_operation_id =
     State (\<lambda>s. (wc_next_operation_id s, s\<lparr>wc_next_operation_id := sat_inc (wc_next_operation_id s)\<rparr>))"

definition allocate_request_id :: "('w, 'd, request_id) write_monad" where
  "allocate_request_id =
     State (\<lambda>s. (wc_next_request_id s, s\<lparr>wc_next_request_id := sat_inc (wc_next_request_id s)\<rparr>))"

subsection \<open>Guards\<close>

definition manual_parameter_allowed :: "'d validated_parameter \<Rightarrow> bool" where
  "manual_parameter_allowed p \<longleftrightarrow>
     (vp_access p = WritableWhenStopped \<or> vp_access p = Commissioning) \<and>
     vp_required_drive_state p = RequireStopped \<and>
     (case vp_write_function p of None \<Rightarrow> False | Some f \<Rightarrow> is_write f)"

definition ea_parameter_allowed :: "'d execution_authority \<Rightarrow> 'd validated_parameter \<Rightarrow> bool" where
  "ea_parameter_allowed a p =
     (case a of Manual _ \<Rightarrow> manual_parameter_allowed p | OperationStep _ \<Rightarrow> restore_parameter_allowed p)"

definition allowed_bits :: "'d validated_parameter \<Rightarrow> u64" where
  "allowed_bits p = foldl (\<lambda>mask bit. mask OR push_bit (unat bit) 1) 0 (map fst (vp_bit_flags p))"

definition target_value_allowed ::
  "'d decimal_ops \<Rightarrow> 'd validated_parameter \<Rightarrow> 'd engineering_value \<Rightarrow> bool" where
  "target_value_allowed D p v =
     (case v of
        Fixed x \<Rightarrow>
          \<not> (case vp_minimum p of None \<Rightarrow> False | Some lo \<Rightarrow> dec_less D x lo) \<and>
          \<not> (case vp_maximum p of None \<Rightarrow> False | Some hi \<Rightarrow> dec_less D hi x) \<and>
          (case vp_step p of
             None \<Rightarrow> True
           | Some step \<Rightarrow>
               \<not> dec_is_zero D step \<and>
               (case dec_checked_sub D x (case vp_minimum p of None \<Rightarrow> dec_zero D | Some lo \<Rightarrow> lo) of
                  None \<Rightarrow> False
                | Some delta \<Rightarrow> dec_is_zero D (dec_rem D delta step)))
      | Float32Bits bits \<Rightarrow> f64_is_finite (f64_from_f32_bits bits)
      | Float64Bits bits \<Rightarrow> f64_is_finite (f64_from_bits bits)
      | EnumRaw raw \<Rightarrow> bt_get (vp_enum_values p) raw \<noteq> None
      | BitfieldRaw raw \<Rightarrow> raw AND NOT (allowed_bits p) = 0)"

definition authoritative_target ::
  "'d decimal_ops \<Rightarrow> 'd validated_parameter \<Rightarrow> 'd engineering_value \<Rightarrow> unit + raw_registers" where
  "authoritative_target D p v =
     (if \<not> manual_parameter_allowed p then Err ()
      else if \<not> target_value_allowed D p v then Err ()
      else and_then (map_err (\<lambda>_. ()) (encode D (vp_codec p) v)) (\<lambda>encoded.
           and_then (map_err (\<lambda>_. ()) (raw_registers_new encoded)) (\<lambda>raw.
             if raw \<in> set (vp_forbidden_raw p) then Err () else Ok raw)))"

definition intent_matches_session :: "'d write_intent \<Rightarrow> write_session_snapshot \<Rightarrow> bool" where
  "intent_matches_session i s \<longleftrightarrow>
     wss_session_id s = wi_session_id i \<and> wss_fingerprint s = wi_fingerprint i \<and>
     wss_profile_hash s = wi_profile_hash i"

definition plan_matches_session :: "'d prepared_write_plan \<Rightarrow> write_session_snapshot \<Rightarrow> bool" where
  "plan_matches_session p s \<longleftrightarrow>
     wss_connected s \<and> wss_armed s \<and> wss_audit_healthy s \<and> wss_operation_idle s \<and>
     wss_session_id s = pwp_session_id p \<and> wss_fingerprint s = pwp_fingerprint p \<and>
     wss_profile_hash s = pwp_profile_hash p"

definition same_write_context :: "write_session_snapshot \<Rightarrow> write_session_snapshot \<Rightarrow> bool" where
  "same_write_context l r \<longleftrightarrow>
     wss_session_id l = wss_session_id r \<and> wss_fingerprint l = wss_fingerprint r \<and>
     wss_profile_hash l = wss_profile_hash r \<and> wss_connected l = wss_connected r \<and>
     wss_armed l = wss_armed r \<and> wss_audit_healthy l = wss_audit_healthy r \<and>
     wss_operation_idle l = wss_operation_idle r \<and> wss_guard_revision l = wss_guard_revision r \<and>
     wss_slave_id l = wss_slave_id r"

fun confirmation_model_matches ::
  "string \<Rightarrow> 'd write_confirmation_model \<Rightarrow> 'd write_confirmation \<Rightarrow> bool" where
  "confirmation_model_matches expected Standard (Confirm challenge) = (challenge = expected)"
| "confirmation_model_matches expected (CommissioningModel code value) (ConfirmCommissioning challenge c v) =
     (challenge = expected \<and> c = code \<and> v = value)"
| "confirmation_model_matches expected _ _ = False"

definition confirmation_matches :: "'d prepared_write_plan \<Rightarrow> 'd write_confirmation \<Rightarrow> bool" where
  "confirmation_matches p c = confirmation_model_matches (pwp_challenge p) (pwp_confirmation p) c"

definition restore_plan_matches_idle_session :: "approved_restore_plan \<Rightarrow> write_session_snapshot \<Rightarrow> bool" where
  "restore_plan_matches_idle_session p s \<longleftrightarrow>
     wss_connected s \<and> wss_armed s \<and> wss_audit_healthy s \<and> wss_operation_idle s \<and>
     wss_session_id s = arp_session_id p \<and> wss_fingerprint s = arp_fingerprint p \<and>
     wss_profile_hash s = arp_profile_hash p"

definition restore_plan_matches_active_session :: "approved_restore_plan \<Rightarrow> write_session_snapshot \<Rightarrow> bool" where
  "restore_plan_matches_active_session p s \<longleftrightarrow>
     wss_connected s \<and> wss_armed s \<and> wss_audit_healthy s \<and> \<not> wss_operation_idle s \<and>
     wss_session_id s = arp_session_id p \<and> wss_fingerprint s = arp_fingerprint p \<and>
     wss_profile_hash s = arp_profile_hash p"

subsection \<open>Context hashes and texts\<close>

definition hash_raw_bytes :: "raw_registers \<Rightarrow> u8 list" where
  "hash_raw_bytes raw = concat (map (\<lambda>w. be_bytes 2 (unat w)) raw) @ [0xff]"

definition engineering_key :: "'d decimal_ops \<Rightarrow> 'd engineering_value \<Rightarrow> string" where
  "engineering_key D v =
     (case v of
        Fixed x \<Rightarrow> ''fixed:'' @ dec_normalized_text D x
      | Float32Bits b \<Rightarrow> ''f32:'' @ to_hex (be_bytes 4 (unat b))
      | Float64Bits b \<Rightarrow> ''f64:'' @ to_hex (be_bytes 8 (unat b))
      | EnumRaw r \<Rightarrow> ''enum:'' @ int_text r
      | BitfieldRaw r \<Rightarrow> ''bits:'' @ to_hex (be_bytes 8 (unat r)))"

definition write_context_hash ::
  "'d decimal_ops \<Rightarrow> sha256 \<Rightarrow> plan_id \<Rightarrow> operation_id \<Rightarrow> session_id \<Rightarrow> device_fingerprint \<Rightarrow> string
     \<Rightarrow> parameter_id \<Rightarrow> raw_registers \<Rightarrow> 'd engineering_value \<Rightarrow> 'd engineering_value \<Rightarrow> raw_registers
     \<Rightarrow> u64 \<Rightarrow> string" where
  "write_context_hash D sha256 plan_id operation_id sid fingerprint profile_hash parameter_id
       old_raw old_engineering requested target_raw guard_revision =
     to_hex (sha256
       (be_bytes 16 (unat plan_id) @ be_bytes 16 (unat operation_id) @ be_bytes 16 (unat sid) @
        str_bytes fingerprint @ [0] @ str_bytes profile_hash @ [0] @ str_bytes parameter_id @ [0] @
        hash_raw_bytes old_raw @ str_bytes (engineering_key D old_engineering) @ [0] @
        str_bytes (engineering_key D requested) @ [0] @ hash_raw_bytes target_raw @
        be_bytes 8 (unat guard_revision)))"

definition restore_step_context_hash ::
  "'d decimal_ops \<Rightarrow> sha256 \<Rightarrow> approved_restore_plan \<Rightarrow> restore_plan_step \<Rightarrow> 'd engineering_value
     \<Rightarrow> 'd engineering_value \<Rightarrow> string" where
  "restore_step_context_hash D sha256 plan step old_engineering target_engineering =
     to_hex (sha256
       (be_bytes 16 (unat (arp_operation_id plan)) @ str_bytes (arp_plan_hash plan) @
        be_bytes 8 (rps_index step) @ be_bytes 16 (unat (arp_session_id plan)) @
        str_bytes (arp_fingerprint plan) @ [0] @ str_bytes (arp_profile_hash plan) @ [0] @
        str_bytes (rps_parameter_id step) @ [0] @ hash_raw_bytes (rps_expected_old_raw step) @
        str_bytes (engineering_key D old_engineering) @ [0] @ hash_raw_bytes (rps_target_raw step) @
        str_bytes (engineering_key D target_engineering)))"

definition restore_outcome_reason :: "device_write_outcome \<Rightarrow> string" where
  "restore_outcome_reason o' =
     (case o' of Verified \<Rightarrow> ''verified'' | DeviceRejected \<Rightarrow> ''device-rejected''
      | ReadBackMismatch \<Rightarrow> ''read-back-mismatch'' | OutcomeUnknown \<Rightarrow> ''outcome-unknown''
      | TransportLost \<Rightarrow> ''transport-lost'' | AuditDegraded \<Rightarrow> ''audit-degraded'')"

text \<open>The causes are ASCII texts of the program: characters are bytes.\<close>

definition bounded_restore_cause :: "string \<Rightarrow> string" where
  "bounded_restore_cause cause =
     take 160 (filter (\<lambda>c. \<not> ((of_char c :: nat) < 32 \<or> (of_char c :: nat) = 127)) cause)"

definition map_write_error :: "bus_error \<Rightarrow> device_write_outcome" where
  "map_write_error e =
     (case e of
        BusProtocolException _ \<Rightarrow> DeviceRejected
      | BusOutcomeUnknown \<Rightarrow> OutcomeUnknown
      | ResponseTimeout \<Rightarrow> OutcomeUnknown
      | InvalidResponse \<Rightarrow> OutcomeUnknown
      | InvalidRequest _ \<Rightarrow> TransportLost
      | BusPortRemoved \<Rightarrow> TransportLost
      | PermissionDenied \<Rightarrow> TransportLost
      | PortBusy \<Rightarrow> TransportLost
      | BusIo _ \<Rightarrow> TransportLost
      | TimeoutBeforeSend \<Rightarrow> TransportLost
      | InvalidFrameOrTransport \<Rightarrow> TransportLost
      | BusCancelled \<Rightarrow> TransportLost
      | QueueFull \<Rightarrow> TransportLost
      | BusShutdown \<Rightarrow> TransportLost)"

definition engineering_to_f64 :: "'d engineering_value \<Rightarrow> f64 option" where
  "engineering_to_f64 v =
     (case v of Float64Bits b \<Rightarrow> Some (f64_from_bits b) | Float32Bits b \<Rightarrow> Some (f64_from_f32_bits b)
      | _ \<Rightarrow> None)"

definition within_tolerance :: "'d decimal_ops \<Rightarrow> 'd \<Rightarrow> 'd \<Rightarrow> f64 \<Rightarrow> f64 \<Rightarrow> bool" where
  "within_tolerance D absolute relative expected actual \<longleftrightarrow>
     f64_is_finite expected \<and> f64_is_finite actual \<and>
     f64_le (f64_abs (f64_sub actual expected))
       (f64_add (f64_abs (f64_round (dec_value D absolute)))
         (f64_mul (f64_abs (f64_round (dec_value D relative))) (f64_abs expected)))"

definition read_back_matches ::
  "'d decimal_ops \<Rightarrow> 'd validated_parameter \<Rightarrow> raw_registers \<Rightarrow> raw_registers \<Rightarrow> bool" where
  "read_back_matches D p expected_raw actual_raw =
     (case vp_read_back p of
        ExactRaw \<Rightarrow> actual_raw = expected_raw
      | FloatExactBits \<Rightarrow> actual_raw = expected_raw
      | AcceptedRawSet accepted \<Rightarrow> actual_raw \<in> set accepted
      | FloatAbsRelTolerance absolute relative \<Rightarrow>
          (case (decode D (vp_codec p) expected_raw, decode D (vp_codec p) actual_raw) of
             (Inr expected, Inr actual) \<Rightarrow>
               (case (engineering_to_f64 expected, engineering_to_f64 actual) of
                  (Some e, Some a) \<Rightarrow> within_tolerance D absolute relative e a
                | _ \<Rightarrow> False)
           | _ \<Rightarrow> False))"

subsection \<open>Reads and decisions\<close>

definition read_parameter_raw ::
  "('w, 'd) write_env \<Rightarrow> 'd validated_parameter \<Rightarrow> session_id \<Rightarrow> operation_id
     \<Rightarrow> ('w, 'd, bus_error + raw_registers) write_monad" where
  "read_parameter_raw E p sid operation_id = do {
     request_id \<leftarrow> allocate_request_id;
     (let f = read_function_of p; b = vp_block p in
      case register_block_new (rb_table b) (rb_start b) (rb_count b) f of
        Inl _ \<Rightarrow> State_Monad.return (Err (InvalidRequest ''invalid profile read block''))
      | Inr block \<Rightarrow> do {
          now \<leftarrow> call (po_instant_now (we_ports E)) EvNow;
          snap \<leftarrow> call (po_snapshot (we_ports E)) EvSnapshot;
          (case read_request_one_shot
                  (safety_one_shot request_id sid (now + wcc_request_timeout (we_config E)) (Some operation_id))
                  (wss_slave_id snap) f block of
             Inl e \<Rightarrow> State_Monad.return (Err e)
           | Inr request \<Rightarrow> call (po_read (we_ports E) request) (EvRead request))
        })
   }"

definition read_drive_state ::
  "('w, 'd) write_env \<Rightarrow> 'd validated_device_profile \<Rightarrow> session_id \<Rightarrow> operation_id
     \<Rightarrow> ('w, 'd, bus_error + drive_state) write_monad" where
  "read_drive_state E profile sid operation_id =
     (case vdp_drive_state_source profile of
        None \<Rightarrow> State_Monad.return
          (Err (InvalidRequest ''profile has no authoritative drive-state source''))
      | Some source \<Rightarrow>
          (case profile_parameter profile (dss_parameter_id source) of
             None \<Rightarrow> State_Monad.return (Err (InvalidRequest ''drive-state source parameter disappeared''))
           | Some p \<Rightarrow> do {
               raw \<leftarrow> read_parameter_raw E p sid operation_id;
               State_Monad.return (map_sum id (classify source) raw)
             }))"

definition persist_decision ::
  "('w, 'd) write_env \<Rightarrow> decision_audit_record \<Rightarrow> decision_outcome \<Rightarrow> ('w, 'd, decision_outcome) write_monad" where
  "persist_decision E record original = do {
     available \<leftarrow> call (po_is_available (we_ports E)) EvAuditAvailable;
     persisted \<leftarrow> (if available
       then do {
         r \<leftarrow> call (po_record_decision (we_ports E) record) (EvDecision record);
         State_Monad.return (r = Ok ())
       }
       else State_Monad.return False);
     if persisted then State_Monad.return original
     else do {
       _ \<leftarrow> call (po_degrade_audit_and_disarm (we_ports E)) (\<lambda>_. EvDegrade);
       let message = ''write decision '' @ decision_name original @
         '' could not be persisted; returning AuditUnavailable'';
       _ \<leftarrow> call (po_report_write_diagnostic (we_ports E) message) (\<lambda>_. EvDiagnostic message);
       State_Monad.return DecisionAuditUnavailable
     }
   }"

definition intent_decision ::
  "('w, 'd) write_env \<Rightarrow> plan_id \<Rightarrow> 'd write_intent \<Rightarrow> decision_outcome
     \<Rightarrow> ('w, 'd, write_coordinator_error) write_monad" where
  "intent_decision E plan_id intent decision = do {
     now \<leftarrow> call (po_monotonic_ns (we_ports E)) EvMonotonic;
     actual \<leftarrow> persist_decision E
       \<lparr>dar_plan_id = plan_id, dar_session_id = wi_session_id intent, dar_fingerprint = wi_fingerprint intent,
        dar_profile_hash = wi_profile_hash intent, dar_parameter_id = wi_parameter_id intent,
        dar_context_hash = None, dar_decision = decision, dar_at = now\<rparr> decision;
     State_Monad.return (WriteNotExecuted actual)
   }"

definition plan_decision ::
  "('w, 'd) write_env \<Rightarrow> 'd prepared_write_plan \<Rightarrow> decision_outcome
     \<Rightarrow> ('w, 'd, decision_outcome) write_monad" where
  "plan_decision E plan decision = do {
     now \<leftarrow> call (po_monotonic_ns (we_ports E)) EvMonotonic;
     persist_decision E
       \<lparr>dar_plan_id = pwp_plan_id plan, dar_session_id = pwp_session_id plan,
        dar_fingerprint = pwp_fingerprint plan, dar_profile_hash = pwp_profile_hash plan,
        dar_parameter_id = pwp_parameter_id plan, dar_context_hash = Some (pwp_context_hash plan),
        dar_decision = decision, dar_at = now\<rparr> decision
   }"

definition audit_prepare_failed :: "('w, 'd) write_env \<Rightarrow> string \<Rightarrow> ('w, 'd, unit) write_monad" where
  "audit_prepare_failed E message = do {
     _ \<leftarrow> call (po_degrade_audit_and_disarm (we_ports E)) (\<lambda>_. EvDegrade);
     call (po_report_write_diagnostic (we_ports E) message) (\<lambda>_. EvDiagnostic message)
   }"

text \<open>
  The profile lookup shared by the write and restore handlers: the active profile for the hash,
  accepted when its own hash is that hash and the trust store trusts it.
\<close>

definition trusted_profile ::
  "('w, 'd) write_env \<Rightarrow> string \<Rightarrow> ('w, 'd, 'd validated_device_profile option) write_monad" where
  "trusted_profile E hash = do {
     active \<leftarrow> call (po_active_profile_by_hash (we_ports E) hash) (EvProfile hash);
     (case active of
        Inl _ \<Rightarrow> State_Monad.return None
      | Inr profile \<Rightarrow>
          if to_hex (vdp_profile_hash profile) = hash
          then do {
            trusted \<leftarrow> call (po_is_trusted (we_ports E) (vdp_profile_id profile)) (EvTrusted (vdp_profile_id profile));
            State_Monad.return (if trusted then Some profile else None)
          }
          else State_Monad.return None)
   }"

subsection \<open>The physical write\<close>

fun read_back_loop ::
  "('w, 'd) write_env \<Rightarrow> 'd validated_parameter \<Rightarrow> 'd execution_authority \<Rightarrow> nat \<Rightarrow> nat
     \<Rightarrow> raw_registers option \<Rightarrow> string option
     \<Rightarrow> ('w, 'd, device_write_outcome \<times> read_back_evidence) write_monad" where
  "read_back_loop E p a attempt 0 last_mismatch last_error =
     State_Monad.return
       (case last_mismatch of
          Some last_raw \<Rightarrow>
            (ReadBackMismatch, EvMismatch (wcc_read_back_attempts (we_config E)) last_raw)
        | None \<Rightarrow>
            (TransportLost, EvUnavailable (wcc_read_back_attempts (we_config E))
               (case last_error of None \<Rightarrow> ''read-back unavailable'' | Some m \<Rightarrow> m)))"
| "read_back_loop E p a attempt (Suc left) last_mismatch last_error = do {
     actual \<leftarrow> read_parameter_raw E p (ea_session_id a) (ea_operation_id a);
     (case actual of
        Inr raw \<Rightarrow>
          if read_back_matches (we_decimal E) p (ea_target_raw a) raw
          then State_Monad.return (Verified, EvVerified (of_nat attempt) raw)
          else do {
            _ \<leftarrow> (if left = 0 then State_Monad.return ()
                  else let d = wcc_read_back_settle_delay (we_config E)
                       in call (po_sleep (we_ports E) d) (\<lambda>_. EvSleep d));
            read_back_loop E p a (Suc attempt) left (Some raw) last_error
          }
      | Inl e \<Rightarrow> do {
            _ \<leftarrow> (if left = 0 then State_Monad.return ()
                  else let d = wcc_read_back_settle_delay (we_config E)
                       in call (po_sleep (we_ports E) d) (\<lambda>_. EvSleep d));
            read_back_loop E p a (Suc attempt) left last_mismatch (Some (bus_error_text e))
          })
   }"

definition execute_once ::
  "('w, 'd) write_env \<Rightarrow> 'd execution_authority \<Rightarrow> 'd validated_device_profile \<Rightarrow> request_id \<Rightarrow> slave_id
     \<Rightarrow> ('w, 'd, device_write_outcome \<times> read_back_evidence) write_monad" where
  "execute_once E a profile request_id slave =
     (if \<not> operation_step_is_well_formed a \<or> ea_context_hash a = [] \<or> ea_fingerprint a = [] \<or>
         to_hex (vdp_profile_hash profile) \<noteq> ea_profile_hash a
      then State_Monad.return (TransportLost, EvNotAttempted)
      else case profile_parameter profile (ea_parameter_id a) of
        None \<Rightarrow> State_Monad.return (TransportLost, EvNotAttempted)
      | Some p \<Rightarrow>
          if length (ea_expected_old_raw a) \<noteq> unat (rb_count (vp_block p)) \<or>
             \<not> ea_parameter_allowed a p \<or> ea_target_raw a \<in> set (vp_forbidden_raw p)
          then State_Monad.return (DeviceRejected, EvNotAttempted)
          else case vp_write_function p of
            None \<Rightarrow> State_Monad.return (DeviceRejected, EvNotAttempted)
          | Some f \<Rightarrow> do {
              now \<leftarrow> call (po_instant_now (we_ports E)) EvNow;
              (case from_write_authority
                      (safety_one_shot request_id (ea_session_id a)
                        (now + wcc_request_timeout (we_config E)) (Some (ea_operation_id a)))
                      slave f (vp_block p) (ea_target_raw a) of
                 Inl _ \<Rightarrow> State_Monad.return (DeviceRejected, EvNotAttempted)
               | Inr prepared \<Rightarrow> do {
                   written \<leftarrow> call (po_execute (we_ports E) prepared) (EvWrite prepared);
                   (case written of
                      Inl e \<Rightarrow> State_Monad.return (map_write_error e, EvNotAttempted)
                    | Inr _ \<Rightarrow> read_back_loop E p a 1 (unat (wcc_read_back_attempts (we_config E))) None None)
                 })
            })"

subsection \<open>Phase one\<close>

definition intent_rejected ::
  "('w, 'd) write_env \<Rightarrow> plan_id \<Rightarrow> 'd write_intent \<Rightarrow> decision_outcome
     \<Rightarrow> ('w, 'd, write_coordinator_error + 'a) write_monad" where
  "intent_rejected E plan_id intent d = do {
     e \<leftarrow> intent_decision E plan_id intent d;
     State_Monad.return (Err e)
   }"

definition new_plan ::
  "('w, 'd) write_env \<Rightarrow> plan_id \<Rightarrow> operation_id \<Rightarrow> 'd write_intent \<Rightarrow> write_session_snapshot
     \<Rightarrow> 'd validated_parameter \<Rightarrow> raw_registers \<Rightarrow> 'd engineering_value \<Rightarrow> raw_registers \<Rightarrow> u128
     \<Rightarrow> 'd prepared_write_plan" where
  "new_plan E plan_id operation_id intent before p old_raw old_engineering target_raw now =
     (let context_hash = write_context_hash (we_decimal E) (we_sha256 E) plan_id operation_id
            (wss_session_id before) (wss_fingerprint before) (wi_profile_hash intent)
            (wi_parameter_id intent) old_raw old_engineering (wi_requested_engineering intent)
            target_raw (wss_guard_revision before)
      in \<lparr>pwp_plan_id = plan_id, pwp_operation_id = operation_id, pwp_session_id = wss_session_id before,
          pwp_fingerprint = wss_fingerprint before, pwp_profile_hash = wi_profile_hash intent,
          pwp_parameter_id = wi_parameter_id intent, pwp_context_hash = context_hash,
          pwp_previous_raw = old_raw, pwp_previous_engineering = old_engineering,
          pwp_requested_engineering = wi_requested_engineering intent, pwp_target_raw = target_raw,
          pwp_confirmation =
            (if vp_access p = Commissioning
             then CommissioningModel (vp_code p) (wi_requested_engineering intent) else Standard),
          pwp_challenge = ''write:'' @ take 12 context_hash,
          pwp_expires_at = sat_add now (of_nat (wcc_plan_ttl (we_config E)))\<rparr>)"

definition prepare_checks ::
  "('w, 'd) write_env \<Rightarrow> plan_id \<Rightarrow> operation_id \<Rightarrow> 'd write_intent \<Rightarrow> write_session_snapshot
     \<Rightarrow> 'd validated_device_profile \<Rightarrow> 'd validated_parameter
     \<Rightarrow> ('w, 'd, write_coordinator_error + 'd prepared_write_plan) write_monad" where
  "prepare_checks E plan_id operation_id intent before profile p = do {
     state \<leftarrow> read_drive_state E profile (wss_session_id before) operation_id;
     if state \<noteq> Ok Stopped then intent_rejected E plan_id intent RejectedByPolicy
     else case authoritative_target (we_decimal E) p (wi_requested_engineering intent) of
       Inl _ \<Rightarrow> intent_rejected E plan_id intent RejectedByPolicy
     | Inr target_raw \<Rightarrow>
         if (case wi_preview_raw intent of None \<Rightarrow> False | Some preview \<Rightarrow> preview \<noteq> target_raw)
         then intent_rejected E plan_id intent PreconditionChanged
         else do {
           old \<leftarrow> read_parameter_raw E p (wss_session_id before) operation_id;
           (case old of
              Inl _ \<Rightarrow> intent_rejected E plan_id intent PreconditionChanged
            | Inr old_raw \<Rightarrow>
                (case decode (we_decimal E) (vp_codec p) old_raw of
                   Inl _ \<Rightarrow> intent_rejected E plan_id intent PreconditionChanged
                 | Inr old_engineering \<Rightarrow>
                     if old_raw \<noteq> wi_previous_raw intent \<or> old_engineering \<noteq> wi_previous_engineering intent
                     then intent_rejected E plan_id intent PreconditionChanged
                     else do {
                       after \<leftarrow> call (po_snapshot (we_ports E)) EvSnapshot;
                       if \<not> same_write_context before after
                       then intent_rejected E plan_id intent PreconditionChanged
                       else do {
                         now \<leftarrow> call (po_monotonic_ns (we_ports E)) EvMonotonic;
                         let plan = new_plan E plan_id operation_id intent before p old_raw
                                      old_engineering target_raw now;
                         State (\<lambda>s. (Ok plan, s\<lparr>wc_plans := bt_insert plan_id
                           \<lparr>sp_plan = plan, sp_guard_revision = wss_guard_revision before\<rparr> (wc_plans s)\<rparr>))
                       }
                     }))
         }
   }"

definition prepare_write ::
  "('w, 'd) write_env \<Rightarrow> 'd write_intent
     \<Rightarrow> ('w, 'd, write_coordinator_error + 'd prepared_write_plan) write_monad" where
  "prepare_write E intent = do {
     plan_id \<leftarrow> allocate_plan_id;
     operation_id \<leftarrow> allocate_operation_id;
     if \<not> wcc_process_writes_enabled (we_config E)
     then intent_rejected E plan_id intent RejectedByPolicy
     else do {
       before \<leftarrow> call (po_snapshot (we_ports E)) EvSnapshot;
       if \<not> wss_connected before \<or> \<not> wss_armed before \<or> \<not> wss_audit_healthy before \<or>
          \<not> wss_operation_idle before
       then intent_rejected E plan_id intent RejectedByPolicy
       else if \<not> intent_matches_session intent before
       then intent_rejected E plan_id intent PreconditionChanged
       else do {
         trusted \<leftarrow> trusted_profile E (wi_profile_hash intent);
         (case trusted of
            None \<Rightarrow> intent_rejected E plan_id intent ProfileNotTrusted
          | Some profile \<Rightarrow>
              (case profile_parameter profile (wi_parameter_id intent) of
                 None \<Rightarrow> intent_rejected E plan_id intent RejectedByPolicy
               | Some p \<Rightarrow>
                   if \<not> manual_parameter_allowed p
                   then intent_rejected E plan_id intent RejectedByPolicy
                   else prepare_checks E plan_id operation_id intent before profile p))
       }
     }
   }"

subsection \<open>Phase two\<close>

definition plan_rejected ::
  "('w, 'd) write_env \<Rightarrow> 'd prepared_write_plan \<Rightarrow> decision_outcome
     \<Rightarrow> ('w, 'd, decision_outcome + 'a) write_monad" where
  "plan_rejected E plan d = do {
     actual \<leftarrow> plan_decision E plan d;
     State_Monad.return (Err actual)
   }"

text \<open>
  \<open>confirm_checks\<close> is \<open>confirm_write\<close> from the expiry check to the last comparison before the
  session is claimed: it yields the reason why nothing was written, or the profile, the parameter,
  the fresh old value and the last session snapshot.
\<close>

definition confirm_reads ::
  "('w, 'd) write_env \<Rightarrow> 'd stored_plan \<Rightarrow> write_session_snapshot \<Rightarrow> 'd validated_device_profile
     \<Rightarrow> 'd validated_parameter
     \<Rightarrow> ('w, 'd, decision_outcome + 'd validated_device_profile \<times> 'd validated_parameter
          \<times> raw_registers \<times> write_session_snapshot) write_monad" where
  "confirm_reads E stored before profile p = (let plan = sp_plan stored in do {
     state \<leftarrow> read_drive_state E profile (pwp_session_id plan) (pwp_operation_id plan);
     if state \<noteq> Ok Stopped then plan_rejected E plan PreconditionChanged
     else do {
       old \<leftarrow> read_parameter_raw E p (pwp_session_id plan) (pwp_operation_id plan);
       (case old of
          Inl _ \<Rightarrow> plan_rejected E plan PreconditionChanged
        | Inr final_old \<Rightarrow> do {
            after \<leftarrow> call (po_snapshot (we_ports E)) EvSnapshot;
            if final_old \<noteq> pwp_previous_raw plan \<or>
               result_ok (decode (we_decimal E) (vp_codec p) final_old) \<noteq> Some (pwp_previous_engineering plan) \<or>
               \<not> same_write_context before after \<or>
               wss_guard_revision after \<noteq> sp_guard_revision stored
            then plan_rejected E plan PreconditionChanged
            else if write_context_hash (we_decimal E) (we_sha256 E) (pwp_plan_id plan) (pwp_operation_id plan)
                      (pwp_session_id plan) (pwp_fingerprint plan) (pwp_profile_hash plan)
                      (pwp_parameter_id plan) final_old (pwp_previous_engineering plan)
                      (pwp_requested_engineering plan) (pwp_target_raw plan) (wss_guard_revision after)
                    \<noteq> pwp_context_hash plan
            then plan_rejected E plan PreconditionChanged
            else State_Monad.return (Ok (profile, p, final_old, after))
          })
     }
   })"

definition confirm_checks ::
  "('w, 'd) write_env \<Rightarrow> 'd stored_plan \<Rightarrow> 'd write_confirmation
     \<Rightarrow> ('w, 'd, decision_outcome + 'd validated_device_profile \<times> 'd validated_parameter
          \<times> raw_registers \<times> write_session_snapshot) write_monad" where
  "confirm_checks E stored confirmation = (let plan = sp_plan stored in do {
     now \<leftarrow> call (po_monotonic_ns (we_ports E)) EvMonotonic;
     if pwp_expires_at plan < now then plan_rejected E plan DecisionExpired
     else if confirmation = ConfirmCancelled then plan_rejected E plan DecisionCancelled
     else if \<not> confirmation_matches plan confirmation then plan_rejected E plan RejectedByPolicy
     else do {
       before \<leftarrow> call (po_snapshot (we_ports E)) EvSnapshot;
       if \<not> plan_matches_session plan before \<or> wss_guard_revision before \<noteq> sp_guard_revision stored
       then plan_rejected E plan PreconditionChanged
       else do {
         trusted \<leftarrow> trusted_profile E (pwp_profile_hash plan);
         (case trusted of
            None \<Rightarrow> plan_rejected E plan ProfileNotTrusted
          | Some profile \<Rightarrow>
              (case profile_parameter profile (pwp_parameter_id plan) of
                 None \<Rightarrow> plan_rejected E plan PreconditionChanged
               | Some p \<Rightarrow>
                   if \<not> manual_parameter_allowed p then plan_rejected E plan PreconditionChanged
                   else if result_ok (authoritative_target (we_decimal E) p (pwp_requested_engineering plan))
                           \<noteq> Some (pwp_target_raw plan)
                   then plan_rejected E plan PreconditionChanged
                   else confirm_reads E stored before profile p))
       }
     }
   })"

text \<open>
  \<open>commit_write\<close> is the rest of \<open>confirm_write\<close>: it claims the session, persists the
  preparation, writes once, finalizes the audit record and releases the session. The parameter has
  a write function because \<open>manual_parameter_allowed\<close> held.
\<close>

definition write_preparation ::
  "'d prepared_write_plan \<Rightarrow> 'd validated_parameter \<Rightarrow> raw_registers \<Rightarrow> request_id
     \<Rightarrow> 'd device_write_preparation" where
  "write_preparation plan p final_old request_id =
     \<lparr>dwp_plan_id = pwp_plan_id plan, dwp_operation_id = pwp_operation_id plan, dwp_request_id = request_id,
      dwp_session_id = pwp_session_id plan, dwp_fingerprint = pwp_fingerprint plan,
      dwp_profile_hash = pwp_profile_hash plan, dwp_parameter_id = pwp_parameter_id plan,
      dwp_context_hash = pwp_context_hash plan, dwp_old_raw = final_old,
      dwp_old_engineering = pwp_previous_engineering plan, dwp_target_raw = pwp_target_raw plan,
      dwp_target_engineering = pwp_requested_engineering plan,
      dwp_write_function = the (vp_write_function p)\<rparr>"

definition finalize_write ::
  "('w, 'd) write_env \<Rightarrow> prepared_token \<Rightarrow> string \<Rightarrow> device_write_outcome \<Rightarrow> read_back_evidence
     \<Rightarrow> ('w, 'd, device_write_outcome) write_monad" where
  "finalize_write E token prefix device_outcome evidence = do {
     finalized \<leftarrow> call (po_finalize_device_write (we_ports E) token device_outcome evidence)
                    (EvFinalize token device_outcome evidence);
     (case finalized of
        Inr _ \<Rightarrow> State_Monad.return device_outcome
      | Inl e \<Rightarrow> do {
          let message = prefix @ audit_error_text e;
          _ \<leftarrow> call (po_report_write_diagnostic (we_ports E) message) (\<lambda>_. EvDiagnostic message);
          State_Monad.return AuditDegraded
        })
   }"

definition commit_write ::
  "('w, 'd) write_env \<Rightarrow> 'd prepared_write_plan \<Rightarrow> 'd validated_device_profile \<Rightarrow> 'd validated_parameter
     \<Rightarrow> raw_registers \<Rightarrow> write_session_snapshot \<Rightarrow> ('w, 'd, write_outcome) write_monad" where
  "commit_write E plan profile p final_old after = do {
     begun \<leftarrow> call (po_begin_single_write (we_ports E) (pwp_operation_id plan) (pwp_plan_id plan))
                (EvBeginSingle (pwp_operation_id plan) (pwp_plan_id plan));
     if begun \<noteq> Ok () then do {
       d \<leftarrow> plan_decision E plan PreconditionChanged;
       State_Monad.return (NotExecuted d)
     } else do {
       request_id \<leftarrow> allocate_request_id;
       let preparation = write_preparation plan p final_old request_id;
       available \<leftarrow> call (po_is_available (we_ports E)) EvAuditAvailable;
       if \<not> available then do {
         _ \<leftarrow> audit_prepare_failed E ''durable audit unavailable before device write'';
         State_Monad.return (NotExecuted DecisionAuditUnavailable)
       } else do {
         prepared \<leftarrow> call (po_prepare_device_write (we_ports E) preparation) (EvPrepare preparation);
         (case prepared of
            Inl e \<Rightarrow> do {
              _ \<leftarrow> audit_prepare_failed E (''device-write audit prepare failed: '' @ audit_error_text e);
              State_Monad.return (NotExecuted DecisionAuditUnavailable)
            }
          | Inr token \<Rightarrow>
              if \<not> matches_preparation token preparation then do {
                _ \<leftarrow> audit_prepare_failed E ''audit returned a token bound to different write context'';
                State_Monad.return (NotExecuted DecisionAuditUnavailable)
              } else do {
                (device_outcome, evidence) \<leftarrow>
                  execute_once E (Manual plan) profile request_id (wss_slave_id after);
                final_outcome \<leftarrow> finalize_write E token ''device-write audit finalization failed: ''
                                   device_outcome evidence;
                _ \<leftarrow> call (po_finish_single_write (we_ports E) (Executed final_outcome))
                       (\<lambda>_. EvFinishSingle (Executed final_outcome));
                State_Monad.return (Executed final_outcome)
              })
       }
     }
   }"

definition take_plan :: "plan_id \<Rightarrow> ('w, 'd, 'd stored_plan option) write_monad" where
  "take_plan plan_id =
     State (\<lambda>s. (bt_get (wc_plans s) plan_id, s\<lparr>wc_plans := bt_remove plan_id (wc_plans s)\<rparr>))"

definition confirm_stored ::
  "('w, 'd) write_env \<Rightarrow> 'd stored_plan \<Rightarrow> 'd write_confirmation \<Rightarrow> ('w, 'd, write_outcome) write_monad" where
  "confirm_stored E stored confirmation = do {
     checked \<leftarrow> confirm_checks E stored confirmation;
     (case checked of
        Inl d \<Rightarrow> State_Monad.return (NotExecuted d)
      | Inr (profile, p, final_old, after) \<Rightarrow>
          commit_write E (sp_plan stored) profile p final_old after)
   }"

definition confirm_write ::
  "('w, 'd) write_env \<Rightarrow> plan_id \<Rightarrow> 'd write_confirmation
     \<Rightarrow> ('w, 'd, write_coordinator_error + write_outcome) write_monad" where
  "confirm_write E plan_id confirmation = do {
     taken \<leftarrow> take_plan plan_id;
     (case taken of
        None \<Rightarrow> State_Monad.return (Err UnknownOrConsumedPlan)
      | Some stored \<Rightarrow> do {
          outcome \<leftarrow> confirm_stored E stored confirmation;
          State_Monad.return (Ok outcome)
        })
   }"

subsection \<open>What the parts of the kernel emit\<close>

definition is_check_event :: "'d port_event \<Rightarrow> bool" where
  "is_check_event e =
     (case e of EvRead _ _ \<Rightarrow> True | EvNow _ \<Rightarrow> True | EvSnapshot _ \<Rightarrow> True | EvMonotonic _ \<Rightarrow> True
      | EvProfile _ _ \<Rightarrow> True | EvTrusted _ _ \<Rightarrow> True | _ \<Rightarrow> False)"

definition is_refusal_event :: "'d port_event \<Rightarrow> bool" where
  "is_refusal_event e =
     (case e of EvMonotonic _ \<Rightarrow> True | EvAuditAvailable _ \<Rightarrow> True | EvDecision _ _ \<Rightarrow> True
      | EvDegrade \<Rightarrow> True | EvDiagnostic _ \<Rightarrow> True | _ \<Rightarrow> False)"

abbreviation checks :: "'d port_event list \<Rightarrow> bool" where "checks es \<equiv> list_all is_check_event es"
abbreviation refusals :: "'d port_event list \<Rightarrow> bool" where "refusals es \<equiv> list_all is_refusal_event es"

lemma check_no_write: "is_check_event e \<Longrightarrow> \<not> is_physical_write e"
  by (cases e) (simp_all add: is_check_event_def)

lemma refusal_no_write: "is_refusal_event e \<Longrightarrow> \<not> is_physical_write e"
  by (cases e) (simp_all add: is_refusal_event_def)

lemma checks_no_write: "checks es \<Longrightarrow> no_write es"
  by (auto simp: list_all_iff check_no_write)

lemma refusals_no_write: "refusals es \<Longrightarrow> no_write es"
  by (auto simp: list_all_iff refusal_no_write)

lemmas event_kinds = is_check_event_def is_refusal_event_def

lemma emits_allocate:
  "emits (allocate_plan_id :: ('w, 'd, plan_id) write_monad) (\<lambda>r es. es = [])"
  "emits (allocate_operation_id :: ('w, 'd, operation_id) write_monad) (\<lambda>r es. es = [])"
  "emits (allocate_request_id :: ('w, 'd, request_id) write_monad) (\<lambda>r es. es = [])"
  by (simp_all add: emits_def allocate_plan_id_def allocate_operation_id_def allocate_request_id_def)

lemmas emits_allocate_bind [emits_intro] = emits_allocate [THEN emits_bind]

definition fresh_read :: "'d validated_parameter \<Rightarrow> session_id \<Rightarrow> raw_registers \<Rightarrow> 'd port_event list \<Rightarrow> bool" where
  "fresh_read p sid raw es \<longleftrightarrow>
     (\<exists>req. EvRead req (Ok raw) \<in> set es \<and> rbr_block req = vp_block p \<and>
        rbr_function req = read_function_of p \<and> brc_session_id (rbr_context req) = sid \<and>
        brc_class (rbr_context req) = SafetyOneShot)"

lemma fresh_read_append [simp]:
  "fresh_read p sid raw (es @ fs) \<longleftrightarrow> fresh_read p sid raw es \<or> fresh_read p sid raw fs"
  by (auto simp: fresh_read_def)

lemma fresh_read_Cons: "fresh_read p sid raw es \<Longrightarrow> fresh_read p sid raw (e # es)"
  by (auto simp: fresh_read_def)

lemma emits_read:
  "emits (read_parameter_raw E p sid oid)
     (\<lambda>r es. checks es \<and> (\<forall>raw. r = Ok raw \<longrightarrow> fresh_read p sid raw es))"
  unfolding read_parameter_raw_def Let_def
  by (intro emits_intro)
    (auto simp: event_kinds fresh_read_def read_request_one_shot_Ok_iff safety_one_shot_def
      bus_request_context_new_def dest!: register_block_new_OkD(1))

lemmas emits_read_bind [emits_intro] = emits_read [THEN emits_bind]

definition stopped_read ::
  "'d validated_device_profile \<Rightarrow> session_id \<Rightarrow> 'd port_event list \<Rightarrow> bool" where
  "stopped_read profile sid es \<longleftrightarrow>
     (\<exists>source sp raw. vdp_drive_state_source profile = Some source \<and>
        profile_parameter profile (dss_parameter_id source) = Some sp \<and>
        fresh_read sp sid raw es \<and> raw \<in> set (dss_stopped_raw source))"

lemma stopped_read_append [simp]:
  "stopped_read profile sid es \<Longrightarrow> stopped_read profile sid (es @ fs)"
  "stopped_read profile sid fs \<Longrightarrow> stopped_read profile sid (es @ fs)"
  by (auto simp: stopped_read_def)

lemma emits_drive_state:
  "emits (read_drive_state E profile sid oid)
     (\<lambda>r es. checks es \<and> (r = Ok Stopped \<longrightarrow> stopped_read profile sid es))"
  unfolding read_drive_state_def
  apply (intro emits_intro)
  apply (auto simp: stopped_read_def map_sum_def classify_Stopped_iff split: sum.splits)
  done

lemmas emits_drive_state_bind [emits_intro] = emits_drive_state [THEN emits_bind]

lemma emits_trusted_profile:
  "emits (trusted_profile E h)
     (\<lambda>r es. checks es \<and> (\<forall>profile. r = Some profile \<longrightarrow>
        to_hex (vdp_profile_hash profile) = h \<and> EvTrusted (vdp_profile_id profile) True \<in> set es))"
  unfolding trusted_profile_def
  by (intro emits_intro) (auto simp: event_kinds)

lemmas emits_trusted_profile_bind [emits_intro] = emits_trusted_profile [THEN emits_bind]

definition recorded_or_degraded ::
  "decision_audit_record \<Rightarrow> decision_outcome \<Rightarrow> decision_outcome \<Rightarrow> 'd port_event list \<Rightarrow> bool" where
  "recorded_or_degraded record original actual es \<longleftrightarrow>
     (actual = original \<and> EvDecision record (Ok ()) \<in> set es) \<or>
     (actual = DecisionAuditUnavailable \<and> EvDegrade \<in> set es)"

lemma emits_persist_decision:
  "emits (persist_decision E record original)
     (\<lambda>r es. refusals es \<and> recorded_or_degraded record original r es)"
  unfolding persist_decision_def Let_def
  apply (rule emits_call_bind)
  apply (rule emits_bind [where P = "\<lambda>ok es. refusals es \<and> (ok \<longrightarrow> EvDecision record (Ok ()) \<in> set es)"])
   apply (intro emits_intro; auto simp: event_kinds)
  apply (intro emits_intro)
   apply (auto simp: event_kinds recorded_or_degraded_def)
  done

lemma emits_plan_decision:
  "emits (plan_decision E plan d)
     (\<lambda>r es. refusals es \<and> (r = d \<or> r = DecisionAuditUnavailable \<and> EvDegrade \<in> set es))"
  unfolding plan_decision_def
  by (intro emits_intro emits_mono [OF emits_persist_decision])
    (auto simp: event_kinds recorded_or_degraded_def)

lemmas emits_plan_decision_bind [emits_intro] = emits_plan_decision [THEN emits_bind]

lemma emits_plan_rejected [emits_intro]:
  "(\<And>d' es. refusals es \<Longrightarrow> d' = d \<or> d' = DecisionAuditUnavailable \<and> EvDegrade \<in> set es \<Longrightarrow> P (Err d') es)
   \<Longrightarrow> emits (plan_rejected E plan d) P"
  unfolding plan_rejected_def by (intro emits_intro) auto

lemma emits_intent_decision:
  "emits (intent_decision E pid intent d)
     (\<lambda>r es. refusals es \<and> (r = WriteNotExecuted d \<or> r = WriteNotExecuted DecisionAuditUnavailable \<and> EvDegrade \<in> set es))"
  unfolding intent_decision_def
  by (intro emits_intro emits_persist_decision [THEN emits_bind])
    (auto simp: event_kinds recorded_or_degraded_def)

lemmas emits_intent_decision_bind [emits_intro] = emits_intent_decision [THEN emits_bind]

lemma emits_intent_rejected [emits_intro]:
  "(\<And>e es. refusals es \<Longrightarrow> P (Err e) es) \<Longrightarrow> emits (intent_rejected E pid intent d) P"
  unfolding intent_rejected_def by (intro emits_intro) auto

end
