(* ===== verification/Write_Safety.thy ===== *)
theory Write_Safety
  imports Write_Coordinator
begin

text \<open>
  The guarded write kernel, handler by handler: what a confirmed plan has established, what the one
  physical write and its read-back emit, how a claimed session is released, and the properties of
  whole confirmations and preparations. The lemmas are stated with \<open>emits\<close>, hence for every
  behaviour of the adapters.
\<close>

subsection \<open>Phase two: checks\<close>

text \<open>What the checks of a confirmed plan have established when they succeed.\<close>

definition confirmed ::
  "('w, 'd) write_env \<Rightarrow> 'd stored_plan \<Rightarrow> 'd validated_device_profile \<Rightarrow> 'd validated_parameter
     \<Rightarrow> write_session_snapshot \<Rightarrow> 'd port_event list \<Rightarrow> bool" where
  "confirmed E stored profile p after es \<longleftrightarrow>
     (let plan = sp_plan stored in
      checks es \<and>
      EvTrusted (vdp_profile_id profile) True \<in> set es \<and>
      to_hex (vdp_profile_hash profile) = pwp_profile_hash plan \<and>
      profile_parameter profile (pwp_parameter_id plan) = Some p \<and>
      manual_parameter_allowed p \<and>
      authoritative_target (we_decimal E) p (pwp_requested_engineering plan) = Ok (pwp_target_raw plan) \<and>
      stopped_read profile (pwp_session_id plan) es \<and>
      fresh_read p (pwp_session_id plan) (pwp_previous_raw plan) es \<and>
      EvSnapshot after \<in> set es \<and> plan_matches_session plan after \<and>
      wss_guard_revision after = sp_guard_revision stored)"

lemma same_write_context_matches:
  "same_write_context l r \<Longrightarrow> plan_matches_session plan l \<Longrightarrow> plan_matches_session plan r"
  by (auto simp: same_write_context_def plan_matches_session_def)

lemma stopped_read_Cons: "stopped_read profile sid es \<Longrightarrow> stopped_read profile sid (e # es)"
  using stopped_read_append(2) [of profile sid es "[e]"] by simp

lemma emits_confirm_reads:
  assumes "plan_matches_session (sp_plan stored) before"
  shows "emits (confirm_reads E stored before profile p)
    (\<lambda>r es. case r of
       Inl d \<Rightarrow> no_write es \<and> (\<forall>e\<in>set es. is_check_event e \<or> is_refusal_event e)
     | Inr (profile', p', old, after) \<Rightarrow>
         profile' = profile \<and> p' = p \<and> old = pwp_previous_raw (sp_plan stored) \<and> checks es \<and>
         stopped_read profile (pwp_session_id (sp_plan stored)) es \<and>
         fresh_read p (pwp_session_id (sp_plan stored)) (pwp_previous_raw (sp_plan stored)) es \<and>
         EvSnapshot after \<in> set es \<and> plan_matches_session (sp_plan stored) after \<and>
         wss_guard_revision after = sp_guard_revision stored)"
  unfolding confirm_reads_def Let_def
  apply (intro emits_intro)
  using assms
  apply (auto simp: checks_no_write refusals_no_write list_all_iff check_no_write refusal_no_write
      event_kinds dest: same_write_context_matches)
  done

lemma emits_confirm_checks:
  "emits (confirm_checks E stored confirmation)
    (\<lambda>r es. case r of
       Inl d \<Rightarrow> no_write es \<and> (\<forall>e\<in>set es. is_check_event e \<or> is_refusal_event e)
     | Inr (profile, p, old, after) \<Rightarrow>
         old = pwp_previous_raw (sp_plan stored) \<and> confirmation_matches (sp_plan stored) confirmation \<and>
         (\<exists>now. EvMonotonic now \<in> set es \<and> now \<le> pwp_expires_at (sp_plan stored)) \<and>
         confirmed E stored profile p after es)"
  unfolding confirm_checks_def Let_def
  apply (intro emits_intro emits_mono [OF emits_confirm_reads])
  apply (auto simp: checks_no_write refusals_no_write list_all_iff check_no_write refusal_no_write
      event_kinds confirmed_def Let_def split: sum.splits intro!: stopped_read_Cons fresh_read_Cons)
  done

subsection \<open>The physical write\<close>

definition is_read_back_event :: "'d port_event \<Rightarrow> bool" where
  "is_read_back_event e =
     (case e of EvRead _ _ \<Rightarrow> True | EvNow _ \<Rightarrow> True | EvSnapshot _ \<Rightarrow> True | EvSleep _ \<Rightarrow> True | _ \<Rightarrow> False)"

definition read_backs :: "'d port_event list \<Rightarrow> nat" where
  "read_backs es = length (filter (\<lambda>e. case e of EvRead _ _ \<Rightarrow> True | _ \<Rightarrow> False) es)"

lemma read_backs_simps [simp]:
  "read_backs [] = 0" "read_backs (es @ fs) = read_backs es + read_backs fs"
  "read_backs (e # es) = (case e of EvRead _ _ \<Rightarrow> Suc (read_backs es) | _ \<Rightarrow> read_backs es)"
  by (auto simp: read_backs_def split: port_event.splits)

lemma emits_read_once:
  "emits (read_parameter_raw E p sid oid)
     (\<lambda>r es. list_all is_read_back_event es \<and> read_backs es \<le> 1 \<and>
        (\<forall>raw. r = Ok raw \<longrightarrow> fresh_read p sid raw es))"
  unfolding read_parameter_raw_def Let_def
  by (intro emits_intro)
    (auto simp: is_read_back_event_def fresh_read_def read_request_one_shot_Ok_iff safety_one_shot_def
      bus_request_context_new_def dest!: register_block_new_OkD(1))

definition verified_by :: "('w, 'd) write_env \<Rightarrow> 'd validated_parameter \<Rightarrow> 'd execution_authority \<Rightarrow>
    device_write_outcome \<Rightarrow> 'd port_event list \<Rightarrow> bool" where
  "verified_by E p a outcome es \<longleftrightarrow>
     (outcome = Verified \<longrightarrow>
        (\<exists>raw. fresh_read p (ea_session_id a) raw es \<and> read_back_matches (we_decimal E) p (ea_target_raw a) raw))"

lemma emits_read_back_loop:
  "emits (read_back_loop E p a attempt left mm er)
     (\<lambda>(outcome, ev) es. list_all is_read_back_event es \<and> read_backs es \<le> left \<and>
        verified_by E p a outcome es \<and> outcome \<in> {Verified, ReadBackMismatch, TransportLost})"
proof (induction left arbitrary: attempt mm er)
  case 0
  show ?case
    by (auto simp: verified_by_def intro!: emits_intro split: option.splits)
next
  case (Suc left)
  have sleep: "emits (if left = 0 then State_Monad.return ()
       else let d = wcc_read_back_settle_delay (we_config E) in call (po_sleep (we_ports E) d) (\<lambda>_. EvSleep d))
     (\<lambda>_ es. list_all is_read_back_event es \<and> read_backs es = 0)"
    unfolding Let_def by (intro emits_intro) (auto simp: is_read_back_event_def)
  show ?case
    unfolding read_back_loop.simps
    by (rule emits_bind [OF emits_read_once], intro emits_intro emits_bind [OF sleep] Suc.IH [THEN emits_mono])
      (auto simp: verified_by_def)
qed

definition not_attempted :: "device_write_outcome \<times> read_back_evidence \<Rightarrow> 'd port_event list \<Rightarrow> bool" where
  "not_attempted r es \<longleftrightarrow>
     checks es \<and> snd r = EvNotAttempted \<and> (fst r = TransportLost \<or> fst r = DeviceRejected)"

definition attempted ::
  "('w, 'd) write_env \<Rightarrow> 'd execution_authority \<Rightarrow> 'd validated_device_profile \<Rightarrow> request_id \<Rightarrow> slave_id
     \<Rightarrow> device_write_outcome \<times> read_back_evidence \<Rightarrow> 'd port_event list \<Rightarrow> bool" where
  "attempted E a profile request_id slave r es \<longleftrightarrow>
     (\<exists>p f now w res rest.
        es = EvNow now # EvWrite w res # rest \<and>
        profile_parameter profile (ea_parameter_id a) = Some p \<and> ea_parameter_allowed a p \<and>
        vp_write_function p = Some f \<and> ea_target_raw a \<notin> set (vp_forbidden_raw p) \<and>
        to_hex (vdp_profile_hash profile) = ea_profile_hash a \<and>
        w = \<lparr>pbw_context = safety_one_shot request_id (ea_session_id a)
               (now + wcc_request_timeout (we_config E)) (Some (ea_operation_id a)),
             pbw_slave = slave, pbw_function = f, pbw_block = vp_block p, pbw_values = ea_target_raw a\<rparr> \<and>
        length (ea_target_raw a) = unat (rb_count (vp_block p)) \<and>
        list_all is_read_back_event rest \<and> read_backs rest \<le> unat (wcc_read_back_attempts (we_config E)) \<and>
        (\<forall>e. res = Err e \<longrightarrow> rest = [] \<and> fst r = map_write_error e \<and> snd r = EvNotAttempted) \<and>
        (res = Ok () \<longrightarrow> verified_by E p a (fst r) rest))"

lemma map_write_error_not_Verified [simp]: "map_write_error e \<noteq> Verified"
  by (cases e) (simp_all add: map_write_error_def)

lemma from_write_authority_shape:
  "from_write_authority ctx slave f b vs = Ok w \<Longrightarrow>
     w = \<lparr>pbw_context = ctx, pbw_slave = slave, pbw_function = f, pbw_block = b, pbw_values = vs\<rparr> \<and>
     length vs = unat (rb_count b)"
  using from_write_authority_OkD(1,4) by blast

lemma emits_execute_once:
  "emits (execute_once E a profile request_id slave)
     (\<lambda>r es. not_attempted r es \<or> attempted E a profile request_id slave r es)"
  unfolding execute_once_def
  apply (intro emits_intro emits_mono [OF emits_read_back_loop])
  apply (auto simp: not_attempted_def event_kinds)
   apply (auto simp: attempted_def dest!: from_write_authority_shape)
  done

lemma read_back_no_write: "is_read_back_event e \<Longrightarrow> \<not> is_physical_write e"
  by (cases e) (simp_all add: is_read_back_event_def)

lemma emits_finalize_write:
  "emits (finalize_write E token prefix d ev)
     (\<lambda>r es. (r = d \<and> es = [EvFinalize token d ev (Ok ())]) \<or>
        (r = AuditDegraded \<and> (\<exists>e m. es = [EvFinalize token d ev (Err e), EvDiagnostic m])))"
  unfolding finalize_write_def Let_def by (intro emits_intro) auto

lemma emits_audit_prepare_failed:
  "emits (audit_prepare_failed E m) (\<lambda>r es. es = [EvDegrade, EvDiagnostic m])"
  unfolding audit_prepare_failed_def by (intro emits_intro) simp

text \<open>What a committed write emits: the claim of the session, the durable preparation, the write
  with its read-back, the finalization and the release of the session, in this order.\<close>

definition committed ::
  "('w, 'd) write_env \<Rightarrow> 'd prepared_write_plan \<Rightarrow> 'd validated_device_profile \<Rightarrow> 'd validated_parameter
     \<Rightarrow> raw_registers \<Rightarrow> write_session_snapshot \<Rightarrow> device_write_outcome \<Rightarrow> 'd port_event list \<Rightarrow> bool" where
  "committed E plan profile p old after outcome es \<longleftrightarrow>
     (\<exists>request_id token d ev mid fin.
        let prep = write_preparation plan p old request_id in
        es = [EvBeginSingle (pwp_operation_id plan) (pwp_plan_id plan) (Ok ()), EvAuditAvailable True,
              EvPrepare prep (Ok token)] @ mid @ fin @ [EvFinishSingle (Executed outcome)] \<and>
        matches_preparation token prep \<and>
        (not_attempted (d, ev) mid \<or>
         attempted E (Manual plan) profile request_id (wss_slave_id after) (d, ev) mid) \<and>
        ((outcome = d \<and> fin = [EvFinalize token d ev (Ok ())]) \<or>
         (outcome = AuditDegraded \<and> (\<exists>e m. fin = [EvFinalize token d ev (Err e), EvDiagnostic m]))))"

definition not_committed ::
  "'d prepared_write_plan \<Rightarrow> decision_outcome \<Rightarrow> 'd port_event list \<Rightarrow> bool" where
  "not_committed plan d es \<longleftrightarrow>
     no_write es \<and>
     ((\<exists>e fs. es = EvBeginSingle (pwp_operation_id plan) (pwp_plan_id plan) (Err e) # fs \<and> refusals fs) \<or>
      (\<exists>fs m. es = EvBeginSingle (pwp_operation_id plan) (pwp_plan_id plan) (Ok ()) # fs @ [EvDegrade, EvDiagnostic m] \<and>
         d = DecisionAuditUnavailable))"

lemma committed_Ok:
  assumes "matches_preparation token (write_preparation plan p old i)"
    and "not_attempted (d, ev) mid \<or> attempted E (Manual plan) profile i (wss_slave_id after) (d, ev) mid"
  shows "committed E plan profile p old after d
    (EvBeginSingle (pwp_operation_id plan) (pwp_plan_id plan) (Ok ()) # EvAuditAvailable True #
     EvPrepare (write_preparation plan p old i) (Ok token) # mid @
     [EvFinalize token d ev (Ok ()), EvFinishSingle (Executed d)])"
  unfolding committed_def Let_def using assms
  by (intro exI [of _ i] exI [of _ token] exI [of _ d] exI [of _ ev] exI [of _ mid]
      exI [of _ "[EvFinalize token d ev (Ok ())]"]) simp

lemma committed_Err:
  assumes "matches_preparation token (write_preparation plan p old i)"
    and "not_attempted (d, ev) mid \<or> attempted E (Manual plan) profile i (wss_slave_id after) (d, ev) mid"
  shows "committed E plan profile p old after AuditDegraded
    (EvBeginSingle (pwp_operation_id plan) (pwp_plan_id plan) (Ok ()) # EvAuditAvailable True #
     EvPrepare (write_preparation plan p old i) (Ok token) # mid @
     [EvFinalize token d ev (Err e), EvDiagnostic m, EvFinishSingle (Executed AuditDegraded)])"
  unfolding committed_def Let_def using assms
  by (intro exI [of _ i] exI [of _ token] exI [of _ d] exI [of _ ev] exI [of _ mid]
      exI [of _ "[EvFinalize token d ev (Err e), EvDiagnostic m]"]) simp

lemma not_Ok_unit: "x \<noteq> Ok () \<longleftrightarrow> (\<exists>e. x = Err e)"
  by (cases x) simp_all

lemma emits_commit_write:
  "emits (commit_write E plan profile p old after)
     (\<lambda>r es. case r of NotExecuted d \<Rightarrow> not_committed plan d es
        | Executed outcome \<Rightarrow> committed E plan profile p old after outcome es)"
  unfolding commit_write_def Let_def
  apply (intro emits_intro emits_bind [OF emits_audit_prepare_failed] emits_bind [OF emits_execute_once]
      emits_bind [OF emits_finalize_write])
  apply (auto simp: not_committed_def refusals_no_write intro: committed_Ok committed_Err
      dest: not_Ok_unit [THEN iffD1])
  done

lemma confirmed_checks: "confirmed E stored profile p after es \<Longrightarrow> checks es"
  by (simp add: confirmed_def Let_def)

lemma emits_confirm_stored:
  "emits (confirm_stored E stored confirmation)
     (\<lambda>r es. case r of
        NotExecuted d \<Rightarrow>
          (no_write es \<and> (\<forall>e\<in>set es. is_check_event e \<or> is_refusal_event e)) \<or>
          (\<exists>chk cs. es = chk @ cs \<and> checks chk \<and> not_committed (sp_plan stored) d cs)
      | Executed outcome \<Rightarrow>
          \<exists>profile p after chk cs now. es = chk @ cs \<and> confirmation_matches (sp_plan stored) confirmation \<and>
            EvMonotonic now \<in> set chk \<and> now \<le> pwp_expires_at (sp_plan stored) \<and>
            confirmed E stored profile p after chk \<and>
            committed E (sp_plan stored) profile p (pwp_previous_raw (sp_plan stored)) after outcome cs)"
  unfolding confirm_stored_def
  apply (intro emits_intro emits_bind [OF emits_confirm_checks] emits_mono [OF emits_commit_write])
   apply simp
  apply (auto split: write_outcome.splits)
   apply (blast dest: confirmed_checks)+
  done

subsection \<open>Whole confirmations\<close>

lemma attempted_events:
  "attempted E a profile i slave r es \<Longrightarrow>
     (\<exists>now w res rest. es = EvNow now # EvWrite w res # rest \<and> list_all is_read_back_event rest)"
  unfolding attempted_def by blast

definition is_closing_event :: "'d port_event \<Rightarrow> bool" where
  "is_closing_event e =
     (case e of EvFinishSingle _ \<Rightarrow> True | EvDegrade \<Rightarrow> True | EvFinalize _ _ _ _ \<Rightarrow> True
      | EvBeginSingle _ _ _ \<Rightarrow> True | _ \<Rightarrow> False)"

lemma check_not_closing: "is_check_event e \<Longrightarrow> \<not> is_closing_event e"
  by (cases e) (simp_all add: is_check_event_def is_closing_event_def)

lemma read_back_not_closing: "is_read_back_event e \<Longrightarrow> \<not> is_closing_event e"
  by (cases e) (simp_all add: is_read_back_event_def is_closing_event_def)

lemma execution_not_closing:
  "not_attempted r es \<or> attempted E a profile i slave r es \<Longrightarrow> e \<in> set es \<Longrightarrow> \<not> is_closing_event e"
proof (elim disjE)
  assume "not_attempted r es" "e \<in> set es"
  then show ?thesis by (auto simp: not_attempted_def list_all_iff check_not_closing)
next
  assume "attempted E a profile i slave r es" "e \<in> set es"
  then show ?thesis
    using attempted_events [of E a profile i slave r es]
    by (auto simp: list_all_iff read_back_not_closing) (auto simp: is_closing_event_def)
qed

lemma confirm_write_cases:
  assumes "run_state (confirm_write E plan_id confirmation) s = (r, s')" and "ac_trace s' = ac_trace s @ es"
  obtains
    (unknown) "bt_get (wc_plans s) plan_id = None" "r = Err UnknownOrConsumedPlan" "es = []"
  | (refused) stored d where "bt_get (wc_plans s) plan_id = Some stored" "r = Ok (NotExecuted d)" "no_write es"
      "\<forall>e\<in>set es. is_check_event e \<or> is_refusal_event e"
  | (abandoned) stored d chk cs where "bt_get (wc_plans s) plan_id = Some stored" "r = Ok (NotExecuted d)"
      "es = chk @ cs" "checks chk" "not_committed (sp_plan stored) d cs"
  | (executed) stored outcome profile p after chk cs now where
      "bt_get (wc_plans s) plan_id = Some stored" "r = Ok (Executed outcome)" "es = chk @ cs"
      "confirmation_matches (sp_plan stored) confirmation"
      "EvMonotonic now \<in> set chk" "now \<le> pwp_expires_at (sp_plan stored)"
      "confirmed E stored profile p after chk"
      "committed E (sp_plan stored) profile p (pwp_previous_raw (sp_plan stored)) after outcome cs"
proof (cases "bt_get (wc_plans s) plan_id")
  case None
  with assms have "r = Err UnknownOrConsumedPlan" "es = []"
    by (auto simp: confirm_write_def take_plan_def)
  with None unknown show thesis by blast
next
  case (Some stored)
  let ?s = "s\<lparr>wc_plans := bt_remove plan_id (wc_plans s)\<rparr>"
  obtain outcome t where run: "run_state (confirm_stored E stored confirmation) ?s = (outcome, t)"
    by fastforce
  with assms(1) Some have r: "r = Ok outcome" "s' = t"
    by (auto simp: confirm_write_def take_plan_def)
  from emits_run [OF emits_confirm_stored run] assms(2) r(2)
  have *: "case outcome of
        NotExecuted d \<Rightarrow>
          (no_write es \<and> (\<forall>e\<in>set es. is_check_event e \<or> is_refusal_event e)) \<or>
          (\<exists>chk cs. es = chk @ cs \<and> checks chk \<and> not_committed (sp_plan stored) d cs)
      | Executed outcome \<Rightarrow>
          \<exists>profile p after chk cs now. es = chk @ cs \<and> confirmation_matches (sp_plan stored) confirmation \<and>
            EvMonotonic now \<in> set chk \<and> now \<le> pwp_expires_at (sp_plan stored) \<and>
            confirmed E stored profile p after chk \<and>
            committed E (sp_plan stored) profile p (pwp_previous_raw (sp_plan stored)) after outcome cs"
    by auto
  show thesis
  proof (cases outcome)
    case (NotExecuted d)
    with * refused [OF Some] abandoned [OF Some] r show thesis by auto
  next
    case (Executed out)
    with * obtain profile p after chk cs now where "es = chk @ cs"
      "confirmation_matches (sp_plan stored) confirmation"
      "EvMonotonic now \<in> set chk" "now \<le> pwp_expires_at (sp_plan stored)"
      "confirmed E stored profile p after chk"
      "committed E (sp_plan stored) profile p (pwp_previous_raw (sp_plan stored)) after out cs" by auto
    with executed [OF Some] r Executed show thesis by blast
  qed
qed

lemma committed_no_write_or_attempted:
  assumes "committed E plan profile p old after outcome cs"
  obtains (none) "no_write cs"
  | (one) i token d ev now w res rest fin where
      "cs = [EvBeginSingle (pwp_operation_id plan) (pwp_plan_id plan) (Ok ()), EvAuditAvailable True,
         EvPrepare (write_preparation plan p old i) (Ok token), EvNow now, EvWrite w res] @ rest @ fin @
         [EvFinishSingle (Executed outcome)]"
      "matches_preparation token (write_preparation plan p old i)"
      "attempted E (Manual plan) profile i (wss_slave_id after) (d, ev) (EvNow now # EvWrite w res # rest)"
      "no_write rest" "no_write fin"
      "(outcome = d \<and> fin = [EvFinalize token d ev (Ok ())]) \<or>
       (outcome = AuditDegraded \<and> (\<exists>e m. fin = [EvFinalize token d ev (Err e), EvDiagnostic m]))"
proof -
  from assms obtain i token d ev mid fin where
    cs: "cs = [EvBeginSingle (pwp_operation_id plan) (pwp_plan_id plan) (Ok ()), EvAuditAvailable True,
           EvPrepare (write_preparation plan p old i) (Ok token)] @ mid @ fin @ [EvFinishSingle (Executed outcome)]"
    and tok: "matches_preparation token (write_preparation plan p old i)"
    and mid: "not_attempted (d, ev) mid \<or> attempted E (Manual plan) profile i (wss_slave_id after) (d, ev) mid"
    and fin: "(outcome = d \<and> fin = [EvFinalize token d ev (Ok ())]) \<or>
       (outcome = AuditDegraded \<and> (\<exists>e m. fin = [EvFinalize token d ev (Err e), EvDiagnostic m]))"
    unfolding committed_def Let_def by blast
  have nf: "no_write fin" using fin by auto
  from mid show thesis
  proof
    assume "not_attempted (d, ev) mid"
    with cs nf none show thesis by (auto simp: not_attempted_def checks_no_write)
  next
    assume a: "attempted E (Manual plan) profile i (wss_slave_id after) (d, ev) mid"
    then obtain now w res rest where m: "mid = EvNow now # EvWrite w res # rest" "list_all is_read_back_event rest"
      using attempted_events by blast
    then have "no_write rest" by (auto simp: list_all_iff read_back_no_write)
    with one [OF _ tok _ _ nf fin] cs a m show thesis by auto
  qed
qed

subsection \<open>Components of the state that a handler keeps\<close>

named_theorems keeps_intro \<open>rules that show that a handler leaves a part of the state alone\<close>

definition keeps :: "('s \<Rightarrow> 'a) \<Rightarrow> ('s, 'r) state \<Rightarrow> bool" where
  "keeps g m \<longleftrightarrow> (\<forall>s. g (snd (run_state m s)) = g s)"

lemma keeps_return [keeps_intro]: "keeps g (State_Monad.return x)"
  by (simp add: keeps_def)

lemma keeps_bind [keeps_intro]: "keeps g m \<Longrightarrow> (\<And>x. keeps g (f x)) \<Longrightarrow> keeps g (State_Monad.bind m f)"
  by (simp add: keeps_def split: prod.splits) (metis snd_conv)

lemma keeps_if [keeps_intro]: "(b \<Longrightarrow> keeps g m) \<Longrightarrow> (\<not> b \<Longrightarrow> keeps g n) \<Longrightarrow> keeps g (if b then m else n)"
  by simp

lemma keeps_option [keeps_intro]:
  "keeps g m \<Longrightarrow> (\<And>y. keeps g (f y)) \<Longrightarrow> keeps g (case x of None \<Rightarrow> m | Some y \<Rightarrow> f y)"
  by (cases x) auto

lemma keeps_sum [keeps_intro]:
  "(\<And>e. keeps g (f e)) \<Longrightarrow> (\<And>y. keeps g (h y)) \<Longrightarrow> keeps g (case x of Inl e \<Rightarrow> f e | Inr y \<Rightarrow> h y)"
  by (cases x) auto

lemma keeps_prod [keeps_intro]: "(\<And>a b. keeps g (f a b)) \<Longrightarrow> keeps g (case x of (a, b) \<Rightarrow> f a b)"
  by (cases x) auto

lemma keeps_call [keeps_intro]: "keeps wc_plans (call f ev)"
  by (simp add: keeps_def call_def split: prod.splits)

lemma keeps_allocate [keeps_intro]:
  "keeps wc_plans allocate_plan_id" "keeps wc_plans allocate_operation_id" "keeps wc_plans allocate_request_id"
  by (simp_all add: keeps_def allocate_plan_id_def allocate_operation_id_def allocate_request_id_def)

lemma keeps_read [keeps_intro]: "keeps wc_plans (read_parameter_raw E p sid oid)"
  unfolding read_parameter_raw_def Let_def by (intro keeps_intro)

lemma keeps_drive_state [keeps_intro]: "keeps wc_plans (read_drive_state E profile sid oid)"
  unfolding read_drive_state_def by (intro keeps_intro)

lemma keeps_trusted [keeps_intro]: "keeps wc_plans (trusted_profile E h)"
  unfolding trusted_profile_def by (intro keeps_intro)

lemma keeps_persist [keeps_intro]: "keeps wc_plans (persist_decision E record d)"
  unfolding persist_decision_def Let_def by (intro keeps_intro)

lemma keeps_decisions [keeps_intro]:
  "keeps wc_plans (plan_decision E plan d)" "keeps wc_plans (intent_decision E pid intent d)"
  "keeps wc_plans (plan_rejected E plan d)" "keeps wc_plans (intent_rejected E pid intent d)"
  "keeps wc_plans (audit_prepare_failed E m)"
  unfolding plan_decision_def intent_decision_def plan_rejected_def intent_rejected_def
    audit_prepare_failed_def
  by (intro keeps_intro)+

lemma keeps_read_back [keeps_intro]: "keeps wc_plans (read_back_loop E p a k left mm er)"
proof (induction left arbitrary: k mm er)
  case 0
  show ?case unfolding read_back_loop.simps by (intro keeps_intro)
next
  case (Suc left)
  show ?case unfolding read_back_loop.simps Let_def by (intro keeps_intro Suc.IH)
qed

lemma keeps_execute_once [keeps_intro]: "keeps wc_plans (execute_once E a profile i slave)"
  unfolding execute_once_def by (intro keeps_intro)

lemma keeps_finalize [keeps_intro]: "keeps wc_plans (finalize_write E token prefix d ev)"
  unfolding finalize_write_def Let_def by (intro keeps_intro)

lemma keeps_confirm_stored: "keeps wc_plans (confirm_stored E stored c)"
  unfolding confirm_stored_def confirm_checks_def confirm_reads_def commit_write_def Let_def
  by (intro keeps_intro)

lemma confirm_write_plans:
  assumes "run_state (confirm_write E plan_id c) s = (r, s')"
  shows "wc_plans s' = bt_remove plan_id (wc_plans s)"
proof (cases "bt_get (wc_plans s) plan_id")
  case None
  then have "bt_remove plan_id (wc_plans s) = wc_plans s"
    by (auto simp: bt_remove_def map_of_eq_None_iff filter_id_conv)
  with None assms show ?thesis by (auto simp: confirm_write_def take_plan_def)
next
  case (Some stored)
  let ?s = "s\<lparr>wc_plans := bt_remove plan_id (wc_plans s)\<rparr>"
  obtain out t where run: "run_state (confirm_stored E stored c) ?s = (out, t)" by fastforce
  have "wc_plans t = wc_plans ?s"
    using keeps_confirm_stored [of E stored c, unfolded keeps_def, rule_format, of ?s] run by simp
  moreover have "s' = t" using assms Some run by (simp add: confirm_write_def take_plan_def)
  ultimately show ?thesis by simp
qed

subsection \<open>Phase one\<close>

text \<open>What phase one has established when it hands out a plan.\<close>

definition planned ::
  "('w, 'd) write_env \<Rightarrow> 'd write_intent \<Rightarrow> 'd prepared_write_plan \<Rightarrow> 'd port_event list \<Rightarrow> bool" where
  "planned E intent plan es \<longleftrightarrow>
     (\<exists>profile p before after now.
        wcc_process_writes_enabled (we_config E) \<and>
        EvTrusted (vdp_profile_id profile) True \<in> set es \<and>
        to_hex (vdp_profile_hash profile) = wi_profile_hash intent \<and>
        profile_parameter profile (wi_parameter_id intent) = Some p \<and> manual_parameter_allowed p \<and>
        authoritative_target (we_decimal E) p (wi_requested_engineering intent) = Ok (pwp_target_raw plan) \<and>
        (\<forall>preview. wi_preview_raw intent = Some preview \<longrightarrow> preview = pwp_target_raw plan) \<and>
        stopped_read profile (wi_session_id intent) es \<and>
        fresh_read p (wi_session_id intent) (wi_previous_raw intent) es \<and>
        EvSnapshot before \<in> set es \<and> EvSnapshot after \<in> set es \<and> same_write_context before after \<and>
        plan_matches_session plan after \<and> intent_matches_session intent before \<and>
        EvMonotonic now \<in> set es \<and>
        pwp_expires_at plan = sat_add now (of_nat (wcc_plan_ttl (we_config E))) \<and>
        plan = new_plan E (pwp_plan_id plan) (pwp_operation_id plan) intent before p
          (wi_previous_raw intent) (wi_previous_engineering intent) (pwp_target_raw plan) now)"

lemma new_plan_sels [simp]:
  "pwp_plan_id (new_plan E a b i s p r e t n) = a" "pwp_operation_id (new_plan E a b i s p r e t n) = b"
  "pwp_target_raw (new_plan E a b i s p r e t n) = t"
  "pwp_expires_at (new_plan E a b i s p r e t n) = sat_add n (of_nat (wcc_plan_ttl (we_config E)))"
  "pwp_session_id (new_plan E a b i s p r e t n) = wss_session_id s"
  "pwp_fingerprint (new_plan E a b i s p r e t n) = wss_fingerprint s"
  "pwp_profile_hash (new_plan E a b i s p r e t n) = wi_profile_hash i"
  by (simp_all add: new_plan_def Let_def)

lemma plannedI:
  assumes "wcc_process_writes_enabled (we_config E)" and "intent_matches_session intent b"
    and "profile_parameter profile (wi_parameter_id intent) = Some p" and "manual_parameter_allowed p"
    and "authoritative_target (we_decimal E) p (wi_requested_engineering intent) = Ok t"
    and "\<not> (case wi_preview_raw intent of None \<Rightarrow> False | Some preview \<Rightarrow> preview \<noteq> t)"
    and "same_write_context b a" and "wss_audit_healthy b" and "wss_armed b" and "wss_connected b"
    and "wss_operation_idle b"
    and "stopped_read profile (wss_session_id b) es2"
    and "fresh_read p (wss_session_id b) (wi_previous_raw intent) es3"
    and "to_hex (vdp_profile_hash profile) = wi_profile_hash intent"
    and "EvTrusted (vdp_profile_id profile) True \<in> set es1"
  shows "planned E intent (new_plan E x y intent b p (wi_previous_raw intent)
      (wi_previous_engineering intent) t now) (EvSnapshot b # es1 @ es2 @ es3 @ [EvSnapshot a, EvMonotonic now])"
proof -
  let ?plan = "new_plan E x y intent b p (wi_previous_raw intent) (wi_previous_engineering intent) t now"
  have "plan_matches_session ?plan b"
    using assms by (simp add: plan_matches_session_def intent_matches_session_def)
  then have "plan_matches_session ?plan a" using assms(7) same_write_context_matches by blast
  moreover have "wss_session_id b = wi_session_id intent" using assms(2) by (simp add: intent_matches_session_def)
  moreover have "\<forall>preview. wi_preview_raw intent = Some preview \<longrightarrow> preview = t"
    using assms(6) by (simp split: option.splits)
  ultimately show ?thesis
    unfolding planned_def using assms
    by (intro exI [of _ profile] exI [of _ p] exI [of _ b] exI [of _ a] exI [of _ now])
      (simp add: stopped_read_Cons fresh_read_Cons)
qed

lemma emits_store [emits_intro]: "P (Ok plan) [] \<Longrightarrow> emits (State (\<lambda>s. (Ok plan, s\<lparr>wc_plans := f s\<rparr>))) P"
  by (simp add: emits_def)

lemma emits_prepare_write:
  "emits (prepare_write E intent)
     (\<lambda>r es. case r of
        Inl e \<Rightarrow> no_write es \<and> (\<forall>e\<in>set es. is_check_event e \<or> is_refusal_event e)
      | Inr plan \<Rightarrow> checks es \<and> planned E intent plan es)"
  unfolding prepare_write_def prepare_checks_def Let_def
  apply (intro emits_intro)
  apply (auto simp: checks_no_write refusals_no_write list_all_iff check_no_write refusal_no_write event_kinds intro!: plannedI)
  done

subsection \<open>What phase one stores\<close>

definition inserts :: "('w, 'd, 'e + 'd prepared_write_plan) write_monad \<Rightarrow> bool" where
  "inserts m \<longleftrightarrow>
     (\<forall>s. case run_state m s of
        (Inl _, s') \<Rightarrow> wc_plans s' = wc_plans s
      | (Inr plan, s') \<Rightarrow> \<exists>g. wc_plans s' =
          bt_insert (pwp_plan_id plan) \<lparr>sp_plan = plan, sp_guard_revision = g\<rparr> (wc_plans s))"

lemma inserts_bind:
  assumes "keeps wc_plans m" and "\<And>x. inserts (f x)" shows "inserts (State_Monad.bind m f)"
  unfolding inserts_def
proof
  fix s
  obtain x t where t: "run_state m s = (x, t)" by fastforce
  with assms(1) have "wc_plans t = wc_plans s" unfolding keeps_def by (metis snd_conv)
  with t assms(2) [of x, unfolded inserts_def, rule_format, of t]
  show "case run_state (State_Monad.bind m f) s of
        (Inl _, s') \<Rightarrow> wc_plans s' = wc_plans s
      | (Inr plan, s') \<Rightarrow> \<exists>g. wc_plans s' =
          bt_insert (pwp_plan_id plan) \<lparr>sp_plan = plan, sp_guard_revision = g\<rparr> (wc_plans s)"
    by (auto split: prod.splits sum.splits)
qed

lemma inserts_rejected: "inserts (intent_rejected E pid intent d)"
  unfolding inserts_def
proof
  fix s :: "('a, 'b) write_coordinator"
  obtain e t where "run_state (intent_rejected E pid intent d) s =
      (Inl e :: write_coordinator_error + 'b prepared_write_plan, t)"
    by (cases "run_state (intent_decision E pid intent d) s") (simp add: intent_rejected_def)
  moreover from this keeps_decisions(4) [of E pid intent d] have "wc_plans t = wc_plans s"
    unfolding keeps_def by (metis snd_conv)
  ultimately show "case run_state (intent_rejected E pid intent d) s of
        (Inl _, s') \<Rightarrow> wc_plans s' = wc_plans s
      | (Inr plan, s') \<Rightarrow> \<exists>g. wc_plans s' =
          bt_insert (pwp_plan_id plan) \<lparr>sp_plan = plan, sp_guard_revision = g\<rparr> (wc_plans s)"
    by simp
qed

lemma inserts_cases:
  "(b \<Longrightarrow> inserts m) \<Longrightarrow> (\<not> b \<Longrightarrow> inserts n) \<Longrightarrow> inserts (if b then m else n)"
  "inserts m \<Longrightarrow> (\<And>y. inserts (f y)) \<Longrightarrow> inserts (case x of None \<Rightarrow> m | Some y \<Rightarrow> f y)"
  "(\<And>e. inserts (h e)) \<Longrightarrow> (\<And>y. inserts (k y)) \<Longrightarrow> inserts (case z of Inl e \<Rightarrow> h e | Inr y \<Rightarrow> k y)"
  by (auto split: option.splits sum.splits)

lemma inserts_store:
  "pwp_plan_id plan = pid \<Longrightarrow>
   inserts (State (\<lambda>s. (Ok plan, s\<lparr>wc_plans := bt_insert pid \<lparr>sp_plan = plan, sp_guard_revision = g\<rparr> (wc_plans s)\<rparr>)))"
  by (auto simp: inserts_def)

lemma inserts_prepare_write: "inserts (prepare_write E intent)"
  unfolding prepare_write_def prepare_checks_def Let_def
  by (intro inserts_bind inserts_rejected inserts_cases inserts_store keeps_intro) simp_all

end
