(* ===== verification/Write_Samples.thy ===== *)
theory Write_Samples
  imports Write_Safety
begin

text \<open>
  A concrete run of the write kernel, at which its properties are instantiated: adapters over a
  one-register device, an intent, the plan that phase one makes of it and its confirmation.
\<close>

definition demo_ports :: "(u16, rat) ports" where
  "demo_ports = \<lparr>
     po_read = (\<lambda>req w. (Ok [if rb_start (rbr_block req) = 20 then 0 else w], w)),
     po_execute = (\<lambda>p w. (Ok (), hd (pbw_values p))),
     po_is_available = (\<lambda>w. (True, w)),
     po_record_decision = (\<lambda>d w. (Ok (), w)),
     po_prepare_device_write = (\<lambda>p w. (Ok (for_preparation 1 p), w)),
     po_finalize_device_write = (\<lambda>t d e w. (Ok (), w)),
     po_begin_operation = (\<lambda>st w. (Ok (for_start 1 st), w)),
     po_finish_operation = (\<lambda>t f w. (Ok (), w)),
     po_is_trusted = (\<lambda>i w. (True, w)),
     po_active_profile_by_hash = (\<lambda>h w. (Ok demo_profile, w)),
     po_monotonic_ns = (\<lambda>w. (50, w)),
     po_sleep = (\<lambda>d w. ((), w)),
     po_instant_now = (\<lambda>w. (0, w)),
     po_snapshot = (\<lambda>w. (demo_snapshot, w)),
     po_begin_single_write = (\<lambda>oid pid w. (Ok (), w)),
     po_finish_single_write = (\<lambda>oc w. ((), w)),
     po_begin_restore = (\<lambda>oid h w. (Ok (), w)),
     po_restore_matches = (\<lambda>oid h i w. (True, w)),
     po_advance_restore = (\<lambda>oid h i w. (Ok (), w)),
     po_finish_restore = (\<lambda>oid h w. (Ok (), w)),
     po_abort_restore = (\<lambda>oid h w. (Ok (), w)),
     po_disarm = (\<lambda>w. ((), w)),
     po_degrade_audit_and_disarm = (\<lambda>w. ((), w)),
     po_report_write_diagnostic = (\<lambda>m w. ((), w))\<rparr>"

definition demo_env :: "(u16, rat) write_env" where
  "demo_env = \<lparr>we_ports = demo_ports,
     we_config = default_write_config\<lparr>wcc_process_writes_enabled := True\<rparr>,
     we_decimal = rat_decimal, we_sha256 = (\<lambda>_. replicate 32 0)\<rparr>"

definition demo_coordinator :: "(u16, rat) write_coordinator" where
  "demo_coordinator = \<lparr>ac_world = 3, ac_trace = [], wc_plans = [], wc_next_plan_id = 1,
     wc_next_operation_id = 1, wc_next_request_id = 1\<rparr>"

definition demo_intent :: "rat write_intent" where
  "demo_intent = \<lparr>wi_session_id = 1, wi_fingerprint = ''fp'', wi_profile_hash = ''00'',
     wi_parameter_id = ''ramp'', wi_previous_raw = [3], wi_previous_engineering = Fixed 3,
     wi_previous_observed_at = 0, wi_requested_engineering = Fixed 5, wi_preview_raw = None,
     wi_created_at = 0\<rparr>"

lemma demo_port_sels [simp]:
  "we_ports demo_env = demo_ports" "we_decimal demo_env = rat_decimal"
  "we_sha256 demo_env = (\<lambda>_. replicate 32 0)"
  "wcc_process_writes_enabled (we_config demo_env)" "wcc_request_timeout (we_config demo_env) = from_secs 1"
  "wcc_plan_ttl (we_config demo_env) = from_secs 15" "wcc_read_back_attempts (we_config demo_env) = 3"
  by (simp_all add: demo_env_def default_write_config_def)

lemma demo_calls [simp]:
  "po_read demo_ports req w = (Ok [if rb_start (rbr_block req) = 20 then 0 else w], w)"
  "po_execute demo_ports p w = (Ok (), hd (pbw_values p))"
  "po_is_available demo_ports w = (True, w)"
  "po_prepare_device_write demo_ports pr w = (Ok (for_preparation 1 pr), w)"
  "po_finalize_device_write demo_ports t d e w = (Ok (), w)"
  "po_is_trusted demo_ports i w = (True, w)"
  "po_active_profile_by_hash demo_ports h w = (Ok demo_profile, w)"
  "po_monotonic_ns demo_ports w = (50, w)"
  "po_instant_now demo_ports w = (0, w)"
  "po_snapshot demo_ports w = (demo_snapshot, w)"
  "po_begin_single_write demo_ports oid pid w = (Ok (), w)"
  "po_finish_single_write demo_ports oc w = ((), w)"
  by (simp_all add: demo_ports_def)

definition demo_request :: "request_id \<Rightarrow> operation_id \<Rightarrow> register_address \<Rightarrow> read_bus_request" where
  "demo_request i oid a = \<lparr>rbr_context = safety_one_shot i 1 (from_secs 1) (Some oid), rbr_slave = 1,
     rbr_function = ReadHoldingRegisters, rbr_block = demo_block a, rbr_periodic = False\<rparr>"

lemma demo_block_new: "unat a < 100 \<Longrightarrow>
    register_block_new HoldingRegisters a 1 ReadHoldingRegisters = Ok (demo_block a)"
  by (simp add: register_block_new_read_Ok demo_block_def is_write_def validate_table_Ok_iff)

lemma demo_one_shot:
  "read_request_one_shot (safety_one_shot i 1 (from_secs 1) (Some oid)) 1 ReadHoldingRegisters (demo_block a) =
     Ok (demo_request i oid a)"
  by (simp add: read_request_one_shot_def Let_def read_request_validate_def is_write_def demo_block_def
      demo_request_def)

lemma demo_read:
  "vp_block p = demo_block a \<Longrightarrow> unat a < 100 \<Longrightarrow>
   run_state (read_parameter_raw demo_env p 1 oid) s =
     (Ok [if a = 20 then 0 else ac_world s],
      s\<lparr>ac_trace := ac_trace s @ [EvNow 0, EvSnapshot demo_snapshot,
          EvRead (demo_request (wc_next_request_id s) oid a) (Ok [if a = 20 then 0 else ac_world s])],
        wc_next_request_id := sat_inc (wc_next_request_id s)\<rparr>)"
  using demo_block_new [of a] demo_one_shot [of "wc_next_request_id s" oid a]
  by (simp add: read_parameter_raw_def allocate_request_id_def call_def read_function_of_def
      demo_block_def demo_snapshot_def demo_request_def Let_def)

lemma demo_profile_sels [simp]:
  "profile_parameter demo_profile ''ramp'' = Some demo_parameter"
  "vdp_drive_state_source demo_profile = Some \<lparr>dss_parameter_id = ''state'', dss_stopped_raw = [[0]],
       dss_running_raw = [[1]], dss_faulted_raw = [[2]]\<rparr>"
  "profile_parameter demo_profile ''state'' = Some demo_state_parameter"
  by (simp_all add: profile_parameter_def demo_profile_def)

lemma demo_parameter_sels [simp]:
  "vp_block demo_parameter = demo_block 10" "vp_block demo_state_parameter = demo_block 20"
  "vp_codec demo_parameter = demo_codec" "vp_write_function demo_parameter = Some WriteSingleRegister"
  "vp_access demo_parameter = WritableWhenStopped" "vp_forbidden_raw demo_parameter = [[7]]"
  "vp_read_back demo_parameter = ExactRaw" "vp_code demo_parameter = ''C1''"
  "manual_parameter_allowed demo_parameter"
  by (simp_all add: demo_parameter_def demo_state_parameter_def manual_parameter_allowed_def is_write_def)

lemma demo_snapshot_sels [simp]:
  "wss_session_id demo_snapshot = 1" "wss_fingerprint demo_snapshot = ''fp''"
  "wss_profile_hash demo_snapshot = ''00''" "wss_connected demo_snapshot" "wss_armed demo_snapshot"
  "wss_audit_healthy demo_snapshot" "wss_operation_idle demo_snapshot"
  "wss_guard_revision demo_snapshot = 3" "wss_slave_id demo_snapshot = 1"
  by (simp_all add: demo_snapshot_def)

lemma demo_state_read:
  "run_state (read_drive_state demo_env demo_profile 1 oid) s =
     (Ok Stopped, s\<lparr>ac_trace := ac_trace s @ [EvNow 0, EvSnapshot demo_snapshot,
          EvRead (demo_request (wc_next_request_id s) oid 20) (Ok [0])],
        wc_next_request_id := sat_inc (wc_next_request_id s)\<rparr>)"
  by (simp add: read_drive_state_def demo_read [of demo_state_parameter 20] classify_def)

lemma demo_encode: "encode rat_decimal demo_codec (Fixed 5) = Ok [5]"
  using decode_encode [OF rat_decimal_exact _ demo_decode, of 5]
  by (simp add: demo_codec_def)

lemma demo_target: "authoritative_target rat_decimal demo_parameter (Fixed 5) = Ok [5]"
  by (simp add: authoritative_target_def demo_encode raw_registers_new_def)
    (simp add: target_value_allowed_def demo_parameter_def rat_decimal_def)

lemma demo_trusted:
  "run_state (trusted_profile demo_env ''00'') s =
     (Some demo_profile, s\<lparr>ac_trace := ac_trace s @ [EvProfile ''00'' (Ok demo_profile),
        EvTrusted (vdp_profile_id demo_profile) True]\<rparr>)"
  by (simp add: trusted_profile_def call_def)

definition demo_plan_of :: "rat prepared_write_plan" where
  "demo_plan_of = new_plan demo_env 1 1 demo_intent demo_snapshot demo_parameter [3] (Fixed 3) [5] 50"

definition demo_stored :: "rat stored_plan" where
  "demo_stored = \<lparr>sp_plan = demo_plan_of, sp_guard_revision = 3\<rparr>"

lemma demo_prepare:
  "\<exists>s'. run_state (prepare_write demo_env demo_intent) demo_coordinator = (Ok demo_plan_of, s') \<and>
     wc_plans s' = [(1, demo_stored)] \<and> ac_world s' = 3"
proof -
  have intent: "wi_requested_engineering demo_intent = Fixed 5" "wi_previous_raw demo_intent = [3]"
    "wi_previous_engineering demo_intent = Fixed 3" "wi_preview_raw demo_intent = None"
    "wi_profile_hash demo_intent = ''00''" "wi_parameter_id demo_intent = ''ramp''"
    "intent_matches_session demo_intent demo_snapshot"
    by (simp_all add: demo_intent_def intent_matches_session_def)
  show ?thesis
    by (simp add: prepare_write_def prepare_checks_def allocate_plan_id_def allocate_operation_id_def
        demo_coordinator_def call_def intent demo_trusted demo_state_read demo_target
        demo_read [of demo_parameter 10] demo_decode same_write_context_def demo_plan_of_def demo_stored_def
        Let_def)
qed

definition demo_prepared :: "(u16, rat) write_coordinator" where
  "demo_prepared = demo_coordinator\<lparr>wc_plans := [(1, demo_stored)], wc_next_plan_id := 2\<rparr>"

lemma demo_plan_sels [simp]:
  "pwp_plan_id demo_plan_of = 1" "pwp_operation_id demo_plan_of = 1" "pwp_session_id demo_plan_of = 1"
  "pwp_fingerprint demo_plan_of = ''fp''" "pwp_profile_hash demo_plan_of = ''00''"
  "pwp_parameter_id demo_plan_of = ''ramp''" "pwp_previous_raw demo_plan_of = [3]"
  "pwp_previous_engineering demo_plan_of = Fixed 3" "pwp_requested_engineering demo_plan_of = Fixed 5"
  "pwp_target_raw demo_plan_of = [5]" "pwp_confirmation demo_plan_of = Standard"
  "pwp_context_hash demo_plan_of = to_hex (replicate 32 0)" "\<not> pwp_expires_at demo_plan_of < 50"
  "plan_matches_session demo_plan_of demo_snapshot"
  by (simp_all add: demo_plan_of_def new_plan_def Let_def demo_intent_def write_context_hash_def
      plan_matches_session_def sat_add_def)

lemma to_hex_Nil_iff [simp]: "to_hex bs = [] \<longleftrightarrow> bs = []"
  by (cases bs) (simp_all add: to_hex_def hex_byte_def)

lemma demo_write:
  "from_write_authority ctx 1 WriteSingleRegister (demo_block 10) [5] =
     Ok \<lparr>pbw_context = ctx, pbw_slave = 1, pbw_function = WriteSingleRegister,
         pbw_block = demo_block 10, pbw_values = [5]\<rparr>"
  by (simp add: from_write_authority_def is_write_def demo_block_def)

lemma three_reads:
  "read_back_loop E p a k 3 mm er = read_back_loop E p a k (Suc 2) mm er"
  by (simp only: eval_nat_numeral)

lemma demo_confirm:
  "\<exists>s' es w. run_state (confirm_write demo_env 1 (Confirm (pwp_challenge demo_plan_of))) demo_prepared =
       (Ok (Executed Verified), s') \<and> ac_trace s' = ac_trace demo_prepared @ es \<and>
     EvWrite w (Ok ()) \<in> set es \<and> EvBeginSingle 1 1 (Ok ()) \<in> set es \<and> wc_plans s' = []"
proof -
  have exec: "execute_once demo_env (Manual demo_plan_of) demo_profile i 1 =
    do {
      now \<leftarrow> call (po_instant_now demo_ports) EvNow;
      let w = \<lparr>pbw_context = safety_one_shot i 1 (now + from_secs 1) (Some 1), pbw_slave = 1,
                pbw_function = WriteSingleRegister, pbw_block = demo_block 10, pbw_values = [5]\<rparr>;
      written \<leftarrow> call (po_execute demo_ports w) (EvWrite w);
      (case written of
         Inl e \<Rightarrow> State_Monad.return (map_write_error e, EvNotAttempted)
       | Inr _ \<Rightarrow> read_back_loop demo_env demo_parameter (Manual demo_plan_of) 1 3 None None)
    }" for i
    by (simp add: execute_once_def operation_step_is_well_formed_def ea_context_hash_def ea_fingerprint_def
        ea_profile_hash_def ea_parameter_id_def ea_expected_old_raw_def ea_target_raw_def ea_session_id_def
        ea_operation_id_def ea_parameter_allowed_def demo_block_def Let_def demo_write [unfolded demo_block_def])
  show ?thesis
    by (simp add: confirm_write_def take_plan_def demo_prepared_def demo_coordinator_def demo_stored_def
        bt_remove_def confirm_stored_def confirm_checks_def confirm_reads_def call_def confirmation_matches_def
        demo_trusted demo_target demo_state_read demo_read [of demo_parameter 10] demo_decode
        same_write_context_def write_context_hash_def commit_write_def allocate_request_id_def
        write_preparation_def exec three_reads [unfolded read_back_loop.simps] read_back_matches_def ea_session_id_def ea_operation_id_def
        ea_target_raw_def finalize_write_def Let_def)
qed

end
