(* ===== verification/Write_Properties.thy ===== *)
theory Write_Properties
  imports Write_Samples
begin

text \<open>
  The properties of the guarded write kernel, each with a concrete run that meets its hypotheses.
\<close>

subsection \<open>Properties of confirmations\<close>


text \<open>
  A claimed session is always released. Whatever the adapters answer, once a confirmation has
  claimed the session, either the write was executed, its audit record was finalized and the last
  event hands that outcome to the session, exactly once and with no degradation before it; or
  nothing was written, the outcome is \<open>AuditUnavailable\<close> and the session was degraded and disarmed,
  which resets the operation.
\<close>

theorem confirm_write_releases_session:
  assumes "run_state (confirm_write E plan_id confirmation) s = (r, s')"
    and "ac_trace s' = ac_trace s @ es" and "EvBeginSingle oid pid (Ok ()) \<in> set es"
  shows "(\<exists>outcome body token d ev fr. r = Ok (Executed outcome) \<and>
      es = body @ [EvFinishSingle (Executed outcome)] \<and> EvFinalize token d ev fr \<in> set body \<and>
      (outcome = d \<and> fr = Ok () \<or> outcome = AuditDegraded \<and> fr \<noteq> Ok ()) \<and>
      EvDegrade \<notin> set body \<and> (\<forall>x. EvFinishSingle x \<notin> set body)) \<or>
    (r = Ok (NotExecuted DecisionAuditUnavailable) \<and> no_write es \<and>
      (\<exists>body m. es = body @ [EvDegrade, EvDiagnostic m]))"
  using assms(1,2)
proof (cases rule: confirm_write_cases)
  case unknown
  with assms(3) show ?thesis by simp
next
  case (refused stored d)
  with assms(3) show ?thesis by (auto simp: is_check_event_def is_refusal_event_def)
next
  case (abandoned stored d chk cs)
  have c: "no_write chk" "EvBeginSingle oid pid (Ok ()) \<notin> set chk"
    using abandoned(4) by (simp add: checks_no_write) (use abandoned(4) in \<open>auto simp: list_all_iff is_check_event_def\<close>)
  have nb: "refusals fs \<Longrightarrow> EvBeginSingle oid pid (Ok ()) \<notin> set fs" for fs :: "'b port_event list"
    by (auto simp: list_all_iff is_refusal_event_def)
  from abandoned(5) assms(3) abandoned(3) c nb obtain fs m where
    "cs = EvBeginSingle (pwp_operation_id (sp_plan stored)) (pwp_plan_id (sp_plan stored)) (Ok ()) #
       fs @ [EvDegrade, EvDiagnostic m]" "d = DecisionAuditUnavailable" "no_write cs"
    unfolding not_committed_def by auto
  then have "es = (chk @ EvBeginSingle (pwp_operation_id (sp_plan stored)) (pwp_plan_id (sp_plan stored)) (Ok ()) # fs) @
      [EvDegrade, EvDiagnostic m]" "no_write es" "d = DecisionAuditUnavailable"
    using abandoned(3) c by simp_all
  with abandoned(2) show ?thesis by blast
next
  case (executed stored outcome profile p after chk cs now)
  from executed(8) obtain i token d ev mid fin where
    cs: "cs = [EvBeginSingle (pwp_operation_id (sp_plan stored)) (pwp_plan_id (sp_plan stored)) (Ok ()),
           EvAuditAvailable True,
           EvPrepare (write_preparation (sp_plan stored) p (pwp_previous_raw (sp_plan stored)) i) (Ok token)] @
           mid @ fin @ [EvFinishSingle (Executed outcome)]"
    and mid: "not_attempted (d, ev) mid \<or>
        attempted E (Manual (sp_plan stored)) profile i (wss_slave_id after) (d, ev) mid"
    and fin: "(outcome = d \<and> fin = [EvFinalize token d ev (Ok ())]) \<or>
       (outcome = AuditDegraded \<and> (\<exists>e m. fin = [EvFinalize token d ev (Err e), EvDiagnostic m]))"
    unfolding committed_def Let_def by blast
  define body where "body = chk @ [EvBeginSingle (pwp_operation_id (sp_plan stored)) (pwp_plan_id (sp_plan stored)) (Ok ()),
           EvAuditAvailable True,
           EvPrepare (write_preparation (sp_plan stored) p (pwp_previous_raw (sp_plan stored)) i) (Ok token)] @
           mid @ fin"
  have es: "es = body @ [EvFinishSingle (Executed outcome)]" using executed(3) cs by (simp add: body_def)
  have "checks chk" using executed(7) by (rule confirmed_checks)
  then have nc: "\<not> is_closing_event e" if "e \<in> set chk \<union> set mid" for e
    using that execution_not_closing [OF mid] check_not_closing by (auto simp: list_all_iff)
  then have "EvDegrade \<notin> set body" "\<forall>x. EvFinishSingle x \<notin> set body"
    using fin unfolding body_def by (force simp: is_closing_event_def)+
  moreover have "\<exists>fr. EvFinalize token d ev fr \<in> set body \<and>
    (outcome = d \<and> fr = Ok () \<or> outcome = AuditDegraded \<and> fr \<noteq> Ok ())"
    using fin
  proof (elim disjE conjE exE)
    assume "outcome = d" "fin = [EvFinalize token d ev (Ok ())]"
    then show ?thesis by (intro exI [of _ "Ok ()"]) (simp add: body_def)
  next
    fix e m assume "outcome = AuditDegraded" "fin = [EvFinalize token d ev (Err e), EvDiagnostic m]"
    then show ?thesis by (intro exI [of _ "Err e"]) (simp add: body_def)
  qed
  ultimately show ?thesis using es executed(2) by blast
qed


text \<open>
  C3. A plan is good for one confirmation. However a confirmation ends, its plan is gone from the
  coordinator and every other plan is still there; confirming the same plan again, with any
  confirmation, returns \<open>UnknownOrConsumedPlan\<close> and does nothing else.
\<close>

theorem confirm_write_consumes_plan:
  assumes "run_state (confirm_write E plan_id confirmation) s = (r, s')"
  shows "(\<forall>k. bt_get (wc_plans s') k = (if k = plan_id then None else bt_get (wc_plans s) k)) \<and>
    run_state (confirm_write E plan_id again) s' = (Err UnknownOrConsumedPlan, s')"
proof -
  have p: "wc_plans s' = bt_remove plan_id (wc_plans s)" by (rule confirm_write_plans [OF assms])
  then have "bt_remove plan_id (wc_plans s') = wc_plans s'" by (simp add: bt_remove_def)
  with p show ?thesis by (simp add: confirm_write_def take_plan_def)
qed




theorem confirm_write_releases_session_witness:
  "\<exists>body. ac_trace (snd (run_state (confirm_write demo_env 1 (Confirm (pwp_challenge demo_plan_of))) demo_prepared)) =
     body @ [EvFinishSingle (Executed Verified)]"
proof -
  obtain s' es where run: "run_state (confirm_write demo_env 1 (Confirm (pwp_challenge demo_plan_of))) demo_prepared =
       (Ok (Executed Verified), s')" "ac_trace s' = ac_trace demo_prepared @ es" "EvBeginSingle 1 1 (Ok ()) \<in> set es"
    using demo_confirm by blast
  from confirm_write_releases_session [OF run] run show ?thesis
    by (auto simp: demo_prepared_def demo_coordinator_def)
qed


theorem confirm_write_consumes_plan_witness:
  "\<exists>s'. run_state (confirm_write demo_env 1 (Confirm (pwp_challenge demo_plan_of))) demo_prepared =
       (Ok (Executed Verified), s') \<and>
     run_state (confirm_write demo_env 1 ConfirmCancelled) s' = (Err UnknownOrConsumedPlan, s')"
  using demo_confirm confirm_write_consumes_plan by blast

end
