(* ===== verification/Domain_Properties.thy ===== *)
theory Domain_Properties
  imports Samples Bus
begin

text \<open>
  Properties of the domain layer: register blocks, codecs, identifiers, units and the requests that
  reach the bus, each with a concrete instance of its hypotheses.
\<close>

subsection \<open>Register blocks\<close>

text \<open>
  A register block that is accepted stays inside the 16-bit address space, respects the
  protocol's limit for its function (125 registers for reads, one or 123 for writes), and pairs
  input registers with exactly the input-register read function. A count that reaches a block
  through \<open>RegisterCount\<close> is not zero.
\<close>

theorem register_block_limits:
  assumes "register_count_new n = Ok c" and "register_block_new t s c f = Ok b"
  shows "unat (rb_start b) + unat (rb_count b) \<le> 65536 \<and> 0 < unat (rb_count b) \<and>
    unat (rb_count b) \<le> (if f = WriteSingleRegister then 1 else if f = WriteMultipleRegisters then 123 else 125) \<and>
    (f = ReadInputRegisters \<longleftrightarrow> rb_table b = InputRegisters) \<and> rb_start b = s \<and> rb_count b = c"
proof -
  note b = register_block_new_OkD [OF assms(2)]
  have "c \<noteq> 0" using assms(1) by (auto simp: register_count_new_def split: if_splits)
  then have c: "0 < unat c" by (simp add: unat_gt_0)
  then have "unat (c - 1) = unat c - 1" by (simp add: unat_minus_one \<open>c \<noteq> 0\<close>)
  with b(4) c have "unat s + unat c \<le> 65536" by simp
  moreover have "unat c \<le> (if f = WriteSingleRegister then 1 else if f = WriteMultipleRegisters then 123 else 125)"
    using b(3) [unfolded validate_count_Ok_iff] by (cases f) simp_all
  ultimately show ?thesis using b(1,2) c by (simp add: validate_table_Ok_iff)
qed

theorem register_block_limits_witness:
  "register_block_new HoldingRegisters 65411 125 ReadHoldingRegisters =
     Ok \<lparr>rb_table = HoldingRegisters, rb_start = 65411, rb_count = 125\<rparr> \<and>
   unat (65411 :: u16) + unat (125 :: u16) \<le> 65536"
proof -
  have n: "register_count_new 125 = Ok 125" by (simp add: register_count_new_def)
  have "register_block_new HoldingRegisters 65411 125 ReadHoldingRegisters =
      Ok \<lparr>rb_table = HoldingRegisters, rb_start = 65411, rb_count = 125\<rparr>"
    by (rule register_block_new_read_Ok) (simp_all add: is_write_def)
  with register_block_limits [OF n this] show ?thesis by simp
qed

text \<open>
  The final address of an accepted block is computed with a sum that overflows exactly when the
  block ends at the last register. For every accepted non-empty block \<open>end\<close> is the last address of
  the block, except when the block covers address 65535: there the 16-bit addition overflows (a panic
  in builds with overflow checks, which the release profile enables).
\<close>

theorem register_block_end_overflow:
  assumes "register_count_new n = Ok c" and "register_block_new t s c f = Ok b"
  shows "(case register_block_end b of
      Some e \<Rightarrow> unat e = unat (rb_start b) + unat (rb_count b) - 1 \<and> unat (rb_start b) + unat (rb_count b) < 65536
    | None \<Rightarrow> unat (rb_start b) + unat (rb_count b) = 65536)"
proof -
  note b = register_block_new_OkD [OF assms(2)]
  have "c \<noteq> 0" using assms(1) by (auto simp: register_count_new_def split: if_splits)
  then have c: "0 < unat c" "unat (c - 1) = unat c - 1" by (simp_all add: unat_gt_0 unat_minus_one)
  with b(4) have le: "unat s + unat c \<le> 65536" by simp
  show ?thesis
    using register_block_end_Some [of b] register_block_end_defined [of b] b(1) c le
    by (auto split: option.split)
qed

theorem register_block_end_overflow_witness:
  "register_block_end \<lparr>rb_table = HoldingRegisters, rb_start = 65411, rb_count = 125\<rparr> = None"
proof -
  have n: "register_count_new 125 = Ok 125" by (simp add: register_count_new_def)
  have "register_block_new HoldingRegisters 65411 125 ReadHoldingRegisters =
      Ok \<lparr>rb_table = HoldingRegisters, rb_start = 65411, rb_count = 125\<rparr>"
    by (rule register_block_new_read_Ok) (simp_all add: is_write_def)
  from register_block_end_overflow [OF n this] show ?thesis
    by (simp split: option.splits)
qed

subsection \<open>Codecs\<close>

text \<open>
  C40. Decoding loses nothing: when a codec without a fixed scale decodes a register block, encoding
  the decoded value yields the same registers, for every encoding, byte order and word order. The
  only hypothesis about the third-party decimal type is that it is exact on the integers between
  minus 2 to the 63 and 2 to the 64.
\<close>

theorem codec_round_trip:
  assumes "decimal_integers_exact D" and "rc_fixed_scale c = None" and "decode D c ws = Ok v"
  shows "encode D c v = Ok ws \<and> length ws = register_width (rc_encoding c)"
  using decode_encode [OF assms] decode_length [OF assms(3)] by simp

theorem codec_round_trip_witness:
  "encode rat_decimal demo_codec (Fixed 513) = Ok [513]"
proof -
  have "decode rat_decimal demo_codec [513] = Ok (Fixed 513)" using demo_decode [of 513] by simp
  moreover have "rc_fixed_scale demo_codec = None" by (simp add: demo_codec_def)
  ultimately show ?thesis using codec_round_trip [OF rat_decimal_exact] by blast
qed

text \<open>
  Packing and unpacking registers are inverse: unpacking the bits packed from as many registers
  as the encoding is wide returns these registers, and packing the registers unpacked from a 64-bit
  value returns its low bits, whatever the byte and word orders.
\<close>

theorem codec_bits_inverse:
  "(length ws = register_width (rc_encoding c) \<longrightarrow> bits_to_words c (words_to_bits c ws) = ws) \<and>
   words_to_bits c (bits_to_words c bits) = take_bit (16 * register_width (rc_encoding c)) bits"
  by (simp add: bits_words_round_trip words_bits_round_trip)

theorem codec_bits_inverse_witness:
  "bits_to_words demo_codec (words_to_bits demo_codec [513]) = [513]"
  using codec_bits_inverse [of "[513]" demo_codec 0] by (simp add: demo_codec_def)

text \<open>
  Binary coded decimal is canonical: when the low nibbles of a value decode to a number, encoding
  that number in as many digits returns the value.
\<close>

theorem bcd_decode_encode:
  assumes "decode_bcd bits n = Ok v" and "n \<le> 8" and "take_bit (4 * n) bits = bits"
  shows "encode_bcd (uint v) n = Ok bits"
  using assms by (rule bcd_round_trip)

theorem bcd_decode_encode_witness: "encode_bcd 1234 4 = Ok 0x1234"
proof -
  have "decode_bcd 0x1234 4 = Ok 1234" by code_simp
  moreover have "take_bit (4 * 4) (0x1234 :: u64) = 0x1234" by code_simp
  ultimately show ?thesis using bcd_decode_encode [of "0x1234" 4 1234] by simp
qed

subsection \<open>Identifiers, units and bus requests\<close>

text \<open>
  A text identifier is accepted exactly when it has between 1 and 128 characters, all of them
  letters, digits or one of the four punctuation characters; a rejected character is reported
  with its position, and everything before it was valid.
\<close>

theorem text_id_validation:
  "(validate_text_id s = Ok () \<longleftrightarrow> s \<noteq> [] \<and> length s \<le> 128 \<and> list_all id_char s) \<and>
   (\<forall>i c. validate_text_id s = Err (IdInvalidCharacter i c) \<longrightarrow>
      i < length s \<and> s ! i = c \<and> \<not> id_char c \<and> list_all id_char (take i s))"
proof -
  have n: "first_invalid ok i cs = None \<longleftrightarrow> list_all ok cs" for ok i cs
    by (induction cs arbitrary: i) auto
  have s: "first_invalid ok i cs = Some (k, c) \<Longrightarrow>
      i \<le> k \<and> k - i < length cs \<and> cs ! (k - i) = c \<and> \<not> ok c \<and> list_all ok (take (k - i) cs)" for ok i cs k c
  proof (induction cs arbitrary: i)
    case (Cons d cs)
    show ?case
    proof (cases "ok d")
      case True
      with Cons have "Suc i \<le> k \<and> k - Suc i < length cs \<and> cs ! (k - Suc i) = c \<and> \<not> ok c \<and>
          list_all ok (take (k - Suc i) cs)" by simp
      moreover from this have "k - i = Suc (k - Suc i)" by arith
      ultimately show ?thesis using True by simp
    qed (use Cons.prems in auto)
  qed simp
  show ?thesis
    using n [of id_char 0 s] s [of id_char 0 s]
    by (auto simp: validate_text_id_def MAX_ID_LEN_def split: option.splits)
qed

theorem text_id_validation_witness:
  "\<not> id_char (CHR '' '') \<and> list_all id_char (take 1 ''a b'')"
proof -
  have "validate_text_id ''a b'' = Err (IdInvalidCharacter 1 (CHR '' ''))" by code_simp
  with text_id_validation [of "''a b''"] show ?thesis by blast
qed

text \<open>
  A unit is accepted exactly when its text is a valid unit identifier and either is the standard
  unit of this very quantity, or is a \<open>custom.\<close> unit of a custom quantity; no unit is accepted for two
  different quantities unless both are custom.
\<close>

theorem unit_quantity_agreement:
  "(unit_id_new q s = Ok u \<longleftrightarrow>
     validate_unit_id s = Ok () \<and> u = \<lparr>unit_text = s, unit_quantity = q\<rparr> \<and>
     (standard_quantity s = Some q \<or>
      (standard_quantity s = None \<and> take 7 s = ''custom.'' \<and> is_custom q))) \<and>
   (unit_id_new q s = Ok u \<longrightarrow> unit_id_new q' s = Ok u' \<longrightarrow> q = q' \<or> is_custom q \<and> is_custom q')"
  by (auto simp: unit_id_new_Ok_iff)

theorem unit_quantity_agreement_witness:
  "(\<exists>u. unit_id_new Frequency ''hz'' = Ok u) \<and> \<not> (\<exists>u. unit_id_new Current ''hz'' = Ok u)"
proof -
  have f: "unit_id_new Frequency ''hz'' = Ok \<lparr>unit_text = ''hz'', unit_quantity = Frequency\<rparr>" by code_simp
  have "Current = Frequency \<or> is_custom Current" if "unit_id_new Current ''hz'' = Ok u" for u
    using unit_quantity_agreement [of Current "''hz''" u Frequency] that f by blast
  with f show ?thesis by (auto simp: is_custom_def)
qed

text \<open>
  What reaches the wire is well formed. A one-shot read is built exactly for a read function on
  the matching table with at most 125 registers; an authorised write uses a write function on
  holding registers, carries as many values as the block has registers and at most 123.
\<close>

theorem bus_requests_well_formed:
  "(read_request_one_shot ctx slave f b = Ok r \<longrightarrow>
      \<not> is_write f \<and> (f = ReadInputRegisters \<longleftrightarrow> rb_table b = InputRegisters) \<and>
      unat (rb_count b) \<le> 125 \<and> \<not> rbr_periodic r \<and> rbr_block r = b \<and> rbr_context r = ctx) \<and>
   (from_write_authority ctx slave f b vs = Ok w \<longrightarrow>
      is_write f \<and> rb_table b = HoldingRegisters \<and> length vs = unat (rb_count b) \<and>
      unat (rb_count b) \<le> 123 \<and> pbw_values w = vs \<and> pbw_block w = b \<and> pbw_slave w = slave)"
  by (auto simp: read_request_one_shot_Ok_iff read_request_validate_Ok_iff dest: from_write_authority_OkD)

theorem bus_requests_well_formed_witness:
  "is_write WriteSingleRegister \<and> length [5 :: u16] = unat (rb_count (demo_block 10))"
proof -
  have "\<exists>w. from_write_authority ctx 1 WriteSingleRegister (demo_block 10) [5] = Ok w" for ctx
    by (simp add: from_write_authority_def demo_block_def is_write_def and_then_def)
  then show ?thesis
    using bus_requests_well_formed [where f = WriteSingleRegister and b = "demo_block 10" and vs = "[5]"]
    by blast
qed

end
