(* ===== verification/Restore_Execution.thy ===== *)
theory Restore_Execution
  imports Write_Safety
begin

text \<open>
  The restore handlers of \<open>lantern-app/src/write_coordinator.rs\<close>: preparing an approved plan,
  starting its durable operation, executing its steps one by one through the same physical-write
  kernel as manual writes, and finishing or aborting it. A handler that takes the permit by mutable
  reference returns it next to its result.
\<close>

subsection \<open>Preparing a plan\<close>

fun prepare_restore_steps ::
  "('w, 'd) write_env \<Rightarrow> 'd validated_device_profile \<Rightarrow> session_id \<Rightarrow> operation_id \<Rightarrow> restore_plan_step list
     \<Rightarrow> ('w, 'd, restore_plan_error + unit) write_monad" where
  "prepare_restore_steps E profile sid oid [] = State_Monad.return (Ok ())"
| "prepare_restore_steps E profile sid oid (step # steps) =
     (case profile_parameter profile (rps_parameter_id step) of
        None \<Rightarrow> State_Monad.return (Err (InvalidBackupParameter (rps_parameter_id step)))
      | Some p \<Rightarrow> do {
          fresh \<leftarrow> read_parameter_raw E p sid oid;
          if fresh \<noteq> Ok (rps_expected_old_raw step)
          then State_Monad.return (Err RestorePreconditionChanged)
          else prepare_restore_steps E profile sid oid steps
        })"

definition prepare_restore_plan ::
  "('w, 'd) write_env \<Rightarrow> 'd backup_snapshot \<Rightarrow> 'd backup_snapshot
     \<Rightarrow> ('w, 'd, write_coordinator_error + approved_restore_plan) write_monad" where
  "prepare_restore_plan E source pre_restore =
     (if \<not> wcc_process_writes_enabled (we_config E)
      then State_Monad.return (Err (RestorePlanFailed SessionUnavailable))
      else do {
        before \<leftarrow> call (po_snapshot (we_ports E)) EvSnapshot;
        if \<not> wss_connected before \<or> \<not> wss_armed before \<or> \<not> wss_audit_healthy before \<or>
           \<not> wss_operation_idle before
        then State_Monad.return (Err (RestorePlanFailed SessionUnavailable))
        else do {
          trusted \<leftarrow> trusted_profile E (wss_profile_hash before);
          (case trusted of
             None \<Rightarrow> State_Monad.return (Err (RestorePlanFailed ProfileMismatch))
           | Some profile \<Rightarrow> do {
               operation_id \<leftarrow> allocate_operation_id;
               state \<leftarrow> read_drive_state E profile (wss_session_id before) operation_id;
               if state \<noteq> Ok Stopped
               then State_Monad.return (Err (RestorePlanFailed RestorePreconditionChanged))
               else do {
                 now \<leftarrow> call (po_monotonic_ns (we_ports E)) EvMonotonic;
                 (case build_restore_plan (we_decimal E) (we_sha256 E) source pre_restore profile before
                         \<lparr>rbc_operation_id = operation_id,
                          rbc_expires_at = sat_add now (of_nat (wcc_plan_ttl (we_config E)))\<rparr> of
                    Inl e \<Rightarrow> State_Monad.return (Err (RestorePlanFailed e))
                  | Inr plan \<Rightarrow> do {
                      steps \<leftarrow> prepare_restore_steps E profile (wss_session_id before) operation_id (arp_steps plan);
                      (case steps of
                         Inl e \<Rightarrow> State_Monad.return (Err (RestorePlanFailed e))
                       | Inr _ \<Rightarrow> do {
                           after \<leftarrow> call (po_snapshot (we_ports E)) EvSnapshot;
                           State_Monad.return
                             (if same_write_context before after then Ok plan
                              else Err (RestorePlanFailed RestorePreconditionChanged))
                         })
                    })
               }
             })
        }
      })"

subsection \<open>Starting the operation\<close>

definition restore_disarm ::
  "('w, 'd) write_env \<Rightarrow> write_coordinator_error \<Rightarrow> ('w, 'd, write_coordinator_error + 'a) write_monad" where
  "restore_disarm E e = do {
     _ \<leftarrow> call (po_disarm (we_ports E)) (\<lambda>_. EvDisarm);
     State_Monad.return (Err e)
   }"

definition restore_degrade ::
  "('w, 'd) write_env \<Rightarrow> write_coordinator_error \<Rightarrow> ('w, 'd, write_coordinator_error + 'a) write_monad" where
  "restore_degrade E e = do {
     _ \<leftarrow> call (po_degrade_audit_and_disarm (we_ports E)) (\<lambda>_. EvDegrade);
     State_Monad.return (Err e)
   }"

definition restore_step_allowed :: "'d validated_parameter \<Rightarrow> restore_plan_step \<Rightarrow> bool" where
  "restore_step_allowed p step \<longleftrightarrow>
     restore_parameter_allowed p \<and>
     length (rps_expected_old_raw step) = unat (rb_count (vp_block p)) \<and>
     length (rps_target_raw step) = unat (rb_count (vp_block p)) \<and>
     rps_target_raw step \<notin> set (vp_forbidden_raw p)"

fun begin_restore_steps ::
  "('w, 'd) write_env \<Rightarrow> 'd validated_device_profile \<Rightarrow> approved_restore_plan \<Rightarrow> restore_plan_step list
     \<Rightarrow> ('w, 'd, write_coordinator_error + unit) write_monad" where
  "begin_restore_steps E profile plan [] = State_Monad.return (Ok ())"
| "begin_restore_steps E profile plan (step # steps) =
     (case profile_parameter profile (rps_parameter_id step) of
        None \<Rightarrow> State_Monad.return
          (Err (RestorePlanFailed (InvalidBackupParameter (rps_parameter_id step))))
      | Some p \<Rightarrow>
          if \<not> restore_step_allowed p step
          then restore_disarm E (RestorePlanFailed (InvalidBackupParameter (rps_parameter_id step)))
          else do {
            fresh \<leftarrow> read_parameter_raw E p (arp_session_id plan) (arp_operation_id plan);
            (case fresh of
               Inl _ \<Rightarrow> State_Monad.return (Err (RestorePlanFailed RestorePreconditionChanged))
             | Inr raw \<Rightarrow>
                 if raw \<noteq> rps_expected_old_raw step
                 then restore_disarm E (RestorePlanFailed RestorePreconditionChanged)
                 else begin_restore_steps E profile plan steps)
          })"

definition restore_start :: "approved_restore_plan \<Rightarrow> monotonic_instant \<Rightarrow> operation_audit_start" where
  "restore_start plan now =
     \<lparr>oas_operation_id = arp_operation_id plan, oas_backup_id = arp_backup_id plan,
      oas_plan_hash = arp_plan_hash plan, oas_session_id = arp_session_id plan,
      oas_fingerprint = arp_fingerprint plan, oas_profile_hash = arp_profile_hash plan, oas_at = now\<rparr>"

text \<open>The durable start of the operation and the claim of the session.\<close>

definition begin_restore_commit ::
  "('w, 'd) write_env \<Rightarrow> approved_restore_plan
     \<Rightarrow> ('w, 'd, write_coordinator_error + restore_operation_permit) write_monad" where
  "begin_restore_commit E plan = do {
     available \<leftarrow> call (po_is_available (we_ports E)) EvAuditAvailable;
     if \<not> available then restore_degrade E RestoreAuditUnavailable
     else do {
       now \<leftarrow> call (po_monotonic_ns (we_ports E)) EvMonotonic;
       let start = restore_start plan now;
       begun \<leftarrow> call (po_begin_operation (we_ports E) start) (EvBeginOperation start);
       (case begun of
          Inl _ \<Rightarrow> restore_degrade E RestoreAuditUnavailable
        | Inr token \<Rightarrow>
            if \<not> matches_start token start then restore_degrade E RestoreAuditUnavailable
            else do {
              claimed \<leftarrow> call (po_begin_restore (we_ports E) (arp_operation_id plan) (arp_plan_hash plan))
                           (EvBeginRestore (arp_operation_id plan) (arp_plan_hash plan));
              if claimed \<noteq> Ok ()
              then do {
                moment \<leftarrow> call (po_monotonic_ns (we_ports E)) EvMonotonic;
                let finish = \<lparr>oaf_outcome = OperationAborted, oaf_final_step_index = None,
                              oaf_summary = ''aborted-before-first-step'', oaf_at = moment\<rparr>;
                _ \<leftarrow> call (po_finish_operation (we_ports E) token finish) (EvFinishOperation token finish);
                restore_degrade E InvalidRestorePermit
              }
              else State_Monad.return (Ok (permit_new token plan))
            })
     }
   }"

definition begin_restore ::
  "('w, 'd) write_env \<Rightarrow> approved_restore_plan \<Rightarrow> restore_confirmation
     \<Rightarrow> ('w, 'd, write_coordinator_error + restore_operation_permit) write_monad" where
  "begin_restore E plan confirmation = do {
     now \<leftarrow> call (po_monotonic_ns (we_ports E)) EvMonotonic;
     if arp_expires_at plan < now \<or> confirmation \<noteq> RestoreConfirm (arp_challenge plan)
     then restore_disarm E RestoreRejected
     else do {
       before \<leftarrow> call (po_snapshot (we_ports E)) EvSnapshot;
       if \<not> restore_plan_matches_idle_session plan before
       then restore_disarm E (RestorePlanFailed RestorePreconditionChanged)
       else do {
         active \<leftarrow> call (po_active_profile_by_hash (we_ports E) (arp_profile_hash plan)) (EvProfile (arp_profile_hash plan));
         (case active of
            Inl _ \<Rightarrow> State_Monad.return (Err (RestorePlanFailed ProfileMismatch))
          | Inr profile \<Rightarrow> do {
              trusted \<leftarrow> (if to_hex (vdp_profile_hash profile) = arp_profile_hash plan
                then call (po_is_trusted (we_ports E) (vdp_profile_id profile)) (EvTrusted (vdp_profile_id profile))
                else State_Monad.return False);
              if \<not> trusted then restore_disarm E (RestorePlanFailed ProfileMismatch)
              else do {
                state \<leftarrow> read_drive_state E profile (arp_session_id plan) (arp_operation_id plan);
                if state \<noteq> Ok Stopped then restore_disarm E (RestorePlanFailed RestorePreconditionChanged)
                else do {
                  steps \<leftarrow> begin_restore_steps E profile plan (arp_steps plan);
                  (case steps of
                     Inl e \<Rightarrow> State_Monad.return (Err e)
                   | Inr _ \<Rightarrow> do {
                       after \<leftarrow> call (po_snapshot (we_ports E)) EvSnapshot;
                       if \<not> same_write_context before after
                       then restore_disarm E (RestorePlanFailed RestorePreconditionChanged)
                       else begin_restore_commit E plan
                     })
                }
              }
            })
       }
     }
   }"

subsection \<open>Ending an operation\<close>

definition permit_into_parts ::
  "restore_operation_permit \<Rightarrow> operation_token option \<times> approved_restore_plan \<times> nat \<times> restore_step_result list" where
  "permit_into_parts p = (rop_token p, rop_plan p, rop_next_index p, rop_results p)"

definition checked_pred :: "nat \<Rightarrow> nat option" where
  "checked_pred n = (if n = 0 then None else Some (n - 1))"

definition aborted_finish :: "restore_operation_permit \<Rightarrow> string \<Rightarrow> monotonic_instant \<Rightarrow> operation_audit_finish" where
  "aborted_finish permit cause now =
     \<lparr>oaf_outcome = OperationAborted, oaf_final_step_index = checked_pred (rop_next_index permit),
      oaf_summary = ''aborted after_steps='' @ nat_text (rop_next_index permit) @ '' cause='' @
        bounded_restore_cause cause, oaf_at = now\<rparr>"

definition abort_restore_in_place ::
  "('w, 'd) write_env \<Rightarrow> restore_operation_permit \<Rightarrow> string
     \<Rightarrow> ('w, 'd, restore_operation_permit) write_monad" where
  "abort_restore_in_place E permit cause =
     (let plan = rop_plan permit in
      case take_token permit of
        (None, permit) \<Rightarrow> do {
          _ \<leftarrow> call (po_disarm (we_ports E)) (\<lambda>_. EvDisarm);
          State_Monad.return (permit_deactivate permit)
        }
      | (Some token, permit) \<Rightarrow> do {
          now \<leftarrow> call (po_monotonic_ns (we_ports E)) EvMonotonic;
          let finish = aborted_finish permit cause now;
          finished \<leftarrow> call (po_finish_operation (we_ports E) token finish) (EvFinishOperation token finish);
          _ \<leftarrow> call (po_abort_restore (we_ports E) (arp_operation_id plan) (arp_plan_hash plan))
                 (EvAbortRestore (arp_operation_id plan) (arp_plan_hash plan));
          _ \<leftarrow> call (po_disarm (we_ports E)) (\<lambda>_. EvDisarm);
          _ \<leftarrow> (if finished \<noteq> Ok ()
                 then call (po_degrade_audit_and_disarm (we_ports E)) (\<lambda>_. EvDegrade)
                 else State_Monad.return ());
          State_Monad.return permit
        })"

definition abort_restore ::
  "('w, 'd) write_env \<Rightarrow> restore_operation_permit \<Rightarrow> string \<Rightarrow> ('w, 'd, write_coordinator_error + unit) write_monad" where
  "abort_restore E permit cause =
     (let plan = rop_plan permit in
      case take_token permit of
        (None, _) \<Rightarrow> State_Monad.return (Err InvalidRestorePermit)
      | (Some token, permit) \<Rightarrow> do {
          now \<leftarrow> call (po_monotonic_ns (we_ports E)) EvMonotonic;
          let finish = aborted_finish permit cause now;
          finished \<leftarrow> call (po_finish_operation (we_ports E) token finish) (EvFinishOperation token finish);
          released \<leftarrow> call (po_abort_restore (we_ports E) (arp_operation_id plan) (arp_plan_hash plan))
                        (EvAbortRestore (arp_operation_id plan) (arp_plan_hash plan));
          _ \<leftarrow> call (po_disarm (we_ports E)) (\<lambda>_. EvDisarm);
          if finished \<noteq> Ok () \<or> released \<noteq> Ok () then restore_degrade E RestoreFinalizationFailed
          else State_Monad.return (Ok ())
        })"

definition finish_restore ::
  "('w, 'd) write_env \<Rightarrow> restore_operation_permit \<Rightarrow> ('w, 'd, write_coordinator_error + unit) write_monad" where
  "finish_restore E permit =
     (case permit_into_parts permit of (token, plan, next_index, results) \<Rightarrow>
        (case token of
           None \<Rightarrow> State_Monad.return (Err InvalidRestorePermit)
         | Some token \<Rightarrow> do {
             matches \<leftarrow> (if next_index \<noteq> length (arp_steps plan) then State_Monad.return False
               else call (po_restore_matches (we_ports E) (arp_operation_id plan) (arp_plan_hash plan) next_index)
                      (EvRestoreMatches (arp_operation_id plan) (arp_plan_hash plan) next_index));
             if \<not> matches then restore_degrade E InvalidRestorePermit
             else do {
               now \<leftarrow> call (po_monotonic_ns (we_ports E)) EvMonotonic;
               let finish =
                 \<lparr>oaf_outcome = OperationCompleted, oaf_final_step_index = checked_pred next_index,
                  oaf_summary = ''completed steps='' @ nat_text next_index @ '' verified='' @
                    nat_text (length results), oaf_at = now\<rparr>;
               finished \<leftarrow> call (po_finish_operation (we_ports E) token finish) (EvFinishOperation token finish);
               if finished \<noteq> Ok () then restore_degrade E RestoreFinalizationFailed
               else do {
                 released \<leftarrow> call (po_finish_restore (we_ports E) (arp_operation_id plan) (arp_plan_hash plan))
                               (EvFinishRestore (arp_operation_id plan) (arp_plan_hash plan));
                 if released \<noteq> Ok () then restore_degrade E RestoreFinalizationFailed
                 else do {
                   _ \<leftarrow> call (po_disarm (we_ports E)) (\<lambda>_. EvDisarm);
                   State_Monad.return (Ok ())
                 }
               }
             }
           }))"

subsection \<open>Executing one step\<close>

text \<open>
  The first half of \<open>execute_restore_step\<close>: every check up to the last session comparison. It
  yields the cause with which the operation is aborted, or the profile, the parameter, the old
  value read, both decoded values and the slave of the session.
\<close>

definition restore_session_matches ::
  "('w, 'd) write_env \<Rightarrow> approved_restore_plan \<Rightarrow> write_session_snapshot \<Rightarrow> nat \<Rightarrow> ('w, 'd, bool) write_monad" where
  "restore_session_matches E plan snap index =
     (if restore_plan_matches_active_session plan snap
      then call (po_restore_matches (we_ports E) (arp_operation_id plan) (arp_plan_hash plan) index)
             (EvRestoreMatches (arp_operation_id plan) (arp_plan_hash plan) index)
      else State_Monad.return False)"

definition restore_step_reads ::
  "('w, 'd) write_env \<Rightarrow> approved_restore_plan \<Rightarrow> restore_plan_step \<Rightarrow> nat \<Rightarrow> 'd validated_device_profile
     \<Rightarrow> 'd validated_parameter
     \<Rightarrow> ('w, 'd, string + raw_registers \<times> 'd engineering_value \<times> 'd engineering_value) write_monad" where
  "restore_step_reads E plan step index profile p = do {
     state \<leftarrow> read_drive_state E profile (arp_session_id plan) (arp_operation_id plan);
     if state \<noteq> Ok Stopped then State_Monad.return (Err ''drive-not-stopped'')
     else do {
       old \<leftarrow> read_parameter_raw E p (arp_session_id plan) (arp_operation_id plan);
       if old \<noteq> Ok (rps_expected_old_raw step) then State_Monad.return (Err ''expected-old-changed'')
       else case decode (we_decimal E) (vp_codec p) (rps_expected_old_raw step) of
           Inl _ \<Rightarrow> State_Monad.return (Err ''old-value-decode-failed'')
         | Inr old_engineering \<Rightarrow>
             (case decode (we_decimal E) (vp_codec p) (rps_target_raw step) of
                Inl _ \<Rightarrow> State_Monad.return (Err ''target-value-decode-failed'')
              | Inr target_engineering \<Rightarrow> do {
                  after \<leftarrow> call (po_snapshot (we_ports E)) EvSnapshot;
                  matches \<leftarrow> restore_session_matches E plan after index;
                  State_Monad.return
                    (if matches then Ok (rps_expected_old_raw step, old_engineering, target_engineering)
                     else Err ''restore-context-changed'')
                })
     }
   }"

definition restore_step_checks ::
  "('w, 'd) write_env \<Rightarrow> approved_restore_plan \<Rightarrow> restore_plan_step \<Rightarrow> nat
     \<Rightarrow> ('w, 'd, string + 'd validated_device_profile \<times> 'd validated_parameter \<times> raw_registers
          \<times> 'd engineering_value \<times> 'd engineering_value \<times> slave_id) write_monad" where
  "restore_step_checks E plan step index = do {
     before \<leftarrow> call (po_snapshot (we_ports E)) EvSnapshot;
     matches \<leftarrow> restore_session_matches E plan before index;
     if \<not> matches then State_Monad.return (Err ''restore-state-changed'')
     else do {
       trusted \<leftarrow> trusted_profile E (arp_profile_hash plan);
       (case trusted of
          None \<Rightarrow> State_Monad.return (Err ''profile-trust-changed'')
        | Some profile \<Rightarrow>
            (case profile_parameter profile (rps_parameter_id step) of
               None \<Rightarrow> State_Monad.return (Err ''parameter-disappeared'')
             | Some p \<Rightarrow>
                 if \<not> restore_step_allowed p step
                 then State_Monad.return (Err ''restore-policy-changed'')
                 else do {
                   read \<leftarrow> restore_step_reads E plan step index profile p;
                   State_Monad.return (map_sum id
                     (\<lambda>(old, old_engineering, target_engineering).
                        (profile, p, old, old_engineering, target_engineering, wss_slave_id before)) read)
                 }))
     }
   }"

text \<open>
  The second half: the durable preparation bound to this step, the one physical write, and the
  account of its outcome in the permit. Anything but a verified outcome ends the operation.
\<close>

definition restore_step_preparation ::
  "('w, 'd) write_env \<Rightarrow> approved_restore_plan \<Rightarrow> restore_plan_step \<Rightarrow> 'd validated_parameter \<Rightarrow> plan_id
     \<Rightarrow> request_id \<Rightarrow> raw_registers \<Rightarrow> 'd engineering_value \<Rightarrow> 'd engineering_value
     \<Rightarrow> 'd device_write_preparation" where
  "restore_step_preparation E plan step p plan_id request_id old_raw old_engineering target_engineering =
     \<lparr>dwp_plan_id = plan_id, dwp_operation_id = arp_operation_id plan, dwp_request_id = request_id,
      dwp_session_id = arp_session_id plan, dwp_fingerprint = arp_fingerprint plan,
      dwp_profile_hash = arp_profile_hash plan, dwp_parameter_id = rps_parameter_id step,
      dwp_context_hash = restore_step_context_hash (we_decimal E) (we_sha256 E) plan step old_engineering
        target_engineering,
      dwp_old_raw = old_raw, dwp_old_engineering = old_engineering, dwp_target_raw = rps_target_raw step,
      dwp_target_engineering = target_engineering, dwp_write_function = the (vp_write_function p)\<rparr>"

definition restore_step_authority ::
  "approved_restore_plan \<Rightarrow> restore_plan_step \<Rightarrow> nat \<Rightarrow> string \<Rightarrow> operation_step_authority" where
  "restore_step_authority plan step index context_hash =
     \<lparr>osa_operation_id = arp_operation_id plan, osa_plan_hash = arp_plan_hash plan,
      osa_session_id = arp_session_id plan, osa_fingerprint = arp_fingerprint plan,
      osa_profile_hash = arp_profile_hash plan, osa_step_index = index,
      osa_parameter_id = rps_parameter_id step, osa_expected_old_raw = rps_expected_old_raw step,
      osa_target_raw = rps_target_raw step, osa_context_hash = context_hash\<rparr>"

definition restore_abort_with ::
  "('w, 'd) write_env \<Rightarrow> restore_operation_permit \<Rightarrow> string \<Rightarrow> write_coordinator_error
     \<Rightarrow> ('w, 'd, (write_coordinator_error + device_write_outcome) \<times> restore_operation_permit) write_monad" where
  "restore_abort_with E permit cause e = do {
     permit \<leftarrow> abort_restore_in_place E permit cause;
     State_Monad.return (Err e, permit)
   }"

definition restore_audit_failed ::
  "('w, 'd) write_env \<Rightarrow> restore_operation_permit \<Rightarrow> string
     \<Rightarrow> ('w, 'd, (write_coordinator_error + device_write_outcome) \<times> restore_operation_permit) write_monad" where
  "restore_audit_failed E permit cause = do {
     permit \<leftarrow> abort_restore_in_place E permit cause;
     _ \<leftarrow> call (po_degrade_audit_and_disarm (we_ports E)) (\<lambda>_. EvDegrade);
     State_Monad.return (Err RestoreAuditUnavailable, permit)
   }"

definition restore_step_outcome ::
  "('w, 'd) write_env \<Rightarrow> restore_operation_permit \<Rightarrow> restore_plan_step \<Rightarrow> nat \<Rightarrow> device_write_outcome
     \<Rightarrow> ('w, 'd, (write_coordinator_error + device_write_outcome) \<times> restore_operation_permit) write_monad" where
  "restore_step_outcome E permit step index final_outcome =
     (let plan = rop_plan permit in
      if final_outcome = Verified
      then do {
        let permit = record_verified_step final_outcome permit;
        advanced \<leftarrow> call (po_advance_restore (we_ports E) (arp_operation_id plan) (arp_plan_hash plan) (rop_next_index permit))
                      (EvAdvanceRestore (arp_operation_id plan) (arp_plan_hash plan) (rop_next_index permit));
        if advanced \<noteq> Ok ()
        then restore_abort_with E permit ''restore-state-advance-failed'' InvalidRestorePermit
        else State_Monad.return (Ok final_outcome, permit)
      }
      else do {
        let permit = record_terminal_step index (rps_parameter_id step) final_outcome permit;
        permit \<leftarrow> abort_restore_in_place E permit (restore_outcome_reason final_outcome);
        _ \<leftarrow> (if final_outcome = AuditDegraded
               then call (po_degrade_audit_and_disarm (we_ports E)) (\<lambda>_. EvDegrade)
               else State_Monad.return ());
        State_Monad.return (Ok final_outcome, permit)
      })"

definition restore_step_commit ::
  "('w, 'd) write_env \<Rightarrow> restore_operation_permit \<Rightarrow> restore_plan_step \<Rightarrow> nat \<Rightarrow> 'd validated_device_profile
     \<Rightarrow> 'd validated_parameter \<Rightarrow> raw_registers \<Rightarrow> 'd engineering_value \<Rightarrow> 'd engineering_value \<Rightarrow> slave_id
     \<Rightarrow> ('w, 'd, (write_coordinator_error + device_write_outcome) \<times> restore_operation_permit) write_monad" where
  "restore_step_commit E permit step index profile p old_raw old_engineering target_engineering slave =
     (let plan = rop_plan permit in do {
        plan_id \<leftarrow> allocate_plan_id;
        request_id \<leftarrow> allocate_request_id;
        let preparation = restore_step_preparation E plan step p plan_id request_id old_raw old_engineering
                            target_engineering;
        available \<leftarrow> call (po_is_available (we_ports E)) EvAuditAvailable;
        if \<not> available then restore_audit_failed E permit ''device-audit-unavailable''
        else do {
          prepared \<leftarrow> call (po_prepare_device_write (we_ports E) preparation) (EvPrepare preparation);
          (case prepared of
             Inl _ \<Rightarrow> restore_audit_failed E permit ''device-audit-prepare-failed''
           | Inr token \<Rightarrow>
               if \<not> matches_preparation token preparation
               then restore_audit_failed E permit ''device-audit-prepare-failed''
               else do {
                 (device_outcome, evidence) \<leftarrow>
                   execute_once E (OperationStep (restore_step_authority plan step index
                     (dwp_context_hash preparation))) profile request_id slave;
                 final_outcome \<leftarrow> finalize_write E token ''restore device-write audit finalization failed: ''
                                    device_outcome evidence;
                 restore_step_outcome E permit step index final_outcome
               })
        }
      })"

definition restore_step_admitted :: "restore_operation_permit \<Rightarrow> nat \<Rightarrow> bool" where
  "restore_step_admitted permit index \<longleftrightarrow>
     rop_active permit \<and> token_matches_plan permit \<and> index = rop_next_index permit \<and>
     index < length (arp_steps (rop_plan permit))"

definition execute_restore_step ::
  "('w, 'd) write_env \<Rightarrow> restore_operation_permit \<Rightarrow> nat
     \<Rightarrow> ('w, 'd, (write_coordinator_error + device_write_outcome) \<times> restore_operation_permit) write_monad" where
  "execute_restore_step E permit index =
     (if \<not> restore_step_admitted permit index
      then State_Monad.return (Err InvalidRestorePermit, permit)
      else let plan = rop_plan permit; step = arp_steps plan ! index in do {
        checked \<leftarrow> restore_step_checks E plan step index;
        (case checked of
           Inl cause \<Rightarrow> restore_abort_with E permit cause InvalidRestorePermit
         | Inr (profile, p, old_raw, old_engineering, target_engineering, slave) \<Rightarrow>
             restore_step_commit E permit step index profile p old_raw old_engineering target_engineering slave)
      })"

text \<open>
  A caller drives a restore by asking for steps; whatever indexes it asks for, the permit decides.
\<close>

fun restore_drive ::
  "('w, 'd) write_env \<Rightarrow> restore_operation_permit \<Rightarrow> nat list
     \<Rightarrow> ('w, 'd, restore_operation_permit) write_monad" where
  "restore_drive E permit [] = State_Monad.return permit"
| "restore_drive E permit (index # is) = do {
     (r, permit) \<leftarrow> execute_restore_step E permit index;
     restore_drive E permit is
   }"

end
