(* ===== verification/Restore_Safety.thy ===== *)
theory Restore_Safety
  imports Restore_Execution
begin

text \<open>
  What the restore handlers emit: the checks before a step, the one write of a step between its
  durable preparation and its account, and the effect of every outcome on the permit.
\<close>

definition is_restore_check :: "'d port_event \<Rightarrow> bool" where
  "is_restore_check e \<longleftrightarrow> is_check_event e \<or> (case e of EvRestoreMatches _ _ _ _ \<Rightarrow> True | _ \<Rightarrow> False)"

definition is_abort_event :: "'d port_event \<Rightarrow> bool" where
  "is_abort_event e =
     (case e of EvMonotonic _ \<Rightarrow> True | EvFinishOperation _ _ _ \<Rightarrow> True | EvAbortRestore _ _ _ \<Rightarrow> True
      | EvDisarm \<Rightarrow> True | EvDegrade \<Rightarrow> True | EvAdvanceRestore _ _ _ _ \<Rightarrow> True | _ \<Rightarrow> False)"

lemma restore_check_no_write: "is_restore_check e \<Longrightarrow> \<not> is_physical_write e"
  by (cases e) (simp_all add: is_restore_check_def is_check_event_def)

lemma abort_no_write: "is_abort_event e \<Longrightarrow> \<not> is_physical_write e"
  by (cases e) (simp_all add: is_abort_event_def)

lemma restore_checks_no_write: "list_all is_restore_check es \<Longrightarrow> no_write es"
  by (auto simp: list_all_iff restore_check_no_write)

lemma aborts_no_write: "list_all is_abort_event es \<Longrightarrow> no_write es"
  by (auto simp: list_all_iff abort_no_write)

lemma checks_restore_checks: "checks es \<Longrightarrow> list_all is_restore_check es"
  by (auto simp: list_all_iff is_restore_check_def)

lemmas restore_event_kinds = is_restore_check_def is_abort_event_def

definition permit_ended :: "restore_operation_permit \<Rightarrow> restore_operation_permit" where
  "permit_ended p = p\<lparr>rop_active := False, rop_token := None\<rparr>"

lemma permit_ended_simps [simp]:
  "rop_active (permit_ended p) = False" "rop_token (permit_ended p) = None"
  "rop_plan (permit_ended p) = rop_plan p" "rop_next_index (permit_ended p) = rop_next_index p"
  "rop_results (permit_ended p) = rop_results p"
  by (simp_all add: permit_ended_def)

lemma emits_degrade_if:
  "emits (if b then call (po_degrade_audit_and_disarm (we_ports E)) (\<lambda>_. EvDegrade) else State_Monad.return ())
     (\<lambda>_ es. list_all is_abort_event es)"
  by (intro emits_intro) (simp_all add: is_abort_event_def)

lemma emits_abort_in_place:
  "emits (abort_restore_in_place E permit cause)
     (\<lambda>permit' es. list_all is_abort_event es \<and> EvDisarm \<in> set es \<and> permit' = permit_ended permit)"
  unfolding abort_restore_in_place_def take_token_def Let_def
  apply (simp only: prod.case)
  apply (intro emits_intro emits_bind [OF emits_degrade_if])
  apply (auto simp: is_abort_event_def permit_ended_def permit_deactivate_def)
  done

lemmas emits_abort_in_place_bind [emits_intro] = emits_abort_in_place [THEN emits_bind]

lemma emits_abort_with [emits_intro]:
  "(\<And>es. list_all is_abort_event es \<Longrightarrow> EvDisarm \<in> set es \<Longrightarrow> P (Err e, permit_ended permit) es) \<Longrightarrow>
     emits (restore_abort_with E permit cause e) P"
  unfolding restore_abort_with_def by (intro emits_intro) auto

lemma emits_audit_failed [emits_intro]:
  "(\<And>es. list_all is_abort_event es \<Longrightarrow> EvDisarm \<in> set es \<Longrightarrow>
      P (Err RestoreAuditUnavailable, permit_ended permit) es) \<Longrightarrow>
     emits (restore_audit_failed E permit cause) P"
  unfolding restore_audit_failed_def by (intro emits_intro) (auto simp: is_abort_event_def)

lemma emits_session_matches:
  "emits (restore_session_matches E plan snap index)
     (\<lambda>r es. list_all is_restore_check es \<and>
        (r \<longrightarrow> restore_plan_matches_active_session plan snap \<and>
           EvRestoreMatches (arp_operation_id plan) (arp_plan_hash plan) index True \<in> set es))"
  unfolding restore_session_matches_def by (intro emits_intro) (auto simp: restore_event_kinds)

lemmas emits_session_matches_bind [emits_intro] = emits_session_matches [THEN emits_bind]

definition restore_checked ::
  "('w, 'd) write_env \<Rightarrow> approved_restore_plan \<Rightarrow> restore_plan_step \<Rightarrow> nat \<Rightarrow> 'd validated_device_profile
     \<Rightarrow> 'd validated_parameter \<Rightarrow> 'd port_event list \<Rightarrow> bool" where
  "restore_checked E plan step index profile p es \<longleftrightarrow>
     EvTrusted (vdp_profile_id profile) True \<in> set es \<and>
     to_hex (vdp_profile_hash profile) = arp_profile_hash plan \<and>
     profile_parameter profile (rps_parameter_id step) = Some p \<and> restore_step_allowed p step \<and>
     stopped_read profile (arp_session_id plan) es \<and>
     fresh_read p (arp_session_id plan) (rps_expected_old_raw step) es \<and>
     (\<exists>snap. EvSnapshot snap \<in> set es \<and> restore_plan_matches_active_session plan snap) \<and>
     EvRestoreMatches (arp_operation_id plan) (arp_plan_hash plan) index True \<in> set es"

lemma emits_step_reads:
  "emits (restore_step_reads E plan step index profile p)
     (\<lambda>r es. list_all is_restore_check es \<and>
        (\<forall>old oe te. r = Ok (old, oe, te) \<longrightarrow> old = rps_expected_old_raw step \<and>
           stopped_read profile (arp_session_id plan) es \<and>
           fresh_read p (arp_session_id plan) (rps_expected_old_raw step) es \<and>
           (\<exists>snap. EvSnapshot snap \<in> set es \<and> restore_plan_matches_active_session plan snap) \<and>
           EvRestoreMatches (arp_operation_id plan) (arp_plan_hash plan) index True \<in> set es))"
  unfolding restore_step_reads_def
  apply (intro emits_intro)
  apply (auto simp: checks_restore_checks is_restore_check_def event_kinds)
  done

lemma emits_step_checks:
  "emits (restore_step_checks E plan step index)
     (\<lambda>r es. list_all is_restore_check es \<and>
        (\<forall>profile p old oe te slave. r = Ok (profile, p, old, oe, te, slave) \<longrightarrow>
           old = rps_expected_old_raw step \<and> restore_checked E plan step index profile p es))"
  unfolding restore_step_checks_def
  apply (intro emits_intro emits_bind [OF emits_step_reads])
  apply (auto simp: checks_restore_checks is_restore_check_def event_kinds restore_checked_def
      map_sum_def stopped_read_Cons fresh_read_Cons split: sum.splits)
  done

lemma emits_step_outcome:
  "emits (restore_step_outcome E permit step index d)
     (\<lambda>(r, permit') es. list_all is_abort_event es \<and>
        (if d = Verified
         then (r = Ok Verified \<and> permit' = record_verified_step Verified permit) \<or>
              (r = Err InvalidRestorePermit \<and> permit' = permit_ended (record_verified_step Verified permit) \<and>
               EvDisarm \<in> set es)
         else r = Ok d \<and> EvDisarm \<in> set es \<and>
              permit' = permit_ended (record_terminal_step index (rps_parameter_id step) d permit)))"
  unfolding restore_step_outcome_def Let_def
  apply (intro emits_intro emits_bind [OF emits_degrade_if])
  apply (auto simp: is_abort_event_def)
  done

text \<open>
  What one step may do: nothing at all when the permit does not admit it, end the operation without
  a write, or one write of exactly this step behind its checks and its durable preparation.
\<close>

definition step_written ::
  "('w, 'd) write_env \<Rightarrow> approved_restore_plan \<Rightarrow> restore_plan_step \<Rightarrow> nat \<Rightarrow> 'd port_event list \<Rightarrow> bool" where
  "step_written E plan step index es \<longleftrightarrow>
     (\<exists>chk profile p prep token now w res post f.
        es = chk @ [EvAuditAvailable True, EvPrepare prep (Ok token), EvNow now, EvWrite w res] @ post \<and>
        list_all is_restore_check chk \<and> no_write post \<and> restore_checked E plan step index profile p chk \<and>
        matches_preparation token prep \<and> dwp_operation_id prep = arp_operation_id plan \<and>
        dwp_parameter_id prep = rps_parameter_id step \<and> dwp_target_raw prep = rps_target_raw step \<and>
        dwp_old_raw prep = rps_expected_old_raw step \<and>
        vp_write_function p = Some f \<and> pbw_function w = f \<and> pbw_block w = vp_block p \<and>
        pbw_values w = rps_target_raw step)"

definition step_effect ::
  "('w, 'd) write_env \<Rightarrow> restore_operation_permit \<Rightarrow> nat
     \<Rightarrow> (write_coordinator_error + device_write_outcome) \<times> restore_operation_permit \<Rightarrow> 'd port_event list \<Rightarrow> bool" where
  "step_effect E permit index res es \<longleftrightarrow>
     (let step = arp_steps (rop_plan permit) ! index; (r, permit') = res in
      (no_write es \<or> step_written E (rop_plan permit) step index es) \<and>
      ((r = Ok Verified \<and> permit' = record_verified_step Verified permit \<and>
          step_written E (rop_plan permit) step index es) \<or>
       (r \<noteq> Ok Verified \<and> EvDisarm \<in> set es \<and>
          (permit' = permit_ended permit \<and> no_write es \<or>
           permit' = permit_ended (record_verified_step Verified permit) \<and>
             step_written E (rop_plan permit) step index es \<or>
           (\<exists>d. d \<noteq> Verified \<and> r = Ok d \<and>
             permit' = permit_ended (record_terminal_step index (rps_parameter_id step) d permit))))))"

lemma step_written_Cons:
  "step_written E plan step index es \<Longrightarrow> list_all is_restore_check chk \<Longrightarrow> step_written E plan step index (chk @ es)"
  unfolding step_written_def restore_checked_def
  apply (elim exE conjE)
  subgoal for chk' profile p prep token now w res post f
    apply (rule exI [of _ "chk @ chk'"])
    apply (intro exI [of _ profile] exI [of _ p] exI [of _ prep] exI [of _ token] exI [of _ now] exI [of _ w]
        exI [of _ res] exI [of _ post] exI [of _ f])
    apply auto
    done
  done

lemma attempted_write:
  assumes "attempted E a profile rid slave r mid"
  shows "\<exists>p f now w res rest. mid = EvNow now # EvWrite w res # rest \<and>
    profile_parameter profile (ea_parameter_id a) = Some p \<and> vp_write_function p = Some f \<and>
    pbw_function w = f \<and> pbw_block w = vp_block p \<and> pbw_values w = ea_target_raw a \<and> no_write rest"
  using assms unfolding attempted_def
  apply (elim exE conjE)
  subgoal for p f now w res rest
    by (intro exI [of _ p] exI [of _ f] exI [of _ now] exI [of _ w] exI [of _ res] exI [of _ rest])
      (auto simp: list_all_iff read_back_no_write)
  done

lemma step_writtenI:
  assumes chk: "list_all is_restore_check chk" "restore_checked E plan step index profile p chk"
    and att: "attempted E (OperationStep (restore_step_authority plan step index h)) profile rid slave r mid"
    and tok: "matches_preparation token (restore_step_preparation E plan step p pid rid (rps_expected_old_raw step) oe te)"
    and "no_write post"
  shows "step_written E plan step index
    (chk @ EvAuditAvailable True #
     EvPrepare (restore_step_preparation E plan step p pid rid (rps_expected_old_raw step) oe te) (Ok token) # mid @ post)"
proof -
  obtain p' f now w res rest where m:
    "mid = EvNow now # EvWrite w res # rest" "profile_parameter profile (rps_parameter_id step) = Some p'"
    "vp_write_function p' = Some f" "pbw_function w = f" "pbw_block w = vp_block p'"
    "pbw_values w = rps_target_raw step" "no_write rest"
    using attempted_write [OF att] by (auto simp: ea_parameter_id_def ea_target_raw_def restore_step_authority_def)
  have "p' = p" using m(2) chk(2) by (simp add: restore_checked_def)
  with m assms show ?thesis
    unfolding step_written_def
    apply -
    apply (rule exI [of _ chk], rule exI [of _ profile], rule exI [of _ p],
        rule exI [of _ "restore_step_preparation E plan step p pid rid (rps_expected_old_raw step) oe te"],
        rule exI [of _ token], rule exI [of _ now], rule exI [of _ w], rule exI [of _ res],
        rule exI [of _ "rest @ post"], rule exI [of _ f])
    apply (simp add: restore_step_preparation_def)
    done
qed

lemma attempted_not_Verified:
  "not_attempted (d, ev) es \<Longrightarrow> d \<noteq> Verified"
  by (auto simp: not_attempted_def)

text \<open>The outcome and its account behind a finalized write.\<close>

lemma step_effect_finished:
  assumes out: "if d = Verified
         then (r = Ok Verified \<and> permit' = record_verified_step Verified permit) \<or>
              (r = Err InvalidRestorePermit \<and> permit' = permit_ended (record_verified_step Verified permit) \<and>
               EvDisarm \<in> set ds)
         else r = Ok d \<and> EvDisarm \<in> set ds \<and>
              permit' = permit_ended (record_terminal_step index
                (rps_parameter_id (arp_steps (rop_plan permit) ! index)) d permit)"
    and w: "step_written E (rop_plan permit) (arp_steps (rop_plan permit) ! index) index (es @ ds) \<or>
      no_write (es @ ds) \<and> d \<noteq> Verified"
  shows "step_effect E permit index (r, permit') (es @ ds)"
proof (cases "d = Verified")
  case True
  then have "step_written E (rop_plan permit) (arp_steps (rop_plan permit) ! index) index (es @ ds)" using w by blast
  with out True show ?thesis unfolding step_effect_def Let_def prod.case by auto
next
  case False
  with out have *: "r = Ok d" "EvDisarm \<in> set (es @ ds)" "permit' = permit_ended (record_terminal_step index
                (rps_parameter_id (arp_steps (rop_plan permit) ! index)) d permit)" by auto
  from w have "no_write (es @ ds) \<or>
      step_written E (rop_plan permit) (arp_steps (rop_plan permit) ! index) index (es @ ds)" by blast
  with * False show ?thesis unfolding step_effect_def Let_def prod.case by blast
qed

lemma step_effect_refused:
  assumes "no_write es" and "EvDisarm \<in> set es" and "r \<noteq> Ok Verified"
  shows "step_effect E permit index (r, permit_ended permit) es"
  using assms unfolding step_effect_def Let_def prod.case by blast

lemma emits_finalize_no_write:
  "emits (finalize_write E token prefix d ev) (\<lambda>r es. no_write es \<and> (r = Verified \<longrightarrow> d = Verified))"
  by (rule emits_mono [OF emits_finalize_write]) auto

lemma emits_step_commit:
  assumes "list_all is_restore_check chk" and "restore_checked E (rop_plan permit) step index profile p chk"
    and "step = arp_steps (rop_plan permit) ! index"
  shows "emits (restore_step_commit E permit step index profile p (rps_expected_old_raw step) oe te slave)
     (\<lambda>res es. step_effect E permit index res (chk @ es))"
proof -
  note nw = restore_checks_no_write [OF assms(1)]
  let ?prep = "\<lambda>pid rid. restore_step_preparation E (rop_plan permit) step p pid rid (rps_expected_old_raw step) oe te"
  have fin: "step_effect E permit index res
      (chk @ EvAuditAvailable True # EvPrepare (?prep pid rid) (Ok token) # mid @ fs @ ds)"
    if "not_attempted (d, ev) mid \<or>
        attempted E (OperationStep (restore_step_authority (rop_plan permit) step index h)) profile rid slave (d, ev) mid"
      and "matches_preparation token (?prep pid rid)"
      and "no_write fs \<and> (d' = Verified \<longrightarrow> d = Verified)"
      and "case res of (r, permit') \<Rightarrow> list_all is_abort_event ds \<and> (if d' = Verified
         then (r = Ok Verified \<and> permit' = record_verified_step Verified permit) \<or>
              (r = Err InvalidRestorePermit \<and> permit' = permit_ended (record_verified_step Verified permit) \<and>
               EvDisarm \<in> set ds)
         else r = Ok d' \<and> EvDisarm \<in> set ds \<and>
              permit' = permit_ended (record_terminal_step index (rps_parameter_id step) d' permit))"
    for d ev mid h rid pid token fs d' ds res
  proof -
    obtain r permit' where res: "res = (r, permit')" by (cases res)
    have post: "no_write (fs @ ds)" using that(3,4) res by (auto simp: aborts_no_write)
    have "step_written E (rop_plan permit) step index
        (chk @ EvAuditAvailable True # EvPrepare (?prep pid rid) (Ok token) # mid @ (fs @ ds)) \<or>
      no_write (chk @ EvAuditAvailable True # EvPrepare (?prep pid rid) (Ok token) # mid @ (fs @ ds)) \<and> d' \<noteq> Verified"
      using that(1)
    proof
      assume "not_attempted (d, ev) mid"
      then have "no_write mid" "d \<noteq> Verified" by (auto simp: not_attempted_def checks_no_write)
      with post nw that(3) show ?thesis by auto
    qed (use step_writtenI [OF assms(1,2) _ that(2) post] in blast)
    then show ?thesis
      using step_effect_finished [of d' r permit' permit ds index E
        "chk @ EvAuditAvailable True # EvPrepare (?prep pid rid) (Ok token) # mid @ fs"] that(4) assms(3) res by simp
  qed
  show ?thesis
    unfolding restore_step_commit_def Let_def
    apply (intro emits_intro emits_bind [OF emits_execute_once] emits_bind [OF emits_finalize_no_write]
        emits_mono [OF emits_step_outcome])
       apply (rule step_effect_refused; simp add: nw aborts_no_write)
      apply (rule step_effect_refused; simp add: nw aborts_no_write)
     apply (rule step_effect_refused; simp add: nw aborts_no_write)
    subgoal
      apply (elim conjE)
      apply (simp only: append_Nil not_not append_Cons)
      apply (rule fin, assumption, assumption, simp)
      apply (simp split: prod.splits)
      done
    done
qed


subsection \<open>Whole steps\<close>

definition step_allowed_effect ::
  "('w, 'd) write_env \<Rightarrow> restore_operation_permit \<Rightarrow> nat
     \<Rightarrow> (write_coordinator_error + device_write_outcome) \<times> restore_operation_permit \<Rightarrow> 'd port_event list \<Rightarrow> bool" where
  "step_allowed_effect E permit index res es \<longleftrightarrow>
     (if restore_step_admitted permit index then step_effect E permit index res es
      else res = (Err InvalidRestorePermit, permit) \<and> es = [])"

lemma emits_execute_restore_step:
  "emits (execute_restore_step E permit index) (step_allowed_effect E permit index)"
  unfolding execute_restore_step_def Let_def step_allowed_effect_def
  apply (intro emits_intro emits_bind [OF emits_step_checks])
     apply simp
    apply (simp, rule step_effect_refused; simp add: restore_checks_no_write aborts_no_write)
  apply (elim conjE)
  apply (simp, rule emits_step_commit)
    apply simp_all
  done

lemma execute_restore_step_run:
  assumes "run_state (execute_restore_step E permit index) s = (res, s')" and "ac_trace s' = ac_trace s @ es"
  shows "step_allowed_effect E permit index res es"
  using emits_run [OF emits_execute_restore_step assms(1)] assms(2) by auto

lemma record_verified_step_simps [simp]:
  "rop_active (record_verified_step d p) = rop_active p" "rop_plan (record_verified_step d p) = rop_plan p"
  "rop_token (record_verified_step d p) = rop_token p"
  "rop_next_index (record_verified_step d p) = rop_next_index p + 1"
  by (simp_all add: record_verified_step_def Let_def)

lemma record_terminal_step_simps [simp]:
  "rop_plan (record_terminal_step i n d p) = rop_plan p"
  "rop_next_index (record_terminal_step i n d p) = rop_next_index p"
  by (simp_all add: record_terminal_step_def)

subsection \<open>The writes of a whole restore\<close>

definition writes_of :: "'d port_event list \<Rightarrow> raw_registers list" where
  "writes_of es = List.map_filter (\<lambda>e. case e of EvWrite w _ \<Rightarrow> Some (pbw_values w) | _ \<Rightarrow> None) es"

lemma writes_of_simps [simp]:
  "writes_of [] = []" "writes_of (es @ fs) = writes_of es @ writes_of fs"
  "writes_of (EvWrite w r # es) = pbw_values w # writes_of es"
  "\<not> is_physical_write e \<Longrightarrow> writes_of (e # es) = writes_of es"
  by (auto simp: writes_of_def map_filter_simps is_physical_write_def map_filter_def split: port_event.splits)

lemma writes_of_none [simp]: "no_write es \<Longrightarrow> writes_of es = []"
  by (induction es) auto

lemma writes_of_step: "step_written E plan step index es \<Longrightarrow> writes_of es = [rps_target_raw step]"
  unfolding step_written_def by (auto simp: restore_checks_no_write)

text \<open>How far the permit and the writes of a restore may be apart.\<close>

definition restore_progress :: "restore_operation_permit \<Rightarrow> raw_registers list \<Rightarrow> bool" where
  "restore_progress permit ws \<longleftrightarrow>
     (\<exists>n \<le> length (arp_steps (rop_plan permit)).
        ws = map rps_target_raw (take n (arp_steps (rop_plan permit))) \<and>
        (n = rop_next_index permit \<or> \<not> rop_active permit \<and> n = Suc (rop_next_index permit)))"

lemma restore_progress_new: "restore_progress (permit_new token plan) []"
  by (auto simp: restore_progress_def permit_new_def)

lemma restore_progress_step:
  assumes "restore_progress permit ws" and "step_allowed_effect E permit index res es"
  shows "restore_progress (snd res) (ws @ writes_of es) \<and> rop_plan (snd res) = rop_plan permit \<and>
    (rop_active (snd res) \<longrightarrow> rop_active permit)"
proof (cases "restore_step_admitted permit index")
  case False
  with assms show ?thesis by (simp add: step_allowed_effect_def)
next
  case True
  let ?steps = "arp_steps (rop_plan permit)"
  obtain r permit' where res: "res = (r, permit')" by (cases res)
  from True have i: "index = rop_next_index permit" "index < length ?steps" and act: "rop_active permit"
    by (auto simp: restore_step_admitted_def)
  from assms(1) act i have ws: "ws = map rps_target_raw (take index ?steps)"
    by (auto simp: restore_progress_def)
  have eff: "step_effect E permit index (r, permit') es"
    using assms(2) True res by (simp add: step_allowed_effect_def)
  have one: "ws @ [rps_target_raw (?steps ! index)] = map rps_target_raw (take (Suc index) ?steps)"
    using i by (simp add: ws take_Suc_conv_app_nth)
  have progress: "restore_progress permit' (ws @ writes_of es)"
    if "rop_plan permit' = rop_plan permit"
      and "(rop_next_index permit' = Suc index \<and> writes_of es = [rps_target_raw (?steps ! index)]) \<or>
           (rop_next_index permit' = index \<and> \<not> rop_active permit' \<and>
              (writes_of es = [] \<or> writes_of es = [rps_target_raw (?steps ! index)]))"
    using that one ws i unfolding restore_progress_def
    by (auto intro: exI [of _ "Suc index"] exI [of _ index])
  from eff have nw: "no_write es \<or> step_written E (rop_plan permit) (?steps ! index) index es"
    unfolding step_effect_def Let_def prod.case by blast
  from eff consider
      "permit' = record_verified_step Verified permit" "step_written E (rop_plan permit) (?steps ! index) index es"
    | "permit' = permit_ended permit" "no_write es"
    | "permit' = permit_ended (record_verified_step Verified permit)"
      "step_written E (rop_plan permit) (?steps ! index) index es"
    | d where "permit' = permit_ended (record_terminal_step index (rps_parameter_id (?steps ! index)) d permit)"
    unfolding step_effect_def Let_def prod.case by blast
  then show ?thesis
  proof cases
    case 1
    with progress writes_of_step [OF 1(2)] i act show ?thesis by (simp add: res)
  next
    case 2
    with progress i act show ?thesis by (simp add: res)
  next
    case 3
    with progress writes_of_step [OF 3(2)] i act show ?thesis by (simp add: res)
  next
    case 4
    with progress nw i act show ?thesis by (auto simp: res dest!: writes_of_step)
  qed
qed

lemma emits_step_progress:
  "emits (execute_restore_step E permit index)
     (\<lambda>res es. \<forall>ws. restore_progress permit ws \<longrightarrow>
        restore_progress (snd res) (ws @ writes_of es) \<and> rop_plan (snd res) = rop_plan permit \<and>
        (rop_active (snd res) \<longrightarrow> rop_active permit))"
  using restore_progress_step by (intro emits_mono [OF emits_execute_restore_step]) blast

lemma emits_restore_drive:
  "emits (restore_drive E permit is)
     (\<lambda>permit' es. \<forall>ws. restore_progress permit ws \<longrightarrow>
        restore_progress permit' (ws @ writes_of es) \<and> rop_plan permit' = rop_plan permit \<and>
        (rop_active permit' \<longrightarrow> rop_active permit))"
proof (induction "is" arbitrary: permit)
  case Nil
  show ?case by (auto intro!: emits_intro)
next
  case (Cons i "is")
  show ?case
    unfolding restore_drive.simps
    by (rule emits_bind [OF emits_step_progress], intro emits_intro, rule emits_mono [OF Cons.IH]) auto
qed


subsection \<open>Preparing, starting and finishing\<close>

lemma check_events:
  "is_check_event (EvRead q x)" "is_check_event (EvNow n)" "is_check_event (EvSnapshot s)"
  "is_check_event (EvMonotonic m)" "is_check_event (EvProfile h p)" "is_check_event (EvTrusted i b)"
  by (simp_all add: is_check_event_def)

definition steps_fresh ::
  "'d validated_device_profile \<Rightarrow> session_id \<Rightarrow> restore_plan_step list \<Rightarrow> 'd port_event list \<Rightarrow> bool" where
  "steps_fresh profile sid steps es \<longleftrightarrow>
     (\<forall>step\<in>set steps. \<exists>p. profile_parameter profile (rps_parameter_id step) = Some p \<and>
        fresh_read p sid (rps_expected_old_raw step) es)"

lemma steps_fresh_append:
  "steps_fresh profile sid steps es \<Longrightarrow> steps_fresh profile sid steps (es @ fs)"
  "steps_fresh profile sid steps fs \<Longrightarrow> steps_fresh profile sid steps (es @ fs)"
  by (force simp: steps_fresh_def)+

lemma emits_prepare_restore_steps:
  "emits (prepare_restore_steps E profile sid oid steps)
     (\<lambda>r es. checks es \<and> (r = Ok () \<longrightarrow> steps_fresh profile sid steps es))"
proof (induction steps)
  case Nil
  show ?case by (auto simp: steps_fresh_def intro!: emits_intro)
next
  case (Cons step steps)
  show ?case
    unfolding prepare_restore_steps.simps
    by (intro emits_intro emits_mono [OF Cons.IH]) (auto simp: steps_fresh_def)
qed

definition restore_prepared ::
  "('w, 'd) write_env \<Rightarrow> 'd backup_snapshot \<Rightarrow> 'd backup_snapshot \<Rightarrow> approved_restore_plan
     \<Rightarrow> 'd port_event list \<Rightarrow> bool" where
  "restore_prepared E source pre_restore plan es \<longleftrightarrow>
     wcc_process_writes_enabled (we_config E) \<and>
     (\<exists>before after profile oid now.
        EvSnapshot before \<in> set es \<and> EvSnapshot after \<in> set es \<and> same_write_context before after \<and>
        wss_connected before \<and> wss_armed before \<and> wss_audit_healthy before \<and> wss_operation_idle before \<and>
        EvTrusted (vdp_profile_id profile) True \<in> set es \<and> EvMonotonic now \<in> set es \<and>
        stopped_read profile (wss_session_id before) es \<and>
        build_restore_plan (we_decimal E) (we_sha256 E) source pre_restore profile before
          \<lparr>rbc_operation_id = oid, rbc_expires_at = sat_add now (of_nat (wcc_plan_ttl (we_config E)))\<rparr> = Ok plan \<and>
        steps_fresh profile (wss_session_id before) (arp_steps plan) es)"

lemma restore_preparedI:
  assumes "build_restore_plan (we_decimal E) (we_sha256 E) source pre_restore profile before
      \<lparr>rbc_operation_id = oid, rbc_expires_at = sat_add now (of_nat (wcc_plan_ttl (we_config E)))\<rparr> = Ok plan"
    and "wcc_process_writes_enabled (we_config E)"
    and "wss_audit_healthy before \<and> wss_armed before \<and> wss_connected before \<and> wss_operation_idle before"
    and "EvTrusted (vdp_profile_id profile) True \<in> set es"
    and "stopped_read profile (wss_session_id before) ds"
    and "steps_fresh profile (wss_session_id before) (arp_steps plan) fs" and "same_write_context before after"
  shows "restore_prepared E source pre_restore plan
     (EvSnapshot before # es @ ds @ EvMonotonic now # fs @ [EvSnapshot after])"
proof -
  have "stopped_read profile (wss_session_id before)
      ((EvSnapshot before # es) @ ds @ EvMonotonic now # fs @ [EvSnapshot after])"
    using assms(5) by (simp only: stopped_read_append)
  moreover have "steps_fresh profile (wss_session_id before) (arp_steps plan)
      ((EvSnapshot before # es @ ds @ [EvMonotonic now]) @ fs @ [EvSnapshot after])"
    using assms(6) by (intro steps_fresh_append)
  ultimately show ?thesis
    unfolding restore_prepared_def using assms
    by (intro conjI exI [of _ before] exI [of _ after] exI [of _ profile] exI [of _ oid] exI [of _ now]) simp_all
qed

lemma emits_prepare_restore_plan:
  "emits (prepare_restore_plan E source pre_restore)
     (\<lambda>r es. checks es \<and> (\<forall>plan. r = Ok plan \<longrightarrow> restore_prepared E source pre_restore plan es))"
  unfolding prepare_restore_plan_def
  apply (intro emits_intro emits_bind [OF emits_prepare_restore_steps])
  apply (simp_all add: check_events split: if_splits)
  apply (intro impI)
  apply (rule restore_preparedI, assumption, simp_all)
  done


lemma emits_restore_disarm [emits_intro]:
  "P (Err e) [EvDisarm] \<Longrightarrow> emits (restore_disarm E e) P"
  unfolding restore_disarm_def by (intro emits_intro)

lemma emits_restore_degrade [emits_intro]:
  "P (Err e) [EvDegrade] \<Longrightarrow> emits (restore_degrade E e) P"
  unfolding restore_degrade_def by (intro emits_intro)

lemma emits_if_bind:
  "(b \<Longrightarrow> emits (State_Monad.bind m k) P) \<Longrightarrow> (\<not> b \<Longrightarrow> emits (State_Monad.bind n k) P) \<Longrightarrow>
     emits (State_Monad.bind (if b then m else n) k) P"
  by simp

lemma emits_return_bind: "emits (k x) P \<Longrightarrow> emits (State_Monad.bind (State_Monad.return x) k) P"
  by simp

lemma emits_begin_restore_steps:
  "emits (begin_restore_steps E profile plan steps)
     (\<lambda>r es. no_write es \<and> (r = Ok () \<longrightarrow> checks es \<and> steps_fresh profile (arp_session_id plan) steps es \<and>
        (\<forall>step\<in>set steps. \<exists>p. profile_parameter profile (rps_parameter_id step) = Some p \<and>
           restore_step_allowed p step)))"
proof (induction steps)
  case Nil
  show ?case by (auto simp: steps_fresh_def intro!: emits_intro)
next
  case (Cons step steps)
  show ?case
    unfolding begin_restore_steps.simps
    by (intro emits_intro emits_mono [OF Cons.IH]) (auto simp: steps_fresh_def checks_no_write)
qed

definition restore_started ::
  "approved_restore_plan \<Rightarrow> restore_operation_permit \<Rightarrow> 'd port_event list \<Rightarrow> bool" where
  "restore_started plan permit es \<longleftrightarrow>
     (\<exists>token now. permit = permit_new token plan \<and> matches_start token (restore_start plan now) \<and>
        es = [EvAuditAvailable True, EvMonotonic now, EvBeginOperation (restore_start plan now) (Ok token),
              EvBeginRestore (arp_operation_id plan) (arp_plan_hash plan) (Ok ())])"

lemma emits_begin_restore_commit:
  "emits (begin_restore_commit E plan)
     (\<lambda>r es. no_write es \<and>
        (case r of Inl _ \<Rightarrow> EvDegrade \<in> set es | Inr permit \<Rightarrow> restore_started plan permit es))"
  unfolding begin_restore_commit_def Let_def
  by (intro emits_intro) (auto simp: restore_started_def dest: not_Ok_unit [THEN iffD1])

definition restore_begun ::
  "approved_restore_plan \<Rightarrow> restore_confirmation \<Rightarrow> 'd port_event list \<Rightarrow> bool" where
  "restore_begun plan confirmation chk \<longleftrightarrow>
     (\<exists>before now profile.
        confirmation = RestoreConfirm (arp_challenge plan) \<and>
        EvMonotonic now \<in> set chk \<and> now \<le> arp_expires_at plan \<and>
        EvSnapshot before \<in> set chk \<and> restore_plan_matches_idle_session plan before \<and>
        EvTrusted (vdp_profile_id profile) True \<in> set chk \<and>
        to_hex (vdp_profile_hash profile) = arp_profile_hash plan \<and>
        stopped_read profile (arp_session_id plan) chk \<and>
        steps_fresh profile (arp_session_id plan) (arp_steps plan) chk \<and>
        (\<forall>step\<in>set (arp_steps plan). \<exists>p. profile_parameter profile (rps_parameter_id step) = Some p \<and>
           restore_step_allowed p step))"

lemma restore_begunI:
  assumes "\<forall>step\<in>set (arp_steps plan). \<exists>p. profile_parameter profile (rps_parameter_id step) = Some p \<and>
           restore_step_allowed p step"
    and "\<not> (arp_expires_at plan < now \<or> confirmation \<noteq> RestoreConfirm (arp_challenge plan))"
    and "restore_plan_matches_idle_session plan before"
    and "to_hex (vdp_profile_hash profile) = arp_profile_hash plan"
    and "stopped_read profile (arp_session_id plan) ds" and "steps_fresh profile (arp_session_id plan) (arp_steps plan) fs"
  shows "restore_begun plan confirmation
     (EvMonotonic now # EvSnapshot before # e # EvTrusted (vdp_profile_id profile) True # ds @ fs @ [e'])"
proof -
  have "stopped_read profile (arp_session_id plan)
      ((EvMonotonic now # EvSnapshot before # e # [EvTrusted (vdp_profile_id profile) True]) @ ds @ fs @ [e'])"
    using assms(5) by (simp only: stopped_read_append)
  moreover have "steps_fresh profile (arp_session_id plan) (arp_steps plan)
      ((EvMonotonic now # EvSnapshot before # e # EvTrusted (vdp_profile_id profile) True # ds) @ fs @ [e'])"
    using assms(6) by (intro steps_fresh_append)
  ultimately show ?thesis
    unfolding restore_begun_def using assms
    by (intro exI [of _ before] exI [of _ now] exI [of _ profile]) (simp add: not_less)
qed

lemma emits_begin_restore:
  "emits (begin_restore E plan confirmation)
     (\<lambda>r es. no_write es \<and>
        (\<forall>permit. r = Ok permit \<longrightarrow>
           (\<exists>chk st. es = chk @ st \<and> checks chk \<and> restore_begun plan confirmation chk \<and>
              restore_started plan permit st)))"
  unfolding begin_restore_def
  apply (intro emits_if_bind emits_return_bind emits_intro emits_bind [OF emits_begin_restore_steps]
      emits_mono [OF emits_begin_restore_commit])
  apply (simp_all add: checks_no_write)
  apply (intro allI impI)
  subgoal for now before active profile trusted state es steps fs after r gs permit
    apply (rule exI [of _ "EvMonotonic now # EvSnapshot before # EvProfile (arp_profile_hash plan) (Ok profile) #
        EvTrusted (vdp_profile_id profile) True # es @ fs @ [EvSnapshot after]"])
    apply (rule exI [of _ gs])
    apply (simp add: check_events restore_begunI)
    done
  done

lemma emits_finish_restore:
  "emits (finish_restore E permit)
     (\<lambda>r es. no_write es \<and>
        (r = Ok () \<longrightarrow> (\<exists>token finish. rop_token permit = Some token \<and>
           rop_next_index permit = length (arp_steps (rop_plan permit)) \<and>
           oaf_outcome finish = OperationCompleted \<and>
           EvFinishOperation token finish (Ok ()) \<in> set es \<and>
           EvFinishRestore (arp_operation_id (rop_plan permit)) (arp_plan_hash (rop_plan permit)) (Ok ()) \<in> set es \<and>
           EvDisarm \<in> set es)) \<and>
        (r \<noteq> Ok () \<longrightarrow> rop_token permit = None \<or> EvDegrade \<in> set es))"
  unfolding finish_restore_def permit_into_parts_def Let_def
  apply (simp only: prod.case)
  apply (intro emits_if_bind emits_return_bind emits_intro)
  apply auto
  done

lemma emits_abort_restore:
  "emits (abort_restore E permit cause)
     (\<lambda>r es. no_write es \<and> (rop_token permit = None \<longrightarrow> r = Err InvalidRestorePermit \<and> es = []) \<and>
        (\<forall>token. rop_token permit = Some token \<longrightarrow> EvDisarm \<in> set es \<and>
           (\<exists>finish u. EvFinishOperation token finish u \<in> set es \<and> oaf_outcome finish = OperationAborted) \<and>
           (r = Ok () \<longrightarrow> (\<exists>finish. EvFinishOperation token finish (Ok ()) \<in> set es \<and>
              EvAbortRestore (arp_operation_id (rop_plan permit)) (arp_plan_hash (rop_plan permit)) (Ok ()) \<in> set es)) \<and>
           (r \<noteq> Ok () \<longrightarrow> EvDegrade \<in> set es)))"
  unfolding abort_restore_def take_token_def Let_def
  apply (simp only: prod.case)
  apply (intro emits_intro)
  apply (auto simp: aborted_finish_def)
  done

end
