(* ===== verification/Restore_Properties.thy ===== *)
theory Restore_Properties
  imports Restore_Safety Write_Samples
begin

text \<open>
  The properties of restore operations, each with a concrete run that meets its hypotheses.
\<close>

subsection \<open>A concrete restore\<close>

definition demo_restore_plan :: approved_restore_plan where
  "demo_restore_plan = \<lparr>arp_operation_id = 9, arp_backup_id = 5, arp_pre_restore_backup_id = 3,
     arp_session_id = 1, arp_fingerprint = ''fp'', arp_profile_hash = ''00'', arp_steps = [demo_step],
     arp_plan_hash = ''aa'', arp_skipped = [], arp_challenge = ''c'', arp_expires_at = 100\<rparr>"

definition demo_token :: operation_token where
  "demo_token = for_start 1 (restore_start demo_restore_plan 50)"

definition demo_permit :: restore_operation_permit where
  "demo_permit = permit_new demo_token demo_restore_plan"

text \<open>The adapters of the running operation: the session is no longer idle.\<close>

definition demo_busy_snapshot :: write_session_snapshot where
  "demo_busy_snapshot = demo_snapshot\<lparr>wss_operation_idle := False\<rparr>"

definition demo_busy_env :: "(u16, rat) write_env" where
  "demo_busy_env = demo_env\<lparr>we_ports := demo_ports\<lparr>po_snapshot := (\<lambda>w. (demo_busy_snapshot, w))\<rparr>\<rparr>"

lemma demo_restore_sels [simp]:
  "arp_steps demo_restore_plan = [demo_step]" "arp_session_id demo_restore_plan = 1"
  "arp_profile_hash demo_restore_plan = ''00''" "arp_operation_id demo_restore_plan = 9"
  "arp_challenge demo_restore_plan = ''c''" "arp_expires_at demo_restore_plan = 100"
  "arp_plan_hash demo_restore_plan = ''aa''" "arp_fingerprint demo_restore_plan = ''fp''"
  "rps_parameter_id demo_step = ''ramp''" "rps_expected_old_raw demo_step = [3]"
  "rps_target_raw demo_step = [5]" "rps_index demo_step = 0"
  by (simp_all add: demo_restore_plan_def demo_step_def)

lemma demo_step_allowed: "restore_step_allowed demo_parameter demo_step"
  by (simp add: restore_step_allowed_def restore_parameter_allowed_def restore_eligibility_Eligible_iff
      demo_block_def) (simp add: demo_parameter_def is_write_def)

lemma demo_begin:
  "\<exists>s' es. run_state (begin_restore demo_env demo_restore_plan (RestoreConfirm ''c'')) demo_coordinator =
     (Ok demo_permit, s') \<and> ac_trace s' = ac_trace demo_coordinator @ es"
proof -
  have m: "restore_plan_matches_idle_session demo_restore_plan demo_snapshot"
    by (simp add: restore_plan_matches_idle_session_def)
  have b: "po_begin_operation demo_ports st w = (Ok (for_start 1 st), w)"
    "po_begin_restore demo_ports oid h w = (Ok (), w)" for st w oid h
    by (simp_all add: demo_ports_def)
  show ?thesis
    by (simp add: begin_restore_def call_def m demo_state_read demo_read [of demo_parameter 10]
        demo_step_allowed demo_coordinator_def same_write_context_def begin_restore_commit_def b Let_def
        demo_permit_def demo_token_def)
qed

lemma demo_busy_sels [simp]:
  "we_decimal demo_busy_env = rat_decimal" "we_sha256 demo_busy_env = (\<lambda>_. replicate 32 0)"
  "we_config demo_busy_env = we_config demo_env"
  "po_snapshot (we_ports demo_busy_env) w = (demo_busy_snapshot, w)"
  "po_read (we_ports demo_busy_env) req w = (Ok [if rb_start (rbr_block req) = 20 then 0 else w], w)"
  "po_execute (we_ports demo_busy_env) pw w = (Ok (), hd (pbw_values pw))"
  "po_is_available (we_ports demo_busy_env) w = (True, w)"
  "po_prepare_device_write (we_ports demo_busy_env) pr w = (Ok (for_preparation 1 pr), w)"
  "po_finalize_device_write (we_ports demo_busy_env) t d e w = (Ok (), w)"
  "po_is_trusted (we_ports demo_busy_env) i w = (True, w)"
  "po_active_profile_by_hash (we_ports demo_busy_env) h w = (Ok demo_profile, w)"
  "po_monotonic_ns (we_ports demo_busy_env) w = (50, w)"
  "po_instant_now (we_ports demo_busy_env) w = (0, w)"
  "po_restore_matches (we_ports demo_busy_env) oid h k w = (True, w)"
  "po_advance_restore (we_ports demo_busy_env) oid h k w = (Ok (), w)"
  "po_finish_operation (we_ports demo_busy_env) ot f w = (Ok (), w)"
  "po_finish_restore (we_ports demo_busy_env) oid h w = (Ok (), w)"
  "po_disarm (we_ports demo_busy_env) w = ((), w)"
  by (simp_all add: demo_busy_env_def demo_env_def demo_ports_def)

lemma demo_busy_read:
  "vp_block p = demo_block a \<Longrightarrow> unat a < 100 \<Longrightarrow>
   run_state (read_parameter_raw demo_busy_env p 1 oid) s =
     (Ok [if a = 20 then 0 else ac_world s],
      s\<lparr>ac_trace := ac_trace s @ [EvNow 0, EvSnapshot demo_busy_snapshot,
          EvRead (demo_request (wc_next_request_id s) oid a) (Ok [if a = 20 then 0 else ac_world s])],
        wc_next_request_id := sat_inc (wc_next_request_id s)\<rparr>)"
  using demo_block_new [of a] demo_one_shot [of "wc_next_request_id s" oid a]
  by (simp add: read_parameter_raw_def allocate_request_id_def call_def read_function_of_def
      demo_block_def demo_snapshot_def demo_busy_snapshot_def demo_request_def Let_def)

lemma demo_busy_state_read:
  "run_state (read_drive_state demo_busy_env demo_profile 1 oid) s =
     (Ok Stopped, s\<lparr>ac_trace := ac_trace s @ [EvNow 0, EvSnapshot demo_busy_snapshot,
          EvRead (demo_request (wc_next_request_id s) oid 20) (Ok [0])],
        wc_next_request_id := sat_inc (wc_next_request_id s)\<rparr>)"
  by (simp add: read_drive_state_def demo_busy_read [of demo_state_parameter 20] classify_def)

lemma demo_busy_checks:
  "\<exists>t. run_state (restore_step_checks demo_busy_env demo_restore_plan demo_step 0) s =
     (Ok (demo_profile, demo_parameter, [3], Fixed 3, Fixed 5, 1), t) \<and> ac_world t = 3"
  if "ac_world s = 3"
proof -
  have m: "restore_plan_matches_active_session demo_restore_plan demo_busy_snapshot"
    by (simp add: restore_plan_matches_active_session_def demo_busy_snapshot_def)
  have slave: "wss_slave_id demo_busy_snapshot = 1" by (simp add: demo_busy_snapshot_def)
  show ?thesis
    using that
    by (simp add: restore_step_checks_def restore_session_matches_def call_def m trusted_profile_def
        demo_step_allowed restore_step_reads_def demo_busy_state_read demo_busy_read [of demo_parameter 10]
        demo_decode slave)
qed

lemma demo_busy_step:
  "\<exists>s' es. run_state (execute_restore_step demo_busy_env demo_permit 0) demo_coordinator =
     ((Ok Verified, record_verified_step Verified demo_permit), s') \<and>
     ac_trace s' = ac_trace demo_coordinator @ es \<and> (\<exists>w. EvWrite w (Ok ()) \<in> set es)"
proof -
  obtain t where chk: "run_state (restore_step_checks demo_busy_env demo_restore_plan demo_step 0) demo_coordinator =
     (Ok (demo_profile, demo_parameter, [3], Fixed 3, Fixed 5, 1), t)"
    using demo_busy_checks [of demo_coordinator] by (auto simp: demo_coordinator_def)
  have tr: "ac_trace demo_coordinator = []" by (simp add: demo_coordinator_def)
  have adm: "restore_step_admitted demo_permit 0"
    by (simp add: restore_step_admitted_def demo_permit_def permit_new_def token_matches_plan_def demo_token_def
        for_start_def restore_start_def)
  have plan: "rop_plan demo_permit = demo_restore_plan" by (simp add: demo_permit_def permit_new_def)
  have wf: "vp_write_function demo_parameter = Some WriteSingleRegister" by simp
  have rpa: "restore_parameter_allowed demo_parameter"
    using demo_step_allowed by (simp add: restore_step_allowed_def)
  let ?a = "OperationStep (restore_step_authority demo_restore_plan demo_step 0
      (to_hex (replicate 32 0))) :: rat execution_authority"
  have exec: "execute_once demo_busy_env ?a demo_profile j 1 =
    do {
      now \<leftarrow> call (po_instant_now (we_ports demo_busy_env)) EvNow;
      let w = \<lparr>pbw_context = safety_one_shot j 1 (now + from_secs 1) (Some 9), pbw_slave = 1,
                pbw_function = WriteSingleRegister, pbw_block = demo_block 10, pbw_values = [5]\<rparr>;
      written \<leftarrow> call (po_execute (we_ports demo_busy_env) w) (EvWrite w);
      (case written of
         Inl e \<Rightarrow> State_Monad.return (map_write_error e, EvNotAttempted)
       | Inr _ \<Rightarrow> read_back_loop demo_busy_env demo_parameter ?a 1 3 None None)
    }" for j
    by (simp add: execute_once_def operation_step_is_well_formed_def ea_context_hash_def ea_fingerprint_def
        ea_profile_hash_def ea_parameter_id_def ea_expected_old_raw_def ea_target_raw_def ea_session_id_def
        ea_operation_id_def ea_parameter_allowed_def restore_step_authority_def rpa demo_block_def Let_def
        demo_write [unfolded demo_block_def])
  have a: "ea_session_id ?a = 1" "ea_operation_id ?a = 9" "ea_target_raw ?a = [5]"
    by (simp_all add: ea_session_id_def ea_operation_id_def ea_target_raw_def restore_step_authority_def)
  show ?thesis
    by (simp add: execute_restore_step_def adm plan chk Let_def restore_step_commit_def allocate_plan_id_def
        allocate_request_id_def call_def restore_step_preparation_def restore_step_context_hash_def exec
        three_reads [unfolded read_back_loop.simps] demo_busy_read [of demo_parameter 10] read_back_matches_def
        a finalize_write_def
        restore_step_outcome_def tr) blast
qed


subsection \<open>Properties of restores\<close>





text \<open>
  Only a verified step advances a restore; everything else ends it. After the execution of a
  step, either the outcome is verified and the permit has moved to the next step with the step
  recorded, or the request was not admitted and changed nothing, or the session was disarmed and the
  permit is inactive without its token, so that it never admits another step. Verification means
  that the step was written.
\<close>

theorem restore_step_outcomes:
  assumes "run_state (execute_restore_step E permit index) s = ((r, permit'), s')"
    and "ac_trace s' = ac_trace s @ es"
  shows "(r = Ok Verified \<and> permit' = record_verified_step Verified permit \<and>
       (\<exists>w wr. EvWrite w wr \<in> set es \<and> pbw_values w = rps_target_raw (arp_steps (rop_plan permit) ! index))) \<or>
    (r = Err InvalidRestorePermit \<and> permit' = permit \<and> es = [] \<and> \<not> restore_step_admitted permit index) \<or>
    (r \<noteq> Ok Verified \<and> EvDisarm \<in> set es \<and> \<not> rop_active permit' \<and> rop_token permit' = None \<and>
       (\<forall>i. \<not> restore_step_admitted permit' i))"
proof -
  have eff: "step_allowed_effect E permit index (r, permit') es" using assms by (rule execute_restore_step_run)
  have w: "\<exists>w wr. EvWrite w wr \<in> set es \<and> pbw_values w = rps_target_raw (arp_steps (rop_plan permit) ! index)"
    if "step_written E (rop_plan permit) (arp_steps (rop_plan permit) ! index) index es"
    using that unfolding step_written_def by force
  show ?thesis
  proof (cases "restore_step_admitted permit index")
    case True
    with eff have e: "step_effect E permit index (r, permit') es" by (simp add: step_allowed_effect_def)
    then consider "r = Ok Verified" "permit' = record_verified_step Verified permit"
        "step_written E (rop_plan permit) (arp_steps (rop_plan permit) ! index) index es"
      | "r \<noteq> Ok Verified" "EvDisarm \<in> set es" "\<exists>p. permit' = permit_ended p"
      unfolding step_effect_def Let_def prod.case by blast
    then show ?thesis
      by cases (use w in blast, auto simp: restore_step_admitted_def)
  qed (use eff in \<open>simp add: step_allowed_effect_def\<close>)
qed

theorem restore_step_outcomes_witness:
  "\<exists>w wr s'. EvWrite w wr \<in> set (ac_trace s') \<and> pbw_values w = [5] \<and>
     run_state (execute_restore_step demo_busy_env demo_permit 0) demo_coordinator =
       ((Ok Verified, record_verified_step Verified demo_permit), s')"
proof -
  obtain s' es where run: "run_state (execute_restore_step demo_busy_env demo_permit 0) demo_coordinator =
       ((Ok Verified, record_verified_step Verified demo_permit), s')"
    "ac_trace s' = ac_trace demo_coordinator @ es"
    using demo_busy_step by blast
  from restore_step_outcomes [OF run] obtain w wr where "EvWrite w wr \<in> set es"
    "pbw_values w = rps_target_raw (arp_steps (rop_plan demo_permit) ! 0)" by auto
  with run show ?thesis by (auto simp: demo_permit_def permit_new_def)
qed

text \<open>
  C7. A whole restore writes a prefix of its plan, in order, each step once. Starting from a new
  permit, whatever step indexes are asked for and whatever the adapters answer, the values written to
  the device are the targets of the first \<open>n\<close> steps of the plan in their order; while the permit is
  active \<open>n\<close> is its next index, and at most the one write that failed is ahead of it.
\<close>

theorem restore_writes_follow_plan:
  assumes "run_state (restore_drive E (permit_new token plan) is) s = (permit, s')"
    and "ac_trace s' = ac_trace s @ es"
  shows "\<exists>n \<le> length (arp_steps plan). writes_of es = map rps_target_raw (take n (arp_steps plan)) \<and>
    (n = rop_next_index permit \<or> \<not> rop_active permit \<and> n = Suc (rop_next_index permit))"
proof -
  have "\<forall>ws. restore_progress (permit_new token plan) ws \<longrightarrow>
      restore_progress permit (ws @ writes_of es) \<and> rop_plan permit = rop_plan (permit_new token plan)"
    using emits_run [OF emits_restore_drive assms(1)] assms(2) by auto
  from this [rule_format, OF restore_progress_new] show ?thesis
    by (auto simp: restore_progress_def permit_new_def)
qed

theorem restore_writes_follow_plan_witness:
  "\<exists>s' es. run_state (restore_drive demo_busy_env (permit_new demo_token demo_restore_plan) [0]) demo_coordinator =
     (record_verified_step Verified demo_permit, s') \<and> ac_trace s' = ac_trace demo_coordinator @ es \<and>
     writes_of es = [[5]]"
proof -
  obtain s' es w where run: "run_state (execute_restore_step demo_busy_env demo_permit 0) demo_coordinator =
       ((Ok Verified, record_verified_step Verified demo_permit), s')"
    "ac_trace s' = ac_trace demo_coordinator @ es"
    using demo_busy_step by blast
  have drive: "run_state (restore_drive demo_busy_env (permit_new demo_token demo_restore_plan) [0]) demo_coordinator =
     (record_verified_step Verified demo_permit, s')"
    using run(1) by (simp add: demo_permit_def)
  have act: "rop_active (record_verified_step Verified demo_permit)"
    "rop_next_index (record_verified_step Verified demo_permit) = 1"
    by (simp_all add: demo_permit_def permit_new_def)
  from restore_writes_follow_plan [OF drive run(2)] act have "writes_of es = [[5]]" by auto
  with drive run(2) show ?thesis by blast
qed

text \<open>
  A restore plan is approved only on fresh evidence. Preparing a plan emits only read-only
  checks. When it returns a plan, writes are enabled, one and the same session context (connected,
  armed, audit healthy, idle) held before and after, the profile was trusted, the drive read as
  stopped, the plan is the one built from the two backups with an expiry one time-to-live after the
  clock, and the old value of every step was read back from the device as the plan expects it.
\<close>

theorem prepare_restore_plan_is_fresh:
  assumes "run_state (prepare_restore_plan E source pre_restore) s = (r, s')"
    and "ac_trace s' = ac_trace s @ es"
  shows "checks es \<and> no_write es \<and> (\<forall>plan. r = Ok plan \<longrightarrow> restore_prepared E source pre_restore plan es)"
  using emits_run [OF emits_prepare_restore_plan assms(1)] assms(2) by (auto simp: checks_no_write)

lemma demo_plan_any:
  "\<exists>plan. build_restore_plan rat_decimal (\<lambda>_. replicate 32 0) (demo_backup 5) (demo_backup 3) demo_profile
     demo_snapshot ctx = Ok plan \<and> arp_steps plan = [demo_step]"
  by (simp add: build_restore_plan_def demo_backup_valid demo_diff Let_def)
    (simp add: demo_backup_def demo_snapshot_def demo_profile_def is_complete_def find_difference_def
      demo_value_def unordered_skips_def demo_step_def Let_def)

theorem prepare_restore_plan_is_fresh_witness:
  "\<exists>plan s'. run_state (prepare_restore_plan demo_env (demo_backup 5) (demo_backup 3)) demo_coordinator = (Ok plan, s') \<and>
     restore_prepared demo_env (demo_backup 5) (demo_backup 3) plan (ac_trace s')"
proof -
  let ?ctx = "\<lparr>rbc_operation_id = 1, rbc_expires_at = sat_add 50 (of_nat (from_secs 15))\<rparr>"
  obtain plan where plan: "build_restore_plan rat_decimal (\<lambda>_. replicate 32 0) (demo_backup 5) (demo_backup 3)
      demo_profile demo_snapshot ?ctx = Ok plan" "arp_steps plan = [demo_step]"
    using demo_plan_any by blast
  obtain s' where run:
    "run_state (prepare_restore_plan demo_env (demo_backup 5) (demo_backup 3)) demo_coordinator = (Ok plan, s')"
    using plan
    by (simp add: prepare_restore_plan_def call_def demo_trusted allocate_operation_id_def demo_state_read
        demo_read [of demo_parameter 10] demo_coordinator_def same_write_context_def)
  have "ac_trace s' = ac_trace demo_coordinator @ ac_trace s'" by (simp add: demo_coordinator_def)
  from prepare_restore_plan_is_fresh [OF run this] run show ?thesis by blast
qed

text \<open>
  A restore is reported complete only when it is. Finishing succeeds only for a permit that still
  holds its token and has verified every step of its plan; then the completion was persisted, the
  session released and disarmed. In every other case with a token the audit is degraded and the
  session disarmed; finishing never writes.
\<close>

theorem restore_finish_is_complete:
  assumes "run_state (finish_restore E permit) s = (r, s')" and "ac_trace s' = ac_trace s @ es"
  shows "no_write es \<and>
    (r = Ok () \<longrightarrow> (\<exists>token finish. rop_token permit = Some token \<and>
       rop_next_index permit = length (arp_steps (rop_plan permit)) \<and>
       oaf_outcome finish = OperationCompleted \<and> EvFinishOperation token finish (Ok ()) \<in> set es \<and>
       EvFinishRestore (arp_operation_id (rop_plan permit)) (arp_plan_hash (rop_plan permit)) (Ok ()) \<in> set es \<and>
       EvDisarm \<in> set es)) \<and>
    (r \<noteq> Ok () \<longrightarrow> rop_token permit = None \<or> EvDegrade \<in> set es)"
  using emits_run [OF emits_finish_restore assms(1)] assms(2) by auto

theorem restore_finish_is_complete_witness:
  "\<exists>s'. run_state (finish_restore demo_busy_env (record_verified_step Verified demo_permit)) demo_coordinator =
     (Ok (), s') \<and> EvDisarm \<in> set (ac_trace s')"
proof -
  have p: "rop_token demo_permit = Some demo_token" "rop_plan demo_permit = demo_restore_plan"
    "rop_next_index demo_permit = 0"
    by (simp_all add: demo_permit_def permit_new_def)
  obtain s' where run:
    "run_state (finish_restore demo_busy_env (record_verified_step Verified demo_permit)) demo_coordinator = (Ok (), s')"
    by (simp add: finish_restore_def permit_into_parts_def p call_def Let_def)
  have "ac_trace s' = ac_trace demo_coordinator @ ac_trace s'" by (simp add: demo_coordinator_def)
  from restore_finish_is_complete [OF run this] run show ?thesis by blast
qed

end
