(* ===== verification/Runtime_Session.thy ===== *)
theory Runtime_Session
  imports Session Ports
begin

text \<open>
  \<open>vfd-lantern/src/write_runtime.rs\<close>: the session control that the write coordinator runs against.
  It caches the projection of the session that the application publishes and lays a fence over it:
  the operation that is running, and barriers that keep the session disarmed (and its audit
  degraded) until a projection shows that the application has caught up. Both mutexes of the code
  are held for one access each; the model makes every operation one step of the state, where in the
  code a projection can still arrive between the snapshot that an operation reads and its claim of
  the fence, which checks the fence again.
  What is sent to the application is the queue \<open>rs_sent\<close>; a closed channel is \<open>rs_closed\<close>.
\<close>

subsection \<open>State\<close>

record runtime_restore_state =
  rrs_operation_id :: operation_id
  rrs_plan_hash :: string
  rrs_next_index :: nat

datatype runtime_operation_state =
    SingleWriteRun (ros_started_at: u64) (ros_finished: bool)
  | RestoreRun runtime_restore_state (ros_started_at: u64) (ros_finished: bool)

record runtime_execution_state =
  rex_operation :: "runtime_operation_state option"
  rex_disarm_barrier :: bool
  rex_audit_barrier :: bool

record runtime_session =
  rs_projection :: write_session_snapshot
  rs_execution :: runtime_execution_state
  rs_sent :: "session_input list"
  rs_closed :: bool

definition unavailable_snapshot :: write_session_snapshot where
  "unavailable_snapshot = \<lparr>wss_session_id = 0, wss_fingerprint = ''write.unavailable'', wss_profile_hash = [],
     wss_connected = False, wss_armed = False, wss_audit_healthy = False, wss_operation_idle = False,
     wss_drive_state = UnknownState, wss_guard_revision = 0, wss_slave_id = 1\<rparr>"

definition runtime_session_new :: runtime_session where
  "runtime_session_new = \<lparr>rs_projection = unavailable_snapshot,
     rs_execution = \<lparr>rex_operation = None, rex_disarm_barrier = False, rex_audit_barrier = False\<rparr>,
     rs_sent = [], rs_closed = False\<rparr>"

subsection \<open>The fence\<close>

definition operation_settled :: "runtime_operation_state \<Rightarrow> write_session_snapshot \<Rightarrow> bool" where
  "operation_settled op p \<longleftrightarrow>
     ros_finished op \<and> wss_operation_idle p \<and> wss_guard_revision p > ros_started_at op"

definition reconcile :: "write_session_snapshot \<Rightarrow> runtime_execution_state \<Rightarrow> runtime_execution_state" where
  "reconcile p e =
     (let e = (if rex_disarm_barrier e \<and> \<not> wss_armed p then e\<lparr>rex_disarm_barrier := False\<rparr> else e);
          e = (if rex_audit_barrier e \<and> \<not> wss_audit_healthy p then e\<lparr>rex_audit_barrier := False\<rparr> else e)
      in case rex_operation e of
           None \<Rightarrow> e
         | Some op \<Rightarrow> if operation_settled op p then e\<lparr>rex_operation := None\<rparr> else e)"

definition apply_restrictive_overlay ::
  "runtime_execution_state \<Rightarrow> write_session_snapshot \<Rightarrow> write_session_snapshot" where
  "apply_restrictive_overlay e s =
     (let s = (if rex_operation e \<noteq> None then s\<lparr>wss_operation_idle := False\<rparr> else s);
          s = (if rex_disarm_barrier e then s\<lparr>wss_armed := False\<rparr> else s)
      in if rex_audit_barrier e then s\<lparr>wss_armed := False, wss_audit_healthy := False\<rparr> else s)"

definition rs_sync :: "write_session_snapshot \<Rightarrow> runtime_session \<Rightarrow> runtime_session" where
  "rs_sync p s = s\<lparr>rs_execution := reconcile p (rs_execution s), rs_projection := p\<rparr>"

definition rs_snapshot :: "runtime_session \<Rightarrow> write_session_snapshot" where
  "rs_snapshot s = apply_restrictive_overlay (rs_execution s) (rs_projection s)"

definition rs_send :: "session_input \<Rightarrow> runtime_session \<Rightarrow> runtime_session" where
  "rs_send i s = (if rs_closed s then s else s\<lparr>rs_sent := rs_sent s @ [i]\<rparr>)"

definition rs_set_operation :: "runtime_operation_state option \<Rightarrow> runtime_session \<Rightarrow> runtime_session" where
  "rs_set_operation op s = s\<lparr>rs_execution := (rs_execution s)\<lparr>rex_operation := op\<rparr>\<rparr>"

definition channel_closed_error :: session_control_error where
  "channel_closed_error = ScOther ''application session channel closed''"

text \<open>The claim shared by \<open>begin_single_write\<close> and \<open>begin_restore\<close>.\<close>

definition write_available :: "write_session_snapshot \<Rightarrow> bool" where
  "write_available s \<longleftrightarrow>
     wss_connected s \<and> wss_armed s \<and> wss_audit_healthy s \<and> wss_operation_idle s"

definition rs_claim ::
  "runtime_operation_state \<Rightarrow> session_input \<Rightarrow> runtime_session
     \<Rightarrow> (session_control_error + unit) \<times> runtime_session" where
  "rs_claim op input s =
     (if rex_operation (rs_execution s) \<noteq> None then (Err ScPreconditionChanged, s)
      else if rs_closed s then (Err channel_closed_error, rs_set_operation None s)
      else (Ok (), rs_send input (rs_set_operation (Some op) s)))"

definition rs_begin_single_write ::
  "operation_id \<Rightarrow> plan_id \<Rightarrow> runtime_session \<Rightarrow> (session_control_error + unit) \<times> runtime_session" where
  "rs_begin_single_write operation_id plan_id s =
     (let snap = rs_snapshot s in
      if \<not> write_available snap then (Err ScPreconditionChanged, s)
      else rs_claim (SingleWriteRun (wss_guard_revision snap) False) (WriteConfirmed operation_id plan_id) s)"

definition rs_begin_restore ::
  "operation_id \<Rightarrow> string \<Rightarrow> runtime_session \<Rightarrow> (session_control_error + unit) \<times> runtime_session" where
  "rs_begin_restore operation_id plan_hash s =
     (let snap = rs_snapshot s in
      if \<not> write_available snap then (Err ScPreconditionChanged, s)
      else rs_claim
        (RestoreRun \<lparr>rrs_operation_id = operation_id, rrs_plan_hash = plan_hash, rrs_next_index = 0\<rparr>
          (wss_guard_revision snap) False)
        (RestoreStarted operation_id plan_hash) s)"

definition finish_operation_state :: "runtime_operation_state \<Rightarrow> runtime_operation_state" where
  "finish_operation_state op =
     (case op of SingleWriteRun r _ \<Rightarrow> SingleWriteRun r True | RestoreRun st r _ \<Rightarrow> RestoreRun st r True)"

definition outcome_barriers :: "write_outcome \<Rightarrow> runtime_execution_state \<Rightarrow> runtime_execution_state" where
  "outcome_barriers outcome e =
     (case outcome of
        Executed OutcomeUnknown \<Rightarrow> e\<lparr>rex_disarm_barrier := True\<rparr>
      | Executed TransportLost \<Rightarrow> e\<lparr>rex_disarm_barrier := True\<rparr>
      | Executed AuditDegraded \<Rightarrow> e\<lparr>rex_disarm_barrier := True, rex_audit_barrier := True\<rparr>
      | NotExecuted DecisionAuditUnavailable \<Rightarrow> e\<lparr>rex_disarm_barrier := True, rex_audit_barrier := True\<rparr>
      | _ \<Rightarrow> e)"

definition rs_finish_single_write :: "write_outcome \<Rightarrow> instant \<Rightarrow> runtime_session \<Rightarrow> runtime_session" where
  "rs_finish_single_write outcome now s =
     (let e = rs_execution s;
          e = (case rex_operation e of
                 Some (SingleWriteRun r f) \<Rightarrow> e\<lparr>rex_operation := Some (SingleWriteRun r True)\<rparr>
               | _ \<Rightarrow> e)
      in rs_send (WriteFinished outcome now) (s\<lparr>rs_execution := outcome_barriers outcome e\<rparr>))"

definition rs_restore_matches :: "operation_id \<Rightarrow> string \<Rightarrow> nat \<Rightarrow> runtime_session \<Rightarrow> bool" where
  "rs_restore_matches operation_id plan_hash next_index s =
     (let snap = rs_snapshot s in
      if \<not> wss_connected snap \<or> \<not> wss_armed snap \<or> \<not> wss_audit_healthy snap \<or> wss_operation_idle snap
      then False
      else case rex_operation (rs_execution s) of
          Some (RestoreRun st _ False) \<Rightarrow>
            rrs_operation_id st = operation_id \<and> rrs_plan_hash st = plan_hash \<and> rrs_next_index st = next_index
        | _ \<Rightarrow> False)"

definition send_or_error ::
  "session_input \<Rightarrow> runtime_session \<Rightarrow> (session_control_error + unit) \<times> runtime_session" where
  "send_or_error input s =
     (if rs_closed s then Err channel_closed_error else Ok (), rs_send input s)"

definition rs_advance_restore ::
  "operation_id \<Rightarrow> string \<Rightarrow> nat \<Rightarrow> runtime_session \<Rightarrow> (session_control_error + unit) \<times> runtime_session" where
  "rs_advance_restore operation_id plan_hash next_index s =
     (case rex_operation (rs_execution s) of
        Some (RestoreRun st r False) \<Rightarrow>
          if rrs_operation_id st \<noteq> operation_id \<or> rrs_plan_hash st \<noteq> plan_hash \<or>
             next_index \<noteq> rrs_next_index st + 1
          then (Err ScPreconditionChanged, s)
          else send_or_error (RestoreAdvanced next_index)
                 (rs_set_operation (Some (RestoreRun (st\<lparr>rrs_next_index := next_index\<rparr>) r False)) s)
      | _ \<Rightarrow> (Err ScPreconditionChanged, s))"

definition rs_finish_restore ::
  "operation_id \<Rightarrow> string \<Rightarrow> runtime_session \<Rightarrow> (session_control_error + unit) \<times> runtime_session" where
  "rs_finish_restore operation_id plan_hash s =
     (case rex_operation (rs_execution s) of
        Some (RestoreRun st r finished) \<Rightarrow>
          if rrs_operation_id st \<noteq> operation_id \<or> rrs_plan_hash st \<noteq> plan_hash \<or> finished
          then (Err ScPreconditionChanged, s)
          else send_or_error RestoreFinished (rs_set_operation (Some (RestoreRun st r True)) s)
      | _ \<Rightarrow> (Err ScPreconditionChanged, s))"

definition rs_abort_restore ::
  "operation_id \<Rightarrow> string \<Rightarrow> runtime_session \<Rightarrow> (session_control_error + unit) \<times> runtime_session" where
  "rs_abort_restore operation_id plan_hash s =
     (case rex_operation (rs_execution s) of
        None \<Rightarrow> send_or_error RestoreAborted s
      | Some (RestoreRun st r f) \<Rightarrow>
          if rrs_operation_id st = operation_id \<and> rrs_plan_hash st = plan_hash
          then send_or_error RestoreAborted (rs_set_operation (Some (RestoreRun st r True)) s)
          else (Err ScPreconditionChanged, s)
      | Some (SingleWriteRun _ _) \<Rightarrow> (Err ScPreconditionChanged, s))"

definition rs_disarm :: "runtime_session \<Rightarrow> runtime_session" where
  "rs_disarm s = rs_send DisarmWrites (s\<lparr>rs_execution := (rs_execution s)\<lparr>rex_disarm_barrier := True\<rparr>\<rparr>)"

definition rs_degrade_audit_and_disarm :: "instant \<Rightarrow> runtime_session \<Rightarrow> runtime_session" where
  "rs_degrade_audit_and_disarm now s =
     (let e = (rs_execution s)\<lparr>rex_disarm_barrier := True, rex_audit_barrier := True,
                rex_operation := map_option finish_operation_state (rex_operation (rs_execution s))\<rparr>
      in rs_send (AuditPersistenceFailed ''durable write audit failed'' now) (s\<lparr>rs_execution := e\<rparr>))"

subsection \<open>Facts\<close>

lemma rs_send_simps [simp]:
  "rs_projection (rs_send i s) = rs_projection s" "rs_execution (rs_send i s) = rs_execution s"
  "rs_closed (rs_send i s) = rs_closed s"
  by (simp_all add: rs_send_def)

lemma rs_set_operation_simps [simp]:
  "rs_projection (rs_set_operation op s) = rs_projection s" "rs_closed (rs_set_operation op s) = rs_closed s"
  "rs_execution (rs_set_operation op s) = (rs_execution s)\<lparr>rex_operation := op\<rparr>"
  by (simp_all add: rs_set_operation_def)

lemma snd_send_or_error [simp]: "snd (send_or_error i s) = rs_send i s"
  by (simp add: send_or_error_def)

lemma overlay_simps [simp]:
  "wss_armed (apply_restrictive_overlay e s) \<longleftrightarrow>
     wss_armed s \<and> \<not> rex_disarm_barrier e \<and> \<not> rex_audit_barrier e"
  "wss_audit_healthy (apply_restrictive_overlay e s) \<longleftrightarrow> wss_audit_healthy s \<and> \<not> rex_audit_barrier e"
  "wss_operation_idle (apply_restrictive_overlay e s) \<longleftrightarrow> wss_operation_idle s \<and> rex_operation e = None"
  "wss_connected (apply_restrictive_overlay e s) = wss_connected s"
  "wss_guard_revision (apply_restrictive_overlay e s) = wss_guard_revision s"
  "wss_session_id (apply_restrictive_overlay e s) = wss_session_id s"
  "wss_fingerprint (apply_restrictive_overlay e s) = wss_fingerprint s"
  "wss_profile_hash (apply_restrictive_overlay e s) = wss_profile_hash s"
  "wss_slave_id (apply_restrictive_overlay e s) = wss_slave_id s"
  by (auto simp: apply_restrictive_overlay_def Let_def)

lemma reconcile_simps [simp]:
  "rex_disarm_barrier (reconcile p e) \<longleftrightarrow> rex_disarm_barrier e \<and> wss_armed p"
  "rex_audit_barrier (reconcile p e) \<longleftrightarrow> rex_audit_barrier e \<and> wss_audit_healthy p"
  "rex_operation (reconcile p e) =
     (case rex_operation e of None \<Rightarrow> None | Some op \<Rightarrow> if operation_settled op p then None else Some op)"
  by (auto simp: reconcile_def Let_def split: option.splits)

subsection \<open>Sequences of operations\<close>

text \<open>
  Every call and every projection the runtime sees, in any order; the concurrency of the
  coordinator's task and the application's loop is an arbitrary sequence of these steps.
\<close>

datatype (plugins only: code size) rs_event =
    RsSync write_session_snapshot
  | RsBeginSingle operation_id plan_id
  | RsFinishSingle write_outcome instant
  | RsBeginRestore operation_id string
  | RsAdvanceRestore operation_id string nat
  | RsFinishRestore operation_id string
  | RsAbortRestore operation_id string
  | RsDisarm
  | RsDegrade instant
  | RsCloseChannel

definition rs_apply :: "rs_event \<Rightarrow> runtime_session \<Rightarrow> runtime_session" where
  "rs_apply ev s =
     (case ev of
        RsSync p \<Rightarrow> rs_sync p s
      | RsBeginSingle oid pid \<Rightarrow> snd (rs_begin_single_write oid pid s)
      | RsFinishSingle outcome now \<Rightarrow> rs_finish_single_write outcome now s
      | RsBeginRestore oid h \<Rightarrow> snd (rs_begin_restore oid h s)
      | RsAdvanceRestore oid h k \<Rightarrow> snd (rs_advance_restore oid h k s)
      | RsFinishRestore oid h \<Rightarrow> snd (rs_finish_restore oid h s)
      | RsAbortRestore oid h \<Rightarrow> snd (rs_abort_restore oid h s)
      | RsDisarm \<Rightarrow> rs_disarm s
      | RsDegrade now \<Rightarrow> rs_degrade_audit_and_disarm now s
      | RsCloseChannel \<Rightarrow> s\<lparr>rs_closed := True\<rparr>)"

definition rs_run :: "rs_event list \<Rightarrow> runtime_session \<Rightarrow> runtime_session" where
  "rs_run evs s = fold rs_apply evs s"

lemma rs_run_simps [simp]: "rs_run [] s = s" "rs_run (ev # evs) s = rs_run evs (rs_apply ev s)"
  "rs_run (evs @ fs) s = rs_run fs (rs_run evs s)"
  by (simp_all add: rs_run_def)

text \<open>Which steps can lift a barrier, end an operation, or release the fence.\<close>

lemma rs_claim_barriers [simp]:
  "rex_disarm_barrier (rs_execution (snd (rs_claim op i s))) = rex_disarm_barrier (rs_execution s)"
  "rex_audit_barrier (rs_execution (snd (rs_claim op i s))) = rex_audit_barrier (rs_execution s)"
  by (simp_all add: rs_claim_def)

lemma outcome_barriers_mono:
  "rex_disarm_barrier e \<Longrightarrow> rex_disarm_barrier (outcome_barriers outcome e)"
  "rex_audit_barrier e \<Longrightarrow> rex_audit_barrier (outcome_barriers outcome e)"
  "rex_operation (outcome_barriers outcome e) = rex_operation e"
  by (auto simp: outcome_barriers_def split: write_outcome.splits device_write_outcome.splits decision_outcome.splits)

lemma disarm_barrier_step:
  assumes "rex_disarm_barrier (rs_execution s)"
  shows "rex_disarm_barrier (rs_execution (rs_apply ev s)) \<or> (\<exists>p. ev = RsSync p \<and> \<not> wss_armed p)"
  using assms
  by (cases ev)
    (auto simp: rs_apply_def rs_sync_def rs_begin_single_write_def rs_begin_restore_def rs_finish_single_write_def
      rs_advance_restore_def rs_finish_restore_def rs_abort_restore_def rs_disarm_def
      rs_degrade_audit_and_disarm_def Let_def outcome_barriers_mono
      split: option.splits runtime_operation_state.splits bool.splits if_splits)

lemma audit_barrier_step:
  assumes "rex_audit_barrier (rs_execution s)"
  shows "rex_audit_barrier (rs_execution (rs_apply ev s)) \<or> (\<exists>p. ev = RsSync p \<and> \<not> wss_audit_healthy p)"
  using assms
  by (cases ev)
    (auto simp: rs_apply_def rs_sync_def rs_begin_single_write_def rs_begin_restore_def rs_finish_single_write_def
      rs_advance_restore_def rs_finish_restore_def rs_abort_restore_def rs_disarm_def
      rs_degrade_audit_and_disarm_def Let_def outcome_barriers_mono
      split: option.splits runtime_operation_state.splits bool.splits if_splits)

lemma disarm_barrier_run:
  "rex_disarm_barrier (rs_execution s) \<Longrightarrow>
     rex_disarm_barrier (rs_execution (rs_run evs s)) \<or> (\<exists>p. RsSync p \<in> set evs \<and> \<not> wss_armed p)"
proof (induction evs arbitrary: s)
  case (Cons ev evs)
  then show ?case using disarm_barrier_step [OF Cons.prems, of ev] by auto
qed simp

lemma audit_barrier_run:
  "rex_audit_barrier (rs_execution s) \<Longrightarrow>
     rex_audit_barrier (rs_execution (rs_run evs s)) \<or> (\<exists>p. RsSync p \<in> set evs \<and> \<not> wss_audit_healthy p)"
proof (induction evs arbitrary: s)
  case (Cons ev evs)
  then show ?case using audit_barrier_step [OF Cons.prems, of ev] by auto
qed simp

lemmas rs_operations = rs_begin_single_write_def rs_begin_restore_def rs_finish_single_write_def
  rs_advance_restore_def rs_finish_restore_def rs_abort_restore_def rs_disarm_def
  rs_degrade_audit_and_disarm_def rs_sync_def rs_claim_def

definition rs_finishing :: "rs_event \<Rightarrow> bool" where
  "rs_finishing ev =
     (case ev of RsFinishSingle _ _ \<Rightarrow> True | RsFinishRestore _ _ \<Rightarrow> True | RsAbortRestore _ _ \<Rightarrow> True
      | RsDegrade _ \<Rightarrow> True | _ \<Rightarrow> False)"

lemma finish_operation_state_simps [simp]:
  "ros_finished (finish_operation_state op)" "ros_started_at (finish_operation_state op) = ros_started_at op"
  by (cases op; simp add: finish_operation_state_def)+

text \<open>
  \<open>held r finished s\<close>: an operation claimed at revision \<open>r\<close> is on the fence, and it is finished
  only if something finished it.
\<close>

definition held :: "u64 \<Rightarrow> bool \<Rightarrow> runtime_session \<Rightarrow> bool" where
  "held r finished s \<longleftrightarrow>
     (\<exists>op. rex_operation (rs_execution s) = Some op \<and> ros_started_at op = r \<and> (ros_finished op \<longrightarrow> finished))"

lemma held_step:
  assumes "held r finished s"
  shows "held r (finished \<or> rs_finishing ev) (rs_apply ev s) \<or>
    (finished \<and> (\<exists>p. ev = RsSync p \<and> wss_operation_idle p \<and> wss_guard_revision p > r))"
  using assms
  by (cases ev)
    (auto simp: held_def rs_apply_def rs_operations Let_def rs_finishing_def operation_settled_def
      outcome_barriers_mono
      split: option.splits runtime_operation_state.splits bool.splits if_splits)

text \<open>What has to happen before the fence opens again after a claim at revision \<open>r\<close>.\<close>

definition settles :: "u64 \<Rightarrow> rs_event list \<Rightarrow> bool" where
  "settles r evs \<longleftrightarrow>
     (\<exists>pre f mid p post. evs = pre @ f # mid @ RsSync p # post \<and> rs_finishing f \<and>
        wss_operation_idle p \<and> wss_guard_revision p > r)"

lemma held_run:
  assumes "held r False s"
  shows "held r (\<exists>f\<in>set evs. rs_finishing f) (rs_run evs s) \<or> settles r evs"
proof (induction evs rule: rev_induct)
  case Nil
  show ?case using assms by simp
next
  case (snoc ev evs)
  then consider "settles r evs" | "held r (\<exists>f\<in>set evs. rs_finishing f) (rs_run evs s)" by blast
  then show ?case
  proof cases
    case 1
    then obtain pre f mid p post where "evs = pre @ f # mid @ RsSync p # post" "rs_finishing f"
      "wss_operation_idle p" "wss_guard_revision p > r" unfolding settles_def by blast
    then have "evs @ [ev] = pre @ f # mid @ RsSync p # (post @ [ev])" by simp
    then show ?thesis unfolding settles_def using \<open>rs_finishing f\<close> \<open>wss_operation_idle p\<close> \<open>wss_guard_revision p > r\<close>
      by blast
  next
    case 2
    from held_step [OF this, of ev] show ?thesis
    proof (elim disjE conjE exE bexE)
      fix f p assume "f \<in> set evs" "rs_finishing f" "ev = RsSync p" "wss_operation_idle p" "r < wss_guard_revision p"
      moreover from this obtain pre mid where "evs = pre @ f # mid" by (meson split_list)
      ultimately have "settles r (evs @ [ev])"
        unfolding settles_def by (intro exI [of _ pre], intro exI [of _ f], intro exI [of _ mid]) simp
      then show ?thesis ..
    qed (simp add: bex_Un disj_commute)
  qed
qed

lemma claim_held:
  "rs_begin_single_write oid pid s = (Ok (), t) \<Longrightarrow> held (wss_guard_revision (rs_projection s)) False t"
  "rs_begin_restore oid h s = (Ok (), t) \<Longrightarrow> held (wss_guard_revision (rs_projection s)) False t"
  by (auto simp: rs_begin_single_write_def rs_begin_restore_def rs_claim_def held_def rs_snapshot_def Let_def
      split: if_splits)

lemma held_refuses:
  assumes "held r finished s"
  shows "rs_begin_single_write oid pid s = (Err ScPreconditionChanged, s)"
    and "rs_begin_restore oid h s = (Err ScPreconditionChanged, s)"
  using assms
  by (auto simp: held_def rs_begin_single_write_def rs_begin_restore_def rs_claim_def write_available_def
      rs_snapshot_def Let_def)

subsection \<open>The contract of a session control\<close>

text \<open>
  What the write coordinator relies on: a claim is granted only to an available session and makes it
  busy, a running restore is matched at exactly one step and only while the session may write, it
  advances one step at a time, and disarming takes effect at once.
\<close>

locale session_control =
  fixes snapshot :: "'s \<Rightarrow> write_session_snapshot"
    and begin_single :: "operation_id \<Rightarrow> plan_id \<Rightarrow> 's \<Rightarrow> (session_control_error + unit) \<times> 's"
    and begin_restore :: "operation_id \<Rightarrow> string \<Rightarrow> 's \<Rightarrow> (session_control_error + unit) \<times> 's"
    and restore_matches :: "operation_id \<Rightarrow> string \<Rightarrow> nat \<Rightarrow> 's \<Rightarrow> bool"
    and advance_restore :: "operation_id \<Rightarrow> string \<Rightarrow> nat \<Rightarrow> 's \<Rightarrow> (session_control_error + unit) \<times> 's"
    and finish_restore :: "operation_id \<Rightarrow> string \<Rightarrow> 's \<Rightarrow> (session_control_error + unit) \<times> 's"
    and abort_restore :: "operation_id \<Rightarrow> string \<Rightarrow> 's \<Rightarrow> (session_control_error + unit) \<times> 's"
    and disarm :: "'s \<Rightarrow> 's"
    and degrade :: "instant \<Rightarrow> 's \<Rightarrow> 's"
  assumes single_available: "begin_single oid pid s = (Ok (), t) \<Longrightarrow>
      write_available (snapshot s) \<and> \<not> wss_operation_idle (snapshot t)"
    and restore_available: "begin_restore oid h s = (Ok (), t) \<Longrightarrow>
      write_available (snapshot s) \<and> restore_matches oid h 0 t"
    and matches_active: "restore_matches oid h k s \<Longrightarrow>
      wss_connected (snapshot s) \<and> wss_armed (snapshot s) \<and> wss_audit_healthy (snapshot s) \<and>
      \<not> wss_operation_idle (snapshot s)"
    and matches_unique: "restore_matches oid h k s \<Longrightarrow> restore_matches oid' h' k' s \<Longrightarrow>
      oid' = oid \<and> h' = h \<and> k' = k"
    and advance_next: "restore_matches oid h k s \<Longrightarrow> advance_restore oid h j s = (Ok (), t) \<Longrightarrow>
      j = k + 1 \<and> restore_matches oid h j t"
    and finish_ends: "finish_restore oid h s = (Ok (), t) \<Longrightarrow> \<not> restore_matches oid' h' k t"
    and abort_ends: "abort_restore oid h s = (Ok (), t) \<Longrightarrow> \<not> restore_matches oid' h' k t"
    and disarm_now: "\<not> wss_armed (snapshot (disarm s))"
    and degrade_now: "\<not> wss_armed (snapshot (degrade now s)) \<and> \<not> wss_audit_healthy (snapshot (degrade now s))"
begin

lemma busy_refuses:
  "\<not> wss_operation_idle (snapshot s) \<Longrightarrow> fst (begin_single oid pid s) \<noteq> Ok ()"
  "\<not> wss_operation_idle (snapshot s) \<Longrightarrow> fst (begin_restore oid h s) \<noteq> Ok ()"
  using single_available [of oid pid s] restore_available [of oid h s]
  by (metis prod.collapse write_available_def)+

lemma single_excludes:
  "begin_single oid pid s = (Ok (), t) \<Longrightarrow>
     fst (begin_single oid' pid' t) \<noteq> Ok () \<and> fst (begin_restore oid' h t) \<noteq> Ok ()"
  using single_available busy_refuses by blast

lemma restore_excludes:
  "begin_restore oid h s = (Ok (), t) \<Longrightarrow>
     fst (begin_single oid' pid t) \<noteq> Ok () \<and> fst (begin_restore oid' h' t) \<noteq> Ok ()"
  using restore_available matches_active busy_refuses by blast

lemma disarmed_refuses:
  "fst (begin_single oid pid (disarm s)) \<noteq> Ok () \<and> fst (begin_restore oid h (disarm s)) \<noteq> Ok () \<and>
   \<not> restore_matches oid h k (disarm s)"
  using single_available [of oid pid "disarm s"] restore_available [of oid h "disarm s"]
    matches_active [of oid h k "disarm s"] disarm_now [of s]
  by (metis prod.collapse write_available_def)

lemma advance_chain:
  "restore_matches oid h k s \<Longrightarrow>
   fold (\<lambda>j (ok, s). case advance_restore oid h j s of (r, t) \<Rightarrow> (ok \<and> r = Ok (), t)) js (True, s) = (True, t) \<Longrightarrow>
     js = [Suc k..<Suc (k + length js)] \<and> restore_matches oid h (k + length js) t"
proof (induction js arbitrary: k s)
  case (Cons j js)
  obtain r u where adv: "advance_restore oid h j s = (r, u)" by fastforce
  have stuck: "fst (fold (\<lambda>j (ok, s). case advance_restore oid h j s of (r, t) \<Rightarrow> (ok \<and> r = Ok (), t)) js (False, u)) = False"
    for js u
    by (induction js arbitrary: u) (auto split: prod.splits)
  from Cons.prems(2) adv stuck [of js u] have r: "r = Ok ()" by (cases "r = Ok ()") auto
  from advance_next [OF Cons.prems(1)] adv r have j: "j = k + 1" "restore_matches oid h j u" by auto
  from Cons.IH [OF j(2)] Cons.prems(2) adv r have
    "js = [Suc j..<Suc (j + length js)] \<and> restore_matches oid h (j + length js) t" by auto
  with j(1) show ?case by (auto simp: upt_rec)
qed simp

end

interpretation rt: session_control rs_snapshot rs_begin_single_write rs_begin_restore rs_restore_matches
  rs_advance_restore rs_finish_restore rs_abort_restore rs_disarm rs_degrade_audit_and_disarm
proof (unfold_locales, goal_cases)
  case (1 oid pid s t)
  then show ?case
    by (auto simp: rs_begin_single_write_def rs_claim_def rs_snapshot_def Let_def split: if_splits)
next
  case (2 oid h s t)
  then show ?case
    by (auto simp: rs_begin_restore_def rs_claim_def rs_snapshot_def rs_restore_matches_def write_available_def Let_def
        split: if_splits)
next
  case (3 oid h k s)
  then show ?case by (auto simp: rs_restore_matches_def Let_def split: if_splits)
next
  case (4 oid h k s oid' h' k')
  then show ?case
    by (auto simp: rs_restore_matches_def Let_def split: if_splits option.splits runtime_operation_state.splits bool.splits)
next
  case (5 oid h k s j t)
  then show ?case
    by (auto simp: rs_restore_matches_def rs_advance_restore_def send_or_error_def rs_snapshot_def Let_def
        split: if_splits option.splits runtime_operation_state.splits bool.splits)
next
  case (6 oid h s t oid' h' k)
  then show ?case
    by (auto simp: rs_restore_matches_def rs_finish_restore_def send_or_error_def Let_def
        split: if_splits option.splits runtime_operation_state.splits bool.splits)
next
  case (7 oid h s t oid' h' k)
  then show ?case
    by (auto simp: rs_restore_matches_def rs_abort_restore_def send_or_error_def rs_snapshot_def Let_def
        split: if_splits option.splits runtime_operation_state.splits bool.splits)
next
  case (8 s)
  then show ?case by (simp add: rs_snapshot_def rs_disarm_def)
next
  case (9 now s)
  then show ?case by (simp add: rs_snapshot_def rs_degrade_audit_and_disarm_def Let_def)
qed

end
