(* ===== verification/Runtime_Properties.thy ===== *)
theory Runtime_Properties
  imports Runtime_Session Samples
begin

text \<open>Properties of the session fence, each with a concrete sequence of steps.\<close>

definition demo_fence :: runtime_session where
  "demo_fence = rs_sync demo_snapshot runtime_session_new"

text \<open>
  A disarm cannot be undone by stale information. After the fence was disarmed, whatever calls and
  projections follow in whatever order, the session appears armed again only if in between a
  projection arrived that was itself disarmed; after a degraded audit it appears healthy only if a
  projection with a degraded audit arrived.
\<close>

theorem fence_disarm_sticks:
  "(wss_armed (rs_snapshot (rs_run evs (rs_disarm s))) \<longrightarrow> (\<exists>p. RsSync p \<in> set evs \<and> \<not> wss_armed p)) \<and>
   (wss_armed (rs_snapshot (rs_run evs (rs_degrade_audit_and_disarm now s))) \<longrightarrow>
      (\<exists>p. RsSync p \<in> set evs \<and> \<not> wss_armed p)) \<and>
   (wss_audit_healthy (rs_snapshot (rs_run evs (rs_degrade_audit_and_disarm now s))) \<longrightarrow>
      (\<exists>p. RsSync p \<in> set evs \<and> \<not> wss_audit_healthy p))"
proof -
  have d: "rex_disarm_barrier (rs_execution (rs_disarm s))" by (simp add: rs_disarm_def)
  have a: "rex_disarm_barrier (rs_execution (rs_degrade_audit_and_disarm now s))"
    "rex_audit_barrier (rs_execution (rs_degrade_audit_and_disarm now s))"
    by (simp_all add: rs_degrade_audit_and_disarm_def Let_def)
  show ?thesis
    using disarm_barrier_run [OF d, of evs] disarm_barrier_run [OF a(1), of evs]
      audit_barrier_run [OF a(2), of evs]
    by (auto simp: rs_snapshot_def)
qed

theorem fence_disarm_sticks_witness:
  "\<not> wss_armed (rs_snapshot (rs_run [RsSync demo_snapshot, RsSync demo_snapshot] (rs_disarm demo_fence)))"
  using fence_disarm_sticks [of "[RsSync demo_snapshot, RsSync demo_snapshot]" demo_fence 0]
  by (auto simp: demo_snapshot_def)

text \<open>
  One operation at a time. After a claim was granted for a single write or a restore, whatever
  calls and projections follow, no other claim is granted until the operation was finished (or its
  audit degraded) and after that a projection arrived that shows the session idle at a later guard
  revision than the one of the claim.
\<close>

theorem fence_claims_are_exclusive:
  assumes "rs_begin_single_write oid pid s = (Ok (), t) \<or> rs_begin_restore oid h s = (Ok (), t)"
    and "fst (rs_begin_single_write oid' pid' (rs_run evs t)) = Ok () \<or>
         fst (rs_begin_restore oid' h' (rs_run evs t)) = Ok ()"
  shows "\<exists>pre f mid p post. evs = pre @ f # mid @ RsSync p # post \<and> rs_finishing f \<and>
    wss_operation_idle p \<and> wss_guard_revision p > wss_guard_revision (rs_snapshot s)"
proof -
  let ?r = "wss_guard_revision (rs_projection s)"
  have "held ?r False t" using assms(1) claim_held by blast
  then consider finished where "held ?r finished (rs_run evs t)" | "settles ?r evs"
    using held_run by blast
  then show ?thesis
  proof cases
    case (1 finished)
    with assms(2) held_refuses [OF 1] show ?thesis by simp
  next
    case 2
    then show ?thesis by (simp add: settles_def rs_snapshot_def)
  qed
qed

theorem fence_claims_are_exclusive_witness:
  "\<exists>t. rs_begin_single_write 1 1 demo_fence = (Ok (), t) \<and>
     fst (rs_begin_restore 2 ''h'' (rs_run [RsFinishSingle (Executed Verified) 0, RsSync demo_snapshot] t)) \<noteq> Ok ()"
proof -
  have "write_available (rs_snapshot demo_fence)" "rex_operation (rs_execution demo_fence) = None" "\<not> rs_closed demo_fence"
    by (simp_all add: demo_fence_def rs_sync_def runtime_session_new_def rs_snapshot_def write_available_def demo_snapshot_def)
  then obtain t where t: "rs_begin_single_write 1 1 demo_fence = (Ok (), t)"
    by (simp add: rs_begin_single_write_def rs_claim_def Let_def)
  let ?evs = "[RsFinishSingle (Executed Verified) 0, RsSync demo_snapshot]"
  have "\<not> (\<exists>pre f mid p post. ?evs = pre @ f # mid @ RsSync p # post \<and> rs_finishing f \<and>
    wss_operation_idle p \<and> wss_guard_revision p > wss_guard_revision (rs_snapshot demo_fence))"
    by (auto simp: Cons_eq_append_conv append_eq_Cons_conv demo_fence_def rs_sync_def rs_snapshot_def)
  with fence_claims_are_exclusive [OF disjI1 [OF t], where evs = ?evs] t show ?thesis by blast
qed

text \<open>
  A restore advances through its steps one by one and only while it may write. If a restore was
  claimed and all of a sequence of advances was granted, the advances were exactly to the steps
  1, 2, 3 and so on, and the fence matches the restore at the last of them and at no other step; it
  matches only while the session is connected, armed, healthy and busy, and not after a disarm.
\<close>

theorem fence_restore_steps:
  assumes "rs_begin_restore oid h s = (Ok (), t)"
    and "fold (\<lambda>j (ok, s). case rs_advance_restore oid h j s of (r, t) \<Rightarrow> (ok \<and> r = Ok (), t)) js (True, t) = (True, u)"
  shows "js = [1..<Suc (length js)] \<and> (\<forall>k. rs_restore_matches oid h k u \<longleftrightarrow> k = length js) \<and>
    wss_armed (rs_snapshot u) \<and> \<not> rs_restore_matches oid h k (rs_disarm u)"
proof -
  have "rs_restore_matches oid h 0 t" using rt.restore_available assms(1) by blast
  from rt.advance_chain [OF this assms(2)] have "js = [1..<Suc (length js)]" "rs_restore_matches oid h (length js) u"
    by simp_all
  then show ?thesis
    using rt.matches_unique rt.matches_active rt.disarmed_refuses by blast
qed

theorem fence_restore_steps_witness:
  "\<exists>t u. rs_begin_restore 9 ''aa'' demo_fence = (Ok (), t) \<and> rs_advance_restore 9 ''aa'' 1 t = (Ok (), u) \<and>
     rs_restore_matches 9 ''aa'' 1 u"
proof -
  have "write_available (rs_snapshot demo_fence)" "rex_operation (rs_execution demo_fence) = None" "\<not> rs_closed demo_fence"
    by (simp_all add: demo_fence_def rs_sync_def runtime_session_new_def rs_snapshot_def write_available_def demo_snapshot_def)
  then obtain t where t: "rs_begin_restore 9 ''aa'' demo_fence = (Ok (), t)"
    "\<exists>r. rex_operation (rs_execution t) = Some (RestoreRun \<lparr>rrs_operation_id = 9, rrs_plan_hash = ''aa'', rrs_next_index = 0\<rparr> r False)"
    "\<not> rs_closed t"
    by (auto simp: rs_begin_restore_def rs_claim_def Let_def)
  then obtain u where u: "rs_advance_restore 9 ''aa'' 1 t = (Ok (), u)"
    by (auto simp: rs_advance_restore_def send_or_error_def)
  have "fold (\<lambda>j (ok, s). case rs_advance_restore 9 ''aa'' j s of (r, t) \<Rightarrow> (ok \<and> r = Ok (), t)) [1] (True, t) = (True, u)"
    using u by simp
  from fence_restore_steps [OF t(1) this] t(1) u show ?thesis by auto
qed

end
