(* ===== verification/Bus_Scheduler.thy ===== *)
theory Bus_Scheduler
  imports Bus "HOL-Library.Multiset"
begin

text \<open>
  The queues and the scheduler of \<open>lantern-transport/src/bus_actor.rs\<close>: commands with their
  deadlines, the five pending queues with earliest-deadline-first selection and the limit on safety
  commands per operation, and \<open>select_next\<close> with its safety bursts and its weighted round robin.
  A reply channel (\<open>oneshot::Sender\<close>) is the number of its receiver.
\<close>

type_synonym reply_id = nat

datatype (plugins only: code size) bus_command =
    ReadCommand read_bus_request reply_id instant
  | WriteCommand prepared_bus_write reply_id instant

definition command_context :: "bus_command \<Rightarrow> bus_request_context" where
  "command_context c = (case c of ReadCommand r _ _ \<Rightarrow> rbr_context r | WriteCommand w _ _ \<Rightarrow> pbw_context w)"

definition command_class :: "bus_command \<Rightarrow> request_class" where
  "command_class c = brc_class (command_context c)"

definition command_deadline :: "bus_command \<Rightarrow> instant" where
  "command_deadline c = brc_deadline (command_context c)"

definition command_operation_id :: "bus_command \<Rightarrow> operation_id option" where
  "command_operation_id c = brc_operation_id (command_context c)"

definition command_queued_at :: "bus_command \<Rightarrow> instant" where
  "command_queued_at c = (case c of ReadCommand _ _ t \<Rightarrow> t | WriteCommand _ _ t \<Rightarrow> t)"

definition command_function :: "bus_command \<Rightarrow> modbus_function" where
  "command_function c = (case c of ReadCommand r _ _ \<Rightarrow> rbr_function r | WriteCommand w _ _ \<Rightarrow> pbw_function w)"

definition command_reply :: "bus_command \<Rightarrow> reply_id" where
  "command_reply c = (case c of ReadCommand _ k _ \<Rightarrow> k | WriteCommand _ k _ \<Rightarrow> k)"

text \<open>What a client receives on its reply channel; \<open>finish\<close> answers with an error.\<close>

datatype (plugins only: code size) bus_reply =
    ReadReply "bus_error + raw_registers"
  | WriteReply "bus_error + unit"

definition command_finish :: "bus_command \<Rightarrow> bus_error \<Rightarrow> reply_id \<times> bus_reply" where
  "command_finish c e =
     (case c of ReadCommand _ k _ \<Rightarrow> (k, ReadReply (Err e)) | WriteCommand _ k _ \<Rightarrow> (k, WriteReply (Err e)))"

lemma fst_command_finish [simp]: "fst (command_finish c e) = command_reply c"
  by (cases c) (simp_all add: command_finish_def command_reply_def)

subsection \<open>Queues\<close>

record class_queues =
  cq_safety :: "bus_command list"
  cq_interactive :: "bus_command list"
  cq_telemetry_critical :: "bus_command list"
  cq_telemetry :: "bus_command list"
  cq_background :: "bus_command list"

definition empty_queues :: class_queues where
  "empty_queues = \<lparr>cq_safety = [], cq_interactive = [], cq_telemetry_critical = [], cq_telemetry = [],
     cq_background = []\<rparr>"

definition queue_of :: "request_class \<Rightarrow> class_queues \<Rightarrow> bus_command list" where
  "queue_of c q =
     (case c of SafetyOneShot \<Rightarrow> cq_safety q | Interactive \<Rightarrow> cq_interactive q
      | TelemetryCritical \<Rightarrow> cq_telemetry_critical q | Telemetry \<Rightarrow> cq_telemetry q
      | Background \<Rightarrow> cq_background q)"

definition set_queue :: "request_class \<Rightarrow> bus_command list \<Rightarrow> class_queues \<Rightarrow> class_queues" where
  "set_queue c xs q =
     (case c of SafetyOneShot \<Rightarrow> q\<lparr>cq_safety := xs\<rparr> | Interactive \<Rightarrow> q\<lparr>cq_interactive := xs\<rparr>
      | TelemetryCritical \<Rightarrow> q\<lparr>cq_telemetry_critical := xs\<rparr> | Telemetry \<Rightarrow> q\<lparr>cq_telemetry := xs\<rparr>
      | Background \<Rightarrow> q\<lparr>cq_background := xs\<rparr>)"

abbreviation all_classes :: "request_class list" where
  "all_classes \<equiv> [SafetyOneShot, Interactive, TelemetryCritical, Telemetry, Background]"

text \<open>The commands of all five queues, in the order in which the code visits the classes.\<close>

definition in_class_order :: "class_queues \<Rightarrow> bus_command list" where
  "in_class_order q = concat (map (\<lambda>c. queue_of c q) all_classes)"

definition queue_depth :: "request_class \<Rightarrow> class_queues \<Rightarrow> nat" where
  "queue_depth c q = length (queue_of c q)"

definition queues_empty :: "class_queues \<Rightarrow> bool" where
  "queues_empty q \<longleftrightarrow>
     cq_safety q = [] \<and> cq_interactive q = [] \<and> cq_telemetry_critical q = [] \<and> cq_telemetry q = [] \<and>
     cq_background q = []"

definition non_safety_empty :: "class_queues \<Rightarrow> bool" where
  "non_safety_empty q \<longleftrightarrow>
     cq_interactive q = [] \<and> cq_telemetry_critical q = [] \<and> cq_telemetry q = [] \<and> cq_background q = []"

definition SAFETY_OPERATION_LIMIT :: nat where "SAFETY_OPERATION_LIMIT = 8"
definition SAFETY_BURST_LIMIT :: nat where "SAFETY_BURST_LIMIT = 8"

text \<open>
  \<open>push\<close> answers a safety command at once when its operation already has eight of them waiting.
\<close>

definition queues_push :: "bus_command \<Rightarrow> class_queues \<Rightarrow> (reply_id \<times> bus_reply) list \<times> class_queues" where
  "queues_push c q =
     (if command_class c = SafetyOneShot \<and>
         length (filter (\<lambda>x. command_operation_id x = command_operation_id c) (cq_safety q))
           \<ge> SAFETY_OPERATION_LIMIT
      then ([command_finish c QueueFull], q)
      else ([], set_queue (command_class c) (queue_of (command_class c) q @ [c]) q))"

text \<open>
  \<open>min_by_key\<close> over (deadline, index): the first command with the smallest deadline, which
  \<open>remove\<close> takes out of the vector.
\<close>

fun earliest_index :: "bus_command list \<Rightarrow> nat option" where
  "earliest_index [] = None"
| "earliest_index (c # cs) =
     (case earliest_index cs of
        None \<Rightarrow> Some 0
      | Some i \<Rightarrow> if command_deadline (cs ! i) < command_deadline c then Some (Suc i) else Some 0)"

definition remove_nth :: "nat \<Rightarrow> 'a list \<Rightarrow> 'a list" where
  "remove_nth i xs = take i xs @ drop (Suc i) xs"

definition take_earliest :: "bus_command list \<Rightarrow> (bus_command \<times> bus_command list) option" where
  "take_earliest xs =
     (case earliest_index xs of None \<Rightarrow> None | Some i \<Rightarrow> Some (xs ! i, remove_nth i xs))"

definition queues_earliest :: "request_class \<Rightarrow> class_queues \<Rightarrow> bus_command option \<times> class_queues" where
  "queues_earliest c q =
     (case take_earliest (queue_of c q) of
        None \<Rightarrow> (None, q)
      | Some (x, rest) \<Rightarrow> (Some x, set_queue c rest q))"

subsection \<open>Scheduler\<close>

definition NON_SAFETY_SCHEDULE :: "request_class list" where
  "NON_SAFETY_SCHEDULE =
     [TelemetryCritical, Interactive, TelemetryCritical, Interactive, TelemetryCritical, Interactive,
      TelemetryCritical, Interactive, Telemetry, Telemetry, Background]"

record scheduler =
  sc_pending :: class_queues
  sc_safety_burst :: nat
  sc_wrr_index :: nat

text \<open>
  The round robin tries at most as many slots as the schedule has, starting at the stored index.
\<close>

fun wrr_select :: "nat \<Rightarrow> scheduler \<Rightarrow> bus_command option \<times> scheduler" where
  "wrr_select 0 s = (case queues_earliest SafetyOneShot (sc_pending s) of (c, q) \<Rightarrow> (c, s\<lparr>sc_pending := q\<rparr>))"
| "wrr_select (Suc n) s =
     (let class = NON_SAFETY_SCHEDULE ! (sc_wrr_index s mod length NON_SAFETY_SCHEDULE);
          s' = s\<lparr>sc_wrr_index := (sc_wrr_index s + 1) mod length NON_SAFETY_SCHEDULE\<rparr>
      in case queues_earliest class (sc_pending s) of
           (Some c, q) \<Rightarrow> (Some c, s'\<lparr>sc_pending := q, sc_safety_burst := 0\<rparr>)
         | (None, _) \<Rightarrow> wrr_select n s')"

definition hard_deadline :: "class_queues \<Rightarrow> instant \<Rightarrow> bool" where
  "hard_deadline q now \<longleftrightarrow> list_ex (\<lambda>c. command_deadline c \<le> now + from_millis 5) (cq_safety q)"

definition select_next :: "instant \<Rightarrow> scheduler \<Rightarrow> bus_command option \<times> scheduler" where
  "select_next now s =
     (if cq_safety (sc_pending s) \<noteq> [] \<and>
         (sc_safety_burst s < SAFETY_BURST_LIMIT \<or> hard_deadline (sc_pending s) now \<or>
          non_safety_empty (sc_pending s))
      then (case queues_earliest SafetyOneShot (sc_pending s) of
              (c, q) \<Rightarrow> (c, s\<lparr>sc_safety_burst := sc_safety_burst s + 1, sc_pending := q\<rparr>))
      else wrr_select (length NON_SAFETY_SCHEDULE) s)"

subsection \<open>Queues that are emptied by deadline\<close>

text \<open>
  The interface between a queue and the scheduler: \<open>take\<close> removes the first element of the
  smallest key. The clients' lemmas say that nothing is lost, that nothing overtakes an earlier
  deadline, and that emptying the queue visits its elements in the order of a stable sort.
\<close>

locale deadline_queue =
  fixes take_first :: "'q \<Rightarrow> ('a \<times> 'q) option"
    and elems :: "'q \<Rightarrow> 'a list"
    and key :: "'a \<Rightarrow> 'k::linorder"
  assumes take_None: "take_first q = None \<longleftrightarrow> elems q = []"
    and take_Some: "take_first q = Some (x, q') \<Longrightarrow>
      \<exists>xs ys. elems q = xs @ x # ys \<and> elems q' = xs @ ys \<and>
        (\<forall>y \<in> set xs. key x < key y) \<and> (\<forall>y \<in> set ys. key x \<le> key y)"
begin

lemma take_mset: "take_first q = Some (x, q') \<Longrightarrow> mset (elems q) = add_mset x (mset (elems q'))"
  using take_Some by fastforce

lemma take_least: "take_first q = Some (x, q') \<Longrightarrow> y \<in> set (elems q) \<Longrightarrow> key x \<le> key y"
  using take_Some [of q x q'] by fastforce

lemma take_total: "elems q \<noteq> [] \<Longrightarrow> \<exists>x q'. take_first q = Some (x, q')"
  using take_None [of q] by (cases "take_first q") auto

lemma take_length: "take_first q = Some (x, q') \<Longrightarrow> length (elems q) = Suc (length (elems q'))"
  using take_mset [of q x q'] by (metis size_add_mset size_mset)

lemma take_sorts:
  assumes "take_first q = Some (x, q')"
  shows "sort_key key (elems q) = x # sort_key key (elems q')"
proof -
  obtain xs ys where e: "elems q = xs @ x # ys" "elems q' = xs @ ys"
    and lt: "\<forall>y \<in> set xs. key x < key y" and le: "\<forall>y \<in> set ys. key x \<le> key y"
    using take_Some [OF assms] by blast
  have xs: "filter (\<lambda>y. key x = key y) xs = []"
    using lt by (auto simp: filter_empty_conv)
  have stable: "filter (\<lambda>z. k = key z) (sort_key key zs) = filter (\<lambda>z. k = key z) zs" for k zs
    using sort_key_stable [of key k zs] by (simp add: eq_commute)
  have "sort_key key (xs @ x # ys) = x # sort_key key (xs @ ys)"
  proof (rule properties_for_sort_key)
    show "mset (x # sort_key key (xs @ ys)) = mset (xs @ x # ys)" by simp
    show "sorted (map key (x # sort_key key (xs @ ys)))"
      using lt le by (auto simp: less_imp_le)
    show "filter (\<lambda>z. key k = key z) (x # sort_key key (xs @ ys)) = filter (\<lambda>z. key k = key z) (xs @ x # ys)"
      if "k \<in> set (x # sort_key key (xs @ ys))" for k
      using xs by (cases "key k = key x") (auto simp: stable filter_empty_conv)
  qed
  with e show ?thesis by simp
qed

end

lemma remove_nth_append [simp]: "remove_nth (length xs) (xs @ x # ys) = xs @ ys"
  by (simp add: remove_nth_def)

lemma earliest_index_None_iff: "earliest_index xs = None \<longleftrightarrow> xs = []"
  by (cases xs) (auto split: option.splits)

lemma earliest_index_Some:
  "earliest_index cs = Some i \<Longrightarrow>
     i < length cs \<and> (\<forall>y \<in> set (take i cs). command_deadline (cs ! i) < command_deadline y) \<and>
     (\<forall>y \<in> set (drop (Suc i) cs). command_deadline (cs ! i) \<le> command_deadline y)"
proof (induction cs arbitrary: i)
  case (Cons c cs)
  show ?case
  proof (cases "earliest_index cs")
    case None
    with Cons.prems show ?thesis by (auto simp: earliest_index_None_iff)
  next
    case (Some j)
    note IH = Cons.IH [OF Some]
    show ?thesis
    proof (cases "command_deadline (cs ! j) < command_deadline c")
      case True
      with Cons.prems Some IH show ?thesis by auto
    next
      case False
      have "set cs = set (take j cs) \<union> {cs ! j} \<union> set (drop (Suc j) cs)"
        using IH by (metis Un_insert_right append_take_drop_id id_take_nth_drop list.simps(15) set_append
            sup_bot.right_neutral Un_insert_left)
      then have "\<forall>y \<in> set cs. command_deadline (cs ! j) \<le> command_deadline y"
        using IH by (auto simp: less_imp_le)
      with False Cons.prems Some show ?thesis by fastforce
    qed
  qed
qed simp

interpretation edf: deadline_queue take_earliest "\<lambda>xs. xs" command_deadline
proof
  show "take_earliest q = None \<longleftrightarrow> q = []" for q
    by (auto simp: take_earliest_def earliest_index_None_iff split: option.splits)
  show "\<exists>xs ys. q = xs @ x # ys \<and> q' = xs @ ys \<and> (\<forall>y \<in> set xs. command_deadline x < command_deadline y) \<and>
      (\<forall>y \<in> set ys. command_deadline x \<le> command_deadline y)"
    if "take_earliest q = Some (x, q')" for q x q'
  proof -
    from that obtain i where i: "earliest_index q = Some i" "x = q ! i" "q' = remove_nth i q"
      by (auto simp: take_earliest_def split: option.splits)
    then show ?thesis
      using earliest_index_Some [OF i(1)] id_take_nth_drop [of i q] by (auto simp: remove_nth_def)
  qed
qed

text \<open>Emptying a queue in one go, as successive turns of its class do.\<close>

fun drain_class :: "nat \<Rightarrow> bus_command list \<Rightarrow> bus_command list" where
  "drain_class 0 xs = []"
| "drain_class (Suc n) xs = (case take_earliest xs of None \<Rightarrow> [] | Some (x, rest) \<Rightarrow> x # drain_class n rest)"

lemma drain_class_sorts: "length xs \<le> n \<Longrightarrow> drain_class n xs = sort_key command_deadline xs"
proof (induction n arbitrary: xs)
  case (Suc n)
  show ?case
  proof (cases "take_earliest xs")
    case None
    then have "xs = []" by (simp add: edf.take_None)
    then show ?thesis by (simp add: take_earliest_def)
  next
    case (Some p)
    obtain x rest where p: "p = (x, rest)" by fastforce
    with Some Suc.prems have "length rest \<le> n" using edf.take_length [of xs x rest] by simp
    with Some p Suc.IH edf.take_sorts [of xs x rest] show ?thesis by simp
  qed
qed simp

subsection \<open>The five queues\<close>

lemma queue_of_set_queue [simp]:
  "queue_of k (set_queue c xs q) = (if k = c then xs else queue_of k q)"
  by (cases c; cases k) (simp_all add: queue_of_def set_queue_def)

lemma queue_of_empty_queues [simp]: "queue_of c empty_queues = []"
  by (cases c) (simp_all add: queue_of_def empty_queues_def)

lemma cq_safety_queue_of: "cq_safety q = queue_of SafetyOneShot q"
  by (simp add: queue_of_def)

lemma queues_empty_iff: "queues_empty q \<longleftrightarrow> (\<forall>c. queue_of c q = [])"
proof
  show "\<forall>c. queue_of c q = []" if "queues_empty q"
  proof
    show "queue_of c q = []" for c using that by (cases c) (simp_all add: queues_empty_def queue_of_def)
  qed
  show "queues_empty q" if "\<forall>c. queue_of c q = []"
    using that [rule_format, of SafetyOneShot] that [rule_format, of Interactive] that [rule_format, of Telemetry]
      that [rule_format, of TelemetryCritical] that [rule_format, of Background]
    by (simp add: queues_empty_def queue_of_def)
qed

lemma non_safety_empty_iff: "non_safety_empty q \<longleftrightarrow> (\<forall>c. c \<noteq> SafetyOneShot \<longrightarrow> queue_of c q = [])"
proof
  show "\<forall>c. c \<noteq> SafetyOneShot \<longrightarrow> queue_of c q = []" if "non_safety_empty q"
  proof (intro allI impI)
    show "queue_of c q = []" if "c \<noteq> SafetyOneShot" for c
      using that \<open>non_safety_empty q\<close> by (cases c) (simp_all add: non_safety_empty_def queue_of_def)
  qed
  show "non_safety_empty q" if "\<forall>c. c \<noteq> SafetyOneShot \<longrightarrow> queue_of c q = []"
    using that [rule_format, of Interactive] that [rule_format, of Telemetry]
      that [rule_format, of TelemetryCritical] that [rule_format, of Background]
    by (simp add: non_safety_empty_def queue_of_def)
qed

definition queues_mset :: "class_queues \<Rightarrow> bus_command multiset" where
  "queues_mset q =
     mset (cq_safety q) + mset (cq_interactive q) + mset (cq_telemetry_critical q) + mset (cq_telemetry q) +
     mset (cq_background q)"

lemma queues_mset_set_queue:
  "queues_mset (set_queue c xs q) + mset (queue_of c q) = queues_mset q + mset xs"
  by (cases c) (simp_all add: queues_mset_def set_queue_def queue_of_def add_ac)

lemma queues_mset_empty [simp]: "queues_mset empty_queues = {#}"
  by (simp add: queues_mset_def empty_queues_def)

lemma in_queues_mset: "x \<in># queues_mset q \<longleftrightarrow> (\<exists>c. x \<in> set (queue_of c q))"
proof
  assume "x \<in># queues_mset q"
  then consider "x \<in> set (queue_of SafetyOneShot q)" | "x \<in> set (queue_of Interactive q)"
    | "x \<in> set (queue_of TelemetryCritical q)" | "x \<in> set (queue_of Telemetry q)"
    | "x \<in> set (queue_of Background q)"
    by (auto simp: queues_mset_def queue_of_def)
  then show "\<exists>c. x \<in> set (queue_of c q)" by cases blast+
next
  assume "\<exists>c. x \<in> set (queue_of c q)"
  then obtain c where "x \<in> set (queue_of c q)" by blast
  then show "x \<in># queues_mset q" by (cases c) (simp_all add: queues_mset_def queue_of_def)
qed

text \<open>
  Every queue holds the commands of its class, and the safety queue at most eight of an operation.
\<close>

definition queues_typed :: "class_queues \<Rightarrow> bool" where
  "queues_typed q \<longleftrightarrow> (\<forall>c. \<forall>x \<in> set (queue_of c q). command_class x = c)"

definition safety_bounded :: "class_queues \<Rightarrow> bool" where
  "safety_bounded q \<longleftrightarrow>
     (\<forall>oid. length (filter (\<lambda>x. command_operation_id x = oid) (queue_of SafetyOneShot q)) \<le> SAFETY_OPERATION_LIMIT)"

lemma queues_push_typed: "queues_typed q \<Longrightarrow> queues_typed (snd (queues_push c q))"
  by (auto simp: queues_push_def queues_typed_def)

lemma queues_push_bounded: "safety_bounded q \<Longrightarrow> safety_bounded (snd (queues_push c q))"
  by (auto simp: queues_push_def safety_bounded_def cq_safety_queue_of not_le Suc_le_eq)

lemma queues_push_mset:
  "queues_push c q = (rs, q') \<Longrightarrow>
     (rs = [] \<and> queues_mset q' = add_mset c (queues_mset q)) \<or>
     (rs = [command_finish c QueueFull] \<and> q' = q \<and> command_class c = SafetyOneShot)"
  using queues_mset_set_queue [of "command_class c" "queue_of (command_class c) q @ [c]" q]
  by (auto simp: queues_push_def split: if_splits)

lemma queues_push_queue_of:
  "set (queue_of k q) \<subseteq> set (queue_of k (snd (queues_push c q)))"
  "set (queue_of k (snd (queues_push c q))) \<subseteq> insert c (set (queue_of k q))"
  by (auto simp: queues_push_def split: if_splits)

lemma queues_earliest_simps:
  "queue_of c q = [] \<Longrightarrow> queues_earliest c q = (None, q)"
  "queue_of c q \<noteq> [] \<Longrightarrow> \<exists>x rest. take_earliest (queue_of c q) = Some (x, rest) \<and>
      queues_earliest c q = (Some x, set_queue c rest q)"
  using edf.take_None [of "queue_of c q"] edf.take_total [of "queue_of c q"]
  by (auto simp: queues_earliest_def)

lemma queues_earliest_Some:
  assumes "queues_earliest c q = (Some x, q')"
  shows "x \<in> set (queue_of c q)" and "\<forall>y \<in> set (queue_of c q). command_deadline x \<le> command_deadline y"
    and "queues_mset q = add_mset x (queues_mset q')"
    and "set (queue_of k q') \<subseteq> set (queue_of k q)" and "k \<noteq> c \<Longrightarrow> queue_of k q' = queue_of k q"
    and "length (filter P (queue_of k q')) \<le> length (filter P (queue_of k q))"
proof -
  obtain rest where t: "take_earliest (queue_of c q) = Some (x, rest)" and q': "q' = set_queue c rest q"
    using assms by (auto simp: queues_earliest_def split: option.splits prod.splits)
  obtain xs ys where e: "queue_of c q = xs @ x # ys" "rest = xs @ ys"
    using edf.take_Some [OF t] by blast
  show "x \<in> set (queue_of c q)" using e by simp
  show "\<forall>y \<in> set (queue_of c q). command_deadline x \<le> command_deadline y"
    using edf.take_least [OF t] by blast
  show "queues_mset q = add_mset x (queues_mset q')"
    using queues_mset_set_queue [of c rest q] e q' by simp
  show "set (queue_of k q') \<subseteq> set (queue_of k q)" and "k \<noteq> c \<Longrightarrow> queue_of k q' = queue_of k q"
    and "length (filter P (queue_of k q')) \<le> length (filter P (queue_of k q))"
    using e q' by auto
qed

subsection \<open>One selection\<close>

lemma wrr_select_cases:
  assumes "wrr_select n s = (r, s')" and "sc_wrr_index s < 11"
  shows "sc_wrr_index s' < 11 \<and>
    (case r of
       None \<Rightarrow> sc_pending s' = sc_pending s \<and> queue_of SafetyOneShot (sc_pending s) = []
     | Some x \<Rightarrow> \<exists>c. queues_earliest c (sc_pending s) = (Some x, sc_pending s') \<and>
         (c \<noteq> SafetyOneShot \<longrightarrow> sc_safety_burst s' = 0))"
  using assms
proof (induction n s arbitrary: r s' rule: wrr_select.induct)
  case (1 s)
  then show ?case
    using queues_earliest_simps [of SafetyOneShot "sc_pending s"]
    by (cases "queue_of SafetyOneShot (sc_pending s) = []") (auto intro!: exI [of _ SafetyOneShot])
next
  case (2 n s)
  define c where "c = NON_SAFETY_SCHEDULE ! (sc_wrr_index s mod length NON_SAFETY_SCHEDULE)"
  define t where "t = s\<lparr>sc_wrr_index := (sc_wrr_index s + 1) mod length NON_SAFETY_SCHEDULE\<rparr>"
  have t: "sc_wrr_index t < 11" "sc_pending t = sc_pending s"
    by (simp_all add: t_def NON_SAFETY_SCHEDULE_def)
  show ?case
  proof (cases "queue_of c (sc_pending s) = []")
    case True
    with "2.prems" have "wrr_select n t = (r, s')"
      by (simp add: Let_def queues_earliest_simps t_def flip: c_def)
    with "2.IH" [OF c_def t_def queues_earliest_simps(1) [OF True, symmetric]] t show ?thesis
      by (auto split: option.splits)
  next
    case False
    from queues_earliest_simps(2) [OF this] obtain x rest where
      "queues_earliest c (sc_pending s) = (Some x, set_queue c rest (sc_pending s))" by blast
    with "2.prems" have "r = Some x \<and> s' = t\<lparr>sc_pending := set_queue c rest (sc_pending s), sc_safety_burst := 0\<rparr>"
      by (auto simp: Let_def t_def simp flip: c_def)
    with t \<open>queues_earliest c (sc_pending s) = _\<close> show ?thesis by auto
  qed
qed

text \<open>How many slots the round robin is away from the next one of a class.\<close>

definition slot_distance :: "request_class \<Rightarrow> nat \<Rightarrow> nat" where
  "slot_distance c i = length (takeWhile (\<lambda>x. x \<noteq> c) (rotate i NON_SAFETY_SCHEDULE))"

lemma non_safety_in_schedule: "c \<noteq> SafetyOneShot \<Longrightarrow> c \<in> set NON_SAFETY_SCHEDULE"
  by (cases c) (simp_all add: NON_SAFETY_SCHEDULE_def)

lemma length_NON_SAFETY_SCHEDULE: "length NON_SAFETY_SCHEDULE = 11"
  by (simp add: NON_SAFETY_SCHEDULE_def)

lemma slot_distance_step:
  assumes "i < 11" and "c \<noteq> SafetyOneShot"
  shows "slot_distance c i =
    (if NON_SAFETY_SCHEDULE ! i = c then 0 else Suc (slot_distance c ((i + 1) mod 11)))"
proof -
  obtain y ys where r: "rotate i NON_SAFETY_SCHEDULE = y # ys"
    using length_NON_SAFETY_SCHEDULE by (metis length_0_conv length_rotate neq_Nil_conv zero_neq_numeral)
  have y: "y = NON_SAFETY_SCHEDULE ! i"
    using assms(1) nth_rotate [of 0 NON_SAFETY_SCHEDULE i] r by (simp add: length_NON_SAFETY_SCHEDULE)
  have mod: "rotate ((i + 1) mod 11) NON_SAFETY_SCHEDULE = ys @ [y]"
    using rotate_conv_mod [of "Suc i" NON_SAFETY_SCHEDULE] r
    by (simp add: length_NON_SAFETY_SCHEDULE)
  have "c \<in> set (y # ys)"
    using non_safety_in_schedule [OF assms(2)] r by (metis set_rotate)
  then show ?thesis
    using y r mod by (auto simp: slot_distance_def takeWhile_append1)
qed

lemma length_takeWhile_less: "x \<in> set xs \<Longrightarrow> \<not> P x \<Longrightarrow> length (takeWhile P xs) < length xs"
  by (induction xs) auto

lemma slot_distance_le: "c \<noteq> SafetyOneShot \<Longrightarrow> slot_distance c i \<le> 10"
  using length_takeWhile_less [of c "rotate i NON_SAFETY_SCHEDULE" "\<lambda>x. x \<noteq> c"]
    non_safety_in_schedule [of c]
  by (simp add: slot_distance_def length_NON_SAFETY_SCHEDULE)

lemma NON_SAFETY_SCHEDULE_no_safety: "i < 11 \<Longrightarrow> NON_SAFETY_SCHEDULE ! i \<noteq> SafetyOneShot"
  using nth_mem [of i NON_SAFETY_SCHEDULE] by (auto simp: NON_SAFETY_SCHEDULE_def)

lemma wrr_select_serves:
  assumes "wrr_select n s = (r, s')" and "queues_typed (sc_pending s)" and "sc_wrr_index s < 11"
    and "c \<noteq> SafetyOneShot" and "queue_of c (sc_pending s) \<noteq> []" and "slot_distance c (sc_wrr_index s) < n"
  shows "\<exists>x. r = Some x \<and> command_class x \<noteq> SafetyOneShot \<and> sc_safety_burst s' = 0 \<and>
    (command_class x = c \<or>
     queue_of c (sc_pending s') = queue_of c (sc_pending s) \<and>
     slot_distance c (sc_wrr_index s') < slot_distance c (sc_wrr_index s))"
  using assms
proof (induction n s arbitrary: r s' rule: wrr_select.induct)
  case (1 s)
  then show ?case by simp
next
  case (2 n s)
  define k where "k = NON_SAFETY_SCHEDULE ! (sc_wrr_index s mod length NON_SAFETY_SCHEDULE)"
  define t where "t = s\<lparr>sc_wrr_index := (sc_wrr_index s + 1) mod length NON_SAFETY_SCHEDULE\<rparr>"
  have t: "sc_wrr_index t < 11" "sc_pending t = sc_pending s" "sc_wrr_index t = (sc_wrr_index s + 1) mod 11"
    by (simp_all add: t_def length_NON_SAFETY_SCHEDULE)
  have k: "k = NON_SAFETY_SCHEDULE ! sc_wrr_index s" "k \<noteq> SafetyOneShot"
    using "2.prems" by (simp_all add: k_def length_NON_SAFETY_SCHEDULE NON_SAFETY_SCHEDULE_no_safety)
  have dist: "slot_distance c (sc_wrr_index s) = (if k = c then 0 else Suc (slot_distance c (sc_wrr_index t)))"
    using slot_distance_step [OF "2.prems"(3,4)] by (simp add: k t)
  show ?case
  proof (cases "queue_of k (sc_pending s) = []")
    case True
    then have "k \<noteq> c" using "2.prems" by auto
    from True "2.prems"(1) have "wrr_select n t = (r, s')"
      by (simp add: Let_def queues_earliest_simps t_def flip: k_def)
    with "2.IH" [OF k_def t_def queues_earliest_simps(1) [OF True, symmetric]] t "2.prems" dist \<open>k \<noteq> c\<close>
    show ?thesis by auto
  next
    case False
    from queues_earliest_simps(2) [OF this] obtain x rest where
      q: "queues_earliest k (sc_pending s) = (Some x, set_queue k rest (sc_pending s))" by blast
    with "2.prems"(1) have r: "r = Some x"
        "s' = t\<lparr>sc_pending := set_queue k rest (sc_pending s), sc_safety_burst := 0\<rparr>"
      by (auto simp: Let_def t_def simp flip: k_def)
    have "command_class x = k"
      using queues_earliest_Some(1) [OF q] "2.prems"(2) by (auto simp: queues_typed_def)
    with r k dist show ?thesis by auto
  qed
qed

lemma select_next_safety:
  assumes "cq_safety (sc_pending s) \<noteq> []"
    and "sc_safety_burst s < SAFETY_BURST_LIMIT \<or> hard_deadline (sc_pending s) now \<or> non_safety_empty (sc_pending s)"
  obtains x q where "queues_earliest SafetyOneShot (sc_pending s) = (Some x, q)"
    and "select_next now s = (Some x, s\<lparr>sc_safety_burst := sc_safety_burst s + 1, sc_pending := q\<rparr>)"
proof -
  obtain x q where e: "queues_earliest SafetyOneShot (sc_pending s) = (Some x, q)"
    using queues_earliest_simps(2) [of SafetyOneShot "sc_pending s"] assms(1) by (auto simp: cq_safety_queue_of)
  with assms have "select_next now s = (Some x, s\<lparr>sc_safety_burst := sc_safety_burst s + 1, sc_pending := q\<rparr>)"
    by (simp add: select_next_def)
  with e that show ?thesis by blast
qed

lemma select_next_other:
  assumes "\<not> (cq_safety (sc_pending s) \<noteq> [] \<and>
     (sc_safety_burst s < SAFETY_BURST_LIMIT \<or> hard_deadline (sc_pending s) now \<or> non_safety_empty (sc_pending s)))"
  shows "select_next now s = wrr_select 11 s"
  using assms by (auto simp: select_next_def length_NON_SAFETY_SCHEDULE)

lemma select_next_cases:
  assumes "select_next now s = (r, s')" and "sc_wrr_index s < 11"
  shows "sc_wrr_index s' < 11 \<and>
    (case r of
       None \<Rightarrow> sc_pending s' = sc_pending s \<and> queue_of SafetyOneShot (sc_pending s) = []
     | Some x \<Rightarrow> \<exists>c. queues_earliest c (sc_pending s) = (Some x, sc_pending s'))"
proof (cases "cq_safety (sc_pending s) \<noteq> [] \<and>
     (sc_safety_burst s < SAFETY_BURST_LIMIT \<or> hard_deadline (sc_pending s) now \<or> non_safety_empty (sc_pending s))")
  case True
  then obtain x q where "queues_earliest SafetyOneShot (sc_pending s) = (Some x, q)"
    and "select_next now s = (Some x, s\<lparr>sc_safety_burst := sc_safety_burst s + 1, sc_pending := q\<rparr>)"
    using select_next_safety [of s now] by blast
  then show ?thesis using assms by auto
next
  case False
  then have w: "wrr_select 11 s = (r, s')" using select_next_other assms by metis
  then show ?thesis using wrr_select_cases [OF w assms(2)] by (auto split: option.splits)
qed

text \<open>A selection from queues that are not empty finds a command.\<close>

lemma select_next_total:
  assumes "queues_typed (sc_pending s)" and "sc_wrr_index s < 11" and "\<not> queues_empty (sc_pending s)"
  shows "\<exists>x s'. select_next now s = (Some x, s')"
proof (cases "cq_safety (sc_pending s) \<noteq> [] \<and>
     (sc_safety_burst s < SAFETY_BURST_LIMIT \<or> hard_deadline (sc_pending s) now \<or> non_safety_empty (sc_pending s))")
  case True
  then show ?thesis using select_next_safety [of s now] by blast
next
  case False
  then have "\<not> non_safety_empty (sc_pending s)"
    using assms(3) by (auto simp: queues_empty_def non_safety_empty_def)
  then obtain c where c: "c \<noteq> SafetyOneShot" "queue_of c (sc_pending s) \<noteq> []"
    by (auto simp: non_safety_empty_iff)
  obtain r s' where w: "wrr_select 11 s = (r, s')" by fastforce
  have "slot_distance c (sc_wrr_index s) < 11" using slot_distance_le [OF c(1), of "sc_wrr_index s"] by simp
  with wrr_select_serves [OF w assms(1,2) c] show ?thesis
    using select_next_other [OF False] w by auto
qed

lemma select_next_class:
  assumes "queues_typed (sc_pending s)" and "sc_wrr_index s < 11" and "\<not> queues_empty (sc_pending s)"
    and "select_next now s = (Some x, s')"
  shows "command_class x = SafetyOneShot \<longleftrightarrow>
    cq_safety (sc_pending s) \<noteq> [] \<and>
    (sc_safety_burst s < SAFETY_BURST_LIMIT \<or> hard_deadline (sc_pending s) now \<or> non_safety_empty (sc_pending s))"
    (is "_ \<longleftrightarrow> ?first")
proof (cases ?first)
  case True
  from True obtain y q where "queues_earliest SafetyOneShot (sc_pending s) = (Some y, q)"
    and "select_next now s = (Some y, s\<lparr>sc_safety_burst := sc_safety_burst s + 1, sc_pending := q\<rparr>)"
    using select_next_safety [of s now] by blast
  with True assms(1,4) queues_earliest_Some(1) [of SafetyOneShot "sc_pending s" y q] show ?thesis
    by (auto simp: queues_typed_def)
next
  case False
  then have "\<not> non_safety_empty (sc_pending s)"
    using assms(3) by (auto simp: queues_empty_def non_safety_empty_def)
  then obtain c where c: "c \<noteq> SafetyOneShot" "queue_of c (sc_pending s) \<noteq> []"
    by (auto simp: non_safety_empty_iff)
  have w: "wrr_select 11 s = (Some x, s')" using select_next_other [OF False] assms(4) by simp
  have "slot_distance c (sc_wrr_index s) < 11" using slot_distance_le [OF c(1), of "sc_wrr_index s"] by simp
  with wrr_select_serves [OF w assms(1,2) c] False show ?thesis by auto
qed

subsection \<open>Rounds of the actor\<close>

text \<open>
  One turn of the actor's loop, as far as the queues are concerned: what the channels held is
  pushed, then one command is selected. The turns of a run are a list of arrivals with the time at
  which the selection looks at the clock.
\<close>

fun push_all :: "bus_command list \<Rightarrow> class_queues \<Rightarrow> (reply_id \<times> bus_reply) list \<times> class_queues" where
  "push_all [] q = ([], q)"
| "push_all (c # cs) q =
     (case queues_push c q of (r, q1) \<Rightarrow> case push_all cs q1 of (rs, q2) \<Rightarrow> (r @ rs, q2))"

type_synonym scheduler_round = "bus_command list \<times> instant"

definition scheduler_round :: "scheduler_round \<Rightarrow> scheduler \<Rightarrow> bus_command option \<times> scheduler" where
  "scheduler_round r s = select_next (snd r) (s\<lparr>sc_pending := snd (push_all (fst r) (sc_pending s))\<rparr>)"

fun scheduler_rounds :: "scheduler_round list \<Rightarrow> scheduler \<Rightarrow> bus_command option list \<times> scheduler" where
  "scheduler_rounds [] s = ([], s)"
| "scheduler_rounds (r # rs) s =
     (case scheduler_round r s of (c, s1) \<Rightarrow> case scheduler_rounds rs s1 of (cs, s2) \<Rightarrow> (c # cs, s2))"

definition scheduler_wf :: "scheduler \<Rightarrow> bool" where
  "scheduler_wf s \<longleftrightarrow>
     queues_typed (sc_pending s) \<and> safety_bounded (sc_pending s) \<and> sc_wrr_index s < 11"

lemma push_all_typed: "queues_typed q \<Longrightarrow> queues_typed (snd (push_all cs q))"
proof (induction cs arbitrary: q)
  case (Cons c cs)
  from Cons.IH [OF queues_push_typed [OF Cons.prems, of c]] show ?case by (simp add: case_prod_beta)
qed simp

lemma push_all_bounded: "safety_bounded q \<Longrightarrow> safety_bounded (snd (push_all cs q))"
proof (induction cs arbitrary: q)
  case (Cons c cs)
  from Cons.IH [OF queues_push_bounded [OF Cons.prems, of c]] show ?case by (simp add: case_prod_beta)
qed simp

lemma push_all_keeps: "set (queue_of k q) \<subseteq> set (queue_of k (snd (push_all cs q)))"
proof (induction cs arbitrary: q)
  case (Cons c cs)
  from Cons.IH [of "snd (queues_push c q)"] queues_push_queue_of(1) [of k q c]
  show ?case by (auto simp: case_prod_beta)
qed simp

lemma push_all_adds:
  "queues_typed q \<Longrightarrow> set (queue_of k (snd (push_all cs q))) \<subseteq>
     {c \<in> set cs. command_class c = k} \<union> set (queue_of k q)"
proof (induction cs arbitrary: q)
  case (Cons c cs)
  have t: "queues_typed (snd (queues_push c q))" using queues_push_typed [OF Cons.prems] .
  then have "set (queue_of k (snd (queues_push c q))) \<subseteq> {x \<in> {c}. command_class x = k} \<union> set (queue_of k q)"
    using queues_push_queue_of(2) [of k c q] by (auto simp: queues_typed_def)
  with Cons.IH [OF t] show ?case by (auto simp: case_prod_beta)
qed simp

lemma select_next_wf:
  assumes "scheduler_wf s" and e: "select_next now s = (r, s')"
  shows "scheduler_wf s'"
proof -
  have w: "sc_wrr_index s < 11" using assms(1) by (simp add: scheduler_wf_def)
  note c = select_next_cases [OF e w]
  show ?thesis
  proof (cases r)
    case None
    with c assms(1) show ?thesis by (simp add: scheduler_wf_def)
  next
    case (Some x)
    with c obtain k where "queues_earliest k (sc_pending s) = (Some x, sc_pending s')" by auto
    from queues_earliest_Some(4,6) [OF this] assms(1) c show ?thesis
      unfolding scheduler_wf_def queues_typed_def safety_bounded_def
      by (blast intro: order_trans)
  qed
qed

lemma scheduler_round_wf: "scheduler_wf s \<Longrightarrow> scheduler_round r s = (c, s') \<Longrightarrow> scheduler_wf s'"
  unfolding scheduler_round_def
  by (rule select_next_wf) (auto simp: scheduler_wf_def push_all_typed push_all_bounded)

text \<open>
  While no safety command is about to expire, the turns until a waiting class is served are
  bounded by its distance in the round robin, with a full safety burst before every slot.
\<close>

definition turns_left :: "request_class \<Rightarrow> scheduler \<Rightarrow> nat" where
  "turns_left c s = 9 * slot_distance c (sc_wrr_index s) + (SAFETY_BURST_LIMIT - sc_safety_burst s)"

lemma turns_left_le: "c \<noteq> SafetyOneShot \<Longrightarrow> turns_left c s \<le> 98"
  using slot_distance_le [of c "sc_wrr_index s"] by (simp add: turns_left_def SAFETY_BURST_LIMIT_def)

lemma select_next_progress:
  assumes "scheduler_wf s" and c: "c \<noteq> SafetyOneShot" "queue_of c (sc_pending s) \<noteq> []"
    and h: "\<not> hard_deadline (sc_pending s) now" and e: "select_next now s = (r, s')"
  shows "\<exists>x. r = Some x \<and>
    (command_class x = c \<or> queue_of c (sc_pending s') \<noteq> [] \<and> turns_left c s' < turns_left c s)"
proof (cases "cq_safety (sc_pending s) \<noteq> [] \<and>
     (sc_safety_burst s < SAFETY_BURST_LIMIT \<or> hard_deadline (sc_pending s) now \<or> non_safety_empty (sc_pending s))")
  case True
  have "\<not> non_safety_empty (sc_pending s)" using c by (auto simp: non_safety_empty_iff)
  with True h have b: "sc_safety_burst s < SAFETY_BURST_LIMIT" by blast
  from True obtain x q where q: "queues_earliest SafetyOneShot (sc_pending s) = (Some x, q)"
    and "select_next now s = (Some x, s\<lparr>sc_safety_burst := sc_safety_burst s + 1, sc_pending := q\<rparr>)"
    using select_next_safety [of s now] by blast
  with e queues_earliest_Some(5) [OF q c(1)] b c show ?thesis
    by (auto simp: turns_left_def)
next
  case False
  then have w: "wrr_select 11 s = (r, s')" using select_next_other e by metis
  have "slot_distance c (sc_wrr_index s) < 11" using slot_distance_le [OF c(1), of "sc_wrr_index s"] by simp
  with wrr_select_serves [OF w _ _ c] assms(1) obtain x where
    "r = Some x" "sc_safety_burst s' = 0"
    "command_class x = c \<or> queue_of c (sc_pending s') = queue_of c (sc_pending s) \<and>
       slot_distance c (sc_wrr_index s') < slot_distance c (sc_wrr_index s)"
    unfolding scheduler_wf_def by blast
  then show ?thesis using c(2) by (auto simp: turns_left_def SAFETY_BURST_LIMIT_def)
qed

lemma scheduler_rounds_serve:
  assumes "scheduler_wf s" and "c \<noteq> SafetyOneShot" and "queue_of c (sc_pending s) \<noteq> []"
    and "\<forall>x \<in> set (queue_of SafetyOneShot (sc_pending s)). limit < command_deadline x"
    and "\<forall>(arrivals, now) \<in> set rounds. now + from_millis 5 \<le> limit \<and>
      (\<forall>x \<in> set arrivals. command_class x = SafetyOneShot \<longrightarrow> limit < command_deadline x)"
    and "turns_left c s < length rounds"
  shows "\<exists>x. Some x \<in> set (fst (scheduler_rounds rounds s)) \<and> command_class x = c"
  using assms
proof (induction rounds arbitrary: s)
  case (Cons r rounds)
  obtain arrivals now where r: "r = (arrivals, now)" by fastforce
  define t where "t = s\<lparr>sc_pending := snd (push_all arrivals (sc_pending s))\<rparr>"
  have typed: "queues_typed (sc_pending s)" using Cons.prems(1) by (simp add: scheduler_wf_def)
  have wf: "scheduler_wf t"
    using Cons.prems(1) by (simp add: t_def scheduler_wf_def push_all_typed push_all_bounded)
  have ne: "queue_of c (sc_pending t) \<noteq> []"
    using push_all_keeps [of c "sc_pending s" arrivals] Cons.prems(3) by (auto simp: t_def)
  have safe: "\<forall>x \<in> set (queue_of SafetyOneShot (sc_pending t)). limit < command_deadline x"
    using push_all_adds [OF typed, of SafetyOneShot arrivals] Cons.prems(4,5) r by (auto simp: t_def)
  have hard: "\<not> hard_deadline (sc_pending t) now"
    using safe Cons.prems(5) r by (fastforce simp: hard_deadline_def list_ex_iff cq_safety_queue_of)
  obtain x1 s1 where s1: "select_next now t = (x1, s1)" by fastforce
  obtain xs s2 where s2: "scheduler_rounds rounds s1 = (xs, s2)" by fastforce
  have run: "fst (scheduler_rounds (r # rounds) s) = x1 # xs"
    using s1 s2 by (simp add: scheduler_round_def r t_def)
  from select_next_progress [OF wf Cons.prems(2) ne hard s1] obtain x where x: "x1 = Some x"
    and p: "command_class x = c \<or> queue_of c (sc_pending s1) \<noteq> [] \<and> turns_left c s1 < turns_left c t"
    by blast
  show ?case
  proof (cases "command_class x = c")
    case True
    with x run show ?thesis by auto
  next
    case False
    have "set (queue_of SafetyOneShot (sc_pending s1)) \<subseteq> set (queue_of SafetyOneShot (sc_pending t))"
      using select_next_cases [OF s1] wf x queues_earliest_Some(4) [of _ "sc_pending t" x "sc_pending s1"]
      by (auto simp: scheduler_wf_def)
    with safe have "\<forall>x \<in> set (queue_of SafetyOneShot (sc_pending s1)). limit < command_deadline x" by blast
    moreover have "turns_left c s1 < length rounds"
      using p False Cons.prems(6) by (simp add: turns_left_def t_def)
    ultimately show ?thesis
      using Cons.IH [OF select_next_wf [OF wf s1] Cons.prems(2)] p False Cons.prems(5) s2 run by auto
  qed
qed simp

end
