(* ===== verification/Bus_Actor.thy ===== *)
theory Bus_Actor
  imports Bus_Scheduler Ports
begin

text \<open>
  The actor of \<open>lantern-transport/src/bus_actor.rs\<close>: its statistics, the handle by which clients
  queue requests, the loop that drains the channels, selects a command, waits for the silent
  interval of Modbus RTU and talks to the backend, with its retries of reads and its shutdown.
  Clock and backend are functions of a world (\<open>bus_adapters\<close>); every call of them is recorded in
  the trace of \<open>Ports\<close>, which no definition reads, with \<open>EvRead\<close> and \<open>EvWrite\<close> for the calls
  of the backend. Counters are words of their width; the code, built with overflow checks, would
  panic where the model wraps, after \<open>2 ^ 64\<close> events. An instant that leaves the range of the
  clock in \<open>now + 5 ms\<close> is not modelled.
\<close>

subsection \<open>Timing\<close>

record bus_actor_config =
  bac_link :: link_settings
  bac_profile_minimum_inter_frame_delay :: duration

definition protocol_t35 :: "link_settings \<Rightarrow> duration" where
  "protocol_t35 l =
     (if unat (ls_baud_rate l) > 19200 then from_micros 1750
      else
        let parity_bits = (if ls_parity l = NoParity then 0 else 1);
            data_bits = (case ls_data_bits l of Seven \<Rightarrow> 7 | Eight \<Rightarrow> 8);
            stop_bits = (case ls_stop_bits l of One \<Rightarrow> 1 | Two \<Rightarrow> 2);
            bits_per_character = 1 + data_bits + parity_bits + stop_bits;
            numerator = bits_per_character * 35 * 1000000;
            denominator = unat (ls_baud_rate l) * 10
        in from_micros (div_ceil numerator denominator))"

definition config_t35 :: "bus_actor_config \<Rightarrow> duration" where
  "config_t35 c = max (bac_profile_minimum_inter_frame_delay c) (protocol_t35 (bac_link c))"

subsection \<open>Statistics\<close>

record bus_statistics =
  bst_started_at :: instant
  bst_reads_started :: u64
  bst_writes_started :: u64
  bst_class_started :: "u64 list"
  bst_function_started :: "u64 list"
  bst_successful_transactions :: u64
  bst_failed_transactions :: u64
  bst_read_retries :: u64
  bst_write_retries :: u64
  bst_timeout_before_send :: u64
  bst_queue_full :: u64
  bst_safety_bursts :: u64
  bst_t35_delay :: duration
  bst_busy_time :: duration
  bst_queue_depths :: "nat list"
  bst_recent_queue_wait_micros :: "u64 list"
  bst_recent_round_trip_micros :: "u64 list"
  bst_last_error :: "bus_error option"

definition bus_statistics_new :: "instant \<Rightarrow> bus_statistics" where
  "bus_statistics_new started_at =
     \<lparr>bst_started_at = started_at, bst_reads_started = 0, bst_writes_started = 0,
      bst_class_started = replicate 5 0, bst_function_started = replicate 4 0,
      bst_successful_transactions = 0, bst_failed_transactions = 0, bst_read_retries = 0,
      bst_write_retries = 0, bst_timeout_before_send = 0, bst_queue_full = 0, bst_safety_bursts = 0,
      bst_t35_delay = 0, bst_busy_time = 0, bst_queue_depths = replicate 5 0,
      bst_recent_queue_wait_micros = [], bst_recent_round_trip_micros = [], bst_last_error = None\<rparr>"

definition as_micros :: "duration \<Rightarrow> nat" where "as_micros d = d div 1000"

definition U64_MAX :: nat where "U64_MAX = 2 ^ 64 - 1"

definition micros_u64 :: "duration \<Rightarrow> u64" where "micros_u64 d = of_nat (min (as_micros d) U64_MAX)"

definition RECENT_LATENCY_LIMIT :: nat where "RECENT_LATENCY_LIMIT = 256"

definition push_bounded :: "u64 list \<Rightarrow> u64 \<Rightarrow> u64 list" where
  "push_bounded values v = (if length values = RECENT_LATENCY_LIMIT then tl values else values) @ [v]"

definition percentile :: "u64 list \<Rightarrow> nat \<Rightarrow> u64 option" where
  "percentile values percent =
     (if values = [] then None
      else
        let sorted = sort values;
            index = (length sorted - 1) * percent div 100
        in if index < length sorted then Some (sorted ! index) else None)"

definition class_index :: "request_class \<Rightarrow> nat" where
  "class_index c = (case c of SafetyOneShot \<Rightarrow> 0 | Interactive \<Rightarrow> 1 | TelemetryCritical \<Rightarrow> 2 | Telemetry \<Rightarrow> 3
     | Background \<Rightarrow> 4)"

definition function_index :: "modbus_function \<Rightarrow> nat" where
  "function_index f = (case f of ReadHoldingRegisters \<Rightarrow> 0 | ReadInputRegisters \<Rightarrow> 1 | WriteSingleRegister \<Rightarrow> 2
     | WriteMultipleRegisters \<Rightarrow> 3)"

text \<open>
  \<open>checked_duration_since\<close> with zero for a reading before the earlier one; the multiplication by
  a million saturates at 128 bits, which a duration cannot reach.
\<close>

definition duration_since :: "instant \<Rightarrow> instant \<Rightarrow> duration" where
  "duration_since later earlier = later - earlier"

definition utilization_ppm :: "instant \<Rightarrow> bus_statistics \<Rightarrow> nat" where
  "utilization_ppm now s =
     (let elapsed = as_micros (duration_since now (bst_started_at s)) in
      min (if elapsed = 0 then 0
           else min (as_micros (bst_busy_time s) * 1000000) (2 ^ 128 - 1) div elapsed) 1000000)"

definition statistics_snapshot :: "instant \<Rightarrow> bus_statistics \<Rightarrow> bus_statistics_snapshot" where
  "statistics_snapshot now s =
     \<lparr>bss_reads_started = bst_reads_started s, bss_writes_started = bst_writes_started s,
      bss_class_started = bst_class_started s, bss_function_started = bst_function_started s,
      bss_successful_transactions = bst_successful_transactions s,
      bss_failed_transactions = bst_failed_transactions s,
      bss_read_retries = bst_read_retries s, bss_write_retries = bst_write_retries s,
      bss_timeout_before_send = bst_timeout_before_send s, bss_queue_full = bst_queue_full s,
      bss_safety_bursts = bst_safety_bursts s, bss_t35_delay = bst_t35_delay s,
      bss_busy_time = bst_busy_time s, bss_utilization_ppm = of_nat (utilization_ppm now s),
      bss_queue_depths = bst_queue_depths s,
      bss_queue_wait_p50_micros = percentile (bst_recent_queue_wait_micros s) 50,
      bss_queue_wait_p95_micros = percentile (bst_recent_queue_wait_micros s) 95,
      bss_queue_wait_p99_micros = percentile (bst_recent_queue_wait_micros s) 99,
      bss_round_trip_p50_micros = percentile (bst_recent_round_trip_micros s) 50,
      bss_round_trip_p95_micros = percentile (bst_recent_round_trip_micros s) 95,
      bss_round_trip_p99_micros = percentile (bst_recent_round_trip_micros s) 99,
      bss_last_error = bst_last_error s\<rparr>"

definition update_depths :: "class_queues \<Rightarrow> bus_statistics \<Rightarrow> bus_statistics" where
  "update_depths q s = s\<lparr>bst_queue_depths := map (\<lambda>c. queue_depth c q) all_classes\<rparr>"

definition record_dispatch :: "request_class \<Rightarrow> modbus_function \<Rightarrow> bus_statistics \<Rightarrow> bus_statistics" where
  "record_dispatch c f s =
     s\<lparr>bst_class_started := (bst_class_started s)[class_index c := bst_class_started s ! class_index c + 1],
       bst_function_started :=
         (bst_function_started s)[function_index f := bst_function_started s ! function_index f + 1]\<rparr>"

definition record_queue_wait :: "duration \<Rightarrow> bus_statistics \<Rightarrow> bus_statistics" where
  "record_queue_wait d s =
     s\<lparr>bst_recent_queue_wait_micros := push_bounded (bst_recent_queue_wait_micros s) (micros_u64 d)\<rparr>"

definition record_latency :: "duration \<Rightarrow> bus_statistics \<Rightarrow> bus_statistics" where
  "record_latency d s =
     s\<lparr>bst_busy_time := bst_busy_time s + d,
       bst_recent_round_trip_micros := push_bounded (bst_recent_round_trip_micros s) (micros_u64 d)\<rparr>"

definition record_outcome :: "bus_error + 'a \<Rightarrow> bus_statistics \<Rightarrow> bus_statistics" where
  "record_outcome r s =
     (case r of
        Inr _ \<Rightarrow> s\<lparr>bst_successful_transactions := bst_successful_transactions s + 1\<rparr>
      | Inl e \<Rightarrow> s\<lparr>bst_failed_transactions := bst_failed_transactions s + 1, bst_last_error := Some e\<rparr>)"

subsection \<open>State\<close>

record 'w bus_adapters =
  bad_now :: "'w \<Rightarrow> instant \<times> 'w"
  bad_sleep :: "duration \<Rightarrow> 'w \<Rightarrow> unit \<times> 'w"
  bad_read :: "read_bus_request \<Rightarrow> 'w \<Rightarrow> (bus_error + raw_registers) \<times> 'w"
  bad_write :: "prepared_bus_write \<Rightarrow> 'w \<Rightarrow> (bus_error + unit) \<times> 'w"

text \<open>
  The channels' contents (\<open>ba_receivers\<close>), the local variables of \<open>run_actor\<close>, the shared
  statistics and cancellation token, and what has been answered. \<open>ba_next_reply\<close> numbers the reply
  channels of accepted requests.
\<close>

record ('w, 'd) bus_actor = "('w, 'd) actor" +
  ba_receivers :: class_queues
  ba_scheduler :: scheduler
  ba_last_transmission_end :: "instant option"
  ba_statistics :: bus_statistics
  ba_cancelled :: bool
  ba_running :: bool
  ba_replies :: "(reply_id \<times> bus_reply) list"
  ba_next_reply :: reply_id

type_synonym ('w, 'd, 'r) bus_monad = "(('w, 'd) bus_actor, 'r) state"

definition bus_actor_spawn :: "'w bus_adapters \<Rightarrow> 'w \<Rightarrow> ('w, 'd) bus_actor" where
  "bus_actor_spawn A w =
     (case bad_now A w of (now, w') \<Rightarrow>
       \<lparr>ac_world = w', ac_trace = [EvNow now], ba_receivers = empty_queues,
        ba_scheduler = \<lparr>sc_pending = empty_queues, sc_safety_burst = 0, sc_wrr_index = 0\<rparr>,
        ba_last_transmission_end = None, ba_statistics = bus_statistics_new now, ba_cancelled = False,
        ba_running = True, ba_replies = [], ba_next_reply = 0\<rparr>)"

definition bus_now :: "'w bus_adapters \<Rightarrow> ('w, 'd, instant) bus_monad" where
  "bus_now A = call (bad_now A) EvNow"

definition bus_sleep :: "'w bus_adapters \<Rightarrow> duration \<Rightarrow> ('w, 'd, unit) bus_monad" where
  "bus_sleep A d = call (bad_sleep A d) (\<lambda>_. EvSleep d)"

definition backend_read ::
  "'w bus_adapters \<Rightarrow> read_bus_request \<Rightarrow> ('w, 'd, bus_error + raw_registers) bus_monad" where
  "backend_read A r = call (bad_read A r) (EvRead r)"

definition backend_write :: "'w bus_adapters \<Rightarrow> prepared_bus_write \<Rightarrow> ('w, 'd, bus_error + unit) bus_monad" where
  "backend_write A w = call (bad_write A w) (EvWrite w)"

definition update_stats :: "(bus_statistics \<Rightarrow> bus_statistics) \<Rightarrow> ('w, 'd, unit) bus_monad" where
  "update_stats f = State (\<lambda>s. ((), s\<lparr>ba_statistics := f (ba_statistics s)\<rparr>))"

definition send_replies :: "(reply_id \<times> bus_reply) list \<Rightarrow> ('w, 'd, unit) bus_monad" where
  "send_replies rs = State (\<lambda>s. ((), s\<lparr>ba_replies := ba_replies s @ rs\<rparr>))"

subsection \<open>The handle\<close>

text \<open>
  \<open>try_send\<close> on the channel of the request's class: refused when it is full, or when the actor has
  ended. An accepted request is answered later, on the reply channel whose number is returned.
\<close>

definition try_send :: "request_class \<Rightarrow> (reply_id \<Rightarrow> bus_command) \<Rightarrow> ('w, 'd, bus_error + reply_id) bus_monad" where
  "try_send c mk = State (\<lambda>s.
     if \<not> ba_running s then (Err BusShutdown, s)
     else if capacity c \<le> queue_depth c (ba_receivers s)
     then (Err QueueFull,
           s\<lparr>ba_statistics := (ba_statistics s)\<lparr>bst_queue_full := bst_queue_full (ba_statistics s) + 1\<rparr>\<rparr>)
     else (Ok (ba_next_reply s),
           s\<lparr>ba_receivers := set_queue c (queue_of c (ba_receivers s) @ [mk (ba_next_reply s)]) (ba_receivers s),
             ba_next_reply := ba_next_reply s + 1\<rparr>))"

definition handle_read :: "'w bus_adapters \<Rightarrow> read_bus_request \<Rightarrow> ('w, 'd, bus_error + reply_id) bus_monad" where
  "handle_read A request =
     (case read_request_validate request of
        Inl e \<Rightarrow> State_Monad.return (Err e)
      | Inr _ \<Rightarrow> do {
          queued_at \<leftarrow> bus_now A;
          try_send (brc_class (rbr_context request)) (\<lambda>reply. ReadCommand request reply queued_at)
        })"

definition handle_execute :: "'w bus_adapters \<Rightarrow> prepared_bus_write \<Rightarrow> ('w, 'd, bus_error + reply_id) bus_monad" where
  "handle_execute A request = do {
     queued_at \<leftarrow> bus_now A;
     try_send (brc_class (pbw_context request)) (\<lambda>reply. WriteCommand request reply queued_at)
   }"

definition handle_statistics :: "'w bus_adapters \<Rightarrow> ('w, 'd, bus_statistics_snapshot) bus_monad" where
  "handle_statistics A = do {
     now \<leftarrow> bus_now A;
     State (\<lambda>s. (statistics_snapshot now (ba_statistics s), s))
   }"

definition handle_shutdown :: "('w, 'd, unit) bus_monad" where
  "handle_shutdown = State (\<lambda>s. ((), s\<lparr>ba_cancelled := True\<rparr>))"

subsection \<open>The loop\<close>

definition drain_receivers :: "('w, 'd, unit) bus_monad" where
  "drain_receivers = State (\<lambda>s.
     case push_all (in_class_order (ba_receivers s)) (sc_pending (ba_scheduler s)) of
       (rs, q) \<Rightarrow> ((), s\<lparr>ba_receivers := empty_queues, ba_scheduler := (ba_scheduler s)\<lparr>sc_pending := q\<rparr>,
                        ba_replies := ba_replies s @ rs\<rparr>))"

text \<open>\<open>pop\<close> takes the commands of a vector from its end.\<close>

definition reject_all :: "bus_error \<Rightarrow> ('w, 'd, unit) bus_monad" where
  "reject_all e = State (\<lambda>s.
     ((), s\<lparr>ba_replies := ba_replies s @
              map (\<lambda>x. command_finish x e)
                (concat (map (\<lambda>c. rev (queue_of c (sc_pending (ba_scheduler s)))) all_classes)),
            ba_scheduler := (ba_scheduler s)\<lparr>sc_pending := empty_queues\<rparr>\<rparr>))"

definition drain_and_reject :: "bus_error \<Rightarrow> ('w, 'd, unit) bus_monad" where
  "drain_and_reject e = State (\<lambda>s.
     ((), s\<lparr>ba_replies := ba_replies s @
              map (\<lambda>x. command_finish x e) (in_class_order (ba_receivers s)),
            ba_receivers := empty_queues\<rparr>))"

text \<open>A branch of \<open>select!\<close> over the receivers: the next message of a channel, if there is one.\<close>

definition receive_one :: "request_class \<Rightarrow> ('w, 'd, unit) bus_monad" where
  "receive_one c = State (\<lambda>s.
     case queue_of c (ba_receivers s) of
       [] \<Rightarrow> ((), s)
     | x # xs \<Rightarrow>
         (case queues_push x (sc_pending (ba_scheduler s)) of
            (rs, q) \<Rightarrow> ((), s\<lparr>ba_receivers := set_queue c xs (ba_receivers s),
                             ba_scheduler := (ba_scheduler s)\<lparr>sc_pending := q\<rparr>,
                             ba_replies := ba_replies s @ rs\<rparr>)))"

definition enforce_t35 :: "'w bus_adapters \<Rightarrow> duration \<Rightarrow> ('w, 'd, unit) bus_monad" where
  "enforce_t35 A delay = do {
     s \<leftarrow> State_Monad.get;
     (case ba_last_transmission_end s of
        None \<Rightarrow> State_Monad.return ()
      | Some last_end \<Rightarrow> do {
          now \<leftarrow> bus_now A;
          let elapsed = duration_since now last_end;
          if elapsed < delay then do {
            _ \<leftarrow> bus_sleep A (delay - elapsed);
            update_stats (\<lambda>t. t\<lparr>bst_t35_delay := bst_t35_delay t + (delay - elapsed)\<rparr>)
          } else State_Monad.return ()
        })
   }"

function execute_read_loop ::
  "'w bus_adapters \<Rightarrow> read_bus_request \<Rightarrow> duration \<Rightarrow> nat \<Rightarrow> ('w, 'd, bus_error + raw_registers) bus_monad" where
  "execute_read_loop A request retry_delay retries = do {
     r \<leftarrow> backend_read A request;
     (case r of
        Inr v \<Rightarrow> State_Monad.return (Ok v)
      | Inl e \<Rightarrow>
          if is_transient_read_error e \<and> retries < 2 then do {
            now \<leftarrow> bus_now A;
            (case instant_checked_add now retry_delay of
               None \<Rightarrow> State_Monad.return (Err e)
             | Some retry_at \<Rightarrow>
                 if retry_at \<ge> brc_deadline (rbr_context request) then State_Monad.return (Err e)
                 else do {
                   _ \<leftarrow> update_stats (\<lambda>t. t\<lparr>bst_t35_delay := bst_t35_delay t + retry_delay\<rparr>);
                   _ \<leftarrow> bus_sleep A retry_delay;
                   checked \<leftarrow> bus_now A;
                   if brc_deadline (rbr_context request) \<le> checked then State_Monad.return (Err e)
                   else do {
                     _ \<leftarrow> update_stats (\<lambda>t. t\<lparr>bst_read_retries := bst_read_retries t + 1\<rparr>);
                     execute_read_loop A request retry_delay (retries + 1)
                   }
                 })
          } else State_Monad.return (Err e))
   }"
  by pat_completeness auto
termination by (relation "measure (\<lambda>(A, request, retry_delay, retries). 2 - retries)") auto

declare execute_read_loop.simps [simp del]

definition execute_read ::
  "'w bus_adapters \<Rightarrow> read_bus_request \<Rightarrow> duration \<Rightarrow> ('w, 'd, bus_error + raw_registers) bus_monad" where
  "execute_read A request retry_delay = do {
     _ \<leftarrow> update_stats (\<lambda>t. t\<lparr>bst_reads_started := bst_reads_started t + 1\<rparr>);
     execute_read_loop A request retry_delay 0
   }"

definition write_error :: "bus_error \<Rightarrow> bus_error" where
  "write_error e =
     (case e of ResponseTimeout \<Rightarrow> BusOutcomeUnknown | BusIo _ \<Rightarrow> BusOutcomeUnknown
      | InvalidFrameOrTransport \<Rightarrow> BusOutcomeUnknown | InvalidResponse \<Rightarrow> BusOutcomeUnknown | other \<Rightarrow> other)"

text \<open>What follows a transaction in both arms of the loop, and a command whose deadline is over.\<close>

definition finish_transaction ::
  "'w bus_adapters \<Rightarrow> instant \<Rightarrow> bus_error + 'a \<Rightarrow> reply_id \<times> bus_reply \<Rightarrow> ('w, 'd, unit) bus_monad" where
  "finish_transaction A started result reply = do {
     finished \<leftarrow> bus_now A;
     _ \<leftarrow> State (\<lambda>s. ((), s\<lparr>ba_last_transmission_end := Some finished\<rparr>));
     _ \<leftarrow> update_stats (record_latency (duration_since finished started));
     _ \<leftarrow> update_stats (record_outcome result);
     send_replies [reply]
   }"

definition dispatch_command ::
  "'w bus_adapters \<Rightarrow> bus_actor_config \<Rightarrow> bus_command \<Rightarrow> ('w, 'd, unit) bus_monad" where
  "dispatch_command A config command = do {
     started \<leftarrow> bus_now A;
     (case command of
        ReadCommand request reply _ \<Rightarrow> do {
          result \<leftarrow> execute_read A request (config_t35 config);
          finish_transaction A started result (reply, ReadReply result)
        }
      | WriteCommand request reply _ \<Rightarrow> do {
          _ \<leftarrow> update_stats (\<lambda>t. t\<lparr>bst_writes_started := bst_writes_started t + 1\<rparr>);
          r \<leftarrow> backend_write A request;
          let result = map_err write_error r;
          finish_transaction A started result (reply, WriteReply result)
        })
   }"

definition reject_expired :: "bus_command \<Rightarrow> ('w, 'd, unit) bus_monad" where
  "reject_expired command = do {
     _ \<leftarrow> update_stats (\<lambda>t. t\<lparr>bst_timeout_before_send := bst_timeout_before_send t + 1\<rparr>);
     send_replies [command_finish command TimeoutBeforeSend]
   }"

definition process_command ::
  "'w bus_adapters \<Rightarrow> bus_actor_config \<Rightarrow> bus_command \<Rightarrow> ('w, 'd, unit) bus_monad" where
  "process_command A config command = do {
     now \<leftarrow> bus_now A;
     _ \<leftarrow> update_stats (record_queue_wait (duration_since now (command_queued_at command)));
     checked \<leftarrow> bus_now A;
     if command_deadline command \<le> checked then reject_expired command
     else do {
       s \<leftarrow> State_Monad.get;
       _ \<leftarrow> (if command_class command = SafetyOneShot \<and> sc_safety_burst (ba_scheduler s) = SAFETY_BURST_LIMIT
             then update_stats (\<lambda>t. t\<lparr>bst_safety_bursts := bst_safety_bursts t + 1\<rparr>)
             else State_Monad.return ());
       _ \<leftarrow> enforce_t35 A (config_t35 config);
       checked \<leftarrow> bus_now A;
       if command_deadline command \<le> checked then reject_expired command
       else do {
         _ \<leftarrow> update_stats (record_dispatch (command_class command) (command_function command));
         dispatch_command A config command
       }
     }
   }"

text \<open>
  One turn of the loop, up to its next \<open>continue\<close>; the result says whether the loop goes on.
  \<open>actor_stop\<close> is its branch after a cancellation, \<open>actor_select\<close> what it does with pending
  commands. With nothing pending the turn ends at the \<open>select!\<close>, whose branches are
  \<open>receive_one\<close> and the cancellation.
\<close>

definition actor_stop :: "('w, 'd, bool) bus_monad" where
  "actor_stop = do {
     _ \<leftarrow> reject_all BusShutdown;
     _ \<leftarrow> drain_and_reject BusShutdown;
     State (\<lambda>s. (False, s\<lparr>ba_running := False\<rparr>))
   }"

definition actor_select :: "'w bus_adapters \<Rightarrow> bus_actor_config \<Rightarrow> ('w, 'd, bool) bus_monad" where
  "actor_select A config = do {
     _ \<leftarrow> State (\<lambda>s. ((), s\<lparr>ba_statistics := update_depths (sc_pending (ba_scheduler s)) (ba_statistics s)\<rparr>));
     now \<leftarrow> bus_now A;
     command \<leftarrow> State (\<lambda>s. case select_next now (ba_scheduler s) of
                           (c, sched) \<Rightarrow> (c, s\<lparr>ba_scheduler := sched\<rparr>));
     (case command of
        None \<Rightarrow> State_Monad.return True
      | Some command \<Rightarrow> do {
          _ \<leftarrow> process_command A config command;
          State_Monad.return True
        })
   }"

definition actor_iteration :: "'w bus_adapters \<Rightarrow> bus_actor_config \<Rightarrow> ('w, 'd, bool) bus_monad" where
  "actor_iteration A config = do {
     _ \<leftarrow> drain_receivers;
     s \<leftarrow> State_Monad.get;
     if ba_cancelled s then actor_stop
     else if queues_empty (sc_pending (ba_scheduler s)) then State_Monad.return True
     else actor_select A config
   }"

subsection \<open>Runs\<close>

text \<open>
  Clients, the canceller and the actor's task in any order; the world may change between the turns.
\<close>

inductive bus_step ::
  "'w bus_adapters \<Rightarrow> bus_actor_config \<Rightarrow> ('w, 'd) bus_actor \<Rightarrow> ('w, 'd) bus_actor \<Rightarrow> bool"
  for A config where
    client_reads: "run_state (handle_read A r) s = (x, s') \<Longrightarrow> bus_step A config s s'"
  | client_writes: "run_state (handle_execute A w) s = (x, s') \<Longrightarrow> bus_step A config s s'"
  | client_looks: "run_state (handle_statistics A) s = (y, s') \<Longrightarrow> bus_step A config s s'"
  | client_cancels: "run_state handle_shutdown s = ((), s') \<Longrightarrow> bus_step A config s s'"
  | actor_turns: "ba_running s \<Longrightarrow> run_state (actor_iteration A config) s = (b, s') \<Longrightarrow> bus_step A config s s'"
  | actor_receives: "ba_running s \<Longrightarrow> queues_empty (sc_pending (ba_scheduler s)) \<Longrightarrow>
      run_state (receive_one c) s = ((), s') \<Longrightarrow> bus_step A config s s'"
  | world_changes: "bus_step A config s (s\<lparr>ac_world := v\<rparr>)"

inductive bus_reachable :: "'w bus_adapters \<Rightarrow> bus_actor_config \<Rightarrow> ('w, 'd) bus_actor \<Rightarrow> bool"
  for A config where
    bus_spawned: "bus_reachable A config (bus_actor_spawn A w)"
  | bus_stepped: "bus_reachable A config s \<Longrightarrow> bus_step A config s s' \<Longrightarrow> bus_reachable A config s'"

inductive_cases bus_stepE: "bus_step A config s s'"

end
