(* ===== verification/Bus_Safety.thy ===== *)
theory Bus_Safety
  imports Bus_Actor
begin

text \<open>
  What every run of the bus actor keeps: the queues' invariants, the account of the accepted
  requests, and the silence between transmissions; and what becomes of one dispatched command.
\<close>

subsection \<open>Adapter calls\<close>

lemma wp_bus_calls [wp_simps]:
  "wp (bus_now A) Q s \<longleftrightarrow>
     (case bad_now A (ac_world s) of (t, w) \<Rightarrow> Q t (s\<lparr>ac_world := w, ac_trace := ac_trace s @ [EvNow t]\<rparr>))"
  "wp (bus_sleep A d) Q1 s \<longleftrightarrow>
     (case bad_sleep A d (ac_world s) of (u, w) \<Rightarrow> Q1 u (s\<lparr>ac_world := w, ac_trace := ac_trace s @ [EvSleep d]\<rparr>))"
  "wp (backend_read A r) Q2 s \<longleftrightarrow>
     (case bad_read A r (ac_world s) of (x, w) \<Rightarrow> Q2 x (s\<lparr>ac_world := w, ac_trace := ac_trace s @ [EvRead r x]\<rparr>))"
  "wp (backend_write A p) Q3 s \<longleftrightarrow>
     (case bad_write A p (ac_world s) of (y, w) \<Rightarrow> Q3 y (s\<lparr>ac_world := w, ac_trace := ac_trace s @ [EvWrite p y]\<rparr>))"
  by (simp_all add: wp_def bus_now_def bus_sleep_def backend_read_def backend_write_def call_def case_prod_beta)

lemma wp_bus_updates [wp_simps]:
  "wp (update_stats f) Q s \<longleftrightarrow> Q () (s\<lparr>ba_statistics := f (ba_statistics s)\<rparr>)"
  "wp (send_replies rs) Q s \<longleftrightarrow> Q () (s\<lparr>ba_replies := ba_replies s @ rs\<rparr>)"
  by (simp_all add: wp_def update_stats_def send_replies_def)

text \<open>The part of the state that a transaction leaves alone.\<close>

definition bus_core ::
  "('w, 'd) bus_actor \<Rightarrow> class_queues \<times> scheduler \<times> bool \<times> bool \<times> reply_id" where
  "bus_core s = (ba_receivers s, ba_scheduler s, ba_cancelled s, ba_running s, ba_next_reply s)"

lemma bus_core_simps [simp]:
  "bus_core (s\<lparr>ac_world := w\<rparr>) = bus_core s" "bus_core (s\<lparr>ac_trace := tr\<rparr>) = bus_core s"
  "bus_core (s\<lparr>ba_statistics := st\<rparr>) = bus_core s" "bus_core (s\<lparr>ba_replies := rs\<rparr>) = bus_core s"
  "bus_core (s\<lparr>ba_last_transmission_end := le\<rparr>) = bus_core s"
  by (simp_all add: bus_core_def)

lemma bus_traffic_simps [simp]:
  "\<not> is_bus_traffic (EvNow t)" "\<not> is_bus_traffic (EvSleep d)" "is_bus_traffic (EvRead r x)"
  "is_bus_traffic (EvWrite p y)"
  by (simp_all add: is_bus_traffic_def)

abbreviation bus_traffic :: "'d port_event list \<Rightarrow> 'd port_event list" where
  "bus_traffic es \<equiv> filter is_bus_traffic es"

subsection \<open>The attempts of a read\<close>

text \<open>
  An attempt that is repeated leaves its error, the moment it was seen, the sleep before the next
  attempt and the moment after it.
\<close>

definition retry_events :: "read_bus_request \<Rightarrow> duration \<Rightarrow> bus_error \<times> instant \<times> instant \<Rightarrow> 'd port_event list" where
  "retry_events q d = (\<lambda>(e, failed, checked). [EvRead q (Err e), EvNow failed, EvSleep d, EvNow checked])"

text \<open>
  Why an attempt is the last one, and what is still read after it: it succeeded, failed for good or used
  the last retry; the next attempt would not begin before the deadline; or the deadline had passed
  when it was about to begin.
\<close>

definition last_attempt ::
  "read_bus_request \<Rightarrow> duration \<Rightarrow> bool \<Rightarrow> bus_error + raw_registers \<Rightarrow> 'd port_event list \<Rightarrow> bool" where
  "last_attempt q d exhausted result rest \<longleftrightarrow>
     rest = [] \<and> ((\<exists>v. result = Ok v) \<or> (\<exists>e. result = Err e \<and> \<not> is_transient_read_error e) \<or> exhausted) \<or>
     (\<exists>failed. rest = [EvNow failed] \<and>
        (INSTANT_MAX < failed + d \<or> brc_deadline (rbr_context q) \<le> failed + d)) \<or>
     (\<exists>failed checked. rest = [EvNow failed, EvSleep d, EvNow checked] \<and> brc_deadline (rbr_context q) \<le> checked)"

text \<open>
  The attempts of a read: at most \<open>limit\<close> of them are repeated, each after a transient error, in time
  for the next one to begin before the deadline, and with a look at the clock that confirms it.
\<close>

definition read_attempts ::
  "read_bus_request \<Rightarrow> duration \<Rightarrow> nat \<Rightarrow> 'd port_event list \<Rightarrow> bus_error + raw_registers \<Rightarrow> bool" where
  "read_attempts q d limit es result \<longleftrightarrow>
     (\<exists>retries rest. es = concat (map (retry_events q d) retries) @ EvRead q result # rest \<and>
        length retries \<le> limit \<and> last_attempt q d (length retries = limit) result rest \<and>
        list_all (\<lambda>(e, failed, checked). is_transient_read_error e \<and>
          failed + d < brc_deadline (rbr_context q) \<and> checked < brc_deadline (rbr_context q)) retries)"

lemma read_attempts_one: "last_attempt q d (n = 0) r rest \<Longrightarrow> read_attempts q d n (EvRead q r # rest) r"
  unfolding read_attempts_def by (rule exI [of _ "[]"], rule exI [of _ rest]) auto

lemma read_attempts_more:
  assumes "is_transient_read_error e" and "failed + d < brc_deadline (rbr_context q)"
    and "checked < brc_deadline (rbr_context q)" and "read_attempts q d n es r"
  shows "read_attempts q d (Suc n) (EvRead q (Err e) # EvNow failed # EvSleep d # EvNow checked # es) r"
proof -
  from assms(4) obtain retries rest where "es = concat (map (retry_events q d) retries) @ EvRead q r # rest"
    "length retries \<le> n" "last_attempt q d (length retries = n) r rest"
    "list_all (\<lambda>(e, failed, checked). is_transient_read_error e \<and>
       failed + d < brc_deadline (rbr_context q) \<and> checked < brc_deadline (rbr_context q)) retries"
    unfolding read_attempts_def by blast
  with assms(1-3) show ?thesis
    unfolding read_attempts_def
    by (intro exI [of _ "(e, failed, checked) # retries"] exI [of _ rest]) (simp add: retry_events_def)
qed

lemma execute_read_loop_attempts:
  "retries + k = 2 \<Longrightarrow> wp (execute_read_loop A q d retries)
     (\<lambda>r s'. (\<exists>es. ac_trace s' = ac_trace s @ es \<and> read_attempts q d k es r) \<and>
        bus_core s' = bus_core s \<and> ba_replies s' = ba_replies s) s"
proof (induction k arbitrary: retries s)
  case 0
  then show ?case
    by (subst execute_read_loop.simps)
      (auto simp: wp_simps last_attempt_def intro!: read_attempts_one split: prod.split sum.split option.split)
next
  case (Suc k)
  then have retries: "retries < 2" by simp
  have ends: "read_attempts q d (Suc k) (EvRead q r # rest) r" if "last_attempt q d False r rest" for r and rest :: "'b port_event list"
    using that read_attempts_one [of q d "Suc k" r rest] by simp
  have now: "instant_checked_add n d = None \<Longrightarrow> last_attempt q d False (Err e) [EvNow n]"
    "instant_checked_add n d = Some t \<Longrightarrow> brc_deadline (rbr_context q) \<le> t \<Longrightarrow> last_attempt q d False (Err e) [EvNow n]"
    "brc_deadline (rbr_context q) \<le> m \<Longrightarrow> last_attempt q d False (Err e) [EvNow n, EvSleep d, EvNow m]" for n m t e
    by (auto simp: last_attempt_def instant_checked_add_def split: if_splits)
  have again: "instant_checked_add n d = Some t \<Longrightarrow> \<not> brc_deadline (rbr_context q) \<le> t \<Longrightarrow> n + d < brc_deadline (rbr_context q)" for n t
    by (auto simp: instant_checked_add_def split: if_splits)
  from Suc.prems show ?case
    by (subst execute_read_loop.simps)
      (auto simp: wp_simps retries last_attempt_def [where rest = "[]"] split: prod.split sum.split option.split
        intro!: wp_mono [OF Suc.IH] read_attempts_more ends dest: now again)
qed

lemma finish_transaction_core:
  "wp (finish_transaction A t r p)
     (\<lambda>_ s'. \<exists>n. ac_trace s' = ac_trace s @ [EvNow n] \<and> bus_core s' = bus_core s \<and>
        ba_replies s' = ba_replies s @ [p] \<and> ba_last_transmission_end s' = Some n) s"
  by (auto simp: finish_transaction_def wp_simps split: prod.split)

text \<open>
  What one selected command may do. Its deadline has passed at the last look at the clock, and nothing
  is sent; or it had not at the look before the dispatch, and the command is executed.
\<close>

definition command_outcome :: "duration \<Rightarrow> bus_command \<Rightarrow> 'd port_event list \<Rightarrow> bus_reply \<Rightarrow> bool" where
  "command_outcome d c es reply \<longleftrightarrow>
     (\<exists>pre t. es = pre @ [EvNow t] \<and> bus_traffic pre = [] \<and> command_deadline c \<le> t \<and>
        reply = snd (command_finish c TimeoutBeforeSend)) \<or>
     (\<exists>pre checked started sent finished. es = pre @ [EvNow checked, EvNow started] @ sent @ [EvNow finished] \<and>
        bus_traffic pre = [] \<and> checked < command_deadline c \<and>
        (case c of
           ReadCommand q _ _ \<Rightarrow> \<exists>result. read_attempts q d 2 sent result \<and> reply = ReadReply result
         | WriteCommand w _ _ \<Rightarrow> \<exists>result. sent = [EvWrite w result] \<and> reply = WriteReply (map_err write_error result)))"

lemma enforce_t35_core:
  "wp (enforce_t35 A d)
     (\<lambda>_ s'. (\<exists>es. ac_trace s' = ac_trace s @ es \<and> bus_traffic es = []) \<and> bus_core s' = bus_core s \<and>
        ba_replies s' = ba_replies s) s"
  by (auto simp: enforce_t35_def wp_simps Let_def split: prod.split option.split)

definition command_done :: "duration \<Rightarrow> bus_command \<Rightarrow> ('w, 'd) bus_actor \<Rightarrow> ('w, 'd) bus_actor \<Rightarrow> bool" where
  "command_done d c s s' \<longleftrightarrow>
     (\<exists>es reply. ac_trace s' = ac_trace s @ es \<and> command_outcome d c es reply \<and>
        ba_replies s' = ba_replies s @ [(command_reply c, reply)]) \<and> bus_core s' = bus_core s"

lemma command_doneI:
  "ac_trace s' = ac_trace s @ es \<Longrightarrow> command_outcome d c es reply \<Longrightarrow>
     ba_replies s' = ba_replies s @ [(command_reply c, reply)] \<Longrightarrow> bus_core s' = bus_core s \<Longrightarrow>
     command_done d c s s'"
  unfolding command_done_def by blast

lemma finish_transaction_done:
  assumes "ac_trace t = ac_trace s @ es" and "bus_core t = bus_core s" and "ba_replies t = ba_replies s"
    and "\<And>n. command_outcome d c (es @ [EvNow n]) reply" and "k = command_reply c"
  shows "wp (finish_transaction A n r (k, reply)) (\<lambda>_. command_done d c s) t"
  using assms by (intro wp_mono [OF finish_transaction_core]) (auto intro: command_doneI)

lemma dispatch_command_core:
  assumes t: "ac_trace t = ac_trace s @ pre @ [EvNow checked]" "bus_traffic pre = []" "checked < command_deadline c"
    "bus_core t = bus_core s" "ba_replies t = ba_replies s"
  shows "wp (dispatch_command A config c) (\<lambda>_. command_done (config_t35 config) c s) t"
proof (cases c)
  case (ReadCommand q k u)
  have fin: "wp (finish_transaction A n r (k, ReadReply r)) (\<lambda>_. command_done (config_t35 config) c s) s1"
    if "ac_trace s1 = ac_trace t @ EvNow n # es" "read_attempts q (config_t35 config) 2 es r" "bus_core s1 = bus_core t"
      "ba_replies s1 = ba_replies t" for n r es s1
  proof (rule finish_transaction_done [where es = "pre @ [EvNow checked, EvNow n] @ es"])
    show "command_outcome (config_t35 config) c ((pre @ [EvNow checked, EvNow n] @ es) @ [EvNow m]) (ReadReply r)" for m
      unfolding command_outcome_def using t(2,3) that(2)
      by (intro disjI2 exI [of _ pre] exI [of _ checked] exI [of _ n] exI [of _ es] exI [of _ m]) (auto simp: ReadCommand)
  qed (use that t in \<open>simp_all add: command_reply_def ReadCommand\<close>)
  show ?thesis
    unfolding dispatch_command_def ReadCommand
    by (auto simp: wp_simps execute_read_def split: prod.split
        intro!: wp_mono [OF execute_read_loop_attempts [of 0 2]] intro: fin [unfolded ReadCommand])
next
  case (WriteCommand w k u)
  have fin: "wp (finish_transaction A n (map_err write_error r) (k, WriteReply (map_err write_error r)))
      (\<lambda>_. command_done (config_t35 config) c s) s1"
    if "ac_trace s1 = ac_trace t @ [EvNow n, EvWrite w r]" "bus_core s1 = bus_core t" "ba_replies s1 = ba_replies t" for n r s1
  proof (rule finish_transaction_done [where es = "pre @ [EvNow checked, EvNow n] @ [EvWrite w r]"])
    show "command_outcome (config_t35 config) c ((pre @ [EvNow checked, EvNow n] @ [EvWrite w r]) @ [EvNow m])
        (WriteReply (map_err write_error r))" for m
      unfolding command_outcome_def using t(2,3)
      by (intro disjI2 exI [of _ pre] exI [of _ checked] exI [of _ n] exI [of _ "[EvWrite w r]"] exI [of _ m])
        (auto simp: WriteCommand)
  qed (use that t in \<open>simp_all add: command_reply_def WriteCommand\<close>)
  show ?thesis
    unfolding dispatch_command_def WriteCommand
    by (auto simp: wp_simps Let_def split: prod.split intro!: fin [unfolded WriteCommand])
qed

lemma reject_expired_done:
  assumes "ac_trace t = ac_trace s @ pre @ [EvNow n]" "bus_traffic pre = []" "command_deadline c \<le> n"
    "bus_core t = bus_core s" "ba_replies t = ba_replies s"
  shows "wp (reject_expired c) (\<lambda>_. command_done d c s) t"
  using assms
  by (cases c) (auto simp: reject_expired_def wp_simps command_outcome_def command_finish_def
      command_reply_def intro!: command_doneI [of _ _ "pre @ [EvNow n]"])

lemma process_command_done: "wp (process_command A config c) (\<lambda>_. command_done (config_t35 config) c s) s"
proof -
  let ?done = "command_done (config_t35 config) c s"
  let ?checked = "\<lambda>n. if command_deadline c \<le> n then reject_expired c
    else State_Monad.bind (update_stats (record_dispatch (command_class c) (command_function c)))
      (\<lambda>_. dispatch_command A config c)"
  have late: "wp (reject_expired c) (\<lambda>_. ?done) t"
    if "ac_trace t = ac_trace s @ [EvNow m, EvNow n]" "command_deadline c \<le> n"
      "bus_core t = bus_core s" "ba_replies t = ba_replies s" for t m n
    using that by (intro reject_expired_done [where pre = "[EvNow m]"]) simp_all
  have enforced: "wp (enforce_t35 A (config_t35 config)) (\<lambda>_. wp (State_Monad.bind (bus_now A) ?checked) (\<lambda>_. ?done)) t"
    if t: "ac_trace t = ac_trace s @ [EvNow k, EvNow m]" "bus_core t = bus_core s" "ba_replies t = ba_replies s"
    for t k m
  proof (rule wp_mono [OF enforce_t35_core], elim conjE exE)
    fix s1 :: "('a, 'b) bus_actor" and fs
    assume s1: "ac_trace s1 = ac_trace t @ fs" "bus_traffic fs = []" "bus_core s1 = bus_core t" "ba_replies s1 = ba_replies t"
    obtain n w where now: "bad_now A (ac_world s1) = (n, w)" by fastforce
    let ?pre = "[EvNow k, EvNow m] @ fs"
    show "wp (State_Monad.bind (bus_now A) ?checked) (\<lambda>_. ?done) s1"
      using t s1
      by (auto simp: wp_simps now intro!: reject_expired_done [where pre = ?pre and n = n]
          dispatch_command_core [where pre = ?pre and checked = n])
  qed
  show ?thesis
    unfolding process_command_def
    by (auto simp: wp_simps(1-2) wp_bind wp_simps split: prod.split intro!: late enforced)
qed

subsection \<open>The account of the accepted requests\<close>

text \<open>
  Every accepted request is either still waiting, in a channel or pending, or has been answered
  exactly once.
\<close>

definition bus_waiting :: "('w, 'd) bus_actor \<Rightarrow> bus_command multiset" where
  "bus_waiting s = queues_mset (ba_receivers s) + queues_mset (sc_pending (ba_scheduler s))"

definition bus_accounted :: "('w, 'd) bus_actor \<Rightarrow> bool" where
  "bus_accounted s \<longleftrightarrow>
     mset (map fst (ba_replies s)) + image_mset command_reply (bus_waiting s) = mset [0..<ba_next_reply s]"

definition bus_wf :: "('w, 'd) bus_actor \<Rightarrow> bool" where
  "bus_wf s \<longleftrightarrow>
     scheduler_wf (ba_scheduler s) \<and> queues_typed (ba_receivers s) \<and>
     (\<forall>c. queue_depth c (ba_receivers s) \<le> capacity c) \<and> bus_accounted s \<and>
     (ba_running s \<or> bus_waiting s = {#})"

lemma push_all_mset:
  "push_all cs q = (rs, q') \<Longrightarrow>
     mset (map fst rs) + image_mset command_reply (queues_mset q') =
     image_mset command_reply (queues_mset q + mset cs)"
proof (induction cs arbitrary: q rs q')
  case (Cons c cs)
  obtain r q1 where q1: "queues_push c q = (r, q1)" by fastforce
  obtain rs' where rs: "push_all cs q1 = (rs', q')" "rs = r @ rs'"
    using Cons.prems q1 by (auto split: prod.splits)
  show ?case
    using queues_push_mset [OF q1] Cons.IH [OF rs(1)] rs(2) by (auto simp: ac_simps)
qed simp

lemma mset_in_class_order [simp]: "mset (in_class_order q) = queues_mset q"
  by (simp add: in_class_order_def queues_mset_def queue_of_def ac_simps)

lemma mset_rev_class_order:
  "mset (concat (map (\<lambda>c. rev (queue_of c q)) all_classes)) = queues_mset q"
  by (simp add: queues_mset_def queue_of_def ac_simps)

lemma map_fst_finish [simp]: "map fst (map (\<lambda>x. command_finish x e) xs) = map command_reply xs"
  by simp

lemma queues_typed_empty [simp]: "queues_typed empty_queues"
  by (simp add: queues_typed_def)

lemma scheduler_wf_pending:
  "scheduler_wf s \<Longrightarrow> queues_typed q \<Longrightarrow> safety_bounded q \<Longrightarrow> scheduler_wf (s\<lparr>sc_pending := q\<rparr>)"
  by (simp add: scheduler_wf_def)

lemma bus_wf_cong:
  "bus_core s' = bus_core s \<Longrightarrow> ba_replies s' = ba_replies s \<Longrightarrow> bus_wf s' = bus_wf s"
  by (simp add: bus_core_def bus_wf_def bus_accounted_def bus_waiting_def)

lemma bus_wf_calls [simp]:
  "bus_wf (s\<lparr>ac_world := w\<rparr>) = bus_wf s" "bus_wf (s\<lparr>ac_trace := tr\<rparr>) = bus_wf s"
  by (rule bus_wf_cong; simp)+

lemma spawn_wf: "bus_wf (bus_actor_spawn A w)"
  by (simp add: bus_actor_spawn_def bus_wf_def scheduler_wf_def safety_bounded_def bus_accounted_def
      bus_waiting_def queue_depth_def SAFETY_OPERATION_LIMIT_def split: prod.split)

lemma bus_accounted_move:
  assumes "bus_accounted s" and "ba_next_reply s' = ba_next_reply s"
    and "mset (map fst (ba_replies s')) + image_mset command_reply (bus_waiting s') =
      mset (map fst (ba_replies s)) + image_mset command_reply (bus_waiting s)"
  shows "bus_accounted s'"
  using assms by (simp add: bus_accounted_def)

lemma try_send_wf:
  assumes "bus_wf s" and "\<And>k. command_class (mk k) = c" and "\<And>k. command_reply (mk k) = k"
  shows "bus_wf (snd (run_state (try_send c mk) s))"
proof (cases "ba_running s \<and> queue_depth c (ba_receivers s) < capacity c")
  case True
  define q where "q = set_queue c (queue_of c (ba_receivers s) @ [mk (ba_next_reply s)]) (ba_receivers s)"
  have "queues_mset q = add_mset (mk (ba_next_reply s)) (queues_mset (ba_receivers s))"
    using queues_mset_set_queue [of c "queue_of c (ba_receivers s) @ [mk (ba_next_reply s)]" "ba_receivers s"]
    by (simp add: q_def)
  moreover have "queues_typed q" "\<forall>k. queue_depth k q \<le> capacity k"
    using assms True by (auto simp: q_def queues_typed_def bus_wf_def queue_depth_def)
  ultimately show ?thesis
    using assms True by (simp add: try_send_def bus_wf_def bus_accounted_def bus_waiting_def flip: q_def)
next
  case False
  then show ?thesis
    using assms(1) by (auto simp: try_send_def bus_wf_def bus_accounted_def bus_waiting_def)
qed

lemma drain_receivers_wf:
  assumes "bus_wf s" and "ba_running s"
  shows "wp drain_receivers (\<lambda>_ s'. bus_wf s' \<and> ba_receivers s' = empty_queues \<and>
    ac_trace s' = ac_trace s \<and> ba_running s' \<and> ba_last_transmission_end s' = ba_last_transmission_end s) s"
proof -
  obtain rs q where q: "push_all (in_class_order (ba_receivers s)) (sc_pending (ba_scheduler s)) = (rs, q)"
    by fastforce
  have "queues_typed q" "safety_bounded q"
    using assms(1) q push_all_typed [of "sc_pending (ba_scheduler s)" "in_class_order (ba_receivers s)"]
      push_all_bounded [of "sc_pending (ba_scheduler s)" "in_class_order (ba_receivers s)"]
    by (auto simp: bus_wf_def scheduler_wf_def)
  moreover have "bus_accounted (s\<lparr>ba_receivers := empty_queues,
      ba_scheduler := (ba_scheduler s)\<lparr>sc_pending := q\<rparr>, ba_replies := ba_replies s @ rs\<rparr>)"
    by (rule bus_accounted_move [of s])
      (use assms push_all_mset [OF q] in \<open>simp_all add: bus_wf_def bus_waiting_def ac_simps\<close>)
  ultimately show ?thesis
    using assms by (simp add: drain_receivers_def wp_simps q bus_wf_def queue_depth_def scheduler_wf_pending)
qed

lemma receive_one_wf:
  assumes "bus_wf s" and "ba_running s"
  shows "bus_wf (snd (run_state (receive_one c) s))"
proof (cases "queue_of c (ba_receivers s)")
  case Nil
  with assms show ?thesis by (simp add: receive_one_def)
next
  case (Cons x xs)
  obtain rs q where q: "queues_push x (sc_pending (ba_scheduler s)) = (rs, q)" by fastforce
  define t where "t = s\<lparr>ba_receivers := set_queue c xs (ba_receivers s),
      ba_scheduler := (ba_scheduler s)\<lparr>sc_pending := q\<rparr>, ba_replies := ba_replies s @ rs\<rparr>"
  have "queues_typed q" "safety_bounded q"
    using assms(1) q queues_push_typed [of "sc_pending (ba_scheduler s)" x]
      queues_push_bounded [of "sc_pending (ba_scheduler s)" x]
    by (auto simp: bus_wf_def scheduler_wf_def)
  then have "scheduler_wf (ba_scheduler t)"
    using assms(1) by (simp add: t_def bus_wf_def scheduler_wf_pending)
  moreover have "Suc (length xs) \<le> capacity c"
    using assms(1) Cons by (metis bus_wf_def length_Cons queue_depth_def)
  then have "queues_typed (ba_receivers t)" "\<forall>k. queue_depth k (ba_receivers t) \<le> capacity k"
    using assms(1) Cons by (auto simp: t_def bus_wf_def queues_typed_def queue_depth_def)
  moreover have "bus_accounted t"
  proof (rule bus_accounted_move)
    have "queues_mset (ba_receivers s) = add_mset x (queues_mset (set_queue c xs (ba_receivers s)))"
      using queues_mset_set_queue [of c xs "ba_receivers s"] Cons by simp
    with queues_push_mset [OF q]
    show "mset (map fst (ba_replies t)) + image_mset command_reply (bus_waiting t) =
        mset (map fst (ba_replies s)) + image_mset command_reply (bus_waiting s)"
      by (auto simp: t_def bus_waiting_def ac_simps)
  qed (use assms in \<open>simp_all add: t_def bus_wf_def\<close>)
  moreover have "snd (run_state (receive_one c) s) = t" "ba_running t"
    using Cons q assms(2) by (simp_all add: receive_one_def t_def)
  ultimately show ?thesis by (simp add: bus_wf_def)
qed

lemma reject_everything_wf:
  assumes "bus_wf s"
  shows "wp (reject_all e) (\<lambda>_. wp (drain_and_reject e)
    (\<lambda>_ s'. bus_wf (s'\<lparr>ba_running := False\<rparr>) \<and> bus_waiting s' = {#} \<and>
       (\<exists>rs. ba_replies s' = ba_replies s @ map (\<lambda>x. command_finish x e) rs \<and> mset rs = bus_waiting s))) s"
proof -
  define xs where "xs = concat (map (\<lambda>c. rev (queue_of c (sc_pending (ba_scheduler s)))) all_classes)"
  define ys where "ys = in_class_order (ba_receivers s)"
  define t where "t = s\<lparr>ba_scheduler := (ba_scheduler s)\<lparr>sc_pending := empty_queues\<rparr>,
     ba_replies := ba_replies s @ map (\<lambda>x. command_finish x e) (xs @ ys), ba_receivers := empty_queues\<rparr>"
  have "run_state (reject_all e) s = ((), s\<lparr>ba_replies := ba_replies s @ map (\<lambda>x. command_finish x e) xs,
     ba_scheduler := (ba_scheduler s)\<lparr>sc_pending := empty_queues\<rparr>\<rparr>)"
    by (simp add: reject_all_def xs_def)
  then have run: "wp (reject_all e) (\<lambda>_. wp (drain_and_reject e) Q) s \<longleftrightarrow> Q () t" for Q
    by (simp add: wp_def drain_and_reject_def t_def ys_def)
  have m: "mset (xs @ ys) = bus_waiting s"
    using mset_rev_class_order [of "sc_pending (ba_scheduler s)"]
    by (simp add: xs_def ys_def bus_waiting_def ac_simps del: concat.simps list.map)
  have "bus_accounted (t\<lparr>ba_running := False\<rparr>)"
    by (rule bus_accounted_move [of s])
      (use assms m [symmetric] in \<open>simp_all add: bus_wf_def t_def bus_waiting_def comp_def ac_simps\<close>)
  then have "bus_wf (t\<lparr>ba_running := False\<rparr>)"
    using assms by (simp add: bus_wf_def t_def bus_waiting_def queue_depth_def scheduler_wf_def
        safety_bounded_def)
  moreover have "bus_waiting t = {#}" by (simp add: t_def bus_waiting_def)
  ultimately show ?thesis
    unfolding run using m by (auto simp: t_def intro: exI [of _ "xs @ ys"])
qed

text \<open>Selecting a command and answering it moves it from the waiting to the answered ones.\<close>

lemma command_done_wf:
  assumes "bus_wf s" and "ba_running s" and sel: "select_next now (ba_scheduler s) = (Some c, sched)"
    and t: "bus_core t = bus_core (s\<lparr>ba_scheduler := sched\<rparr>)" "ba_replies t = ba_replies s"
    and ends: "command_done d c t s'"
  shows "bus_wf s' \<and> ba_running s'"
proof -
  have w: "scheduler_wf (ba_scheduler s)" using assms(1) by (simp add: bus_wf_def)
  obtain k where k: "queues_earliest k (sc_pending (ba_scheduler s)) = (Some c, sc_pending sched)"
    using select_next_cases [OF sel] w by (auto simp: scheduler_wf_def)
  from ends obtain reply where r: "ba_replies s' = ba_replies s @ [(command_reply c, reply)]"
    and "bus_core s' = bus_core t"
    unfolding command_done_def using t by auto
  with t have core: "ba_receivers s' = ba_receivers s" "ba_scheduler s' = sched" "ba_running s' = ba_running s"
    "ba_next_reply s' = ba_next_reply s"
    by (simp_all add: bus_core_def)
  have "bus_accounted s'"
    by (rule bus_accounted_move [of s])
      (use assms(1) core r queues_earliest_Some(3) [OF k] in \<open>simp_all add: bus_wf_def bus_waiting_def ac_simps\<close>)
  then show ?thesis
    using assms(1,2) core select_next_wf [OF w sel] by (simp add: bus_wf_def)
qed

lemma actor_stop_wf:
  assumes "bus_wf s"
  shows "wp actor_stop (\<lambda>b s'. bus_wf s' \<and> \<not> ba_running s' \<and> \<not> b \<and> bus_waiting s' = {#} \<and>
    (\<exists>cs. ba_replies s' = ba_replies s @ map (\<lambda>x. command_finish x BusShutdown) cs \<and> mset cs = bus_waiting s)) s"
  unfolding actor_stop_def wp_bind
  by (rule wp_mono [OF reject_everything_wf [OF assms, of BusShutdown]], erule wp_mono)
    (auto simp: wp_simps bus_waiting_def)

lemma actor_select_cases:
  assumes "bus_wf s" and "\<not> queues_empty (sc_pending (ba_scheduler s))"
    and Q: "\<And>t now c sched. select_next now (ba_scheduler s) = (Some c, sched) \<Longrightarrow>
      ac_trace t = ac_trace s @ [EvNow now] \<Longrightarrow> bus_core t = bus_core (s\<lparr>ba_scheduler := sched\<rparr>) \<Longrightarrow>
      ba_replies t = ba_replies s \<Longrightarrow> ba_last_transmission_end t = ba_last_transmission_end s \<Longrightarrow>
      wp (process_command A config c) (\<lambda>_ s'. Q True s') t"
  shows "wp (actor_select A config) Q s"
proof -
  obtain now w where now: "bad_now A (ac_world s) = (now, w)" by fastforce
  obtain c sched where sel: "select_next now (ba_scheduler s) = (Some c, sched)"
    using select_next_total [of "ba_scheduler s" now] assms(1,2) by (auto simp: bus_wf_def scheduler_wf_def)
  have ret: "wp (State_Monad.return True) Q = Q True" by (simp add: fun_eq_iff wp_simps)
  show ?thesis
    unfolding actor_select_def
    by (simp add: wp_simps ret now sel, rule Q [OF sel]) (simp_all add: bus_core_def)
qed

lemma actor_select_wf:
  assumes "bus_wf s" and "ba_running s" and "\<not> queues_empty (sc_pending (ba_scheduler s))"
  shows "wp (actor_select A config) (\<lambda>b s'. bus_wf s' \<and> ba_running s' \<and> b) s"
proof (rule actor_select_cases [OF assms(1,3)])
  show "wp (process_command A config c) (\<lambda>_ s'. bus_wf s' \<and> ba_running s' \<and> True) t"
    if "select_next now (ba_scheduler s) = (Some c, sched)"
      "bus_core t = bus_core (s\<lparr>ba_scheduler := sched\<rparr>)" "ba_replies t = ba_replies s" for now c sched t
    using command_done_wf [OF assms(1,2) that] by (intro wp_mono [OF process_command_done]) simp
qed

lemma actor_iteration_wf:
  assumes "bus_wf s" and "ba_running s"
  shows "wp (actor_iteration A config) (\<lambda>b s'. bus_wf s' \<and> ba_running s' = b) s"
  unfolding actor_iteration_def wp_bind
proof (rule wp_mono [OF drain_receivers_wf [OF assms]], elim conjE)
  fix s1 :: "('a, 'b) bus_actor"
  assume s1: "bus_wf s1" "ba_running s1"
  have "wp actor_stop (\<lambda>b s'. bus_wf s' \<and> ba_running s' = b) s1"
    by (rule wp_mono [OF actor_stop_wf [OF s1(1)]]) simp
  moreover have "wp (actor_select A config) (\<lambda>b s'. bus_wf s' \<and> ba_running s' = b) s1"
    if "\<not> queues_empty (sc_pending (ba_scheduler s1))"
    by (rule wp_mono [OF actor_select_wf [OF s1 that]]) simp
  ultimately show "wp State_Monad.get (\<lambda>s. wp (if ba_cancelled s then actor_stop
      else if queues_empty (sc_pending (ba_scheduler s)) then State_Monad.return True
      else actor_select A config) (\<lambda>b s'. bus_wf s' \<and> ba_running s' = b)) s1"
    using s1 by (simp add: wp_simps)
qed

lemma bus_step_wf: "bus_step A config s s' \<Longrightarrow> bus_wf s \<Longrightarrow> bus_wf s'"
proof (induction rule: bus_step.induct)
  case (client_reads r s x s')
  have "wp (handle_read A r) (\<lambda>_ s'. bus_wf s') s"
    using client_reads(2)
    by (auto simp: handle_read_def wp_simps wp_fst_snd [of "try_send _ _"] command_class_def command_context_def
        command_reply_def split: sum.split prod.split intro!: try_send_wf)
  with client_reads(1) show ?case by (simp add: wp_def)
next
  case (client_writes w s x s')
  have "wp (handle_execute A w) (\<lambda>_ s'. bus_wf s') s"
    using client_writes(2)
    by (auto simp: handle_execute_def wp_simps wp_fst_snd [of "try_send _ _"] command_class_def command_context_def
        command_reply_def split: sum.split prod.split intro!: try_send_wf)
  with client_writes(1) show ?case by (simp add: wp_def)
next
  case (client_looks s y s')
  have "wp (handle_statistics A) (\<lambda>_ s'. bus_wf s') s"
    using client_looks(2) by (auto simp: handle_statistics_def wp_simps split: prod.split)
  with client_looks(1) show ?case by (simp add: wp_def)
next
  case (client_cancels s s')
  then show ?case
    by (auto simp: handle_shutdown_def bus_wf_def bus_accounted_def bus_waiting_def)
next
  case (actor_turns s b s')
  then show ?case using actor_iteration_wf [of s A config] by (simp add: wp_def)
next
  case (actor_receives s c s')
  then show ?case using receive_one_wf [of s c] by simp
next
  case (world_changes s v)
  then show ?case by simp
qed

lemma bus_reachable_wf: "bus_reachable A config s \<Longrightarrow> bus_wf s"
  by (induction rule: bus_reachable.induct) (auto intro: spawn_wf bus_step_wf)


subsection \<open>Silence between transmissions\<close>

text \<open>
  A scan of the trace: the time that has passed at least (a clock reading, and the sleeps since),
  the first clock reading after the last transmission, whether a transmission has not been followed
  by a reading yet, whether every transmission began at least \<open>d\<close> after that reading, and
  whether the clock has been monotone.
\<close>

record gap_scan =
  gs_time :: instant
  gs_end :: "instant option"
  gs_open :: bool
  gs_spaced :: bool
  gs_monotone :: bool

definition gap_step :: "duration \<Rightarrow> 'd port_event \<Rightarrow> gap_scan \<Rightarrow> gap_scan" where
  "gap_step d ev g =
     (case ev of
        EvNow n \<Rightarrow> g\<lparr>gs_time := n, gs_end := (if gs_open g then Some n else gs_end g), gs_open := False,
                     gs_monotone := gs_monotone g \<and> gs_time g \<le> n\<rparr>
      | EvSleep x \<Rightarrow> g\<lparr>gs_time := gs_time g + x\<rparr>
      | _ \<Rightarrow>
          if is_bus_traffic ev
          then g\<lparr>gs_open := True,
                 gs_spaced := gs_spaced g \<and> \<not> gs_open g \<and>
                   (case gs_end g of None \<Rightarrow> True | Some e \<Rightarrow> e + d \<le> gs_time g)\<rparr>
          else g)"

definition gap_scan_trace :: "duration \<Rightarrow> 'd port_event list \<Rightarrow> gap_scan" where
  "gap_scan_trace d es =
     fold (gap_step d) es
       \<lparr>gs_time = 0, gs_end = None, gs_open = False, gs_spaced = True, gs_monotone = True\<rparr>"

definition clock_monotone :: "'d port_event list \<Rightarrow> bool" where
  "clock_monotone es \<longleftrightarrow> gs_monotone (gap_scan_trace 0 es)"

definition transmissions_spaced :: "duration \<Rightarrow> 'd port_event list \<Rightarrow> bool" where
  "transmissions_spaced d es \<longleftrightarrow> gs_spaced (gap_scan_trace d es)"

lemma gap_scan_trace_append [simp]:
  "gap_scan_trace d (es @ fs) = fold (gap_step d) fs (gap_scan_trace d es)"
  by (simp add: gap_scan_trace_def)

lemma gap_step_simps [simp]:
  "gap_step d (EvNow n) g = g\<lparr>gs_time := n, gs_end := (if gs_open g then Some n else gs_end g),
     gs_open := False, gs_monotone := gs_monotone g \<and> gs_time g \<le> n\<rparr>"
  "gap_step d (EvSleep x) g = g\<lparr>gs_time := gs_time g + x\<rparr>"
  "gap_step d (EvRead q r) g = g\<lparr>gs_open := True, gs_spaced := gs_spaced g \<and> \<not> gs_open g \<and>
     (case gs_end g of None \<Rightarrow> True | Some e \<Rightarrow> e + d \<le> gs_time g)\<rparr>"
  "gap_step d (EvWrite w y) g = g\<lparr>gs_open := True, gs_spaced := gs_spaced g \<and> \<not> gs_open g \<and>
     (case gs_end g of None \<Rightarrow> True | Some e \<Rightarrow> e + d \<le> gs_time g)\<rparr>"
  by (simp_all add: gap_step_def)

lemma gap_monotone_any: "gs_monotone (gap_scan_trace d es) = clock_monotone es"
proof -
  have "gs_monotone (gap_scan_trace d es) = gs_monotone (gap_scan_trace 0 es) \<and>
      gs_time (gap_scan_trace d es) = gs_time (gap_scan_trace 0 es)"
  proof (induction es rule: rev_induct)
    case Nil
    show ?case by (simp add: gap_scan_trace_def)
  next
    case (snoc ev es)
    then show ?case by (auto simp: gap_step_def is_bus_traffic_def split: port_event.split)
  qed
  then show ?thesis by (simp add: clock_monotone_def)
qed

definition gap_idle :: "duration \<Rightarrow> ('w, 'd) bus_actor \<Rightarrow> bool" where
  "gap_idle d s \<longleftrightarrow>
     (let g = gap_scan_trace d (ac_trace s) in
      gs_monotone g \<longrightarrow> gs_spaced g \<and> \<not> gs_open g \<and>
        (\<forall>l. ba_last_transmission_end s = Some l \<longrightarrow> l \<le> gs_time g) \<and>
        (\<forall>e. gs_end g = Some e \<longrightarrow> (\<exists>l. ba_last_transmission_end s = Some l \<and> e \<le> l)))"

definition gap_ready :: "duration \<Rightarrow> 'd port_event list \<Rightarrow> bool" where
  "gap_ready d tr \<longleftrightarrow>
     (let g = gap_scan_trace d tr in
      gs_monotone g \<longrightarrow> gs_spaced g \<and> \<not> gs_open g \<and> (\<forall>e. gs_end g = Some e \<longrightarrow> e + d \<le> gs_time g))"

definition gap_sent :: "duration \<Rightarrow> 'd port_event list \<Rightarrow> bool" where
  "gap_sent d tr \<longleftrightarrow>
     (let g = gap_scan_trace d tr in
      gs_monotone g \<longrightarrow> gs_spaced g \<and> (\<not> gs_open g \<longrightarrow> (\<forall>e. gs_end g = Some e \<longrightarrow> e \<le> gs_time g)))"

lemmas gap_defs = gap_idle_def gap_ready_def gap_sent_def Let_def

lemma gap_ready_calls:
  "gap_ready d tr \<Longrightarrow> gap_ready d (tr @ [EvNow n])"
  "gap_ready d tr \<Longrightarrow> gap_sent d (tr @ [EvRead q r])"
  "gap_ready d tr \<Longrightarrow> gap_sent d (tr @ [EvWrite w y])"
  "gap_ready d tr \<Longrightarrow> gap_sent d (tr @ [EvRead q r, EvNow n])"
  "gap_ready d tr \<Longrightarrow> gap_sent d (tr @ [EvRead q r, EvNow n, EvSleep d, EvNow m])"
  "gap_ready d tr \<Longrightarrow> gap_ready d (tr @ [EvRead q r, EvNow n, EvSleep d, EvNow m])"
  by (auto simp: gap_defs split: option.split)

lemma gap_idle_calls:
  "gap_idle d s \<Longrightarrow> ac_trace t = ac_trace s @ [EvNow n] \<Longrightarrow>
     ba_last_transmission_end t = ba_last_transmission_end s \<Longrightarrow> gap_idle d t"
  "gap_idle d s \<Longrightarrow> ac_trace t = ac_trace s \<Longrightarrow>
     ba_last_transmission_end t = ba_last_transmission_end s \<Longrightarrow> gap_idle d t"
  by (auto simp: gap_defs)

lemma gap_idle_now: "gap_idle d s \<Longrightarrow> gap_idle d (s\<lparr>ac_world := w, ac_trace := ac_trace s @ [EvNow n]\<rparr>)"
  by (erule gap_idle_calls(1)) simp_all

lemma enforce_t35_gap:
  assumes "gap_idle d s"
  shows "wp (enforce_t35 A d) (\<lambda>_ s'. gap_ready d (ac_trace s')) s"
proof (cases "ba_last_transmission_end s")
  case None
  with assms show ?thesis by (auto simp: enforce_t35_def wp_simps gap_defs)
next
  case (Some l)
  have "gap_ready d (ac_trace s @ [EvNow n, EvSleep (d - duration_since n l)])" if "duration_since n l < d" for n
    using assms Some that by (fastforce simp: gap_defs duration_since_def)
  moreover have "gap_ready d (ac_trace s @ [EvNow n])" if "\<not> duration_since n l < d" for n
    using assms Some that by (fastforce simp: gap_defs duration_since_def)
  ultimately show ?thesis
    using Some by (auto simp: enforce_t35_def wp_simps Let_def split: prod.split)
qed

lemma execute_read_loop_gap:
  "retries + k = 2 \<Longrightarrow> gap_ready d (ac_trace s) \<Longrightarrow>
     wp (execute_read_loop A q d retries) (\<lambda>_ s'. gap_sent d (ac_trace s')) s"
proof (induction k arbitrary: retries s)
  case 0
  then show ?case
    by (subst execute_read_loop.simps)
      (simp add: wp_simps gap_ready_calls split: prod.split sum.split option.split)
next
  case (Suc k)
  then show ?case
    by (subst execute_read_loop.simps)
      (auto simp: wp_simps gap_ready_calls split: prod.split sum.split option.split intro!: Suc.IH)
qed

lemma finish_transaction_gap:
  assumes "gap_sent d (ac_trace s)"
  shows "wp (finish_transaction A n r p) (\<lambda>_. gap_idle d) s"
  using assms by (auto simp: finish_transaction_def wp_simps gap_defs split: prod.split)

lemma dispatch_command_gap:
  assumes "gap_ready (config_t35 config) (ac_trace s)"
  shows "wp (dispatch_command A config c) (\<lambda>_. gap_idle (config_t35 config)) s"
  using assms
  by (cases c)
    (auto simp: dispatch_command_def execute_read_def wp_simps Let_def gap_ready_calls split: prod.split
      intro!: wp_mono [OF execute_read_loop_gap [of 0 2]] finish_transaction_gap
        gap_ready_calls(3) [of _ "_ @ [_]", simplified])

lemma enforce_t35_idle:
  assumes "gap_idle d s"
  shows "wp (enforce_t35 A d) (\<lambda>_. gap_idle d) s"
proof (cases "ba_last_transmission_end s")
  case None
  with assms show ?thesis by (auto simp: enforce_t35_def wp_simps gap_defs)
next
  case (Some l)
  have "gap_idle d (s\<lparr>ac_world := w, ac_trace := ac_trace s @ [EvNow n]\<rparr>)" for w n
    by (rule gap_idle_now [OF assms])
  moreover have "gap_idle d (s\<lparr>ac_world := w, ac_trace := ac_trace s @ [EvNow n, EvSleep x], ba_statistics := st\<rparr>)"
    for w n x st
    using assms Some by (auto simp: gap_defs)
  ultimately show ?thesis
    using Some by (auto simp: enforce_t35_def wp_simps Let_def split: prod.split)
qed

lemma reject_expired_gap: "gap_idle d s \<Longrightarrow> wp (reject_expired c) (\<lambda>_. gap_idle d) s"
  by (auto simp: reject_expired_def wp_simps elim: gap_idle_calls(2))

lemma process_command_gap:
  assumes "gap_idle (config_t35 config) s"
  shows "wp (process_command A config c) (\<lambda>_. gap_idle (config_t35 config)) s"
proof -
  let ?d = "config_t35 config"
  let ?send = "\<lambda>checked. (if command_deadline c \<le> checked then reject_expired c
      else do {
        _ \<leftarrow> update_stats (record_dispatch (command_class c) (command_function c));
        dispatch_command A config c
      }) :: ('a, 'b, unit) bus_monad"
  have after: "wp (do { checked \<leftarrow> bus_now A; ?send checked }) (\<lambda>_. gap_idle ?d) t"
    if t: "gap_idle ?d t" "gap_ready ?d (ac_trace t)" for t
    by (auto simp: wp_simps gap_ready_calls t(2) gap_idle_now [OF t(1)] split: prod.split
        intro!: reject_expired_gap dispatch_command_gap)
  have go: "wp (enforce_t35 A ?d) (\<lambda>_. wp (do { checked \<leftarrow> bus_now A; ?send checked }) (\<lambda>_. gap_idle ?d)) t"
    if t: "gap_idle ?d t" for t
    by (rule wp_mono [OF wp_conj [OF enforce_t35_idle [OF t] enforce_t35_gap [OF t]]]) (simp add: after)
  obtain n w where n: "bad_now A (ac_world s) = (n, w)" by fastforce
  obtain m v where m: "bad_now A w = (m, v)" by fastforce
  have "gap_idle ?d (s\<lparr>ac_world := w, ac_trace := ac_trace s @ [EvNow n]\<rparr>)"
    by (rule gap_idle_now [OF assms])
  from gap_idle_calls(1) [OF this]
  have idle: "gap_idle ?d t" if "ac_trace t = ac_trace s @ [EvNow n, EvNow m]"
      "ba_last_transmission_end t = ba_last_transmission_end s" for t :: "('a, 'b) bus_actor"
    using that by simp
  show ?thesis
    unfolding process_command_def wp_bind
    by (auto simp: wp_simps n m intro!: reject_expired_gap idle go)
qed

lemma actor_iteration_gap:
  assumes "bus_wf s" and "ba_running s" and "gap_idle (config_t35 config) s"
  shows "wp (actor_iteration A config) (\<lambda>_. gap_idle (config_t35 config)) s"
  unfolding actor_iteration_def wp_bind
proof (rule wp_mono [OF drain_receivers_wf [OF assms(1,2)]], elim conjE)
  fix s1 :: "('a, 'b) bus_actor"
  let ?d = "config_t35 config"
  assume wf: "bus_wf s1" and "ac_trace s1 = ac_trace s" "ba_last_transmission_end s1 = ba_last_transmission_end s"
  with assms(3) have s1: "gap_idle ?d s1" using gap_idle_calls(2) by blast
  have "wp actor_stop (\<lambda>_. gap_idle ?d) s1"
    using s1 by (auto simp: actor_stop_def reject_all_def drain_and_reject_def wp_simps elim: gap_idle_calls(2))
  moreover have "wp (actor_select A config) (\<lambda>_. gap_idle ?d) s1"
    if "\<not> queues_empty (sc_pending (ba_scheduler s1))"
    by (rule actor_select_cases [OF wf that]) (rule process_command_gap, rule gap_idle_calls(1) [OF s1])
  ultimately show "wp State_Monad.get (\<lambda>s. wp (if ba_cancelled s then actor_stop
      else if queues_empty (sc_pending (ba_scheduler s)) then State_Monad.return True
      else actor_select A config) (\<lambda>_. gap_idle ?d)) s1"
    using s1 by (simp add: wp_simps)
qed

lemma spawn_gap: "gap_idle d (bus_actor_spawn A w)"
  by (simp add: bus_actor_spawn_def gap_defs gap_scan_trace_def split: prod.split)

lemma client_steps_gap:
  assumes "gap_idle d s"
  shows "wp (handle_read A r) (\<lambda>_. gap_idle d) s" "wp (handle_execute A w) (\<lambda>_. gap_idle d) s"
    "wp (handle_statistics A) (\<lambda>_. gap_idle d) s" "wp handle_shutdown (\<lambda>_. gap_idle d) s"
    "wp (receive_one c) (\<lambda>_. gap_idle d) s"
proof -
  have send: "wp (try_send c mk) (\<lambda>_. gap_idle d) t" if "gap_idle d t" for c mk t
    using that by (auto simp: try_send_def wp_simps elim: gap_idle_calls(2))
  show "wp (handle_read A r) (\<lambda>_. gap_idle d) s" "wp (handle_execute A w) (\<lambda>_. gap_idle d) s"
    "wp (handle_statistics A) (\<lambda>_. gap_idle d) s"
    using gap_idle_now [OF assms] assms
    by (auto simp: handle_read_def handle_execute_def handle_statistics_def wp_simps
        split: prod.split sum.split intro: send)
  show "wp handle_shutdown (\<lambda>_. gap_idle d) s" "wp (receive_one c) (\<lambda>_. gap_idle d) s"
    using assms by (auto simp: handle_shutdown_def receive_one_def wp_simps elim: gap_idle_calls(2)
        split: list.split prod.split)
qed

lemma bus_step_gap:
  "bus_step A config s s' \<Longrightarrow> bus_wf s \<Longrightarrow> gap_idle (config_t35 config) s \<Longrightarrow>
     gap_idle (config_t35 config) s'"
proof (induction rule: bus_step.induct)
  case (actor_turns s b s')
  then show ?case using actor_iteration_gap [of s config A] by (simp add: wp_def)
next
  case (world_changes s v)
  then show ?case by (auto elim: gap_idle_calls(2))
qed (blast dest: wp_run [OF client_steps_gap(1)] wp_run [OF client_steps_gap(2)] wp_run [OF client_steps_gap(3)]
    wp_run [OF client_steps_gap(4)] wp_run [OF client_steps_gap(5)])+

lemma bus_reachable_gap: "bus_reachable A config s \<Longrightarrow> gap_idle (config_t35 config) s"
  by (induction rule: bus_reachable.induct)
    (auto intro: spawn_gap bus_step_gap dest: bus_reachable_wf)

end
