(* ===== verification/Bus_Properties.thy ===== *)
theory Bus_Properties
  imports Bus_Safety
begin

text \<open>
  The properties of the bus actor, each with a run on a simulated clock and backend that reaches it.
\<close>

subsection \<open>A simulated bus\<close>

text \<open>The world is the time; a reading takes one nanosecond and a transaction a millisecond.\<close>

definition sample_bus :: "nat bus_adapters" where
  "sample_bus = \<lparr>bad_now = (\<lambda>t. (t, t + 1)), bad_sleep = (\<lambda>d t. ((), t + d)),
     bad_read = (\<lambda>r t. (if t < 3000000 then Err ResponseTimeout else Ok [7], t + 1000000)),
     bad_write = (\<lambda>w t. (Err ResponseTimeout, t + 1000000))\<rparr>"

definition sample_bus_config :: bus_actor_config where
  "sample_bus_config = \<lparr>bac_link = \<lparr>ls_baud_rate = 38400, ls_parity = EvenParity, ls_data_bits = Eight,
     ls_stop_bits = One, ls_response_timeout = from_millis 500, ls_slave_id = 1,
     ls_rs485_mode = AdapterManaged\<rparr>, bac_profile_minimum_inter_frame_delay = 0\<rparr>"

definition sample_context :: "request_class \<Rightarrow> instant \<Rightarrow> bus_request_context" where
  "sample_context c deadline = bus_request_context_new 1 2 c deadline (Some 3)"

definition sample_block :: register_block where
  "sample_block = \<lparr>rb_table = HoldingRegisters, rb_start = 10, rb_count = 1\<rparr>"

definition sample_read :: read_bus_request where
  "sample_read = \<lparr>rbr_context = sample_context Interactive (from_secs 1), rbr_slave = 1,
     rbr_function = ReadHoldingRegisters, rbr_block = sample_block, rbr_periodic = False\<rparr>"

definition sample_write :: prepared_bus_write where
  "sample_write = \<lparr>pbw_context = sample_context SafetyOneShot (from_secs 1), pbw_slave = 1,
     pbw_function = WriteSingleRegister, pbw_block = sample_block, pbw_values = [9]\<rparr>"

text \<open>A read and a write are queued; the actor serves the write, then the read.\<close>

definition sample_bus_queued :: "(nat, unit) bus_actor" where
  "sample_bus_queued = snd (run_state (handle_execute sample_bus sample_write)
     (snd (run_state (handle_read sample_bus sample_read) (bus_actor_spawn sample_bus 0))))"

definition sample_bus_served :: "(nat, unit) bus_actor" where
  "sample_bus_served = snd (run_state (actor_iteration sample_bus sample_bus_config) sample_bus_queued)"

definition sample_bus_run :: "(nat, unit) bus_actor" where
  "sample_bus_run = snd (run_state (actor_iteration sample_bus sample_bus_config) sample_bus_served)"

lemmas bus_run_defs = sample_bus_def sample_bus_config_def sample_context_def sample_block_def sample_read_def
  sample_write_def bus_actor_spawn_def handle_read_def handle_execute_def try_send_def actor_iteration_def
  drain_receivers_def actor_select_def process_command_def dispatch_command_def finish_transaction_def
  execute_read_def enforce_t35_def reject_expired_def bus_now_def bus_sleep_def
  backend_read_def backend_write_def call_def update_stats_def send_replies_def select_next_def
  queues_earliest_def take_earliest_def remove_nth_def
  bus_request_context_new_def read_request_validate_def empty_queues_def queue_depth_def queue_of_def
  capacity_def set_queue_def is_write_def in_class_order_def queues_push_def command_class_def
  command_context_def SAFETY_OPERATION_LIMIT_def SAFETY_BURST_LIMIT_def queues_empty_def hard_deadline_def
  non_safety_empty_def NON_SAFETY_SCHEDULE_def Let_def command_deadline_def command_queued_at_def
  config_t35_def protocol_t35_def duration_since_def write_error_def is_transient_read_error_def
  instant_checked_add_def INSTANT_MAX_def

lemma sample_bus_evaluated:
  "ba_running sample_bus_queued" "ba_running sample_bus_served"
  "ac_trace sample_bus_run =
     map EvNow [0, 1, 2, 3, 4, 5, 6, 7] @ [EvWrite sample_write (Err ResponseTimeout)] @
     map EvNow [1000008, 1000009, 1000010, 1000011, 1000012] @ [EvSleep 1749996] @
     map EvNow [2750009, 2750010] @ [EvRead sample_read (Err ResponseTimeout)] @
     [EvNow 3750011, EvSleep 1750000, EvNow 5500012, EvRead sample_read (Ok [7]), EvNow 6500013]"
  "ba_replies sample_bus_run = [(1, WriteReply (Err BusOutcomeUnknown)), (0, ReadReply (Ok [7]))]"
  by (simp_all add: sample_bus_queued_def sample_bus_served_def sample_bus_run_def bus_run_defs
      execute_read_loop.simps [where retries = 0] execute_read_loop.simps [where retries = "Suc 0"])

lemma sample_bus_reachable:
  "bus_reachable sample_bus sample_bus_config sample_bus_queued"
  "bus_reachable sample_bus sample_bus_config sample_bus_run"
proof -
  let ?R = "bus_reachable sample_bus sample_bus_config :: (nat, unit) bus_actor \<Rightarrow> bool"
  have send: "?R (snd (run_state (handle_read sample_bus q) s))"
    "?R (snd (run_state (handle_execute sample_bus w) s))" if "?R s" for q w s
    using bus_stepped [OF that client_reads] bus_stepped [OF that client_writes] by (metis surjective_pairing)+
  have turn: "?R (snd (run_state (actor_iteration sample_bus sample_bus_config) s))" if "?R s" "ba_running s" for s
    using bus_stepped [OF that(1) actor_turns] that(2) by (metis surjective_pairing)
  show queued: "?R sample_bus_queued"
    unfolding sample_bus_queued_def by (intro send bus_spawned)
  show "?R sample_bus_run"
    unfolding sample_bus_run_def
    by (intro turn sample_bus_evaluated) (use queued in \<open>simp add: sample_bus_served_def turn sample_bus_evaluated\<close>)
qed

subsection \<open>Scheduling\<close>

text \<open>
  Whenever commands are pending, \<open>select_next\<close> returns one of them, which has the earliest deadline
  of its class, and takes it out of the queues. It is a safety command exactly when one is waiting
  and the safety burst is not used up, a safety deadline is at most five milliseconds away, or
  nothing else is pending.
\<close>
theorem bus_selection:
  assumes "bus_reachable A config s" and "\<not> queues_empty (sc_pending (ba_scheduler s))"
  shows "\<exists>c sched. select_next now (ba_scheduler s) = (Some c, sched) \<and>
    c \<in> set (queue_of (command_class c) (sc_pending (ba_scheduler s))) \<and>
    (\<forall>x \<in> set (queue_of (command_class c) (sc_pending (ba_scheduler s))). command_deadline c \<le> command_deadline x) \<and>
    queues_mset (sc_pending (ba_scheduler s)) = add_mset c (queues_mset (sc_pending sched)) \<and>
    (command_class c = SafetyOneShot \<longleftrightarrow>
       cq_safety (sc_pending (ba_scheduler s)) \<noteq> [] \<and>
       (sc_safety_burst (ba_scheduler s) < SAFETY_BURST_LIMIT \<or>
        hard_deadline (sc_pending (ba_scheduler s)) now \<or> non_safety_empty (sc_pending (ba_scheduler s))))"
proof -
  let ?sc = "ba_scheduler s"
  have wf: "scheduler_wf ?sc" using bus_reachable_wf [OF assms(1)] by (simp add: bus_wf_def)
  then have w: "queues_typed (sc_pending ?sc)" "sc_wrr_index ?sc < 11" by (simp_all add: scheduler_wf_def)
  obtain c sched where sel: "select_next now ?sc = (Some c, sched)"
    using select_next_total [OF w assms(2)] by blast
  obtain k where k: "queues_earliest k (sc_pending ?sc) = (Some c, sc_pending sched)"
    using select_next_cases [OF sel w(2)] by auto
  then have ck: "command_class c = k"
    using queues_earliest_Some(1) w(1) by (auto simp: queues_typed_def)
  show ?thesis
    using sel queues_earliest_Some(1-3) [OF k] select_next_class [OF w assms(2) sel] by (simp add: ck)
qed

text \<open>The two queued requests, as the channels hand them over one at a time.\<close>

definition sample_bus_received :: "(nat, unit) bus_actor" where
  "sample_bus_received = snd (run_state (receive_one Interactive) sample_bus_queued)"

lemma sample_bus_received:
  "bus_reachable sample_bus sample_bus_config sample_bus_received"
  "\<not> queues_empty (sc_pending (ba_scheduler sample_bus_received))"
proof -
  have "bus_step sample_bus sample_bus_config sample_bus_queued sample_bus_received"
  proof (rule actor_receives)
    show "queues_empty (sc_pending (ba_scheduler sample_bus_queued))"
      by (simp add: sample_bus_queued_def bus_run_defs)
    show "run_state (receive_one Interactive) sample_bus_queued = ((), sample_bus_received)"
      by (simp add: sample_bus_received_def prod_eq_iff)
  qed (rule sample_bus_evaluated)
  with sample_bus_reachable(1) show "bus_reachable sample_bus sample_bus_config sample_bus_received"
    by (rule bus_stepped)
  show "\<not> queues_empty (sc_pending (ba_scheduler sample_bus_received))"
    by (simp add: sample_bus_received_def sample_bus_queued_def receive_one_def bus_run_defs)
qed

theorem bus_selection_witness:
  "\<exists>c sched. select_next 5 (ba_scheduler sample_bus_received) = (Some c, sched)"
  using bus_selection [OF sample_bus_received] by blast

text \<open>
  C25. No class starves: while no safety command comes within five milliseconds of its deadline, a
  class with waiting commands is served within 99 turns of the loop, whatever arrives meanwhile in
  whatever class. (At most eight safety commands precede each of at most eleven slots.)
\<close>
theorem bus_no_class_starves:
  assumes "bus_reachable A config s" and "c \<noteq> SafetyOneShot"
    and "queue_of c (sc_pending (ba_scheduler s)) \<noteq> []"
    and "\<forall>x \<in> set (cq_safety (sc_pending (ba_scheduler s))). limit < command_deadline x"
    and "\<forall>(arrivals, now) \<in> set rounds. now + from_millis 5 \<le> limit \<and>
      (\<forall>x \<in> set arrivals. command_class x = SafetyOneShot \<longrightarrow> limit < command_deadline x)"
    and "99 \<le> length rounds"
  shows "\<exists>x. Some x \<in> set (fst (scheduler_rounds rounds (ba_scheduler s))) \<and> command_class x = c"
proof (rule scheduler_rounds_serve)
  show "scheduler_wf (ba_scheduler s)" using bus_reachable_wf [OF assms(1)] by (simp add: bus_wf_def)
  show "turns_left c (ba_scheduler s) < length rounds"
    using turns_left_le [OF assms(2), of "ba_scheduler s"] assms(6) by simp
qed (use assms in \<open>simp_all add: cq_safety_queue_of\<close>)

theorem bus_no_class_starves_witness:
  "\<exists>x. Some x \<in> set (fst (scheduler_rounds (replicate 99 ([WriteCommand sample_write 4 0], 7))
     (ba_scheduler sample_bus_received))) \<and> command_class x = Interactive"
proof (rule bus_no_class_starves [OF sample_bus_received(1)])
  show "queue_of Interactive (sc_pending (ba_scheduler sample_bus_received)) \<noteq> []"
    and "\<forall>x \<in> set (cq_safety (sc_pending (ba_scheduler sample_bus_received))). 5000007 < command_deadline x"
    by (simp_all add: sample_bus_received_def sample_bus_queued_def receive_one_def bus_run_defs)
qed (simp_all add: command_deadline_def command_context_def sample_write_def sample_context_def
    bus_request_context_new_def)

subsection \<open>Queues\<close>

text \<open>
  In every reachable state each channel holds at most its class's capacity, every queue holds only
  commands of its class, and at most eight safety commands of one operation are pending.
\<close>
theorem bus_queues_are_bounded:
  assumes "bus_reachable A config s"
  shows "queue_depth c (ba_receivers s) \<le> capacity c \<and>
    (\<forall>x. x \<in> set (queue_of c (ba_receivers s)) \<union> set (queue_of c (sc_pending (ba_scheduler s))) \<longrightarrow> command_class x = c) \<and>
    length (filter (\<lambda>x. command_operation_id x = oid) (cq_safety (sc_pending (ba_scheduler s)))) \<le> 8"
  using bus_reachable_wf [OF assms]
  by (auto simp: bus_wf_def scheduler_wf_def queues_typed_def safety_bounded_def cq_safety_queue_of
      SAFETY_OPERATION_LIMIT_def)

theorem bus_queues_are_bounded_witness:
  "queue_depth SafetyOneShot (ba_receivers sample_bus_received) \<le> 16 \<and>
   length (filter (\<lambda>x. command_operation_id x = Some 3) (cq_safety (sc_pending (ba_scheduler sample_bus_received)))) \<le> 8"
  using bus_queues_are_bounded [OF sample_bus_received(1), of SafetyOneShot "Some 3"] by (simp add: capacity_def)

text \<open>
  C28. Every accepted request is accounted for: it is waiting in a channel or pending, or it has been
  answered, exactly once; and when the actor has ended, every accepted request has been answered.
\<close>
theorem bus_answers_every_request:
  assumes "bus_reachable A config s"
  shows "mset (map fst (ba_replies s)) + image_mset command_reply (bus_waiting s) = mset [0..<ba_next_reply s] \<and>
    (ba_running s \<or> mset (map fst (ba_replies s)) = mset [0..<ba_next_reply s])"
  using bus_reachable_wf [OF assms] by (auto simp: bus_wf_def bus_accounted_def)

theorem bus_answers_every_request_witness:
  "mset (map fst (ba_replies sample_bus_run)) + image_mset command_reply (bus_waiting sample_bus_run) =
     mset [0..<ba_next_reply sample_bus_run]"
  using bus_answers_every_request [OF sample_bus_reachable(2)] by blast

text \<open>
  C29. When the actor turns after a cancellation it ends: nothing is left waiting, and nothing is sent on
  the bus any more.
\<close>
theorem bus_shutdown_is_complete:
  assumes "bus_reachable A config s" and "ba_running s" and "ba_cancelled s"
    and "run_state (actor_iteration A config) s = (goes_on, s')"
  shows "\<not> goes_on \<and> \<not> ba_running s' \<and> bus_waiting s' = {#} \<and> ac_trace s' = ac_trace s"
proof -
  have wf: "bus_wf s" using bus_reachable_wf [OF assms(1)] .
  have "wp drain_receivers (\<lambda>_ s1. ba_cancelled s1) s"
    using assms(3) by (simp add: drain_receivers_def wp_simps split: prod.split)
  with drain_receivers_wf [OF wf assms(2)]
  have drained: "wp drain_receivers (\<lambda>_ s1. bus_wf s1 \<and> ac_trace s1 = ac_trace s \<and> ba_cancelled s1) s"
    by (auto simp: wp_def)
  have stop: "wp actor_stop (\<lambda>b s'. \<not> b \<and> \<not> ba_running s' \<and> bus_waiting s' = {#} \<and> ac_trace s' = ac_trace s1) s1"
    if "bus_wf s1" for s1 :: "('a, 'b) bus_actor"
  proof -
    have "wp actor_stop (\<lambda>b s'. ac_trace s' = ac_trace s1) s1"
      by (simp add: actor_stop_def reject_all_def drain_and_reject_def wp_simps)
    with actor_stop_wf [OF that] show ?thesis by (auto simp: wp_def)
  qed
  have "wp (actor_iteration A config)
      (\<lambda>b s'. \<not> b \<and> \<not> ba_running s' \<and> bus_waiting s' = {#} \<and> ac_trace s' = ac_trace s) s"
    unfolding actor_iteration_def wp_bind
    by (rule wp_mono [OF drained]) (auto simp: wp_simps dest!: stop)
  then show ?thesis using assms(4) by (simp add: wp_def)
qed

theorem bus_shutdown_is_complete_witness:
  "bus_waiting (snd (run_state (actor_iteration sample_bus sample_bus_config)
     (sample_bus_queued\<lparr>ba_cancelled := True\<rparr>))) = {#}"
proof -
  have "bus_step sample_bus sample_bus_config sample_bus_queued (sample_bus_queued\<lparr>ba_cancelled := True\<rparr>)"
    by (rule client_cancels) (simp add: handle_shutdown_def)
  from bus_stepped [OF sample_bus_reachable(1) this] show ?thesis
    using bus_shutdown_is_complete [OF _ _ _ prod.collapse [symmetric]] sample_bus_evaluated(1) by fastforce
qed

subsection \<open>Transmissions\<close>

lemma silent_interval_bound:
  fixes c :: bus_actor_config
  defines "l \<equiv> bac_link c"
  assumes "0 < unat (ls_baud_rate l)"
  shows "bac_profile_minimum_inter_frame_delay c \<le> config_t35 c \<and>
    (if unat (ls_baud_rate l) \<le> 19200
     then 35 * (1 + (case ls_data_bits l of Seven \<Rightarrow> 7 | Eight \<Rightarrow> 8) + (if ls_parity l = NoParity then 0 else 1) +
         (if ls_stop_bits l = One then 1 else 2)) * 10 ^ 9 \<le> config_t35 c * (10 * unat (ls_baud_rate l))
     else 1750 * 1000 \<le> config_t35 c)"
proof -
  define bits :: nat where "bits = 1 + (case ls_data_bits l of Seven \<Rightarrow> 7 | Eight \<Rightarrow> 8) +
      (if ls_parity l = NoParity then 0 else 1) + (if ls_stop_bits l = One then 1 else 2)"
  define micros where "micros = div_ceil (bits * 35 * 1000000) (unat (ls_baud_rate l) * 10)"
  have le: "protocol_t35 l \<le> config_t35 c" "bac_profile_minimum_inter_frame_delay c \<le> config_t35 c"
    by (simp_all add: config_t35_def l_def)
  have "35 * bits * 1000000 \<le> micros * (10 * unat (ls_baud_rate l))"
    using div_ceil_bounds(1) [of "unat (ls_baud_rate l) * 10" "bits * 35 * 1000000"] assms(2)
    by (simp add: micros_def ac_simps)
  then have "35 * bits * 10 ^ 9 \<le> from_micros micros * (10 * unat (ls_baud_rate l))" by simp
  moreover have "protocol_t35 l = from_micros micros" if "unat (ls_baud_rate l) \<le> 19200"
    using that
    by (cases "ls_data_bits l"; cases "ls_stop_bits l") (auto simp: protocol_t35_def micros_def bits_def Let_def)
  ultimately have slow: "35 * bits * 10 ^ 9 \<le> config_t35 c * (10 * unat (ls_baud_rate l))" if "unat (ls_baud_rate l) \<le> 19200"
    using that le(1) mult_le_mono1 [OF le(1), of "10 * unat (ls_baud_rate l)"] by (metis le_trans)
  have fast: "1750 * 1000 \<le> config_t35 c" if "\<not> unat (ls_baud_rate l) \<le> 19200"
    using that le(1) by (simp add: protocol_t35_def)
  show ?thesis
  proof (cases "unat (ls_baud_rate l) \<le> 19200")
    case True
    from le(2) slow [OF True] show ?thesis by (simp only: True if_True bits_def simp_thms)
  next
    case False
    from le(2) fast [OF False] show ?thesis by (simp only: False if_False simp_thms)
  qed
qed

text \<open>
  C26. A selected command gets exactly one answer. Either its deadline has come at the last look at the
  clock, nothing is sent and the answer is \<open>TimeoutBeforeSend\<close>. Or at the look at the clock before it is
  dispatched its deadline is still ahead, and then a write is sent exactly once and answered with its
  result, the errors that leave it open whether the device took the value being reported as
  \<open>OutcomeUnknown\<close>; a read is attempted at most three times, again only after a transient error and
  only when the next attempt begins before the deadline, both as computed and as confirmed by the
  clock after the sleep, it gives up before the third attempt only for a lasting error or for the deadline,
  and it is answered with the result of the last attempt.
\<close>
theorem bus_command_outcomes:
  "\<exists>es reply. ac_trace (snd (run_state (process_command A config c) s)) = ac_trace s @ es \<and>
    ba_replies (snd (run_state (process_command A config c) s)) = ba_replies s @ [(command_reply c, reply)] \<and>
    ((\<exists>pre t. es = pre @ [EvNow t] \<and> bus_traffic pre = [] \<and> command_deadline c \<le> t \<and>
        reply = (case c of ReadCommand _ _ _ \<Rightarrow> ReadReply (Err TimeoutBeforeSend)
                 | WriteCommand _ _ _ \<Rightarrow> WriteReply (Err TimeoutBeforeSend))) \<or>
     (\<exists>pre checked started sent finished. es = pre @ [EvNow checked, EvNow started] @ sent @ [EvNow finished] \<and>
        bus_traffic pre = [] \<and> checked < command_deadline c \<and>
        (case c of
           WriteCommand w _ _ \<Rightarrow> \<exists>result. sent = [EvWrite w result] \<and>
             reply = WriteReply (case result of
                 Inr u \<Rightarrow> Ok u
               | Inl e \<Rightarrow> Err (if e \<in> {ResponseTimeout, InvalidFrameOrTransport, InvalidResponse} \<union> range BusIo
                              then BusOutcomeUnknown else e))
         | ReadCommand q _ _ \<Rightarrow> \<exists>result.
             read_attempts q (config_t35 config) 2 sent result \<and> reply = ReadReply result)))"
proof -
  have unclear: "map_err write_error r = (case r of Inr u \<Rightarrow> Ok u
      | Inl e \<Rightarrow> Err (if e \<in> {ResponseTimeout, InvalidFrameOrTransport, InvalidResponse} \<union> range BusIo
          then BusOutcomeUnknown else e))" for r :: "bus_error + 'x"
    by (auto simp: write_error_def split: sum.split bus_error.split)
  obtain es reply where "ac_trace (snd (run_state (process_command A config c) s)) = ac_trace s @ es"
    and "ba_replies (snd (run_state (process_command A config c) s)) = ba_replies s @ [(command_reply c, reply)]"
    and "command_outcome (config_t35 config) c es reply"
    using process_command_done [of A config c s] unfolding wp_fst_snd command_done_def by blast
  then show ?thesis
    by (intro exI [of _ es] exI [of _ reply] conjI)
      (cases c; simp add: command_outcome_def command_finish_def flip: unclear)+
qed

text \<open>
  C27. Between two transmissions the bus is silent for the interval of the configuration: on every run
  with a monotone clock, each read or write of the backend, retries included, begins at least that
  long after the clock was first read following the one before. The interval is never shorter than the profile
  demands. Up to 19200 baud it is at least the time of 3.5 characters of the link's format (a start bit,
  the data bits, the parity bit if there is one, the stop bits); above, it is at least the fixed 1750
  microseconds, which the Modbus specification prescribes there.
\<close>
theorem bus_transmissions_are_spaced:
  assumes "bus_reachable A config s" and "clock_monotone (ac_trace s)" and "0 < unat (ls_baud_rate (bac_link config))"
  shows "transmissions_spaced (config_t35 config) (ac_trace s) \<and>
    bac_profile_minimum_inter_frame_delay config \<le> config_t35 config \<and>
    (if unat (ls_baud_rate (bac_link config)) \<le> 19200
     then 35 * (1 + (case ls_data_bits (bac_link config) of Seven \<Rightarrow> 7 | Eight \<Rightarrow> 8) +
         (if ls_parity (bac_link config) = NoParity then 0 else 1) + (if ls_stop_bits (bac_link config) = One then 1 else 2)) * 10 ^ 9
       \<le> config_t35 config * (10 * unat (ls_baud_rate (bac_link config)))
     else 1750 * 1000 \<le> config_t35 config)"
proof -
  have "transmissions_spaced (config_t35 config) (ac_trace s)"
    using bus_reachable_gap [OF assms(1)] assms(2)
    by (simp add: gap_idle_def Let_def gap_monotone_any transmissions_spaced_def)
  then show ?thesis using silent_interval_bound [OF assms(3)] by (rule conjI)
qed

theorem bus_transmissions_are_spaced_witness:
  "transmissions_spaced 1750000 (ac_trace sample_bus_run)"
proof -
  have "clock_monotone (ac_trace sample_bus_run)"
    by (simp add: clock_monotone_def sample_bus_evaluated gap_scan_trace_def)
  moreover have "0 < unat (ls_baud_rate (bac_link sample_bus_config))" by (simp add: sample_bus_config_def)
  ultimately have "transmissions_spaced (config_t35 sample_bus_config) (ac_trace sample_bus_run)"
    using bus_transmissions_are_spaced [OF sample_bus_reachable(2)] by blast
  then show ?thesis by (simp add: config_t35_def sample_bus_config_def protocol_t35_def)
qed

end
