(* ===== verification/Poll_Planner.thy ===== *)
theory Poll_Planner
  imports Profile Bus
begin

text \<open>
  The planner of \<open>lantern-app/src/poll.rs\<close>: subscriptions of telemetry consumers, their merging
  into demands, the grouping of demands into shared Modbus blocks, the estimate of their cost on the
  wire, and the loop that slows demands down or rejects them until the plan fits the bus budget.
  \<open>sort_by\<close> with a chain of comparisons is a stable sort by a lexicographic key. A panic
  (\<open>RegisterBlock::end\<close> overflows, an \<open>expect\<close> fails) is \<open>None\<close> around the result.
\<close>

subsection \<open>Cadence classes and reasons\<close>

datatype (plugins only: code size) frequency_class = FastPoll | NormalPoll | SlowPoll | OnDemandPoll

definition frequency_rank :: "frequency_class \<Rightarrow> nat" where
  "frequency_rank f = (case f of FastPoll \<Rightarrow> 0 | NormalPoll \<Rightarrow> 1 | SlowPoll \<Rightarrow> 2 | OnDemandPoll \<Rightarrow> 3)"

lemma frequency_rank_inj: "frequency_rank a = frequency_rank b \<longleftrightarrow> a = b"
  by (cases a; cases b) (simp_all add: frequency_rank_def)

instantiation frequency_class :: linorder
begin

definition less_eq_frequency_class :: "frequency_class \<Rightarrow> frequency_class \<Rightarrow> bool" where
  "less_eq_frequency_class a b \<longleftrightarrow> frequency_rank a \<le> frequency_rank b"

definition less_frequency_class :: "frequency_class \<Rightarrow> frequency_class \<Rightarrow> bool" where
  "less_frequency_class a b \<longleftrightarrow> frequency_rank a < frequency_rank b"

instance
  by standard (auto simp: less_eq_frequency_class_def less_frequency_class_def frequency_rank_inj)

end

definition next_slower :: "frequency_class \<Rightarrow> frequency_class option" where
  "next_slower f =
     (case f of FastPoll \<Rightarrow> Some NormalPoll | NormalPoll \<Rightarrow> Some SlowPoll | SlowPoll \<Rightarrow> None
      | OnDemandPoll \<Rightarrow> None)"

datatype (plugins only: code size) subscription_reason =
    ForDriveState | ForFault | ForDashboard | ForScope | ForCsv | ForParameterBrowser | ForBackup
  | ForDiagnostics

definition reason_order :: "subscription_reason \<Rightarrow> nat" where
  "reason_order r =
     (case r of ForDriveState \<Rightarrow> 0 | ForFault \<Rightarrow> 1 | ForDashboard \<Rightarrow> 2 | ForScope \<Rightarrow> 3 | ForCsv \<Rightarrow> 4
      | ForParameterBrowser \<Rightarrow> 5 | ForBackup \<Rightarrow> 6 | ForDiagnostics \<Rightarrow> 7)"

lemma reason_order_inj: "reason_order a = reason_order b \<longleftrightarrow> a = b"
  by (cases a; cases b) (simp_all add: reason_order_def)

instantiation subscription_reason :: linorder
begin

definition less_eq_subscription_reason :: "subscription_reason \<Rightarrow> subscription_reason \<Rightarrow> bool" where
  "less_eq_subscription_reason a b \<longleftrightarrow> reason_order a \<le> reason_order b"

definition less_subscription_reason :: "subscription_reason \<Rightarrow> subscription_reason \<Rightarrow> bool" where
  "less_subscription_reason a b \<longleftrightarrow> reason_order a < reason_order b"

instance
  by standard (auto simp: less_eq_subscription_reason_def less_subscription_reason_def reason_order_inj)

end

definition periodic_class :: "subscription_reason \<Rightarrow> request_class" where
  "periodic_class r =
     (case r of ForDriveState \<Rightarrow> TelemetryCritical | ForFault \<Rightarrow> TelemetryCritical
      | ForDashboard \<Rightarrow> Telemetry | ForScope \<Rightarrow> Telemetry | ForCsv \<Rightarrow> Telemetry
      | ForParameterBrowser \<Rightarrow> Telemetry | ForBackup \<Rightarrow> Background | ForDiagnostics \<Rightarrow> Background)"

definition budget_rank :: "subscription_reason \<Rightarrow> nat" where
  "budget_rank r =
     (case r of ForDiagnostics \<Rightarrow> 0 | ForBackup \<Rightarrow> 1 | ForCsv \<Rightarrow> 2 | ForScope \<Rightarrow> 3 | ForDashboard \<Rightarrow> 4
      | ForParameterBrowser \<Rightarrow> 4 | ForFault \<Rightarrow> 5 | ForDriveState \<Rightarrow> 6)"

subsection \<open>Errors, subscriptions and configuration\<close>

datatype (plugins only: code size) poll_plan_error =
    InvalidSubscriberId string
  | ZeroMaximumAge
  | ZeroCadence
  | InvalidCadenceOrder
  | InvalidBudgetPpm u32
  | VersionOverflow
  | TimeOverflow
  | InvalidGroupedBlock

type_synonym subscriber_id = string

definition MAX_SUBSCRIBER_ID_BYTES :: nat where "MAX_SUBSCRIBER_ID_BYTES = 128"

definition ascii_alphanumeric :: "char \<Rightarrow> bool" where
  "ascii_alphanumeric c \<longleftrightarrow>
     (let n = of_char c :: nat in (48 \<le> n \<and> n \<le> 57) \<or> (65 \<le> n \<and> n \<le> 90) \<or> (97 \<le> n \<and> n \<le> 122))"

definition subscriber_id_parse :: "string \<Rightarrow> poll_plan_error + subscriber_id" where
  "subscriber_id_parse value =
     (if value = [] then Err (InvalidSubscriberId ''identifier is empty'')
      else if length value > MAX_SUBSCRIBER_ID_BYTES then Err (InvalidSubscriberId ''identifier is too long'')
      else if \<not> list_all (\<lambda>c. ascii_alphanumeric c \<or> c \<in> set ''-_.:'') value
      then Err (InvalidSubscriberId ''identifier contains a non-portable character'')
      else Ok value)"

record read_subscription =
  rsu_parameter_id :: parameter_id
  rsu_frequency :: frequency_class
  rsu_subscriber_id :: subscriber_id
  rsu_reason :: subscription_reason
  rsu_history_required :: bool
  rsu_maximum_age :: duration

definition read_subscription_new ::
  "parameter_id \<Rightarrow> frequency_class \<Rightarrow> subscriber_id \<Rightarrow> subscription_reason \<Rightarrow> bool \<Rightarrow> duration
     \<Rightarrow> poll_plan_error + read_subscription" where
  "read_subscription_new parameter_id frequency subscriber_id reason history_required maximum_age =
     (if maximum_age = 0 then Err ZeroMaximumAge
      else Ok \<lparr>rsu_parameter_id = parameter_id, rsu_frequency = frequency, rsu_subscriber_id = subscriber_id,
               rsu_reason = reason, rsu_history_required = history_required, rsu_maximum_age = maximum_age\<rparr>)"

record poll_cadences =
  pca_fast :: duration
  pca_normal :: duration
  pca_slow :: duration

definition poll_cadences_new :: "duration \<Rightarrow> duration \<Rightarrow> duration \<Rightarrow> poll_plan_error + poll_cadences" where
  "poll_cadences_new fast normal slow =
     (if fast = 0 \<or> normal = 0 \<or> slow = 0 then Err ZeroCadence
      else if \<not> (fast \<le> normal \<and> normal \<le> slow) then Err InvalidCadenceOrder
      else Ok \<lparr>pca_fast = fast, pca_normal = normal, pca_slow = slow\<rparr>)"

definition cadence_period :: "poll_cadences \<Rightarrow> frequency_class \<Rightarrow> duration option" where
  "cadence_period c f =
     (case f of FastPoll \<Rightarrow> Some (pca_fast c) | NormalPoll \<Rightarrow> Some (pca_normal c) | SlowPoll \<Rightarrow> Some (pca_slow c)
      | OnDemandPoll \<Rightarrow> None)"

definition poll_cadences_default :: poll_cadences where
  "poll_cadences_default =
     \<lparr>pca_fast = from_millis 100, pca_normal = from_secs 1, pca_slow = from_secs 10\<rparr>"

record poll_planner_config =
  ppc_cadences :: poll_cadences
  ppc_link :: link_settings
  ppc_measured_response_time :: duration
  ppc_device_margin :: duration
  ppc_budget_ppm :: u32

definition DEFAULT_POLL_BUDGET_PPM :: u32 where "DEFAULT_POLL_BUDGET_PPM = 700000"

definition poll_planner_config_new ::
  "poll_cadences \<Rightarrow> link_settings \<Rightarrow> duration \<Rightarrow> duration \<Rightarrow> u32 \<Rightarrow> poll_plan_error + poll_planner_config" where
  "poll_planner_config_new cadences link measured_response_time device_margin budget_ppm =
     (if budget_ppm = 0 \<or> budget_ppm > DEFAULT_POLL_BUDGET_PPM then Err (InvalidBudgetPpm budget_ppm)
      else Ok \<lparr>ppc_cadences = cadences, ppc_link = link, ppc_measured_response_time = measured_response_time,
               ppc_device_margin = device_margin, ppc_budget_ppm = budget_ppm\<rparr>)"

definition poll_planner_config_for_profile :: "'d validated_device_profile \<Rightarrow> poll_planner_config" where
  "poll_planner_config_for_profile profile =
     \<lparr>ppc_cadences = poll_cadences_default, ppc_link = vpr_default_link (vdp_protocol profile),
      ppc_measured_response_time = 0, ppc_device_margin = 0, ppc_budget_ppm = DEFAULT_POLL_BUDGET_PPM\<rparr>"

subsection \<open>Plans\<close>

record poll_parameter_slice =
  pps_parameter_id :: parameter_id
  pps_register_offset :: u16
  pps_register_count :: register_count
  pps_subscribers :: "subscriber_id list"
  pps_reasons :: "subscription_reason list"
  pps_history_required :: bool
  pps_maximum_age :: duration

record poll_block_rationale =
  pbr_parameters :: "parameter_id list"
  pbr_subscribers :: "subscriber_id list"
  pbr_reasons :: "subscription_reason list"

record poll_block =
  pbl_index :: u32
  pbl_slave :: slave_id
  pbl_function :: modbus_function
  pbl_block :: register_block
  pbl_request_class :: request_class
  pbl_frequency :: frequency_class
  pbl_period :: duration
  pbl_next_due :: instant
  pbl_maximum_age :: duration
  pbl_estimated_cost :: duration
  pbl_utilization_ppm :: u32
  pbl_parameters :: "poll_parameter_slice list"
  pbl_rationale :: poll_block_rationale

record poll_degradation =
  pdg_parameter_id :: parameter_id
  pdg_from :: frequency_class
  pdg_to :: frequency_class

datatype poll_rejection_reason = UnknownParameter | OnDemandOnly | MaximumAgeBelowFastCadence | BudgetExceeded

record poll_rejection =
  prj_parameter_id :: parameter_id
  prj_subscribers :: "subscriber_id list"
  prj_reason :: poll_rejection_reason

record poll_plan =
  ppl_version :: u64
  ppl_created_at :: instant
  ppl_slave :: slave_id
  ppl_blocks :: "poll_block list"
  ppl_degradations :: "poll_degradation list"
  ppl_rejections :: "poll_rejection list"
  ppl_utilization_ppm :: u32
  ppl_budget_ppm :: u32

subsection \<open>Demands\<close>

text \<open>\<open>min_by_key\<close> returns the first of several least elements, \<open>max_by_key\<close> the last of several greatest.\<close>

fun min_by_key :: "('a \<Rightarrow> 'b::linorder) \<Rightarrow> 'a list \<Rightarrow> 'a option" where
  "min_by_key f [] = None"
| "min_by_key f (x # xs) =
     (case min_by_key f xs of None \<Rightarrow> Some x | Some y \<Rightarrow> if f y < f x then Some y else Some x)"

fun max_by_key :: "('a \<Rightarrow> 'b::linorder) \<Rightarrow> 'a list \<Rightarrow> 'a option" where
  "max_by_key f [] = None"
| "max_by_key f (x # xs) =
     (case max_by_key f xs of None \<Rightarrow> Some x | Some y \<Rightarrow> if f x \<le> f y then Some y else Some x)"

lemma min_by_key_None [simp]: "min_by_key f xs = None \<longleftrightarrow> xs = []"
  by (cases xs) (auto split: option.splits)

lemma min_by_key_index:
  "min_by_key f xs = Some x \<Longrightarrow> x \<in> set xs \<and> (\<forall>y \<in> set xs. f x \<le> f y)"
  by (induction xs arbitrary: x) (force split: option.splits if_splits)+

lemma min_by_key_in: "min_by_key f xs = Some x \<Longrightarrow> x \<in> set xs"
  by (induction xs arbitrary: x) (auto split: option.splits if_splits)

record demand =
  dm_parameter_id :: parameter_id
  dm_block :: register_block
  dm_frequency :: frequency_class
  dm_request_class :: request_class
  dm_maximum_age :: duration
  dm_subscribers :: "subscriber_id list"
  dm_reasons :: "subscription_reason list"
  dm_history_required :: bool
  dm_do_not_bridge :: bool
  dm_maximum_bridge_gap :: u16
  dm_budget_rank :: nat

definition poll_class_rank :: "request_class \<Rightarrow> nat" where
  "poll_class_rank c =
     (case c of Background \<Rightarrow> 0 | Telemetry \<Rightarrow> 1 | TelemetryCritical \<Rightarrow> 2 | Interactive \<Rightarrow> 3
      | SafetyOneShot \<Rightarrow> 4)"

definition subscription_key :: "read_subscription \<Rightarrow> frequency_class \<times> subscription_reason \<times> subscriber_id" where
  "subscription_key s = (rsu_frequency s, rsu_reason s, rsu_subscriber_id s)"

definition period_exceeds :: "poll_cadences \<Rightarrow> frequency_class \<Rightarrow> duration \<Rightarrow> bool" where
  "period_exceeds c f age \<longleftrightarrow> (case cadence_period c f of None \<Rightarrow> False | Some p \<Rightarrow> p > age)"

function frequency_for_age :: "frequency_class \<Rightarrow> duration \<Rightarrow> poll_cadences \<Rightarrow> frequency_class option" where
  "frequency_for_age effective maximum_age cadences =
     (if period_exceeds cadences effective maximum_age
      then (case effective of
              SlowPoll \<Rightarrow> frequency_for_age NormalPoll maximum_age cadences
            | NormalPoll \<Rightarrow> frequency_for_age FastPoll maximum_age cadences
            | FastPoll \<Rightarrow> None
            | OnDemandPoll \<Rightarrow> None)
      else Some effective)"
  by pat_completeness auto
termination by (relation "measure (\<lambda>(f, a, c). frequency_rank f)") (auto simp: frequency_rank_def)

declare frequency_for_age.simps [simp del]

text \<open>
  \<open>Demand::from_parameter\<close>; the \<open>expect\<close>s on the non-empty list of cyclic subscriptions are the
  \<open>min_list\<close> and \<open>max_by_key\<close> of a list that the first branch has shown not to be empty.
\<close>

definition demand_from_parameter ::
  "'d validated_parameter \<Rightarrow> read_subscription list \<Rightarrow> poll_cadences
     \<Rightarrow> (poll_rejection_reason + demand option) option" where
  "demand_from_parameter p subscriptions cadences =
     (let cyclic = sort_key subscription_key (filter (\<lambda>s. rsu_frequency s \<noteq> OnDemandPoll) subscriptions) in
      case cyclic of
        [] \<Rightarrow> Some (Ok None)
      | first # _ \<Rightarrow>
          let requested = rsu_frequency first;
              maximum_age = min_list (map rsu_maximum_age cyclic)
          in case frequency_for_age requested maximum_age cadences of
               None \<Rightarrow> Some (Err MaximumAgeBelowFastCadence)
             | Some frequency \<Rightarrow>
                 (case max_by_key poll_class_rank (map (\<lambda>s. periodic_class (rsu_reason s)) cyclic) of
                    None \<Rightarrow> None
                  | Some request_class \<Rightarrow> Some (Ok (Some
                      \<lparr>dm_parameter_id = vp_id p, dm_block = vp_block p, dm_frequency = frequency,
                       dm_request_class = request_class, dm_maximum_age = maximum_age,
                       dm_subscribers = btree_set (map rsu_subscriber_id subscriptions),
                       dm_reasons = btree_set (map rsu_reason cyclic),
                       dm_history_required = list_ex rsu_history_required subscriptions,
                       dm_do_not_bridge = vp_do_not_bridge p,
                       dm_maximum_bridge_gap = vp_maximum_bridge_gap p,
                       dm_budget_rank = foldr max (map (\<lambda>s. budget_rank (rsu_reason s)) cyclic) 0\<rparr>))))"

subsection \<open>Cost on the wire\<close>

definition serial_bits_per_character :: "link_settings \<Rightarrow> nat" where
  "serial_bits_per_character l =
     1 + (case ls_data_bits l of Seven \<Rightarrow> 7 | Eight \<Rightarrow> 8) + (if ls_parity l = NoParity then 0 else 1) +
     (case ls_stop_bits l of One \<Rightarrow> 1 | Two \<Rightarrow> 2)"

definition poll_protocol_t35 :: "link_settings \<Rightarrow> duration" where
  "poll_protocol_t35 l =
     (if unat (ls_baud_rate l) > 19200 then from_micros 1750
      else from_micros (div_ceil (serial_bits_per_character l * 35 * 1000000) (unat (ls_baud_rate l) * 10)))"

text \<open>The products stay far below \<open>2 ^ 64\<close>, so that the saturating operations are exact.\<close>

definition estimate_read_transaction_cost ::
  "link_settings \<Rightarrow> register_block \<Rightarrow> duration \<Rightarrow> duration \<Rightarrow> duration \<Rightarrow> duration" where
  "estimate_read_transaction_cost l block minimum_delay response_time margin =
     (let response_bytes = 5 + unat (rb_count block) * 2;
          wire_bytes = 8 + response_bytes;
          wire_micros = div_ceil (wire_bytes * serial_bits_per_character l * 1000000) (unat (ls_baud_rate l));
          t35 = max (poll_protocol_t35 l) minimum_delay
      in duration_saturating_add
           (duration_saturating_add (duration_saturating_add (from_micros wire_micros) t35) response_time)
           margin)"

definition saturating_u32 :: "nat \<Rightarrow> u32" where
  "saturating_u32 n = of_nat (min n (2 ^ 32 - 1))"

definition poll_utilization_ppm :: "duration \<Rightarrow> duration \<Rightarrow> u32" where
  "poll_utilization_ppm cost period =
     (if period = 0 then 1000000
      else saturating_u32 (div_ceil (min (cost * 1000000) (2 ^ 128 - 1)) period))"

subsection \<open>Blocks\<close>

definition table_rank :: "modbus_table \<Rightarrow> nat" where
  "table_rank t = (case t of InputRegisters \<Rightarrow> 0 | HoldingRegisters \<Rightarrow> 1)"

definition group_key :: "demand \<Rightarrow> nat \<times> frequency_class \<times> nat" where
  "group_key d = (poll_class_rank (dm_request_class d), dm_frequency d, table_rank (rb_table (dm_block d)))"

definition read_function :: "modbus_table \<Rightarrow> modbus_function" where
  "read_function t = (case t of InputRegisters \<Rightarrow> ReadInputRegisters | HoldingRegisters \<Rightarrow> ReadHoldingRegisters)"

definition group_start :: "demand list \<Rightarrow> u16" where
  "group_start grp = min_list (map (\<lambda>d. rb_start (dm_block d)) grp)"

definition max_list :: "'a::linorder list \<Rightarrow> 'a" where
  "max_list xs = foldr max (butlast xs) (last xs)"

definition group_end :: "demand list \<Rightarrow> u16 option" where
  "group_end grp = map_option max_list (those (map (\<lambda>d. register_block_end (dm_block d)) grp))"

definition can_append :: "demand list \<Rightarrow> demand \<Rightarrow> bool option" where
  "can_append grp d =
     (if group_key (hd grp) \<noteq> group_key d then Some False
      else case (group_end grp, register_block_end (dm_block d)) of
          (Some end_address, Some next_end) \<Rightarrow>
            (let start = group_start grp;
                 combined_end = max end_address next_end;
                 next_start = rb_start (dm_block d)
             in if int (unat combined_end) - int (unat start) + 1 > 125 then Some False
                else if next_start \<le> sat_add end_address 1 then Some True
                else
                  let gap = next_start - end_address - 1;
                      group_gap = min_list (map dm_maximum_bridge_gap grp)
                  in Some (\<not> list_ex dm_do_not_bridge grp \<and> \<not> dm_do_not_bridge d \<and>
                           gap \<le> min group_gap (dm_maximum_bridge_gap d)))
        | _ \<Rightarrow> None)"

definition demand_position :: "demand \<Rightarrow> (nat \<times> frequency_class \<times> nat) \<times> u16 \<times> parameter_id" where
  "demand_position d = (group_key d, rb_start (dm_block d), dm_parameter_id d)"

fun group_demands :: "demand list list \<Rightarrow> demand list \<Rightarrow> demand list list option" where
  "group_demands groups [] = Some groups"
| "group_demands groups (d # ds) =
     (if groups = [] then group_demands [[d]] ds
      else case can_append (last groups) d of
          None \<Rightarrow> None
        | Some True \<Rightarrow> group_demands (butlast groups @ [last groups @ [d]]) ds
        | Some False \<Rightarrow> group_demands (groups @ [[d]]) ds)"

record draft_block =
  dbl_slave :: slave_id
  dbl_function :: modbus_function
  dbl_block :: register_block
  dbl_request_class :: request_class
  dbl_frequency :: frequency_class
  dbl_period :: duration
  dbl_maximum_age :: duration
  dbl_estimated_cost :: duration
  dbl_utilization_ppm :: u32
  dbl_parameters :: "demand list"

record draft_plan =
  dpl_blocks :: "draft_block list"
  dpl_utilization_ppm :: u32

text \<open>The loop body of \<open>build_blocks\<close> over one group, and the sum of the blocks' utilization.\<close>

definition draft_group ::
  "'d validated_device_profile \<Rightarrow> poll_planner_config \<Rightarrow> demand list \<Rightarrow> (poll_plan_error + draft_block) option" where
  "draft_group profile config parameters =
     (case group_end parameters of
        None \<Rightarrow> None
      | Some end_address \<Rightarrow>
          let first = hd parameters;
              start = group_start parameters;
              table = rb_table (dm_block first);
              function = read_function table
          in case Option.bind (checked_sub_word end_address start) (\<lambda>span. checked_add_word span 1) of
               None \<Rightarrow> Some (Err InvalidGroupedBlock)
             | Some count \<Rightarrow>
                 if count = 0 then Some (Err InvalidGroupedBlock)
                 else case register_block_new table start count function of
                   Inl _ \<Rightarrow> Some (Err InvalidGroupedBlock)
                 | Inr block \<Rightarrow>
                     (case cadence_period (ppc_cadences config) (dm_frequency first) of
                        None \<Rightarrow> None
                      | Some period \<Rightarrow>
                          let cost = estimate_read_transaction_cost (ppc_link config) block
                                (vpr_minimum_inter_frame_delay (vdp_protocol profile))
                                (ppc_measured_response_time config) (ppc_device_margin config)
                          in Some (Ok
                            \<lparr>dbl_slave = ls_slave_id (ppc_link config), dbl_function = function, dbl_block = block,
                             dbl_request_class = dm_request_class first, dbl_frequency = dm_frequency first,
                             dbl_period = period, dbl_maximum_age = min_list (map dm_maximum_age parameters),
                             dbl_estimated_cost = cost, dbl_utilization_ppm = poll_utilization_ppm cost period,
                             dbl_parameters = parameters\<rparr>)))"

fun draft_groups ::
  "'d validated_device_profile \<Rightarrow> poll_planner_config \<Rightarrow> demand list list \<Rightarrow> draft_plan
     \<Rightarrow> (poll_plan_error + draft_plan) option" where
  "draft_groups profile config [] draft = Some (Ok draft)"
| "draft_groups profile config (parameters # groups) draft =
     (case draft_group profile config parameters of
        None \<Rightarrow> None
      | Some (Inl e) \<Rightarrow> Some (Err e)
      | Some (Inr block) \<Rightarrow>
          draft_groups profile config groups
            \<lparr>dpl_blocks = dpl_blocks draft @ [block],
             dpl_utilization_ppm = sat_add (dpl_utilization_ppm draft) (dbl_utilization_ppm block)\<rparr>)"

definition build_blocks ::
  "'d validated_device_profile \<Rightarrow> demand list \<Rightarrow> poll_planner_config \<Rightarrow> (poll_plan_error + draft_plan) option" where
  "build_blocks profile demands config =
     (case group_demands [] (sort_key demand_position demands) of
        None \<Rightarrow> None
      | Some groups \<Rightarrow> draft_groups profile config groups \<lparr>dpl_blocks = [], dpl_utilization_ppm = 0\<rparr>)"

text \<open>
  The order of the finished plan: shorter periods first, then the higher request class, the table,
  and the address. The ranks are at most 4, so that \<open>4 - rank\<close> orders them downwards.
\<close>

definition draft_position :: "draft_block \<Rightarrow> duration \<times> nat \<times> nat \<times> u16" where
  "draft_position b =
     (dbl_period b, 4 - poll_class_rank (dbl_request_class b), table_rank (rb_table (dbl_block b)),
      rb_start (dbl_block b))"

definition proportional_duration :: "duration \<Rightarrow> nat \<Rightarrow> nat \<Rightarrow> duration" where
  "proportional_duration period index how_many =
     (if index = 0 \<or> how_many \<le> 1 then 0
      else min (min (period * index) (2 ^ 128 - 1) div how_many) (2 ^ 64 - 1))"

definition poll_slice :: "register_block \<Rightarrow> demand \<Rightarrow> poll_plan_error + poll_parameter_slice" where
  "poll_slice block d =
     (case checked_sub_word (rb_start (dm_block d)) (rb_start block) of
        None \<Rightarrow> Err InvalidGroupedBlock
      | Some offset \<Rightarrow> Ok
          \<lparr>pps_parameter_id = dm_parameter_id d, pps_register_offset = offset,
           pps_register_count = rb_count (dm_block d), pps_subscribers = dm_subscribers d,
           pps_reasons = dm_reasons d, pps_history_required = dm_history_required d,
           pps_maximum_age = dm_maximum_age d\<rparr>)"

fun poll_slices :: "register_block \<Rightarrow> demand list \<Rightarrow> poll_plan_error + poll_parameter_slice list" where
  "poll_slices block [] = Ok []"
| "poll_slices block (d # ds) =
     and_then (poll_slice block d) (\<lambda>s. and_then (poll_slices block ds) (\<lambda>ss. Ok (s # ss)))"

definition finish_block ::
  "instant \<Rightarrow> nat \<Rightarrow> nat \<Rightarrow> nat \<Rightarrow> draft_block \<Rightarrow> poll_plan_error + poll_block" where
  "finish_block now index seen how_many draft =
     (case instant_checked_add now (proportional_duration (dbl_period draft) seen how_many) of
        None \<Rightarrow> Err TimeOverflow
      | Some next_due \<Rightarrow>
          and_then (poll_slices (dbl_block draft) (dbl_parameters draft)) (\<lambda>unsorted.
            let slices = sort_key (\<lambda>s. (pps_register_offset s, pps_parameter_id s)) unsorted in
            Ok \<lparr>pbl_index = saturating_u32 index, pbl_slave = dbl_slave draft, pbl_function = dbl_function draft,
                pbl_block = dbl_block draft, pbl_request_class = dbl_request_class draft,
                pbl_frequency = dbl_frequency draft, pbl_period = dbl_period draft, pbl_next_due = next_due,
                pbl_maximum_age = dbl_maximum_age draft, pbl_estimated_cost = dbl_estimated_cost draft,
                pbl_utilization_ppm = dbl_utilization_ppm draft, pbl_parameters = slices,
                pbl_rationale =
                  \<lparr>pbr_parameters = map pps_parameter_id slices,
                   pbr_subscribers = btree_set (concat (map dm_subscribers (dbl_parameters draft))),
                   pbr_reasons = btree_set (concat (map dm_reasons (dbl_parameters draft)))\<rparr>\<rparr>))"

text \<open>
  \<open>total_per_period\<close> counts all drafts, \<open>seen_per_period\<close> those before the current one.
\<close>

definition same_period :: "duration \<Rightarrow> draft_block list \<Rightarrow> nat" where
  "same_period p ds = length (filter (\<lambda>d. dbl_period d = p) ds)"

fun finish_blocks ::
  "instant \<Rightarrow> draft_block list \<Rightarrow> draft_block list \<Rightarrow> draft_block list \<Rightarrow> poll_plan_error + poll_block list" where
  "finish_blocks now all earlier [] = Ok []"
| "finish_blocks now all earlier (d # ds) =
     and_then (finish_block now (length earlier) (same_period (dbl_period d) earlier) (same_period (dbl_period d) all) d)
       (\<lambda>b. and_then (finish_blocks now all (earlier @ [d]) ds) (\<lambda>bs. Ok (b # bs)))"

definition finalize_blocks :: "draft_block list \<Rightarrow> instant \<Rightarrow> poll_plan_error + poll_block list" where
  "finalize_blocks drafts now =
     (let sorted = sort_key draft_position drafts in finish_blocks now sorted [] sorted)"

subsection \<open>Building a plan\<close>

definition group_subscriptions :: "read_subscription list \<Rightarrow> (parameter_id, read_subscription list) btree_map" where
  "group_subscriptions subs =
     foldl (\<lambda>m s. bt_insert (rsu_parameter_id s)
              ((case bt_get m (rsu_parameter_id s) of None \<Rightarrow> [] | Some xs \<Rightarrow> xs) @ [s]) m) [] subs"

type_synonym poll_intake = "(parameter_id, demand) btree_map \<times> poll_rejection list"

definition take_in_parameter ::
  "'d validated_device_profile \<Rightarrow> poll_cadences \<Rightarrow> parameter_id \<Rightarrow> read_subscription list \<Rightarrow> poll_intake
     \<Rightarrow> poll_intake option" where
  "take_in_parameter profile cadences parameter_id unsorted intake =
     (case intake of (active, rejections) \<Rightarrow>
       let subs = sort_key subscription_key unsorted;
           reject = (\<lambda>reason. \<lparr>prj_parameter_id = parameter_id,
                        prj_subscribers = btree_set (map rsu_subscriber_id subs), prj_reason = reason\<rparr>)
       in case profile_parameter profile parameter_id of
            None \<Rightarrow> Some (active, rejections @ [reject UnknownParameter])
          | Some p \<Rightarrow>
              (case demand_from_parameter p subs cadences of
                 None \<Rightarrow> None
               | Some (Inr (Some d)) \<Rightarrow> Some (bt_insert parameter_id d active, rejections)
               | Some (Inr None) \<Rightarrow> Some (active, rejections @ [reject OnDemandOnly])
               | Some (Inl reason) \<Rightarrow> Some (active, rejections @ [reject reason])))"

fun take_in ::
  "'d validated_device_profile \<Rightarrow> poll_cadences \<Rightarrow> (parameter_id \<times> read_subscription list) list \<Rightarrow> poll_intake
     \<Rightarrow> poll_intake option" where
  "take_in profile cadences [] intake = Some intake"
| "take_in profile cadences ((i, subs) # rest) intake =
     (case take_in_parameter profile cadences i subs intake of
        None \<Rightarrow> None
      | Some intake' \<Rightarrow> take_in profile cadences rest intake')"

definition demand_priority_key :: "demand \<Rightarrow> nat \<times> nat \<times> parameter_id" where
  "demand_priority_key d = (poll_class_rank (dm_request_class d), dm_budget_rank d, dm_parameter_id d)"

text \<open>\<open>get_mut\<close> followed by an assignment.\<close>

fun bt_update :: "'k \<Rightarrow> ('v \<Rightarrow> 'v) \<Rightarrow> ('k, 'v) btree_map \<Rightarrow> ('k, 'v) btree_map" where
  "bt_update k f [] = []"
| "bt_update k f ((k', v) # m) = (if k = k' then (k', f v) # m else (k', v) # bt_update k f m)"

definition slower_frequency :: "poll_cadences \<Rightarrow> demand \<Rightarrow> frequency_class option" where
  "slower_frequency cadences d =
     (case next_slower (dm_frequency d) of
        None \<Rightarrow> None
      | Some f \<Rightarrow> (case cadence_period cadences f of
                   None \<Rightarrow> None
                 | Some period \<Rightarrow> if period \<le> dm_maximum_age d then Some f else None))"

text \<open>Every turn of the loop slows a demand down or removes it.\<close>

definition demand_weight :: "demand \<Rightarrow> nat" where
  "demand_weight d = 4 - frequency_rank (dm_frequency d)"

definition active_weight :: "(parameter_id, demand) btree_map \<Rightarrow> nat" where
  "active_weight m = sum_list (map (demand_weight \<circ> snd) m)"

lemma bt_update_weight:
  "bt_get m k = Some d \<Longrightarrow> demand_weight (f d) < demand_weight d \<Longrightarrow>
     active_weight (bt_update k f m) < active_weight m"
  by (induction k f m rule: bt_update.induct) (auto simp: active_weight_def split: if_splits)

lemma active_weight_remove_le: "active_weight (bt_remove k m) \<le> active_weight m"
  by (induction m) (auto simp: active_weight_def bt_remove_def)

lemma demand_weight_pos: "0 < demand_weight d"
  by (cases "dm_frequency d") (simp_all add: demand_weight_def frequency_rank_def)

lemma bt_remove_weight: "bt_get m k = Some d \<Longrightarrow> active_weight (bt_remove k m) < active_weight m"
proof (induction m)
  case (Cons e m)
  show ?case
  proof (cases "fst e = k")
    case True
    have "active_weight (bt_remove k m) \<le> active_weight m" by (rule active_weight_remove_le)
    with True demand_weight_pos [of "snd e"] show ?thesis
      by (simp add: active_weight_def bt_remove_def)
  next
    case False
    with Cons show ?thesis by (cases e) (simp add: active_weight_def bt_remove_def)
  qed
qed simp

lemma slower_frequency_weight:
  "slower_frequency cadences d = Some f \<Longrightarrow> demand_weight (d\<lparr>dm_frequency := f\<rparr>) < demand_weight d"
  by (cases "dm_frequency d")
    (auto simp: slower_frequency_def next_slower_def demand_weight_def frequency_rank_def split: option.splits if_splits)

function fit_budget ::
  "'d validated_device_profile \<Rightarrow> poll_planner_config \<Rightarrow> (parameter_id, demand) btree_map
     \<Rightarrow> poll_degradation list \<Rightarrow> poll_rejection list
     \<Rightarrow> (poll_plan_error + draft_plan \<times> poll_degradation list \<times> poll_rejection list) option" where
  "fit_budget profile config active degradations rejections =
     (case build_blocks profile (map snd active) config of
        None \<Rightarrow> None
      | Some (Inl e) \<Rightarrow> Some (Err e)
      | Some (Inr draft) \<Rightarrow>
          if dpl_utilization_ppm draft \<le> ppc_budget_ppm config \<or> active = []
          then Some (Ok (draft, degradations, rejections))
          else case min_by_key demand_priority_key (map snd active) of
              None \<Rightarrow> None
            | Some candidate \<Rightarrow>
                (case bt_get active (dm_parameter_id candidate) of
                   None \<Rightarrow> None
                 | Some d \<Rightarrow>
                     (case slower_frequency (ppc_cadences config) d of
                        Some f \<Rightarrow>
                          fit_budget profile config
                            (bt_update (dm_parameter_id candidate) (\<lambda>d. d\<lparr>dm_frequency := f\<rparr>) active)
                            (degradations @ [\<lparr>pdg_parameter_id = dm_parameter_id candidate,
                                              pdg_from = dm_frequency d, pdg_to = f\<rparr>])
                            rejections
                      | None \<Rightarrow>
                          fit_budget profile config (bt_remove (dm_parameter_id candidate) active) degradations
                            (rejections @ [\<lparr>prj_parameter_id = dm_parameter_id d, prj_subscribers = dm_subscribers d,
                                            prj_reason = BudgetExceeded\<rparr>]))))"
  by pat_completeness auto
termination
  by (relation "measure (\<lambda>(profile, config, active, degradations, rejections). active_weight active)")
    (auto intro: bt_update_weight slower_frequency_weight bt_remove_weight)

declare fit_budget.simps [simp del]

definition build_plan ::
  "u64 \<Rightarrow> 'd validated_device_profile \<Rightarrow> read_subscription list \<Rightarrow> poll_planner_config \<Rightarrow> instant
     \<Rightarrow> (poll_plan_error + poll_plan) option" where
  "build_plan version profile subscriptions config now =
     (case take_in profile (ppc_cadences config) (group_subscriptions subscriptions) ([], []) of
        None \<Rightarrow> None
      | Some (active, rejections) \<Rightarrow>
          (case fit_budget profile config active [] rejections of
             None \<Rightarrow> None
           | Some (Inl e) \<Rightarrow> Some (Err e)
           | Some (Inr (draft, degradations, rejections)) \<Rightarrow>
               Some (and_then (finalize_blocks (dpl_blocks draft) now) (\<lambda>blocks. Ok
                 \<lparr>ppl_version = version, ppl_created_at = now, ppl_slave = ls_slave_id (ppc_link config),
                  ppl_blocks = blocks, ppl_degradations = degradations, ppl_rejections = rejections,
                  ppl_utilization_ppm = dpl_utilization_ppm draft, ppl_budget_ppm = ppc_budget_ppm config\<rparr>))))"

definition poll_planner_build ::
  "'d validated_device_profile \<Rightarrow> read_subscription list \<Rightarrow> poll_planner_config \<Rightarrow> instant \<Rightarrow> u64
     \<Rightarrow> (poll_plan_error + poll_plan) option \<times> u64" where
  "poll_planner_build profile subscriptions config now next_version =
     (case checked_add_word next_version 1 of
        None \<Rightarrow> (Some (Err VersionOverflow), next_version)
      | Some version \<Rightarrow> (build_plan version profile subscriptions config now, version))"

end
