(* ===== verification/Poll_Facts.thy ===== *)
theory Poll_Facts
  imports Poll_Planner "HOL-Library.Multiset"
begin

text \<open>
  What each stage of the planner keeps: the merged demands, the loop that fits the budget, the
  grouping into blocks, and the finished blocks.
\<close>

subsection \<open>Lists\<close>

lemma min_list_le: "x \<in> set xs \<Longrightarrow> min_list xs \<le> x" for x :: "'a::linorder"
  using min_list_Min [of xs] by (metis Min_le List.finite_set empty_iff empty_set)

lemma min_list_in: "xs \<noteq> [] \<Longrightarrow> min_list xs \<in> set xs" for xs :: "'a::linorder list"
  using min_list_Min [of xs] Min_in [of "set xs"] by simp

lemma foldr_max_ge: "x \<in> set xs \<or> x = a \<Longrightarrow> x \<le> foldr max xs a" for x :: "'a::linorder"
  by (induction xs) (auto simp: le_max_iff_disj)

lemma foldr_max_in: "foldr max xs a \<in> insert a (set xs)" for a :: "'a::linorder"
  by (induction xs) (auto simp: max_def)

lemma max_list_ge: "x \<in> set xs \<Longrightarrow> x \<le> max_list xs"
  unfolding max_list_def
  by (rule foldr_max_ge) (metis append_butlast_last_id empty_iff empty_set in_set_conv_decomp list.set_intros(1)
      rotate1.simps(2) set_ConsD set_rotate1)

lemma max_list_in: "xs \<noteq> [] \<Longrightarrow> max_list xs \<in> set xs"
  using foldr_max_in [of "butlast xs" "last xs"] in_set_butlastD [of "max_list xs" xs]
  by (auto simp: max_list_def)

lemma max_by_key_None [simp]: "max_by_key f xs = None \<longleftrightarrow> xs = []"
  by (cases xs) (auto split: option.splits)

lemma map_fst_bt_update [simp]: "map fst (bt_update k f m) = map fst m"
  by (induction k f m rule: bt_update.induct) auto

lemma bt_wf_update: "bt_wf m \<Longrightarrow> bt_wf (bt_update k f m)"
  by (simp add: bt_wf_def)

lemma set_bt_update: "e \<in> set (bt_update k f m) \<Longrightarrow> e \<in> set m \<or> (\<exists>v. bt_get m k = Some v \<and> e = (k, f v))"
  by (induction k f m rule: bt_update.induct) (auto split: if_splits)

lemma mset_fst_bt_remove:
  "bt_wf m \<Longrightarrow> bt_get m k = Some v \<Longrightarrow> mset (map fst m) = add_mset k (mset (map fst (bt_remove k m)))"
proof (induction m)
  case (Cons e m)
  have wf: "bt_wf m" using Cons.prems(1) by (simp add: bt_wf_def)
  show ?case
  proof (cases "fst e = k")
    case True
    have "k \<notin> set (map fst m)" using Cons.prems(1) True bt_wf_distinct [of "e # m"] by auto
    then have "bt_remove k m = m" by (auto simp: bt_remove_def filter_id_conv)
    with True show ?thesis by (simp add: bt_remove_def)
  next
    case False
    with Cons wf show ?thesis by (cases e) (simp add: bt_remove_def)
  qed
qed simp

lemma sum_list_mset: "mset xs = mset ys \<Longrightarrow> sum_list (map f xs) = sum_list (map f ys)"
  for f :: "'a \<Rightarrow> 'b::comm_monoid_add"
proof -
  assume "mset xs = mset ys"
  then have "sum_mset (mset (map f xs)) = sum_mset (mset (map f ys))" by simp
  then show ?thesis by (simp only: sum_mset_sum_list)
qed

lemma mset_concat_map: "mset xs = mset ys \<Longrightarrow> mset (concat (map f xs)) = mset (concat (map f ys))"
  using sum_list_mset [of xs ys "\<lambda>x. mset (f x)"] by (simp add: mset_concat comp_def)

lemma set_bt_remove: "e \<in> set (bt_remove k m) \<Longrightarrow> e \<in> set m"
  by (simp add: bt_remove_def)

subsection \<open>Merging the subscriptions\<close>

lemma group_subscriptions_snoc:
  "group_subscriptions (subs @ [s]) =
     bt_insert (rsu_parameter_id s)
       ((case bt_get (group_subscriptions subs) (rsu_parameter_id s) of None \<Rightarrow> [] | Some xs \<Rightarrow> xs) @ [s])
       (group_subscriptions subs)"
  by (simp add: group_subscriptions_def)

lemma group_subscriptions_wf: "bt_wf (group_subscriptions subs)"
proof (induction subs rule: rev_induct)
  case Nil
  show ?case by (simp add: group_subscriptions_def)
next
  case (snoc s subs)
  then show ?case by (simp add: group_subscriptions_snoc bt_wf_insert)
qed

lemma group_subscriptions_get:
  "bt_get (group_subscriptions subs) k =
     (if k \<in> rsu_parameter_id ` set subs then Some (filter (\<lambda>s. rsu_parameter_id s = k) subs) else None)"
proof (induction subs rule: rev_induct)
  case Nil
  show ?case by (simp add: group_subscriptions_def)
next
  case (snoc s subs)
  have "k \<notin> rsu_parameter_id ` set subs \<Longrightarrow> filter (\<lambda>s. rsu_parameter_id s = k) subs = []"
    by (auto simp: filter_empty_conv)
  with snoc show ?case by (auto simp: group_subscriptions_snoc)
qed

lemma group_subscriptions_in:
  "(k, xs) \<in> set (group_subscriptions subs) \<Longrightarrow>
     xs = filter (\<lambda>s. rsu_parameter_id s = k) subs \<and> k \<in> rsu_parameter_id ` set subs"
  using bt_wf_get_iff [OF group_subscriptions_wf, of subs k xs]
  by (auto simp: group_subscriptions_get split: if_splits)

lemma group_subscriptions_keys:
  "mset (map fst (group_subscriptions subs)) = mset_set (rsu_parameter_id ` set subs)"
proof -
  have "set (map fst (group_subscriptions subs)) = rsu_parameter_id ` set subs"
    using group_subscriptions_get [of subs] by (auto simp: dom_map_of_conv_image_fst [symmetric] dom_def)
  moreover have "mset (map fst (group_subscriptions subs)) = mset_set (set (map fst (group_subscriptions subs)))"
    using bt_wf_distinct [OF group_subscriptions_wf, of subs] by (rule mset_set_set [symmetric])
  ultimately show ?thesis by simp
qed

lemma frequency_for_age_Some:
  "frequency_for_age e age c = Some f \<Longrightarrow> e \<noteq> OnDemandPoll \<Longrightarrow>
     (\<exists>p. cadence_period c f = Some p \<and> p \<le> age) \<and> frequency_rank f \<le> frequency_rank e"
proof (induction e age c rule: frequency_for_age.induct)
  case (1 e age c)
  show ?case
  proof (cases "period_exceeds c e age")
    case True
    with 1 show ?thesis
      by (subst (asm) (3) frequency_for_age.simps)
        (cases e; auto simp: frequency_rank_def)
  next
    case False
    with 1(3,4) show ?thesis
      by (subst (asm) frequency_for_age.simps)
        (cases e; auto simp: period_exceeds_def cadence_period_def)
  qed
qed

text \<open>What a demand keeps of the subscriptions of its parameter.\<close>

definition demand_fits :: "poll_cadences \<Rightarrow> demand \<Rightarrow> bool" where
  "demand_fits c d \<longleftrightarrow> (\<exists>p. cadence_period c (dm_frequency d) = Some p \<and> p \<le> dm_maximum_age d)"

definition cyclic_subscriptions :: "read_subscription list \<Rightarrow> parameter_id \<Rightarrow> read_subscription set" where
  "cyclic_subscriptions subs k =
     {s \<in> set subs. rsu_parameter_id s = k \<and> rsu_frequency s \<noteq> OnDemandPoll}"

definition demand_serves ::
  "'d validated_device_profile \<Rightarrow> read_subscription list \<Rightarrow> parameter_id \<Rightarrow> demand \<Rightarrow> bool" where
  "demand_serves profile subs k d \<longleftrightarrow>
     dm_parameter_id d = k \<and>
     (\<exists>p. profile_parameter profile k = Some p \<and> dm_block d = vp_block p \<and>
        dm_do_not_bridge d = vp_do_not_bridge p \<and> dm_maximum_bridge_gap d = vp_maximum_bridge_gap p) \<and>
     (\<forall>s \<in> cyclic_subscriptions subs k. dm_maximum_age d \<le> rsu_maximum_age s) \<and>
     (\<forall>s \<in> set subs. rsu_parameter_id s = k \<longrightarrow> rsu_subscriber_id s \<in> set (dm_subscribers d))"

definition profile_keyed :: "'d validated_device_profile \<Rightarrow> bool" where
  "profile_keyed profile \<longleftrightarrow> (\<forall>(k, p) \<in> set (vdp_parameters profile). vp_id p = k)"

lemma profile_keyedD: "profile_keyed profile \<Longrightarrow> profile_parameter profile k = Some p \<Longrightarrow> vp_id p = k"
  by (auto simp: profile_keyed_def profile_parameter_def dest!: map_of_SomeD)

lemma demand_from_parameter_unfold:
  assumes "cyc = sort_key subscription_key (filter (\<lambda>s. rsu_frequency s \<noteq> OnDemandPoll) subs)"
  obtains (none) "cyc = []" "demand_from_parameter p subs c = Some (Ok None)"
  | (too_young) x xs where "cyc = x # xs" "demand_from_parameter p subs c = Some (Err MaximumAgeBelowFastCadence)"
  | (demand) x xs f r where "cyc = x # xs"
      "frequency_for_age (rsu_frequency x) (min_list (map rsu_maximum_age cyc)) c = Some f"
      "demand_from_parameter p subs c = Some (Ok (Some
         \<lparr>dm_parameter_id = vp_id p, dm_block = vp_block p, dm_frequency = f, dm_request_class = r,
          dm_maximum_age = min_list (map rsu_maximum_age cyc),
          dm_subscribers = btree_set (map rsu_subscriber_id subs), dm_reasons = btree_set (map rsu_reason cyc),
          dm_history_required = list_ex rsu_history_required subs, dm_do_not_bridge = vp_do_not_bridge p,
          dm_maximum_bridge_gap = vp_maximum_bridge_gap p,
          dm_budget_rank = foldr max (map (\<lambda>s. budget_rank (rsu_reason s)) cyc) 0\<rparr>))"
proof (cases cyc)
  case Nil
  with assms none show ?thesis by (simp add: demand_from_parameter_def)
next
  case (Cons x xs)
  show ?thesis
  proof (cases "frequency_for_age (rsu_frequency x) (min_list (map rsu_maximum_age cyc)) c")
    case None
    with Cons too_young show ?thesis
      by (simp add: demand_from_parameter_def flip: assms)
  next
    case (Some f)
    obtain r where "max_by_key poll_class_rank (map (\<lambda>s. periodic_class (rsu_reason s)) cyc) = Some r"
      using Cons max_by_key_None [of poll_class_rank "map (\<lambda>s. periodic_class (rsu_reason s)) cyc"] by fastforce
    with Cons Some show ?thesis
      by (intro demand [OF Cons Some, of r]) (simp add: demand_from_parameter_def flip: assms)
  qed
qed

lemma demand_from_parameter_Some:
  assumes "demand_from_parameter p subs c = Some (Ok (Some d))"
  shows "dm_parameter_id d = vp_id p" "dm_block d = vp_block p" "dm_do_not_bridge d = vp_do_not_bridge p"
    "dm_maximum_bridge_gap d = vp_maximum_bridge_gap p" "demand_fits c d"
    "set (dm_subscribers d) = rsu_subscriber_id ` set subs"
    "s \<in> set subs \<Longrightarrow> rsu_frequency s \<noteq> OnDemandPoll \<Longrightarrow> dm_maximum_age d \<le> rsu_maximum_age s"
proof -
  define cyc where "cyc = sort_key subscription_key (filter (\<lambda>s. rsu_frequency s \<noteq> OnDemandPoll) subs)"
  from assms obtain x xs f where cyc: "cyc = x # xs"
    and f: "frequency_for_age (rsu_frequency x) (min_list (map rsu_maximum_age cyc)) c = Some f"
    and d: "dm_frequency d = f" "dm_maximum_age d = min_list (map rsu_maximum_age cyc)"
      "dm_parameter_id d = vp_id p" "dm_block d = vp_block p" "dm_do_not_bridge d = vp_do_not_bridge p"
      "dm_maximum_bridge_gap d = vp_maximum_bridge_gap p"
      "dm_subscribers d = btree_set (map rsu_subscriber_id subs)"
    by (cases rule: demand_from_parameter_unfold [OF cyc_def, of p c]) auto
  have set: "set cyc = {s \<in> set subs. rsu_frequency s \<noteq> OnDemandPoll}"
    by (simp add: cyc_def)
  with cyc have "rsu_frequency x \<noteq> OnDemandPoll" by auto
  with frequency_for_age_Some [OF f] d show "demand_fits c d" by (auto simp: demand_fits_def)
  show "dm_parameter_id d = vp_id p" "dm_block d = vp_block p" "dm_do_not_bridge d = vp_do_not_bridge p"
    "dm_maximum_bridge_gap d = vp_maximum_bridge_gap p" "set (dm_subscribers d) = rsu_subscriber_id ` set subs"
    using d by auto
  show "dm_maximum_age d \<le> rsu_maximum_age s" if "s \<in> set subs" "rsu_frequency s \<noteq> OnDemandPoll"
    using that set d(2) min_list_le [of "rsu_maximum_age s" "map rsu_maximum_age cyc"] by auto
qed

lemma demand_from_parameter_total: "demand_from_parameter p subs c \<noteq> None"
  by (cases rule: demand_from_parameter_unfold [OF refl, of subs p c]) auto

subsection \<open>Taking the subscriptions in\<close>

definition active_ok ::
  "'d validated_device_profile \<Rightarrow> poll_cadences \<Rightarrow> read_subscription list \<Rightarrow> (parameter_id, demand) btree_map
     \<Rightarrow> bool" where
  "active_ok profile c subs active \<longleftrightarrow>
     bt_wf active \<and> (\<forall>(k, d) \<in> set active. demand_serves profile subs k d \<and> demand_fits c d)"

abbreviation accounted_ids :: "(parameter_id, demand) btree_map \<Rightarrow> poll_rejection list \<Rightarrow> parameter_id multiset" where
  "accounted_ids active rejections \<equiv> mset (map fst active) + mset (map prj_parameter_id rejections)"

lemma set_bt_insert: "e \<in> set (bt_insert k v m) \<Longrightarrow> e = (k, v) \<or> e \<in> set m"
  by (induction k v m rule: bt_insert.induct) (auto split: if_splits)

lemma mset_fst_bt_insert: "k \<notin> set (map fst m) \<Longrightarrow> mset (map fst (bt_insert k v m)) = add_mset k (mset (map fst m))"
  by (induction k v m rule: bt_insert.induct) auto

lemma take_in_parameter_inv:
  assumes "profile_keyed profile" and "active_ok profile c subs active"
    and "xs = filter (\<lambda>s. rsu_parameter_id s = k) subs" and "k \<notin> set (map fst active)"
    and "take_in_parameter profile c k xs (active, rejections) = Some (active', rejections')"
  shows "active_ok profile c subs active'"
    and "accounted_ids active' rejections' = add_mset k (accounted_ids active rejections)"
    and "set (map fst active') \<subseteq> insert k (set (map fst active))"
proof -
  let ?subs = "sort_key subscription_key xs"
  consider (reject) r where "active' = active" "rejections' = rejections @ [r]" "prj_parameter_id r = k"
    | (accept) p d where "profile_parameter profile k = Some p" "demand_from_parameter p ?subs c = Some (Ok (Some d))"
      "active' = bt_insert k d active" "rejections' = rejections"
    using assms(5)
    by (auto simp: take_in_parameter_def Let_def split: option.splits sum.splits)
  then have "active_ok profile c subs active' \<and>
      accounted_ids active' rejections' = add_mset k (accounted_ids active rejections) \<and>
      set (map fst active') \<subseteq> insert k (set (map fst active))"
  proof cases
    case reject
    with assms(2) show ?thesis by auto
  next
    case accept
    note d = demand_from_parameter_Some [OF accept(2)]
    have "demand_serves profile subs k d"
      using d accept(1) profile_keyedD [OF assms(1) accept(1)] assms(3)
      by (auto simp: demand_serves_def cyclic_subscriptions_def)
    with d(5) assms(2) accept show ?thesis
      using mset_fst_bt_insert [OF assms(4), of d] set_bt_insert_keys [of k d active]
      by (auto simp: active_ok_def bt_wf_insert dest!: set_bt_insert)
  qed
  then show "active_ok profile c subs active'"
    and "accounted_ids active' rejections' = add_mset k (accounted_ids active rejections)"
    and "set (map fst active') \<subseteq> insert k (set (map fst active))" by auto
qed

lemma take_in_inv:
  assumes "profile_keyed profile" and "active_ok profile c subs active"
    and "\<forall>(k, xs) \<in> set groups. xs = filter (\<lambda>s. rsu_parameter_id s = k) subs"
    and "distinct (map fst groups)" and "set (map fst groups) \<inter> set (map fst active) = {}"
    and "take_in profile c groups (active, rejections) = Some (active', rejections')"
  shows "active_ok profile c subs active' \<and>
    accounted_ids active' rejections' = mset (map fst groups) + accounted_ids active rejections"
  using assms
proof (induction groups arbitrary: active rejections)
  case (Cons g groups)
  obtain k xs where g: "g = (k, xs)" by fastforce
  obtain active1 rejections1 where t: "take_in_parameter profile c k xs (active, rejections) = Some (active1, rejections1)"
    using Cons.prems(6) g by (auto split: option.splits)
  have xs: "xs = filter (\<lambda>s. rsu_parameter_id s = k) subs" and k: "k \<notin> set (map fst active)"
    using Cons.prems g by auto
  note inv = take_in_parameter_inv [OF Cons.prems(1,2) xs k t]
  have "k \<notin> set (map fst groups)" and "set (map fst groups) \<inter> set (map fst active) = {}"
    using Cons.prems(4,5) g by auto
  then have disjoint: "set (map fst groups) \<inter> set (map fst active1) = {}"
    using inv(3) by blast
  have rest: "take_in profile c groups (active1, rejections1) = Some (active', rejections')"
    using Cons.prems(6) g t by simp
  have "\<forall>(k, xs) \<in> set groups. xs = filter (\<lambda>s. rsu_parameter_id s = k) subs" and "distinct (map fst groups)"
    using Cons.prems(3,4) by simp_all
  from Cons.IH [OF Cons.prems(1) inv(1) this disjoint rest] inv(2) g show ?case
    by (simp add: ac_simps)
qed simp

lemma take_in_total: "\<exists>active' rejections'. take_in profile c groups intake = Some (active', rejections')"
proof (induction groups arbitrary: intake)
  case (Cons g groups)
  obtain k xs where g: "g = (k, xs)" by fastforce
  obtain active rejections where "intake = (active, rejections)" by fastforce
  then have "take_in_parameter profile c k xs intake \<noteq> None"
    by (auto simp: take_in_parameter_def Let_def demand_from_parameter_total split: option.split sum.split)
  with Cons.IH g show ?case by (auto split: option.splits)
qed (cases intake; simp)

subsection \<open>Fitting the budget\<close>

lemma slower_frequency_Some:
  "slower_frequency c d = Some f \<Longrightarrow>
     (\<exists>p. cadence_period c f = Some p \<and> p \<le> dm_maximum_age d) \<and> next_slower (dm_frequency d) = Some f"
  by (auto simp: slower_frequency_def split: option.splits if_splits)

lemma active_ok_slower:
  assumes ok: "active_ok profile c subs active" and d: "bt_get active k = Some d"
    and f: "slower_frequency c d = Some f"
  shows "active_ok profile c subs (bt_update k (\<lambda>d. d\<lparr>dm_frequency := f\<rparr>) active)"
proof -
  have "demand_serves profile subs k d" using ok map_of_SomeD [OF d] by (auto simp: active_ok_def)
  then have "demand_serves profile subs k (d\<lparr>dm_frequency := f\<rparr>)" by (simp add: demand_serves_def)
  moreover have "demand_fits c (d\<lparr>dm_frequency := f\<rparr>)"
    using slower_frequency_Some [OF f] by (simp add: demand_fits_def)
  ultimately show ?thesis
    using ok d by (auto simp: active_ok_def bt_wf_update dest!: set_bt_update)
qed

lemma active_ok_remove: "active_ok profile c subs active \<Longrightarrow> active_ok profile c subs (bt_remove k active)"
  by (auto simp: active_ok_def bt_wf_remove dest: set_bt_remove)

definition degradations_ok :: "poll_degradation list \<Rightarrow> bool" where
  "degradations_ok dg \<longleftrightarrow> list_all (\<lambda>x. next_slower (pdg_from x) = Some (pdg_to x)) dg"

lemma fit_budget_inv:
  assumes "active_ok profile (ppc_cadences config) subs active"
    and "fit_budget profile config active dg rj = Some (Ok (draft, dg', rj'))" and "degradations_ok dg"
  shows "\<exists>active'. active_ok profile (ppc_cadences config) subs active' \<and>
    accounted_ids active' rj' = accounted_ids active rj \<and> degradations_ok dg' \<and>
    build_blocks profile (map snd active') config = Some (Ok draft) \<and>
    (dpl_utilization_ppm draft \<le> ppc_budget_ppm config \<or> active' = [])"
  using assms
proof (induction profile config active dg rj rule: fit_budget.induct)
  case (1 profile config active dg rj)
  let ?c = "ppc_cadences config"
  obtain d0 where d0: "build_blocks profile (map snd active) config = Some (Ok d0)"
    using "1.prems"(2) by (subst (asm) fit_budget.simps) (auto split: option.splits sum.splits)
  show ?case
  proof (cases "dpl_utilization_ppm d0 \<le> ppc_budget_ppm config \<or> active = []")
    case True
    with "1.prems"(2) d0 have "draft = d0" "dg' = dg" "rj' = rj"
      by (subst (asm) fit_budget.simps, simp)+
    with True d0 "1.prems"(1,3) show ?thesis by blast
  next
    case False
    obtain cand where cand: "min_by_key demand_priority_key (map snd active) = Some cand"
      using False min_by_key_None [of demand_priority_key "map snd active"] by fastforce
    obtain k where k: "(k, cand) \<in> set active" using min_by_key_in [OF cand] by auto
    with "1.prems"(1) have id: "dm_parameter_id cand = k"
      by (auto simp: active_ok_def demand_serves_def)
    have get: "bt_get active (dm_parameter_id cand) = Some cand"
      using "1.prems"(1) k id by (simp add: active_ok_def bt_wf_get_iff)
    show ?thesis
    proof (cases "slower_frequency ?c cand")
      case None
      have "fit_budget profile config (bt_remove (dm_parameter_id cand) active) dg
          (rj @ [\<lparr>prj_parameter_id = dm_parameter_id cand, prj_subscribers = dm_subscribers cand,
                  prj_reason = BudgetExceeded\<rparr>]) = Some (Ok (draft, dg', rj'))"
        using "1.prems"(2) False d0 cand get None by (subst (asm) fit_budget.simps) simp
      from "1.IH"(1) [OF d0 refl False cand get None active_ok_remove [OF "1.prems"(1)] this "1.prems"(3)]
      show ?thesis
        using mset_fst_bt_remove [of active "dm_parameter_id cand" cand] "1.prems"(1) get
        by (simp add: active_ok_def)
    next
      case (Some f)
      have "fit_budget profile config (bt_update (dm_parameter_id cand) (\<lambda>d. d\<lparr>dm_frequency := f\<rparr>) active)
          (dg @ [\<lparr>pdg_parameter_id = dm_parameter_id cand, pdg_from = dm_frequency cand, pdg_to = f\<rparr>]) rj =
          Some (Ok (draft, dg', rj'))"
        using "1.prems"(2) False d0 cand get Some by (subst (asm) fit_budget.simps) simp
      moreover have "degradations_ok (dg @ [\<lparr>pdg_parameter_id = dm_parameter_id cand,
          pdg_from = dm_frequency cand, pdg_to = f\<rparr>])"
        using "1.prems"(3) slower_frequency_Some [OF Some] by (simp add: degradations_ok_def)
      ultimately show ?thesis
        using "1.IH"(2) [OF d0 refl False cand get Some active_ok_slower [OF "1.prems"(1) get Some]]
        by simp
    qed
  qed
qed

subsection \<open>Grouping\<close>

lemma can_append_key: "can_append g d = Some True \<Longrightarrow> group_key (hd g) = group_key d"
  by (auto simp: can_append_def split: if_splits)

definition group_uniform :: "demand list \<Rightarrow> bool" where
  "group_uniform g \<longleftrightarrow> g \<noteq> [] \<and> (\<forall>d \<in> set g. group_key d = group_key (hd g))"

lemma group_demands_inv:
  "group_demands gs ds = Some gs' \<Longrightarrow> list_all group_uniform gs \<Longrightarrow>
     list_all group_uniform gs' \<and> concat gs' = concat gs @ ds"
proof (induction ds arbitrary: gs)
  case (Cons d ds)
  show ?case
  proof (cases "gs = []")
    case True
    with Cons.prems Cons.IH [of "[[d]]"] show ?thesis by (simp add: group_uniform_def)
  next
    case False
    then have gs: "concat gs = concat (butlast gs) @ last gs"
      by (metis append_butlast_last_id concat_append concat.simps append_Nil2)
    have last: "group_uniform (last gs)" using Cons.prems(2) False by (simp add: list_all_iff)
    show ?thesis
    proof (cases "can_append (last gs) d")
      case None
      with Cons.prems(1) False show ?thesis by simp
    next
      case (Some b)
      show ?thesis
      proof (cases b)
        case True
        with Some last have "group_uniform (last gs @ [d])"
          using can_append_key [of "last gs" d] by (auto simp: group_uniform_def)
        moreover have "list_all group_uniform (butlast gs)"
          using Cons.prems(2) by (auto simp: list_all_iff dest: in_set_butlastD)
        ultimately show ?thesis
          using Cons.IH [of "butlast gs @ [last gs @ [d]]"] Cons.prems False Some True gs by simp
      next
        case False
        have "group_uniform [d]" by (simp add: group_uniform_def)
        with Cons.IH [of "gs @ [[d]]"] Cons.prems \<open>gs \<noteq> []\<close> Some False show ?thesis by simp
      qed
    qed
  qed
qed simp

lemma table_rank_inj: "table_rank a = table_rank b \<longleftrightarrow> a = b"
  by (cases a; cases b) (simp_all add: table_rank_def)

lemma poll_class_rank_inj: "poll_class_rank a = poll_class_rank b \<longleftrightarrow> a = b"
  by (cases a; cases b) (simp_all add: poll_class_rank_def)

lemma group_uniformD:
  assumes "group_uniform g" and "d \<in> set g"
  shows "dm_frequency d = dm_frequency (hd g)" and "rb_table (dm_block d) = rb_table (dm_block (hd g))"
    and "dm_request_class d = dm_request_class (hd g)"
proof -
  have "group_key d = group_key (hd g)" using assms unfolding group_uniform_def by blast
  then show "dm_frequency d = dm_frequency (hd g)" and "rb_table (dm_block d) = rb_table (dm_block (hd g))"
    and "dm_request_class d = dm_request_class (hd g)"
    by (simp_all add: group_key_def table_rank_inj poll_class_rank_inj)
qed

lemma block_end_SomeD:
  "register_block_end b = Some e \<Longrightarrow> unat e + 1 = unat (rb_start b) + unat (rb_count b)"
  by (auto simp: register_block_end_def bind_eq_Some_conv dest!: checked_add_word_Some checked_sub_word_Some)

lemma group_end_Some:
  assumes "group_end g = Some e" and "d \<in> set g"
  shows "\<exists>x. register_block_end (dm_block d) = Some x \<and> x \<le> e"
proof -
  from assms(1) obtain ends where ends: "map (\<lambda>d. register_block_end (dm_block d)) g = map Some ends"
    and e: "e = max_list ends"
    by (auto simp: group_end_def those_Some)
  from assms(2) have "register_block_end (dm_block d) \<in> set (map Some ends)"
    unfolding ends [symmetric] by simp
  then show ?thesis using e max_list_ge by auto
qed

text \<open>A drafted block spans its demands.\<close>

definition draft_spans :: "register_block \<Rightarrow> demand \<Rightarrow> bool" where
  "draft_spans b d \<longleftrightarrow>
     rb_table (dm_block d) = rb_table b \<and> rb_start b \<le> rb_start (dm_block d) \<and>
     unat (rb_start (dm_block d)) + unat (rb_count (dm_block d)) \<le> unat (rb_start b) + unat (rb_count b)"

definition draft_ok :: "'d validated_device_profile \<Rightarrow> poll_planner_config \<Rightarrow> draft_block \<Rightarrow> bool" where
  "draft_ok profile config b \<longleftrightarrow>
     dbl_slave b = ls_slave_id (ppc_link config) \<and>
     dbl_function b = read_function (rb_table (dbl_block b)) \<and>
     register_block_new (rb_table (dbl_block b)) (rb_start (dbl_block b)) (rb_count (dbl_block b)) (dbl_function b) =
       Ok (dbl_block b) \<and> 0 < rb_count (dbl_block b) \<and>
     cadence_period (ppc_cadences config) (dbl_frequency b) = Some (dbl_period b) \<and>
     dbl_estimated_cost b = estimate_read_transaction_cost (ppc_link config) (dbl_block b)
       (vpr_minimum_inter_frame_delay (vdp_protocol profile)) (ppc_measured_response_time config)
       (ppc_device_margin config) \<and>
     dbl_utilization_ppm b = poll_utilization_ppm (dbl_estimated_cost b) (dbl_period b) \<and>
     dbl_parameters b \<noteq> [] \<and>
     (\<forall>d \<in> set (dbl_parameters b). draft_spans (dbl_block b) d \<and> dm_frequency d = dbl_frequency b \<and>
        dm_request_class d = dbl_request_class b \<and> dbl_maximum_age b \<le> dm_maximum_age d) \<and>
     (\<exists>d \<in> set (dbl_parameters b). dbl_maximum_age b = dm_maximum_age d)"

lemma draft_group_Some:
  assumes "draft_group profile config g = Some (Ok b)" and "group_uniform g"
  shows "draft_ok profile config b" and "dbl_parameters b = g"
proof -
  let ?t = "rb_table (dm_block (hd g))"
  have ne: "g \<noteq> []" using assms(2) by (simp add: group_uniform_def)
  from assms(1) obtain e where e: "group_end g = Some e"
    by (auto simp: draft_group_def split: option.splits)
  from assms(1) obtain count where count:
      "Option.bind (checked_sub_word e (group_start g)) (\<lambda>span. checked_add_word span 1) = Some count" "count \<noteq> 0"
    by (auto simp: draft_group_def e Let_def split: option.splits if_splits)
  from assms(1) obtain block where block: "register_block_new ?t (group_start g) count (read_function ?t) = Ok block"
    by (auto simp: draft_group_def e Let_def count split: option.splits sum.splits)
  from assms(1) obtain period where period:
      "cadence_period (ppc_cadences config) (dm_frequency (hd g)) = Some period"
    by (auto simp: draft_group_def e Let_def count block split: option.splits)
  let ?cost = "estimate_read_transaction_cost (ppc_link config) block
     (vpr_minimum_inter_frame_delay (vdp_protocol profile)) (ppc_measured_response_time config)
     (ppc_device_margin config)"
  have b: "b = \<lparr>dbl_slave = ls_slave_id (ppc_link config), dbl_function = read_function ?t, dbl_block = block,
     dbl_request_class = dm_request_class (hd g), dbl_frequency = dm_frequency (hd g), dbl_period = period,
     dbl_maximum_age = min_list (map dm_maximum_age g), dbl_estimated_cost = ?cost,
     dbl_utilization_ppm = poll_utilization_ppm ?cost period, dbl_parameters = g\<rparr>"
    using assms(1) by (simp add: draft_group_def e Let_def count block period)
  have blk: "block = \<lparr>rb_table = ?t, rb_start = group_start g, rb_count = count\<rparr>"
    using register_block_new_OkD(1) [OF block] .
  obtain span where "checked_sub_word e (group_start g) = Some span" "checked_add_word span 1 = Some count"
    using count(1) by (auto simp: bind_eq_Some_conv)
  then have cnt: "unat (group_start g) + unat count = unat e + 1"
    using checked_sub_word_Some [of e "group_start g" span] checked_add_word_Some [of span 1 count] by simp
  have "draft_spans block d" if d: "d \<in> set g" for d
  proof -
    obtain x where x: "register_block_end (dm_block d) = Some x" "x \<le> e" using group_end_Some [OF e d] by blast
    have "group_start g \<le> rb_start (dm_block d)"
      unfolding group_start_def by (rule min_list_le) (use d in simp)
    with x block_end_SomeD [OF x(1)] cnt group_uniformD(2) [OF assms(2) d] show ?thesis
      by (simp add: draft_spans_def blk word_le_nat_alt)
  qed
  moreover have "min_list (map dm_maximum_age g) \<le> dm_maximum_age d" if "d \<in> set g" for d
    by (rule min_list_le) (use that in simp)
  ultimately have all: "\<forall>d \<in> set g. draft_spans block d \<and> dm_frequency d = dm_frequency (hd g) \<and>
      dm_request_class d = dm_request_class (hd g) \<and> min_list (map dm_maximum_age g) \<le> dm_maximum_age d"
    using group_uniformD(1,3) [OF assms(2)] by blast
  have ex: "\<exists>d \<in> set g. min_list (map dm_maximum_age g) = dm_maximum_age d"
    using min_list_in [of "map dm_maximum_age g"] ne by auto
  have new: "register_block_new (rb_table block) (rb_start block) (rb_count block)
      (read_function (rb_table block)) = Ok block" and table: "rb_table block = ?t" and pos: "0 < rb_count block"
    using block count(2) by (simp_all add: blk word_gt_0)
  show "draft_ok profile config b"
    unfolding draft_ok_def b draft_block.simps
    using all ex new pos period ne by (intro conjI) (simp_all only: table not_False_eq_True)
  show "dbl_parameters b = g" by (simp add: b)
qed


lemma draft_groups_inv:
  "draft_groups profile config gs draft = Some (Ok draft') \<Longrightarrow> list_all group_uniform gs \<Longrightarrow>
     list_all (draft_ok profile config) (dpl_blocks draft) \<Longrightarrow>
     list_all (draft_ok profile config) (dpl_blocks draft') \<and>
     concat (map dbl_parameters (dpl_blocks draft')) = concat (map dbl_parameters (dpl_blocks draft)) @ concat gs \<and>
     (unat (dpl_utilization_ppm draft) = min (sum_list (map (\<lambda>b. unat (dbl_utilization_ppm b)) (dpl_blocks draft))) (2 ^ 32 - 1) \<longrightarrow>
      unat (dpl_utilization_ppm draft') = min (sum_list (map (\<lambda>b. unat (dbl_utilization_ppm b)) (dpl_blocks draft'))) (2 ^ 32 - 1))"
proof (induction gs arbitrary: draft)
  case (Cons g gs)
  obtain b where b: "draft_group profile config g = Some (Ok b)"
    using Cons.prems(1) by (auto split: option.splits sum.splits)
  define d1 where "d1 = \<lparr>dpl_blocks = dpl_blocks draft @ [b],
     dpl_utilization_ppm = sat_add (dpl_utilization_ppm draft) (dbl_utilization_ppm b)\<rparr>"
  have run: "draft_groups profile config gs d1 = Some (Ok draft')"
    using Cons.prems(1) b by (simp add: d1_def)
  have g: "group_uniform g" "list_all group_uniform gs" using Cons.prems(2) by simp_all
  note ok = draft_group_Some [OF b g(1)]
  have d1: "list_all (draft_ok profile config) (dpl_blocks d1)"
    "concat (map dbl_parameters (dpl_blocks d1)) = concat (map dbl_parameters (dpl_blocks draft)) @ g"
    using Cons.prems(3) ok by (simp_all add: d1_def)
  have "unat (dpl_utilization_ppm d1) = min (sum_list (map (\<lambda>b. unat (dbl_utilization_ppm b)) (dpl_blocks d1))) (2 ^ 32 - 1)"
    if "unat (dpl_utilization_ppm draft) = min (sum_list (map (\<lambda>b. unat (dbl_utilization_ppm b)) (dpl_blocks draft))) (2 ^ 32 - 1)"
    using that by (simp add: d1_def unat_sat_add)
  with Cons.IH [OF run g(2) d1(1)] d1(2) show ?case by auto
qed simp

lemma build_blocks_Ok:
  assumes "build_blocks profile demands config = Some (Ok draft)"
  shows "list_all (draft_ok profile config) (dpl_blocks draft)"
    and "mset (concat (map dbl_parameters (dpl_blocks draft))) = mset demands"
    and "unat (dpl_utilization_ppm draft) =
      min (sum_list (map (\<lambda>b. unat (dbl_utilization_ppm b)) (dpl_blocks draft))) (2 ^ 32 - 1)"
proof -
  obtain gs where gs: "group_demands [] (sort_key demand_position demands) = Some gs"
    and d: "draft_groups profile config gs \<lparr>dpl_blocks = [], dpl_utilization_ppm = 0\<rparr> = Some (Ok draft)"
    using assms by (auto simp: build_blocks_def split: option.splits)
  have u: "list_all group_uniform gs" and c: "concat gs = sort_key demand_position demands"
    using group_demands_inv [OF gs] by simp_all
  note r = draft_groups_inv [OF d u]
  from r show "list_all (draft_ok profile config) (dpl_blocks draft)"
    and "unat (dpl_utilization_ppm draft) =
      min (sum_list (map (\<lambda>b. unat (dbl_utilization_ppm b)) (dpl_blocks draft))) (2 ^ 32 - 1)" by simp_all
  from r have "concat (map dbl_parameters (dpl_blocks draft)) = concat gs" by simp
  then show "mset (concat (map dbl_parameters (dpl_blocks draft))) = mset demands" by (simp add: c)
qed

subsection \<open>Finishing the blocks\<close>

definition slice_of :: "register_block \<Rightarrow> demand \<Rightarrow> poll_parameter_slice \<Rightarrow> bool" where
  "slice_of b d s \<longleftrightarrow>
     pps_parameter_id s = dm_parameter_id d \<and> pps_register_offset s = rb_start (dm_block d) - rb_start b \<and>
     rb_start b \<le> rb_start (dm_block d) \<and> pps_register_count s = rb_count (dm_block d) \<and>
     pps_subscribers s = dm_subscribers d \<and> pps_reasons s = dm_reasons d \<and>
     pps_history_required s = dm_history_required d \<and> pps_maximum_age s = dm_maximum_age d"

lemma poll_slice_Ok: "poll_slice b d = Ok s \<Longrightarrow> slice_of b d s"
  by (auto simp: poll_slice_def slice_of_def checked_sub_word_def word_le_nat_alt split: option.splits if_splits)

lemma poll_slices_Ok: "poll_slices b ds = Ok ss \<Longrightarrow> list_all2 (slice_of b) ds ss"
  by (induction ds arbitrary: ss) (auto simp: and_then_Ok_iff dest: poll_slice_Ok)

definition block_of :: "instant \<Rightarrow> draft_block \<Rightarrow> poll_block \<Rightarrow> bool" where
  "block_of now dr b \<longleftrightarrow>
     pbl_slave b = dbl_slave dr \<and> pbl_function b = dbl_function dr \<and> pbl_block b = dbl_block dr \<and>
     pbl_request_class b = dbl_request_class dr \<and> pbl_frequency b = dbl_frequency dr \<and>
     pbl_period b = dbl_period dr \<and> pbl_maximum_age b = dbl_maximum_age dr \<and>
     pbl_estimated_cost b = dbl_estimated_cost dr \<and> pbl_utilization_ppm b = dbl_utilization_ppm dr \<and>
     (\<exists>ss. list_all2 (slice_of (dbl_block dr)) (dbl_parameters dr) ss \<and> mset ss = mset (pbl_parameters b)) \<and>
     now \<le> pbl_next_due b \<and> (0 < dbl_period dr \<longrightarrow> pbl_next_due b < now + dbl_period dr)"

lemma proportional_duration_less: "seen < how_many \<Longrightarrow> 0 < p \<Longrightarrow> proportional_duration p seen how_many < p"
proof -
  assume "seen < how_many" and "0 < p"
  then have "p * seen div how_many < p"
    by (metis div_less_iff_less_mult mult.commute mult_less_cancel1 not_less_zero not_gr_zero)
  moreover have "min (p * seen) (2 ^ 128 - 1) div how_many \<le> p * seen div how_many"
    by (rule div_le_mono) simp
  ultimately show ?thesis using \<open>0 < p\<close> by (auto simp: proportional_duration_def)
qed

lemma finish_block_Ok:
  assumes "finish_block now index seen how_many dr = Ok b" and "seen < how_many"
  shows "block_of now dr b"
proof -
  obtain due where due: "instant_checked_add now (proportional_duration (dbl_period dr) seen how_many) = Some due"
    using assms(1) by (auto simp: finish_block_def split: option.splits)
  obtain ss where ss: "poll_slices (dbl_block dr) (dbl_parameters dr) = Ok ss"
    using assms(1) by (auto simp: finish_block_def due and_then_Ok_iff)
  have "due = now + proportional_duration (dbl_period dr) seen how_many"
    using due by (auto simp: instant_checked_add_def split: if_splits)
  with assms ss due poll_slices_Ok [OF ss] proportional_duration_less [OF assms(2), of "dbl_period dr"]
  show ?thesis by (auto simp: finish_block_def block_of_def Let_def intro: exI [of _ ss])
qed

lemma finish_blocks_Ok:
  "finish_blocks now all earlier ds = Ok bs \<Longrightarrow> all = earlier @ ds \<Longrightarrow> list_all2 (block_of now) ds bs"
proof (induction ds arbitrary: earlier bs)
  case (Cons d ds)
  have "same_period (dbl_period d) earlier < same_period (dbl_period d) all"
    using Cons.prems(2) by (simp add: same_period_def)
  with Cons show ?case by (auto simp: and_then_Ok_iff dest: finish_block_Ok)
qed simp

lemma finalize_blocks_Ok:
  assumes "finalize_blocks drafts now = Ok bs"
  shows "\<exists>sorted. mset sorted = mset drafts \<and> list_all2 (block_of now) sorted bs"
  using assms finish_blocks_Ok [of now _ "[]" _ bs]
  by (intro exI [of _ "sort_key draft_position drafts"]) (simp add: finalize_blocks_def Let_def)

subsection \<open>A finished plan\<close>

lemma take_in_subscriptions:
  assumes "profile_keyed profile"
    and "take_in profile c (group_subscriptions subs) ([], []) = Some (active, rj)"
  shows "active_ok profile c subs active \<and>
    accounted_ids active rj = mset (map fst (group_subscriptions subs)) + accounted_ids [] []"
proof (rule take_in_inv [OF assms(1) _ _ _ _ assms(2)])
  show "active_ok profile c subs []" by (simp add: active_ok_def)
  show "\<forall>(k, xs) \<in> set (group_subscriptions subs). xs = filter (\<lambda>s. rsu_parameter_id s = k) subs"
    using group_subscriptions_in by fastforce
  show "distinct (map fst (group_subscriptions subs))"
    by (rule bt_wf_distinct [OF group_subscriptions_wf])
qed simp

lemmas take_in_ok = take_in_subscriptions [THEN conjunct1]

lemma take_in_ids:
  assumes "profile_keyed profile"
    and "take_in profile c (group_subscriptions subs) ([], []) = Some (active, rj)"
  shows "accounted_ids active rj = mset_set (rsu_parameter_id ` set subs)"
  using take_in_subscriptions [OF assms] by (simp only: group_subscriptions_keys) simp

lemma build_plan_Ok:
  assumes "build_plan version profile subs config now = Some (Ok plan)" and "profile_keyed profile"
  obtains active drafts where "active_ok profile (ppc_cadences config) subs active"
    and "accounted_ids active (ppl_rejections plan) = mset_set (rsu_parameter_id ` set subs)"
    and "degradations_ok (ppl_degradations plan)"
    and "list_all (draft_ok profile config) drafts"
    and "mset (concat (map dbl_parameters drafts)) = mset (map snd active)"
    and "list_all2 (block_of now) drafts (ppl_blocks plan)"
    and "unat (ppl_utilization_ppm plan) = min (sum_list (map (\<lambda>b. unat (dbl_utilization_ppm b)) drafts)) (2 ^ 32 - 1)"
    and "ppl_utilization_ppm plan \<le> ppc_budget_ppm config"
proof -
  let ?c = "ppc_cadences config"
  obtain active rj where t: "take_in profile ?c (group_subscriptions subs) ([], []) = Some (active, rj)"
    using take_in_total by blast
  obtain draft dg rj' where f: "fit_budget profile config active [] rj = Some (Ok (draft, dg, rj'))"
    using assms(1) by (auto simp: build_plan_def t split: option.splits sum.splits)
  obtain bs where bs: "finalize_blocks (dpl_blocks draft) now = Ok bs"
    and plan: "ppl_blocks plan = bs" "ppl_degradations plan = dg" "ppl_rejections plan = rj'"
      "ppl_utilization_ppm plan = dpl_utilization_ppm draft"
    using assms(1) by (auto simp: build_plan_def t f and_then_Ok_iff)
  note active = take_in_ok [OF assms(2) t] and ids = take_in_ids [OF assms(2) t]
  have "degradations_ok []" by (simp add: degradations_ok_def)
  from fit_budget_inv [OF active f this] obtain active' where a: "active_ok profile ?c subs active'"
    "accounted_ids active' rj' = accounted_ids active rj" "degradations_ok dg"
    "build_blocks profile (map snd active') config = Some (Ok draft)"
    "dpl_utilization_ppm draft \<le> ppc_budget_ppm config \<or> active' = []" by blast
  note blocks = build_blocks_Ok [OF a(4)]
  have "dpl_utilization_ppm draft = 0" if "active' = []"
    using a(4) that by (auto simp: build_blocks_def)
  with a(5) have budget: "dpl_utilization_ppm draft \<le> ppc_budget_ppm config" by auto
  obtain sorted where sorted: "mset sorted = mset (dpl_blocks draft)" "list_all2 (block_of now) sorted bs"
    using finalize_blocks_Ok [OF bs] by blast
  have "list_all (draft_ok profile config) sorted"
    using blocks(1) mset_eq_setD [OF sorted(1)] by (simp add: list_all_iff)
  moreover have "mset (concat (map dbl_parameters sorted)) = mset (map snd active')"
    using blocks(2) mset_concat_map [OF sorted(1), of dbl_parameters] by simp
  moreover have "sum_list (map (\<lambda>b. unat (dbl_utilization_ppm b)) sorted) =
      sum_list (map (\<lambda>b. unat (dbl_utilization_ppm b)) (dpl_blocks draft))"
    by (rule sum_list_mset [OF sorted(1)])
  ultimately show ?thesis
    using that [OF a(1) _ _ _ _ _ _ _, of sorted] a(2,3) ids plan sorted(2) blocks(3) budget by simp
qed


subsection \<open>The planner answers\<close>

definition readable_block :: "register_block \<Rightarrow> bool" where
  "readable_block b \<longleftrightarrow>
     0 < unat (rb_count b) \<and> unat (rb_count b) \<le> 125 \<and> unat (rb_start b) + unat (rb_count b) < 2 ^ 16"

lemma readable_block_end:
  "readable_block b \<Longrightarrow> \<exists>e. register_block_end b = Some e \<and> unat e + 1 = unat (rb_start b) + unat (rb_count b)"
proof -
  assume b: "readable_block b"
  then have add: "checked_add_word (rb_start b) (rb_count b) = Some (rb_start b + rb_count b)"
    by (simp add: readable_block_def checked_add_word_def)
  from checked_add_word_Some [OF this] add b have "register_block_end b = Some (rb_start b + rb_count b - 1)"
    by (simp add: register_block_end_def readable_block_def checked_sub_word_def)
  with block_end_SomeD show ?thesis by blast
qed

definition demands_readable :: "demand list \<Rightarrow> bool" where
  "demands_readable ds \<longleftrightarrow> list_all (\<lambda>d. readable_block (dm_block d)) ds"

lemma group_end_total: "demands_readable g \<Longrightarrow> g \<noteq> [] \<Longrightarrow>
    \<exists>e. group_end g = Some e \<and> (\<exists>d \<in> set g. register_block_end (dm_block d) = Some e)"
proof -
  assume r: "demands_readable g" and ne: "g \<noteq> []"
  define ends where "ends = map (\<lambda>d. the (register_block_end (dm_block d))) g"
  have some: "\<forall>d \<in> set g. \<exists>e. register_block_end (dm_block d) = Some e"
    using r readable_block_end by (fastforce simp: demands_readable_def list_all_iff)
  then have "those (map (\<lambda>d. register_block_end (dm_block d)) g) = Some ends"
    unfolding those_Some ends_def by fastforce
  then have e: "group_end g = Some (max_list ends)" by (simp add: group_end_def)
  have "max_list ends \<in> set ends" using ne by (intro max_list_in) (simp add: ends_def)
  with some e show ?thesis by (fastforce simp: ends_def)
qed

definition group_small :: "demand list \<Rightarrow> bool" where
  "group_small g \<longleftrightarrow>
     g \<noteq> [] \<and> demands_readable g \<and> (\<exists>e. group_end g = Some e \<and> unat e + 1 \<le> unat (group_start g) + 125)"

lemma group_small_single: "readable_block (dm_block d) \<Longrightarrow> group_small [d]"
  using readable_block_end [of "dm_block d"]
  by (auto simp: group_small_def demands_readable_def group_end_def group_start_def max_list_def readable_block_def)

lemma min_list_snoc: "xs \<noteq> [] \<Longrightarrow> \<forall>x \<in> set xs. x \<le> y \<Longrightarrow> min_list (xs @ [y]) = min_list xs"
  for y :: "'a::linorder"
proof -
  assume "xs \<noteq> []" and "\<forall>x \<in> set xs. x \<le> y"
  then have "Min (set xs) \<le> y" using Min_in [of "set xs"] by auto
  with \<open>xs \<noteq> []\<close> show ?thesis by (simp add: min_list_Min min_absorb2)
qed

lemma group_small_append:
  assumes "group_small g" and "can_append g d = Some True" and "readable_block (dm_block d)"
    and "\<forall>x \<in> set g. rb_start (dm_block x) \<le> rb_start (dm_block d)"
  shows "group_small (g @ [d])"
proof -
  have g: "g \<noteq> []" "demands_readable g" using assms(1) by (simp_all add: group_small_def)
  have r: "demands_readable (g @ [d])" using g assms(3) by (simp add: demands_readable_def)
  have start: "group_start (g @ [d]) = group_start g"
    using min_list_snoc [of "map (\<lambda>x. rb_start (dm_block x)) g" "rb_start (dm_block d)"] g(1) assms(4)
    by (simp add: group_start_def)
  obtain e where e: "group_end (g @ [d]) = Some e" "\<exists>x \<in> set (g @ [d]). register_block_end (dm_block x) = Some e"
    using group_end_total [OF r] by auto
  obtain e0 n where en: "group_end g = Some e0" "register_block_end (dm_block d) = Some n"
    "int (unat (max e0 n)) - int (unat (group_start g)) + 1 \<le> 125"
    using assms(2) by (auto simp: can_append_def Let_def split: if_splits option.splits)
  have "e \<le> max e0 n"
    using e(2) en group_end_Some [OF en(1)] by (fastforce simp: le_max_iff_disj)
  then have "unat e \<le> unat (max e0 n)" by (simp add: word_le_nat_alt)
  moreover have "unat (max e0 n) + 1 \<le> unat (group_start g) + 125" using en(3) by linarith
  ultimately have "unat e + 1 \<le> unat (group_start g) + 125" by linarith
  with e(1) r start show ?thesis by (simp add: group_small_def)
qed

lemma can_append_total:
  assumes "group_small g" and "readable_block (dm_block d)"
  shows "can_append g d \<noteq> None"
  using assms readable_block_end [of "dm_block d"]
  by (auto simp: can_append_def group_small_def Let_def)

lemma demand_position_start:
  "demand_position a \<le> demand_position b \<Longrightarrow> group_key a = group_key b \<Longrightarrow>
     rb_start (dm_block a) \<le> rb_start (dm_block b)"
  by (auto simp: demand_position_def less_eq_prod_def)

lemma group_demands_total:
  "list_all group_uniform gs \<Longrightarrow> list_all group_small gs \<Longrightarrow> demands_readable ds \<Longrightarrow>
     sorted (map demand_position (concat gs @ ds)) \<Longrightarrow>
     \<exists>gs'. group_demands gs ds = Some gs' \<and> list_all group_small gs'"
proof (induction ds arbitrary: gs)
  case (Cons d ds)
  have d: "readable_block (dm_block d)" "demands_readable ds"
    using Cons.prems(3) by (simp_all add: demands_readable_def)
  have single: "group_small [d]" "group_uniform [d]"
    using group_small_single [OF d(1)] by (simp_all add: group_uniform_def)
  show ?case
  proof (cases "gs = []")
    case True
    with Cons.IH [of "[[d]]"] Cons.prems single d(2) show ?thesis by simp
  next
    case False
    let ?g = "last gs"
    have concat: "concat gs = concat (butlast gs) @ ?g"
      using False by (metis append_butlast_last_id concat_append concat.simps append_Nil2)
    have g: "group_uniform ?g" "group_small ?g" using Cons.prems(1,2) False by (simp_all add: list_all_iff)
    have b: "list_all group_uniform (butlast gs)" "list_all group_small (butlast gs)"
      using Cons.prems(1,2) by (auto simp: list_all_iff dest: in_set_butlastD)
    obtain ok where ok: "can_append ?g d = Some ok" using can_append_total [OF g(2) d(1)] by blast
    show ?thesis
    proof (cases ok)
      case True
      note key = can_append_key [OF ok [unfolded eqTrueI [OF True]]]
      have "\<forall>x \<in> set ?g. demand_position x \<le> demand_position d"
        using Cons.prems(4) concat by (simp add: sorted_append)
      then have "\<forall>x \<in> set ?g. rb_start (dm_block x) \<le> rb_start (dm_block d)"
        using g(1) key demand_position_start unfolding group_uniform_def by metis
      then have small: "group_small (?g @ [d])"
        using group_small_append [OF g(2) _ d(1)] ok True by simp
      have uniform: "group_uniform (?g @ [d])"
        using g(1) key unfolding group_uniform_def by auto
      have "sorted (map demand_position (concat (butlast gs @ [?g @ [d]]) @ ds))"
        using Cons.prems(4) concat by simp
      from Cons.IH [OF _ _ d(2) this] b small uniform show ?thesis
        using ok True False by simp
    next
      case no: False
      from Cons.IH [of "gs @ [[d]]"] Cons.prems single d(2) show ?thesis
        using ok no False by simp
    qed
  qed
qed simp

text \<open>The block of a group that the grouping has accepted.\<close>

lemma group_block_total:
  assumes "group_small g"
  shows "\<exists>e count. group_end g = Some e \<and>
    Option.bind (checked_sub_word e (group_start g)) (\<lambda>span. checked_add_word span 1) = Some count \<and>
    count \<noteq> 0 \<and> unat (group_start g) + unat count = unat e + 1 \<and> unat count \<le> 125 \<and>
    (\<forall>t. register_block_new t (group_start g) count (read_function t) =
       Ok \<lparr>rb_table = t, rb_start = group_start g, rb_count = count\<rparr>)"
proof -
  have g: "g \<noteq> []" "demands_readable g" using assms by (simp_all add: group_small_def)
  obtain e d where e: "group_end g = Some e" "d \<in> set g" "register_block_end (dm_block d) = Some e"
    using group_end_total [OF g(2,1)] by blast
  have small: "unat e + 1 \<le> unat (group_start g) + 125" using assms e(1) by (auto simp: group_small_def)
  have "group_start g \<le> rb_start (dm_block d)"
    unfolding group_start_def by (rule min_list_le) (use e(2) in simp)
  moreover have "readable_block (dm_block d)" using g(2) e(2) by (simp add: demands_readable_def list_all_iff)
  then have "unat (rb_start (dm_block d)) \<le> unat e" "unat e + 1 < 2 ^ 16"
    using block_end_SomeD [OF e(3)] by (simp_all add: readable_block_def)
  ultimately have le: "unat (group_start g) \<le> unat e" by (simp add: word_le_nat_alt)
  define span where "span = e - group_start g"
  have span1: "checked_sub_word e (group_start g) = Some span"
    using le by (simp add: span_def checked_sub_word_def)
  from checked_sub_word_Some [OF this] have span2: "unat span = unat e - unat (group_start g)" by simp
  have "unat span + unat (1 :: u16) < 2 ^ 16" using span2 \<open>unat e + 1 < 2 ^ 16\<close> by simp
  then have count1: "checked_add_word span 1 = Some (span + 1)" by (simp add: checked_add_word_def)
  from checked_add_word_Some [OF this] have count2: "unat (span + 1) = unat span + 1" by simp
  have "register_block_new t (group_start g) (span + 1) (read_function t) =
      Ok \<lparr>rb_table = t, rb_start = group_start g, rb_count = span + 1\<rparr>" for t
    by (rule register_block_new_read_Ok)
      (use count2 span2 small le \<open>unat e + 1 < 2 ^ 16\<close> in
        \<open>simp_all add: read_function_def is_write_def split: modbus_table.split\<close>)
  moreover have "span + 1 \<noteq> 0" using count2 by (metis add_is_0 one_neq_zero unat_0)
  ultimately show ?thesis using e(1) span1 span2 count1 count2 le small by auto
qed

lemma draft_group_total:
  assumes "group_small g" and "\<forall>d \<in> set g. demand_fits (ppc_cadences config) d"
  shows "\<exists>b. draft_group profile config g = Some (Ok b)"
proof -
  have g: "g \<noteq> []" using assms(1) by (simp add: group_small_def)
  obtain period where "cadence_period (ppc_cadences config) (dm_frequency (hd g)) = Some period"
    using assms(2) g by (force simp: demand_fits_def)
  with group_block_total [OF assms(1)] show ?thesis by (auto simp: draft_group_def Let_def)
qed

lemma build_blocks_total:
  assumes "\<forall>d \<in> set ds. readable_block (dm_block d) \<and> demand_fits (ppc_cadences config) d"
  shows "\<exists>draft. build_blocks profile ds config = Some (Ok draft)"
proof -
  let ?ds = "sort_key demand_position ds"
  have "demands_readable ?ds" using assms by (simp add: demands_readable_def list_all_iff)
  then obtain gs where gs: "group_demands [] ?ds = Some gs" "list_all group_small gs"
    using group_demands_total [of "[]" ?ds] by auto
  have "concat gs = ?ds" using group_demands_inv [OF gs(1)] by simp
  then have "set (concat gs) = set ds" by simp
  with assms have fits: "\<forall>g \<in> set gs. \<forall>d \<in> set g. demand_fits (ppc_cadences config) d" by auto
  have "\<exists>draft'. draft_groups profile config gs draft = Some (Ok draft')" for draft
    using gs(2) fits
  proof (induction gs arbitrary: draft)
    case (Cons g gs)
    obtain b where "draft_group profile config g = Some (Ok b)"
      using draft_group_total [of g config profile] Cons.prems by auto
    with Cons show ?case by simp
  qed simp
  with gs(1) show ?thesis by (simp add: build_blocks_def)
qed

lemma fit_budget_total:
  assumes "active_ok profile (ppc_cadences config) subs active"
    and "\<forall>k p. profile_parameter profile k = Some p \<longrightarrow> readable_block (vp_block p)"
  shows "\<exists>draft dg' rj'. fit_budget profile config active dg rj = Some (Ok (draft, dg', rj'))"
  using assms
proof (induction profile config active dg rj rule: fit_budget.induct)
  case (1 profile config active dg rj)
  let ?c = "ppc_cadences config"
  have "\<forall>d \<in> set (map snd active). readable_block (dm_block d) \<and> demand_fits ?c d"
    using "1.prems" by (fastforce simp: active_ok_def demand_serves_def)
  then obtain d0 where d0: "build_blocks profile (map snd active) config = Some (Ok d0)"
    using build_blocks_total by blast
  show ?case
  proof (cases "dpl_utilization_ppm d0 \<le> ppc_budget_ppm config \<or> active = []")
    case True
    with d0 show ?thesis by (subst fit_budget.simps) simp
  next
    case False
    obtain cand where cand: "min_by_key demand_priority_key (map snd active) = Some cand"
      using False min_by_key_None [of demand_priority_key "map snd active"] by fastforce
    obtain k where k: "(k, cand) \<in> set active" using min_by_key_in [OF cand] by auto
    with "1.prems"(1) have id: "dm_parameter_id cand = k"
      by (auto simp: active_ok_def demand_serves_def)
    have get: "bt_get active (dm_parameter_id cand) = Some cand"
      using "1.prems"(1) k id by (simp add: active_ok_def bt_wf_get_iff)
    show ?thesis
    proof (cases "slower_frequency ?c cand")
      case None
      from "1.IH"(1) [OF d0 refl False cand get None active_ok_remove [OF "1.prems"(1)] "1.prems"(2)]
      show ?thesis using False d0 cand get None by (subst fit_budget.simps) simp
    next
      case (Some f)
      from "1.IH"(2) [OF d0 refl False cand get Some active_ok_slower [OF "1.prems"(1) get Some] "1.prems"(2)]
      show ?thesis using False d0 cand get Some by (subst fit_budget.simps) simp
    qed
  qed
qed

lemma poll_slices_total:
  "\<forall>d \<in> set ds. rb_start b \<le> rb_start (dm_block d) \<Longrightarrow> \<exists>ss. poll_slices b ds = Ok ss"
  by (induction ds) (auto simp: poll_slice_def checked_sub_word_def word_le_nat_alt)

lemma finalize_blocks_total:
  assumes "list_all (draft_ok profile config) drafts" and "finalize_blocks drafts now = Err e"
  shows "e = TimeOverflow"
proof -
  have "finish_blocks now all earlier ds = Err e \<Longrightarrow> list_all (draft_ok profile config) ds \<Longrightarrow> e = TimeOverflow"
    for all earlier ds
  proof (induction ds arbitrary: earlier)
    case (Cons d ds)
    have "\<forall>x \<in> set (dbl_parameters d). rb_start (dbl_block d) \<le> rb_start (dm_block x)"
      using Cons.prems(2) by (simp add: draft_ok_def draft_spans_def)
    then obtain ss where "poll_slices (dbl_block d) (dbl_parameters d) = Ok ss"
      using poll_slices_total by blast
    with Cons show ?case
      by (auto simp: finish_block_def Let_def and_then_def split: sum.splits option.splits)
  qed simp
  with assms show ?thesis by (simp add: finalize_blocks_def Let_def list_all_iff)
qed

end
