(* ===== verification/Poll_Samples.thy ===== *)
theory Poll_Samples
  imports Poll_Facts Samples
begin

text \<open>
  A concrete plan: two consumers poll the two parameters of the sample profile, and the planner's
  answer for them is computed step by step.
\<close>

definition demo_subscriptions :: "read_subscription list" where
  "demo_subscriptions =
    [\<lparr>rsu_parameter_id = ''ramp'', rsu_frequency = NormalPoll, rsu_subscriber_id = ''ui'',
      rsu_reason = ForDashboard, rsu_history_required = False, rsu_maximum_age = from_secs 2\<rparr>,
     \<lparr>rsu_parameter_id = ''state'', rsu_frequency = FastPoll, rsu_subscriber_id = ''core'',
      rsu_reason = ForDriveState, rsu_history_required = True, rsu_maximum_age = from_millis 500\<rparr>]"

abbreviation "demo_config \<equiv> poll_planner_config_for_profile demo_profile"

lemmas demo_plan_eval = build_plan_def demo_subscriptions_def group_subscriptions_def take_in_parameter_def
  demo_profile_def profile_parameter_def demo_parameter_def demo_state_parameter_def demand_from_parameter_def
  poll_planner_config_for_profile_def poll_cadences_default_def
  frequency_for_age.simps period_exceeds_def cadence_period_def 

lemma demo_id_order: "''ramp'' < ''state''" by code_simp
lemma demo_grouped: "group_subscriptions demo_subscriptions = [(''ramp'', [demo_subscriptions ! 0]), (''state'', [demo_subscriptions ! 1])]"
  by (simp add: demo_subscriptions_def group_subscriptions_def demo_id_order)

definition demo_demand :: demand where
  "demo_demand = \<lparr>dm_parameter_id = ''ramp'', dm_block = demo_block 10, dm_frequency = NormalPoll,
     dm_request_class = Telemetry, dm_maximum_age = from_secs 2, dm_subscribers = [''ui''],
     dm_reasons = [ForDashboard], dm_history_required = False, dm_do_not_bridge = False,
     dm_maximum_bridge_gap = 0, dm_budget_rank = 4\<rparr>"

definition demo_state_demand :: demand where
  "demo_state_demand = \<lparr>dm_parameter_id = ''state'', dm_block = demo_block 20, dm_frequency = FastPoll,
     dm_request_class = TelemetryCritical, dm_maximum_age = from_millis 500, dm_subscribers = [''core''],
     dm_reasons = [ForDriveState], dm_history_required = True, dm_do_not_bridge = False,
     dm_maximum_bridge_gap = 0, dm_budget_rank = 6\<rparr>"

lemma demo_take_in:
  "take_in demo_profile (ppc_cadences demo_config) (group_subscriptions demo_subscriptions) ([], []) =
    Some ([(''ramp'', demo_demand), (''state'', demo_state_demand)], [])"
  unfolding demo_grouped
  by (simp add: demo_plan_eval Let_def take_in_parameter_def demo_id_order btree_set_def periodic_class_def budget_rank_def
     demo_demand_def demo_state_demand_def)

lemmas demo_block_eval = build_blocks_def demand_position_def group_key_def poll_class_rank_def
   demo_demand_def demo_state_demand_def can_append_def draft_group_def group_end_def register_block_end_def demo_block_def table_rank_def max_list_def group_start_def
   checked_sub_word_def checked_add_word_def read_function_def register_block_new_def and_then_def estimate_read_transaction_cost_def poll_utilization_ppm_def
   demo_link_def serial_bits_per_character_def poll_protocol_t35_def div_ceil_def saturating_u32_def duration_saturating_add_def DURATION_MAX_def 
   sat_add_def

definition demo_draft :: "demand \<Rightarrow> duration \<Rightarrow> u32 \<Rightarrow> draft_block" where
  "demo_draft d period ppm = \<lparr>dbl_slave = 1, dbl_function = ReadHoldingRegisters, dbl_block = dm_block d,
     dbl_request_class = dm_request_class d, dbl_frequency = dm_frequency d, dbl_period = period,
     dbl_maximum_age = dm_maximum_age d, dbl_estimated_cost = from_micros 19271, dbl_utilization_ppm = ppm,
     dbl_parameters = [d]\<rparr>"

lemma demo_blocks:
  "build_blocks demo_profile [demo_demand, demo_state_demand] demo_config =
    Some (Ok \<lparr>dpl_blocks = [demo_draft demo_demand (from_secs 1) 19271, demo_draft demo_state_demand (from_millis 100) 192710],
      dpl_utilization_ppm = 211981\<rparr>)"
  by (simp add: demo_block_eval Let_def demo_plan_eval demo_draft_def)

definition demo_poll_block :: "u32 \<Rightarrow> draft_block \<Rightarrow> poll_block" where
  "demo_poll_block i dr = \<lparr>pbl_index = i, pbl_slave = dbl_slave dr, pbl_function = dbl_function dr, pbl_block = dbl_block dr,
     pbl_request_class = dbl_request_class dr, pbl_frequency = dbl_frequency dr, pbl_period = dbl_period dr,
     pbl_next_due = 0, pbl_maximum_age = dbl_maximum_age dr, pbl_estimated_cost = dbl_estimated_cost dr,
     pbl_utilization_ppm = dbl_utilization_ppm dr,
     pbl_parameters = map (\<lambda>d. \<lparr>pps_parameter_id = dm_parameter_id d, pps_register_offset = 0,
           pps_register_count = 1, pps_subscribers = dm_subscribers d,
           pps_reasons = dm_reasons d, pps_history_required = dm_history_required d,
           pps_maximum_age = dm_maximum_age d\<rparr>) (dbl_parameters dr),
     pbl_rationale = \<lparr>pbr_parameters = map dm_parameter_id (dbl_parameters dr),
       pbr_subscribers = concat (map dm_subscribers (dbl_parameters dr)),
       pbr_reasons = concat (map dm_reasons (dbl_parameters dr))\<rparr>\<rparr>"

definition demo_plan :: poll_plan where
  "demo_plan = \<lparr>ppl_version = 1, ppl_created_at = 0, ppl_slave = 1,
     ppl_blocks = [demo_poll_block 0 (demo_draft demo_state_demand (from_millis 100) 192710),
                   demo_poll_block 1 (demo_draft demo_demand (from_secs 1) 19271)],
     ppl_degradations = [], ppl_rejections = [], ppl_utilization_ppm = 211981, ppl_budget_ppm = 700000\<rparr>"

lemma demo_finalize:
  "finalize_blocks [demo_draft demo_demand (from_secs 1) 19271, demo_draft demo_state_demand (from_millis 100) 192710] 0 =
    Ok (ppl_blocks demo_plan)"
  by (simp add: finalize_blocks_def demo_plan_def finish_block_def proportional_duration_def instant_checked_add_def
    demo_draft_def poll_slice_def demo_demand_def demo_state_demand_def demo_poll_block_def draft_position_def Let_def
    poll_class_rank_def table_rank_def demo_block_def same_period_def and_then_def checked_sub_word_def btree_set_def saturating_u32_def)

lemma demo_budget: "ppc_budget_ppm demo_config = 700000"
  by (simp add: poll_planner_config_for_profile_def DEFAULT_POLL_BUDGET_PPM_def)

lemma demo_slave: "ls_slave_id (ppc_link demo_config) = 1"
  by (simp add: poll_planner_config_for_profile_def demo_profile_def demo_link_def)

lemma demo_build:
  "build_plan 1 demo_profile demo_subscriptions demo_config 0 = Some (Ok demo_plan)"
proof -
  have fit: "fit_budget demo_profile demo_config [(''ramp'', demo_demand), (''state'', demo_state_demand)] [] [] =
    Some (Ok (\<lparr>dpl_blocks = [demo_draft demo_demand (from_secs 1) 19271, demo_draft demo_state_demand (from_millis 100) 192710],
      dpl_utilization_ppm = 211981\<rparr>, [], []))"
    by (subst fit_budget.simps) (simp add: demo_blocks demo_budget)
  show ?thesis
    by (simp only: build_plan_def demo_take_in option.case prod.case fit sum.case draft_plan.simps demo_finalize)
      (simp add: and_then_def demo_plan_def demo_budget demo_slave)
qed


lemma demo_keyed: "profile_keyed demo_profile"
  by (simp add: profile_keyed_def demo_profile_def demo_parameter_def demo_state_parameter_def)

lemma demo_readable: "profile_parameter demo_profile k = Some p \<Longrightarrow> readable_block (vp_block p)"
  by (auto simp: demo_profile_def profile_parameter_def readable_block_def demo_parameter_def demo_state_parameter_def demo_block_def split: if_splits)
end
