(* ===== verification/Poll_Executor.thy ===== *)
theory Poll_Executor
  imports Poll_Planner Ports
begin

text \<open>
  The executor of \<open>lantern-app/src/poll.rs\<close>: it holds one plan at a time, waits for the block that is
  due first, reads it over the bus port, publishes the tagged result into a bounded channel and
  moves the block to its next due time. The watch channel of the plan is its last value with a
  changed flag, the result channel the list of what the consumer has not taken yet. Clock and bus are
  the ports of \<open>Ports\<close>.
\<close>

datatype (plugins only: code size) poll_execution_outcome =
    PollRead "bus_error + raw_registers"
  | SkippedDeadline

record poll_execution_result =
  per_plan_version :: u64
  per_block_index :: u32
  per_request_id :: request_id
  per_completed_at :: instant
  per_outcome :: poll_execution_outcome

record poll_executor_statistics =
  pxs_plan_version :: u64
  pxs_plan_switches :: u64
  pxs_requests_started :: u64
  pxs_requests_completed :: u64
  pxs_deadlines_skipped :: u64
  pxs_results_dropped :: u64

datatype poll_executor_error = ZeroResultCapacity | NonIncreasingPlanVersion | ExecutorStopped

record runtime_block =
  rbk_block :: poll_block
  rbk_next_due :: instant

record runtime_plan =
  rpl_version :: u64
  rpl_blocks :: "runtime_block list"

definition runtime_plan_from_plan :: "poll_plan \<Rightarrow> runtime_plan" where
  "runtime_plan_from_plan plan =
     \<lparr>rpl_version = ppl_version plan,
      rpl_blocks = map (\<lambda>b. \<lparr>rbk_block = b, rbk_next_due = pbl_next_due b\<rparr>) (ppl_blocks plan)\<rparr>"

definition runtime_key :: "runtime_plan \<Rightarrow> nat \<Rightarrow> instant \<times> u32" where
  "runtime_key p i = (rbk_next_due (rpl_blocks p ! i), pbl_index (rbk_block (rpl_blocks p ! i)))"

definition runtime_earliest_index :: "runtime_plan \<Rightarrow> nat option" where
  "runtime_earliest_index p = min_by_key (runtime_key p) [0..<length (rpl_blocks p)]"

text \<open>
  The next due time keeps the phase of the block and skips the periods that have gone by.
\<close>

definition advance_without_burst :: "instant \<Rightarrow> duration \<Rightarrow> instant \<Rightarrow> instant" where
  "advance_without_burst due period now =
     (if now < due then due
      else
        let elapsed = now - due;
            period_nanos = max period 1;
            steps = elapsed div period_nanos + 1;
            nanos = min (period_nanos * steps) (2 ^ 128 - 1)
        in case instant_checked_add due (min nanos (2 ^ 64 - 1)) of None \<Rightarrow> now | Some t \<Rightarrow> t)"

subsection \<open>State and handle\<close>

record ('w, 'd) poll_executor = "('w, 'd) actor" +
  pe_session_id :: session_id
  pe_plan :: "poll_plan option"
  pe_plan_changed :: bool
  pe_running :: bool
  pe_runtime :: runtime_plan
  pe_next_request_id :: u64
  pe_results :: "poll_execution_result list"
  pe_result_capacity :: nat
  pe_receiver_closed :: bool
  pe_stats :: poll_executor_statistics

type_synonym ('w, 'd, 'r) poll_monad = "(('w, 'd) poll_executor, 'r) state"

definition poll_executor_spawn ::
  "'w \<Rightarrow> session_id \<Rightarrow> poll_plan \<Rightarrow> nat \<Rightarrow> poll_executor_error + ('w, 'd) poll_executor" where
  "poll_executor_spawn w sid plan result_capacity =
     (if result_capacity = 0 then Err ZeroResultCapacity
      else Ok \<lparr>ac_world = w, ac_trace = [], pe_session_id = sid, pe_plan = Some plan, pe_plan_changed = False,
               pe_running = True, pe_runtime = runtime_plan_from_plan plan, pe_next_request_id = 1,
               pe_results = [], pe_result_capacity = result_capacity, pe_receiver_closed = False,
               pe_stats = \<lparr>pxs_plan_version = ppl_version plan, pxs_plan_switches = 0, pxs_requests_started = 0,
                 pxs_requests_completed = 0, pxs_deadlines_skipped = 0, pxs_results_dropped = 0\<rparr>\<rparr>)"

definition poll_update_plan :: "poll_plan \<Rightarrow> ('w, 'd, poll_executor_error + unit) poll_monad" where
  "poll_update_plan plan = State (\<lambda>s.
     let active_version = (case pe_plan s of None \<Rightarrow> 0 | Some active \<Rightarrow> ppl_version active) in
     if ppl_version plan \<le> active_version then (Err NonIncreasingPlanVersion, s)
     else if \<not> pe_running s then (Err ExecutorStopped, s)
     else (Ok (), s\<lparr>pe_plan := Some plan, pe_plan_changed := True,
                   pe_stats := (pe_stats s)\<lparr>pxs_plan_version := ppl_version plan,
                                            pxs_plan_switches := sat_inc (pxs_plan_switches (pe_stats s))\<rparr>\<rparr>))"

definition poll_shutdown :: "('w, 'd, unit) poll_monad" where
  "poll_shutdown = State (\<lambda>s. ((), s\<lparr>pe_plan := None, pe_plan_changed := True\<rparr>))"

definition poll_statistics :: "('w, 'd) poll_executor \<Rightarrow> poll_executor_statistics" where
  "poll_statistics s = pe_stats s"

subsection \<open>The loop\<close>

definition poll_stat :: "(poll_executor_statistics \<Rightarrow> poll_executor_statistics) \<Rightarrow> ('w, 'd, unit) poll_monad" where
  "poll_stat f = State (\<lambda>s. ((), s\<lparr>pe_stats := f (pe_stats s)\<rparr>))"

definition publish_result :: "poll_execution_result \<Rightarrow> ('w, 'd, unit) poll_monad" where
  "publish_result r = State (\<lambda>s.
     if pe_receiver_closed s \<or> pe_result_capacity s \<le> length (pe_results s)
     then ((), s\<lparr>pe_stats := (pe_stats s)\<lparr>pxs_results_dropped := sat_inc (pxs_results_dropped (pe_stats s))\<rparr>\<rparr>)
     else ((), s\<lparr>pe_results := pe_results s @ [r]\<rparr>))"

definition take_changed_plan :: "('w, 'd, unit) poll_monad" where
  "take_changed_plan = State (\<lambda>s.
     case pe_plan s of
       None \<Rightarrow> ((), s\<lparr>pe_plan_changed := False, pe_running := False\<rparr>)
     | Some plan \<Rightarrow> ((), s\<lparr>pe_plan_changed := False, pe_runtime := runtime_plan_from_plan plan\<rparr>))"

definition take_request_id :: "('w, 'd, request_id) poll_monad" where
  "take_request_id =
     State (\<lambda>s. (pe_next_request_id s, s\<lparr>pe_next_request_id := sat_inc (pe_next_request_id s)\<rparr>))"

definition set_next_due :: "nat \<Rightarrow> instant \<Rightarrow> ('w, 'd, unit) poll_monad" where
  "set_next_due i t = State (\<lambda>s. ((), s\<lparr>pe_runtime := (pe_runtime s)\<lparr>rpl_blocks :=
     (rpl_blocks (pe_runtime s))[i := (rpl_blocks (pe_runtime s) ! i)\<lparr>rbk_next_due := t\<rparr>]\<rparr>\<rparr>))"

definition poll_now :: "('w, 'd) ports \<Rightarrow> ('w, 'd, instant) poll_monad" where
  "poll_now P = call (po_instant_now P) EvNow"

definition poll_bus_read ::
  "('w, 'd) ports \<Rightarrow> read_bus_request \<Rightarrow> ('w, 'd, bus_error + raw_registers) poll_monad" where
  "poll_bus_read P r = call (po_read P r) (EvRead r)"

text \<open>\<open>sleep_until\<close> waits for the difference of the due time and the present.\<close>

definition poll_sleep_until :: "('w, 'd) ports \<Rightarrow> instant \<Rightarrow> ('w, 'd, unit) poll_monad" where
  "poll_sleep_until P due = do {
     now \<leftarrow> poll_now P;
     call (po_sleep P (due - now)) (\<lambda>_. EvSleep (due - now))
   }"

text \<open>Publishing a result and moving the block on, as at the end of each branch of the loop.\<close>

definition publish_and_advance ::
  "('w, 'd) ports \<Rightarrow> nat \<Rightarrow> instant \<Rightarrow> poll_block \<Rightarrow> request_id \<Rightarrow> instant \<Rightarrow> poll_execution_outcome \<Rightarrow> bool
     \<Rightarrow> ('w, 'd, unit) poll_monad" where
  "publish_and_advance P i due block request_id completed_at outcome again = do {
     s \<leftarrow> State_Monad.get;
     _ \<leftarrow> publish_result \<lparr>per_plan_version = rpl_version (pe_runtime s), per_block_index = pbl_index block,
            per_request_id = request_id, per_completed_at = completed_at, per_outcome = outcome\<rparr>;
     now \<leftarrow> (if again then poll_now P else State_Monad.return completed_at);
     set_next_due i (advance_without_burst due (pbl_period block) now)
   }"

definition poll_execute_block :: "('w, 'd) ports \<Rightarrow> nat \<Rightarrow> ('w, 'd, unit) poll_monad" where
  "poll_execute_block P i = do {
     s \<leftarrow> State_Monad.get;
     let due = rbk_next_due (rpl_blocks (pe_runtime s) ! i);
     let block = rbk_block (rpl_blocks (pe_runtime s) ! i);
     request_id \<leftarrow> take_request_id;
     now \<leftarrow> poll_now P;
     let deadline = (case instant_checked_add due (pbl_maximum_age block) of None \<Rightarrow> due | Some t \<Rightarrow> t);
     if now \<ge> deadline then do {
       _ \<leftarrow> poll_stat (\<lambda>t. t\<lparr>pxs_deadlines_skipped := sat_inc (pxs_deadlines_skipped t)\<rparr>);
       completed_at \<leftarrow> poll_now P;
       publish_and_advance P i due block request_id completed_at SkippedDeadline False
     }
     else (case periodic_context request_id (pe_session_id s) (pbl_request_class block) deadline of
        Inl e \<Rightarrow> do {
          completed_at \<leftarrow> poll_now P;
          publish_and_advance P i due block request_id completed_at (PollRead (Err e)) True
        }
      | Inr context \<Rightarrow> do {
          _ \<leftarrow> poll_stat (\<lambda>t. t\<lparr>pxs_requests_started := sat_inc (pxs_requests_started t)\<rparr>);
          (case read_request_periodic context (pbl_slave block) (pbl_function block) (pbl_block block) of
             Inl e \<Rightarrow> do {
               completed_at \<leftarrow> poll_now P;
               publish_and_advance P i due block request_id completed_at (PollRead (Err e)) True
             }
           | Inr request \<Rightarrow> do {
               value \<leftarrow> poll_bus_read P request;
               _ \<leftarrow> poll_stat (\<lambda>t. t\<lparr>pxs_requests_completed := sat_inc (pxs_requests_completed t)\<rparr>);
               completed_at \<leftarrow> poll_now P;
               publish_and_advance P i due block request_id completed_at (PollRead value) False
             })
        })
   }"

text \<open>
  One turn of the loop. A plan that arrives while the executor sleeps ends the turn before anything
  is read: it is a plan that arrived before the turn.
\<close>

definition poll_turn :: "('w, 'd) ports \<Rightarrow> ('w, 'd, unit) poll_monad" where
  "poll_turn P = do {
     s \<leftarrow> State_Monad.get;
     if pe_plan_changed s then take_changed_plan
     else (case runtime_earliest_index (pe_runtime s) of
        None \<Rightarrow> State_Monad.return ()
      | Some i \<Rightarrow> do {
          _ \<leftarrow> poll_sleep_until P (rbk_next_due (rpl_blocks (pe_runtime s) ! i));
          poll_execute_block P i
        })
   }"

inductive poll_step :: "('w, 'd) ports \<Rightarrow> ('w, 'd) poll_executor \<Rightarrow> ('w, 'd) poll_executor \<Rightarrow> bool"
  for P where
    executor_turns: "pe_running s \<Longrightarrow> run_state (poll_turn P) s = ((), s') \<Longrightarrow> poll_step P s s'"
  | plan_updated: "run_state (poll_update_plan plan) s = (r, s') \<Longrightarrow> poll_step P s s'"
  | polling_shut_down: "run_state poll_shutdown s = ((), s') \<Longrightarrow> poll_step P s s'"
  | result_taken: "pe_results s = r # rs \<Longrightarrow> poll_step P s (s\<lparr>pe_results := rs\<rparr>)"
  | handles_dropped: "poll_step P s (s\<lparr>pe_running := False\<rparr>)"
  | receiver_dropped: "poll_step P s (s\<lparr>pe_receiver_closed := True\<rparr>)"
  | polling_world_changes: "poll_step P s (s\<lparr>ac_world := w\<rparr>)"

inductive_cases poll_stepE: "poll_step P s s'"

inductive poll_reachable ::
  "('w, 'd) ports \<Rightarrow> ('w, 'd) poll_executor \<Rightarrow> ('w, 'd) poll_executor \<Rightarrow> bool" for P s0 where
    poll_start: "poll_reachable P s0 s0"
  | poll_more: "poll_reachable P s0 s \<Longrightarrow> poll_step P s s' \<Longrightarrow> poll_reachable P s0 s'"

end
