(* ===== verification/Poll_Properties.thy ===== *)
theory Poll_Properties
  imports Poll_Samples Poll_Executor
begin

text \<open>
  The properties of the polling planner and its executor, with a profile of two parameters that is
  polled by two consumers.
\<close>

subsection \<open>The budget\<close>

lemma div_ceil_real: "0 < b \<Longrightarrow> real a / real b \<le> real (div_ceil a b)"
proof -
  assume "0 < b"
  with div_ceil_bounds(1) [of b a] have "real a \<le> real (div_ceil a b) * real b"
    by (simp flip: of_nat_mult)
  with \<open>0 < b\<close> show ?thesis by (simp add: divide_le_eq)
qed

lemma poll_utilization_real:
  assumes "cost \<le> DURATION_MAX" and "unat (poll_utilization_ppm cost period) < 2 ^ 32 - 1"
  shows "real cost / real period \<le> real (unat (poll_utilization_ppm cost period)) / 1000000"
proof (cases "period = 0")
  case False
  have "cost * 1000000 \<le> 2 ^ 128 - 1"
    using assms(1) by (simp add: DURATION_MAX_def)
  then have n: "poll_utilization_ppm cost period = saturating_u32 (div_ceil (cost * 1000000) period)"
    using False by (simp add: poll_utilization_ppm_def)
  then have "unat (poll_utilization_ppm cost period) = min (div_ceil (cost * 1000000) period) (2 ^ 32 - 1)"
    by (simp add: saturating_u32_def unat_of_nat)
  with assms(2) have "unat (poll_utilization_ppm cost period) = div_ceil (cost * 1000000) period" by simp
  with div_ceil_real [of period "cost * 1000000"] False show ?thesis
    by (simp add: field_simps del: of_nat_unat)
qed (simp del: of_nat_unat)

lemma estimate_cost_le: "estimate_read_transaction_cost l b d r m \<le> DURATION_MAX"
  by (simp add: estimate_read_transaction_cost_def duration_saturating_add_def Let_def)

lemma list_all2_sum:
  "list_all2 R xs ys \<Longrightarrow> (\<And>x y. R x y \<Longrightarrow> f x = g y) \<Longrightarrow> sum_list (map f xs) = sum_list (map g ys)"
  by (induction rule: list_all2_induct) simp_all

text \<open>
  C30. A plan never claims more of the bus than its budget, which is at most 70 percent: the estimated
  utilizations of its blocks add up exactly to that of the plan, and the time that its reads take on
  the wire, in relation to their periods, stays within the budget.
\<close>
theorem poll_plan_within_budget:
  assumes "build_plan version profile subs config now = Some (Ok plan)" and "profile_keyed profile"
    and "unat (ppc_budget_ppm config) \<le> 700000"
  shows "ppl_utilization_ppm plan \<le> ppc_budget_ppm config \<and>
    unat (ppl_utilization_ppm plan) = sum_list (map (\<lambda>b. unat (pbl_utilization_ppm b)) (ppl_blocks plan)) \<and>
    sum_list (map (\<lambda>b. real (pbl_estimated_cost b) / real (pbl_period b)) (ppl_blocks plan))
      \<le> real (unat (ppc_budget_ppm config)) / 1000000"
proof -
  obtain active drafts where d: "list_all (draft_ok profile config) drafts"
    "list_all2 (block_of now) drafts (ppl_blocks plan)"
    and u: "unat (ppl_utilization_ppm plan) = min (sum_list (map (\<lambda>b. unat (dbl_utilization_ppm b)) drafts)) (2 ^ 32 - 1)"
    and le: "ppl_utilization_ppm plan \<le> ppc_budget_ppm config"
    using build_plan_Ok [OF assms(1,2)] by metis
  let ?ppm = "\<lambda>b. unat (dbl_utilization_ppm b)"
  have "unat (ppl_utilization_ppm plan) \<le> 700000" using le assms(3) by (simp add: word_le_nat_alt)
  with u have sum: "unat (ppl_utilization_ppm plan) = sum_list (map ?ppm drafts)" by simp
  have "real (dbl_estimated_cost b) / real (dbl_period b) \<le> real (?ppm b) / 1000000" if "b \<in> set drafts" for b
  proof -
    have "?ppm b \<le> sum_list (map ?ppm drafts)" using that by (simp add: member_le_sum_list)
    with sum \<open>unat (ppl_utilization_ppm plan) \<le> 700000\<close> have "?ppm b < 2 ^ 32 - 1" by simp
    with d(1) that estimate_cost_le poll_utilization_real show ?thesis
      by (simp add: list_all_iff draft_ok_def)
  qed
  then have "sum_list (map (\<lambda>b. real (dbl_estimated_cost b) / real (dbl_period b)) drafts) \<le>
      sum_list (map (\<lambda>b. real (?ppm b) / 1000000) drafts)"
    by (rule sum_list_mono)
  also have "\<dots> = real (sum_list (map ?ppm drafts)) / 1000000"
    by (induction drafts) (simp_all add: add_divide_distrib)
  also have "\<dots> \<le> real (unat (ppc_budget_ppm config)) / 1000000"
  proof (rule divide_right_mono)
    show "real (sum_list (map ?ppm drafts)) \<le> real (unat (ppc_budget_ppm config))"
      unfolding sum [symmetric] of_nat_le_iff using le by (simp add: word_le_nat_alt)
  qed simp
  also have "sum_list (map (\<lambda>b. real (dbl_estimated_cost b) / real (dbl_period b)) drafts) =
      sum_list (map (\<lambda>b. real (pbl_estimated_cost b) / real (pbl_period b)) (ppl_blocks plan))"
    by (rule list_all2_sum [OF d(2)]) (simp add: block_of_def)
  finally show ?thesis
    using le sum list_all2_sum [OF d(2), of ?ppm "\<lambda>b. unat (pbl_utilization_ppm b)"]
    by (simp add: block_of_def)
qed

lemma poll_plan_within_budget_witness:
  "unat (ppl_utilization_ppm demo_plan) =
    sum_list (map (\<lambda>b. unat (pbl_utilization_ppm b)) (ppl_blocks demo_plan)) \<and>
   ppl_utilization_ppm demo_plan \<le> 700000"
  using poll_plan_within_budget [OF demo_build demo_keyed] unfolding demo_budget by simp

subsection \<open>Coverage and freshness\<close>

definition plan_slices :: "poll_plan \<Rightarrow> (poll_block \<times> poll_parameter_slice) list" where
  "plan_slices plan = concat (map (\<lambda>b. map (\<lambda>s. (b, s)) (pbl_parameters b)) (ppl_blocks plan))"

lemma demo_first_slice:
  "(hd (ppl_blocks demo_plan), hd (pbl_parameters (hd (ppl_blocks demo_plan)))) \<in> set (plan_slices demo_plan)"
  by (simp add: plan_slices_def demo_plan_def demo_poll_block_def demo_draft_def)

lemma demo_first_subscription:
  "demo_subscriptions ! 1 \<in>
     cyclic_subscriptions demo_subscriptions (pps_parameter_id (hd (pbl_parameters (hd (ppl_blocks demo_plan)))))"
  by (simp add: cyclic_subscriptions_def demo_subscriptions_def demo_plan_def demo_poll_block_def demo_draft_def
      demo_state_demand_def)

lemma block_of_slices:
  assumes "block_of now dr b"
  shows "image_mset pps_parameter_id (mset (pbl_parameters b)) = image_mset dm_parameter_id (mset (dbl_parameters dr))"
    and "s \<in> set (pbl_parameters b) \<Longrightarrow> \<exists>d \<in> set (dbl_parameters dr). slice_of (dbl_block dr) d s"
proof -
  from assms obtain ss where ss: "list_all2 (slice_of (dbl_block dr)) (dbl_parameters dr) ss"
    "mset ss = mset (pbl_parameters b)"
    unfolding block_of_def by blast
  have "map pps_parameter_id ss = map dm_parameter_id (dbl_parameters dr)"
    using ss(1) by (induction rule: list_all2_induct) (simp_all add: slice_of_def)
  then show "image_mset pps_parameter_id (mset (pbl_parameters b)) = image_mset dm_parameter_id (mset (dbl_parameters dr))"
    unfolding ss(2) [symmetric] by (metis mset_map)
  show "\<exists>d \<in> set (dbl_parameters dr). slice_of (dbl_block dr) d s" if "s \<in> set (pbl_parameters b)"
    using that mset_eq_setD [OF ss(2)] ss(1) by (metis list_all2_conv_all_nth in_set_conv_nth)
qed

text \<open>
  C31. The plan accounts for every subscription: each subscribed parameter is polled in exactly one slice
  of exactly one block, or rejected exactly once, and nothing else is polled or rejected.
\<close>
theorem poll_plan_covers_every_subscription:
  assumes "build_plan version profile subs config now = Some (Ok plan)" and "profile_keyed profile"
  shows "mset (map (\<lambda>(b, s). pps_parameter_id s) (plan_slices plan)) + mset (map prj_parameter_id (ppl_rejections plan)) =
    mset_set (rsu_parameter_id ` set subs)"
proof -
  obtain active drafts where a: "active_ok profile (ppc_cadences config) subs active"
    "accounted_ids active (ppl_rejections plan) = mset_set (rsu_parameter_id ` set subs)"
    "mset (concat (map dbl_parameters drafts)) = mset (map snd active)"
    "list_all2 (block_of now) drafts (ppl_blocks plan)"
    using build_plan_Ok [OF assms] by metis
  have "mset (map (\<lambda>(b, s). pps_parameter_id s) (plan_slices plan)) =
      image_mset dm_parameter_id (mset (concat (map dbl_parameters drafts)))"
    using a(4) unfolding plan_slices_def
  proof (induction rule: list_all2_induct)
    case (Cons d ds b bs)
    with block_of_slices(1) [OF Cons(1)] show ?case by (simp add: comp_def)
  qed simp
  also have "\<dots> = mset (map fst active)"
  proof -
    have "map (dm_parameter_id \<circ> snd) active = map fst active"
      using a(1) by (auto simp: active_ok_def demand_serves_def)
    then show ?thesis unfolding a(3) by (metis map_map mset_map)
  qed
  finally show ?thesis using a(2) by simp
qed

lemma poll_plan_covers_every_subscription_witness:
  "mset (map (\<lambda>(b, s). pps_parameter_id s) (plan_slices demo_plan)) +
     mset (map prj_parameter_id (ppl_rejections demo_plan)) = {#''ramp'', ''state''#}"
  using poll_plan_covers_every_subscription [OF demo_build demo_keyed] by (simp add: demo_subscriptions_def)

text \<open>
  C32. Every polled value is fresh enough for every consumer: the period of its block is at most the
  maximum age of every cyclic subscription of the parameter, and all its subscribers are served.
  Demands are only ever slowed down by one class at a time.
\<close>
theorem poll_blocks_are_fresh:
  assumes "build_plan version profile subs config now = Some (Ok plan)" and "profile_keyed profile"
    and "(b, s) \<in> set (plan_slices plan)" and "sub \<in> cyclic_subscriptions subs (pps_parameter_id s)"
  shows "pbl_period b \<le> rsu_maximum_age sub \<and> pbl_maximum_age b \<le> rsu_maximum_age sub \<and>
    rsu_subscriber_id sub \<in> set (pps_subscribers s) \<and>
    cadence_period (ppc_cadences config) (pbl_frequency b) = Some (pbl_period b) \<and>
    degradations_ok (ppl_degradations plan)"
proof -
  obtain active drafts where a: "active_ok profile (ppc_cadences config) subs active"
    "degradations_ok (ppl_degradations plan)" "list_all (draft_ok profile config) drafts"
    "mset (concat (map dbl_parameters drafts)) = mset (map snd active)"
    "list_all2 (block_of now) drafts (ppl_blocks plan)"
    using build_plan_Ok [OF assms(1,2)] by metis
  from assms(3) have b: "b \<in> set (ppl_blocks plan)" "s \<in> set (pbl_parameters b)"
    by (auto simp: plan_slices_def)
  then obtain dr where dr: "dr \<in> set drafts" "block_of now dr b"
    using a(5) by (metis list_all2_conv_all_nth in_set_conv_nth)
  obtain d where d: "d \<in> set (dbl_parameters dr)" "slice_of (dbl_block dr) d s"
    using block_of_slices(2) [OF dr(2) b(2)] by blast
  have ok: "draft_ok profile config dr" using a(3) dr(1) by (simp add: list_all_iff)
  have "d \<in> set (map snd active)"
    using d(1) dr(1) mset_eq_setD [OF a(4)] by fastforce
  then obtain k where "(k, d) \<in> set active" by auto
  with a(1) have serves: "demand_serves profile subs k d" and fits: "demand_fits (ppc_cadences config) d"
    by (auto simp: active_ok_def)
  have "k = pps_parameter_id s" using serves d(2) by (simp add: demand_serves_def slice_of_def)
  then have age: "dm_maximum_age d \<le> rsu_maximum_age sub" and sub: "rsu_subscriber_id sub \<in> set (dm_subscribers d)"
    using serves assms(4) by (auto simp: demand_serves_def cyclic_subscriptions_def)
  have freq: "dm_frequency d = dbl_frequency dr" "dbl_maximum_age dr \<le> dm_maximum_age d"
    "cadence_period (ppc_cadences config) (dbl_frequency dr) = Some (dbl_period dr)"
    using ok d(1) by (auto simp: draft_ok_def)
  with fits have "dbl_period dr \<le> dm_maximum_age d" by (simp add: demand_fits_def)
  with age sub freq dr(2) d(2) a(2) show ?thesis by (auto simp: block_of_def slice_of_def)
qed

lemma poll_blocks_are_fresh_witness:
  "pbl_period (hd (ppl_blocks demo_plan)) \<le> from_millis 500"
  using poll_blocks_are_fresh [OF demo_build demo_keyed demo_first_slice demo_first_subscription]
  by (simp add: demo_subscriptions_def)

subsection \<open>Blocks\<close>

text \<open>
  Every block is a legal Modbus read of at most 125 registers, and every slice of it is exactly the
  registers of its parameter; a block is first due within its first period.
\<close>
theorem poll_blocks_are_readable:
  assumes "build_plan version profile subs config now = Some (Ok plan)" and "profile_keyed profile"
    and "(b, s) \<in> set (plan_slices plan)"
  shows "\<exists>p. profile_parameter profile (pps_parameter_id s) = Some p \<and>
    validate_table (pbl_function b) (rb_table (pbl_block b)) = Ok () \<and> \<not> is_write (pbl_function b) \<and>
    unat (rb_count (pbl_block b)) \<le> 125 \<and>
    rb_table (vp_block p) = rb_table (pbl_block b) \<and>
    unat (rb_start (pbl_block b)) + unat (pps_register_offset s) = unat (rb_start (vp_block p)) \<and>
    pps_register_count s = rb_count (vp_block p) \<and>
    unat (pps_register_offset s) + unat (pps_register_count s) \<le> unat (rb_count (pbl_block b)) \<and>
    now \<le> pbl_next_due b \<and> (pbl_period b = 0 \<or> pbl_next_due b < now + pbl_period b)"
proof -
  obtain active drafts where a: "active_ok profile (ppc_cadences config) subs active"
    "list_all (draft_ok profile config) drafts" "mset (concat (map dbl_parameters drafts)) = mset (map snd active)"
    "list_all2 (block_of now) drafts (ppl_blocks plan)"
    using build_plan_Ok [OF assms(1,2)] by metis
  from assms(3) have b: "b \<in> set (ppl_blocks plan)" "s \<in> set (pbl_parameters b)"
    by (auto simp: plan_slices_def)
  then obtain dr where dr: "dr \<in> set drafts" "block_of now dr b"
    using a(4) by (metis list_all2_conv_all_nth in_set_conv_nth)
  obtain d where d: "d \<in> set (dbl_parameters dr)" "slice_of (dbl_block dr) d s"
    using block_of_slices(2) [OF dr(2) b(2)] by blast
  have ok: "draft_ok profile config dr" using a(2) dr(1) by (simp add: list_all_iff)
  have "d \<in> set (map snd active)"
    using d(1) dr(1) mset_eq_setD [OF a(3)] by fastforce
  then obtain k where "(k, d) \<in> set active" by auto
  with a(1) have serves: "demand_serves profile subs k d" by (auto simp: active_ok_def)
  then obtain p where p: "profile_parameter profile (pps_parameter_id s) = Some p" "dm_block d = vp_block p"
    using d(2) by (auto simp: demand_serves_def slice_of_def)
  have spans: "draft_spans (dbl_block dr) d" using ok d(1) by (simp add: draft_ok_def)
  have off: "unat (rb_start (dbl_block dr)) + unat (pps_register_offset s) = unat (rb_start (vp_block p))"
    using d(2) p(2) spans by (simp add: slice_of_def draft_spans_def unat_sub word_le_nat_alt)
  have fn: "dbl_function dr = read_function (rb_table (dbl_block dr))"
    and new: "register_block_new (rb_table (dbl_block dr)) (rb_start (dbl_block dr)) (rb_count (dbl_block dr))
      (dbl_function dr) = Ok (dbl_block dr)" using ok unfolding draft_ok_def by blast+
  have read: "\<not> is_write (dbl_function dr)"
    unfolding fn by (cases "rb_table (dbl_block dr)") (simp_all add: read_function_def is_write_def)
  have count: "unat (rb_count (dbl_block dr)) \<le> 125"
    using register_block_new_OkD(3) [OF new, unfolded validate_count_Ok_iff] read
    by (cases "dbl_function dr") (simp_all add: is_write_def)
  have "validate_table (dbl_function dr) (rb_table (dbl_block dr)) = Ok ()"
    using register_block_new_OkD(2) [OF new] by simp
  moreover have "rb_table (vp_block p) = rb_table (dbl_block dr)"
    "pps_register_count s = rb_count (vp_block p)"
    "unat (pps_register_offset s) + unat (pps_register_count s) \<le> unat (rb_count (dbl_block dr))"
    using spans d(2) p(2) off by (auto simp: slice_of_def draft_spans_def)
  moreover have "pbl_function b = dbl_function dr" "pbl_block b = dbl_block dr"
    "now \<le> pbl_next_due b" "pbl_period b = 0 \<or> pbl_next_due b < now + pbl_period b"
    using dr(2) by (auto simp: block_of_def)
  ultimately show ?thesis
    using p(1) off read count by (intro exI [of _ p]) simp
qed

lemma poll_blocks_are_readable_witness:
  "unat (rb_count (pbl_block (hd (ppl_blocks demo_plan)))) \<le> 125"
  using poll_blocks_are_readable [OF demo_build demo_keyed demo_first_slice] by blast

text \<open>
  The planner always answers: when every parameter of the profile is a legal block that ends below
  the last address, building a plan neither panics nor fails, except that a due time may not be
  representable. (For a block that ends at address 65535 it panics in \<open>RegisterBlock::end\<close>.)
\<close>
theorem poll_planner_is_total:
  assumes "profile_keyed profile"
    and "\<forall>k p. profile_parameter profile k = Some p \<longrightarrow> readable_block (vp_block p)"
  shows "\<exists>r. build_plan version profile subs config now = Some r \<and> (\<forall>e. r = Err e \<longrightarrow> e = TimeOverflow)"
proof -
  obtain active rj where t: "take_in profile (ppc_cadences config) (group_subscriptions subs) ([], []) = Some (active, rj)"
    using take_in_total by blast
  have ok: "active_ok profile (ppc_cadences config) subs active"
    using take_in_ok [OF assms(1) t] .
  from fit_budget_total [OF ok assms(2)] obtain draft dg rj' where
    f: "fit_budget profile config active [] rj = Some (Ok (draft, dg, rj'))" by blast
  have "degradations_ok []" by (simp add: degradations_ok_def)
  from fit_budget_inv [OF ok f this] obtain active' where
    b: "build_blocks profile (map snd (active' :: (parameter_id \<times> demand) list)) config = Some (Ok draft)" by blast
  from build_blocks_Ok(1) [OF b] have "list_all (draft_ok profile config) (dpl_blocks draft)" .
  from finalize_blocks_total [OF this] show ?thesis
    by (auto simp: build_plan_def t f and_then_def split: sum.split)
qed

lemma poll_planner_is_total_witness:
  "\<exists>r. build_plan 2 demo_profile demo_subscriptions demo_config 5 = Some r"
  using poll_planner_is_total [OF demo_keyed] demo_readable by blast
end
