(* ===== verification/Poll_Runs.thy ===== *)
theory Poll_Runs
  imports Poll_Executor Poll_Samples Write_Samples
begin

text \<open>
  Properties of the poll executor: the schedule keeps its phase, every turn that is due serves the
  earliest block and accounts for exactly one result, and the results are bounded and in order.
\<close>

subsection \<open>The schedule\<close>

lemma runtime_earliest_index_Some:
  assumes "runtime_earliest_index p = Some i"
  shows "i < length (rpl_blocks p) \<and>
    (\<forall>j < length (rpl_blocks p). rbk_next_due (rpl_blocks p ! i) \<le> rbk_next_due (rpl_blocks p ! j))"
  using min_by_key_index [OF assms [unfolded runtime_earliest_index_def]]
  by (auto simp: runtime_key_def less_eq_prod_def le_less)

text \<open>
  The schedule keeps its phase and never bursts: a block that was due at \<open>due\<close> is next due strictly
  after the present, at most one period later, at a whole number of periods after \<open>due\<close>; periods that
  have gone by are skipped, not caught up. (The clamp of the code to 64 bits of nanoseconds is not
  reached within 584 years.)
\<close>
theorem poll_schedule_keeps_phase:
  assumes "due \<le> now" and "0 < period" and "now - due + period < 2 ^ 64" and "now + period \<le> INSTANT_MAX"
  shows "now < advance_without_burst due period now \<and> advance_without_burst due period now \<le> now + period \<and>
    (\<exists>k. 0 < k \<and> advance_without_burst due period now = due + k * period)"
proof -
  let ?k = "(now - due) div period + 1"
  have q: "(now - due) div period * period \<le> now - due" and r: "now - due < ?k * period"
    using assms(2) dividend_less_div_times [of period "now - due"] by (simp_all add: algebra_simps)
  then have le: "period * ?k \<le> now - due + period" by (simp add: algebra_simps)
  then have min: "min (min (period * ?k) (2 ^ 128 - 1)) (2 ^ 64 - 1) = period * ?k"
    using le_less_trans [OF le assms(3)] by (simp add: min_def)
  have "due + period * ?k \<le> INSTANT_MAX" using le assms(1,4) by linarith
  moreover have "max period 1 = period" using assms(2) by simp
  ultimately have "advance_without_burst due period now = due + ?k * period"
    unfolding advance_without_burst_def Let_def
    using assms(1) by (simp only: min instant_checked_add_def) (simp add: mult.commute)
  moreover have "now < due + ?k * period" using r assms(1) by linarith
  moreover have "due + ?k * period \<le> now + period" using le assms(1) by (simp add: mult.commute)
  ultimately show ?thesis by (metis add_gr_0 zero_less_one)
qed

lemma poll_schedule_keeps_phase_witness:
  "advance_without_burst 100 30 175 = (190 :: nat) \<and> 175 < advance_without_burst 100 30 175"
  using poll_schedule_keeps_phase [of 100 175 30]
  by (simp add: advance_without_burst_def instant_checked_add_def INSTANT_MAX_def)

subsection \<open>A turn\<close>

definition reads_of :: "'d port_event list \<Rightarrow> (read_bus_request \<times> (bus_error + raw_registers)) list" where
  "reads_of es = concat (map (\<lambda>e. case e of EvRead q r \<Rightarrow> [(q, r)] | _ \<Rightarrow> []) es)"

lemma reads_of_simps [simp]:
  "reads_of [] = []" "reads_of (EvRead q r # es) = (q, r) # reads_of es"
  "reads_of (EvNow n # es) = reads_of es" "reads_of (EvSleep d # es) = reads_of es"
  by (simp_all add: reads_of_def)

text \<open>
  What the end of a turn on block \<open>i\<close> does to the state: it accounts for the result \<open>r\<close>, which is
  published or counted as dropped, and moves the block on.
\<close>

definition accounts_for ::
  "nat \<Rightarrow> poll_execution_result \<Rightarrow> ('w, 'd) poll_executor \<Rightarrow> ('w, 'd) poll_executor \<Rightarrow> bool" where
  "accounts_for i r s s' \<longleftrightarrow>
     per_plan_version r = rpl_version (pe_runtime s) \<and>
     per_block_index r = pbl_index (rbk_block (rpl_blocks (pe_runtime s) ! i)) \<and>
     (if pe_receiver_closed s \<or> pe_result_capacity s \<le> length (pe_results s)
      then pe_results s' = pe_results s \<and>
        pxs_results_dropped (pe_stats s') = sat_inc (pxs_results_dropped (pe_stats s))
      else pe_results s' = pe_results s @ [r] \<and>
        pxs_results_dropped (pe_stats s') = pxs_results_dropped (pe_stats s)) \<and>
     rpl_version (pe_runtime s') = rpl_version (pe_runtime s) \<and>
     (\<exists>now. rpl_blocks (pe_runtime s') = (rpl_blocks (pe_runtime s))[i := (rpl_blocks (pe_runtime s) ! i)
        \<lparr>rbk_next_due := advance_without_burst (rbk_next_due (rpl_blocks (pe_runtime s) ! i))
           (pbl_period (rbk_block (rpl_blocks (pe_runtime s) ! i))) now\<rparr>]) \<and>
     pe_plan s' = pe_plan s \<and> pe_result_capacity s' = pe_result_capacity s \<and>
     pe_receiver_closed s' = pe_receiver_closed s"

definition same_books :: "('w, 'd) poll_executor \<Rightarrow> ('w, 'd) poll_executor \<Rightarrow> bool" where
  "same_books s t \<longleftrightarrow>
     pe_runtime t = pe_runtime s \<and> pe_results t = pe_results s \<and> pe_plan t = pe_plan s \<and>
     pe_result_capacity t = pe_result_capacity s \<and> pe_receiver_closed t = pe_receiver_closed s \<and>
     pe_session_id t = pe_session_id s \<and> pxs_results_dropped (pe_stats t) = pxs_results_dropped (pe_stats s)"

lemma accounts_for_cong: "same_books s t \<Longrightarrow> accounts_for i r t s' \<Longrightarrow> accounts_for i r s s'"
  by (simp add: accounts_for_def same_books_def)

text \<open>The reads that belong to a result: none if it was skipped or could not be requested.\<close>

definition reads_explain ::
  "session_id \<Rightarrow> poll_block \<Rightarrow> poll_execution_result \<Rightarrow> (read_bus_request \<times> (bus_error + raw_registers)) list \<Rightarrow> bool" where
  "reads_explain sid b r rs \<longleftrightarrow>
     (case per_outcome r of
        SkippedDeadline \<Rightarrow> rs = []
      | PollRead v \<Rightarrow>
          (rs = [] \<and> (\<exists>e. v = Err e)) \<or>
          (\<exists>q. rs = [(q, v)] \<and> rbr_block q = pbl_block b \<and> rbr_function q = pbl_function b \<and>
             rbr_slave q = pbl_slave b \<and> brc_session_id (rbr_context q) = sid \<and>
             brc_request_id (rbr_context q) = per_request_id r \<and> rbr_periodic q))"

lemma read_request_periodic_OkD:
  assumes "read_request_periodic c sl f b = Ok q"
  shows "rbr_context q = c \<and> rbr_slave q = sl \<and> rbr_function q = f \<and> rbr_block q = b \<and> rbr_periodic q"
  using assms by (auto simp: read_request_periodic_def Let_def and_then_Ok_iff)

lemma periodic_context_OkD:
  "periodic_context rid sid cl dl = Ok c \<Longrightarrow> brc_request_id c = rid \<and> brc_session_id c = sid"
  by (auto simp: periodic_context_def bus_request_context_new_def split: if_splits)

lemma publish_and_advance_accounts:
  assumes "run_state (publish_and_advance P i due b rid c out again) s = ((), s')"
    and "due = rbk_next_due (rpl_blocks (pe_runtime s) ! i)" and "b = rbk_block (rpl_blocks (pe_runtime s) ! i)"
  shows "\<exists>r es. ac_trace s' = ac_trace s @ es \<and> reads_of es = [] \<and> accounts_for i r s s' \<and>
    per_request_id r = rid \<and> per_outcome r = out \<and> pe_next_request_id s' = pe_next_request_id s"
proof -
  let ?r = "\<lparr>per_plan_version = rpl_version (pe_runtime s), per_block_index = pbl_index b,
    per_request_id = rid, per_completed_at = c, per_outcome = out\<rparr>"
  obtain s1 where s1: "run_state (publish_result ?r) s = ((), s1)"
    by (metis old.unit.exhaust surj_pair)
  have same: "ac_trace s1 = ac_trace s" "ac_world s1 = ac_world s" "pe_runtime s1 = pe_runtime s"
    "pe_next_request_id s1 = pe_next_request_id s" "pe_plan s1 = pe_plan s"
    "pe_result_capacity s1 = pe_result_capacity s" "pe_receiver_closed s1 = pe_receiver_closed s"
    and books: "if pe_receiver_closed s \<or> pe_result_capacity s \<le> length (pe_results s)
      then pe_results s1 = pe_results s \<and>
        pxs_results_dropped (pe_stats s1) = sat_inc (pxs_results_dropped (pe_stats s))
      else pe_results s1 = pe_results s @ [?r] \<and>
        pxs_results_dropped (pe_stats s1) = pxs_results_dropped (pe_stats s)"
    using s1 by (auto simp: publish_result_def split: if_splits)
  obtain n es w where n: "run_state (if again then poll_now P else State_Monad.return c) s1 =
      (n, s1\<lparr>ac_world := w, ac_trace := ac_trace s1 @ es\<rparr>)" "reads_of es = []"
  proof (cases again)
    case True
    obtain n w where "po_instant_now P (ac_world s1) = (n, w)" by fastforce
    with True that [of n "[EvNow n]" w] show ?thesis by (simp add: poll_now_def call_def)
  next
    case False
    with that [of c "[]" "ac_world s1"] show ?thesis by simp
  qed
  have "s' = s1\<lparr>ac_world := w, ac_trace := ac_trace s1 @ es, pe_runtime := (pe_runtime s)\<lparr>rpl_blocks :=
      (rpl_blocks (pe_runtime s))[i := (rpl_blocks (pe_runtime s) ! i)
        \<lparr>rbk_next_due := advance_without_burst due (pbl_period b) n\<rparr>]\<rparr>\<rparr>"
    using assms(1) s1 n(1) same by (simp add: publish_and_advance_def set_next_due_def)
  with books same n(2) assms(2,3) show ?thesis
    by (intro exI [of _ ?r] exI [of _ es]) (auto simp: accounts_for_def split: if_splits)
qed

lemma execute_block_accounts:
  assumes "run_state (poll_execute_block P i) s = ((), s')"
  shows "\<exists>r es. ac_trace s' = ac_trace s @ es \<and> accounts_for i r s s' \<and>
    per_request_id r = pe_next_request_id s \<and> pe_next_request_id s' = sat_inc (pe_next_request_id s) \<and>
    reads_explain (pe_session_id s) (rbk_block (rpl_blocks (pe_runtime s) ! i)) r (reads_of es)"
proof -
  let ?b = "rbk_block (rpl_blocks (pe_runtime s) ! i)" and ?due = "rbk_next_due (rpl_blocks (pe_runtime s) ! i)"
  define deadline where "deadline = (case instant_checked_add ?due (pbl_maximum_age ?b) of None \<Rightarrow> ?due | Some t \<Rightarrow> t)"
  have finish: ?thesis
    if p: "run_state (publish_and_advance P i ?due ?b (pe_next_request_id s) c out again) t = ((), s')"
      and t: "same_books s t" "pe_next_request_id t = sat_inc (pe_next_request_id s)" "ac_trace t = ac_trace s @ es"
      and e: "\<And>r. per_request_id r = pe_next_request_id s \<Longrightarrow> per_outcome r = out \<Longrightarrow> reads_explain (pe_session_id s) ?b r (reads_of es)"
    for c out again t es
  proof -
    from t(1) have rt: "pe_runtime t = pe_runtime s" by (simp add: same_books_def)
    from publish_and_advance_accounts [OF p] rt obtain r fs where
      r: "ac_trace s' = ac_trace t @ fs" "reads_of fs = []" "accounts_for i r t s'"
      "per_request_id r = pe_next_request_id s" "per_outcome r = out" "pe_next_request_id s' = pe_next_request_id t"
      by auto
    have "reads_of (es @ fs) = reads_of es" using r(2) by (simp add: reads_of_def)
    with r t e [OF r(4,5)] accounts_for_cong [OF t(1) r(3)] show ?thesis
      by (intro exI [of _ r] exI [of _ "es @ fs"]) simp
  qed
  obtain n1 w1 where 1: "po_instant_now P (ac_world s) = (n1, w1)" by fastforce
  show ?thesis
  proof (cases "n1 \<ge> deadline")
    case True
    obtain n2 w2 where 2: "po_instant_now P w1 = (n2, w2)" by fastforce
    have "run_state (publish_and_advance P i ?due ?b (pe_next_request_id s) n2 SkippedDeadline False)
        (s\<lparr>pe_next_request_id := sat_inc (pe_next_request_id s),
           pe_stats := (pe_stats s)\<lparr>pxs_deadlines_skipped := sat_inc (pxs_deadlines_skipped (pe_stats s))\<rparr>,
           ac_world := w2, ac_trace := ac_trace s @ [EvNow n1, EvNow n2]\<rparr>) = ((), s')"
      using assms True 1 2
      by (simp add: poll_execute_block_def take_request_id_def poll_now_def call_def poll_stat_def Let_def
          deadline_def [symmetric])
    then show ?thesis
      by (rule finish [where es = "[EvNow n1, EvNow n2]"]) (simp_all add: same_books_def reads_explain_def)
  next
    case False
    let ?ctx = "periodic_context (pe_next_request_id s) (pe_session_id s) (pbl_request_class ?b) deadline"
    let ?s1 = "s\<lparr>pe_next_request_id := sat_inc (pe_next_request_id s)\<rparr>"
    let ?started = "(pe_stats s)\<lparr>pxs_requests_started := sat_inc (pxs_requests_started (pe_stats s))\<rparr>"
    note exec = assms [unfolded poll_execute_block_def]
    show ?thesis
    proof (cases ?ctx)
      case (Inl e)
      obtain n2 w2 where 2: "po_instant_now P w1 = (n2, w2)" by fastforce
      have "run_state (publish_and_advance P i ?due ?b (pe_next_request_id s) n2 (PollRead (Err e)) True)
          (?s1\<lparr>ac_world := w2, ac_trace := ac_trace s @ [EvNow n1, EvNow n2]\<rparr>) = ((), s')"
        using exec False 1 2 Inl
        by (simp add: take_request_id_def poll_now_def call_def Let_def deadline_def [symmetric])
      then show ?thesis
        by (rule finish [where es = "[EvNow n1, EvNow n2]"]) (simp_all add: same_books_def reads_explain_def)
    next
      case (Inr cx)
      let ?req = "read_request_periodic cx (pbl_slave ?b) (pbl_function ?b) (pbl_block ?b)"
      show ?thesis
      proof (cases ?req)
        case (Inl e)
        obtain n2 w2 where 2: "po_instant_now P w1 = (n2, w2)" by fastforce
        have "run_state (publish_and_advance P i ?due ?b (pe_next_request_id s) n2 (PollRead (Err e)) True)
            (?s1\<lparr>pe_stats := ?started, ac_world := w2, ac_trace := ac_trace s @ [EvNow n1, EvNow n2]\<rparr>) = ((), s')"
          using exec False 1 2 \<open>?ctx = Inr cx\<close> Inl
          by (simp add: take_request_id_def poll_now_def call_def poll_stat_def Let_def deadline_def [symmetric])
        then show ?thesis
          by (rule finish [where es = "[EvNow n1, EvNow n2]"]) (simp_all add: same_books_def reads_explain_def)
      next
        case (Inr q)
        obtain v w2 where 2: "po_read P q w1 = (v, w2)" by fastforce
        obtain n3 w3 where 3: "po_instant_now P w2 = (n3, w3)" by fastforce
        have "run_state (publish_and_advance P i ?due ?b (pe_next_request_id s) n3 (PollRead v) False)
            (?s1\<lparr>pe_stats := ?started\<lparr>pxs_requests_completed := sat_inc (pxs_requests_completed (pe_stats s))\<rparr>,
               ac_world := w3, ac_trace := ac_trace s @ [EvNow n1, EvRead q v, EvNow n3]\<rparr>) = ((), s')"
          using exec False 1 2 3 \<open>?ctx = Inr cx\<close> Inr
          by (simp add: take_request_id_def poll_now_def poll_bus_read_def call_def poll_stat_def Let_def
              deadline_def [symmetric])
        then show ?thesis
          by (rule finish [where es = "[EvNow n1, EvRead q v, EvNow n3]"])
            (use read_request_periodic_OkD [OF Inr] periodic_context_OkD [OF \<open>?ctx = Inr cx\<close>]
              in \<open>simp_all add: same_books_def reads_explain_def\<close>)
      qed
    qed
  qed
qed

subsection \<open>Turns\<close>

lemma poll_turn_accounts:
  assumes "\<not> pe_plan_changed s" and "runtime_earliest_index (pe_runtime s) = Some i"
    and "run_state (poll_turn P) s = ((), s')"
  shows "(\<forall>j < length (rpl_blocks (pe_runtime s)).
      rbk_next_due (rpl_blocks (pe_runtime s) ! i) \<le> rbk_next_due (rpl_blocks (pe_runtime s) ! j)) \<and>
    (\<exists>r es. ac_trace s' = ac_trace s @ es \<and> accounts_for i r s s' \<and>
      per_request_id r = pe_next_request_id s \<and> pe_next_request_id s' = sat_inc (pe_next_request_id s) \<and>
      reads_explain (pe_session_id s) (rbk_block (rpl_blocks (pe_runtime s) ! i)) r (reads_of es))"
proof -
  let ?due = "rbk_next_due (rpl_blocks (pe_runtime s) ! i)"
  obtain n w where 1: "po_instant_now P (ac_world s) = (n, w)" by fastforce
  obtain w' where 2: "po_sleep P (?due - n) w = ((), w')" by (metis old.unit.exhaust surj_pair)
  let ?t = "s\<lparr>ac_world := w', ac_trace := ac_trace s @ [EvNow n, EvSleep (?due - n)]\<rparr>"
  have "run_state (poll_execute_block P i) ?t = ((), s')"
    using assms 1 2 by (simp add: poll_turn_def poll_sleep_until_def poll_now_def call_def)
  from execute_block_accounts [OF this] obtain r es where
    "ac_trace s' = ac_trace ?t @ es" "accounts_for i r ?t s'"
    "per_request_id r = pe_next_request_id s" "pe_next_request_id s' = sat_inc (pe_next_request_id s)"
    "reads_explain (pe_session_id s) (rbk_block (rpl_blocks (pe_runtime s) ! i)) r (reads_of es)"
    by auto
  moreover from this have "accounts_for i r s s'" by (auto simp: accounts_for_def)
  ultimately have "\<exists>r es. ac_trace s' = ac_trace s @ es \<and> accounts_for i r s s' \<and>
      per_request_id r = pe_next_request_id s \<and> pe_next_request_id s' = sat_inc (pe_next_request_id s) \<and>
      reads_explain (pe_session_id s) (rbk_block (rpl_blocks (pe_runtime s) ! i)) r (reads_of es)"
    by (intro exI [of _ r] exI [of _ "[EvNow n, EvSleep (?due - n)] @ es"]) simp
  then show ?thesis
    using runtime_earliest_index_Some [OF assms(2)] by blast
qed

lemma poll_turn_capacity:
  assumes "run_state (poll_turn P) s = ((), s')"
  shows "pe_result_capacity s' = pe_result_capacity s"
proof (cases "pe_plan_changed s \<or> runtime_earliest_index (pe_runtime s) = None")
  case True
  with assms show ?thesis
    by (auto simp: poll_turn_def take_changed_plan_def split: if_splits option.splits)
next
  case False
  with poll_turn_accounts [OF _ _ assms] show ?thesis by (auto simp: accounts_for_def)
qed

text \<open>
  A turn that finds the plan unchanged serves the block that is due first and accounts for exactly
  one result of it, which is published or, when the consumer is slow or gone, counted as dropped. The
  bus sees at most the one read that the result reports, for exactly the registers of the block, and
  none when the deadline has passed. Only this block is moved on.
\<close>
theorem poll_turn_accounts_for_one_block:
  assumes "\<not> pe_plan_changed s" and "runtime_earliest_index (pe_runtime s) = Some i"
    and "run_state (poll_turn P) s = ((), s')"
  shows "(\<forall>j < length (rpl_blocks (pe_runtime s)).
      rbk_next_due (rpl_blocks (pe_runtime s) ! i) \<le> rbk_next_due (rpl_blocks (pe_runtime s) ! j)) \<and>
    (\<exists>r es. ac_trace s' = ac_trace s @ es \<and> accounts_for i r s s' \<and>
      per_request_id r = pe_next_request_id s \<and> pe_next_request_id s' = sat_inc (pe_next_request_id s) \<and>
      reads_explain (pe_session_id s) (rbk_block (rpl_blocks (pe_runtime s) ! i)) r (reads_of es))"
  using poll_turn_accounts [OF assms] .

subsection \<open>Reachable states\<close>

definition poll_executor_inv :: "('w, 'd) poll_executor \<Rightarrow> bool" where
  "poll_executor_inv s \<longleftrightarrow>
     length (pe_results s) \<le> pe_result_capacity s \<and>
     sorted (map per_request_id (pe_results s)) \<and>
     (\<forall>r \<in> set (pe_results s). per_request_id r \<le> pe_next_request_id s)"

lemma poll_executor_inv_turn:
  assumes inv: "poll_executor_inv s" and run: "run_state (poll_turn P) s = ((), s')"
  shows "poll_executor_inv s'"
proof (cases "pe_plan_changed s \<or> runtime_earliest_index (pe_runtime s) = None")
  case True
  with run inv show ?thesis
    by (auto simp: poll_turn_def take_changed_plan_def poll_executor_inv_def split: if_splits option.splits)
next
  case False
  then obtain i where i: "\<not> pe_plan_changed s" "runtime_earliest_index (pe_runtime s) = Some i" by blast
  from poll_turn_accounts [OF i run] obtain r where
    "accounts_for i r s s'" "per_request_id r = pe_next_request_id s"
    "pe_next_request_id s' = sat_inc (pe_next_request_id s)" by blast
  moreover have "x \<le> sat_inc (pe_next_request_id s)" if "x \<le> pe_next_request_id s" for x
    using that sat_inc_ge [of "pe_next_request_id s"] by (simp add: word_le_nat_alt)
  ultimately show ?thesis
    using inv by (auto simp: poll_executor_inv_def accounts_for_def sorted_append split: if_splits)
qed

text \<open>
  However turns, new plans, shutdowns, and the consumer interleave: the result channel never holds
  more than its capacity, and the results in it are in the order of their request identifiers.
\<close>
theorem poll_results_are_bounded_and_ordered:
  assumes "poll_executor_spawn w sid plan cap = Ok s0" and "poll_reachable P s0 s"
  shows "length (pe_results s) \<le> cap \<and> sorted (map per_request_id (pe_results s)) \<and>
    (\<forall>r \<in> set (pe_results s). per_request_id r \<le> pe_next_request_id s)"
proof -
  from assms(2) have "poll_executor_inv s \<and> pe_result_capacity s = cap"
  proof induction
    case poll_start
    with assms(1) show ?case
      by (auto simp: poll_executor_spawn_def poll_executor_inv_def split: if_splits)
  next
    case (poll_more s s')
    from \<open>poll_step P s s'\<close> show ?case
    proof cases
      case executor_turns
      with poll_more poll_executor_inv_turn poll_turn_capacity show ?thesis by metis
    next
      case (plan_updated plan' r)
      with poll_more show ?thesis
        by (auto simp: poll_update_plan_def poll_executor_inv_def Let_def split: if_splits option.splits)
    qed (use poll_more in \<open>auto simp: poll_shutdown_def poll_executor_inv_def\<close>)
  qed
  then show ?thesis by (auto simp: poll_executor_inv_def)
qed

subsection \<open>Witnesses\<close>

text \<open>The executor of the sample plan, over the sample ports of the write coordinator.\<close>

definition demo_executor :: "(u16, rat) poll_executor" where
  "demo_executor = \<lparr>ac_world = 3, ac_trace = [], pe_session_id = 1, pe_plan = Some demo_plan, pe_plan_changed = False,
     pe_running = True, pe_runtime = runtime_plan_from_plan demo_plan, pe_next_request_id = 1,
     pe_results = [], pe_result_capacity = 4, pe_receiver_closed = False,
     pe_stats = \<lparr>pxs_plan_version = 1, pxs_plan_switches = 0, pxs_requests_started = 0,
       pxs_requests_completed = 0, pxs_deadlines_skipped = 0, pxs_results_dropped = 0\<rparr>\<rparr>"

lemma demo_executor_spawned: "poll_executor_spawn 3 1 demo_plan 4 = Ok demo_executor"
  by (simp add: poll_executor_spawn_def demo_executor_def demo_plan_def)

lemma demo_earliest: "runtime_earliest_index (pe_runtime demo_executor) = Some 0"
  by (simp add: runtime_earliest_index_def demo_executor_def runtime_plan_from_plan_def demo_plan_def
      runtime_key_def demo_poll_block_def upt_rec)

lemma poll_turn_accounts_for_one_block_witness:
  "\<exists>r. accounts_for 0 r demo_executor (snd (run_state (poll_turn demo_ports) demo_executor)) \<and> per_request_id r = 1"
proof -
  have "\<not> pe_plan_changed demo_executor" by (simp add: demo_executor_def)
  from poll_turn_accounts_for_one_block [OF this demo_earliest,
      of demo_ports "snd (run_state (poll_turn demo_ports) demo_executor)"]
  show ?thesis
    by (auto simp: prod_eq_iff demo_executor_def)
qed

lemma poll_results_are_bounded_and_ordered_witness:
  "length (pe_results (snd (run_state (poll_turn demo_ports) demo_executor))) \<le> 4"
proof -
  have "poll_step demo_ports demo_executor (snd (run_state (poll_turn demo_ports) demo_executor))"
    by (rule executor_turns) (simp_all add: demo_executor_def prod_eq_iff)
  from poll_results_are_bounded_and_ordered [OF demo_executor_spawned poll_more [OF poll_start this]]
  show ?thesis by simp
qed

end
