(* ===== verification/Telemetry_State.thy ===== *)
theory Telemetry_State
  imports Poll_Executor
begin

text \<open>
  The telemetry state of \<open>lantern-app/src/telemetry/pipeline/state.rs\<close> with the data of
  \<open>telemetry/model.rs\<close>: the retained poll plans, the latest value of every polled parameter with
  its quality, and the bounded histories. \<open>usize\<close> counts are naturals that saturate at \<open>2 ^ 64 - 1\<close>;
  the size of one \<open>HistoryPoint\<close> in memory, which the compiler chooses, is the parameter \<open>point_size\<close>.
\<close>

subsection \<open>Data\<close>

definition USIZE_MAX :: nat where "USIZE_MAX = 2 ^ 64 - 1"

definition usize_add :: "nat \<Rightarrow> nat \<Rightarrow> nat" where
  "usize_add a b = min (a + b) USIZE_MAX"

record telemetry_pipeline_config =
  tpc_history_samples_per_channel :: nat
  tpc_history_retention :: duration
  tpc_history_memory_budget_bytes :: nat
  tpc_csv_capacity :: nat
  tpc_fault_capacity :: nat
  tpc_diagnostics_capacity :: nat

datatype telemetry_pipeline_error =
    ZeroHistorySamples | ZeroHistoryRetention | ZeroHistoryMemoryBudget | ZeroConsumerCapacity
  | NonIncreasingTelemetryPlan

definition telemetry_config_validate ::
  "telemetry_pipeline_config \<Rightarrow> telemetry_pipeline_error + telemetry_pipeline_config" where
  "telemetry_config_validate c =
     (if tpc_history_samples_per_channel c = 0 then Err ZeroHistorySamples
      else if tpc_history_retention c = 0 then Err ZeroHistoryRetention
      else if tpc_history_memory_budget_bytes c = 0 then Err ZeroHistoryMemoryBudget
      else if tpc_csv_capacity c = 0 \<or> tpc_fault_capacity c = 0 \<or> tpc_diagnostics_capacity c = 0
      then Err ZeroConsumerCapacity
      else Ok c)"

datatype (plugins only: code size) telemetry_attempt_error =
    BusAttempt bus_error
  | DecodeAttempt codec_error
  | InvalidRegisterSlice
  | MissingProfileParameter
  | SkippedDeadlineAttempt

record 'd latest_value =
  lva_last_good :: "'d telemetry_sample_core option"
  lva_current_quality :: telemetry_quality
  lva_last_attempt_at :: "monotonic_instant option"
  lva_last_error :: "telemetry_attempt_error option"
  lva_expected_period :: duration
  lva_maximum_age :: duration
  lva_age :: "duration option"

definition latest_can_satisfy_write_guard :: "'d latest_value \<Rightarrow> bool" where
  "latest_can_satisfy_write_guard v \<longleftrightarrow>
     can_satisfy_write_guard (lva_current_quality v) \<and> lva_last_good v \<noteq> None \<and>
     (case lva_age v of None \<Rightarrow> False | Some age \<Rightarrow> age < lva_maximum_age v)"

record 'd latest_values =
  lvs_session_id :: session_id
  lvs_captured_at :: monotonic_instant
  lvs_values :: "(parameter_id, 'd latest_value) btree_map"

definition latest_values_value :: "'d latest_values \<Rightarrow> parameter_id \<Rightarrow> 'd latest_value option" where
  "latest_values_value l i = bt_get (lvs_values l) i"

datatype (plugins only: code size) 'd history_point =
    SamplePoint "'d telemetry_sample_core"
  | GapPoint monotonic_instant telemetry_quality

definition point_monotonic_time :: "'d history_point \<Rightarrow> monotonic_instant" where
  "point_monotonic_time p = (case p of SamplePoint s \<Rightarrow> tsc_monotonic_time s | GapPoint t _ \<Rightarrow> t)"

definition estimated_bytes :: "nat \<Rightarrow> 'd history_point \<Rightarrow> nat" where
  "estimated_bytes point_size p =
     usize_add point_size (case p of SamplePoint s \<Rightarrow> min (length (tsc_raw s) * 2) USIZE_MAX | GapPoint _ _ \<Rightarrow> 0)"

record 'd telemetry_event =
  tev_session_id :: session_id
  tev_parameter_id :: parameter_id
  tev_monotonic_time :: monotonic_instant
  tev_quality :: telemetry_quality
  tev_sample :: "'d telemetry_sample_core option"
  tev_error :: "telemetry_attempt_error option"

record telemetry_pipeline_statistics =
  tst_attempts :: u64
  tst_good_samples :: u64
  tst_samples_per_second_milli :: u64
  tst_timeout_events :: u64
  tst_decode_errors :: u64
  tst_stale_transitions :: u64
  tst_disconnect_transitions :: u64
  tst_quality_gaps :: u64
  tst_history_channels :: nat
  tst_history_points :: nat
  tst_history_bytes :: nat
  tst_csv_drops :: u64
  tst_fault_drops :: u64
  tst_diagnostics_drops :: u64
  tst_snapshots_published :: u64
  tst_unknown_plan_results :: u64

subsection \<open>The state\<close>

definition MAX_RETAINED_PLAN_VERSIONS :: nat where "MAX_RETAINED_PLAN_VERSIONS = 8"

record 'd latest_entry =
  len_last_good :: "'d telemetry_sample_core option"
  len_current_quality :: telemetry_quality
  len_last_attempt_at :: "instant option"
  len_last_error :: "telemetry_attempt_error option"
  len_expected_period :: duration
  len_maximum_age :: duration
  len_history_required :: bool

record pipeline_counters =
  pco_attempts :: u64
  pco_good_samples :: u64
  pco_timeout_events :: u64
  pco_decode_errors :: u64
  pco_stale_transitions :: u64
  pco_disconnect_transitions :: u64
  pco_quality_gaps :: u64
  pco_csv_drops :: u64
  pco_fault_drops :: u64
  pco_diagnostics_drops :: u64
  pco_snapshots_published :: u64
  pco_unknown_plan_results :: u64

definition pipeline_counters_default :: pipeline_counters where
  "pipeline_counters_default =
     \<lparr>pco_attempts = 0, pco_good_samples = 0, pco_timeout_events = 0, pco_decode_errors = 0,
      pco_stale_transitions = 0, pco_disconnect_transitions = 0, pco_quality_gaps = 0, pco_csv_drops = 0,
      pco_fault_drops = 0, pco_diagnostics_drops = 0, pco_snapshots_published = 0, pco_unknown_plan_results = 0\<rparr>"

type_synonym 'd histories = "(parameter_id, 'd history_point list) btree_map"

record 'd pipeline_state =
  pst_session_id :: session_id
  pst_origin :: instant
  pst_started_at :: instant
  pst_config :: telemetry_pipeline_config
  pst_active_plan_version :: u64
  pst_plans :: "(u64, poll_plan) btree_map"
  pst_values :: "(parameter_id, 'd latest_entry) btree_map"
  pst_histories :: "'d histories"
  pst_history_bytes :: nat
  pst_stats :: pipeline_counters

definition recalculate_history_bytes :: "nat \<Rightarrow> 'd pipeline_state \<Rightarrow> 'd pipeline_state" where
  "recalculate_history_bytes point_size s = s\<lparr>pst_history_bytes :=
     foldl usize_add 0 (map (estimated_bytes point_size) (concat (map snd (pst_histories s))))\<rparr>"

text \<open>Old plan versions are dropped, the smallest first, but never the active one.\<close>

lemma length_bt_remove: "k \<in> set (map fst m) \<Longrightarrow> length (bt_remove k m) < length m"
  unfolding bt_remove_def by (auto intro: length_filter_less)

function evict_plans :: "u64 \<Rightarrow> (u64, poll_plan) btree_map \<Rightarrow> (u64, poll_plan) btree_map" where
  "evict_plans active plans =
     (if length plans \<le> MAX_RETAINED_PLAN_VERSIONS then plans
      else case find (\<lambda>v. v \<noteq> active) (map fst plans) of
          None \<Rightarrow> plans
        | Some version \<Rightarrow> evict_plans active (bt_remove version plans))"
  by pat_completeness auto
termination
  by (relation "measure (\<lambda>(active, plans). length plans)")
    (auto simp: find_Some_iff intro!: length_bt_remove imageI)

declare evict_plans.simps [simp del]

type_synonym slice_needs = "(parameter_id, duration \<times> duration \<times> bool) btree_map"

definition need_slice :: "poll_block \<Rightarrow> slice_needs \<Rightarrow> poll_parameter_slice \<Rightarrow> slice_needs" where
  "need_slice block active sl =
     bt_insert (pps_parameter_id sl)
       (case bt_get active (pps_parameter_id sl) of
          None \<Rightarrow> (pbl_period block, pps_maximum_age sl, pps_history_required sl)
        | Some (period, maximum_age, history) \<Rightarrow>
            (min period (pbl_period block), min maximum_age (pps_maximum_age sl),
             history \<or> pps_history_required sl)) active"

definition plan_needs :: "poll_plan \<Rightarrow> slice_needs" where
  "plan_needs plan =
     foldl (\<lambda>active block. foldl (need_slice block) active (pbl_parameters block)) [] (ppl_blocks plan)"

definition adopt_entry ::
  "(parameter_id, 'd latest_entry) btree_map \<Rightarrow> parameter_id \<times> duration \<times> duration \<times> bool
     \<Rightarrow> (parameter_id, 'd latest_entry) btree_map" where
  "adopt_entry values need =
     (case need of (i, period, maximum_age, history_required) \<Rightarrow>
        bt_insert i
          (case bt_get values i of
             Some entry \<Rightarrow> entry\<lparr>len_expected_period := period, len_maximum_age := maximum_age,
                               len_history_required := history_required\<rparr>
           | None \<Rightarrow> \<lparr>len_last_good = None, len_current_quality = Unavailable, len_last_attempt_at = None,
                      len_last_error = None, len_expected_period = period, len_maximum_age = maximum_age,
                      len_history_required = history_required\<rparr>) values)"

definition adopt_history ::
  "'d histories \<Rightarrow> parameter_id \<times> duration \<times> duration \<times> bool \<Rightarrow> 'd histories" where
  "adopt_history histories need =
     (case need of (i, _, _, history_required) \<Rightarrow>
        if history_required \<and> bt_get histories i = None then bt_insert i [] histories else histories)"

definition install_plan :: "nat \<Rightarrow> poll_plan \<Rightarrow> 'd pipeline_state \<Rightarrow> 'd pipeline_state" where
  "install_plan point_size plan s =
     (let active = plan_needs plan;
          kept = filter (\<lambda>e. bt_get active (fst e) \<noteq> None) (pst_values s);
          histories = foldl adopt_history (pst_histories s) active
      in recalculate_history_bytes point_size
           (s\<lparr>pst_active_plan_version := ppl_version plan,
              pst_plans := evict_plans (ppl_version plan) (bt_insert (ppl_version plan) plan (pst_plans s)),
              pst_values := foldl adopt_entry kept active,
              pst_histories := filter (\<lambda>e. case bt_get active (fst e) of None \<Rightarrow> False | Some (_, _, h) \<Rightarrow> h) histories\<rparr>))"

definition pipeline_state_new ::
  "nat \<Rightarrow> session_id \<Rightarrow> instant \<Rightarrow> telemetry_pipeline_config \<Rightarrow> poll_plan \<Rightarrow> 'd pipeline_state" where
  "pipeline_state_new point_size session_id origin config initial_plan =
     install_plan point_size initial_plan
       \<lparr>pst_session_id = session_id, pst_origin = origin, pst_started_at = origin, pst_config = config,
        pst_active_plan_version = ppl_version initial_plan, pst_plans = [], pst_values = [], pst_histories = [],
        pst_history_bytes = 0, pst_stats = pipeline_counters_default\<rparr>"

subsection \<open>Snapshots\<close>

text \<open>\<open>checked_duration_since\<close> with \<open>unwrap_or(ZERO)\<close> is the truncated difference.\<close>

definition to_monotonic :: "'d pipeline_state \<Rightarrow> instant \<Rightarrow> monotonic_instant" where
  "to_monotonic s t = of_nat (t - pst_origin s)"

definition duration_from_nanos :: "nat \<Rightarrow> duration" where
  "duration_from_nanos n = min n (2 ^ 64 - 1)"

definition elapsed_nanos :: "monotonic_instant \<Rightarrow> monotonic_instant \<Rightarrow> nat" where
  "elapsed_nanos later earlier = unat later - unat earlier"

definition snapshot_value :: "'d pipeline_state \<Rightarrow> monotonic_instant \<Rightarrow> 'd latest_entry \<Rightarrow> 'd latest_value" where
  "snapshot_value s captured_at e =
     \<lparr>lva_last_good = len_last_good e, lva_current_quality = len_current_quality e,
      lva_last_attempt_at = map_option (to_monotonic s) (len_last_attempt_at e),
      lva_last_error = len_last_error e, lva_expected_period = len_expected_period e,
      lva_maximum_age = len_maximum_age e,
      lva_age = map_option (\<lambda>g. duration_from_nanos (elapsed_nanos captured_at (tsc_monotonic_time g))) (len_last_good e)\<rparr>"

definition pipeline_snapshot :: "instant \<Rightarrow> 'd pipeline_state \<Rightarrow> 'd latest_values" where
  "pipeline_snapshot now s =
     \<lparr>lvs_session_id = pst_session_id s, lvs_captured_at = to_monotonic s now,
      lvs_values = map (\<lambda>(i, e). (i, snapshot_value s (to_monotonic s now) e)) (pst_values s)\<rparr>"

definition pipeline_statistics :: "instant \<Rightarrow> 'd pipeline_state \<Rightarrow> telemetry_pipeline_statistics" where
  "pipeline_statistics now s =
     (let elapsed_millis = (now - pst_started_at s) div 1000000;
          c = pst_stats s
      in \<lparr>tst_attempts = pco_attempts c, tst_good_samples = pco_good_samples c,
          tst_samples_per_second_milli =
            (if elapsed_millis = 0 then 0
             else of_nat (min (unat (pco_good_samples c) * 1000000 div elapsed_millis) (2 ^ 64 - 1))),
          tst_timeout_events = pco_timeout_events c, tst_decode_errors = pco_decode_errors c,
          tst_stale_transitions = pco_stale_transitions c,
          tst_disconnect_transitions = pco_disconnect_transitions c, tst_quality_gaps = pco_quality_gaps c,
          tst_history_channels = length (pst_histories s),
          tst_history_points = sum_list (map (length \<circ> snd) (pst_histories s)),
          tst_history_bytes = pst_history_bytes s, tst_csv_drops = pco_csv_drops c,
          tst_fault_drops = pco_fault_drops c, tst_diagnostics_drops = pco_diagnostics_drops c,
          tst_snapshots_published = pco_snapshots_published c,
          tst_unknown_plan_results = pco_unknown_plan_results c\<rparr>)"


subsection \<open>Histories\<close>

definition push_history ::
  "nat \<Rightarrow> parameter_id \<Rightarrow> 'd history_point \<Rightarrow> 'd pipeline_state \<Rightarrow> 'd pipeline_state" where
  "push_history point_size i point s =
     s\<lparr>pst_histories := bt_insert i
          ((case bt_get (pst_histories s) i of None \<Rightarrow> [] | Some ps \<Rightarrow> ps) @ [point]) (pst_histories s),
       pst_history_bytes := usize_add (pst_history_bytes s) (estimated_bytes point_size point)\<rparr>"

definition clear_histories :: "nat \<Rightarrow> parameter_id list \<Rightarrow> 'd pipeline_state \<Rightarrow> 'd pipeline_state" where
  "clear_histories point_size ids s =
     recalculate_history_bytes point_size
       (s\<lparr>pst_histories := map (\<lambda>(i, ps). (i, if i \<in> set ids then [] else ps)) (pst_histories s)\<rparr>)"

text \<open>
  \<open>prune_histories\<close>: in every channel the points before the cutoff at its front, and then the points
  beyond the capacity, leave; then the oldest points of all channels leave until the memory budget
  is met. Subtraction on naturals is the \<open>saturating_sub\<close> of the code.
\<close>

fun prune_expired ::
  "nat \<Rightarrow> nat \<Rightarrow> 'd history_point list \<Rightarrow> nat \<Rightarrow> 'd history_point list \<times> nat" where
  "prune_expired point_size cutoff [] bytes = ([], bytes)"
| "prune_expired point_size cutoff (p # ps) bytes =
     (if unat (point_monotonic_time p) < cutoff
      then prune_expired point_size cutoff ps (bytes - estimated_bytes point_size p)
      else (p # ps, bytes))"

fun prune_excess ::
  "nat \<Rightarrow> nat \<Rightarrow> 'd history_point list \<Rightarrow> nat \<Rightarrow> 'd history_point list \<times> nat" where
  "prune_excess point_size cap [] bytes = ([], bytes)"
| "prune_excess point_size cap (p # ps) bytes =
     (if length (p # ps) > cap
      then prune_excess point_size cap ps (bytes - estimated_bytes point_size p)
      else (p # ps, bytes))"

fun prune_channels ::
  "nat \<Rightarrow> nat \<Rightarrow> nat \<Rightarrow> 'd histories \<Rightarrow> nat \<Rightarrow> 'd histories \<times> nat" where
  "prune_channels point_size cutoff cap [] bytes = ([], bytes)"
| "prune_channels point_size cutoff cap ((i, ps) # hs) bytes =
     (let (ps1, bytes1) = prune_expired point_size cutoff ps bytes;
          (ps2, bytes2) = prune_excess point_size cap ps1 bytes1;
          (hs', bytes3) = prune_channels point_size cutoff cap hs bytes2
      in ((i, ps2) # hs', bytes3))"

definition oldest_channel :: "'d histories \<Rightarrow> parameter_id option" where
  "oldest_channel hs =
     map_option snd (min_by_key id
       (concat (map (\<lambda>(i, ps). case ps of [] \<Rightarrow> [] | p # _ \<Rightarrow> [(point_monotonic_time p, i)]) hs)))"

definition history_points :: "'d histories \<Rightarrow> nat" where
  "history_points hs = sum_list (map (length \<circ> snd) hs)"

definition pop_front :: "parameter_id \<Rightarrow> 'd histories \<Rightarrow> 'd histories" where
  "pop_front i hs = map (\<lambda>(j, ps). (j, if i = j then tl ps else ps)) hs"

lemma pop_front_points: "(i, p # ps) \<in> set hs \<Longrightarrow> history_points (pop_front i hs) < history_points hs"
proof (induction hs)
  case (Cons h hs)
  have le: "history_points (pop_front i hs) \<le> history_points hs"
    by (induction hs) (auto simp: history_points_def pop_front_def intro: add_mono)
  from Cons show ?case
  proof (cases "h = (i, p # ps)")
    case True
    with le show ?thesis by (simp add: history_points_def pop_front_def)
  next
    case False
    with Cons have "history_points (pop_front i hs) < history_points hs" by simp
    then show ?thesis
      by (cases h) (auto simp: history_points_def pop_front_def intro: add_le_less_mono)
  qed
qed simp

definition front_bytes :: "nat \<Rightarrow> 'd histories \<Rightarrow> parameter_id \<Rightarrow> nat" where
  "front_bytes point_size hs i =
     (case bt_get hs i of Some (p # _) \<Rightarrow> estimated_bytes point_size p | _ \<Rightarrow> 0)"

lemma oldest_channel_Some:
  assumes "oldest_channel hs = Some i"
  shows "\<exists>p ps. (i, p # ps) \<in> set hs"
proof -
  obtain t where "min_by_key id
      (concat (map (\<lambda>(i, ps). case ps of [] \<Rightarrow> [] | p # _ \<Rightarrow> [(point_monotonic_time p, i)]) hs)) = Some (t, i)"
    using assms by (auto simp: oldest_channel_def)
  from min_by_key_in [OF this] show ?thesis by (auto split: list.splits)
qed

text \<open>The loop terminates because every turn takes a point away.\<close>

function prune_memory :: "nat \<Rightarrow> nat \<Rightarrow> 'd histories \<Rightarrow> nat \<Rightarrow> 'd histories \<times> nat" where
  "prune_memory point_size budget hs bytes =
     (if bytes \<le> budget then (hs, bytes)
      else case oldest_channel hs of
          None \<Rightarrow> (hs, 0)
        | Some i \<Rightarrow>
            prune_memory point_size budget (pop_front i hs) (bytes - front_bytes point_size hs i))"
  by pat_completeness auto
termination
  by (relation "measure (\<lambda>(point_size, budget, hs, bytes). history_points hs)")
    (auto dest!: oldest_channel_Some intro: pop_front_points)

declare prune_memory.simps [simp del]

definition prune_histories :: "nat \<Rightarrow> monotonic_instant \<Rightarrow> 'd pipeline_state \<Rightarrow> 'd pipeline_state" where
  "prune_histories point_size now s =
     (let cutoff = unat now - tpc_history_retention (pst_config s);
          (hs1, bytes1) = prune_channels point_size cutoff (tpc_history_samples_per_channel (pst_config s))
            (pst_histories s) (pst_history_bytes s);
          (hs2, bytes2) = prune_memory point_size (tpc_history_memory_budget_bytes (pst_config s)) hs1 bytes1
      in s\<lparr>pst_histories := hs2, pst_history_bytes := bytes2\<rparr>)"

subsection \<open>Recording\<close>

definition tally :: "(pipeline_counters \<Rightarrow> pipeline_counters) \<Rightarrow> 'd pipeline_state \<Rightarrow> 'd pipeline_state" where
  "tally f s = s\<lparr>pst_stats := f (pst_stats s)\<rparr>"

definition set_entry :: "parameter_id \<Rightarrow> 'd latest_entry \<Rightarrow> 'd pipeline_state \<Rightarrow> 'd pipeline_state" where
  "set_entry i e s = s\<lparr>pst_values := bt_insert i e (pst_values s)\<rparr>"

definition push_if_required ::
  "nat \<Rightarrow> parameter_id \<Rightarrow> 'd history_point \<Rightarrow> 'd pipeline_state \<Rightarrow> 'd pipeline_state" where
  "push_if_required point_size i point s =
     (case bt_get (pst_values s) i of
        Some e \<Rightarrow> if len_history_required e then push_history point_size i point s else s
      | None \<Rightarrow> s)"

definition record_good ::
  "nat \<Rightarrow> parameter_id \<Rightarrow> instant \<Rightarrow> 'd telemetry_sample_core \<Rightarrow> 'd pipeline_state
     \<Rightarrow> 'd telemetry_event \<times> 'd pipeline_state" where
  "record_good point_size i completed_at sample s =
     (let s1 = tally (\<lambda>c. c\<lparr>pco_good_samples := sat_inc (pco_good_samples c)\<rparr>) s;
          s2 = (case bt_get (pst_values s1) i of
                  Some e \<Rightarrow> set_entry i (e\<lparr>len_last_good := Some sample, len_current_quality := Good,
                               len_last_attempt_at := Some completed_at, len_last_error := None\<rparr>) s1
                | None \<Rightarrow> s1)
      in (\<lparr>tev_session_id = pst_session_id s, tev_parameter_id = i,
           tev_monotonic_time = tsc_monotonic_time sample, tev_quality = Good, tev_sample = Some sample,
           tev_error = None\<rparr>,
          push_if_required point_size i (SamplePoint sample) s2))"

definition is_decode_attempt :: "telemetry_attempt_error \<Rightarrow> bool" where
  "is_decode_attempt e \<longleftrightarrow>
     (case e of DecodeAttempt _ \<Rightarrow> True | InvalidRegisterSlice \<Rightarrow> True | MissingProfileParameter \<Rightarrow> True | _ \<Rightarrow> False)"

definition record_failure ::
  "nat \<Rightarrow> parameter_id \<Rightarrow> instant \<Rightarrow> telemetry_quality \<Rightarrow> telemetry_attempt_error \<Rightarrow> 'd pipeline_state
     \<Rightarrow> 'd telemetry_event \<times> 'd pipeline_state" where
  "record_failure point_size i completed_at quality error s =
     (let s1 = tally (\<lambda>c. c
            \<lparr>pco_timeout_events := (if quality = Timeout then sat_inc (pco_timeout_events c) else pco_timeout_events c),
             pco_decode_errors := (if is_decode_attempt error then sat_inc (pco_decode_errors c) else pco_decode_errors c),
             pco_quality_gaps := sat_inc (pco_quality_gaps c)\<rparr>) s;
          t = to_monotonic s completed_at;
          s2 = (case bt_get (pst_values s1) i of
                  Some e \<Rightarrow> set_entry i (e\<lparr>len_current_quality := quality, len_last_attempt_at := Some completed_at,
                               len_last_error := Some error\<rparr>) s1
                | None \<Rightarrow> s1)
      in (\<lparr>tev_session_id = pst_session_id s, tev_parameter_id = i, tev_monotonic_time = t, tev_quality = quality,
           tev_sample = None, tev_error = Some error\<rparr>,
          push_if_required point_size i (GapPoint t quality) s2))"

definition disconnect_one ::
  "nat \<Rightarrow> instant \<Rightarrow> telemetry_attempt_error \<Rightarrow> parameter_id \<Rightarrow> 'd pipeline_state
     \<Rightarrow> 'd telemetry_event \<times> 'd pipeline_state" where
  "disconnect_one point_size completed_at error i s =
     (let t = to_monotonic s completed_at;
          s1 = (case bt_get (pst_values s) i of
                  Some e \<Rightarrow> set_entry i (e\<lparr>len_current_quality := Disconnected, len_last_attempt_at := Some completed_at,
                               len_last_error := Some error\<rparr>)
                      (if len_current_quality e \<noteq> Disconnected
                       then tally (\<lambda>c. c\<lparr>pco_disconnect_transitions := sat_inc (pco_disconnect_transitions c)\<rparr>) s
                       else s)
                | None \<Rightarrow> s);
          s2 = tally (\<lambda>c. c\<lparr>pco_quality_gaps := sat_inc (pco_quality_gaps c)\<rparr>) s1
      in (\<lparr>tev_session_id = pst_session_id s, tev_parameter_id = i, tev_monotonic_time = t,
           tev_quality = Disconnected, tev_sample = None, tev_error = Some error\<rparr>,
          push_if_required point_size i (GapPoint t Disconnected) s2))"

fun for_each :: "('a \<Rightarrow> 's \<Rightarrow> 'e \<times> 's) \<Rightarrow> 'a list \<Rightarrow> 's \<Rightarrow> 'e list \<times> 's" where
  "for_each f [] s = ([], s)"
| "for_each f (x # xs) s =
     (let (e, s1) = f x s; (es, s2) = for_each f xs s1 in (e # es, s2))"

definition mark_all_disconnected ::
  "nat \<Rightarrow> instant \<Rightarrow> telemetry_attempt_error \<Rightarrow> 'd pipeline_state
     \<Rightarrow> 'd telemetry_event list \<times> 'd pipeline_state" where
  "mark_all_disconnected point_size completed_at error s =
     (let (events, s1) = for_each (disconnect_one point_size completed_at error) (map fst (pst_values s)) s
      in (events, prune_histories point_size (to_monotonic s completed_at) s1))"

text \<open>Freshness: a good value turns stale at its maximum age, by the monotonic clock alone.\<close>

definition entry_is_stale :: "monotonic_instant \<Rightarrow> 'd latest_entry \<Rightarrow> bool" where
  "entry_is_stale now e \<longleftrightarrow>
     len_current_quality e = Good \<and>
     (case len_last_good e of
        None \<Rightarrow> False
      | Some g \<Rightarrow> elapsed_nanos now (tsc_monotonic_time g) \<ge> len_maximum_age e)"

definition stale_one ::
  "nat \<Rightarrow> monotonic_instant \<Rightarrow> parameter_id \<Rightarrow> 'd pipeline_state \<Rightarrow> 'd telemetry_event \<times> 'd pipeline_state" where
  "stale_one point_size now i s =
     (let s1 = (case bt_get (pst_values s) i of
                  Some e \<Rightarrow> set_entry i (e\<lparr>len_current_quality := Stale\<rparr>) s
                | None \<Rightarrow> s);
          s2 = tally (\<lambda>c. c\<lparr>pco_stale_transitions := sat_inc (pco_stale_transitions c),
                           pco_quality_gaps := sat_inc (pco_quality_gaps c)\<rparr>) s1
      in (\<lparr>tev_session_id = pst_session_id s, tev_parameter_id = i, tev_monotonic_time = now, tev_quality = Stale,
           tev_sample = None, tev_error = None\<rparr>,
          push_if_required point_size i (GapPoint now Stale) s2))"

definition refresh_stale :: "nat \<Rightarrow> instant \<Rightarrow> 'd pipeline_state \<Rightarrow> 'd telemetry_event list \<times> 'd pipeline_state" where
  "refresh_stale point_size now s =
     (let t = to_monotonic s now;
          stale = map fst (filter (\<lambda>(i, e). entry_is_stale t e) (pst_values s));
          (events, s1) = for_each (stale_one point_size t) stale s
      in (events, prune_histories point_size t s1))"

definition stale_deadline :: "'d pipeline_state \<Rightarrow> 'd latest_entry \<Rightarrow> instant option" where
  "stale_deadline s e =
     (if len_current_quality e = Good
      then case len_last_good e of
          None \<Rightarrow> None
        | Some g \<Rightarrow>
            (case instant_checked_add (pst_origin s) (duration_from_nanos (unat (tsc_monotonic_time g))) of
               None \<Rightarrow> None
             | Some t \<Rightarrow> instant_checked_add t (len_maximum_age e))
      else None)"

definition next_stale_deadline :: "'d pipeline_state \<Rightarrow> instant option" where
  "next_stale_deadline s = min_by_key id (List.map_filter (\<lambda>(i, e). stale_deadline s e) (pst_values s))"

definition quality_for_bus_error :: "bus_error \<Rightarrow> telemetry_quality" where
  "quality_for_bus_error e =
     (case e of
        TimeoutBeforeSend \<Rightarrow> Timeout
      | ResponseTimeout \<Rightarrow> Timeout
      | BusProtocolException _ \<Rightarrow> ProtocolException
      | BusPortRemoved \<Rightarrow> Disconnected
      | BusShutdown \<Rightarrow> Disconnected
      | InvalidFrameOrTransport \<Rightarrow> DecodeError
      | InvalidResponse \<Rightarrow> DecodeError
      | PermissionDenied \<Rightarrow> Unavailable
      | PortBusy \<Rightarrow> Unavailable
      | BusIo _ \<Rightarrow> Unavailable
      | BusCancelled \<Rightarrow> Unavailable
      | QueueFull \<Rightarrow> Unavailable
      | InvalidRequest _ \<Rightarrow> Unavailable
      | BusOutcomeUnknown \<Rightarrow> Unavailable)"

end
