(* ===== verification/Telemetry_Pipeline.thy ===== *)
theory Telemetry_Pipeline
  imports Telemetry_State Codec
begin

text \<open>
  The telemetry pipeline of \<open>lantern-app/src/telemetry/pipeline.rs\<close>: it decodes the results of the
  poll executor against the plan they were read for, updates the telemetry state, and publishes a
  snapshot to the screen and events to the CSV, fault and diagnostics consumers, whose bounded
  channels never make it wait. The delivery to the CSV writer (\<open>telemetry/csv_delivery.rs\<close>) turns
  every wave of lost samples into one explicit gap.
\<close>

subsection \<open>Bounded channels\<close>

text \<open>\<open>try_send\<close> fails when the channel is full or its receiver is gone.\<close>

record 'a channel =
  chn_items :: "'a list"
  chn_capacity :: nat
  chn_closed :: bool

definition channel_new :: "nat \<Rightarrow> 'a channel" where
  "channel_new n = \<lparr>chn_items = [], chn_capacity = n, chn_closed = False\<rparr>"

definition channel_try_send :: "'a \<Rightarrow> 'a channel \<Rightarrow> bool \<times> 'a channel" where
  "channel_try_send x q =
     (if chn_closed q \<or> chn_capacity q \<le> length (chn_items q) then (False, q)
      else (True, q\<lparr>chn_items := chn_items q @ [x]\<rparr>))"

text \<open>A consumer takes the first \<open>n\<close> items, and may go away.\<close>

definition channel_drop :: "nat \<Rightarrow> bool \<Rightarrow> 'a channel \<Rightarrow> 'a channel" where
  "channel_drop n gone q = q\<lparr>chn_items := drop n (chn_items q), chn_closed := chn_closed q \<or> gone\<rparr>"

subsection \<open>CSV delivery\<close>

record csv_delivery_state =
  cds_enabled :: bool
  cds_parameters :: "parameter_id list"
  cds_pending_gap :: "telemetry_gap_core option"

definition csv_delivery_default :: csv_delivery_state where
  "csv_delivery_default = \<lparr>cds_enabled = False, cds_parameters = [], cds_pending_gap = None\<rparr>"

definition csv_start :: "parameter_id list \<Rightarrow> csv_delivery_state \<Rightarrow> bool \<times> csv_delivery_state" where
  "csv_start parameters d =
     (if cds_enabled d then (False, d)
      else (True, \<lparr>cds_enabled = True, cds_parameters = btree_set parameters, cds_pending_gap = None\<rparr>))"

definition csv_stop :: "csv_delivery_state \<Rightarrow> telemetry_gap_core option \<times> csv_delivery_state" where
  "csv_stop d =
     (cds_pending_gap d, d\<lparr>cds_enabled := False, cds_parameters := [], cds_pending_gap := None\<rparr>)"

definition csv_send_sample ::
  "'d telemetry_sample_core \<Rightarrow> csv_delivery_state \<Rightarrow> 'd csv_telemetry_item channel
     \<Rightarrow> u64 \<times> csv_delivery_state \<times> 'd csv_telemetry_item channel" where
  "csv_send_sample sample d q =
     (case channel_try_send (CsvSample sample) q of
        (True, q') \<Rightarrow> (0, d, q')
      | (False, q') \<Rightarrow> (1, d\<lparr>cds_pending_gap := Some (gap_from_dropped_sample sample)\<rparr>, q'))"

definition csv_publish ::
  "'d telemetry_sample_core \<Rightarrow> csv_delivery_state \<Rightarrow> 'd csv_telemetry_item channel
     \<Rightarrow> u64 \<times> csv_delivery_state \<times> 'd csv_telemetry_item channel" where
  "csv_publish sample d q =
     (if \<not> cds_enabled d \<or> tsc_parameter_id sample \<notin> set (cds_parameters d) then (0, d, q)
      else case cds_pending_gap d of
          None \<Rightarrow> csv_send_sample sample d q
        | Some gap \<Rightarrow>
            (case channel_try_send (CsvGap gap) q of
               (False, q') \<Rightarrow> (1, d\<lparr>cds_pending_gap := Some (extend_with_dropped_sample gap sample)\<rparr>, q')
             | (True, q') \<Rightarrow> csv_send_sample sample (d\<lparr>cds_pending_gap := None\<rparr>) q'))"

subsection \<open>The pipeline\<close>

record ('w, 'd) telemetry_env =
  ten_decimal :: "'d decimal_ops"
  ten_point_size :: nat
  ten_profile :: "'d validated_device_profile"
  ten_now :: "'w \<Rightarrow> instant \<times> 'w"
  ten_utc_now :: "'w \<Rightarrow> utc_timestamp \<times> 'w"

record ('w, 'd) pipeline =
  tpl_world :: 'w
  tpl_state :: "'d pipeline_state"
  tpl_tui :: "'d latest_values"
  tpl_csv :: "'d csv_telemetry_item channel"
  tpl_fault :: "'d telemetry_event channel"
  tpl_diagnostics :: "'d telemetry_event channel"
  tpl_csv_delivery :: csv_delivery_state
  tpl_shutdown :: bool
  tpl_stopped :: bool

definition pipeline_now :: "('w, 'd) telemetry_env \<Rightarrow> ('w, 'd) pipeline \<Rightarrow> instant \<times> ('w, 'd) pipeline" where
  "pipeline_now E p = (case ten_now E (tpl_world p) of (t, w) \<Rightarrow> (t, p\<lparr>tpl_world := w\<rparr>))"

definition pipeline_utc :: "('w, 'd) telemetry_env \<Rightarrow> ('w, 'd) pipeline \<Rightarrow> utc_timestamp \<times> ('w, 'd) pipeline" where
  "pipeline_utc E p = (case ten_utc_now E (tpl_world p) of (t, w) \<Rightarrow> (t, p\<lparr>tpl_world := w\<rparr>))"

definition on_state :: "('d pipeline_state \<Rightarrow> 'r \<times> 'd pipeline_state) \<Rightarrow> ('w, 'd) pipeline \<Rightarrow> 'r \<times> ('w, 'd) pipeline" where
  "on_state f p = (case f (tpl_state p) of (r, s) \<Rightarrow> (r, p\<lparr>tpl_state := s\<rparr>))"

definition pipeline_spawn ::
  "('w, 'd) telemetry_env \<Rightarrow> 'w \<Rightarrow> session_id \<Rightarrow> poll_plan \<Rightarrow> telemetry_pipeline_config
     \<Rightarrow> telemetry_pipeline_error + ('w, 'd) pipeline" where
  "pipeline_spawn E w session_id initial_plan config0 =
     and_then (telemetry_config_validate config0) (\<lambda>config.
       let (origin, w') = ten_now E w;
           state = pipeline_state_new (ten_point_size E) session_id origin config initial_plan
       in Ok \<lparr>tpl_world = w', tpl_state = tally (\<lambda>c. c\<lparr>pco_snapshots_published := 1\<rparr>) state,
              tpl_tui = pipeline_snapshot origin state, tpl_csv = channel_new (tpc_csv_capacity config),
              tpl_fault = channel_new (tpc_fault_capacity config),
              tpl_diagnostics = channel_new (tpc_diagnostics_capacity config),
              tpl_csv_delivery = csv_delivery_default, tpl_shutdown = False, tpl_stopped = False\<rparr>)"

text \<open>
  One event goes to its consumers; the three counts are those of the samples and events that a full
  channel loses.
\<close>

type_synonym drop_counts = "u64 \<times> u64 \<times> u64"

definition deliver_event ::
  "'d telemetry_event \<Rightarrow> drop_counts \<Rightarrow> ('w, 'd) pipeline \<Rightarrow> drop_counts \<times> ('w, 'd) pipeline" where
  "deliver_event event drops p =
     (case drops of (csv_drops, fault_drops, diagnostics_drops) \<Rightarrow>
       let (dropped, d, csv) =
             (case tev_sample event of
                None \<Rightarrow> (0, tpl_csv_delivery p, tpl_csv p)
              | Some sample \<Rightarrow> csv_publish sample (tpl_csv_delivery p) (tpl_csv p));
           (fault_ok, fault) = channel_try_send event (tpl_fault p);
           (diagnostics_ok, diagnostics) = channel_try_send event (tpl_diagnostics p)
       in ((sat_add csv_drops dropped,
            if fault_ok then fault_drops else sat_inc fault_drops,
            if diagnostics_ok then diagnostics_drops else sat_inc diagnostics_drops),
           p\<lparr>tpl_csv_delivery := d, tpl_csv := csv, tpl_fault := fault, tpl_diagnostics := diagnostics\<rparr>))"

fun deliver_events ::
  "'d telemetry_event list \<Rightarrow> drop_counts \<Rightarrow> ('w, 'd) pipeline \<Rightarrow> drop_counts \<times> ('w, 'd) pipeline" where
  "deliver_events [] drops p = (drops, p)"
| "deliver_events (e # es) drops p =
     (let (drops', p') = deliver_event e drops p in deliver_events es drops' p')"

definition publish_events ::
  "('w, 'd) telemetry_env \<Rightarrow> 'd telemetry_event list \<Rightarrow> ('w, 'd) pipeline \<Rightarrow> ('w, 'd) pipeline" where
  "publish_events E events p =
     (let p1 = p\<lparr>tpl_state := tally (\<lambda>c. c\<lparr>pco_snapshots_published := sat_inc (pco_snapshots_published c)\<rparr>) (tpl_state p)\<rparr>;
          (now, p2) = pipeline_now E p1;
          p3 = p2\<lparr>tpl_tui := pipeline_snapshot now (tpl_state p2)\<rparr>;
          ((csv_drops, fault_drops, diagnostics_drops), p4) = deliver_events events (0, 0, 0) p3
      in if csv_drops \<noteq> 0 \<or> fault_drops \<noteq> 0 \<or> diagnostics_drops \<noteq> 0
         then p4\<lparr>tpl_state := tally (\<lambda>c. c
                 \<lparr>pco_csv_drops := sat_add (pco_csv_drops c) csv_drops,
                  pco_fault_drops := sat_add (pco_fault_drops c) fault_drops,
                  pco_diagnostics_drops := sat_add (pco_diagnostics_drops c) diagnostics_drops\<rparr>) (tpl_state p4)\<rparr>
         else p4)"

text \<open>The words of a slice; an offset and a count are 16-bit, so that their sum does not overflow.\<close>

definition slice_words :: "u16 list \<Rightarrow> poll_parameter_slice \<Rightarrow> u16 list option" where
  "slice_words raw sl =
     (let first = unat (pps_register_offset sl); n = unat (pps_register_count sl)
      in if first + n \<le> length raw then Some (take n (drop first raw)) else None)"

definition decode_slice ::
  "('w, 'd) telemetry_env \<Rightarrow> u16 list \<Rightarrow> poll_parameter_slice
     \<Rightarrow> telemetry_attempt_error + raw_registers \<times> 'd engineering_value" where
  "decode_slice E raw_block sl =
     and_then (ok_or InvalidRegisterSlice (slice_words raw_block sl)) (\<lambda>ws.
     and_then (map_err (\<lambda>_. InvalidRegisterSlice) (raw_registers_new ws)) (\<lambda>raw.
     and_then (ok_or MissingProfileParameter (profile_parameter (ten_profile E) (pps_parameter_id sl))) (\<lambda>p.
     and_then (map_err DecodeAttempt (decode (ten_decimal E) (vp_codec p) raw)) (\<lambda>v. Ok (raw, v)))))"

definition process_slice ::
  "('w, 'd) telemetry_env \<Rightarrow> u16 list \<Rightarrow> request_id \<Rightarrow> instant \<Rightarrow> poll_parameter_slice \<Rightarrow> ('w, 'd) pipeline
     \<Rightarrow> 'd telemetry_event \<times> ('w, 'd) pipeline" where
  "process_slice E raw_block request_id completed_at sl p =
     (case decode_slice E raw_block sl of
        Inl e \<Rightarrow> on_state (record_failure (ten_point_size E) (pps_parameter_id sl) completed_at DecodeError e) p
      | Inr (raw, v) \<Rightarrow>
          (let (utc, p1) = pipeline_utc E p
           in on_state (record_good (ten_point_size E) (pps_parameter_id sl) completed_at
                \<lparr>tsc_session_id = pst_session_id (tpl_state p1), tsc_parameter_id = pps_parameter_id sl,
                 tsc_raw = raw, tsc_engineering = v, tsc_quality = Good,
                 tsc_monotonic_time = to_monotonic (tpl_state p1) completed_at, tsc_utc_time = utc,
                 tsc_request_id = request_id\<rparr>) p1))"

definition process_outcome ::
  "('w, 'd) telemetry_env \<Rightarrow> poll_block \<Rightarrow> request_id \<Rightarrow> instant \<Rightarrow> poll_execution_outcome \<Rightarrow> ('w, 'd) pipeline
     \<Rightarrow> 'd telemetry_event list \<times> ('w, 'd) pipeline" where
  "process_outcome E block request_id completed_at outcome p =
     (case outcome of
        PollRead (Inr raw_block) \<Rightarrow>
          for_each (process_slice E raw_block request_id completed_at) (pbl_parameters block) p
      | PollRead (Inl error) \<Rightarrow>
          (let quality = quality_for_bus_error error
           in if quality = Disconnected
              then on_state (mark_all_disconnected (ten_point_size E) completed_at (BusAttempt error)) p
              else on_state (for_each (\<lambda>sl. record_failure (ten_point_size E) (pps_parameter_id sl) completed_at
                     quality (BusAttempt error)) (pbl_parameters block)) p)
      | SkippedDeadline \<Rightarrow>
          on_state (for_each (\<lambda>sl. record_failure (ten_point_size E) (pps_parameter_id sl) completed_at
            Timeout SkippedDeadlineAttempt) (pbl_parameters block)) p)"

definition find_block :: "'d pipeline_state \<Rightarrow> u64 \<Rightarrow> u32 \<Rightarrow> poll_block option" where
  "find_block s plan_version block_index =
     Option.bind (bt_get (pst_plans s) plan_version) (\<lambda>plan. find (\<lambda>b. pbl_index b = block_index) (ppl_blocks plan))"

definition process_result ::
  "('w, 'd) telemetry_env \<Rightarrow> poll_execution_result \<Rightarrow> ('w, 'd) pipeline \<Rightarrow> ('w, 'd) pipeline" where
  "process_result E r p =
     (case find_block (tpl_state p) (per_plan_version r) (per_block_index r) of
        None \<Rightarrow> p\<lparr>tpl_state := tally (\<lambda>c. c\<lparr>pco_unknown_plan_results := sat_inc (pco_unknown_plan_results c)\<rparr>) (tpl_state p)\<rparr>
      | Some block \<Rightarrow>
          (let p1 = p\<lparr>tpl_state := tally (\<lambda>c. c\<lparr>pco_attempts := sat_inc (pco_attempts c)\<rparr>) (tpl_state p)\<rparr>;
               (events, p2) = process_outcome E block (per_request_id r) (per_completed_at r) (per_outcome r) p1;
               p3 = p2\<lparr>tpl_state := prune_histories (ten_point_size E)
                          (to_monotonic (tpl_state p2) (per_completed_at r)) (tpl_state p2)\<rparr>
           in publish_events E events p3))"

definition pipeline_refresh_stale :: "('w, 'd) telemetry_env \<Rightarrow> ('w, 'd) pipeline \<Rightarrow> ('w, 'd) pipeline" where
  "pipeline_refresh_stale E p =
     (let (now, p1) = pipeline_now E p;
          (events, p2) = on_state (refresh_stale (ten_point_size E) now) p1
      in if events = [] then p2 else publish_events E events p2)"

subsection \<open>The handle\<close>

definition pipeline_update_plan ::
  "('w, 'd) telemetry_env \<Rightarrow> poll_plan \<Rightarrow> ('w, 'd) pipeline \<Rightarrow> (telemetry_pipeline_error + unit) \<times> ('w, 'd) pipeline" where
  "pipeline_update_plan E plan p =
     (if ppl_version plan \<le> pst_active_plan_version (tpl_state p) then (Err NonIncreasingTelemetryPlan, p)
      else (Ok (), publish_events E []
              (p\<lparr>tpl_state := install_plan (ten_point_size E) plan (tpl_state p)\<rparr>)))"

definition pipeline_mark_disconnected :: "('w, 'd) telemetry_env \<Rightarrow> ('w, 'd) pipeline \<Rightarrow> ('w, 'd) pipeline" where
  "pipeline_mark_disconnected E p =
     (let (now, p1) = pipeline_now E p;
          (events, p2) = on_state (mark_all_disconnected (ten_point_size E) now (BusAttempt BusPortRemoved)) p1
      in if events = [] then p2 else publish_events E events p2)"

definition pipeline_latest :: "('w, 'd) telemetry_env \<Rightarrow> ('w, 'd) pipeline \<Rightarrow> 'd latest_values \<times> ('w, 'd) pipeline" where
  "pipeline_latest E p = (let (now, p1) = pipeline_now E p in (pipeline_snapshot now (tpl_state p1), p1))"

definition pipeline_history :: "parameter_id \<Rightarrow> ('w, 'd) pipeline \<Rightarrow> 'd history_point list" where
  "pipeline_history i p = (case bt_get (pst_histories (tpl_state p)) i of None \<Rightarrow> [] | Some ps \<Rightarrow> ps)"

definition pipeline_start_csv :: "parameter_id list \<Rightarrow> ('w, 'd) pipeline \<Rightarrow> ('w, 'd) pipeline" where
  "pipeline_start_csv ids p = p\<lparr>tpl_csv_delivery := snd (csv_start ids (tpl_csv_delivery p))\<rparr>"

definition pipeline_stop_csv :: "('w, 'd) pipeline \<Rightarrow> telemetry_gap_core option \<times> ('w, 'd) pipeline" where
  "pipeline_stop_csv p =
     (case csv_stop (tpl_csv_delivery p) of (gap, d) \<Rightarrow> (gap, p\<lparr>tpl_csv_delivery := d\<rparr>))"

definition pipeline_clear_histories ::
  "('w, 'd) telemetry_env \<Rightarrow> parameter_id list \<Rightarrow> ('w, 'd) pipeline \<Rightarrow> ('w, 'd) pipeline" where
  "pipeline_clear_histories E ids p =
     publish_events E [] (p\<lparr>tpl_state := clear_histories (ten_point_size E) ids (tpl_state p)\<rparr>)"

definition pipeline_shutdown :: "('w, 'd) pipeline \<Rightarrow> ('w, 'd) pipeline" where
  "pipeline_shutdown p = p\<lparr>tpl_shutdown := True\<rparr>"

text \<open>
  The steps of the pipeline: the two wake-ups of its loop that do something, its end, the calls of its
  handle, and what its consumers and the world do.
\<close>

inductive pipeline_step :: "('w, 'd) telemetry_env \<Rightarrow> ('w, 'd) pipeline \<Rightarrow> ('w, 'd) pipeline \<Rightarrow> bool" for E where
  result_arrives: "\<not> tpl_stopped p \<Longrightarrow> \<not> tpl_shutdown p \<Longrightarrow> pipeline_step E p (process_result E r p)"
| stale_deadline_passes:
    "\<not> tpl_stopped p \<Longrightarrow> \<not> tpl_shutdown p \<Longrightarrow> next_stale_deadline (tpl_state p) \<noteq> None \<Longrightarrow>
       pipeline_step E p (pipeline_refresh_stale E p)"
| pipeline_ends: "pipeline_step E p (p\<lparr>tpl_stopped := True\<rparr>)"
| telemetry_plan_updated: "pipeline_step E p (snd (pipeline_update_plan E plan p))"
| disconnection_marked: "pipeline_step E p (pipeline_mark_disconnected E p)"
| csv_started: "pipeline_step E p (pipeline_start_csv ids p)"
| csv_stopped: "pipeline_step E p (snd (pipeline_stop_csv p))"
| histories_cleared: "pipeline_step E p (pipeline_clear_histories E ids p)"
| pipeline_shut_down: "pipeline_step E p (pipeline_shutdown p)"
| consumers_take:
    "pipeline_step E p (p\<lparr>tpl_csv := channel_drop a x (tpl_csv p), tpl_fault := channel_drop b y (tpl_fault p),
       tpl_diagnostics := channel_drop c z (tpl_diagnostics p)\<rparr>)"
| telemetry_world_changes: "pipeline_step E p (p\<lparr>tpl_world := w\<rparr>)"

inductive pipeline_reachable :: "('w, 'd) telemetry_env \<Rightarrow> ('w, 'd) pipeline \<Rightarrow> ('w, 'd) pipeline \<Rightarrow> bool"
  for E p0 where
  pipeline_begin: "pipeline_reachable E p0 p0"
| pipeline_more: "pipeline_reachable E p0 p \<Longrightarrow> pipeline_step E p p' \<Longrightarrow> pipeline_reachable E p0 p'"

end
