(* ===== verification/Telemetry_Facts.thy ===== *)
theory Telemetry_Facts
  imports Telemetry_Pipeline Poll_Facts
begin

text \<open>
  What every operation of the telemetry pipeline keeps: the ordered maps stay ordered, a value is Good
  only while its last attempt was a decoded read, its sample is what the profile's codec makes of the
  raw words, and there is a history exactly for the parameters that need one.
\<close>

named_theorems pipeline_keep \<open>operations of the pipeline keep the telemetry invariant\<close>

definition sample_ok :: "('w, 'd) telemetry_env \<Rightarrow> session_id \<Rightarrow> parameter_id \<Rightarrow> 'd telemetry_sample_core \<Rightarrow> bool" where
  "sample_ok E sid i g \<longleftrightarrow>
     tsc_parameter_id g = i \<and> tsc_quality g = Good \<and> tsc_session_id g = sid \<and>
     (\<exists>p. profile_parameter (ten_profile E) i = Some p \<and>
        decode (ten_decimal E) (vp_codec p) (tsc_raw g) = Ok (tsc_engineering g))"

definition entry_ok :: "('w, 'd) telemetry_env \<Rightarrow> 'd pipeline_state \<Rightarrow> parameter_id \<Rightarrow> 'd latest_entry \<Rightarrow> bool" where
  "entry_ok E s i e \<longleftrightarrow>
     (\<forall>g. len_last_good e = Some g \<longrightarrow> sample_ok E (pst_session_id s) i g) \<and>
     (len_current_quality e = Good \<longrightarrow> len_last_error e = None \<and>
       (\<exists>g ta. len_last_good e = Some g \<and> len_last_attempt_at e = Some ta \<and>
          tsc_monotonic_time g = to_monotonic s ta))"

definition history_keys :: "'d pipeline_state \<Rightarrow> parameter_id set" where
  "history_keys s = {i. \<exists>e. bt_get (pst_values s) i = Some e \<and> len_history_required e}"

definition telemetry_inv :: "('w, 'd) telemetry_env \<Rightarrow> 'd pipeline_state \<Rightarrow> bool" where
  "telemetry_inv E s \<longleftrightarrow>
     bt_wf (pst_values s) \<and> bt_wf (pst_histories s) \<and> bt_wf (pst_plans s) \<and>
     length (pst_plans s) \<le> MAX_RETAINED_PLAN_VERSIONS \<and>
     (\<forall>i e. bt_get (pst_values s) i = Some e \<longrightarrow> entry_ok E s i e) \<and>
     fst ` set (pst_histories s) = history_keys s"

subsection \<open>Small steps\<close>

lemma entry_ok_cong: "pst_session_id t = pst_session_id s \<Longrightarrow> pst_origin t = pst_origin s \<Longrightarrow> entry_ok E t = entry_ok E s"
  by (intro ext) (simp add: entry_ok_def to_monotonic_def)

lemma tally_sels [simp]:
  "pst_values (tally f s) = pst_values s" "pst_histories (tally f s) = pst_histories s"
  "pst_plans (tally f s) = pst_plans s" "pst_session_id (tally f s) = pst_session_id s"
  "pst_origin (tally f s) = pst_origin s" "pst_config (tally f s) = pst_config s"
  "pst_history_bytes (tally f s) = pst_history_bytes s" "to_monotonic (tally f s) = to_monotonic s"
  "pst_active_plan_version (tally f s) = pst_active_plan_version s"
  by (simp_all add: tally_def to_monotonic_def fun_eq_iff)

lemma set_entry_sels [simp]:
  "pst_histories (set_entry i e s) = pst_histories s" "pst_plans (set_entry i e s) = pst_plans s"
  "pst_session_id (set_entry i e s) = pst_session_id s" "pst_origin (set_entry i e s) = pst_origin s"
  "pst_config (set_entry i e s) = pst_config s" "pst_history_bytes (set_entry i e s) = pst_history_bytes s"
  "bt_get (pst_values (set_entry i e s)) = (bt_get (pst_values s))(i \<mapsto> e)"
  "to_monotonic (set_entry i e s) = to_monotonic s"
  by (simp_all add: set_entry_def to_monotonic_def fun_eq_iff)

lemma tally_inv [simp]: "telemetry_inv E (tally f s) = telemetry_inv E s"
  by (simp add: telemetry_inv_def history_keys_def entry_ok_cong [of "tally f s" s])

lemma set_entry_inv:
  assumes "telemetry_inv E s" and "bt_get (pst_values s) i = Some e"
    and "entry_ok E s i e'" and "len_history_required e' = len_history_required e"
  shows "telemetry_inv E (set_entry i e' s)"
proof -
  have "history_keys (set_entry i e' s) = history_keys s"
    using assms(2,4) by (auto simp: history_keys_def)
  moreover have "bt_wf (pst_values (set_entry i e' s))"
    using assms(1) by (simp add: set_entry_def telemetry_inv_def bt_wf_insert)
  ultimately show ?thesis
    using assms(1,3) by (auto simp: telemetry_inv_def entry_ok_cong [of "set_entry i e' s" s])
qed

lemma push_history_sels [simp]:
  "pst_values (push_history n i h s) = pst_values s" "pst_plans (push_history n i h s) = pst_plans s"
  "pst_session_id (push_history n i h s) = pst_session_id s" "pst_origin (push_history n i h s) = pst_origin s"
  "pst_config (push_history n i h s) = pst_config s"
  "to_monotonic (push_history n i h s) = to_monotonic s"
  by (simp_all add: push_history_def to_monotonic_def fun_eq_iff)

lemma push_if_required_sels [simp]:
  "pst_values (push_if_required n i h s) = pst_values s" "pst_plans (push_if_required n i h s) = pst_plans s"
  "pst_session_id (push_if_required n i h s) = pst_session_id s"
  "pst_origin (push_if_required n i h s) = pst_origin s" "pst_config (push_if_required n i h s) = pst_config s"
  "to_monotonic (push_if_required n i h s) = to_monotonic s"
  by (simp_all add: push_if_required_def to_monotonic_def fun_eq_iff split: option.split)

lemma push_if_required_inv [pipeline_keep]:
  assumes "telemetry_inv E s"
  shows "telemetry_inv E (push_if_required n i h s)"
proof (cases "i \<in> history_keys s")
  case True
  then obtain e where e: "bt_get (pst_values s) i = Some e" "len_history_required e" by (auto simp: history_keys_def)
  then have eq: "push_if_required n i h s = push_history n i h s" by (simp add: push_if_required_def)
  have keys: "history_keys (push_history n i h s) = history_keys s" by (simp add: history_keys_def)
  have hist: "fst ` set (pst_histories (push_history n i h s)) = insert i (fst ` set (pst_histories s))"
    by (simp add: push_history_def set_bt_insert_keys [unfolded set_map])
  have wf: "bt_wf (pst_histories (push_history n i h s))"
    using assms by (simp add: push_history_def telemetry_inv_def bt_wf_insert)
  have ok: "entry_ok E (push_history n i h s) = entry_ok E s" by (rule entry_ok_cong) simp_all
  show ?thesis
    using assms True unfolding eq telemetry_inv_def keys hist ok by (simp add: wf insert_absorb)
next
  case False
  then have "push_if_required n i h s = s"
    by (auto simp: push_if_required_def history_keys_def split: option.split)
  with assms show ?thesis by simp
qed

subsection \<open>Recording\<close>

lemma record_good_inv [pipeline_keep]:
  assumes "telemetry_inv E s" and "sample_ok E (pst_session_id s) i g" and "tsc_monotonic_time g = to_monotonic s ta"
  shows "telemetry_inv E (snd (record_good n i ta g s))"
proof (cases "bt_get (pst_values s) i")
  case None
  with assms(1) show ?thesis by (simp add: record_good_def Let_def push_if_required_inv)
next
  case (Some e)
  let ?t = "tally (\<lambda>c. c\<lparr>pco_good_samples := sat_inc (pco_good_samples c)\<rparr>) s"
  let ?e = "e\<lparr>len_last_good := Some g, len_current_quality := Good, len_last_attempt_at := Some ta, len_last_error := None\<rparr>"
  have "telemetry_inv E (set_entry i ?e ?t)"
    by (rule set_entry_inv [where e = e]) (use assms Some in \<open>simp_all add: entry_ok_def\<close>)
  then show ?thesis
    using Some by (simp add: record_good_def Let_def push_if_required_inv)
qed

lemma entry_ok_failed:
  assumes "entry_ok E s i e" and "q \<noteq> Good"
  shows "entry_ok E s i (e\<lparr>len_current_quality := q, len_last_attempt_at := a, len_last_error := r\<rparr>)"
    and "entry_ok E s i (e\<lparr>len_current_quality := q\<rparr>)"
  using assms by (auto simp: entry_ok_def)

lemma telemetry_inv_entry: "telemetry_inv E s \<Longrightarrow> bt_get (pst_values s) i = Some e \<Longrightarrow> entry_ok E s i e"
  by (simp add: telemetry_inv_def)

lemma record_failure_inv [pipeline_keep]:
  assumes "telemetry_inv E s" and "q \<noteq> Good"
  shows "telemetry_inv E (snd (record_failure n i ta q err s))"
proof (cases "bt_get (pst_values s) i")
  case None
  with assms(1) show ?thesis by (simp add: record_failure_def Let_def push_if_required_inv)
next
  case (Some e)
  have "telemetry_inv E (set_entry i (e\<lparr>len_current_quality := q, len_last_attempt_at := Some ta,
      len_last_error := Some err\<rparr>) (tally f s))" for f
    by (rule set_entry_inv [where e = e])
      (use assms Some telemetry_inv_entry [OF assms(1) Some] in
        \<open>simp_all add: entry_ok_cong [of "tally f s" s] entry_ok_failed\<close>)
  then show ?thesis
    using Some by (simp add: record_failure_def Let_def push_if_required_inv)
qed

lemma disconnect_one_inv [pipeline_keep]:
  assumes "telemetry_inv E s"
  shows "telemetry_inv E (snd (disconnect_one n ta err i s))"
proof (cases "bt_get (pst_values s) i")
  case None
  with assms(1) show ?thesis by (simp add: disconnect_one_def Let_def push_if_required_inv)
next
  case (Some e)
  have "telemetry_inv E (set_entry i (e\<lparr>len_current_quality := Disconnected, len_last_attempt_at := Some ta,
      len_last_error := Some err\<rparr>) (if b then tally f s else s))" for f b
    by (rule set_entry_inv [where e = e])
      (use assms Some telemetry_inv_entry [OF assms(1) Some] in
        \<open>simp_all add: entry_ok_cong [of "if b then tally f s else s" s] entry_ok_failed\<close>)
  then show ?thesis
    using Some by (simp add: disconnect_one_def Let_def push_if_required_inv)
qed

lemma stale_one_inv [pipeline_keep]:
  assumes "telemetry_inv E s"
  shows "telemetry_inv E (snd (stale_one n now i s))"
proof (cases "bt_get (pst_values s) i")
  case None
  with assms(1) show ?thesis by (simp add: stale_one_def Let_def push_if_required_inv)
next
  case (Some e)
  have "telemetry_inv E (set_entry i (e\<lparr>len_current_quality := Stale\<rparr>) s)"
    by (rule set_entry_inv [where e = e])
      (use assms Some telemetry_inv_entry [OF assms(1) Some] in \<open>simp_all add: entry_ok_failed\<close>)
  then show ?thesis
    using Some by (simp add: stale_one_def Let_def push_if_required_inv)
qed

text \<open>The frame of the recording operations: what they never change.\<close>

definition same_frame :: "'d pipeline_state \<Rightarrow> 'd pipeline_state \<Rightarrow> bool" where
  "same_frame s t \<longleftrightarrow>
     pst_session_id t = pst_session_id s \<and> pst_origin t = pst_origin s \<and> pst_config t = pst_config s \<and>
     pst_plans t = pst_plans s \<and> map fst (pst_values t) = map fst (pst_values s)"

lemma same_frame_refl [simp]: "same_frame s s"
  by (simp add: same_frame_def)

lemma same_frame_trans: "same_frame s t \<Longrightarrow> same_frame t u \<Longrightarrow> same_frame s u"
  by (simp add: same_frame_def)

lemma same_frame_monotonic: "same_frame s t \<Longrightarrow> to_monotonic t = to_monotonic s"
  by (simp add: same_frame_def to_monotonic_def fun_eq_iff)

lemma bt_insert_same_keys:
  "bt_wf m \<Longrightarrow> bt_get m k = Some v \<Longrightarrow> map fst (bt_insert k v' m) = map fst m"
  by (induction k v' m rule: bt_insert.induct) (auto simp: bt_wf_def split: if_splits dest!: map_of_SomeD)

subsection \<open>Loops, pruning and plans\<close>

lemma for_each_keeps:
  assumes "I s" and "\<And>x s. x \<in> set xs \<Longrightarrow> I s \<Longrightarrow> I (snd (f x s))"
  shows "I (snd (for_each f xs s))"
  using assms
proof (induction xs arbitrary: s)
  case (Cons x xs)
  obtain e s1 where 1: "f x s = (e, s1)" by fastforce
  obtain es s2 where 2: "for_each f xs s1 = (es, s2)" by fastforce
  have "I s1" using Cons.prems(2) [of x s] Cons.prems(1) 1 by simp
  then have "I s2" using Cons.IH [of s1] Cons.prems(2) 2 by simp
  then show ?case by (simp add: 1 2)
qed simp

lemma prune_channels_keys: "map fst (fst (prune_channels n co cap hs b)) = map fst hs"
  by (induction n co cap hs b rule: prune_channels.induct) (auto simp: Let_def split: prod.splits)

lemma pop_front_keys [simp]: "map fst (pop_front i hs) = map fst hs"
  by (induction hs) (auto simp: pop_front_def)

lemma prune_memory_keys: "map fst (fst (prune_memory n budget hs b)) = map fst hs"
proof (induction n budget hs b rule: prune_memory.induct)
  case (1 n budget hs b)
  then show ?case
    by (subst prune_memory.simps) (auto split: option.split)
qed

definition histories_pruned :: "'d pipeline_state \<Rightarrow> 'd pipeline_state \<Rightarrow> bool" where
  "histories_pruned s t \<longleftrightarrow>
     (\<exists>hs b. t = s\<lparr>pst_histories := hs, pst_history_bytes := b\<rparr> \<and> map fst hs = map fst (pst_histories s))"

lemma prune_histories_pruned: "histories_pruned s (prune_histories n now s)"
proof -
  obtain hs1 b1 where 1: "prune_channels n (unat now - tpc_history_retention (pst_config s))
      (tpc_history_samples_per_channel (pst_config s)) (pst_histories s) (pst_history_bytes s) = (hs1, b1)" by fastforce
  obtain hs2 b2 where 2: "prune_memory n (tpc_history_memory_budget_bytes (pst_config s)) hs1 b1 = (hs2, b2)" by fastforce
  have "map fst hs2 = map fst (pst_histories s)"
    using prune_channels_keys [of n _ _ "pst_histories s" "pst_history_bytes s"] prune_memory_keys [of n _ hs1 b1] 1 2
    by (metis fst_conv)
  then show ?thesis
    by (simp add: histories_pruned_def prune_histories_def Let_def 1 2)
      (metis surjective)
qed

lemma histories_pruned_sels:
  assumes "histories_pruned s t"
  shows "pst_values t = pst_values s \<and> pst_plans t = pst_plans s \<and> pst_session_id t = pst_session_id s \<and>
    pst_origin t = pst_origin s \<and> pst_config t = pst_config s \<and> to_monotonic t = to_monotonic s"
  using assms by (auto simp: histories_pruned_def to_monotonic_def fun_eq_iff)

lemma histories_pruned_inv:
  assumes "telemetry_inv E s" and "histories_pruned s t"
  shows "telemetry_inv E t"
proof -
  from assms(2) obtain hs b where t: "t = s\<lparr>pst_histories := hs, pst_history_bytes := b\<rparr>"
    and keys: "map fst hs = map fst (pst_histories s)"
    by (auto simp: histories_pruned_def)
  have ok: "entry_ok E t = entry_ok E s" by (rule entry_ok_cong) (simp_all add: t)
  have hk: "history_keys t = history_keys s" by (simp add: history_keys_def t)
  have "bt_wf hs \<longleftrightarrow> bt_wf (pst_histories s)" by (simp add: bt_wf_def keys)
  moreover have "fst ` set hs = fst ` set (pst_histories s)" using keys by (metis set_map)
  ultimately show ?thesis
    using assms(1) unfolding telemetry_inv_def ok hk by (simp add: t)
qed

lemma prune_histories_inv [pipeline_keep]: "telemetry_inv E s \<Longrightarrow> telemetry_inv E (prune_histories n now s)"
  by (rule histories_pruned_inv [OF _ prune_histories_pruned])

lemma snd_case_prod: "snd (case x of (a, b) \<Rightarrow> (a, f b)) = f (snd x)"
  by (simp split: prod.split)

lemma mark_all_disconnected_inv [pipeline_keep]:
  "telemetry_inv E s \<Longrightarrow> telemetry_inv E (snd (mark_all_disconnected n ta err s))"
  unfolding mark_all_disconnected_def Let_def snd_case_prod
  by (rule prune_histories_inv, rule for_each_keeps [where I = "telemetry_inv E"]) (simp_all add: disconnect_one_inv)

lemma refresh_stale_inv [pipeline_keep]:
  "telemetry_inv E s \<Longrightarrow> telemetry_inv E (snd (refresh_stale n now s))"
  unfolding refresh_stale_def Let_def snd_case_prod
  by (rule prune_histories_inv, rule for_each_keeps [where I = "telemetry_inv E"]) (simp_all add: stale_one_inv)

lemma recalculate_sels [simp]:
  "pst_values (recalculate_history_bytes n s) = pst_values s"
  "pst_histories (recalculate_history_bytes n s) = pst_histories s"
  "pst_plans (recalculate_history_bytes n s) = pst_plans s"
  "pst_session_id (recalculate_history_bytes n s) = pst_session_id s"
  "pst_origin (recalculate_history_bytes n s) = pst_origin s"
  "pst_config (recalculate_history_bytes n s) = pst_config s"
  by (simp_all add: recalculate_history_bytes_def)

lemma recalculate_inv: "telemetry_inv E (recalculate_history_bytes n s) = telemetry_inv E s"
  by (simp add: telemetry_inv_def history_keys_def entry_ok_cong [of "recalculate_history_bytes n s" s])

lemma clear_histories_inv [pipeline_keep]:
  assumes "telemetry_inv E s"
  shows "telemetry_inv E (clear_histories n ids s)"
  unfolding clear_histories_def recalculate_inv
proof (rule histories_pruned_inv [OF assms])
  let ?hs = "map (\<lambda>(i, ps). (i, if i \<in> set ids then [] else ps)) (pst_histories s)"
  have "map fst ?hs = map fst (pst_histories s)" by auto
  then show "histories_pruned s (s\<lparr>pst_histories := ?hs\<rparr>)"
    unfolding histories_pruned_def by (intro exI [of _ ?hs] exI [of _ "pst_history_bytes s"]) simp
qed

lemma evict_plans_spec:
  "bt_wf plans \<Longrightarrow> bt_wf (evict_plans v plans) \<and>
     (bt_get plans v \<noteq> None \<longrightarrow> bt_get (evict_plans v plans) v = bt_get plans v) \<and>
     set (evict_plans v plans) \<subseteq> set plans"
proof (induction v plans rule: evict_plans.induct)
  case (1 v plans)
  show ?case
  proof (cases "length plans \<le> MAX_RETAINED_PLAN_VERSIONS \<or> find (\<lambda>w. w \<noteq> v) (map fst plans) = None")
    case True
    then show ?thesis using "1.prems" by (subst (1 2 3) evict_plans.simps) auto
  next
    case False
    then obtain w where w: "find (\<lambda>w. w \<noteq> v) (map fst plans) = Some w" by blast
    then have "w \<noteq> v" by (auto simp: find_Some_iff)
    moreover have "bt_wf (bt_remove w plans)" using "1.prems" by (rule bt_wf_remove)
    moreover have "set (bt_remove w plans) \<subseteq> set plans" by (auto simp: bt_remove_def)
    moreover have "evict_plans v plans = evict_plans v (bt_remove w plans)"
      using False w by (subst evict_plans.simps) simp
    ultimately show ?thesis using "1.IH" [OF _ w] False by auto
  qed
qed

lemma evict_plans_length:
  assumes "bt_wf plans"
  shows "length (evict_plans v plans) \<le> MAX_RETAINED_PLAN_VERSIONS"
  using assms
proof (induction v plans rule: evict_plans.induct)
  case (1 v plans)
  show ?case
  proof (cases "length plans \<le> MAX_RETAINED_PLAN_VERSIONS")
    case True
    then show ?thesis by (subst evict_plans.simps) simp
  next
    case False
    have "\<exists>w. find (\<lambda>w. w \<noteq> v) (map fst plans) = Some w"
    proof (rule ccontr)
      assume "\<not> ?thesis"
      then have "set (map fst plans) \<subseteq> {v}" by (auto simp: find_None_iff)
      then have "card (set (map fst plans)) \<le> 1"
        by (metis card.empty card_insert_disjoint card_mono empty_iff finite.emptyI finite.insertI One_nat_def)
      then have "length plans \<le> 1"
        using bt_wf_distinct [OF "1.prems"] by (metis distinct_card length_map)
      with False show False by (simp add: MAX_RETAINED_PLAN_VERSIONS_def)
    qed
    then obtain w where w: "find (\<lambda>w. w \<noteq> v) (map fst plans) = Some w" by blast
    with False have "evict_plans v plans = evict_plans v (bt_remove w plans)"
      by (subst evict_plans.simps) simp
    with "1.IH" [OF False w] bt_wf_remove [OF "1.prems"] show ?thesis by simp
  qed
qed

lemma need_slice_wf: "bt_wf m \<Longrightarrow> bt_wf (need_slice b m sl)"
  by (simp add: need_slice_def bt_wf_insert)

lemma foldl_keeps: "I a \<Longrightarrow> (\<And>a x. x \<in> set xs \<Longrightarrow> I a \<Longrightarrow> I (f a x)) \<Longrightarrow> I (foldl f a xs)"
  by (induction xs arbitrary: a) simp_all

lemma plan_needs_wf: "bt_wf (plan_needs plan)"
  unfolding plan_needs_def by (intro foldl_keeps [where I = bt_wf] need_slice_wf bt_wf_Nil)

lemma adopt_entry_wf: "bt_wf m \<Longrightarrow> bt_wf (adopt_entry m x)"
  by (cases x) (simp add: adopt_entry_def bt_wf_insert)

lemma adopt_history_wf: "bt_wf m \<Longrightarrow> bt_wf (adopt_history m x)"
  by (cases x) (simp add: adopt_history_def bt_wf_insert)

definition adopted :: "duration \<times> duration \<times> bool \<Rightarrow> 'd latest_entry option \<Rightarrow> 'd latest_entry" where
  "adopted need old =
     (case need of (period, maximum_age, history_required) \<Rightarrow>
        case old of
          Some entry \<Rightarrow> entry\<lparr>len_expected_period := period, len_maximum_age := maximum_age,
                            len_history_required := history_required\<rparr>
        | None \<Rightarrow> \<lparr>len_last_good = None, len_current_quality = Unavailable, len_last_attempt_at = None,
                   len_last_error = None, len_expected_period = period, len_maximum_age = maximum_age,
                   len_history_required = history_required\<rparr>)"

lemma adopted_history [simp]: "len_history_required (adopted need old) = snd (snd need)"
  by (simp add: adopted_def split: prod.split option.split)

lemma adopt_entries_get:
  "distinct (map fst needs) \<Longrightarrow>
     bt_get (foldl adopt_entry values needs) i =
       (case bt_get needs i of None \<Rightarrow> bt_get values i | Some need \<Rightarrow> Some (adopted need (bt_get values i)))"
proof (induction needs arbitrary: "values")
  case (Cons x needs)
  obtain k p a h where x: "x = (k, p, a, h)" by (cases x)
  have get: "bt_get (adopt_entry values (k, p, a, h)) = (bt_get values)(k \<mapsto> adopted (p, a, h) (bt_get values k))"
    by (simp add: adopt_entry_def adopted_def fun_eq_iff)
  have "bt_get needs k = None"
    using Cons.prems by (simp add: x map_of_eq_None_iff)
  with Cons show ?case by (simp add: get x split: option.split)
qed simp

lemma adopt_histories_keys:
  "fst ` set (foldl adopt_history hs needs) = fst ` set hs \<union> {i. \<exists>p a. (i, p, a, True) \<in> set needs}"
proof (induction needs arbitrary: hs)
  case (Cons x needs)
  obtain k p a h where x: "x = (k, p, a, h)" by (cases x)
  have "fst ` set (adopt_history hs x) = fst ` set hs \<union> (if h then {k} else {})"
    using set_bt_insert_keys [of k "[]" hs, unfolded set_map]
    by (auto simp: adopt_history_def x map_of_eq_None_iff)
  with Cons show ?case by (auto simp: x)
qed simp

lemma bt_wf_filter: "bt_wf m \<Longrightarrow> bt_wf (filter P m)"
  by (induction m) (auto simp: bt_wf_def)

lemma bt_get_filter_keys: "bt_get (filter (\<lambda>e. P (fst e)) m) i = (if P i then bt_get m i else None)"
  by (induction m) auto

lemma adopt_entries_wf: "bt_wf m \<Longrightarrow> bt_wf (foldl adopt_entry m needs)"
  by (induction needs arbitrary: m) (simp_all add: adopt_entry_wf)

lemma adopt_histories_wf: "bt_wf m \<Longrightarrow> bt_wf (foldl adopt_history m needs)"
  by (induction needs arbitrary: m) (simp_all add: adopt_history_wf)

lemma install_plan_sels:
  "pst_values (install_plan n plan s) =
     foldl adopt_entry (filter (\<lambda>e. bt_get (plan_needs plan) (fst e) \<noteq> None) (pst_values s)) (plan_needs plan)"
  "pst_histories (install_plan n plan s) =
     filter (\<lambda>e. case bt_get (plan_needs plan) (fst e) of None \<Rightarrow> False | Some (_, _, h) \<Rightarrow> h)
       (foldl adopt_history (pst_histories s) (plan_needs plan))"
  "pst_plans (install_plan n plan s) = evict_plans (ppl_version plan) (bt_insert (ppl_version plan) plan (pst_plans s))"
  "pst_session_id (install_plan n plan s) = pst_session_id s" "pst_origin (install_plan n plan s) = pst_origin s"
  "pst_config (install_plan n plan s) = pst_config s"
  by (simp_all del: map_of_eq_None_iff add: install_plan_def Let_def)

lemma install_plan_values:
  "bt_get (pst_values (install_plan n plan s)) i =
     map_option (\<lambda>need. adopted need (bt_get (pst_values s) i)) (bt_get (plan_needs plan) i)"
  unfolding install_plan_sels adopt_entries_get [OF bt_wf_distinct [OF plan_needs_wf]] 
    bt_get_filter_keys [where P = "\<lambda>k. bt_get (plan_needs plan) k \<noteq> None"]
  by (cases "bt_get (plan_needs plan) i") simp_all

lemma install_plan_inv [pipeline_keep]:
  assumes "telemetry_inv E s"
  shows "telemetry_inv E (install_plan n plan s)"
proof -
  let ?t = "install_plan n plan s" and ?needs = "plan_needs plan"
  note frame = install_plan_sels(4,5) [of n plan s]
  have inv: "bt_wf (pst_values s)" "bt_wf (pst_histories s)" "bt_wf (pst_plans s)"
    using assms by (simp_all add: telemetry_inv_def)
  have wf: "bt_wf (pst_values ?t)"
    unfolding install_plan_sels by (intro adopt_entries_wf bt_wf_filter inv)
  have wfh: "bt_wf (pst_histories ?t)"
    unfolding install_plan_sels by (intro adopt_histories_wf bt_wf_filter inv)
  have plans: "bt_wf (bt_insert (ppl_version plan) plan (pst_plans s))" by (rule bt_wf_insert [OF inv(3)])
  have wfp: "bt_wf (pst_plans ?t)" "length (pst_plans ?t) \<le> MAX_RETAINED_PLAN_VERSIONS"
    using evict_plans_spec [OF plans] evict_plans_length [OF plans] unfolding install_plan_sels by blast+
  have ok: "entry_ok E ?t i e" if "bt_get (pst_values ?t) i = Some e" for i e
  proof -
    from that obtain need where e: "e = adopted need (bt_get (pst_values s) i)"
      by (auto simp: install_plan_values)
    show ?thesis
    proof (cases "bt_get (pst_values s) i")
      case None
      then show ?thesis by (simp add: e adopted_def entry_ok_def split: prod.split)
    next
      case (Some e0)
      with telemetry_inv_entry [OF assms Some] show ?thesis
        by (simp add: entry_ok_cong [OF frame] e adopted_def entry_ok_def split: prod.split)
    qed
  qed
  have needs: "(i, p, a, h) \<in> set ?needs \<longleftrightarrow> bt_get ?needs i = Some (p, a, h)" for i p a h
    using bt_wf_get_iff [OF plan_needs_wf] by metis
  have keys: "history_keys ?t = {i. \<exists>p a. bt_get ?needs i = Some (p, a, True)}"
  proof (rule set_eqI)
    fix i
    show "i \<in> history_keys ?t \<longleftrightarrow> i \<in> {i. \<exists>p a. bt_get ?needs i = Some (p, a, True)}"
      unfolding history_keys_def mem_Collect_eq install_plan_values by (cases "bt_get ?needs i") auto
  qed
  have "fst ` set (pst_histories ?t) = {i. \<exists>p a. bt_get ?needs i = Some (p, a, True)}"
  proof -
    let ?hs = "foldl adopt_history (pst_histories s) ?needs"
    have "fst ` set (pst_histories ?t) =
        {i \<in> fst ` set ?hs. case bt_get ?needs i of None \<Rightarrow> False | Some (_, _, h) \<Rightarrow> h}"
      unfolding install_plan_sels by auto
    also have "\<dots> = {i. \<exists>p a. bt_get ?needs i = Some (p, a, True)}"
      unfolding adopt_histories_keys needs
    proof (rule set_eqI)
      fix i
      show "i \<in> {i \<in> fst ` set (pst_histories s) \<union> {i. \<exists>p a. bt_get ?needs i = Some (p, a, True)}.
          case bt_get ?needs i of None \<Rightarrow> False | Some (_, _, h) \<Rightarrow> h} \<longleftrightarrow>
        i \<in> {i. \<exists>p a. bt_get ?needs i = Some (p, a, True)}"
        by (cases "bt_get ?needs i") auto
    qed
    finally show ?thesis .
  qed
  with wf wfh wfp ok keys show ?thesis by (simp add: telemetry_inv_def)
qed

lemma pipeline_state_new_inv: "telemetry_inv E (pipeline_state_new n sid origin config plan)"
  unfolding pipeline_state_new_def
  by (rule install_plan_inv) (simp add: telemetry_inv_def history_keys_def)

end
