(* ===== verification/Telemetry_Properties.thy ===== *)
theory Telemetry_Properties
  imports Telemetry_Facts Poll_Samples
begin

text \<open>
  The properties of the telemetry pipeline: what a value that may guard a write is worth, when values
  turn stale, how large histories get, and what the CSV stream says about the samples it lost.
\<close>

subsection \<open>The invariant along every run\<close>

definition pipeline_inv :: "('w, 'd) telemetry_env \<Rightarrow> ('w, 'd) pipeline \<Rightarrow> bool" where
  "pipeline_inv E p \<longleftrightarrow> telemetry_inv E (tpl_state p)"

lemma decode_slice_Ok:
  assumes "decode_slice E raw_block sl = Ok (raw, v)"
  shows "\<exists>q. profile_parameter (ten_profile E) (pps_parameter_id sl) = Some q \<and>
    decode (ten_decimal E) (vp_codec q) raw = Ok v"
  using assms by (auto simp: decode_slice_def and_then_Ok_iff)

lemma process_slice_inv: "pipeline_inv E p \<Longrightarrow> pipeline_inv E (snd (process_slice E raw rid ta sl p))"
proof -
  assume inv: "pipeline_inv E p"
  show ?thesis
  proof (cases "decode_slice E raw sl")
    case (Inl e)
    with inv show ?thesis
      by (simp add: pipeline_inv_def process_slice_def on_state_def snd_case_prod record_failure_inv split: prod.split)
  next
    case (Inr rv)
    then obtain r v where rv: "decode_slice E raw sl = Ok (r, v)" by (cases rv) auto
    obtain utc w where utc: "ten_utc_now E (tpl_world p) = (utc, w)" by fastforce
    let ?g = "\<lparr>tsc_session_id = pst_session_id (tpl_state p), tsc_parameter_id = pps_parameter_id sl,
                 tsc_raw = r, tsc_engineering = v, tsc_quality = Good,
                 tsc_monotonic_time = to_monotonic (tpl_state p) ta, tsc_utc_time = utc, tsc_request_id = rid\<rparr>"
    have "telemetry_inv E (snd (record_good (ten_point_size E) (pps_parameter_id sl) ta ?g (tpl_state p)))"
      by (rule record_good_inv) (use inv decode_slice_Ok [OF rv] in \<open>simp_all add: pipeline_inv_def sample_ok_def\<close>)
    then show ?thesis
      using rv utc by (auto simp: pipeline_inv_def process_slice_def on_state_def pipeline_utc_def split: prod.split)
  qed
qed

lemma on_state_inv:
  "telemetry_inv E (snd (f (tpl_state p))) \<Longrightarrow> pipeline_inv E (snd (on_state f p))"
  by (cases "f (tpl_state p)") (simp add: pipeline_inv_def on_state_def)

lemma process_outcome_inv:
  assumes "pipeline_inv E p"
  shows "pipeline_inv E (snd (process_outcome E block rid ta out p))"
proof (cases out)
  case (PollRead r)
  show ?thesis
  proof (cases r)
    case (Inl e)
    have "quality_for_bus_error e \<noteq> Good" by (cases e) (simp_all add: quality_for_bus_error_def)
    then show ?thesis
      using assms PollRead Inl
      by (auto simp: process_outcome_def Let_def pipeline_inv_def [of E p]
          intro!: on_state_inv mark_all_disconnected_inv for_each_keeps [where I = "telemetry_inv E"] record_failure_inv)
  next
    case (Inr raw)
    then show ?thesis
      using assms PollRead
      by (simp add: process_outcome_def for_each_keeps [where I = "pipeline_inv E"] process_slice_inv)
  qed
next
  case SkippedDeadline
  then show ?thesis
    using assms
    by (auto simp: process_outcome_def pipeline_inv_def [of E p]
        intro!: on_state_inv for_each_keeps [where I = "telemetry_inv E"] record_failure_inv)
qed

lemma deliver_event_state: "tpl_state (snd (deliver_event e d p)) = tpl_state p"
  by (simp add: deliver_event_def Let_def split: prod.split)

lemma deliver_events_state: "tpl_state (snd (deliver_events es d p)) = tpl_state p"
proof (induction es arbitrary: d p)
  case (Cons e es)
  obtain d' p' where "deliver_event e d p = (d', p')" by fastforce
  with Cons [of d' p'] deliver_event_state [of e d p] show ?case by simp
qed simp

lemma pipeline_now_state: "tpl_state (snd (pipeline_now E p)) = tpl_state p"
  by (simp add: pipeline_now_def split: prod.split)

lemma tally_tally: "tally f (tally g s) = tally (f \<circ> g) s"
  by (simp add: tally_def)

lemma publish_events_state: "\<exists>f. tpl_state (publish_events E es p) = tally f (tpl_state p)"
proof -
  let ?p1 = "p\<lparr>tpl_state := tally (\<lambda>c. c\<lparr>pco_snapshots_published := sat_inc (pco_snapshots_published c)\<rparr>) (tpl_state p)\<rparr>"
  obtain now p2 where 2: "pipeline_now E ?p1 = (now, p2)" by fastforce
  let ?p3 = "p2\<lparr>tpl_tui := pipeline_snapshot now (tpl_state p2)\<rparr>"
  obtain a b c p4 where 4: "deliver_events es (0, 0, 0) ?p3 = ((a, b, c), p4)"
    by (metis prod_cases3 surj_pair)
  have s2: "tpl_state p2 = tpl_state ?p1" using pipeline_now_state [of E ?p1] 2 by simp
  have s4: "tpl_state p4 = tpl_state ?p1" using deliver_events_state [of es "(0, 0, 0)" ?p3] 4 s2 by simp
  show ?thesis
    unfolding publish_events_def Let_def 2 prod.case 4
    by (cases "a \<noteq> 0 \<or> b \<noteq> 0 \<or> c \<noteq> 0") (auto simp: s4 tally_tally)
qed

lemma publish_events_inv: "pipeline_inv E p \<Longrightarrow> pipeline_inv E (publish_events E es p)"
  using publish_events_state [of E es p] by (auto simp: pipeline_inv_def)

lemma pipeline_inv_state_upd: "telemetry_inv E s \<Longrightarrow> pipeline_inv E (p\<lparr>tpl_state := s\<rparr>)"
  by (simp add: pipeline_inv_def)

lemma process_result_inv: "pipeline_inv E p \<Longrightarrow> pipeline_inv E (process_result E r p)"
proof -
  assume inv: "pipeline_inv E p"
  show ?thesis
  proof (cases "find_block (tpl_state p) (per_plan_version r) (per_block_index r)")
    case None
    with inv show ?thesis by (simp add: process_result_def pipeline_inv_def)
  next
    case (Some block)
    let ?p1 = "p\<lparr>tpl_state := tally (\<lambda>c. c\<lparr>pco_attempts := sat_inc (pco_attempts c)\<rparr>) (tpl_state p)\<rparr>"
    obtain es p2 where 2: "process_outcome E block (per_request_id r) (per_completed_at r) (per_outcome r) ?p1 = (es, p2)"
      by fastforce
    have "pipeline_inv E ?p1" using inv by (simp add: pipeline_inv_def)
    from process_outcome_inv [OF this, of block "per_request_id r" "per_completed_at r" "per_outcome r"] 2
    have "telemetry_inv E (tpl_state p2)" by (simp add: pipeline_inv_def)
    then show ?thesis
      using Some 2
      by (simp add: process_result_def Let_def publish_events_inv pipeline_inv_state_upd prune_histories_inv)
  qed
qed

lemma refresh_and_publish_inv:
  assumes "pipeline_inv E p" and "\<And>now s. telemetry_inv E s \<Longrightarrow> telemetry_inv E (snd (f now s))"
  shows "pipeline_inv E (let (now, p1) = pipeline_now E p; (events, p2) = on_state (f now) p1
      in if events = [] then p2 else publish_events E events p2)"
proof -
  obtain now p1 where 1: "pipeline_now E p = (now, p1)" by fastforce
  have "pipeline_inv E p1" using assms(1) pipeline_now_state [of E p] 1 by (simp add: pipeline_inv_def)
  then have "pipeline_inv E (snd (on_state (f now) p1))"
    by (intro on_state_inv assms(2)) (simp add: pipeline_inv_def)
  moreover obtain events p2 where "on_state (f now) p1 = (events, p2)" by fastforce
  ultimately show ?thesis by (simp add: 1 publish_events_inv)
qed

lemma pipeline_step_inv: "pipeline_step E p p' \<Longrightarrow> pipeline_inv E p \<Longrightarrow> pipeline_inv E p'"
proof (induction rule: pipeline_step.induct)
  case (result_arrives p r)
  then show ?case by (simp add: process_result_inv)
next
  case (stale_deadline_passes p)
  then show ?case
    unfolding pipeline_refresh_stale_def by (intro refresh_and_publish_inv refresh_stale_inv)
next
  case (telemetry_plan_updated p plan)
  then show ?case
    by (simp add: pipeline_update_plan_def publish_events_inv pipeline_inv_state_upd install_plan_inv pipeline_inv_def [of E p])
next
  case (disconnection_marked p)
  then show ?case
    unfolding pipeline_mark_disconnected_def by (intro refresh_and_publish_inv mark_all_disconnected_inv)
next
  case (csv_stopped p)
  then show ?case by (simp add: pipeline_stop_csv_def pipeline_inv_def split: prod.split)
next
  case (histories_cleared p ids)
  then show ?case
    by (simp add: pipeline_clear_histories_def publish_events_inv pipeline_inv_state_upd clear_histories_inv pipeline_inv_def [of E p])
qed (simp_all add: pipeline_inv_def pipeline_start_csv_def pipeline_shutdown_def)

lemma pipeline_spawn_inv:
  assumes "pipeline_spawn E w sid plan config = Ok p" shows "pipeline_inv E p"
proof -
  obtain origin w' where "ten_now E w = (origin, w')" by fastforce
  with assms show ?thesis
    by (auto simp: pipeline_spawn_def and_then_Ok_iff pipeline_inv_def pipeline_state_new_inv Let_def)
qed

lemma pipeline_reachable_inv:
  "pipeline_reachable E p0 p \<Longrightarrow> pipeline_spawn E w sid plan config = Ok p0 \<Longrightarrow> pipeline_inv E p"
  by (induction rule: pipeline_reachable.induct) (auto intro: pipeline_spawn_inv pipeline_step_inv)

subsection \<open>Write guards\<close>

lemma latest_value_entry:
  "latest_values_value (pipeline_snapshot now s) i = map_option (snapshot_value s (to_monotonic s now)) (bt_get (pst_values s) i)"
  by (simp add: latest_values_value_def pipeline_snapshot_def map_of_map)

text \<open>
  C33. A value that may satisfy a write guard is fresh and genuine. In every reachable state of the
  pipeline, when the snapshot taken at some moment lets a parameter guard a write, then the last attempt
  to read it succeeded and reported no error, its sample is the decoding of the raw words by the
  profile's codec for exactly this parameter and session, and at that moment it is younger than the
  maximum age that its consumers asked for.
\<close>
theorem telemetry_write_guard_is_fresh:
  assumes "pipeline_spawn E w sid plan config = Ok p0" and "pipeline_reachable E p0 p"
    and "latest_values_value (pipeline_snapshot now (tpl_state p)) i = Some v"
    and "latest_can_satisfy_write_guard v"
  shows "\<exists>g ta. lva_last_good v = Some g \<and> lva_last_error v = None \<and>
    lva_last_attempt_at v = Some (tsc_monotonic_time g) \<and> tsc_monotonic_time g = to_monotonic (tpl_state p) ta \<and>
    sample_ok E (pst_session_id (tpl_state p)) i g \<and>
    min (elapsed_nanos (to_monotonic (tpl_state p) now) (tsc_monotonic_time g)) (2 ^ 64 - 1) < lva_maximum_age v"
proof -
  let ?s = "tpl_state p"
  have inv: "telemetry_inv E ?s"
    using pipeline_reachable_inv [OF assms(2,1)] by (simp add: pipeline_inv_def)
  from assms(3) obtain e where e: "bt_get (pst_values ?s) i = Some e"
    "v = snapshot_value ?s (to_monotonic ?s now) e"
    by (auto simp: latest_value_entry)
  from telemetry_inv_entry [OF inv e(1)] assms(4) show ?thesis
    by (auto simp: e(2) snapshot_value_def latest_can_satisfy_write_guard_def can_satisfy_write_guard_def
        entry_ok_def duration_from_nanos_def)
qed

subsection \<open>Staleness\<close>

lemma for_each_length: "length (fst (for_each f xs s)) = length xs"
proof (induction xs arbitrary: s)
  case (Cons x xs)
  obtain e s1 where "f x s = (e, s1)" by fastforce
  moreover obtain es s2 where "for_each f xs s1 = (es, s2)" by fastforce
  ultimately show ?case using Cons [of s1] by simp
qed simp

lemma stale_one_values:
  "bt_get (pst_values (snd (stale_one n now i s))) j =
     (if j = i then map_option (\<lambda>e. e\<lparr>len_current_quality := Stale\<rparr>) (bt_get (pst_values s) j)
      else bt_get (pst_values s) j)"
  by (simp add: stale_one_def Let_def split: option.split)

lemma stale_all_values:
  "bt_get (pst_values (snd (for_each (stale_one n now) ids s))) j =
     (if j \<in> set ids then map_option (\<lambda>e. e\<lparr>len_current_quality := Stale\<rparr>) (bt_get (pst_values s) j)
      else bt_get (pst_values s) j)"
proof (induction ids arbitrary: s)
  case (Cons i ids)
  obtain e s1 where 1: "stale_one n now i s = (e, s1)" by fastforce
  obtain es s2 where 2: "for_each (stale_one n now) ids s1 = (es, s2)" by fastforce
  have "bt_get (pst_values s1) j =
      (if j = i then map_option (\<lambda>e. e\<lparr>len_current_quality := Stale\<rparr>) (bt_get (pst_values s) j)
       else bt_get (pst_values s) j)"
    using stale_one_values [of n now i s j] by (simp add: 1)
  with Cons [of s1] show ?case by (cases "j = i") (auto simp: 1 2 option.map_comp comp_def)
qed simp

text \<open>
  The times of a state are representable: no sample is 584 years old, no deadline lies beyond the last
  instant, and every maximum age is positive, as subscriptions require.
\<close>

definition times_representable :: "'d pipeline_state \<Rightarrow> bool" where
  "times_representable s \<longleftrightarrow>
     (\<forall>(i, e) \<in> set (pst_values s). 0 < len_maximum_age e \<and>
        (\<forall>g. len_last_good e = Some g \<longrightarrow> unat (tsc_monotonic_time g) < 2 ^ 64 \<and>
           pst_origin s + unat (tsc_monotonic_time g) + len_maximum_age e \<le> INSTANT_MAX))"

lemma to_monotonic_unat: "t \<le> INSTANT_MAX \<Longrightarrow> unat (to_monotonic s t) = t - pst_origin s"
  by (simp add: to_monotonic_def unat_of_nat INSTANT_MAX_def)

lemma entry_is_stale_deadline:
  assumes "times_representable s" and "(i, e) \<in> set (pst_values s)" and "now \<le> INSTANT_MAX"
  shows "entry_is_stale (to_monotonic s now) e \<longleftrightarrow> (\<exists>d. stale_deadline s e = Some d \<and> d \<le> now)"
proof (cases "len_last_good e")
  case (Some g)
  from assms(1,2) Some have t: "unat (tsc_monotonic_time g) < 2 ^ 64" "0 < len_maximum_age e"
    "pst_origin s + unat (tsc_monotonic_time g) + len_maximum_age e \<le> INSTANT_MAX"
    by (auto simp: times_representable_def)
  have "elapsed_nanos (to_monotonic s now) (tsc_monotonic_time g) = now - pst_origin s - unat (tsc_monotonic_time g)"
    by (simp add: elapsed_nanos_def to_monotonic_unat [OF assms(3)])
  moreover have "duration_from_nanos (unat (tsc_monotonic_time g)) = unat (tsc_monotonic_time g)"
    using t(1) by (simp add: duration_from_nanos_def)
  ultimately show ?thesis
    using t(2,3) by (auto simp: entry_is_stale_def stale_deadline_def Some instant_checked_add_def)
qed (simp add: entry_is_stale_def stale_deadline_def)

lemma stale_one_event:
  "stale_one n now i s = (ev, s1) \<Longrightarrow> pst_session_id s1 = pst_session_id s \<and>
     ev = \<lparr>tev_session_id = pst_session_id s, tev_parameter_id = i, tev_monotonic_time = now, tev_quality = Stale,
       tev_sample = None, tev_error = None\<rparr>"
  by (auto simp: stale_one_def Let_def split: option.splits)

lemma stale_all_events:
  "fst (for_each (stale_one n now) ids s) = map (\<lambda>i. \<lparr>tev_session_id = pst_session_id s, tev_parameter_id = i,
     tev_monotonic_time = now, tev_quality = Stale, tev_sample = None, tev_error = None\<rparr>) ids"
proof (induction ids arbitrary: s)
  case (Cons i ids)
  obtain ev s1 where 1: "stale_one n now i s = (ev, s1)" by fastforce
  from stale_one_event [OF 1] Cons [of s1] show ?case by (auto simp: 1 split: prod.split)
qed simp

text \<open>
  A value is overdue when it counts as Good although the sample it comes from has reached its maximum
  age, in the time of the pipeline's clock.
\<close>

definition overdue :: "'d pipeline_state \<Rightarrow> instant \<Rightarrow> 'd latest_entry \<Rightarrow> bool" where
  "overdue s now e \<longleftrightarrow> len_current_quality e = Good \<and>
     (\<exists>g. len_last_good e = Some g \<and> pst_origin s + unat (tsc_monotonic_time g) + len_maximum_age e \<le> now)"

lemma entry_is_stale_overdue:
  assumes "times_representable s" and "(i, e) \<in> set (pst_values s)" and "now \<le> INSTANT_MAX"
  shows "entry_is_stale (to_monotonic s now) e \<longleftrightarrow> overdue s now e"
proof -
  from assms(1,2) have "0 < len_maximum_age e" by (auto simp: times_representable_def)
  then show ?thesis
    by (auto simp: entry_is_stale_def overdue_def elapsed_nanos_def to_monotonic_unat [OF assms(3)] split: option.splits)
qed

text \<open>
  C34. Values turn stale exactly when they are due. The pipeline sleeps until \<open>next_stale_deadline\<close>;
  refreshing at any moment reports something exactly when that deadline has been reached. It marks the
  overdue values as stale, keeping their samples, and changes no other value; and it reports each parameter whose value was
  overdue, and no other, in exactly one event, which gives the session, the parameter, the moment and the
  quality \<open>Stale\<close> and carries no sample.
\<close>
theorem telemetry_staleness_is_timely:
  assumes "telemetry_inv E s" and "times_representable s" and "now \<le> INSTANT_MAX"
    and "refresh_stale n now s = (events, s')"
  shows "(events \<noteq> [] \<longleftrightarrow> (\<exists>d. next_stale_deadline s = Some d \<and> d \<le> now)) \<and>
    (\<forall>i. bt_get (pst_values s') i =
       map_option (\<lambda>e. if overdue s now e then e\<lparr>len_current_quality := Stale\<rparr> else e) (bt_get (pst_values s) i)) \<and>
    distinct (map tev_parameter_id events) \<and>
    set (map tev_parameter_id events) = {i. \<exists>e. bt_get (pst_values s) i = Some e \<and> overdue s now e} \<and>
    (\<forall>ev \<in> set events. tev_session_id ev = pst_session_id s \<and> tev_monotonic_time ev = to_monotonic s now \<and>
       tev_quality ev = Stale \<and> tev_sample ev = None \<and> tev_error ev = None)"
proof -
  let ?t = "to_monotonic s now"
  let ?ids = "map fst (filter (\<lambda>(i, e). entry_is_stale ?t e) (pst_values s))"
  have wf: "bt_wf (pst_values s)" using assms(1) by (simp add: telemetry_inv_def)
  note mem = bt_wf_get_iff [OF wf]
  obtain es s1 where 1: "for_each (stale_one n ?t) ?ids s = (es, s1)" by fastforce
  have ev: "events = es" and s': "s' = prune_histories n ?t s1"
    using assms(4) 1 by (auto simp: refresh_stale_def Let_def)
  have events: "events = map (\<lambda>i. \<lparr>tev_session_id = pst_session_id s, tev_parameter_id = i, tev_monotonic_time = ?t,
      tev_quality = Stale, tev_sample = None, tev_error = None\<rparr>) ?ids"
    using stale_all_events [of n ?t ?ids s] 1 ev by simp
  have event_ids: "map tev_parameter_id events = ?ids" by (simp add: events comp_def)
  have due: "entry_is_stale ?t e \<longleftrightarrow> overdue s now e" if "bt_get (pst_values s) i = Some e" for i e
    using entry_is_stale_overdue [OF assms(2) _ assms(3)] that unfolding mem .
  have ids: "set ?ids = {i. \<exists>e. bt_get (pst_values s) i = Some e \<and> overdue s now e}"
    using due unfolding mem by force
  have "bt_get (pst_values s') i =
      (if i \<in> set ?ids then map_option (\<lambda>e. e\<lparr>len_current_quality := Stale\<rparr>) (bt_get (pst_values s) i)
       else bt_get (pst_values s) i)" for i
    using stale_all_values [of n ?t ?ids s i] 1 prune_histories_pruned [of s1 n ?t, THEN histories_pruned_sels]
    by (simp add: s')
  then have vals: "bt_get (pst_values s') i =
      map_option (\<lambda>e. if overdue s now e then e\<lparr>len_current_quality := Stale\<rparr> else e) (bt_get (pst_values s) i)" for i
    unfolding ids by (cases "bt_get (pst_values s) i") auto
  have "events \<noteq> [] \<longleftrightarrow> (\<exists>d. next_stale_deadline s = Some d \<and> d \<le> now)"
  proof -
    let ?ds = "List.map_filter (\<lambda>(i, e). stale_deadline s e) (pst_values s)"
    have ds: "d \<in> set ?ds \<longleftrightarrow> (\<exists>(i, e) \<in> set (pst_values s). stale_deadline s e = Some d)" for d
      by (force simp: List.map_filter_def)
    have "events \<noteq> [] \<longleftrightarrow> ?ids \<noteq> []" by (simp add: events)
    also have "\<dots> \<longleftrightarrow> (\<exists>(i, e) \<in> set (pst_values s). entry_is_stale ?t e)"
      by (auto simp: filter_empty_conv)
    also have "\<dots> \<longleftrightarrow> (\<exists>(i, e) \<in> set (pst_values s). \<exists>d. stale_deadline s e = Some d \<and> d \<le> now)"
      by (rule bex_cong) (auto simp: entry_is_stale_deadline [OF assms(2) _ assms(3)])
    also have "\<dots> \<longleftrightarrow> (\<exists>d \<in> set ?ds. d \<le> now)"
      unfolding Bex_def [of "set ?ds"] ds by blast
    also have "\<dots> \<longleftrightarrow> (\<exists>d. next_stale_deadline s = Some d \<and> d \<le> now)"
    proof (cases "min_by_key id ?ds")
      case None
      then show ?thesis by (simp add: next_stale_deadline_def min_by_key_None)
    next
      case (Some d)
      from min_by_key_index [OF Some] have "d \<in> set ?ds" "\<forall>y \<in> set ?ds. d \<le> y" by auto
      then have "(\<exists>d \<in> set ?ds. d \<le> now) \<longleftrightarrow> d \<le> now" by (meson order_trans)
      then show ?thesis unfolding next_stale_deadline_def Some by simp
    qed
    finally show ?thesis .
  qed
  moreover have "distinct ?ids" by (rule bt_wf_distinct [OF bt_wf_filter [OF wf]])
  moreover have "\<forall>ev \<in> set events. tev_session_id ev = pst_session_id s \<and> tev_monotonic_time ev = ?t \<and>
      tev_quality ev = Stale \<and> tev_sample ev = None \<and> tev_error ev = None"
    by (auto simp: events)
  ultimately show ?thesis using vals ids unfolding event_ids by blast
qed

subsection \<open>Bounds\<close>

text \<open>What pruning does to one channel: its oldest points leave.\<close>

lemma prune_expired_spec:
  "prune_expired n co ps b = (qs, b') \<Longrightarrow>
     \<exists>k. qs = drop k ps \<and> (sorted (map (\<lambda>p. unat (point_monotonic_time p)) ps) \<longrightarrow> (\<forall>q \<in> set qs. co \<le> unat (point_monotonic_time q))) \<and>
       b' = b - sum_list (map (estimated_bytes n) (take k ps))"
proof (induction n co ps b arbitrary: qs b' rule: prune_expired.induct)
  case (2 n co p ps b)
  show ?case
  proof (cases "unat (point_monotonic_time p) < co")
    case True
    with "2.prems" have "prune_expired n co ps (b - estimated_bytes n p) = (qs, b')" by simp
    from "2.IH" [OF True this] obtain k where "qs = drop k ps"
      "b' = b - estimated_bytes n p - sum_list (map (estimated_bytes n) (take k ps))"
      "sorted (map (\<lambda>p. unat (point_monotonic_time p)) ps) \<longrightarrow> (\<forall>q \<in> set qs. co \<le> unat (point_monotonic_time q))"
      by blast
    then show ?thesis by (intro exI [of _ "Suc k"]) auto
  next
    case False
    with "2.prems" have "qs = p # ps" "b' = b" by simp_all
    moreover have "co \<le> unat (point_monotonic_time q)"
      if "sorted (map (\<lambda>p. unat (point_monotonic_time p)) (p # ps))" "q \<in> set (p # ps)" for q
      using that False by (force simp: not_less intro: order_trans)
    ultimately show ?thesis by (intro exI [of _ 0]) simp
  qed
qed auto

lemma prune_excess_spec:
  "prune_excess n cap ps b = (qs, b') \<Longrightarrow>
     \<exists>k. qs = drop k ps \<and> length qs \<le> cap \<and> b' = b - sum_list (map (estimated_bytes n) (take k ps))"
proof (induction n cap ps b arbitrary: qs b' rule: prune_excess.induct)
  case (2 n cap p ps b)
  show ?case
  proof (cases "length (p # ps) > cap")
    case True
    with 2 obtain k where "qs = drop k ps" "length qs \<le> cap"
      "b' = b - estimated_bytes n p - sum_list (map (estimated_bytes n) (take k ps))" by auto
    then show ?thesis by (intro exI [of _ "Suc k"]) auto
  next
    case False
    with 2 show ?thesis by (intro exI [of _ 0]) auto
  qed
qed auto

definition channel_bytes :: "nat \<Rightarrow> 'd history_point list \<Rightarrow> nat" where
  "channel_bytes n ps = sum_list (map (estimated_bytes n) ps)"

definition total_bytes :: "nat \<Rightarrow> 'd histories \<Rightarrow> nat" where
  "total_bytes n hs = sum_list (map (channel_bytes n \<circ> snd) hs)"

lemma channel_bytes_split: "channel_bytes n ps = channel_bytes n (take k ps) + channel_bytes n (drop k ps)"
  unfolding channel_bytes_def by (metis append_take_drop_id map_append sum_list_append)

text \<open>A channel after pruning: a suffix within the capacity, without expired points.\<close>

definition channel_pruned :: "nat \<Rightarrow> nat \<Rightarrow> 'd history_point list \<Rightarrow> 'd history_point list \<Rightarrow> bool" where
  "channel_pruned co cap ps qs \<longleftrightarrow>
     (\<exists>k. qs = drop k ps) \<and> length qs \<le> cap \<and>
     (sorted (map (\<lambda>p. unat (point_monotonic_time p)) ps) \<longrightarrow> (\<forall>q \<in> set qs. co \<le> unat (point_monotonic_time q)))"

lemma channel_pruned_tl: "channel_pruned co cap ps qs \<Longrightarrow> channel_pruned co cap ps (tl qs)"
proof -
  assume a: "channel_pruned co cap ps qs"
  then obtain k where k: "qs = drop k ps" unfolding channel_pruned_def by blast
  have "tl qs = drop (Suc k) ps" unfolding k by (simp add: drop_Suc tl_drop)
  moreover have "set (tl qs) \<subseteq> set qs" by (cases qs) auto
  moreover have "length (tl qs) \<le> cap" using a by (auto simp: channel_pruned_def)
  ultimately show ?thesis using a unfolding channel_pruned_def by blast
qed

lemma prune_channel_spec:
  assumes "prune_expired n co ps b = (ps1, b1)" and "prune_excess n cap ps1 b1 = (qs, b2)"
  shows "channel_pruned co cap ps qs \<and> b2 = b - (channel_bytes n ps - channel_bytes n qs) \<and>
    channel_bytes n qs \<le> channel_bytes n ps"
proof -
  from prune_expired_spec [OF assms(1)] obtain k where k: "ps1 = drop k ps"
    "sorted (map (\<lambda>p. unat (point_monotonic_time p)) ps) \<longrightarrow> (\<forall>q \<in> set ps1. co \<le> unat (point_monotonic_time q))"
    "b1 = b - channel_bytes n (take k ps)" by (auto simp: channel_bytes_def)
  from prune_excess_spec [OF assms(2)] obtain j where j: "qs = drop j ps1" "length qs \<le> cap"
    "b2 = b1 - channel_bytes n (take j ps1)" by (auto simp: channel_bytes_def)
  have "channel_bytes n ps = channel_bytes n (take k ps) + (channel_bytes n (take j ps1) + channel_bytes n qs)"
    using channel_bytes_split [of n ps k] channel_bytes_split [of n ps1 j] k(1) j(1) by simp
  moreover have "qs = drop (j + k) ps" using k(1) j(1) by simp
  moreover have "set qs \<subseteq> set ps1" using j(1) by (simp add: set_drop_subset)
  ultimately show ?thesis
    using k(2,3) j(2,3) unfolding channel_pruned_def by auto
qed

definition pruned_to :: "nat \<Rightarrow> nat \<Rightarrow> 'd histories \<Rightarrow> 'd histories \<Rightarrow> bool" where
  "pruned_to co cap hs hs' \<longleftrightarrow> list_all2 (\<lambda>(i, ps) (j, qs). j = i \<and> channel_pruned co cap ps qs) hs hs'"

lemma prune_channels_spec:
  "prune_channels n co cap hs b = (hs', b') \<Longrightarrow>
     pruned_to co cap hs hs' \<and> total_bytes n hs' \<le> total_bytes n hs \<and> b' = b - (total_bytes n hs - total_bytes n hs')"
proof (induction n co cap hs b arbitrary: hs' b' rule: prune_channels.induct)
  case (2 n co cap i ps hs b)
  obtain ps1 b1 where 1: "prune_expired n co ps b = (ps1, b1)" by fastforce
  obtain qs b2 where 2: "prune_excess n cap ps1 b1 = (qs, b2)" by fastforce
  obtain hs1 b3 where 3: "prune_channels n co cap hs b2 = (hs1, b3)" by fastforce
  have eq: "hs' = (i, qs) # hs1" "b' = b3" using "2.prems" 1 2 3 by (auto simp: Let_def)
  from "2.IH" [OF refl 1 [symmetric] refl 2 [symmetric] 3] prune_channel_spec [OF 1 2] show ?case
    unfolding eq by (auto simp: pruned_to_def total_bytes_def)
qed (simp add: pruned_to_def)

lemma pop_front_total:
  assumes "distinct (map fst hs)" and "bt_get hs i = Some (p # ps)"
  shows "total_bytes n hs = total_bytes n (pop_front i hs) + estimated_bytes n p"
  using assms
proof (induction hs)
  case (Cons h hs)
  obtain j qs where h: "h = (j, qs)" by (cases h)
  show ?case
  proof (cases "j = i")
    case True
    have "pop_front i hs = hs"
      using Cons.prems(1) True h by (force simp: pop_front_def intro!: map_idI)
    then show ?thesis
      using Cons.prems(2) True h by (simp add: total_bytes_def pop_front_def channel_bytes_def)
  next
    case False
    with Cons h show ?thesis by (simp add: total_bytes_def pop_front_def)
  qed
qed simp

lemma pruned_to_pop: "pruned_to co cap hs hs' \<Longrightarrow> pruned_to co cap hs (pop_front i hs')"
  unfolding pruned_to_def
  by (induction rule: list_all2_induct) (auto simp: pop_front_def channel_pruned_tl)

lemma oldest_channel_None: "oldest_channel hs = None \<Longrightarrow> total_bytes n hs = 0"
  by (induction hs) (auto simp: oldest_channel_def total_bytes_def channel_bytes_def split: list.splits)

lemma prune_memory_spec:
  assumes "prune_memory n budget hs b = (hs', b')" and "distinct (map fst hs)" and "pruned_to co cap hs0 hs"
  shows "pruned_to co cap hs0 hs' \<and> b' \<le> budget \<and> (b = total_bytes n hs \<longrightarrow> b' = total_bytes n hs')"
  using assms
proof (induction n budget hs b arbitrary: hs' b' rule: prune_memory.induct)
  case (1 n budget hs b)
  show ?case
  proof (cases "b \<le> budget")
    case True
    with "1.prems" show ?thesis by (subst (asm) prune_memory.simps) simp
  next
    case False
    show ?thesis
    proof (cases "oldest_channel hs")
      case None
      with False "1.prems" oldest_channel_None [OF None, of n] show ?thesis
        by (subst (asm) prune_memory.simps) simp
    next
      case (Some i)
      from oldest_channel_Some [OF Some] obtain p ps where "(i, p # ps) \<in> set hs" by blast
      with "1.prems"(2) have get: "bt_get hs i = Some (p # ps)" by simp
      have rec: "prune_memory n budget (pop_front i hs) (b - front_bytes n hs i) = (hs', b')"
        using "1.prems"(1) False Some by (subst (asm) prune_memory.simps) simp
      have "front_bytes n hs i = estimated_bytes n p" by (simp add: front_bytes_def get)
      with pop_front_total [OF "1.prems"(2) get, of n]
      have "b = total_bytes n hs \<longrightarrow> b - front_bytes n hs i = total_bytes n (pop_front i hs)" by simp
      with "1.IH" [OF False Some rec] "1.prems"(2) pruned_to_pop [OF "1.prems"(3)] show ?thesis by simp
    qed
  qed
qed

text \<open>
  Histories are bounded in length, age, and memory, and it is always the oldest points that leave:
  after pruning, every channel is a suffix of what it was, within the configured number of samples,
  with no point beyond the retention if the points came in order; the byte count is within the memory
  budget, and it stays the exact size of the histories when it was exact before.
\<close>
theorem telemetry_pruning_keeps_newest:
  assumes "telemetry_inv E s"
  shows "pruned_to (unat now - tpc_history_retention (pst_config s)) (tpc_history_samples_per_channel (pst_config s))
      (pst_histories s) (pst_histories (prune_histories n now s)) \<and>
    pst_history_bytes (prune_histories n now s) \<le> tpc_history_memory_budget_bytes (pst_config s) \<and>
    (pst_history_bytes s = total_bytes n (pst_histories s) \<longrightarrow>
      pst_history_bytes (prune_histories n now s) = total_bytes n (pst_histories (prune_histories n now s)))"
proof -
  let ?co = "unat now - tpc_history_retention (pst_config s)" and ?cap = "tpc_history_samples_per_channel (pst_config s)"
  obtain hs1 b1 where 1: "prune_channels n ?co ?cap (pst_histories s) (pst_history_bytes s) = (hs1, b1)" by fastforce
  obtain hs2 b2 where 2: "prune_memory n (tpc_history_memory_budget_bytes (pst_config s)) hs1 b1 = (hs2, b2)" by fastforce
  have "map fst hs1 = map fst (pst_histories s)"
    using prune_channels_keys [of n ?co ?cap "pst_histories s" "pst_history_bytes s"] 1 by simp
  moreover have "bt_wf (pst_histories s)" using assms by (simp add: telemetry_inv_def)
  ultimately have "distinct (map fst hs1)" by (simp add: bt_wf_distinct)
  note spec = prune_channels_spec [OF 1] prune_memory_spec [OF 2 this]
  have "prune_histories n now s = s\<lparr>pst_histories := hs2, pst_history_bytes := b2\<rparr>"
    by (simp add: prune_histories_def Let_def 1 2)
  with spec show ?thesis by auto
qed

subsection \<open>Instances\<close>

text \<open>A pipeline of the sample profile, and its state after one parameter was read.\<close>

definition demo_telemetry :: "(nat, rat) telemetry_env" where
  "demo_telemetry = \<lparr>ten_decimal = rat_decimal, ten_point_size = 64, ten_profile = demo_profile,
     ten_now = (\<lambda>w. (w, w)), ten_utc_now = (\<lambda>w. (int w, w))\<rparr>"

definition demo_telemetry_config :: telemetry_pipeline_config where
  "demo_telemetry_config = \<lparr>tpc_history_samples_per_channel = 2, tpc_history_retention = from_secs 60,
     tpc_history_memory_budget_bytes = 100, tpc_csv_capacity = 4, tpc_fault_capacity = 4, tpc_diagnostics_capacity = 4\<rparr>"

definition demo_entry :: "duration \<Rightarrow> duration \<Rightarrow> bool \<Rightarrow> rat latest_entry" where
  "demo_entry period age history = \<lparr>len_last_good = None, len_current_quality = Unavailable, len_last_attempt_at = None,
     len_last_error = None, len_expected_period = period, len_maximum_age = age, len_history_required = history\<rparr>"

definition demo_pipeline_state :: "rat pipeline_state" where
  "demo_pipeline_state = \<lparr>pst_session_id = 7, pst_origin = 0, pst_started_at = 0, pst_config = demo_telemetry_config,
     pst_active_plan_version = 1, pst_plans = [(1, demo_plan)],
     pst_values = [(''ramp'', demo_entry (from_secs 1) (from_secs 2) False), (''state'', demo_entry (from_millis 100) (from_millis 500) True)],
     pst_histories = [(''state'', [])], pst_history_bytes = 0, pst_stats = pipeline_counters_default\<rparr>"

lemma demo_needs: "plan_needs demo_plan =
  [(''ramp'', from_secs 1, from_secs 2, False), (''state'', from_millis 100, from_millis 500, True)]"
  by (simp add: plan_needs_def demo_plan_def demo_poll_block_def demo_draft_def need_slice_def demo_demand_def demo_state_demand_def demo_id_order)

lemma demo_state_new: "pipeline_state_new 64 7 0 demo_telemetry_config demo_plan = demo_pipeline_state"
proof -
  have v: "ppl_version demo_plan = 1" by (simp add: demo_plan_def)
  show ?thesis
  by (simp add: pipeline_state_new_def install_plan_def demo_needs v evict_plans.simps MAX_RETAINED_PLAN_VERSIONS_def
      adopt_entry_def adopt_history_def demo_id_order recalculate_history_bytes_def demo_pipeline_state_def demo_entry_def Let_def)
qed

definition demo_pipeline :: "(nat, rat) pipeline" where
  "demo_pipeline = \<lparr>tpl_world = 0, tpl_state = tally (\<lambda>c. c\<lparr>pco_snapshots_published := 1\<rparr>) demo_pipeline_state,
     tpl_tui = pipeline_snapshot 0 demo_pipeline_state, tpl_csv = channel_new 4, tpl_fault = channel_new 4,
     tpl_diagnostics = channel_new 4, tpl_csv_delivery = csv_delivery_default, tpl_shutdown = False, tpl_stopped = False\<rparr>"

lemma demo_spawn: "pipeline_spawn demo_telemetry 0 7 demo_plan demo_telemetry_config = Ok demo_pipeline"
proof -
  have "telemetry_config_validate demo_telemetry_config = Ok demo_telemetry_config"
    by (simp add: telemetry_config_validate_def demo_telemetry_config_def)
  moreover have "tpc_csv_capacity demo_telemetry_config = 4" "tpc_fault_capacity demo_telemetry_config = 4"
    "tpc_diagnostics_capacity demo_telemetry_config = 4" by (simp_all add: demo_telemetry_config_def)
  moreover have "ten_now demo_telemetry w = (w, w)" "ten_point_size demo_telemetry = 64" for w
    by (simp_all add: demo_telemetry_def)
  ultimately show ?thesis
    by (simp add: pipeline_spawn_def and_then_def demo_state_new demo_pipeline_def)
qed

definition demo_result :: poll_execution_result where
  "demo_result = \<lparr>per_plan_version = 1, per_block_index = 1, per_request_id = 5, per_completed_at = 1000,
     per_outcome = PollRead (Ok [42])\<rparr>"

definition demo_sample :: "rat telemetry_sample_core" where
  "demo_sample = \<lparr>tsc_session_id = 7, tsc_parameter_id = ''ramp'', tsc_raw = [42], tsc_engineering = Fixed 42,
     tsc_quality = Good, tsc_monotonic_time = 1000, tsc_utc_time = 0, tsc_request_id = 5\<rparr>"

definition demo_pipeline_read :: "(nat, rat) pipeline" where
  "demo_pipeline_read = process_result demo_telemetry demo_result demo_pipeline"

definition demo_slice :: poll_parameter_slice where
  "demo_slice = \<lparr>pps_parameter_id = ''ramp'', pps_register_offset = 0,
           pps_register_count = 1, pps_subscribers = [''ui''],
           pps_reasons = [ForDashboard], pps_history_required = False,
           pps_maximum_age = from_secs 2\<rparr>"

lemma demo_decode_slice:
 "decode_slice demo_telemetry [42] demo_slice = Ok ([42], Fixed 42)"
proof -
  have "profile_parameter demo_profile ''ramp'' = Some demo_parameter" by (simp add: profile_parameter_def demo_profile_def)
  moreover have "vp_codec demo_parameter = demo_codec" by (simp add: demo_parameter_def)
  ultimately show ?thesis
  by (simp add: demo_slice_def decode_slice_def slice_words_def ok_or_def and_then_def raw_registers_new_def demo_telemetry_def demo_decode)
qed

lemma demo_found: "find_block (tpl_state demo_pipeline) 1 1 = Some (demo_poll_block 1 (demo_draft demo_demand (from_secs 1) 19271))"
  by (simp add: find_block_def demo_pipeline_def demo_pipeline_state_def demo_plan_def demo_poll_block_def)

lemma demo_pipeline_after: "pst_origin (tpl_state demo_pipeline_read) = 0 \<and> pst_values (tpl_state demo_pipeline_read) = [(''ramp'', \<lparr>len_last_good = Some demo_sample,
    len_current_quality = Good, len_last_attempt_at = Some 1000, len_last_error = None, len_expected_period = from_secs 1,
    len_maximum_age = from_secs 2, len_history_required = False\<rparr>), (''state'', demo_entry (from_millis 100) (from_millis 500) True)]"
proof -
  let ?p1 = "demo_pipeline\<lparr>tpl_state := tally (\<lambda>c. c\<lparr>pco_attempts := sat_inc (pco_attempts c)\<rparr>) (tpl_state demo_pipeline)\<rparr>"
  let ?b = "demo_poll_block 1 (demo_draft demo_demand (from_secs 1) 19271)"
  obtain es p2 where 2: "process_outcome demo_telemetry ?b 5 1000 (PollRead (Ok [42])) ?p1 = (es, p2)" by fastforce
  have utc: "ten_utc_now demo_telemetry w = (int w, w)" for w by (simp add: demo_telemetry_def)
  have slices: "pbl_parameters ?b = [demo_slice]"
    by (simp add: demo_poll_block_def demo_draft_def demo_demand_def demo_slice_def)
  have sid: "pps_parameter_id demo_slice = ''ramp''" by (simp add: demo_slice_def)
  have t: "to_monotonic (tpl_state demo_pipeline) 1000 = 1000" "pst_session_id (tpl_state demo_pipeline) = 7"
   "tpl_world demo_pipeline = 0"
    by (simp_all add: to_monotonic_def demo_pipeline_def tally_def demo_pipeline_state_def)
  have origin: "pst_origin (tpl_state demo_pipeline) = 0" by (simp add: demo_pipeline_def demo_pipeline_state_def)
  have v: "pst_values (tpl_state demo_pipeline) = [(''ramp'', demo_entry (from_secs 1) (from_secs 2) False), (''state'', demo_entry (from_millis 100) (from_millis 500) True)]"
    by (simp add: demo_pipeline_def tally_def demo_pipeline_state_def)
  from 2 [unfolded process_outcome_def slices] have "pst_origin (tpl_state p2) = 0 \<and> pst_values (tpl_state p2) = [(''ramp'', \<lparr>len_last_good = Some demo_sample,
    len_current_quality = Good, len_last_attempt_at = Some 1000, len_last_error = None, len_expected_period = from_secs 1,
    len_maximum_age = from_secs 2, len_history_required = False\<rparr>), (''state'', demo_entry (from_millis 100) (from_millis 500) True)]"
    by (auto simp: process_slice_def origin sid demo_decode_slice pipeline_utc_def utc t on_state_def record_good_def Let_def v
       set_entry_def push_if_required_def demo_entry_def demo_sample_def demo_id_order)
  moreover obtain f where "tpl_state demo_pipeline_read = tally f (prune_histories (ten_point_size demo_telemetry)
                          (to_monotonic (tpl_state p2) 1000) (tpl_state p2))"
    using publish_events_state [of demo_telemetry es "p2\<lparr>tpl_state := prune_histories (ten_point_size demo_telemetry)
                          (to_monotonic (tpl_state p2) 1000) (tpl_state p2)\<rparr>"] 2
    by (auto simp: demo_pipeline_read_def process_result_def demo_result_def demo_found Let_def)
  ultimately show ?thesis
    using prune_histories_pruned [of "tpl_state p2", THEN histories_pruned_sels] by simp
qed

lemma demo_pipeline_reached: "pipeline_reachable demo_telemetry demo_pipeline demo_pipeline_read"
  unfolding demo_pipeline_read_def
  by (intro pipeline_more [OF pipeline_begin] result_arrives) (simp_all add: demo_pipeline_def)

lemmas demo_read_origin = demo_pipeline_after [THEN conjunct1]
lemmas demo_read_values = demo_pipeline_after [THEN conjunct2]

text \<open>The value read one microsecond ago may guard a write.\<close>

lemma telemetry_write_guard_is_fresh_witness:
  "\<exists>g. sample_ok demo_telemetry (pst_session_id (tpl_state demo_pipeline_read)) ''ramp'' g \<and> tsc_raw g = [42] \<and>
     min (elapsed_nanos (to_monotonic (tpl_state demo_pipeline_read) 2000) (tsc_monotonic_time g)) (2 ^ 64 - 1) < from_secs 2"
proof -
  let ?s = "tpl_state demo_pipeline_read"
  let ?v = "snapshot_value ?s (to_monotonic ?s 2000) \<lparr>len_last_good = Some demo_sample,
    len_current_quality = Good, len_last_attempt_at = Some 1000, len_last_error = None, len_expected_period = from_secs 1,
    len_maximum_age = from_secs 2, len_history_required = False\<rparr>"
  have v: "latest_values_value (pipeline_snapshot 2000 ?s) ''ramp'' = Some ?v"
    by (simp add: latest_value_entry demo_read_values)
  have "latest_can_satisfy_write_guard ?v"
    by (simp add: latest_can_satisfy_write_guard_def snapshot_value_def can_satisfy_write_guard_def to_monotonic_def
       demo_read_origin demo_sample_def elapsed_nanos_def duration_from_nanos_def)
  from telemetry_write_guard_is_fresh [OF demo_spawn demo_pipeline_reached v this] show ?thesis
    by (auto simp: snapshot_value_def demo_sample_def intro!: exI [of _ demo_sample])
qed

text \<open>Three seconds later the value has turned stale, and an event says so.\<close>

lemma telemetry_staleness_is_timely_witness:
  "\<exists>events s'. refresh_stale 64 (from_secs 3) (tpl_state demo_pipeline_read) = (events, s') \<and> events \<noteq> [] \<and>
     (\<forall>ev \<in> set events. tev_quality ev = Stale) \<and> map_option len_current_quality (bt_get (pst_values s') ''ramp'') = Some Stale"
proof -
  let ?s = "tpl_state demo_pipeline_read"
  have inv: "telemetry_inv demo_telemetry ?s"
    using pipeline_reachable_inv [OF demo_pipeline_reached demo_spawn] by (simp add: pipeline_inv_def)
  have times: "times_representable ?s"
    by (simp add: times_representable_def demo_read_values demo_read_origin demo_entry_def demo_sample_def INSTANT_MAX_def)
  have deadline: "next_stale_deadline ?s = Some 2000001000"
    by (simp add: next_stale_deadline_def List.map_filter_def demo_read_values stale_deadline_def demo_read_origin
       demo_sample_def demo_entry_def duration_from_nanos_def instant_checked_add_def INSTANT_MAX_def)
  obtain es s' where r: "refresh_stale 64 (from_secs 3) ?s = (es, s')" by fastforce
  have "(from_secs 3 :: nat) \<le> INSTANT_MAX" by (simp add: INSTANT_MAX_def)
  note turned = telemetry_staleness_is_timely [OF inv times this r]
  have "map_option len_current_quality (bt_get (pst_values s') ''ramp'') = Some Stale"
    using turned by (simp add: demo_read_values overdue_def demo_entry_def demo_sample_def demo_read_origin)
  with turned deadline r show ?thesis by (intro exI [of _ es] exI [of _ s']) simp
qed

text \<open>Three points arrive in a history that holds two and may take one hundred bytes: the newest stays.\<close>

definition demo_crowded :: "rat pipeline_state" where
  "demo_crowded = push_if_required 64 ''state'' (GapPoint 3 Stale) (push_if_required 64 ''state'' (GapPoint 2 Timeout)
     (push_if_required 64 ''state'' (GapPoint 1 Timeout) demo_pipeline_state))"

lemma telemetry_pruning_keeps_newest_witness:
  "pst_history_bytes (prune_histories 64 4 demo_crowded) \<le> 100 \<and>
   pst_history_bytes (prune_histories 64 4 demo_crowded) = total_bytes 64 (pst_histories (prune_histories 64 4 demo_crowded)) \<and>
   pst_histories (prune_histories 64 4 demo_crowded) = [(''state'', [GapPoint 3 Stale])]"
proof -
  have inv: "telemetry_inv demo_telemetry demo_crowded"
    unfolding demo_crowded_def demo_state_new [symmetric] by (intro push_if_required_inv pipeline_state_new_inv)
  have bytes: "estimated_bytes 64 (GapPoint t q :: rat history_point) = 64" for t q
    by (simp add: estimated_bytes_def usize_add_def USIZE_MAX_def)
  have crowded: "pst_histories demo_crowded = [(''state'', [GapPoint 1 Timeout, GapPoint 2 Timeout, GapPoint 3 Stale])]"
    "pst_history_bytes demo_crowded = 192" "pst_config demo_crowded = demo_telemetry_config"
    by (simp_all add: demo_crowded_def push_if_required_def push_history_def demo_pipeline_state_def demo_entry_def
        bytes usize_add_def USIZE_MAX_def)
  have budget: "tpc_history_memory_budget_bytes demo_telemetry_config = 100" by (simp add: demo_telemetry_config_def)
  have exact: "pst_history_bytes demo_crowded = total_bytes 64 (pst_histories demo_crowded)"
    by (simp add: crowded total_bytes_def channel_bytes_def bytes)
  have "pst_histories (prune_histories 64 4 demo_crowded) = [(''state'', [GapPoint 3 Stale])]"
    by (simp add: prune_histories_def crowded demo_telemetry_config_def bytes prune_memory.simps oldest_channel_def
        pop_front_def front_bytes_def)
  with telemetry_pruning_keeps_newest [OF inv, where n = 64 and now = 4] exact show ?thesis
    by (simp add: crowded budget)
qed

end
