(* ===== verification/Telemetry_Delivery.thy ===== *)
theory Telemetry_Delivery
  imports Telemetry_Pipeline
begin

text \<open>
  What the CSV stream of the telemetry pipeline says about the samples: over every interleaving of
  published samples and reads of the consumer, the stream and the gap still pending account for every
  selected sample, in order, exactly once.
\<close>

datatype 'd csv_op = CsvPublish "'d telemetry_sample_core" | CsvTake nat bool

record 'd csv_run =
  crn_delivery :: csv_delivery_state
  crn_channel :: "'d csv_telemetry_item channel"
  crn_taken :: "'d csv_telemetry_item list"
  crn_dropped :: nat

definition csv_begin :: "parameter_id list \<Rightarrow> nat \<Rightarrow> 'd csv_run" where
  "csv_begin parameters n =
     \<lparr>crn_delivery = snd (csv_start parameters csv_delivery_default), crn_channel = channel_new n,
      crn_taken = [], crn_dropped = 0\<rparr>"

fun csv_turn :: "'d csv_run \<Rightarrow> 'd csv_op \<Rightarrow> 'd csv_run" where
  "csv_turn r (CsvPublish sample) =
     (case csv_publish sample (crn_delivery r) (crn_channel r) of (dropped, d, q) \<Rightarrow>
        r\<lparr>crn_delivery := d, crn_channel := q, crn_dropped := crn_dropped r + unat dropped\<rparr>)"
| "csv_turn r (CsvTake n gone) =
     r\<lparr>crn_channel := channel_drop n gone (crn_channel r),
       crn_taken := crn_taken r @ take n (chn_items (crn_channel r))\<rparr>"

definition csv_stream :: "'d csv_run \<Rightarrow> 'd csv_telemetry_item list" where
  "csv_stream r = crn_taken r @ chn_items (crn_channel r)"

text \<open>What was published for the selected parameters, in order.\<close>

definition csv_selected :: "parameter_id list \<Rightarrow> 'd csv_op list \<Rightarrow> 'd telemetry_sample_core list" where
  "csv_selected parameters ops =
     List.map_filter (\<lambda>op. case op of CsvPublish s \<Rightarrow> if tsc_parameter_id s \<in> set parameters then Some s else None
                       | CsvTake _ _ \<Rightarrow> None) ops"

text \<open>A gap stands for the samples it lost: their first and last times and their number.\<close>

definition dropped_count :: "nat \<Rightarrow> u64" where
  "dropped_count n = of_nat (min n (2 ^ 64 - 1))"

definition gap_covers :: "telemetry_gap_core \<Rightarrow> 'd telemetry_sample_core list \<Rightarrow> bool" where
  "gap_covers g ss \<longleftrightarrow> ss \<noteq> [] \<and>
     g = \<lparr>tgc_session_id = tsc_session_id (hd ss), tgc_start_utc = tsc_utc_time (hd ss),
          tgc_end_utc = tsc_utc_time (last ss), tgc_start_monotonic = tsc_monotonic_time (hd ss),
          tgc_end_monotonic = tsc_monotonic_time (last ss),
          tgc_dropped_count = dropped_count (length ss)\<rparr>"

definition item_covers :: "'d csv_telemetry_item \<Rightarrow> 'd telemetry_sample_core list \<Rightarrow> bool" where
  "item_covers item ss = (case item of CsvSample s \<Rightarrow> ss = [s] | CsvGap g \<Rightarrow> gap_covers g ss)"

definition is_csv_sample :: "'d csv_telemetry_item \<Rightarrow> bool" where
  "is_csv_sample item = (case item of CsvSample _ \<Rightarrow> True | CsvGap _ \<Rightarrow> False)"

definition pending_covers :: "telemetry_gap_core option \<Rightarrow> 'd telemetry_sample_core list \<Rightarrow> bool" where
  "pending_covers pending lost = (case pending of None \<Rightarrow> lost = [] | Some g \<Rightarrow> gap_covers g lost)"

definition csv_accounts :: "'d telemetry_sample_core list \<Rightarrow> 'd csv_run \<Rightarrow> bool" where
  "csv_accounts published r \<longleftrightarrow>
     (\<exists>blocks lost. list_all2 item_covers (csv_stream r) blocks \<and> published = concat blocks @ lost \<and>
        pending_covers (cds_pending_gap (crn_delivery r)) lost) \<and>
     crn_dropped r + length (filter is_csv_sample (csv_stream r)) = length published"

subsection \<open>The two ways a sample can go\<close>

lemma sat_inc_count: "sat_inc (dropped_count n) = dropped_count (Suc n)"
proof -
  have "unat (dropped_count k) = min k (2 ^ 64 - 1)" for k
    by (simp add: dropped_count_def unat_of_nat min_def)
  then have "unat (sat_inc (dropped_count n)) = unat (dropped_count (Suc n))"
    unfolding unat_sat_add by simp
  then show ?thesis by (simp add: word_unat_eq_iff)
qed

lemma dropped_count_one: "dropped_count (Suc 0) = 1"
  by (simp add: dropped_count_def)

lemma gap_covers_one: "gap_covers (gap_from_dropped_sample s) [s]"
  by (simp add: gap_covers_def gap_from_dropped_sample_def dropped_count_one)

lemma gap_covers_extend: "gap_covers g ss \<Longrightarrow> gap_covers (extend_with_dropped_sample g s) (ss @ [s])"
  unfolding gap_covers_def extend_with_dropped_sample_def
  by (simp add: sat_inc_count)

lemma csv_accounts_sent:
  assumes "csv_accounts published r" and "cds_pending_gap (crn_delivery r) = None"
    and "csv_stream r' = csv_stream r @ [CsvSample s]" and "crn_dropped r' = crn_dropped r"
    and "cds_pending_gap (crn_delivery r') = None"
  shows "csv_accounts (published @ [s]) r'"
proof -
  from assms(1,2) obtain blocks where "list_all2 item_covers (csv_stream r) blocks" "published = concat blocks"
    by (auto simp: csv_accounts_def pending_covers_def)
  then have "list_all2 item_covers (csv_stream r') (blocks @ [[s]])" "published @ [s] = concat (blocks @ [[s]]) @ []"
    by (simp_all add: assms(3) item_covers_def list_all2_appendI)
  then have "\<exists>blocks lost. list_all2 item_covers (csv_stream r') blocks \<and> published @ [s] = concat blocks @ lost \<and>
      pending_covers (cds_pending_gap (crn_delivery r')) lost"
    unfolding assms(5) pending_covers_def option.case by blast
  with assms(1,3,4) show ?thesis by (simp add: csv_accounts_def is_csv_sample_def)
qed

lemma csv_accounts_lost:
  assumes "csv_accounts published r" and "csv_stream r' = csv_stream r" and "crn_dropped r' = Suc (crn_dropped r)"
    and "cds_pending_gap (crn_delivery r') = Some (case cds_pending_gap (crn_delivery r) of
        None \<Rightarrow> gap_from_dropped_sample s | Some g \<Rightarrow> extend_with_dropped_sample g s)"
  shows "csv_accounts (published @ [s]) r'"
proof -
  from assms(1) obtain blocks lost where "list_all2 item_covers (csv_stream r) blocks" "published = concat blocks @ lost"
    "pending_covers (cds_pending_gap (crn_delivery r)) lost"
    by (auto simp: csv_accounts_def)
  then have "list_all2 item_covers (csv_stream r') blocks \<and> published @ [s] = concat blocks @ (lost @ [s]) \<and>
      pending_covers (cds_pending_gap (crn_delivery r')) (lost @ [s])"
    by (auto simp: assms(2,4) pending_covers_def gap_covers_one gap_covers_extend split: option.splits)
  then have "\<exists>blocks lost. list_all2 item_covers (csv_stream r') blocks \<and> published @ [s] = concat blocks @ lost \<and>
      pending_covers (cds_pending_gap (crn_delivery r')) lost" by blast
  with assms(1-3) show ?thesis by (simp add: csv_accounts_def)
qed

lemma csv_accounts_gap:
  assumes "csv_accounts published r" and "cds_pending_gap (crn_delivery r) = Some g"
    and "csv_stream r' = csv_stream r @ [CsvGap g]" and "crn_dropped r' = crn_dropped r"
    and "cds_pending_gap (crn_delivery r') = None"
  shows "csv_accounts published r'"
proof -
  from assms(1,2) obtain blocks lost where "list_all2 item_covers (csv_stream r) blocks" "published = concat blocks @ lost"
    "gap_covers g lost"
    by (auto simp: csv_accounts_def pending_covers_def)
  then have "list_all2 item_covers (csv_stream r') (blocks @ [lost])" "published = concat (blocks @ [lost]) @ []"
    by (simp_all add: assms(3) item_covers_def list_all2_appendI)
  then have "\<exists>blocks lost. list_all2 item_covers (csv_stream r') blocks \<and> published = concat blocks @ lost \<and>
      pending_covers (cds_pending_gap (crn_delivery r')) lost"
    unfolding assms(5) pending_covers_def option.case by blast
  with assms(1,3,4) show ?thesis by (simp add: csv_accounts_def is_csv_sample_def)
qed

definition csv_ready :: "parameter_id list \<Rightarrow> 'd csv_run \<Rightarrow> bool" where
  "csv_ready parameters r \<longleftrightarrow>
     cds_enabled (crn_delivery r) \<and> set (cds_parameters (crn_delivery r)) = set parameters"

lemma channel_try_send_cases:
  "channel_try_send x q = (False, q) \<or> channel_try_send x q = (True, q\<lparr>chn_items := chn_items q @ [x]\<rparr>)"
  by (simp add: channel_try_send_def)

lemma csv_send_sample_accounts:
  assumes "csv_accounts published r" and "csv_ready parameters r" and "cds_pending_gap (crn_delivery r) = None"
    and "csv_send_sample s (crn_delivery r) (crn_channel r) = (n, d, q)"
    and "r' = r\<lparr>crn_delivery := d, crn_channel := q, crn_dropped := crn_dropped r + unat n\<rparr>"
  shows "csv_accounts (published @ [s]) r' \<and> csv_ready parameters r'"
proof -
  from channel_try_send_cases [of "CsvSample s" "crn_channel r"] show ?thesis
  proof
    assume "channel_try_send (CsvSample s) (crn_channel r) = (False, crn_channel r)"
    with assms(4) have "n = 1" "q = crn_channel r"
      "d = (crn_delivery r)\<lparr>cds_pending_gap := Some (gap_from_dropped_sample s)\<rparr>"
      by (simp_all add: csv_send_sample_def)
    then show ?thesis
      using assms(2,3) by (auto simp: assms(5) csv_ready_def csv_stream_def intro!: csv_accounts_lost [OF assms(1)])
  next
    assume "channel_try_send (CsvSample s) (crn_channel r) =
      (True, (crn_channel r)\<lparr>chn_items := chn_items (crn_channel r) @ [CsvSample s]\<rparr>)"
    with assms(4) have "n = 0" "q = (crn_channel r)\<lparr>chn_items := chn_items (crn_channel r) @ [CsvSample s]\<rparr>"
      "d = crn_delivery r"
      by (simp_all add: csv_send_sample_def)
    then show ?thesis
      using assms(2,3) by (auto simp: assms(5) csv_ready_def csv_stream_def intro!: csv_accounts_sent [OF assms(1)])
  qed
qed

lemma csv_publish_accounts:
  assumes "csv_accounts published r" and "csv_ready parameters r" and "tsc_parameter_id s \<in> set parameters"
  shows "csv_accounts (published @ [s]) (csv_turn r (CsvPublish s)) \<and> csv_ready parameters (csv_turn r (CsvPublish s))"
proof -
  have on: "cds_enabled (crn_delivery r)" "tsc_parameter_id s \<in> set (cds_parameters (crn_delivery r))"
    using assms(2,3) by (simp_all add: csv_ready_def)
  show ?thesis
  proof (cases "cds_pending_gap (crn_delivery r)")
    case None
    obtain n d q where 1: "csv_send_sample s (crn_delivery r) (crn_channel r) = (n, d, q)" by (metis prod_cases3)
    show ?thesis
      by (rule csv_send_sample_accounts [OF assms(1,2) None 1]) (simp add: csv_publish_def on None 1)
  next
    case (Some g)
    from channel_try_send_cases [of "CsvGap g" "crn_channel r"] show ?thesis
    proof
      assume "channel_try_send (CsvGap g) (crn_channel r) = (False, crn_channel r)"
      then have "csv_turn r (CsvPublish s) =
          r\<lparr>crn_delivery := (crn_delivery r)\<lparr>cds_pending_gap := Some (extend_with_dropped_sample g s)\<rparr>,
            crn_channel := crn_channel r, crn_dropped := crn_dropped r + 1\<rparr>"
        using on Some by (simp add: csv_publish_def)
      then show ?thesis
        using assms(2) Some by (auto simp: csv_ready_def csv_stream_def intro!: csv_accounts_lost [OF assms(1)])
    next
      let ?q = "(crn_channel r)\<lparr>chn_items := chn_items (crn_channel r) @ [CsvGap g]\<rparr>"
      let ?r = "r\<lparr>crn_delivery := (crn_delivery r)\<lparr>cds_pending_gap := None\<rparr>, crn_channel := ?q\<rparr>"
      assume "channel_try_send (CsvGap g) (crn_channel r) = (True, ?q)"
      moreover obtain n d q where 1: "csv_send_sample s (crn_delivery ?r) (crn_channel ?r) = (n, d, q)"
        by (metis prod_cases3)
      ultimately have turn: "csv_turn r (CsvPublish s) =
          ?r\<lparr>crn_delivery := d, crn_channel := q, crn_dropped := crn_dropped ?r + unat n\<rparr>"
        using on Some by (simp add: csv_publish_def)
      have "csv_accounts published ?r"
        by (rule csv_accounts_gap [OF assms(1) Some]) (simp_all add: csv_stream_def)
      moreover have "csv_ready parameters ?r" using assms(2) by (simp add: csv_ready_def)
      ultimately show ?thesis by (rule csv_send_sample_accounts [OF _ _ _ 1 turn]) simp
    qed
  qed
qed

lemma csv_turn_accounts:
  assumes "csv_accounts (csv_selected parameters ops) r" and "csv_ready parameters r"
  shows "csv_accounts (csv_selected parameters (ops @ [op])) (csv_turn r op) \<and> csv_ready parameters (csv_turn r op)"
proof (cases op)
  case (CsvPublish s)
  show ?thesis
  proof (cases "tsc_parameter_id s \<in> set parameters")
    case True
    with csv_publish_accounts [OF assms True] show ?thesis
      by (simp add: CsvPublish csv_selected_def List.map_filter_def)
  next
    case False
    then have "csv_turn r op = r" using assms(2) by (simp add: CsvPublish csv_publish_def csv_ready_def)
    with False assms show ?thesis by (simp add: CsvPublish csv_selected_def List.map_filter_def)
  qed
next
  case (CsvTake n gone)
  have "csv_stream (csv_turn r op) = csv_stream r" by (simp add: CsvTake csv_stream_def channel_drop_def)
  with assms show ?thesis
    by (simp add: CsvTake csv_selected_def List.map_filter_def csv_accounts_def csv_ready_def)
qed

text \<open>
  C35. The CSV stream is a faithful account of the samples. However the publication of samples and the
  reads of the consumer interleave, and whether or not the consumer goes away, the stream (what was taken
  and what is still queued) followed by the pending gap is the sequence of all samples of the selected
  parameters, in order, each once: as itself, or inside one gap, which carries the session, the first and
  last times and the number of the consecutive samples it stands for, and comes before the sample that
  recovered. The drops reported are exactly the samples that are not in the stream themselves.
\<close>
theorem csv_stream_accounts_for_every_sample:
  "csv_accounts (csv_selected parameters ops) (foldl csv_turn (csv_begin parameters n) ops)"
proof -
  have "csv_accounts (csv_selected parameters ops) (foldl csv_turn (csv_begin parameters n) ops) \<and>
      csv_ready parameters (foldl csv_turn (csv_begin parameters n) ops)"
  proof (induction ops rule: rev_induct)
    case Nil
    show ?case
      by (simp add: csv_accounts_def csv_selected_def List.map_filter_def csv_begin_def csv_start_def csv_ready_def
          csv_delivery_default_def csv_stream_def channel_new_def pending_covers_def)
  next
    case (snoc op ops)
    with csv_turn_accounts [of parameters ops _ op] show ?case by simp
  qed
  then show ?thesis by blast
qed

end
