(* ===== verification/Profile_Document.thy ===== *)
theory Profile_Document
  imports Profile Texts
begin

text \<open>
  The profile document of \<open>lantern-profile/src/document.rs\<close>, as the deserializer hands it
  over with its defaults filled in, the errors and limits of \<open>error.rs\<close>, and the conversions
  of \<open>validate/helpers\<close>. An error of validation carries the path of the field, spelled as in the
  code, and its reason as a constructor: the wording of the reasons is not modelled.
\<close>

subsection \<open>Enumerations of the document\<close>

datatype (plugins only: code size) address_notation = PduZeroBased | ProtocolOneBased | Modicon5Digit | Modicon6Digit
datatype (plugins only: code size) modbus_table_document = DocInputRegisters | DocHoldingRegisters
datatype (plugins only: code size) parity_document = DocNone | DocEven | DocOdd
datatype (plugins only: code size) rs485_mode_document = DocAdapterManaged | DocLinuxIoctl

datatype (plugins only: code size) register_encoding_document =
    DocUnsigned16 | DocSigned16 | DocUnsigned32 | DocSigned32 | DocUnsigned64 | DocSigned64
  | DocFloat32 | DocFloat64 | DocBcd16 | DocBcd32 | DocEnum16 | DocEnum32
  | DocBitfield16 | DocBitfield32 | DocBitfield64

datatype (plugins only: code size) byte_order_document = DocBigEndian | DocLittleEndian
datatype (plugins only: code size) word_order_document = DocMostSignificantFirst | DocLeastSignificantFirst

datatype (plugins only: code size) parameter_access_document =
    DocReadOnly | DocWritableWhenStopped | DocCommissioning | DocDangerous

datatype (plugins only: code size) restore_policy_document = DocNormal | DocLinkCritical | DocRestartRequired | DocManualOnly
datatype (plugins only: code size) required_drive_state_document = DocAny | DocStopped | DocFaulted
datatype (plugins only: code size) write_function_document = DocWriteSingleRegister | DocWriteMultipleRegisters

datatype (plugins only: code size) rounding_mode_document =
    DocMidpointNearestEven | DocMidpointAwayFromZero | DocTowardZero | DocAwayFromZero
  | DocTowardPositiveInfinity | DocTowardNegativeInfinity

datatype (plugins only: code size) fault_source_kind_document = DocScalarCode | DocBitSet
datatype (plugins only: code size) fault_severity_document = DocInfo | DocWarning | DocFault | DocCritical

subsection \<open>Records of the document\<close>

record hardware_verification_document =
  hvd_firmware :: "string list"
  hvd_method :: string
  hvd_qualification_report_id :: "string option"

record protocol_document =
  prd_default_baud_rate :: u32
  prd_allowed_baud_rates :: "u32 list"
  prd_default_parity :: parity_document
  prd_allowed_parities :: "parity_document list"
  prd_default_data_bits :: u8
  prd_allowed_data_bits :: "u8 list"
  prd_default_stop_bits :: u8
  prd_allowed_stop_bits :: "u8 list"
  prd_response_timeout_ms :: u64
  prd_minimum_inter_frame_delay_us :: u64
  prd_default_slave_id :: u8
  prd_rs485_mode :: rs485_mode_document

record address_document =
  add_notation :: address_notation
  add_value :: u32

record probe_document =
  pbd_id :: string
  pbd_description :: string
  pbd_table :: modbus_table_document
  pbd_address :: address_document
  pbd_count :: u16
  pbd_expected_raw :: "u16 list list"

record fixed_scale_document =
  fsd_multiplier :: string
  fsd_divisor :: string
  fsd_offset :: string
  fsd_decimal_places :: u32
  fsd_rounding :: rounding_mode_document

datatype (plugins only: code size) read_back_document =
    DocExactRaw
  | DocAcceptedRawSet "u16 list list" string string
  | DocFloatExactBits
  | DocFloatAbsRelTolerance string string

record parameter_document =
  pad_id :: string
  pad_code :: string
  pad_name :: string
  pad_description :: string
  pad_table :: modbus_table_document
  pad_address :: address_document
  pad_encoding :: register_encoding_document
  pad_byte_order :: byte_order_document
  pad_word_order :: word_order_document
  pad_scale :: "fixed_scale_document option"
  pad_minimum :: "string option"
  pad_maximum :: "string option"
  pad_step :: "string option"
  pad_forbidden_raw :: "u16 list list"
  pad_enum_values :: "(string, string) btree_map"
  pad_bit_flags :: "(string, string) btree_map"
  pad_quantity :: string
  pad_unit :: string
  pad_access :: parameter_access_document
  pad_restore_policy :: restore_policy_document
  pad_required_drive_state :: required_drive_state_document
  pad_write_function :: "write_function_document option"
  pad_read_back :: "read_back_document option"
  pad_backup :: bool
  pad_do_not_bridge :: bool
  pad_maximum_bridge_gap :: u16

record parameter_group_document =
  pgd_id :: string
  pgd_name :: string
  pgd_parameters :: "string list"

record drive_state_source_document =
  dsd_parameter_id :: string
  dsd_stopped_raw :: "u16 list list"
  dsd_running_raw :: "u16 list list"
  dsd_faulted_raw :: "u16 list list"

record fault_source_document =
  fosd_kind :: fault_source_kind_document
  fosd_parameter_id :: string
  fosd_no_fault :: u64

record fault_definition_document =
  fdd_code :: string
  fdd_name :: string
  fdd_description :: string
  fdd_severity :: fault_severity_document
  fdd_freeze_frame :: "string list"

record telemetry_preset_document =
  tpd_id :: string
  tpd_name :: string
  tpd_parameters :: "string list"

record profile_document =
  pd_schema_version :: u32
  pd_profile_id :: string
  pd_revision :: u32
  pd_vendor :: string
  pd_family :: string
  pd_model :: string
  pd_sources :: "string list"
  pd_safety_notes :: "string list"
  pd_hardware_verification :: "hardware_verification_document option"
  pd_protocol :: protocol_document
  pd_probes :: "probe_document list"
  pd_parameters :: "parameter_document list"
  pd_aliases :: "(string, string) btree_map"
  pd_groups :: "parameter_group_document list"
  pd_drive_state_source :: "drive_state_source_document option"
  pd_fault_source :: "fault_source_document option"
  pd_faults :: "(string, fault_definition_document) btree_map"
  pd_telemetry_presets :: "telemetry_preset_document list"
  pd_restore_order :: "string list"

subsection \<open>Errors and limits\<close>

definition MAX_PROFILE_BYTES :: nat where "MAX_PROFILE_BYTES = 4 * 1024 * 1024"
definition MAX_PARAMETERS :: nat where "MAX_PARAMETERS = 20000"
definition MAX_FAULTS :: nat where "MAX_FAULTS = 4096"
definition MAX_PRESETS :: nat where "MAX_PRESETS = 256"
definition MAX_TEXT_BYTES :: nat where "MAX_TEXT_BYTES = 16 * 1024"

datatype profile_format = JsonFormat | TomlFormat

datatype (plugins only: code size) profile_reason =
    TextEmpty | TextTooLong | ControlCharacter nat
  | BadId id_error | BadRange register_range_error | BadLink link_settings_error | BadRaw raw_registers_error
  | BadUnit unit_error | BadScale scale_error | BadCodec codec_error | BadDecimal | NegativeDecimal
  | BadInteger | ZeroRevision | ZeroTimeout | BadDataBits | BadStopBits
  | TooMany nat nat | DuplicateEntry | UnknownParameter | RegisterOverlap parameter_id parameter_id
  | BadAddress address_notation | UnknownQuantity
  | EnumValuesMisplaced | EnumValueRange | BitFlagsMisplaced | BitIndexRange
  | LimitsMisplaced | MinimumAboveMaximum | StepNotPositive
  | InputRegisterWrite | ReadOnlyWrite | WriteFunctionMissing
  | FloatReadBackRequired | FloatReadBackMisplaced | AcceptedSetEmpty | RawWidth nat nat
  | ExpectedRawCount | DriveStateSourceMissing | StoppedRawMissing | ReadOnlyRestore
  | FaultSourceFloat | NoFaultTooWide | ScalarCodeBitfield | BitSetEncoding | BitSetNoFault
  | FaultSourceMissing | FaultTooWide | FaultIsNoFault | FaultNotSingleBit

datatype (plugins only: code size) profile_error =
    SourceTooLarge nat nat
  | InvalidUtf8
  | Deserialize profile_format string string
  | UnsupportedSchema u32
  | ProfileInvalid string profile_reason
  | Canonical string

subsection \<open>Conversions\<close>

fun table_of :: "modbus_table_document \<Rightarrow> modbus_table" where
  "table_of DocInputRegisters = InputRegisters"
| "table_of DocHoldingRegisters = HoldingRegisters"

fun parity_of :: "parity_document \<Rightarrow> parity" where
  "parity_of DocNone = NoParity" | "parity_of DocEven = EvenParity" | "parity_of DocOdd = OddParity"

fun parity_rank :: "parity_document \<Rightarrow> u8" where
  "parity_rank DocNone = 0" | "parity_rank DocEven = 1" | "parity_rank DocOdd = 2"

definition data_bits_of :: "u8 \<Rightarrow> string \<Rightarrow> profile_error + data_bits" where
  "data_bits_of v p =
     (if v = 7 then Ok Seven else if v = 8 then Ok Eight else Err (ProfileInvalid p BadDataBits))"

definition stop_bits_of :: "u8 \<Rightarrow> string \<Rightarrow> profile_error + stop_bits" where
  "stop_bits_of v p =
     (if v = 1 then Ok One else if v = 2 then Ok Two else Err (ProfileInvalid p BadStopBits))"

fun encoding_of :: "register_encoding_document \<Rightarrow> register_encoding" where
  "encoding_of DocUnsigned16 = Unsigned16" | "encoding_of DocSigned16 = Signed16"
| "encoding_of DocUnsigned32 = Unsigned32" | "encoding_of DocSigned32 = Signed32"
| "encoding_of DocUnsigned64 = Unsigned64" | "encoding_of DocSigned64 = Signed64"
| "encoding_of DocFloat32 = Float32" | "encoding_of DocFloat64 = Float64"
| "encoding_of DocBcd16 = Bcd16" | "encoding_of DocBcd32 = Bcd32"
| "encoding_of DocEnum16 = Enum16" | "encoding_of DocEnum32 = Enum32"
| "encoding_of DocBitfield16 = Bitfield16" | "encoding_of DocBitfield32 = Bitfield32"
| "encoding_of DocBitfield64 = Bitfield64"

fun byte_order_of :: "byte_order_document \<Rightarrow> byte_order" where
  "byte_order_of DocBigEndian = BigEndian" | "byte_order_of DocLittleEndian = LittleEndian"

fun word_order_of :: "word_order_document \<Rightarrow> word_order" where
  "word_order_of DocMostSignificantFirst = MostSignificantFirst"
| "word_order_of DocLeastSignificantFirst = LeastSignificantFirst"

fun access_of :: "parameter_access_document \<Rightarrow> parameter_access" where
  "access_of DocReadOnly = ReadOnly" | "access_of DocWritableWhenStopped = WritableWhenStopped"
| "access_of DocCommissioning = Commissioning" | "access_of DocDangerous = Dangerous"

fun restore_policy_of :: "restore_policy_document \<Rightarrow> restore_policy" where
  "restore_policy_of DocNormal = Normal" | "restore_policy_of DocLinkCritical = LinkCritical"
| "restore_policy_of DocRestartRequired = RestartRequired" | "restore_policy_of DocManualOnly = ManualOnly"

fun required_drive_state_of :: "required_drive_state_document \<Rightarrow> required_drive_state" where
  "required_drive_state_of DocAny = AnyState" | "required_drive_state_of DocStopped = RequireStopped"
| "required_drive_state_of DocFaulted = RequireFaulted"

fun write_function_of :: "write_function_document \<Rightarrow> modbus_function" where
  "write_function_of DocWriteSingleRegister = WriteSingleRegister"
| "write_function_of DocWriteMultipleRegisters = WriteMultipleRegisters"

fun rounding_of :: "rounding_mode_document \<Rightarrow> rounding_mode" where
  "rounding_of DocMidpointNearestEven = MidpointNearestEven"
| "rounding_of DocMidpointAwayFromZero = MidpointAwayFromZero"
| "rounding_of DocTowardZero = TowardZero" | "rounding_of DocAwayFromZero = AwayFromZero"
| "rounding_of DocTowardPositiveInfinity = TowardPositiveInfinity"
| "rounding_of DocTowardNegativeInfinity = TowardNegativeInfinity"

fun fault_severity_of :: "fault_severity_document \<Rightarrow> fault_severity" where
  "fault_severity_of DocInfo = SevInfo" | "fault_severity_of DocWarning = SevWarning"
| "fault_severity_of DocFault = SevFault" | "fault_severity_of DocCritical = SevCritical"

definition standard_quantities :: "(string \<times> quantity_kind) list" where
  "standard_quantities =
     [(''frequency'', Frequency), (''rotational_speed'', RotationalSpeed), (''current'', Current),
      (''voltage'', Voltage), (''power'', Power), (''energy'', Energy), (''torque'', Torque),
      (''temperature'', Temperature), (''time'', Time), (''ratio'', Ratio), (''pressure'', Pressure),
      (''flow'', Flow), (''count'', Count), (''digital_state'', DigitalState), (''unitless'', Unitless)]"

text \<open>\<open>trim_start_matches\<close> takes every repetition of the prefix away.\<close>

function trim_custom :: "string \<Rightarrow> string" where
  "trim_custom s = (if take 7 s = ''custom:'' then trim_custom (drop 7 s) else s)"
  by pat_completeness auto
termination
proof (relation "measure length")
  fix s :: string
  assume "take 7 s = ''custom:''"
  then have "length (take 7 s) = 7" by simp
  then show "(drop 7 s, s) \<in> measure length" by auto
qed simp

declare trim_custom.simps [simp del]

definition quantity_of :: "string \<Rightarrow> string \<Rightarrow> profile_error + quantity_kind" where
  "quantity_of value p =
     (case map_of standard_quantities value of
        Some q \<Rightarrow> Ok q
      | None \<Rightarrow>
          if take 7 value = ''custom:''
          then map_err (\<lambda>e. ProfileInvalid p (BadId e)) (and_then (parse_id (trim_custom value)) (\<lambda>q. Ok (Custom q)))
          else Err (ProfileInvalid p UnknownQuantity))"

subsection \<open>Texts and numbers\<close>

text \<open>
  \<open>char::is_control\<close> on UTF-8: the bytes below 32, the byte 127, and the two-byte characters
  from U+0080 to U+009F.
\<close>

fun first_control :: "nat \<Rightarrow> nat list \<Rightarrow> nat option" where
  "first_control i [] = None"
| "first_control i (b # bs) =
     (if b < 32 \<and> b \<noteq> 10 \<and> b \<noteq> 9 \<or> b = 127 \<or>
         b = 0xC2 \<and> (case bs of [] \<Rightarrow> False | c # _ \<Rightarrow> 0x80 \<le> c \<and> c < 0xA0)
      then Some i else first_control (Suc i) bs)"

definition validate_text :: "string \<Rightarrow> string \<Rightarrow> bool \<Rightarrow> profile_error + unit" where
  "validate_text p value allow_empty =
     (if \<not> allow_empty \<and> value = [] then Err (ProfileInvalid p TextEmpty)
      else if length value > MAX_TEXT_BYTES then Err (ProfileInvalid p TextTooLong)
      else case first_control 0 (map of_char value) of
          Some i \<Rightarrow> Err (ProfileInvalid p (ControlCharacter i))
        | None \<Rightarrow> Ok ())"

text \<open>
  The decimal integers of \<open>str::parse\<close>: an optional sign (a minus sign for signed types only)
  and at least one digit; leading zeros are accepted.
\<close>

fun digits_value :: "nat \<Rightarrow> nat list \<Rightarrow> nat option" where
  "digits_value n [] = Some n"
| "digits_value n (b # bs) =
     (if 48 \<le> b \<and> b \<le> 57 then digits_value (10 * n + (b - 48)) bs else None)"

definition parse_digits :: "nat list \<Rightarrow> nat option" where
  "parse_digits bs = (if bs = [] then None else digits_value 0 bs)"

definition parse_unsigned :: "nat \<Rightarrow> string \<Rightarrow> nat option" where
  "parse_unsigned maximum s =
     (let bs = map of_char s;
          ds = (case bs of [] \<Rightarrow> bs | b # cs \<Rightarrow> if b = 43 then cs else bs)
      in Option.bind (parse_digits ds) (\<lambda>n. if n \<le> maximum then Some n else None))"

definition parse_i64 :: "string \<Rightarrow> int option" where
  "parse_i64 s =
     (let bs = map of_char s;
          (negative, ds) =
            (case bs of [] \<Rightarrow> (False, bs)
             | b # cs \<Rightarrow> if b = 43 then (False, cs) else if b = (45 :: nat) then (True, cs) else (False, bs))
      in Option.bind (parse_digits ds) (\<lambda>n.
           let i = (if negative then - int n else int n)
           in if - (2 ^ 63) \<le> i \<and> i < 2 ^ 63 then Some i else None))"

end
