(* ===== verification/Profile_Validation.thy ===== *)
theory Profile_Validation
  imports Profile_Document
begin

text \<open>
  The validation of a profile document (\<open>lantern-profile/src/validate\<close>): every check in the
  order of the code, the normalization of the document on the way, and the validated profile at its
  end. The decimal parser, the canonical serializer, the deserializers and SHA-256 are third-party
  code: they are the fields of \<open>profile_env\<close>. A result is \<open>None\<close> where the code panics.
\<close>

record 'd profile_env =
  pfe_decimal :: "'d decimal_ops"
  pfe_from_str :: "string \<Rightarrow> 'd option"
  pfe_sign_negative :: "'d \<Rightarrow> bool"
  pfe_deserialize :: "profile_format \<Rightarrow> u8 list \<Rightarrow> profile_error + profile_document"
  pfe_canonical :: "profile_document \<Rightarrow> string + u8 list"
  pfe_sha256 :: "u8 list \<Rightarrow> hash_bytes"

subsection \<open>Loops that stop at the first error\<close>

definition reject :: "bool \<Rightarrow> string \<Rightarrow> profile_reason \<Rightarrow> profile_error + unit" where
  "reject c p r = (if c then Err (ProfileInvalid p r) else Ok ())"

fun try_map :: "(nat \<Rightarrow> 'a \<Rightarrow> 'e + 'b) \<Rightarrow> nat \<Rightarrow> 'a list \<Rightarrow> 'e + 'b list" where
  "try_map f i [] = Ok []"
| "try_map f i (x # xs) =
     and_then (f i x) (\<lambda>y. and_then (try_map f (Suc i) xs) (\<lambda>ys. Ok (y # ys)))"

text \<open>With a state that the elements share, such as the set of the identifiers seen so far.\<close>

fun try_walk ::
  "('s \<Rightarrow> nat \<Rightarrow> 'a \<Rightarrow> 'e + 'b \<times> 's) \<Rightarrow> 's \<Rightarrow> nat \<Rightarrow> 'a list \<Rightarrow> 'e + 'b list \<times> 's" where
  "try_walk f s i [] = Ok ([], s)"
| "try_walk f s i (x # xs) =
     and_then (f s i x) (\<lambda>(y, s1). and_then (try_walk f s1 (Suc i) xs) (\<lambda>(ys, s2). Ok (y # ys, s2)))"

definition at_index :: "string \<Rightarrow> nat \<Rightarrow> string" where
  "at_index p i = p @ ''['' @ nat_text i @ '']''"

definition parse_at :: "string \<Rightarrow> string \<Rightarrow> profile_error + text_id" where
  "parse_at p s = map_err (\<lambda>e. ProfileInvalid p (BadId e)) (parse_id s)"

definition raw_at :: "string \<Rightarrow> u16 list \<Rightarrow> profile_error + raw_registers" where
  "raw_at p ws = map_err (\<lambda>e. ProfileInvalid p (BadRaw e)) (raw_registers_new ws)"

subsection \<open>Addresses\<close>

definition normalize_address :: "modbus_table \<Rightarrow> address_document \<Rightarrow> string \<Rightarrow> profile_error + register_address" where
  "normalize_address table d p =
     (let v = unat (add_value d);
          from = (\<lambda>lo hi. if lo \<le> v \<and> v \<le> hi then Ok (of_nat (v - lo) :: u16)
                     else Err (ProfileInvalid p (BadAddress (add_notation d))))
      in case add_notation d of
           PduZeroBased \<Rightarrow> from 0 65535
         | ProtocolOneBased \<Rightarrow> from 1 65536
         | Modicon5Digit \<Rightarrow> (case table of InputRegisters \<Rightarrow> from 30001 39999 | HoldingRegisters \<Rightarrow> from 40001 49999)
         | Modicon6Digit \<Rightarrow> (case table of InputRegisters \<Rightarrow> from 300001 365536 | HoldingRegisters \<Rightarrow> from 400001 465536))"

definition notation_text :: "address_notation \<Rightarrow> string" where
  "notation_text n =
     (case n of PduZeroBased \<Rightarrow> ''pdu_zero_based'' | ProtocolOneBased \<Rightarrow> ''protocol_one_based''
      | Modicon5Digit \<Rightarrow> ''modicon_5_digit'' | Modicon6Digit \<Rightarrow> ''modicon_6_digit'')"

definition pdu_address :: "register_address \<Rightarrow> address_document" where
  "pdu_address a = \<lparr>add_notation = PduZeroBased, add_value = ucast a\<rparr>"

definition table_read_function :: "modbus_table \<Rightarrow> modbus_function" where
  "table_read_function table =
     (case table of InputRegisters \<Rightarrow> ReadInputRegisters | HoldingRegisters \<Rightarrow> ReadHoldingRegisters)"

subsection \<open>Decimals\<close>

definition parse_decimal :: "'d profile_env \<Rightarrow> string \<Rightarrow> string \<Rightarrow> profile_error + 'd" where
  "parse_decimal E value p = ok_or (ProfileInvalid p BadDecimal) (pfe_from_str E value)"

definition parse_non_negative_decimal :: "'d profile_env \<Rightarrow> string \<Rightarrow> string \<Rightarrow> profile_error + 'd" where
  "parse_non_negative_decimal E value p =
     and_then (parse_decimal E value p) (\<lambda>v.
     and_then (reject (pfe_sign_negative E v) p NegativeDecimal) (\<lambda>_. Ok v))"

definition canonical_decimal :: "'d profile_env \<Rightarrow> 'd \<Rightarrow> string" where
  "canonical_decimal E v =
     (if dec_is_zero (pfe_decimal E) v then ''0'' else dec_normalized_text (pfe_decimal E) v)"

definition parse_optional_decimal ::
  "'d profile_env \<Rightarrow> string option \<Rightarrow> string \<Rightarrow> profile_error + 'd option" where
  "parse_optional_decimal E value p =
     (case value of None \<Rightarrow> Ok None | Some text \<Rightarrow> and_then (parse_decimal E text p) (\<lambda>v. Ok (Some v)))"

definition validate_scale ::
  "'d profile_env \<Rightarrow> fixed_scale_document \<Rightarrow> string \<Rightarrow> profile_error + 'd fixed_scale \<times> fixed_scale_document" where
  "validate_scale E d p =
     and_then (parse_decimal E (fsd_multiplier d) (p @ ''.multiplier'')) (\<lambda>multiplier.
     and_then (parse_decimal E (fsd_divisor d) (p @ ''.divisor'')) (\<lambda>divisor.
     and_then (parse_decimal E (fsd_offset d) (p @ ''.offset'')) (\<lambda>offset.
     and_then (map_err (\<lambda>e. ProfileInvalid p (BadScale e))
        (fixed_scale_new (pfe_decimal E) multiplier divisor offset (unat (fsd_decimal_places d))
          (rounding_of (fsd_rounding d)))) (\<lambda>scale.
     Ok (scale, d\<lparr>fsd_multiplier := canonical_decimal E multiplier,
                   fsd_divisor := canonical_decimal E divisor,
                   fsd_offset := canonical_decimal E offset\<rparr>)))))"

definition is_fixed_encoding :: "register_encoding \<Rightarrow> bool" where
  "is_fixed_encoding e \<longleftrightarrow>
     e \<notin> {Float32, Float64, Enum16, Enum32, Bitfield16, Bitfield32, Bitfield64}"

definition is_float_encoding :: "register_encoding \<Rightarrow> bool" where
  "is_float_encoding e \<longleftrightarrow> e \<in> {Float32, Float64}"

definition is_bitfield_encoding :: "register_encoding \<Rightarrow> bool" where
  "is_bitfield_encoding e \<longleftrightarrow> e \<in> {Bitfield16, Bitfield32, Bitfield64}"

definition validate_engineering_constraints ::
  "'d profile_env \<Rightarrow> parameter_document \<Rightarrow> register_encoding \<Rightarrow> string
     \<Rightarrow> profile_error + 'd option \<times> 'd option \<times> 'd option" where
  "validate_engineering_constraints E d encoding base =
     and_then (reject (\<not> is_fixed_encoding encoding \<and>
         (pad_minimum d \<noteq> None \<or> pad_maximum d \<noteq> None \<or> pad_step d \<noteq> None))
       (base @ ''.minimum'') LimitsMisplaced) (\<lambda>_.
     and_then (parse_optional_decimal E (pad_minimum d) (base @ ''.minimum'')) (\<lambda>minimum.
     and_then (parse_optional_decimal E (pad_maximum d) (base @ ''.maximum'')) (\<lambda>maximum.
     and_then (parse_optional_decimal E (pad_step d) (base @ ''.step'')) (\<lambda>step.
     and_then (reject (case (minimum, maximum) of
           (Some lo, Some hi) \<Rightarrow> dec_less (pfe_decimal E) hi lo | _ \<Rightarrow> False)
         (base @ ''.minimum'') MinimumAboveMaximum) (\<lambda>_.
     and_then (reject (case step of
           Some v \<Rightarrow> \<not> dec_less (pfe_decimal E) (dec_zero (pfe_decimal E)) v | None \<Rightarrow> False)
         (base @ ''.step'') StepNotPositive) (\<lambda>_.
     Ok (minimum, maximum, step)))))))"

subsection \<open>Raw values, labels and read-back\<close>

definition validate_raw_value ::
  "'d profile_env \<Rightarrow> 'd register_codec \<Rightarrow> nat \<Rightarrow> string \<Rightarrow> u16 list set \<Rightarrow> nat \<Rightarrow> u16 list
     \<Rightarrow> profile_error + raw_registers \<times> u16 list set" where
  "validate_raw_value E codec width p seen i raw =
     and_then (reject (length raw \<noteq> width) (at_index p i) (RawWidth width (length raw))) (\<lambda>_.
     and_then (reject (raw \<in> seen) (at_index p i) DuplicateEntry) (\<lambda>_.
     and_then (map_err (\<lambda>e. ProfileInvalid (at_index p i) (BadCodec e)) (decode (pfe_decimal E) codec raw)) (\<lambda>_.
     and_then (raw_at (at_index p i) raw) (\<lambda>registers.
     Ok (registers, insert raw seen)))))"

definition validate_raw_values ::
  "'d profile_env \<Rightarrow> u16 list list \<Rightarrow> 'd register_codec \<Rightarrow> nat \<Rightarrow> string \<Rightarrow> nat
     \<Rightarrow> profile_error + raw_registers list" where
  "validate_raw_values E values codec width p maximum =
     and_then (reject (length values > maximum) p (TooMany (length values) maximum)) (\<lambda>_.
     and_then (try_walk (validate_raw_value E codec width p) {} 0 values) (\<lambda>(raws, _). Ok raws))"

definition enum_maximum :: "register_encoding \<Rightarrow> int option" where
  "enum_maximum e = (case e of Enum16 \<Rightarrow> Some (2 ^ 16 - 1) | Enum32 \<Rightarrow> Some (2 ^ 32 - 1) | _ \<Rightarrow> None)"

definition bit_width :: "register_encoding \<Rightarrow> nat option" where
  "bit_width e = (case e of Bitfield16 \<Rightarrow> Some 16 | Bitfield32 \<Rightarrow> Some 32 | Bitfield64 \<Rightarrow> Some 64 | _ \<Rightarrow> None)"

definition validate_enum_value :: "int \<Rightarrow> string \<Rightarrow> string \<times> string \<Rightarrow> profile_error + int \<times> string" where
  "validate_enum_value maximum base entry =
     (case entry of (raw_text, label) \<Rightarrow>
       let p = base @ ''.enum_values.'' @ raw_text in
       and_then (validate_text p label False) (\<lambda>_.
       and_then (ok_or (ProfileInvalid p BadInteger) (parse_i64 raw_text)) (\<lambda>raw.
       and_then (reject (raw < 0 \<or> raw > maximum) p EnumValueRange) (\<lambda>_. Ok (raw, label)))))"

definition validate_bit_flag :: "nat \<Rightarrow> string \<Rightarrow> string \<times> string \<Rightarrow> profile_error + u8 \<times> string" where
  "validate_bit_flag width base entry =
     (case entry of (bit_text, label) \<Rightarrow>
       let p = base @ ''.bit_flags.'' @ bit_text in
       and_then (validate_text p label False) (\<lambda>_.
       and_then (ok_or (ProfileInvalid p BadInteger) (parse_unsigned 255 bit_text)) (\<lambda>b.
       and_then (reject (b \<ge> width) p BitIndexRange) (\<lambda>_. Ok (of_nat b, label)))))"

definition insert_all :: "('k::linorder \<times> 'v) list \<Rightarrow> ('k, 'v) btree_map" where
  "insert_all es = foldl (\<lambda>m (k, v). bt_insert k v m) [] es"

definition validate_editor_metadata ::
  "parameter_document \<Rightarrow> register_encoding \<Rightarrow> string
     \<Rightarrow> profile_error + (int, string) btree_map \<times> (u8, string) btree_map" where
  "validate_editor_metadata d encoding base =
     and_then (reject (enum_maximum encoding = None \<and> pad_enum_values d \<noteq> [])
       (base @ ''.enum_values'') EnumValuesMisplaced) (\<lambda>_.
     and_then (case enum_maximum encoding of None \<Rightarrow> Ok []
       | Some maximum \<Rightarrow> try_map (\<lambda>_. validate_enum_value maximum base) 0 (pad_enum_values d)) (\<lambda>enums.
     and_then (reject (bit_width encoding = None \<and> pad_bit_flags d \<noteq> [])
       (base @ ''.bit_flags'') BitFlagsMisplaced) (\<lambda>_.
     and_then (case bit_width encoding of None \<Rightarrow> Ok []
       | Some width \<Rightarrow> try_map (\<lambda>_. validate_bit_flag width base) 0 (pad_bit_flags d)) (\<lambda>flags.
     Ok (insert_all enums, insert_all flags)))))"

definition validate_read_back ::
  "'d profile_env \<Rightarrow> parameter_document \<Rightarrow> register_encoding \<Rightarrow> 'd register_codec \<Rightarrow> nat \<Rightarrow> string
     \<Rightarrow> profile_error + 'd read_back_policy \<times> read_back_document" where
  "validate_read_back E d encoding codec width p =
     (let is_float = is_float_encoding encoding;
          document = (case pad_read_back d of Some r \<Rightarrow> r
                      | None \<Rightarrow> if is_float then DocFloatExactBits else DocExactRaw)
      in case document of
           DocExactRaw \<Rightarrow>
             and_then (reject is_float p FloatReadBackRequired) (\<lambda>_. Ok (ExactRaw, DocExactRaw))
         | DocAcceptedRawSet values documentation_source hil_report_id \<Rightarrow>
             and_then (reject is_float p FloatReadBackRequired) (\<lambda>_.
             and_then (reject (values = []) (p @ ''.values'') AcceptedSetEmpty) (\<lambda>_.
             and_then (validate_text (p @ ''.documentation_source'') documentation_source False) (\<lambda>_.
             and_then (validate_text (p @ ''.hil_report_id'') hil_report_id False) (\<lambda>_.
             and_then (validate_raw_values E values codec width (p @ ''.values'') 8) (\<lambda>raws.
             Ok (AcceptedRawSet raws,
                 DocAcceptedRawSet (remdups_adj (sort values)) documentation_source hil_report_id))))))
         | DocFloatExactBits \<Rightarrow>
             and_then (reject (\<not> is_float) p FloatReadBackMisplaced) (\<lambda>_. Ok (FloatExactBits, DocFloatExactBits))
         | DocFloatAbsRelTolerance absolute relative \<Rightarrow>
             and_then (reject (\<not> is_float) p FloatReadBackMisplaced) (\<lambda>_.
             and_then (parse_non_negative_decimal E absolute (p @ ''.absolute'')) (\<lambda>a.
             and_then (parse_non_negative_decimal E relative (p @ ''.relative'')) (\<lambda>r.
             Ok (FloatAbsRelTolerance a r,
                 DocFloatAbsRelTolerance (canonical_decimal E a) (canonical_decimal E r))))))"

subsection \<open>One parameter\<close>

definition validate_write_function ::
  "modbus_function option \<Rightarrow> modbus_table \<Rightarrow> parameter_access \<Rightarrow> register_count \<Rightarrow> string \<Rightarrow> profile_error + unit" where
  "validate_write_function f table access n p =
     and_then (reject (table = InputRegisters \<and> f \<noteq> None) p InputRegisterWrite) (\<lambda>_.
     and_then (reject (access = ReadOnly \<and> f \<noteq> None) p ReadOnlyWrite) (\<lambda>_.
     and_then (reject (access \<noteq> ReadOnly \<and> f = None) p WriteFunctionMissing) (\<lambda>_.
     case f of None \<Rightarrow> Ok ()
     | Some g \<Rightarrow> map_err (\<lambda>e. ProfileInvalid p (BadRange e))
         (and_then (validate_table g table) (\<lambda>_. validate_count g n)))))"

definition map_some :: "('a \<Rightarrow> 'e + 'b) \<Rightarrow> 'a option \<Rightarrow> 'e + 'b option" where
  "map_some f x = (case x of None \<Rightarrow> Ok None | Some y \<Rightarrow> and_then (f y) (\<lambda>z. Ok (Some z)))"

definition validate_parameter ::
  "'d profile_env \<Rightarrow> parameter_document \<Rightarrow> nat \<Rightarrow> profile_error + 'd validated_parameter \<times> parameter_document" where
  "validate_parameter E d index =
     (let base = at_index ''parameters'' index;
          table = table_of (pad_table d);
          encoding = encoding_of (pad_encoding d);
          width = register_width encoding;
          n = of_nat width :: register_count;
          access = access_of (pad_access d);
          write_function = map_option write_function_of (pad_write_function d)
      in
       and_then (parse_at (base @ ''.id'') (pad_id d)) (\<lambda>i.
       and_then (validate_text (base @ ''.code'') (pad_code d) False) (\<lambda>_.
       and_then (validate_text (base @ ''.name'') (pad_name d) False) (\<lambda>_.
       and_then (validate_text (base @ ''.description'') (pad_description d) True) (\<lambda>_.
       and_then (normalize_address table (pad_address d) (base @ ''.address'')) (\<lambda>address.
       and_then (map_err (\<lambda>e. ProfileInvalid (base @ ''.address'') (BadRange e))
         (register_block_new table address n (table_read_function table))) (\<lambda>block.
       and_then (map_some (\<lambda>s. validate_scale E s (base @ ''.scale'')) (pad_scale d)) (\<lambda>scale.
       and_then (map_err (\<lambda>e. ProfileInvalid (base @ ''.encoding'') (BadCodec e))
         (register_codec_new encoding (byte_order_of (pad_byte_order d)) (word_order_of (pad_word_order d))
           (map_option fst scale))) (\<lambda>codec.
       and_then (validate_engineering_constraints E d encoding base) (\<lambda>(minimum, maximum, step).
       and_then (validate_raw_values E (pad_forbidden_raw d) codec width (base @ ''.forbidden_raw'') 64) (\<lambda>forbidden.
       and_then (validate_editor_metadata d encoding base) (\<lambda>(enum_values, bit_flags).
       and_then (quantity_of (pad_quantity d) (base @ ''.quantity'')) (\<lambda>quantity.
       and_then (map_err (\<lambda>e. ProfileInvalid (base @ ''.unit'') (BadUnit e)) (unit_id_new quantity (pad_unit d))) (\<lambda>unit.
       and_then (validate_write_function write_function table access n (base @ ''.write_function'')) (\<lambda>_.
       and_then (validate_read_back E d encoding codec width (base @ ''.read_back'')) (\<lambda>(read_back, read_back').
       Ok (\<lparr>vp_id = i, vp_code = pad_code d, vp_name = pad_name d, vp_description = pad_description d,
            vp_source_address_notation = notation_text (add_notation (pad_address d)),
            vp_source_address_value = add_value (pad_address d), vp_block = block, vp_codec = codec,
            vp_enum_values = enum_values, vp_bit_flags = bit_flags, vp_quantity = quantity, vp_unit = unit,
            vp_access = access, vp_restore_policy = restore_policy_of (pad_restore_policy d),
            vp_required_drive_state = required_drive_state_of (pad_required_drive_state d),
            vp_write_function = write_function, vp_read_back = read_back, vp_minimum = minimum,
            vp_maximum = maximum, vp_step = step, vp_forbidden_raw = forbidden, vp_backup = pad_backup d,
            vp_do_not_bridge = pad_do_not_bridge d, vp_maximum_bridge_gap = pad_maximum_bridge_gap d\<rparr>,
           d\<lparr>pad_address := pdu_address address, pad_scale := map_option snd scale,
             pad_minimum := map_option (canonical_decimal E) minimum,
             pad_maximum := map_option (canonical_decimal E) maximum,
             pad_step := map_option (canonical_decimal E) step,
             pad_forbidden_raw := remdups_adj (sort (pad_forbidden_raw d)),
             pad_read_back := Some read_back'\<rparr>)))))))))))))))))"

end
