(* ===== verification/Profile_References.thy ===== *)
theory Profile_References
  imports Profile_Validation
begin

unbundle bit_operations_syntax

text \<open>
  The parts of a profile that refer to its parameters (\<open>validate/references\<close>), the protocol
  section, the check that registers do not overlap, and the validation of the whole document
  (\<open>validate/build/profile.rs\<close>) down from its bytes (\<open>lib.rs\<close>).
\<close>

type_synonym 'd parameters = "(parameter_id, 'd validated_parameter) btree_map"

subsection \<open>References to parameters\<close>

definition validate_reference ::
  "'d parameters \<Rightarrow> string \<Rightarrow> parameter_id set \<Rightarrow> nat \<Rightarrow> string \<Rightarrow> profile_error + parameter_id \<times> parameter_id set" where
  "validate_reference ps p seen i value =
     and_then (parse_at (at_index p i) value) (\<lambda>pid.
     and_then (reject (bt_get ps pid = None) (at_index p i) UnknownParameter) (\<lambda>_.
     and_then (reject (pid \<in> seen) (at_index p i) DuplicateEntry) (\<lambda>_.
     Ok (pid, insert pid seen))))"

definition validate_parameter_references ::
  "string list \<Rightarrow> 'd parameters \<Rightarrow> string \<Rightarrow> profile_error + parameter_id list" where
  "validate_parameter_references values ps p =
     and_then (try_walk (validate_reference ps p) {} 0 values) (\<lambda>(ids, _). Ok ids)"

definition validate_alias :: "'d parameters \<Rightarrow> string \<times> string \<Rightarrow> profile_error + string \<times> parameter_id" where
  "validate_alias ps entry =
     (case entry of (name, target) \<Rightarrow>
       let p = ''aliases.'' @ name in
       and_then (parse_at p name) (\<lambda>alias_id.
       and_then (parse_at p target) (\<lambda>target_id.
       and_then (reject (bt_get ps target_id = None) p UnknownParameter) (\<lambda>_.
       Ok (alias_id, target_id)))))"

definition validate_aliases ::
  "profile_document \<Rightarrow> 'd parameters \<Rightarrow> profile_error + (string, parameter_id) btree_map" where
  "validate_aliases d ps =
     and_then (try_map (\<lambda>_. validate_alias ps) 0 (pd_aliases d)) (\<lambda>es. Ok (insert_all es))"

definition validate_group ::
  "'d parameters \<Rightarrow> string set \<Rightarrow> nat \<Rightarrow> parameter_group_document
     \<Rightarrow> profile_error + validated_parameter_group \<times> string set" where
  "validate_group ps seen i g =
     (let base = at_index ''groups'' i in
      and_then (validate_text (base @ ''.id'') (pgd_id g) False) (\<lambda>_.
      and_then (validate_text (base @ ''.name'') (pgd_name g) False) (\<lambda>_.
      and_then (reject (pgd_id g \<in> seen) (base @ ''.id'') DuplicateEntry) (\<lambda>_.
      and_then (validate_parameter_references (pgd_parameters g) ps (base @ ''.parameters'')) (\<lambda>ids.
      Ok (\<lparr>vpg_id = pgd_id g, vpg_name = pgd_name g, vpg_parameters = ids\<rparr>, insert (pgd_id g) seen))))))"

definition validate_groups ::
  "profile_document \<Rightarrow> 'd parameters \<Rightarrow> profile_error + validated_parameter_group list" where
  "validate_groups d ps =
     and_then (try_walk (validate_group ps) {} 0 (pd_groups d)) (\<lambda>(gs, _). Ok gs)"

definition validate_preset ::
  "'d parameters \<Rightarrow> string set \<Rightarrow> nat \<Rightarrow> telemetry_preset_document
     \<Rightarrow> profile_error + validated_telemetry_preset \<times> string set" where
  "validate_preset ps seen i t =
     (let base = at_index ''telemetry_presets'' i in
      and_then (validate_text (base @ ''.id'') (tpd_id t) False) (\<lambda>_.
      and_then (validate_text (base @ ''.name'') (tpd_name t) False) (\<lambda>_.
      and_then (reject (tpd_id t \<in> seen) (base @ ''.id'') DuplicateEntry) (\<lambda>_.
      and_then (reject (length (tpd_parameters t) > 8) (base @ ''.parameters'')
        (TooMany (length (tpd_parameters t)) 8)) (\<lambda>_.
      and_then (validate_parameter_references (tpd_parameters t) ps (base @ ''.parameters'')) (\<lambda>ids.
      Ok (\<lparr>vtp_id = tpd_id t, vtp_name = tpd_name t, vtp_parameters = ids\<rparr>, insert (tpd_id t) seen)))))))"

definition validate_presets ::
  "profile_document \<Rightarrow> 'd parameters \<Rightarrow> profile_error + validated_telemetry_preset list" where
  "validate_presets d ps =
     and_then (reject (length (pd_telemetry_presets d) > MAX_PRESETS) ''telemetry_presets''
       (TooMany (length (pd_telemetry_presets d)) MAX_PRESETS)) (\<lambda>_.
     and_then (try_walk (validate_preset ps) {} 0 (pd_telemetry_presets d)) (\<lambda>(ts, _). Ok ts))"

text \<open>The lookup \<open>parameters[id]\<close> cannot fail: the reference was found a line before.\<close>

definition validate_restore_order :: "profile_document \<Rightarrow> 'd parameters \<Rightarrow> profile_error + parameter_id list" where
  "validate_restore_order d ps =
     and_then (validate_parameter_references (pd_restore_order d) ps ''restore_order'') (\<lambda>ids.
     and_then (try_map (\<lambda>i pid. reject (map_option vp_access (bt_get ps pid) = Some ReadOnly)
         (at_index ''restore_order'' i) ReadOnlyRestore) 0 ids) (\<lambda>_. Ok ids))"

subsection \<open>The drive-state source\<close>

definition validate_drive_state_value ::
  "nat \<Rightarrow> string \<Rightarrow> u16 list set \<Rightarrow> nat \<Rightarrow> u16 list \<Rightarrow> profile_error + raw_registers \<times> u16 list set" where
  "validate_drive_state_value width p seen i ws =
     and_then (reject (length ws \<noteq> width) (at_index p i) (RawWidth width (length ws))) (\<lambda>_.
     and_then (reject (ws \<in> seen) (at_index p i) DuplicateEntry) (\<lambda>_.
     and_then (raw_at (at_index p i) ws) (\<lambda>raw. Ok (raw, insert ws seen))))"

definition writable_needs_stopped :: "'d parameters \<Rightarrow> bool" where
  "writable_needs_stopped ps \<longleftrightarrow>
     (\<exists>p \<in> set (map snd ps). (vp_access p = WritableWhenStopped \<or> vp_access p = Commissioning) \<and>
        vp_required_drive_state p = RequireStopped)"

definition validate_drive_state_source ::
  "profile_document \<Rightarrow> 'd parameters \<Rightarrow> profile_error + validated_drive_state_source option" where
  "validate_drive_state_source d ps =
     (case pd_drive_state_source d of
        None \<Rightarrow> and_then (reject (writable_needs_stopped ps) ''drive_state_source'' DriveStateSourceMissing) (\<lambda>_. Ok None)
      | Some source \<Rightarrow>
          and_then (parse_at ''drive_state_source.parameter_id'' (dsd_parameter_id source)) (\<lambda>pid.
          and_then (ok_or (ProfileInvalid ''drive_state_source.parameter_id'' UnknownParameter) (bt_get ps pid)) (\<lambda>p.
          let walk = (\<lambda>name seen values.
                try_walk (validate_drive_state_value (unat (rb_count (vp_block p))) (''drive_state_source.'' @ name))
                  seen 0 values)
          in
          and_then (walk ''stopped_raw'' {} (dsd_stopped_raw source)) (\<lambda>(stopped, seen1).
          and_then (walk ''running_raw'' seen1 (dsd_running_raw source)) (\<lambda>(running, seen2).
          and_then (walk ''faulted_raw'' seen2 (dsd_faulted_raw source)) (\<lambda>(faulted, _).
          and_then (reject (stopped = []) ''drive_state_source.stopped_raw'' StoppedRawMissing) (\<lambda>_.
          Ok (Some \<lparr>dss_parameter_id = pid, dss_stopped_raw = stopped, dss_running_raw = running,
                    dss_faulted_raw = faulted\<rparr>))))))))"

subsection \<open>Faults\<close>

definition fault_width_bits :: "register_encoding \<Rightarrow> nat option" where
  "fault_width_bits e = (if is_float_encoding e then None else Some (register_width e * 16))"

definition maximum_raw :: "nat \<Rightarrow> nat" where
  "maximum_raw width_bits = (if width_bits \<ge> 64 then 2 ^ 64 - 1 else 2 ^ width_bits - 1)"

definition validate_fault_source ::
  "'d parameters \<Rightarrow> fault_source_document \<Rightarrow> profile_error + validated_fault_source" where
  "validate_fault_source ps source =
     and_then (parse_at ''fault_source.parameter_id'' (fosd_parameter_id source)) (\<lambda>pid.
     and_then (ok_or (ProfileInvalid ''fault_source.parameter_id'' UnknownParameter) (bt_get ps pid)) (\<lambda>p.
     let encoding = rc_encoding (vp_codec p) in
     and_then (ok_or (ProfileInvalid ''fault_source.kind'' FaultSourceFloat) (fault_width_bits encoding)) (\<lambda>width_bits.
     and_then (reject (unat (fosd_no_fault source) > maximum_raw width_bits) ''fault_source.no_fault'' NoFaultTooWide) (\<lambda>_.
     and_then (case fosd_kind source of
         DocScalarCode \<Rightarrow>
           and_then (reject (is_bitfield_encoding encoding) ''fault_source.kind'' ScalarCodeBitfield) (\<lambda>_. Ok ScalarCode)
       | DocBitSet \<Rightarrow>
           and_then (reject (\<not> is_bitfield_encoding encoding) ''fault_source.kind'' BitSetEncoding) (\<lambda>_.
           and_then (reject (fosd_no_fault source \<noteq> 0) ''fault_source.no_fault'' BitSetNoFault) (\<lambda>_. Ok BitSet))) (\<lambda>kind.
     Ok \<lparr>vfs_kind = kind, vfs_parameter_id = pid, vfs_no_fault = fosd_no_fault source\<rparr>)))))"

definition is_power_of_two :: "u64 \<Rightarrow> bool" where
  "is_power_of_two w \<longleftrightarrow> w \<noteq> 0 \<and> w AND (w - 1) = 0"

text \<open>
  The checks of a raw fault value against the source. The two \<open>expect\<close>s of the code cannot
  fail: the source was validated against the same parameters.
\<close>

definition validate_fault_raw ::
  "'d parameters \<Rightarrow> validated_fault_source \<Rightarrow> string \<Rightarrow> u64 \<Rightarrow> profile_error + unit" where
  "validate_fault_raw ps source p raw =
     (let width_bits = (case bt_get ps (vfs_parameter_id source) of
            None \<Rightarrow> 0
          | Some q \<Rightarrow> (case fault_width_bits (rc_encoding (vp_codec q)) of None \<Rightarrow> 0 | Some n \<Rightarrow> n))
      in
      and_then (reject (unat raw > maximum_raw width_bits) p FaultTooWide) (\<lambda>_.
      and_then (reject (raw = vfs_no_fault source) p FaultIsNoFault) (\<lambda>_.
      reject (vfs_kind source = BitSet \<and> \<not> is_power_of_two raw) p FaultNotSingleBit)))"

definition validate_fault_text :: "string \<Rightarrow> fault_definition_document \<Rightarrow> profile_error + unit" where
  "validate_fault_text p fault =
     and_then (validate_text (p @ ''.code'') (fdd_code fault) False) (\<lambda>_.
     and_then (validate_text (p @ ''.name'') (fdd_name fault) False) (\<lambda>_.
     validate_text (p @ ''.description'') (fdd_description fault) False))"

definition validate_fault ::
  "'d parameters \<Rightarrow> validated_fault_source option \<Rightarrow> string set \<Rightarrow> nat \<Rightarrow> string \<times> fault_definition_document
     \<Rightarrow> profile_error + validated_fault_definition \<times> string set" where
  "validate_fault ps source codes i entry =
     (case entry of (raw_text, fault) \<Rightarrow>
       let p = ''faults.'' @ raw_text in
       and_then (ok_or (ProfileInvalid p BadInteger) (parse_unsigned (2 ^ 64 - 1) raw_text)) (\<lambda>n.
       let raw = of_nat n :: u64 in
       and_then (validate_fault_text p fault) (\<lambda>_.
       and_then (reject (fdd_code fault \<in> codes) (p @ ''.code'') DuplicateEntry) (\<lambda>_.
       and_then (case source of None \<Rightarrow> Ok () | Some s \<Rightarrow> validate_fault_raw ps s p raw) (\<lambda>_.
       and_then (validate_parameter_references (fdd_freeze_frame fault) ps (p @ ''.freeze_frame'')) (\<lambda>ids.
       and_then (reject (length ids > 64) (p @ ''.freeze_frame'') (TooMany (length ids) 64)) (\<lambda>_.
       Ok (\<lparr>vfd_raw = raw, vfd_code = fdd_code fault, vfd_name = fdd_name fault,
            vfd_description = fdd_description fault, vfd_severity = fault_severity_of (fdd_severity fault),
            vfd_freeze_frame = ids\<rparr>, insert (fdd_code fault) codes))))))))"

definition validate_faults ::
  "profile_document \<Rightarrow> 'd parameters
     \<Rightarrow> profile_error + validated_fault_source option \<times> (u64, validated_fault_definition) btree_map" where
  "validate_faults d ps =
     and_then (reject (length (pd_faults d) > MAX_FAULTS) ''faults'' (TooMany (length (pd_faults d)) MAX_FAULTS)) (\<lambda>_.
     and_then (map_some (validate_fault_source ps) (pd_fault_source d)) (\<lambda>source.
     and_then (reject (pd_faults d \<noteq> [] \<and> source = None) ''fault_source'' FaultSourceMissing) (\<lambda>_.
     and_then (try_walk (validate_fault ps source) {} 0 (pd_faults d)) (\<lambda>(fs, _).
     Ok (source, insert_all (map (\<lambda>f. (vfd_raw f, f)) fs))))))"

subsection \<open>Probes\<close>

definition validate_expected_raw :: "u16 \<Rightarrow> string \<Rightarrow> nat \<Rightarrow> u16 list \<Rightarrow> profile_error + raw_registers" where
  "validate_expected_raw n p i raw =
     and_then (reject (length raw \<noteq> unat n) (at_index p i) (RawWidth (unat n) (length raw))) (\<lambda>_.
     raw_at (at_index p i) raw)"

definition validate_probe ::
  "string set \<Rightarrow> nat \<Rightarrow> probe_document \<Rightarrow> profile_error + (validated_probe \<times> probe_document) \<times> string set" where
  "validate_probe seen i d =
     (let base = at_index ''identification.probes'' i; table = table_of (pbd_table d) in
      and_then (validate_text (base @ ''.id'') (pbd_id d) False) (\<lambda>_.
      and_then (validate_text (base @ ''.description'') (pbd_description d) False) (\<lambda>_.
      and_then (reject (pbd_id d \<in> seen) (base @ ''.id'') DuplicateEntry) (\<lambda>_.
      and_then (normalize_address table (pbd_address d) (base @ ''.address'')) (\<lambda>address.
      and_then (map_err (\<lambda>e. ProfileInvalid (base @ ''.count'') (BadRange e)) (register_count_new (pbd_count d))) (\<lambda>n.
      and_then (map_err (\<lambda>e. ProfileInvalid (base @ ''.address'') (BadRange e))
        (register_block_new table address n (table_read_function table))) (\<lambda>block.
      and_then (reject (pbd_expected_raw d = [] \<or> length (pbd_expected_raw d) > 8)
        (base @ ''.expected_raw'') ExpectedRawCount) (\<lambda>_.
      and_then (try_map (validate_expected_raw (pbd_count d) (base @ ''.expected_raw'')) 0 (pbd_expected_raw d)) (\<lambda>raws.
      Ok ((\<lparr>vpb_id = pbd_id d, vpb_description = pbd_description d, vpb_block = block, vpb_expected_raw = raws\<rparr>,
           d\<lparr>pbd_address := pdu_address address\<rparr>), insert (pbd_id d) seen))))))))))"

definition validate_probes ::
  "profile_document \<Rightarrow> profile_error + (validated_probe \<times> probe_document) list" where
  "validate_probes d =
     and_then (reject (length (pd_probes d) > 64) ''identification.probes'' (TooMany (length (pd_probes d)) 64)) (\<lambda>_.
     and_then (try_walk validate_probe {} 0 (pd_probes d)) (\<lambda>(bs, _). Ok bs))"


subsection \<open>The protocol\<close>

definition validate_protocol :: "protocol_document \<Rightarrow> profile_error + validated_protocol \<times> protocol_document" where
  "validate_protocol d =
     and_then (map_err (\<lambda>e. ProfileInvalid ''protocol.default_baud_rate'' (BadLink e))
       (baud_rate_new (prd_default_baud_rate d))) (\<lambda>baud.
     and_then (data_bits_of (prd_default_data_bits d) ''protocol.default_data_bits'') (\<lambda>dbits.
     and_then (stop_bits_of (prd_default_stop_bits d) ''protocol.default_stop_bits'') (\<lambda>sbits.
     and_then (map_err (\<lambda>e. ProfileInvalid ''protocol.default_slave_id'' (BadRange e))
       (slave_id_new (prd_default_slave_id d))) (\<lambda>slave.
     and_then (reject (prd_response_timeout_ms d = 0) ''protocol.response_timeout_ms'' ZeroTimeout) (\<lambda>_.
     let bauds = remdups_adj (sort (prd_allowed_baud_rates d @ [prd_default_baud_rate d]));
         parities = remdups_adj (sort_key parity_rank (prd_allowed_parities d @ [prd_default_parity d]));
         dbitss = remdups_adj (sort (prd_allowed_data_bits d @ [prd_default_data_bits d]));
         sbitss = remdups_adj (sort (prd_allowed_stop_bits d @ [prd_default_stop_bits d]))
     in
     and_then (try_map (\<lambda>i v. map_err (\<lambda>e. ProfileInvalid (at_index ''protocol.allowed_baud_rates'' i) (BadLink e))
       (baud_rate_new v)) 0 bauds) (\<lambda>allowed_bauds.
     and_then (try_map (\<lambda>i v. data_bits_of v (at_index ''protocol.allowed_data_bits'' i)) 0 dbitss) (\<lambda>allowed_dbits.
     and_then (try_map (\<lambda>i v. stop_bits_of v (at_index ''protocol.allowed_stop_bits'' i)) 0 sbitss) (\<lambda>allowed_sbits.
     Ok (\<lparr>vpr_default_link =
             \<lparr>ls_baud_rate = baud, ls_parity = parity_of (prd_default_parity d), ls_data_bits = dbits,
              ls_stop_bits = sbits, ls_response_timeout = from_millis (unat (prd_response_timeout_ms d)),
              ls_slave_id = slave,
              ls_rs485_mode = (case prd_rs485_mode d of DocAdapterManaged \<Rightarrow> AdapterManaged | DocLinuxIoctl \<Rightarrow> LinuxIoctl)\<rparr>,
           vpr_allowed_baud_rates = allowed_bauds, vpr_allowed_parities = map parity_of parities,
           vpr_allowed_data_bits = allowed_dbits, vpr_allowed_stop_bits = allowed_sbits,
           vpr_minimum_inter_frame_delay = from_micros (unat (prd_minimum_inter_frame_delay_us d))\<rparr>,
          d\<lparr>prd_allowed_baud_rates := bauds, prd_allowed_parities := parities,
            prd_allowed_data_bits := dbitss, prd_allowed_stop_bits := sbitss\<rparr>)))))))))"

subsection \<open>Overlaps\<close>

text \<open>The register range of a parameter, \<open>None\<close> where \<open>RegisterBlock::end\<close> panics.\<close>

definition parameter_range :: "'d validated_parameter \<Rightarrow> (u16 \<times> u16 \<times> parameter_id) option" where
  "parameter_range p = map_option (\<lambda>e. (rb_start (vp_block p), e, vp_id p)) (register_block_end (vp_block p))"

fun find_overlap :: "(u16 \<times> u16 \<times> parameter_id) list \<Rightarrow> (parameter_id \<times> parameter_id) option" where
  "find_overlap ((ls, le, li) # (rs, re, ri) # rest) =
     (if rs \<le> le then Some (li, ri) else find_overlap ((rs, re, ri) # rest))"
| "find_overlap _ = None"

definition validate_table_overlaps :: "'d parameters \<Rightarrow> modbus_table \<Rightarrow> (profile_error + unit) option" where
  "validate_table_overlaps ps table =
     map_option (\<lambda>ranges. case find_overlap (sort ranges) of
         Some (l, r) \<Rightarrow> Err (ProfileInvalid ''parameters'' (RegisterOverlap l r))
       | None \<Rightarrow> Ok ())
     (those (map parameter_range (filter (\<lambda>p. rb_table (vp_block p) = table) (map snd ps))))"

definition validate_parameter_overlaps :: "'d parameters \<Rightarrow> (profile_error + unit) option" where
  "validate_parameter_overlaps ps =
     Option.bind (validate_table_overlaps ps InputRegisters) (\<lambda>r.
       case r of Inl e \<Rightarrow> Some (Inl e) | Inr _ \<Rightarrow> validate_table_overlaps ps HoldingRegisters)"

subsection \<open>The whole document\<close>

definition validate_hardware_verification :: "hardware_verification_document \<Rightarrow> profile_error + unit" where
  "validate_hardware_verification v =
     and_then (validate_text ''hardware_verification.method'' (hvd_method v) False) (\<lambda>_.
     and_then (try_map (\<lambda>i s. validate_text (at_index ''hardware_verification.firmware'' i) s False) 0 (hvd_firmware v)) (\<lambda>_.
     case hvd_qualification_report_id v of None \<Rightarrow> Ok ()
     | Some report \<Rightarrow> validate_text ''hardware_verification.qualification_report_id'' report False))"

definition validate_header :: "profile_document \<Rightarrow> profile_error + unit" where
  "validate_header d =
     and_then (if pd_schema_version d \<noteq> 1 then Err (UnsupportedSchema (pd_schema_version d)) else Ok ()) (\<lambda>_.
     and_then (reject (pd_revision d = 0) ''revision'' ZeroRevision) (\<lambda>_.
     and_then (validate_text ''vendor'' (pd_vendor d) False) (\<lambda>_.
     and_then (validate_text ''family'' (pd_family d) False) (\<lambda>_.
     and_then (validate_text ''model'' (pd_model d) False) (\<lambda>_.
     and_then (try_map (\<lambda>i s. validate_text (at_index ''sources'' i) s False) 0 (pd_sources d)) (\<lambda>_.
     and_then (try_map (\<lambda>i s. validate_text (at_index ''safety_notes'' i) s False) 0 (pd_safety_notes d)) (\<lambda>_.
     case pd_hardware_verification d of None \<Rightarrow> Ok () | Some v \<Rightarrow> validate_hardware_verification v)))))))"

definition validate_unique_parameter ::
  "'d profile_env \<Rightarrow> parameter_id set \<times> string set \<Rightarrow> nat \<Rightarrow> parameter_document
     \<Rightarrow> profile_error + ('d validated_parameter \<times> parameter_document) \<times> (parameter_id set \<times> string set)" where
  "validate_unique_parameter E seen i d =
     and_then (validate_parameter E d i) (\<lambda>(p, d').
     and_then (reject (vp_id p \<in> fst seen) (at_index ''parameters'' i @ ''.id'') DuplicateEntry) (\<lambda>_.
     and_then (reject (vp_code p \<in> snd seen) (at_index ''parameters'' i @ ''.code'') DuplicateEntry) (\<lambda>_.
     Ok ((p, d'), (insert (vp_id p) (fst seen), insert (vp_code p) (snd seen))))))"

definition validate_parameters ::
  "'d profile_env \<Rightarrow> profile_document \<Rightarrow> profile_error + 'd parameters \<times> parameter_document list" where
  "validate_parameters E d =
     and_then (reject (length (pd_parameters d) > MAX_PARAMETERS) ''parameters''
       (TooMany (length (pd_parameters d)) MAX_PARAMETERS)) (\<lambda>_.
     and_then (try_walk (validate_unique_parameter E) ({}, {}) 0 (pd_parameters d)) (\<lambda>(vs, _).
     Ok (insert_all (map (\<lambda>(p, _). (vp_id p, p)) vs), sort_key pad_id (map snd vs))))"

text \<open>What follows the overlap check: the references, and the hash of the normalized document.\<close>

definition finish_profile ::
  "'d profile_env \<Rightarrow> profile_document \<Rightarrow> hash_bytes \<Rightarrow> profile_id \<Rightarrow> validated_protocol \<Rightarrow> 'd parameters
     \<Rightarrow> profile_error + 'd validated_device_profile \<times> profile_document" where
  "finish_profile E d source_hash i protocol ps =
     and_then (validate_probes d) (\<lambda>probes.
     and_then (validate_aliases d ps) (\<lambda>aliases.
     and_then (validate_groups d ps) (\<lambda>groups.
     and_then (validate_drive_state_source d ps) (\<lambda>drive_state_source.
     and_then (validate_faults d ps) (\<lambda>(fault_source, faults).
     and_then (validate_presets d ps) (\<lambda>presets.
     and_then (validate_restore_order d ps) (\<lambda>restore_order.
     let document = d\<lparr>pd_probes := map snd probes, pd_sources := remdups_adj (sort (pd_sources d))\<rparr> in
     and_then (map_err Canonical (pfe_canonical E document)) (\<lambda>bytes.
     Ok (\<lparr>vdp_profile_id = i, vdp_revision = pd_revision d, vdp_vendor = pd_vendor d, vdp_family = pd_family d,
          vdp_model = pd_model d, vdp_source_hash = source_hash, vdp_profile_hash = pfe_sha256 E bytes,
          vdp_protocol = protocol, vdp_probes = map fst probes, vdp_parameters = ps, vdp_aliases = aliases,
          vdp_groups = groups, vdp_drive_state_source = drive_state_source, vdp_fault_source = fault_source,
          vdp_faults = faults, vdp_presets = presets, vdp_restore_order = restore_order\<rparr>, document)))))))))"

definition validate_front ::
  "'d profile_env \<Rightarrow> profile_document
     \<Rightarrow> profile_error + profile_id \<times> (validated_protocol \<times> protocol_document) \<times> 'd parameters \<times> parameter_document list" where
  "validate_front E d =
     and_then (validate_header d) (\<lambda>_.
     and_then (parse_at ''profile_id'' (pd_profile_id d)) (\<lambda>i.
     and_then (validate_protocol (pd_protocol d)) (\<lambda>protocol.
     and_then (validate_parameters E d) (\<lambda>parameters. Ok (i, protocol, parameters)))))"

definition validate_profile ::
  "'d profile_env \<Rightarrow> profile_document \<Rightarrow> hash_bytes
     \<Rightarrow> (profile_error + 'd validated_device_profile \<times> profile_document) option" where
  "validate_profile E d source_hash =
     (case validate_front E d of
        Inl e \<Rightarrow> Some (Inl e)
      | Inr (i, (protocol, protocol_d), ps, parameters_d) \<Rightarrow>
          map_option (\<lambda>r. and_then r (\<lambda>_.
            finish_profile E (d\<lparr>pd_protocol := protocol_d, pd_parameters := parameters_d\<rparr>) source_hash i protocol ps))
          (validate_parameter_overlaps ps))"

definition parse_and_validate_profile ::
  "'d profile_env \<Rightarrow> u8 list \<Rightarrow> profile_format
     \<Rightarrow> (profile_error + 'd validated_device_profile \<times> profile_document) option" where
  "parse_and_validate_profile E source format =
     (if length source > MAX_PROFILE_BYTES then Some (Err (SourceTooLarge (length source) MAX_PROFILE_BYTES))
      else case pfe_deserialize E format source of
          Inl e \<Rightarrow> Some (Err e)
        | Inr d \<Rightarrow> validate_profile E d (pfe_sha256 E source))"

end
