(* ===== verification/Profile_Facts.thy ===== *)
theory Profile_Facts
  imports Profile_References
begin

text \<open>
  What an accepted document satisfies: the contract of the loops that refuse duplicates, as a locale
  that every such loop of the validator interprets, and the facts that acceptance gives about one
  parameter, about the references, and about the register ranges.
\<close>

named_theorems accepted \<open>what the acceptance of a part of the document gives\<close>

subsection \<open>Loops\<close>

lemma reject_Ok_iff [simp]: "reject c p r = Ok u \<longleftrightarrow> \<not> c"
  by (simp add: reject_def)

lemma raw_at_Ok_iff [simp]: "raw_at p ws = Ok r \<longleftrightarrow> r = ws \<and> ws \<noteq> [] \<and> length ws \<le> 125"
  by (auto simp: raw_at_def raw_registers_new_def)

lemma parse_at_Ok_iff [simp]: "parse_at p s = Ok t \<longleftrightarrow> parse_id s = Ok t"
  by (simp add: parse_at_def)

lemma parse_id_same: "parse_id s = Ok t \<Longrightarrow> t = s"
  by (simp add: parse_id_Ok_iff)

lemma try_map_Ok:
  "try_map f i xs = Ok ys \<Longrightarrow> length ys = length xs \<and> (\<forall>y \<in> set ys. \<exists>k. \<exists>x \<in> set xs. f k x = Ok y)"
proof (induction f i xs arbitrary: ys rule: try_map.induct)
  case (2 f i x xs)
  from "2.prems" obtain y zs where f: "f i x = Ok y" and m: "try_map f (Suc i) xs = Ok zs" and ys: "ys = y # zs"
    by (auto simp: and_then_Ok_iff)
  from "2.IH" [OF m] f show ?case unfolding ys by fastforce
qed simp

lemma try_map_all: "try_map f i xs = Ok ys \<Longrightarrow> x \<in> set xs \<Longrightarrow> \<exists>k y. f k x = Ok y"
  by (induction f i xs arbitrary: ys rule: try_map.induct) (auto simp: and_then_Ok_iff)

lemma try_walk_Ok:
  "try_walk f s i xs = Ok (ys, s') \<Longrightarrow>
     length ys = length xs \<and> (\<forall>y \<in> set ys. \<exists>s k s'. \<exists>x \<in> set xs. f s k x = Ok (y, s'))"
proof (induction f s i xs arbitrary: ys s' rule: try_walk.induct)
  case (2 f s i x xs)
  from "2.prems" obtain y s1 zs where f: "f s i x = Ok (y, s1)" and w: "try_walk f s1 (Suc i) xs = Ok (zs, s')"
    and ys: "ys = y # zs"
    by (auto simp: and_then_Ok_iff)
  from "2.IH" [OF w] f show ?case unfolding ys by fastforce
qed simp

text \<open>
  A loop refuses duplicates when every step records the key of its result, which it has not seen yet.
\<close>

locale unique_walk =
  fixes f :: "'s \<Rightarrow> nat \<Rightarrow> 'a \<Rightarrow> 'e + 'b \<times> 's" and seen :: "'s \<Rightarrow> 'k set" and key :: "'b \<Rightarrow> 'k"
  assumes step: "f s i x = Ok (y, s') \<Longrightarrow> key y \<notin> seen s \<and> seen s' = insert (key y) (seen s)"
begin

lemma walk:
  "try_walk f s i xs = Ok (ys, s') \<Longrightarrow>
     distinct (map key ys) \<and> key ` set ys \<inter> seen s = {} \<and> seen s' = seen s \<union> key ` set ys"
proof (induction xs arbitrary: s i ys)
  case (Cons x xs)
  from Cons.prems obtain y s1 zs where 1: "f s i x = Ok (y, s1)" "try_walk f s1 (Suc i) xs = Ok (zs, s')" "ys = y # zs"
    by (auto simp: and_then_Ok_iff)
  from Cons.IH [OF 1(2)] step [OF 1(1)] 1(3) show ?case by auto
qed simp

lemma walk_distinct: "try_walk f s i xs = Ok (ys, s') \<Longrightarrow> distinct (map key ys)"
  using walk by blast

end

interpretation references: unique_walk "validate_reference ps p" id id for ps p
  by unfold_locales (auto simp: validate_reference_def and_then_Ok_iff)

interpretation groups: unique_walk "validate_group ps" id vpg_id for ps
  by unfold_locales (auto simp: validate_group_def Let_def and_then_Ok_iff)

interpretation presets: unique_walk "validate_preset ps" id vtp_id for ps
  by unfold_locales (auto simp: validate_preset_def Let_def and_then_Ok_iff)

interpretation faults: unique_walk "validate_fault ps source" id vfd_code for ps source
  by unfold_locales (auto simp: validate_fault_def Let_def and_then_Ok_iff split: prod.splits)

interpretation probes: unique_walk validate_probe id "vpb_id \<circ> fst"
  by unfold_locales (auto simp: validate_probe_def Let_def and_then_Ok_iff)

interpretation raw_values: unique_walk "validate_raw_value E codec width p" id id for E codec width p
  by unfold_locales (auto simp: validate_raw_value_def and_then_Ok_iff)

interpretation drive_values: unique_walk "validate_drive_state_value width p" id id for width p
  by unfold_locales (auto simp: validate_drive_state_value_def and_then_Ok_iff)

interpretation parameter_ids: unique_walk "validate_unique_parameter E" fst "vp_id \<circ> fst" for E
  by unfold_locales (auto simp: validate_unique_parameter_def and_then_Ok_iff split: prod.splits)

interpretation parameter_codes: unique_walk "validate_unique_parameter E" snd "vp_code \<circ> fst" for E
  by unfold_locales (auto simp: validate_unique_parameter_def and_then_Ok_iff split: prod.splits)

subsection \<open>Maps built by insertion\<close>

lemma insert_all_snoc: "insert_all (es @ [e]) = bt_insert (fst e) (snd e) (insert_all es)"
  by (cases e) (simp add: insert_all_def)

lemma insert_all_wf: "bt_wf (insert_all es)"
  by (induction es rule: rev_induct) (simp_all add: insert_all_def [of "[]"] insert_all_snoc bt_wf_insert)

lemma insert_all_get: "bt_get (insert_all es) = map_of (rev es)"
  by (induction es rule: rev_induct) (simp_all add: insert_all_def [of "[]"] insert_all_snoc fun_eq_iff)

lemma insert_all_subset: "(k, v) \<in> set (insert_all es) \<Longrightarrow> (k, v) \<in> set es"
  using bt_wf_get_iff [OF insert_all_wf, of es k v] map_of_SomeD [of "rev es" k v] by (simp add: insert_all_get)

lemma insert_all_distinct:
  assumes "distinct (map fst es)"
  shows "set (insert_all es) = set es"
proof -
  have "(k, v) \<in> set (insert_all es) \<longleftrightarrow> (k, v) \<in> set es" for k v
    using bt_wf_get_iff [OF insert_all_wf, of es k v] map_of_eq_Some_iff [of "rev es" k v] assms
    by (simp add: insert_all_get rev_map [symmetric])
  then show ?thesis by auto
qed


subsection \<open>One parameter\<close>

text \<open>The register block: as wide as the encoding, inside the address space, of a table that can be read.\<close>

definition block_ok :: "'d validated_parameter \<Rightarrow> bool" where
  "block_ok p \<longleftrightarrow>
     unat (rb_count (vp_block p)) = register_width (rc_encoding (vp_codec p)) \<and> block_last (vp_block p) < 2 ^ 16"

text \<open>A write function exists exactly for writable parameters, and is one that the block admits.\<close>

definition write_ok :: "'d validated_parameter \<Rightarrow> bool" where
  "write_ok p \<longleftrightarrow>
     (vp_write_function p = None \<longleftrightarrow> vp_access p = ReadOnly) \<and>
     (\<forall>f. vp_write_function p = Some f \<longrightarrow>
        is_write f \<and> rb_table (vp_block p) = HoldingRegisters \<and> validate_count f (rb_count (vp_block p)) = Ok ())"

definition limits_ok :: "'d profile_env \<Rightarrow> 'd validated_parameter \<Rightarrow> bool" where
  "limits_ok E p \<longleftrightarrow>
     (vp_minimum p \<noteq> None \<or> vp_maximum p \<noteq> None \<or> vp_step p \<noteq> None \<longrightarrow> is_fixed_encoding (rc_encoding (vp_codec p))) \<and>
     (\<forall>lo hi. vp_minimum p = Some lo \<and> vp_maximum p = Some hi \<longrightarrow> \<not> dec_less (pfe_decimal E) hi lo) \<and>
     (\<forall>v. vp_step p = Some v \<longrightarrow> dec_less (pfe_decimal E) (dec_zero (pfe_decimal E)) v)"

text \<open>Raw values are distinct, and the parameter's codec decodes each.\<close>

definition raws_ok :: "'d profile_env \<Rightarrow> 'd register_codec \<Rightarrow> raw_registers list \<Rightarrow> bool" where
  "raws_ok E codec raws \<longleftrightarrow>
     distinct raws \<and> (\<forall>raw \<in> set raws. length raw = register_width (rc_encoding codec) \<and>
       (\<exists>v. decode (pfe_decimal E) codec raw = Ok v))"

definition read_back_ok :: "'d profile_env \<Rightarrow> 'd validated_parameter \<Rightarrow> bool" where
  "read_back_ok E p \<longleftrightarrow>
     (case vp_read_back p of
        ExactRaw \<Rightarrow> \<not> is_float_encoding (rc_encoding (vp_codec p))
      | AcceptedRawSet raws \<Rightarrow> \<not> is_float_encoding (rc_encoding (vp_codec p)) \<and> raws \<noteq> [] \<and> length raws \<le> 8 \<and>
          raws_ok E (vp_codec p) raws
      | FloatExactBits \<Rightarrow> is_float_encoding (rc_encoding (vp_codec p))
      | FloatAbsRelTolerance a r \<Rightarrow> is_float_encoding (rc_encoding (vp_codec p)) \<and>
          \<not> pfe_sign_negative E a \<and> \<not> pfe_sign_negative E r)"

definition labels_ok :: "'d validated_parameter \<Rightarrow> bool" where
  "labels_ok p \<longleftrightarrow>
     (\<forall>(raw, label) \<in> set (vp_enum_values p). \<exists>m. enum_maximum (rc_encoding (vp_codec p)) = Some m \<and> 0 \<le> raw \<and> raw \<le> m) \<and>
     (\<forall>(b, label) \<in> set (vp_bit_flags p). \<exists>w. bit_width (rc_encoding (vp_codec p)) = Some w \<and> unat b < w)"

definition parameter_ok :: "'d profile_env \<Rightarrow> 'd validated_parameter \<Rightarrow> bool" where
  "parameter_ok E p \<longleftrightarrow>
     parse_id (vp_id p) = Ok (vp_id p) \<and> vp_code p \<noteq> [] \<and> vp_name p \<noteq> [] \<and>
     unit_quantity (vp_unit p) = vp_quantity p \<and>
     (rc_fixed_scale (vp_codec p) \<noteq> None \<longrightarrow> supports_scale (rc_encoding (vp_codec p))) \<and>
     block_ok p \<and> write_ok p \<and> limits_ok E p \<and> length (vp_forbidden_raw p) \<le> 64 \<and>
     raws_ok E (vp_codec p) (vp_forbidden_raw p) \<and> read_back_ok E p \<and> labels_ok p"

lemma register_width_bounds: "0 < register_width e \<and> register_width e \<le> 4"
  by (cases e) simp_all

lemma unat_width [simp]: "unat (of_nat (register_width e) :: u16) = register_width e"
  by (cases e) simp_all

lemma validate_text_nonempty: "validate_text p s False = Ok u \<Longrightarrow> s \<noteq> []"
  by (auto simp: validate_text_def)

lemma register_codec_new_Ok:
  "register_codec_new e b w sc = Ok c \<Longrightarrow>
     rc_encoding c = e \<and> (rc_fixed_scale c \<noteq> None \<longrightarrow> supports_scale e)"
  by (auto simp: register_codec_new_def split: if_splits)

lemma validate_raw_values_Ok:
  assumes "validate_raw_values E values codec width p maximum = Ok raws" and "width = register_width (rc_encoding codec)"
  shows "raws_ok E codec raws \<and> length raws \<le> maximum \<and> length raws = length values"
proof -
  from assms(1) obtain seen where w: "try_walk (validate_raw_value E codec width p) {} 0 values = Ok (raws, seen)"
    and "length values \<le> maximum"
    by (auto simp: validate_raw_values_def and_then_Ok_iff)
  moreover have "length raw = width \<and> (\<exists>v. decode (pfe_decimal E) codec raw = Ok v)" if "raw \<in> set raws" for raw
    using try_walk_Ok [OF w] that by (fastforce simp: validate_raw_value_def and_then_Ok_iff)
  ultimately show ?thesis
    using raw_values.walk_distinct [OF w] try_walk_Ok [OF w] assms(2) by (auto simp: raws_ok_def)
qed

lemma validate_engineering_constraints_Ok:
  assumes "validate_engineering_constraints E d encoding base = Ok (lo, hi, st)"
  shows "(lo \<noteq> None \<or> hi \<noteq> None \<or> st \<noteq> None \<longrightarrow> is_fixed_encoding encoding) \<and>
    (\<forall>l h. lo = Some l \<and> hi = Some h \<longrightarrow> \<not> dec_less (pfe_decimal E) h l) \<and>
    (\<forall>v. st = Some v \<longrightarrow> dec_less (pfe_decimal E) (dec_zero (pfe_decimal E)) v)"
  using assms
  by (auto simp: validate_engineering_constraints_def and_then_Ok_iff parse_optional_decimal_def split: option.splits)

lemma validate_editor_metadata_Ok:
  assumes "validate_editor_metadata d encoding base = Ok (enums, flags)"
  shows "(\<forall>(raw, label) \<in> set enums. \<exists>m. enum_maximum encoding = Some m \<and> 0 \<le> raw \<and> raw \<le> m) \<and>
    (\<forall>(b, label) \<in> set flags. \<exists>w. bit_width encoding = Some w \<and> unat b < w)"
proof -
  from assms obtain es fs where
    es: "(case enum_maximum encoding of None \<Rightarrow> Ok []
       | Some maximum \<Rightarrow> try_map (\<lambda>_. validate_enum_value maximum base) 0 (pad_enum_values d)) = Ok es"
    and fs: "(case bit_width encoding of None \<Rightarrow> Ok []
       | Some width \<Rightarrow> try_map (\<lambda>_. validate_bit_flag width base) 0 (pad_bit_flags d)) = Ok fs"
    and eq: "enums = insert_all es" "flags = insert_all fs"
    by (auto simp: validate_editor_metadata_def and_then_Ok_iff)
  have "\<exists>m. enum_maximum encoding = Some m \<and> 0 \<le> raw \<and> raw \<le> m" if "(raw, label) \<in> set es" for raw label
  proof (cases "enum_maximum encoding")
    case None
    with es that show ?thesis by simp
  next
    case (Some m)
    with es have "try_map (\<lambda>_. validate_enum_value m base) 0 (pad_enum_values d) = Ok es" by simp
    from try_map_Ok [OF this] that obtain x where "validate_enum_value m base x = Ok (raw, label)" by blast
    moreover obtain t l where "x = (t, l)" by fastforce
    ultimately show ?thesis using Some by (auto simp: validate_enum_value_def Let_def and_then_Ok_iff)
  qed
  moreover have "\<exists>w. bit_width encoding = Some w \<and> unat b < w" if "(b, label) \<in> set fs" for b label
  proof (cases "bit_width encoding")
    case None
    with fs that show ?thesis by simp
  next
    case (Some w)
    with fs have "try_map (\<lambda>_. validate_bit_flag w base) 0 (pad_bit_flags d) = Ok fs" by simp
    from try_map_Ok [OF this] that obtain x where x: "validate_bit_flag w base x = Ok (b, label)" by blast
    moreover obtain t l where "x = (t, l)" by fastforce
    ultimately obtain n where "\<not> w \<le> n" "b = of_nat n"
      by (auto simp: validate_bit_flag_def Let_def and_then_Ok_iff)
    then have "unat b < w" by (metis le_less_trans unat_of_nat mod_less_eq_dividend not_le)
    with Some show ?thesis by blast
  qed
  ultimately show ?thesis unfolding eq by (auto dest!: insert_all_subset)
qed

lemma validate_read_back_Ok:
  assumes "validate_read_back E d encoding codec width p = Ok (r, r')" and "rc_encoding codec = encoding"
    and "width = register_width encoding"
  shows "case r of
        ExactRaw \<Rightarrow> \<not> is_float_encoding encoding
      | AcceptedRawSet raws \<Rightarrow> \<not> is_float_encoding encoding \<and> raws \<noteq> [] \<and> length raws \<le> 8 \<and> raws_ok E codec raws
      | FloatExactBits \<Rightarrow> is_float_encoding encoding
      | FloatAbsRelTolerance a r \<Rightarrow> is_float_encoding encoding \<and> \<not> pfe_sign_negative E a \<and> \<not> pfe_sign_negative E r"
  using assms
  by (auto simp: validate_read_back_def Let_def and_then_Ok_iff parse_non_negative_decimal_def
      split: read_back_document.splits dest!: validate_raw_values_Ok)

lemma validate_write_function_Ok:
  assumes "validate_write_function (map_option write_function_of fn) table access n p = Ok u"
    and "n = of_nat (register_width e)"
  shows "(fn = None \<longleftrightarrow> access = ReadOnly) \<and>
    (\<forall>g. map_option write_function_of fn = Some g \<longrightarrow> is_write g \<and> table = HoldingRegisters \<and> validate_count g n = Ok ())"
proof -
  have "is_write (write_function_of g)" for g by (cases g) (simp_all add: is_write_def)
  with assms show ?thesis
    by (cases fn; cases table) (auto simp: validate_write_function_def and_then_Ok_iff)
qed

theorem validate_parameter_ok:
  assumes "validate_parameter E d index = Ok (p, d')"
  shows "parameter_ok E p"
proof -
  let ?e = "encoding_of (pad_encoding d)" and ?t = "table_of (pad_table d)"
  let ?n = "of_nat (register_width ?e) :: u16" and ?b = "at_index ''parameters'' index"
  let ?fn = "map_option write_function_of (pad_write_function d)"
  from assms [unfolded validate_parameter_def Let_def case_prod_beta and_then_Ok_iff map_err_Ok_iff parse_at_Ok_iff
      sum.inject prod.inject]
  obtain i address block scale codec limits forbidden labels q un rb u1 u2 u3 where
    id: "parse_id (pad_id d) = Ok i"
    and code: "validate_text (?b @ ''.code'') (pad_code d) False = Ok u1"
    and name: "validate_text (?b @ ''.name'') (pad_name d) False = Ok u2"
    and block: "register_block_new ?t address ?n (table_read_function ?t) = Ok block"
    and codec: "register_codec_new ?e (byte_order_of (pad_byte_order d)) (word_order_of (pad_word_order d))
        scale = Ok codec"
    and limits: "validate_engineering_constraints E d ?e ?b = Ok limits"
    and forbidden: "validate_raw_values E (pad_forbidden_raw d) codec (register_width ?e)
        (?b @ ''.forbidden_raw'') 64 = Ok forbidden"
    and labels: "validate_editor_metadata d ?e ?b = Ok labels"
    and un: "unit_id_new q (pad_unit d) = Ok un"
    and fn: "validate_write_function ?fn ?t (access_of (pad_access d)) ?n (?b @ ''.write_function'') = Ok u3"
    and rb: "validate_read_back E d ?e codec (register_width ?e) (?b @ ''.read_back'') = Ok rb"
    and p: "\<lparr>vp_id = i, vp_code = pad_code d, vp_name = pad_name d, vp_description = pad_description d,
            vp_source_address_notation = notation_text (add_notation (pad_address d)),
            vp_source_address_value = add_value (pad_address d), vp_block = block, vp_codec = codec,
            vp_enum_values = fst labels, vp_bit_flags = snd labels, vp_quantity = q, vp_unit = un,
            vp_access = access_of (pad_access d), vp_restore_policy = restore_policy_of (pad_restore_policy d),
            vp_required_drive_state = required_drive_state_of (pad_required_drive_state d),
            vp_write_function = ?fn, vp_read_back = fst rb, vp_minimum = fst limits,
            vp_maximum = fst (snd limits), vp_step = snd (snd limits), vp_forbidden_raw = forbidden,
            vp_backup = pad_backup d, vp_do_not_bridge = pad_do_not_bridge d,
            vp_maximum_bridge_gap = pad_maximum_bridge_gap d\<rparr> = p"
    by (elim exE conjE) (rule that; assumption)
  have enc: "rc_encoding codec = ?e" "rc_fixed_scale codec \<noteq> None \<longrightarrow> supports_scale ?e"
    using register_codec_new_Ok [OF codec] by simp_all
  note b = register_block_new_OkD [OF block]
  have "block_ok p"
    using b(4) register_width_bounds [of ?e]
    by (simp add: block_ok_def p [symmetric] b(1) enc block_last_def unat_sub_if')
  moreover have "write_ok p"
    using validate_write_function_Ok [OF fn refl] by (auto simp: write_ok_def p [symmetric] b(1))
  moreover have "raws_ok E codec forbidden \<and> length forbidden \<le> 64"
    using validate_raw_values_Ok [OF forbidden] enc by simp
  moreover have "limits_ok E p"
    using validate_engineering_constraints_Ok [of E d ?e ?b "fst limits" "fst (snd limits)" "snd (snd limits)"] limits
    by (simp add: limits_ok_def p [symmetric] enc)
  moreover have "read_back_ok E p"
  proof -
    have "vp_read_back p = fst rb" "vp_codec p = codec" by (simp_all add: p [symmetric])
    moreover from rb have "validate_read_back E d ?e codec (register_width ?e) (?b @ ''.read_back'') = Ok (fst rb, snd rb)"
      by simp
    note validate_read_back_Ok [OF this enc(1) refl]
    ultimately show ?thesis unfolding read_back_ok_def by (simp only: enc)
  qed
  moreover have "labels_ok p"
    using validate_editor_metadata_Ok [of d ?e ?b "fst labels" "snd labels"] labels
    by (simp add: labels_ok_def p [symmetric] enc)
  moreover have "unit_quantity un = q" using un by (auto simp: unit_id_new_Ok_iff)
  ultimately show ?thesis
    using parse_id_same [OF id] id validate_text_nonempty [OF code] validate_text_nonempty [OF name] enc
    by (simp add: parameter_ok_def p [symmetric])
qed


subsection \<open>All parameters\<close>

definition parameters_ok :: "'d profile_env \<Rightarrow> 'd parameters \<Rightarrow> bool" where
  "parameters_ok E ps \<longleftrightarrow>
     bt_wf ps \<and> length ps \<le> MAX_PARAMETERS \<and>
     (\<forall>(k, p) \<in> set ps. vp_id p = k \<and> parameter_ok E p) \<and>
     (\<forall>(k, p) \<in> set ps. \<forall>(l, q) \<in> set ps. vp_code p = vp_code q \<longrightarrow> k = l)"

lemma validate_parameters_ok:
  assumes "validate_parameters E d = Ok (ps, ds)"
  shows "parameters_ok E ps"
proof -
  from assms obtain vs seen where
    w: "try_walk (validate_unique_parameter E) ({}, {}) 0 (pd_parameters d) = Ok (vs, seen)"
    and len: "length (pd_parameters d) \<le> MAX_PARAMETERS"
    and ps: "ps = insert_all (map (\<lambda>(p, _). (vp_id p, p)) vs)"
    by (auto simp: validate_parameters_def and_then_Ok_iff)
  have "map fst (map (\<lambda>(p, _). (vp_id p, p)) vs) = map (vp_id \<circ> fst) vs" by auto
  with parameter_ids.walk_distinct [OF w] have "distinct (map fst (map (\<lambda>(p, _). (vp_id p, p)) vs))" by metis
  from insert_all_distinct [OF this] have set: "set ps = (\<lambda>(p, _). (vp_id p, p)) ` set vs"
    unfolding ps by simp
  have "parameter_ok E p" if "(p, d') \<in> set vs" for p d'
    using try_walk_Ok [OF w] that
    by (fastforce simp: validate_unique_parameter_def and_then_Ok_iff dest: validate_parameter_ok)
  moreover have "vp_id p = vp_id q" if "(p, d1) \<in> set vs" "(q, d2) \<in> set vs" "vp_code p = vp_code q" for p q d1 d2
    using parameter_codes.walk_distinct [OF w] that
    by (auto simp: distinct_map dest: inj_onD [of "vp_code \<circ> fst" "set vs" "(p, d1)" "(q, d2)"])
  moreover have "length ps \<le> length vs"
  proof -
    have "length ps = card (set ps)"
    proof -
      have "distinct (map fst ps)" unfolding ps by (rule bt_wf_distinct [OF insert_all_wf])
      then have "distinct ps" by (simp add: distinct_map)
      then show ?thesis by (simp only: distinct_card)
    qed
    also have "\<dots> \<le> length vs"
      unfolding set by (rule order_trans [OF card_image_le [OF finite_set] card_length])
    finally show ?thesis .
  qed
  moreover have "bt_wf ps" unfolding ps by (rule insert_all_wf)
  moreover have "length vs \<le> MAX_PARAMETERS" using try_walk_Ok [OF w] len by simp
  ultimately show ?thesis
    unfolding parameters_ok_def set ball_simps(9) by (simp add: case_prod_beta) (metis prod.collapse)
qed

subsection \<open>Register ranges\<close>

definition last_register :: "'d validated_parameter \<Rightarrow> bool" where
  "last_register p \<longleftrightarrow> block_last (vp_block p) = 2 ^ 16 - 1"

lemma parameter_range_None:
  assumes "block_ok p"
  shows "parameter_range p = None \<longleftrightarrow> last_register p"
proof -
  have "0 < unat (rb_count (vp_block p))" using assms register_width_bounds by (simp add: block_ok_def)
  from register_block_end_defined [OF this] assms this show ?thesis
    unfolding parameter_range_def last_register_def block_ok_def block_last_def by auto
qed

lemma parameter_range_Some:
  assumes "parameter_range p = Some (s, e, i)"
  shows "s = rb_start (vp_block p) \<and> i = vp_id p \<and> unat e + 1 = unat (rb_start (vp_block p)) + unat (rb_count (vp_block p))"
  using assms register_block_end_Some [of "vp_block p"] by (auto simp: parameter_range_def)

definition range_before :: "u16 \<times> u16 \<times> parameter_id \<Rightarrow> u16 \<times> u16 \<times> parameter_id \<Rightarrow> bool" where
  "range_before l r \<longleftrightarrow> fst (snd l) < fst r"

lemma find_overlap_None:
  "find_overlap rs = None \<Longrightarrow> sorted rs \<Longrightarrow> \<forall>(s, e, i) \<in> set rs. s \<le> e \<Longrightarrow> sorted_wrt range_before rs"
proof (induction rs rule: find_overlap.induct)
  case (1 ls le li rs re ri rest)
  then have lt: "le < rs" and tail: "sorted_wrt range_before ((rs, re, ri) # rest)"
    by (auto split: if_splits)
  have "le < s" if "(s, e, i) \<in> set rest" for s e i
    using that 1(3) lt by (auto simp: less_eq_prod_def intro: less_le_trans less_trans)
  then have "\<forall>r \<in> set rest. range_before (ls, le, li) r" by (auto simp: range_before_def)
  moreover have "range_before (ls, le, li) (rs, re, ri)" using lt by (simp add: range_before_def)
  ultimately show ?case using tail by simp
qed auto

definition blocks_disjoint :: "register_block \<Rightarrow> register_block \<Rightarrow> bool" where
  "blocks_disjoint a b \<longleftrightarrow>
     unat (rb_start a) + unat (rb_count a) \<le> unat (rb_start b) \<or> unat (rb_start b) + unat (rb_count b) \<le> unat (rb_start a)"

lemma those_None: "those xs = None \<longleftrightarrow> None \<in> set xs"
proof (induction xs)
  case (Cons x xs)
  then show ?case by (cases x) auto
qed simp

lemma validate_table_overlaps_Ok:
  assumes "validate_table_overlaps ps table = Some (Ok u)" and "\<forall>p \<in> set (map snd ps). block_ok p"
    and "distinct (map (vp_id \<circ> snd) ps)"
    and "p \<in> set (map snd ps)" "q \<in> set (map snd ps)" "rb_table (vp_block p) = table" "rb_table (vp_block q) = table"
    and "vp_id p \<noteq> vp_id q"
  shows "blocks_disjoint (vp_block p) (vp_block q)"
proof -
  let ?ps = "filter (\<lambda>p. rb_table (vp_block p) = table) (map snd ps)"
  from assms(1) obtain rs where those: "those (map parameter_range ?ps) = Some rs"
    and "(case find_overlap (sort rs) of Some (l, r) \<Rightarrow> Err (ProfileInvalid ''parameters'' (RegisterOverlap l r))
       | None \<Rightarrow> Ok ()) = Ok u"
    unfolding validate_table_overlaps_def map_option_eq_Some by blast
  then have none: "find_overlap (sort rs) = None" by (simp split: option.splits prod.splits)
  from those have rs: "map parameter_range ?ps = map Some rs" unfolding those_Some .
  have range: "\<exists>s e. parameter_range x = Some (s, e, vp_id x) \<and> (s, e, vp_id x) \<in> set rs \<and> s = rb_start (vp_block x) \<and>
      unat e + 1 = unat (rb_start (vp_block x)) + unat (rb_count (vp_block x))" if "x \<in> set ?ps" for x
  proof -
    have "parameter_range x \<in> set (map parameter_range ?ps)" using that unfolding set_map by (rule imageI)
    then have "parameter_range x \<in> Some ` set rs" unfolding rs set_map .
    then obtain s e i where "parameter_range x = Some (s, e, i)" "(s, e, i) \<in> set rs" by auto
    with parameter_range_Some [OF this(1)] show ?thesis by auto
  qed
  have le: "s \<le> e" if "(s, e, i) \<in> set rs" for s e i
  proof -
    have "Some (s, e, i) \<in> set (map Some rs)" using that by simp
    then have "Some (s, e, i) \<in> parameter_range ` set ?ps" unfolding rs [symmetric] set_map .
    then obtain x where "Some (s, e, i) = parameter_range x" and "x \<in> set ?ps" by (rule imageE)
    then have x: "x \<in> set ?ps" "parameter_range x = Some (s, e, i)" by simp_all
    then have "block_ok x" using assms(2) by auto
    then have "0 < unat (rb_count (vp_block x))" using register_width_bounds by (simp add: block_ok_def)
    with parameter_range_Some [OF x(2)] show ?thesis by (simp add: word_le_nat_alt)
  qed
  have pw: "sorted_wrt range_before (sort rs)"
    by (rule find_overlap_None [OF none]) (use le in auto)
  from range [of p] range [of q] assms(4-7) obtain sp ep sq eq where
    p: "(sp, ep, vp_id p) \<in> set (sort rs)" "sp = rb_start (vp_block p)"
      "unat ep + 1 = unat (rb_start (vp_block p)) + unat (rb_count (vp_block p))" and
    q: "(sq, eq, vp_id q) \<in> set (sort rs)" "sq = rb_start (vp_block q)"
      "unat eq + 1 = unat (rb_start (vp_block q)) + unat (rb_count (vp_block q))"
    by fastforce
  from p(1) q(1) obtain a b where ab: "a < length (sort rs)" "sort rs ! a = (sp, ep, vp_id p)"
    "b < length (sort rs)" "sort rs ! b = (sq, eq, vp_id q)"
    by (meson in_set_conv_nth)
  moreover have "a \<noteq> b" using ab(2,4) assms(8) by auto
  ultimately have "range_before (sp, ep, vp_id p) (sq, eq, vp_id q) \<or> range_before (sq, eq, vp_id q) (sp, ep, vp_id p)"
    using pw by (metis linorder_neqE_nat sorted_wrt_nth_less)
  then have "ep < sq \<or> eq < sp" by (simp add: range_before_def)
  with p(2,3) q(2,3) show ?thesis by (auto simp: blocks_disjoint_def word_less_nat_alt)
qed

lemma None_in_ranges:
  "None \<in> set (map parameter_range (filter P xs)) \<longleftrightarrow> (\<exists>p \<in> set xs. P p \<and> parameter_range p = None)"
  by (induction xs) auto

lemma validate_table_overlaps_None:
  assumes "\<forall>p \<in> set (map snd ps). block_ok p"
  shows "validate_table_overlaps ps table = None \<longleftrightarrow>
    (\<exists>p \<in> set (map snd ps). rb_table (vp_block p) = table \<and> last_register p)"
  unfolding validate_table_overlaps_def option.map_disc_iff those_None None_in_ranges
  using assms parameter_range_None by blast

end
