(* ===== verification/Profile_Properties.thy ===== *)
theory Profile_Properties
  imports Profile_Facts Poll_Properties
begin

text \<open>
  What an accepted profile document is worth: sound parameters with disjoint register ranges,
  references that resolve, an unambiguous drive state, and a poll planner that cannot fail on it; and
  the documents on which the validation itself panics.
\<close>

subsection \<open>The stages of validation\<close>

lemma validate_profile_OkD:
  assumes "validate_profile E d h = Some (Ok (v, d'))"
  shows "\<exists>i protocol protocol_d ps parameters_d.
    validate_front E d = Ok (i, (protocol, protocol_d), ps, parameters_d) \<and>
    validate_parameter_overlaps ps = Some (Ok ()) \<and>
    finish_profile E (d\<lparr>pd_protocol := protocol_d, pd_parameters := parameters_d\<rparr>) h i protocol ps = Ok (v, d')"
proof (cases "validate_front E d")
  case (Inl e)
  with assms show ?thesis by (simp add: validate_profile_def)
next
  case (Inr f)
  obtain i protocol protocol_d ps parameters_d where f: "f = (i, (protocol, protocol_d), ps, parameters_d)"
    by (metis prod.collapse)
  with Inr assms obtain r where r: "validate_parameter_overlaps ps = Some r"
    "and_then r (\<lambda>_. finish_profile E (d\<lparr>pd_protocol := protocol_d, pd_parameters := parameters_d\<rparr>) h i protocol ps) = Ok (v, d')"
    by (auto simp: validate_profile_def)
  with Inr f show ?thesis by (auto simp: and_then_Ok_iff)
qed

lemma validate_front_ok: "validate_front E d = Ok (i, protocol, ps, ds) \<Longrightarrow> parameters_ok E ps"
  by (auto simp: validate_front_def and_then_Ok_iff dest: validate_parameters_ok)

text \<open>What the last stage yields, part by part.\<close>

lemma finish_profile_Ok:
  assumes "finish_profile E d h i protocol ps = Ok (v, d')"
  shows "vdp_parameters v = ps \<and> vdp_protocol v = protocol \<and> validate_aliases d ps = Ok (vdp_aliases v) \<and>
    validate_groups d ps = Ok (vdp_groups v) \<and>
    validate_drive_state_source d ps = Ok (vdp_drive_state_source v) \<and>
    validate_faults d ps = Ok (vdp_fault_source v, vdp_faults v) \<and>
    validate_presets d ps = Ok (vdp_presets v) \<and> validate_restore_order d ps = Ok (vdp_restore_order v) \<and>
    (\<exists>probes. validate_probes d = Ok probes \<and> vdp_probes v = map fst probes)"
  using assms by (auto simp: finish_profile_def Let_def and_then_Ok_iff)

definition registers_disjoint :: "'d parameters \<Rightarrow> bool" where
  "registers_disjoint ps \<longleftrightarrow>
     (\<forall>(k, p) \<in> set ps. \<forall>(l, q) \<in> set ps. k \<noteq> l \<and> rb_table (vp_block p) = rb_table (vp_block q) \<longrightarrow>
        blocks_disjoint (vp_block p) (vp_block q))"

lemma parameters_blocks_ok: "parameters_ok E ps \<Longrightarrow> \<forall>p \<in> set (map snd ps). block_ok p"
  by (auto simp: parameters_ok_def parameter_ok_def)

lemma parameters_ok_id: "parameters_ok E ps \<Longrightarrow> (k, p) \<in> set ps \<Longrightarrow> vp_id p = k"
  by (fastforce simp: parameters_ok_def)

lemma parameters_ids_distinct: "parameters_ok E ps \<Longrightarrow> distinct (map (vp_id \<circ> snd) ps)"
proof -
  assume ok: "parameters_ok E ps"
  then have "map (vp_id \<circ> snd) ps = map fst ps" by (auto simp: parameters_ok_def)
  moreover have "distinct (map fst ps)" using ok by (auto simp: parameters_ok_def dest: bt_wf_distinct)
  ultimately show ?thesis by metis
qed

lemma validate_parameter_overlaps_Ok:
  assumes "validate_parameter_overlaps ps = Some (Ok u)" and "parameters_ok E ps"
  shows "registers_disjoint ps \<and> (\<forall>p \<in> set (map snd ps). \<not> last_register p)"
proof -
  note ok = parameters_blocks_ok [OF assms(2)] and ids = parameters_ids_distinct [OF assms(2)]
  from assms(1) obtain r where r: "validate_table_overlaps ps InputRegisters = Some r"
    "(case r of Inl e \<Rightarrow> Some (Inl e) | Inr _ \<Rightarrow> validate_table_overlaps ps HoldingRegisters) = Some (Ok u)"
    unfolding validate_parameter_overlaps_def Option.bind_eq_Some_conv by blast
  then obtain u1 where "r = Ok u1" "validate_table_overlaps ps HoldingRegisters = Some (Ok u)"
    by (cases r) simp_all
  with r(1) have t: "\<exists>u. validate_table_overlaps ps table = Some (Ok u)" for table by (cases table) auto
  have "\<not> last_register p" if "p \<in> set (map snd ps)" for p
    using t [of "rb_table (vp_block p)"] validate_table_overlaps_None [OF ok, of "rb_table (vp_block p)"] that by auto
  moreover have "blocks_disjoint (vp_block p) (vp_block q)"
    if "(k, p) \<in> set ps" "(l, q) \<in> set ps" "k \<noteq> l" "rb_table (vp_block p) = rb_table (vp_block q)" for k p l q
  proof -
    obtain u where "validate_table_overlaps ps (rb_table (vp_block q)) = Some (Ok u)" using t by blast
    moreover have "vp_id p \<noteq> vp_id q"
      using parameters_ok_id [OF assms(2) that(1)] parameters_ok_id [OF assms(2) that(2)] that(3) by simp
    moreover have "p \<in> set (map snd ps)" "q \<in> set (map snd ps)" using that by force+
    ultimately show ?thesis using validate_table_overlaps_Ok [OF _ ok ids] that(4) by blast
  qed
  ultimately show ?thesis by (auto simp: registers_disjoint_def)
qed

lemma validated_readable:
  assumes "parameters_ok E ps" and "\<forall>p \<in> set (map snd ps). \<not> last_register p" and "bt_get ps k = Some p"
  shows "readable_block (vp_block p)"
proof -
  have p: "p \<in> set (map snd ps)" using assms(3) by (force dest: map_of_SomeD)
  with parameters_blocks_ok [OF assms(1)] assms(2) have "block_ok p" "\<not> last_register p" by auto
  with register_width_bounds [of "rc_encoding (vp_codec p)"] show ?thesis
    by (auto simp: block_ok_def last_register_def readable_block_def block_last_def)
qed

lemma validated_profile_blocks:
  assumes "validate_profile E d h = Some (Ok (v, d'))"
  shows "parameters_ok E (vdp_parameters v)" and "registers_disjoint (vdp_parameters v)" and "profile_keyed v"
    and "\<forall>k p. profile_parameter v k = Some p \<longrightarrow> readable_block (vp_block p)"
proof -
  from validate_profile_OkD [OF assms] obtain i protocol pd ps ds where
    f: "validate_front E d = Ok (i, (protocol, pd), ps, ds)" "validate_parameter_overlaps ps = Some (Ok ())"
    and fin: "finish_profile E (d\<lparr>pd_protocol := pd, pd_parameters := ds\<rparr>) h i protocol ps = Ok (v, d')" by blast
  have ps: "vdp_parameters v = ps" using finish_profile_Ok [OF fin] by blast
  note ok = validate_front_ok [OF f(1)]
  note over = validate_parameter_overlaps_Ok [OF f(2) ok]
  show "parameters_ok E (vdp_parameters v)" "registers_disjoint (vdp_parameters v)" using ok over ps by simp_all
  show "profile_keyed v" using ok by (auto simp: profile_keyed_def ps parameters_ok_def)
  show "\<forall>k p. profile_parameter v k = Some p \<longrightarrow> readable_block (vp_block p)"
    using validated_readable [OF ok] over by (simp add: profile_parameter_def ps)
qed

text \<open>
  C8. Every accepted profile is sound. Its parameters are keyed by their own identifiers, their codes are
  unique, each block is as wide as its encoding, a parameter is writable exactly when it names a write
  function and then lies in the holding registers within that function's limit, limits are ordered and
  only on fixed-point numbers, forbidden and accepted raw values decode with the parameter's codec, and
  the read-back policy fits the encoding; no two parameters of a table share a register.
\<close>
theorem validated_profile_is_sound:
  assumes "validate_profile E d h = Some (Ok (v, d'))"
  shows "parameters_ok E (vdp_parameters v) \<and> registers_disjoint (vdp_parameters v) \<and> profile_keyed v \<and>
    (\<forall>k p. profile_parameter v k = Some p \<longrightarrow> readable_block (vp_block p))"
  using validated_profile_blocks [OF assms] by blast

text \<open>
  C10. An accepted profile can always be polled: for any subscriptions, configuration and instant, the
  planner answers without a panic, and the only error it can return is a due time beyond the clock. The
  panic that a block at the last register would cause in the planner is excluded by the validation.
\<close>
theorem validated_profile_is_pollable:
  assumes "validate_profile E d h = Some (Ok (v, d'))"
  shows "\<exists>r. build_plan version v subs config now = Some r \<and> (\<forall>e. r = Err e \<longrightarrow> e = TimeOverflow)"
  by (rule poll_planner_is_total [OF validated_profile_blocks(3,4) [OF assms]])

subsection \<open>References\<close>

definition ids_known :: "'d parameters \<Rightarrow> parameter_id list \<Rightarrow> bool" where
  "ids_known ps ids \<longleftrightarrow> distinct ids \<and> (\<forall>i \<in> set ids. bt_get ps i \<noteq> None)"

lemma validate_parameter_references_Ok:
  assumes "validate_parameter_references values ps p = Ok ids"
  shows "ids_known ps ids"
proof -
  from assms obtain seen where w: "try_walk (validate_reference ps p) {} 0 values = Ok (ids, seen)"
    by (auto simp: validate_parameter_references_def and_then_Ok_iff)
  have "bt_get ps i \<noteq> None" if "i \<in> set ids" for i
    using try_walk_Ok [OF w] that by (fastforce simp: validate_reference_def and_then_Ok_iff)
  with references.walk_distinct [OF w] show ?thesis by (simp add: ids_known_def)
qed

lemma validate_groups_Ok:
  assumes "validate_groups d ps = Ok gs"
  shows "distinct (map vpg_id gs) \<and> (\<forall>g \<in> set gs. ids_known ps (vpg_parameters g))"
proof -
  from assms obtain seen where w: "try_walk (validate_group ps) {} 0 (pd_groups d) = Ok (gs, seen)"
    by (auto simp: validate_groups_def and_then_Ok_iff)
  have "ids_known ps (vpg_parameters g)" if "g \<in> set gs" for g
    using try_walk_Ok [OF w] that
    by (fastforce simp: validate_group_def Let_def and_then_Ok_iff dest: validate_parameter_references_Ok)
  with groups.walk_distinct [OF w] show ?thesis by blast
qed

lemma validate_presets_Ok:
  assumes "validate_presets d ps = Ok ts"
  shows "distinct (map vtp_id ts) \<and> length ts \<le> MAX_PRESETS \<and>
    (\<forall>t \<in> set ts. ids_known ps (vtp_parameters t) \<and> length (vtp_parameters t) \<le> 8)"
proof -
  from assms obtain seen where w: "try_walk (validate_preset ps) {} 0 (pd_telemetry_presets d) = Ok (ts, seen)"
    and len: "length (pd_telemetry_presets d) \<le> MAX_PRESETS"
    by (auto simp: validate_presets_def and_then_Ok_iff)
  have "ids_known ps (vtp_parameters t) \<and> length (vtp_parameters t) \<le> 8" if "t \<in> set ts" for t
  proof -
    from try_walk_Ok [OF w] that obtain seen k x seen' where "validate_preset ps seen k x = Ok (t, seen')" by blast
    then obtain p where x: "validate_parameter_references (tpd_parameters x) ps p = Ok (vtp_parameters t)"
      "length (tpd_parameters x) \<le> 8"
      by (auto simp: validate_preset_def Let_def and_then_Ok_iff)
    from x(1) obtain sn where "try_walk (validate_reference ps p) {} 0 (tpd_parameters x) = Ok (vtp_parameters t, sn)"
      by (auto simp: validate_parameter_references_def and_then_Ok_iff)
    from try_walk_Ok [OF this] x validate_parameter_references_Ok [OF x(1)] show ?thesis by simp
  qed
  with presets.walk_distinct [OF w] try_walk_Ok [OF w] len show ?thesis by simp
qed

lemma validate_restore_order_Ok:
  assumes "validate_restore_order d ps = Ok ids"
  shows "ids_known ps ids \<and> (\<forall>i \<in> set ids. \<forall>p. bt_get ps i = Some p \<longrightarrow> vp_access p \<noteq> ReadOnly)"
proof -
  from assms obtain us where r: "validate_parameter_references (pd_restore_order d) ps ''restore_order'' = Ok ids"
    and m: "try_map (\<lambda>i pid. reject (map_option vp_access (bt_get ps pid) = Some ReadOnly)
         (at_index ''restore_order'' i) ReadOnlyRestore) 0 ids = Ok us"
    by (auto simp: validate_restore_order_def and_then_Ok_iff)
  have "vp_access p \<noteq> ReadOnly" if "i \<in> set ids" "bt_get ps i = Some p" for i p
    using try_map_all [OF m that(1)] that(2) by simp
  with validate_parameter_references_Ok [OF r] show ?thesis by blast
qed

lemma validate_aliases_Ok:
  assumes "validate_aliases d ps = Ok as" and "(name, target) \<in> set as"
  shows "bt_get ps target \<noteq> None"
proof -
  from assms(1) obtain es where es: "try_map (\<lambda>_. validate_alias ps) 0 (pd_aliases d) = Ok es" "insert_all es = as"
    unfolding validate_aliases_def and_then_Ok_iff sum.inject by blast
  have "(name, target) \<in> set es" using assms(2) unfolding es(2) [symmetric] by (rule insert_all_subset)
  with try_map_Ok [OF es(1)] obtain x where x: "validate_alias ps x = Ok (name, target)" by blast
  obtain a b where "x = (a, b)" by fastforce
  with x show ?thesis by (auto simp: validate_alias_def Let_def and_then_Ok_iff)
qed

definition drive_source_ok :: "'d parameters \<Rightarrow> validated_drive_state_source \<Rightarrow> bool" where
  "drive_source_ok ps s \<longleftrightarrow>
     dss_stopped_raw s \<noteq> [] \<and> distinct (dss_stopped_raw s @ dss_running_raw s @ dss_faulted_raw s) \<and>
     (\<exists>p. bt_get ps (dss_parameter_id s) = Some p \<and>
        (\<forall>raw \<in> set (dss_stopped_raw s @ dss_running_raw s @ dss_faulted_raw s). length raw = unat (rb_count (vp_block p))))"

lemma validate_drive_state_source_Ok:
  assumes "validate_drive_state_source d ps = Ok s"
  shows "case s of None \<Rightarrow> \<not> writable_needs_stopped ps | Some src \<Rightarrow> drive_source_ok ps src"
proof (cases "pd_drive_state_source d")
  case None
  with assms show ?thesis by (auto simp: validate_drive_state_source_def and_then_Ok_iff)
next
  case (Some source)
  let ?f = "\<lambda>p name. validate_drive_state_value (unat (rb_count (vp_block p))) (''drive_state_source.'' @ name)"
  from assms Some obtain pid p st s1 ru s2 fa s3 where
    p: "bt_get ps pid = Some p"
    and w1: "try_walk (?f p ''stopped_raw'') {} 0 (dsd_stopped_raw source) = Ok (st, s1)"
    and w2: "try_walk (?f p ''running_raw'') s1 0 (dsd_running_raw source) = Ok (ru, s2)"
    and w3: "try_walk (?f p ''faulted_raw'') s2 0 (dsd_faulted_raw source) = Ok (fa, s3)"
    and s: "st \<noteq> []" "s = Some \<lparr>dss_parameter_id = pid, dss_stopped_raw = st, dss_running_raw = ru, dss_faulted_raw = fa\<rparr>"
    by (auto simp: validate_drive_state_source_def Let_def and_then_Ok_iff)
  have "length raw = unat (rb_count (vp_block p))" if "raw \<in> set st \<or> raw \<in> set ru \<or> raw \<in> set fa" for raw
    using try_walk_Ok [OF w1] try_walk_Ok [OF w2] try_walk_Ok [OF w3] that
    by (fastforce simp: validate_drive_state_value_def and_then_Ok_iff)
  moreover have "distinct (st @ ru @ fa)"
    using drive_values.walk [OF w1] drive_values.walk [OF w2] drive_values.walk [OF w3] by auto
  ultimately show ?thesis using p s by (auto simp: drive_source_ok_def)
qed

text \<open>
  C9. The drive state of an accepted profile is unambiguous. Every raw value that the profile lists
  belongs to exactly one class, has the width of its source parameter, and is classified as listed;
  everything else is the unknown state. A profile with a parameter that may be written only while the
  drive is stopped names such a source, with at least one value that means stopped.
\<close>
theorem validated_drive_state_is_unambiguous:
  assumes "validate_profile E d h = Some (Ok (v, d'))"
  shows "(\<forall>s. vdp_drive_state_source v = Some s \<longrightarrow> drive_source_ok (vdp_parameters v) s \<and>
      (\<forall>raw. classify s raw =
         (if raw \<in> set (dss_faulted_raw s) then Faulted else if raw \<in> set (dss_running_raw s) then Running
          else if raw \<in> set (dss_stopped_raw s) then Stopped else UnknownState))) \<and>
    (writable_needs_stopped (vdp_parameters v) \<longrightarrow> vdp_drive_state_source v \<noteq> None)"
proof -
  from validate_profile_OkD [OF assms] obtain i protocol pd ps ds where
    fin: "finish_profile E (d\<lparr>pd_protocol := pd, pd_parameters := ds\<rparr>) h i protocol ps = Ok (v, d')" by blast
  from finish_profile_Ok [OF fin] have ps: "vdp_parameters v = ps"
    and src: "validate_drive_state_source (d\<lparr>pd_protocol := pd, pd_parameters := ds\<rparr>) ps = Ok (vdp_drive_state_source v)"
    by blast+
  note ok = validate_drive_state_source_Ok [OF src]
  show ?thesis
    unfolding ps using ok
    by (auto simp: drive_source_ok_def classify_def split: option.splits)
qed

subsection \<open>Faults\<close>

lemma power_of_two_nat: "0 < n \<Longrightarrow> n AND (n - 1) = 0 \<Longrightarrow> \<exists>k. n = 2 ^ k" for n :: nat
proof (induction n rule: less_induct)
  case (less n)
  show ?case
  proof (cases "even n")
    case True
    then obtain m where m: "n = 2 * m" by blast
    with less.prems(1) have "0 < m" by simp
    then have "n - 1 = 2 * (m - 1) + 1" using m by simp
    with less.prems(2) m have "m AND (m - 1) = 0"
      using and_rec [of n "n - 1"] by simp
    with less.IH [of m] m \<open>0 < m\<close> obtain k where "m = 2 ^ k" by auto
    with m show ?thesis by (intro exI [of _ "Suc k"]) simp
  next
    case False
    then obtain m where m: "n = 2 * m + 1" by (rule oddE)
    with less.prems(2) have "m AND m = 0" using and_rec [of n "n - 1"] by simp
    with m show ?thesis by (intro exI [of _ 0]) simp
  qed
qed

lemma is_power_of_two_power: "is_power_of_two w \<Longrightarrow> \<exists>k. unat w = 2 ^ k"
proof -
  assume w: "is_power_of_two w"
  then have "unat (w AND (w - 1)) = 0" and "0 < unat w" by (auto simp: is_power_of_two_def unat_gt_0)
  moreover from w have "unat (w - 1) = unat w - 1"
    by (simp add: is_power_of_two_def unat_minus_one)
  ultimately show ?thesis using power_of_two_nat [of "unat w"] by (simp add: unsigned_and_eq)
qed

text \<open>
  The source of the faults is a parameter with an integer encoding, a bit field exactly for a set of
  bits, and the value for no fault is one that it can hold, zero for a set of bits.
\<close>

definition fault_source_ok :: "'d parameters \<Rightarrow> validated_fault_source \<Rightarrow> bool" where
  "fault_source_ok ps s \<longleftrightarrow>
     (\<exists>p. bt_get ps (vfs_parameter_id s) = Some p \<and> rc_encoding (vp_codec p) \<notin> {Float32, Float64} \<and>
        unat (vfs_no_fault s) < 2 ^ (16 * register_width (rc_encoding (vp_codec p))) \<and>
        (vfs_kind s = BitSet \<longleftrightarrow> rc_encoding (vp_codec p) \<in> {Bitfield16, Bitfield32, Bitfield64}) \<and>
        (vfs_kind s = BitSet \<longrightarrow> vfs_no_fault s = 0))"

text \<open>
  A fault is a value that fits the registers of the source, is not the value for no fault, and is one
  single bit for a set of bits; its freeze frame names at most 64 parameters.
\<close>

definition fault_ok :: "'d parameters \<Rightarrow> validated_fault_source \<Rightarrow> validated_fault_definition \<Rightarrow> bool" where
  "fault_ok ps s f \<longleftrightarrow>
     (\<exists>p. bt_get ps (vfs_parameter_id s) = Some p \<and>
        unat (vfd_raw f) < 2 ^ (16 * register_width (rc_encoding (vp_codec p)))) \<and>
     vfd_raw f \<noteq> vfs_no_fault s \<and> (vfs_kind s = BitSet \<longrightarrow> (\<exists>k. unat (vfd_raw f) = 2 ^ k)) \<and>
     ids_known ps (vfd_freeze_frame f) \<and> length (vfd_freeze_frame f) \<le> 64"

lemma maximum_raw_fits: "unat (w :: u64) \<le> maximum_raw n \<Longrightarrow> unat w < 2 ^ n"
proof (cases "64 \<le> n")
  case True
  have "unat w < 2 ^ 64" using unsigned_less [of w] by simp
  also have "\<dots> \<le> 2 ^ n" using True by (intro power_increasing) simp_all
  finally show ?thesis .
next
  case False
  moreover assume "unat w \<le> maximum_raw n"
  ultimately have "unat w \<le> 2 ^ n - 1" by (simp add: maximum_raw_def)
  then show ?thesis by (rule le_less_trans) simp
qed

lemma validate_fault_source_Ok:
  assumes "validate_fault_source ps d = Ok s" shows "fault_source_ok ps s"
proof -
  from assms obtain p n where p: "bt_get ps (vfs_parameter_id s) = Some p" "fault_width_bits (rc_encoding (vp_codec p)) = Some n"
    "unat (vfs_no_fault s) \<le> maximum_raw n" "vfs_kind s = BitSet \<longleftrightarrow> is_bitfield_encoding (rc_encoding (vp_codec p))"
    "vfs_kind s = BitSet \<longrightarrow> vfs_no_fault s = 0"
    by (cases "fosd_kind d") (auto simp: validate_fault_source_def Let_def and_then_Ok_iff)
  from p(2,4) show ?thesis
    using p(1,5) maximum_raw_fits [OF p(3)]
    by (cases "rc_encoding (vp_codec p)")
      (auto simp: fault_source_ok_def fault_width_bits_def is_float_encoding_def is_bitfield_encoding_def)
qed

lemma validate_fault_raw_Ok:
  assumes "validate_fault_raw ps s p raw = Ok ()" and "fault_source_ok ps s"
  shows "(\<exists>q. bt_get ps (vfs_parameter_id s) = Some q \<and> unat raw < 2 ^ (16 * register_width (rc_encoding (vp_codec q)))) \<and>
    raw \<noteq> vfs_no_fault s \<and> (vfs_kind s = BitSet \<longrightarrow> (\<exists>k. unat raw = 2 ^ k))"
proof -
  from assms(2) obtain q where q: "bt_get ps (vfs_parameter_id s) = Some q" "rc_encoding (vp_codec q) \<notin> {Float32, Float64}"
    by (auto simp: fault_source_ok_def)
  then have "fault_width_bits (rc_encoding (vp_codec q)) = Some (16 * register_width (rc_encoding (vp_codec q)))"
    by (cases "rc_encoding (vp_codec q)") (simp_all add: fault_width_bits_def is_float_encoding_def)
  with assms(1) q(1) show ?thesis
    using maximum_raw_fits is_power_of_two_power
    by (auto simp: validate_fault_raw_def Let_def and_then_Ok_iff)
qed

lemma validate_faults_Ok:
  assumes "validate_faults d ps = Ok (source, fs)"
  shows "bt_wf fs \<and> (\<forall>s. source = Some s \<longrightarrow> fault_source_ok ps s) \<and> (source = None \<longrightarrow> fs = []) \<and>
    (\<forall>(raw, f) \<in> set fs. vfd_raw f = raw \<and> (\<forall>s. source = Some s \<longrightarrow> fault_ok ps s f))"
proof -
  from assms obtain defs codes where
    w: "try_walk (validate_fault ps source) {} 0 (pd_faults d) = Ok (defs, codes)"
    and src: "map_some (validate_fault_source ps) (pd_fault_source d) = Ok source"
    and some: "\<not> (pd_faults d \<noteq> [] \<and> source = None)"
    and fs: "fs = insert_all (map (\<lambda>f. (vfd_raw f, f)) defs)"
    by (auto simp: validate_faults_def and_then_Ok_iff)
  have source_ok: "fault_source_ok ps s" if "source = Some s" for s
    using src that by (auto simp: map_some_def and_then_Ok_iff intro: validate_fault_source_Ok split: option.splits)
  have def: "fault_ok ps s f" if "f \<in> set defs" "source = Some s" for f s
  proof -
    from try_walk_Ok [OF w] that(1) obtain seen k x seen' where x: "validate_fault ps source seen k x = Ok (f, seen')"
      by blast
    obtain t fd where xt: "x = (t, fd)" by fastforce
    from x [unfolded xt validate_fault_def Let_def] that(2)
    have "validate_fault_raw ps s (''faults.'' @ t) (vfd_raw f) = Ok ()"
      "validate_parameter_references (fdd_freeze_frame fd) ps ((''faults.'' @ t) @ ''.freeze_frame'') = Ok (vfd_freeze_frame f)"
      "length (vfd_freeze_frame f) \<le> 64"
      by (auto simp: and_then_Ok_iff)
    with validate_fault_raw_Ok [OF this(1) source_ok [OF that(2)]] show ?thesis
      using validate_parameter_references_Ok by (simp add: fault_ok_def) blast
  qed
  have "fs = []" if "source = None" using some that w by (auto simp: fs insert_all_def)
  moreover have "vfd_raw f = raw \<and> f \<in> set defs" if "(raw, f) \<in> set fs" for raw f
    using insert_all_subset that unfolding fs by fastforce
  ultimately show ?thesis using insert_all_wf def source_ok unfolding fs [symmetric] by (auto simp: fs)
qed

lemma validated_faults:
  assumes "validate_profile E d h = Some (Ok (v, d'))"
  shows "bt_wf (vdp_faults v) \<and> (\<forall>s. vdp_fault_source v = Some s \<longrightarrow> fault_source_ok (vdp_parameters v) s) \<and>
    (vdp_fault_source v = None \<longrightarrow> vdp_faults v = []) \<and>
    (\<forall>(raw, f) \<in> set (vdp_faults v). vfd_raw f = raw \<and> (\<forall>s. vdp_fault_source v = Some s \<longrightarrow> fault_ok (vdp_parameters v) s f))"
proof -
  from validate_profile_OkD [OF assms] obtain i protocol pd ps ds where
    "finish_profile E (d\<lparr>pd_protocol := pd, pd_parameters := ds\<rparr>) h i protocol ps = Ok (v, d')" by blast
  from finish_profile_Ok [OF this] obtain dd where ps: "vdp_parameters v = ps"
    and faults: "validate_faults dd ps = Ok (vdp_fault_source v, vdp_faults v)" by blast
  show ?thesis unfolding ps using validate_faults_Ok [OF faults] .
qed

text \<open>
  C11. The references of an accepted profile resolve. Groups, presets, the restore order, freeze frames and
  aliases name parameters of the profile, without duplicates and within their limits; nothing in the
  restore order is read-only; faults are defined only with a source, whose encoding is an integer of the
  right kind, and each defined fault is a value that fits the registers of this source, is not the value
  for no fault, and is a single bit when the source is a set of bits.
\<close>
theorem validated_references_resolve:
  assumes "validate_profile E d h = Some (Ok (v, d'))"
  shows "(\<forall>g \<in> set (vdp_groups v). ids_known (vdp_parameters v) (vpg_parameters g)) \<and>
    (\<forall>t \<in> set (vdp_presets v). ids_known (vdp_parameters v) (vtp_parameters t) \<and> length (vtp_parameters t) \<le> 8) \<and>
    ids_known (vdp_parameters v) (vdp_restore_order v) \<and>
    (\<forall>i \<in> set (vdp_restore_order v). \<forall>p. profile_parameter v i = Some p \<longrightarrow> vp_access p \<noteq> ReadOnly) \<and>
    (\<forall>(name, target) \<in> set (vdp_aliases v). profile_parameter v target \<noteq> None) \<and>
    (vdp_fault_source v = None \<longrightarrow> vdp_faults v = []) \<and>
    (\<forall>s. vdp_fault_source v = Some s \<longrightarrow> fault_source_ok (vdp_parameters v) s \<and>
       (\<forall>(raw, f) \<in> set (vdp_faults v). vfd_raw f = raw \<and> fault_ok (vdp_parameters v) s f))"
proof -
  from validate_profile_OkD [OF assms] obtain i protocol pd ps ds where
    fin: "finish_profile E (d\<lparr>pd_protocol := pd, pd_parameters := ds\<rparr>) h i protocol ps = Ok (v, d')" by blast
  from finish_profile_Ok [OF fin] obtain dd where ps: "vdp_parameters v = ps" and parts:
    "validate_aliases dd ps = Ok (vdp_aliases v)" "validate_groups dd ps = Ok (vdp_groups v)"
    "validate_faults dd ps = Ok (vdp_fault_source v, vdp_faults v)"
    "validate_presets dd ps = Ok (vdp_presets v)" "validate_restore_order dd ps = Ok (vdp_restore_order v)"
    by blast
  show ?thesis
    unfolding profile_parameter_def ps
    using validate_groups_Ok [OF parts(2)] validate_presets_Ok [OF parts(4)] validate_restore_order_Ok [OF parts(5)]
      validate_aliases_Ok [OF parts(1)] validate_faults_Ok [OF parts(3)]
    by (intro conjI) blast+
qed

subsection \<open>Where validation panics\<close>

text \<open>
  C12. Validation panics on exactly the documents whose front part (header, protocol and parameters) is
  acceptable and that have a parameter whose block ends at the last address, 65535: the overlap check
  asks \<open>RegisterBlock::end\<close> for it. (A holding register there escapes notice only when the input
  registers already overlap.) Every other document is answered by a profile or by an error.
\<close>
theorem profile_validation_panics_at_last_register:
  "validate_profile E d h = None \<longleftrightarrow>
     (\<exists>i protocol ps ds. validate_front E d = Ok (i, protocol, ps, ds) \<and>
        (\<exists>p \<in> set (map snd ps). last_register p \<and>
          (rb_table (vp_block p) = InputRegisters \<or> validate_table_overlaps ps InputRegisters = Some (Ok ()))))"
proof (cases "validate_front E d")
  case (Inl e)
  then show ?thesis by (simp add: validate_profile_def)
next
  case (Inr f)
  obtain i protocol protocol_d ps ds where f: "f = (i, (protocol, protocol_d), ps, ds)" by (metis prod.collapse)
  have front: "validate_front E d = Ok (i, (protocol, protocol_d), ps, ds)" using Inr f by simp
  note ok = parameters_blocks_ok [OF validate_front_ok [OF front]]
  have table: "rb_table (vp_block p) = InputRegisters \<or> rb_table (vp_block p) = HoldingRegisters" for p :: "'a validated_parameter"
    by (cases "rb_table (vp_block p)") simp_all
  have "validate_profile E d h = None \<longleftrightarrow> validate_parameter_overlaps ps = None"
    by (simp add: validate_profile_def front)
  also have "\<dots> \<longleftrightarrow> validate_table_overlaps ps InputRegisters = None \<or>
      (validate_table_overlaps ps InputRegisters = Some (Ok ()) \<and> validate_table_overlaps ps HoldingRegisters = None)"
    by (auto simp: validate_parameter_overlaps_def Option.bind_eq_None_conv split: sum.splits)
  also have "\<dots> \<longleftrightarrow> (\<exists>p \<in> set (map snd ps). last_register p \<and>
          (rb_table (vp_block p) = InputRegisters \<or> validate_table_overlaps ps InputRegisters = Some (Ok ())))"
    unfolding validate_table_overlaps_None [OF ok]
    using validate_table_overlaps_None [OF ok, of InputRegisters] table by (metis option.distinct(1))
  finally show ?thesis using front by auto
qed

end
