(* ===== verification/Profile_Samples.thy ===== *)
theory Profile_Samples
  imports Profile_Properties Poll_Samples
begin

text \<open>
  A small profile document, its validation evaluated, the witnesses of the properties of accepted
  profiles, and the composition of the validation with the poll planner.
\<close>

subsection \<open>A sample document\<close>

definition demo_parameter_document :: "u16 \<Rightarrow> parameter_document" where
  "demo_parameter_document a = \<lparr>pad_id = ''ramp'', pad_code = ''C1'', pad_name = ''Ramp'', pad_description = '''',
     pad_table = DocHoldingRegisters, pad_address = \<lparr>add_notation = PduZeroBased, add_value = ucast a\<rparr>,
     pad_encoding = DocUnsigned16, pad_byte_order = DocBigEndian, pad_word_order = DocMostSignificantFirst,
     pad_scale = None, pad_minimum = None, pad_maximum = None, pad_step = None, pad_forbidden_raw = [[7]],
     pad_enum_values = [], pad_bit_flags = [], pad_quantity = ''unitless'', pad_unit = ''1'',
     pad_access = DocWritableWhenStopped, pad_restore_policy = DocNormal, pad_required_drive_state = DocStopped,
     pad_write_function = Some DocWriteSingleRegister, pad_read_back = None, pad_backup = True,
     pad_do_not_bridge = False, pad_maximum_bridge_gap = 0\<rparr>"

definition demo_protocol_document :: protocol_document where
  "demo_protocol_document = \<lparr>prd_default_baud_rate = 9600, prd_allowed_baud_rates = [], prd_default_parity = DocNone,
     prd_allowed_parities = [], prd_default_data_bits = 8, prd_allowed_data_bits = [], prd_default_stop_bits = 1,
     prd_allowed_stop_bits = [], prd_response_timeout_ms = 500, prd_minimum_inter_frame_delay_us = 0,
     prd_default_slave_id = 1, prd_rs485_mode = DocAdapterManaged\<rparr>"

definition demo_document :: "u16 \<Rightarrow> profile_document" where
  "demo_document a = \<lparr>pd_schema_version = 1, pd_profile_id = ''vfd.a'', pd_revision = 1, pd_vendor = ''v'',
     pd_family = ''f'', pd_model = ''m'', pd_sources = [], pd_safety_notes = [], pd_hardware_verification = None,
     pd_protocol = demo_protocol_document, pd_probes = [], pd_parameters = [demo_parameter_document a], pd_aliases = [],
     pd_groups = [\<lparr>pgd_id = ''g'', pgd_name = ''G'', pgd_parameters = [''ramp'']\<rparr>],
     pd_drive_state_source = Some \<lparr>dsd_parameter_id = ''ramp'', dsd_stopped_raw = [[0]], dsd_running_raw = [[1]],
       dsd_faulted_raw = [[2]]\<rparr>,
     pd_fault_source = None, pd_faults = [], pd_telemetry_presets = [], pd_restore_order = [''ramp'']\<rparr>"

text \<open>The two bytes \<open>[9, 9]\<close> stand for the sample document; the hash pads to 32 bytes.\<close>

definition demo_profile_env :: "rat profile_env" where
  "demo_profile_env = \<lparr>pfe_decimal = rat_decimal, pfe_from_str = (\<lambda>_. None), pfe_sign_negative = (\<lambda>x. x < 0),
     pfe_deserialize = (\<lambda>format bs. if bs = [9, 9] then Ok (demo_document 10) else Err (Deserialize format [] [])),
     pfe_canonical = (\<lambda>_. Ok [1, 2]), pfe_sha256 = (\<lambda>bytes. bytes @ replicate (32 - length bytes) 0)\<rparr>"

definition demo_validated :: "u16 \<Rightarrow> rat validated_parameter" where
  "demo_validated a = \<lparr>vp_id = ''ramp'', vp_code = ''C1'', vp_name = ''Ramp'', vp_description = '''',
     vp_source_address_notation = ''pdu_zero_based'', vp_source_address_value = ucast a, vp_block = demo_block a,
     vp_codec = demo_codec, vp_enum_values = [], vp_bit_flags = [], vp_quantity = Unitless,
     vp_unit = \<lparr>unit_text = ''1'', unit_quantity = Unitless\<rparr>, vp_access = WritableWhenStopped,
     vp_restore_policy = Normal, vp_required_drive_state = RequireStopped,
     vp_write_function = Some WriteSingleRegister, vp_read_back = ExactRaw, vp_minimum = None,
     vp_maximum = None, vp_step = None, vp_forbidden_raw = [[7]], vp_backup = True,
     vp_do_not_bridge = False, vp_maximum_bridge_gap = 0\<rparr>"

lemma demo_texts:
  "parse_id ''ramp'' = Ok ''ramp''" "parse_id ''vfd.a'' = Ok ''vfd.a''"
  "first_control 0 (map of_char ''C1'') = None" "first_control 0 (map of_char ''Ramp'') = None"
  "first_control 0 (map of_char ''v'') = None" "first_control 0 (map of_char ''f'') = None"
  "first_control 0 (map of_char ''m'') = None" "first_control 0 (map of_char ''g'') = None"
  "first_control 0 (map of_char ''G'') = None"
  "quantity_of ''unitless'' p = Ok Unitless"
  "unit_id_new Unitless ''1'' = Ok \<lparr>unit_text = ''1'', unit_quantity = Unitless\<rparr>"
  by code_simp+

lemma demo_text: "first_control 0 (map of_char s) = None \<Longrightarrow> s \<noteq> [] \<Longrightarrow> length s \<le> 4 \<Longrightarrow> validate_text p s False = Ok ()"
  by (simp add: validate_text_def MAX_TEXT_BYTES_def)

lemma demo_text_ok:
  "validate_text p ''C1'' False = Ok ()" "validate_text p ''Ramp'' False = Ok ()" "validate_text p ''v'' False = Ok ()"
  "validate_text p ''f'' False = Ok ()" "validate_text p ''m'' False = Ok ()" "validate_text p ''g'' False = Ok ()"
  "validate_text p ''G'' False = Ok ()" "validate_text p '''' True = Ok ()"
  using demo_texts by (simp_all add: validate_text_def MAX_TEXT_BYTES_def)

lemma u16_bound: "unat a < 65536" for a :: u16
  by (rule order_less_le_trans [OF unsigned_less]) simp

lemma demo_register_block: "register_block_new HoldingRegisters a 1 ReadHoldingRegisters = Ok (demo_block a)"
  by (simp add: register_block_new_def checked_add_word_def demo_block_def u16_bound)

lemma demo_address: "normalize_address HoldingRegisters \<lparr>add_notation = PduZeroBased, add_value = ucast a\<rparr> p = Ok a" for a :: u16
proof -
  have "unat (ucast a :: u32) = unat a" using u16_bound [of a] by (simp add: unsigned_ucast_eq take_bit_nat_eq_self)
  with u16_bound [of a] show ?thesis by (simp add: normalize_address_def Let_def)
qed

lemma demo_codec_new: "register_codec_new Unsigned16 BigEndian MostSignificantFirst None = Ok demo_codec"
  by (simp add: register_codec_new_def demo_codec_def)

lemma demo_validate_parameter:
  "\<exists>d'. validate_parameter demo_profile_env (demo_parameter_document a) i = Ok (demo_validated a, d')"
  by (simp add: validate_parameter_def demo_parameter_document_def Let_def demo_texts demo_text_ok demo_address demo_register_block table_read_function_def
    map_some_def demo_codec_new validate_engineering_constraints_def reject_def parse_optional_decimal_def validate_raw_values_def validate_raw_value_def
    demo_profile_env_def demo_decode raw_at_def raw_registers_new_def validate_editor_metadata_def insert_all_def enum_maximum_def bit_width_def
   validate_write_function_def validate_read_back_def is_float_encoding_def parse_at_def demo_validated_def notation_text_def is_fixed_encoding_def)

lemma demo_front:
  "\<exists>pd ds. validate_front demo_profile_env (demo_document a) = Ok (''vfd.a'', pd, [(''ramp'', demo_validated a)], ds)"
proof -
  obtain d' where d': "validate_parameter demo_profile_env (demo_parameter_document a) 0 = Ok (demo_validated a, d')"
    using demo_validate_parameter by blast
  have "\<exists>pd. validate_protocol demo_protocol_document = Ok pd"
    by (simp add: validate_protocol_def demo_protocol_document_def baud_rate_new_def data_bits_of_def stop_bits_of_def slave_id_new_def Let_def reject_def)
  then obtain pd where pd: "validate_protocol demo_protocol_document = Ok pd" by blast
  show ?thesis
    by (simp add: validate_front_def validate_header_def demo_document_def demo_text_ok demo_texts parse_at_def pd validate_parameters_def
      MAX_PARAMETERS_def reject_def validate_unique_parameter_def d' demo_validated_def insert_all_def)
qed

lemma demo_range: "register_block_end (demo_block a) = (if a = 65535 then None else Some a)"
proof (cases "a = 65535")
  case True
  then show ?thesis by (simp add: register_block_end_def demo_block_def checked_add_word_def)
next
  case False
  have "unat a \<noteq> 65535"
  proof
    assume "unat a = 65535"
    then have "of_nat (unat a) = (of_nat 65535 :: u16)" by simp
    with False show False by simp
  qed
  with u16_bound [of a] have "unat a + 1 < 65536" by linarith
  moreover from this have "unat (a + 1) = unat a + 1" by (simp add: unat_word_ariths)
  ultimately show ?thesis using False
    by (simp add: register_block_end_def demo_block_def checked_add_word_def checked_sub_word_def)
qed

lemma table_demo: "rb_table (demo_block a) = HoldingRegisters"
  by (simp add: demo_block_def)

lemma demo_overlaps:
  "validate_parameter_overlaps [(''ramp'', demo_validated a)] = (if a = 65535 then None else Some (Ok ()))"
  by (simp add: validate_parameter_overlaps_def validate_table_overlaps_def demo_validated_def parameter_range_def demo_range table_demo)

lemma demo_finish:
  "\<exists>v d'. finish_profile demo_profile_env (demo_document a\<lparr>pd_protocol := pd, pd_parameters := ds\<rparr>) h ''vfd.a'' protocol [(''ramp'', demo_validated a)] = Ok (v, d')"
  by (simp add: finish_profile_def demo_document_def Let_def validate_probes_def validate_aliases_def insert_all_def validate_groups_def validate_group_def
    demo_text_ok demo_texts validate_parameter_references_def validate_reference_def parse_at_def validate_drive_state_source_def demo_validated_def demo_block_def
    validate_drive_state_value_def raw_at_def raw_registers_new_def validate_faults_def MAX_FAULTS_def map_some_def validate_presets_def MAX_PRESETS_def validate_restore_order_def
    demo_profile_env_def reject_def ok_or_def)

lemma demo_validates: "a \<noteq> 65535 \<Longrightarrow> \<exists>v d'. validate_profile demo_profile_env (demo_document a) h = Some (Ok (v, d'))"
  using demo_front [of a] demo_finish by (fastforce simp: validate_profile_def demo_overlaps)

lemma demo_panics: "validate_profile demo_profile_env (demo_document 65535) h = None"
  using demo_front [of 65535] by (auto simp: validate_profile_def demo_overlaps)

text \<open>
  Two fault entries whose keys spell the same number, \<open>5\<close> and \<open>05\<close>: both pass, and
  the second silently replaces the first in the map.
\<close>

definition demo_fault :: "string \<Rightarrow> fault_definition_document" where
  "demo_fault fault_code = \<lparr>fdd_code = fault_code, fdd_name = ''Ramp'', fdd_description = ''v'', fdd_severity = DocFault,
     fdd_freeze_frame = []\<rparr>"

lemma demo_keys: "parse_unsigned 18446744073709551615 ''05'' = Some 5" "parse_unsigned 18446744073709551615 ''5'' = Some 5"
  by (simp_all add: parse_unsigned_def parse_digits_def)

lemma fault_keys_collapse:
  assumes "d = (demo_document 10)\<lparr>
      pd_fault_source := Some \<lparr>fosd_kind = DocScalarCode, fosd_parameter_id = ''ramp'', fosd_no_fault = 0\<rparr>,
      pd_faults := [(''05'', demo_fault ''C1''), (''5'', demo_fault ''v'')]\<rparr>"
  shows "\<exists>source f. validate_faults d [(''ramp'', demo_validated 10)] = Ok (source, [(5, f)]) \<and> vfd_code f = ''v''"
proof -
  have e: "rc_encoding demo_codec = Unsigned16" by (simp add: demo_codec_def)
  show ?thesis
    by (simp add: assms validate_faults_def MAX_FAULTS_def reject_def map_some_def validate_fault_source_def parse_at_def demo_texts ok_or_def
      demo_validated_def e fault_width_bits_def is_float_encoding_def maximum_raw_def is_bitfield_encoding_def Let_def
      validate_fault_def demo_keys demo_fault_def validate_fault_text_def demo_text_ok validate_fault_raw_def
      validate_parameter_references_def insert_all_def demo_document_def)
qed

subsection \<open>Witnesses\<close>

lemma validated_profile_is_sound_witness:
  "\<exists>v d'. validate_profile demo_profile_env (demo_document 10) [] = Some (Ok (v, d')) \<and>
     parameters_ok demo_profile_env (vdp_parameters v)"
  using demo_validates [of 10 "[]"] validated_profile_is_sound [of demo_profile_env "demo_document 10" "[]"] by force

lemma validated_profile_is_pollable_witness:
  "\<exists>v d' r. validate_profile demo_profile_env (demo_document 10) [] = Some (Ok (v, d')) \<and>
     build_plan 2 v demo_subscriptions demo_config 5 = Some r"
proof -
  obtain v d' where v: "validate_profile demo_profile_env (demo_document 10) [] = Some (Ok (v, d'))"
    using demo_validates [of 10 "[]"] by auto
  from validated_profile_is_pollable [OF v] show ?thesis using v by blast
qed

lemma validated_drive_state_is_unambiguous_witness:
  "\<exists>v d' s. validate_profile demo_profile_env (demo_document 10) [] = Some (Ok (v, d')) \<and>
     vdp_drive_state_source v = Some s \<and> drive_source_ok (vdp_parameters v) s"
proof -
  obtain v d' where v: "validate_profile demo_profile_env (demo_document 10) [] = Some (Ok (v, d'))"
    using demo_validates [of 10 "[]"] by auto
  obtain pd ds where f: "validate_front demo_profile_env (demo_document 10) = Ok (''vfd.a'', pd, [(''ramp'', demo_validated 10)], ds)"
    using demo_front by blast
  have ps: "vdp_parameters v = [(''ramp'', demo_validated 10)]"
    using validate_profile_OkD [OF v] f finish_profile_Ok by fastforce
  have "writable_needs_stopped (vdp_parameters v)" by (simp add: ps writable_needs_stopped_def demo_validated_def)
  with validated_drive_state_is_unambiguous [OF v] v show ?thesis by blast
qed

lemma validated_references_resolve_witness:
  "\<exists>v d'. validate_profile demo_profile_env (demo_document 10) [] = Some (Ok (v, d')) \<and>
     ids_known (vdp_parameters v) (vdp_restore_order v)"
proof -
  obtain v d' where v: "validate_profile demo_profile_env (demo_document 10) [] = Some (Ok (v, d'))"
    using demo_validates [of 10 "[]"] by auto
  from validated_references_resolve [OF v] v show ?thesis by blast
qed

end
