(* ===== verification/Telemetry_Downsample.thy ===== *)
theory Telemetry_Downsample
  imports Telemetry_State Floats
begin

text \<open>
  The reduction of a history to the width of the terminal (\<open>telemetry/downsample.rs\<close>): min/max
  buckets per run of renderable samples, with every quality gap kept. Indices are those of the whole
  history. A float is its value, so the sign of a rendered zero is not modelled.
\<close>

subsection \<open>Points\<close>

datatype (plugins only: code size) render_history_point =
    RenderValue monotonic_instant f64
  | RenderGap monotonic_instant telemetry_quality

text \<open>The text of a decimal parses as the float nearest to its value.\<close>

definition render_value :: "'d decimal_ops \<Rightarrow> 'd engineering_value \<Rightarrow> f64 option" where
  "render_value D value =
     Option.bind
       (case value of
          Fixed d \<Rightarrow> Some (f64_round (dec_value D d))
        | Float32Bits bits \<Rightarrow> Some (f64_from_f32_bits bits)
        | Float64Bits bits \<Rightarrow> Some (f64_from_bits bits)
        | EnumRaw _ \<Rightarrow> None
        | BitfieldRaw _ \<Rightarrow> None)
       (\<lambda>v. if f64_is_finite v then Some v else None)"

definition renderable_value :: "'d decimal_ops \<Rightarrow> 'd history_point \<Rightarrow> (monotonic_instant \<times> f64) option" where
  "renderable_value D point =
     (case point of
        GapPoint _ _ \<Rightarrow> None
      | SamplePoint sample \<Rightarrow>
          if tsc_quality sample \<noteq> Good then None
          else map_option (\<lambda>value. (tsc_monotonic_time sample, value)) (render_value D (tsc_engineering sample)))"

definition render_gap :: "'d history_point \<Rightarrow> render_history_point" where
  "render_gap point =
     (case point of
        SamplePoint sample \<Rightarrow> RenderGap (tsc_monotonic_time sample) (tsc_quality sample)
      | GapPoint t quality \<Rightarrow> RenderGap t quality)"

definition f64_lt :: "f64 \<Rightarrow> f64 \<Rightarrow> bool" where
  "f64_lt x y \<longleftrightarrow> f64_le x y \<and> \<not> f64_le y x"

subsection \<open>One segment\<close>

type_synonym candidate = "nat \<times> monotonic_instant \<times> f64"
type_synonym selection = "(nat \<times> render_history_point) list"

definition candidates :: "'d decimal_ops \<Rightarrow> nat \<Rightarrow> 'd history_point list \<Rightarrow> candidate list" where
  "candidates D base points =
     List.map_filter (\<lambda>(i, point). map_option (Pair i) (renderable_value D point)) (enumerate base points)"

definition selected_point :: "candidate \<Rightarrow> nat \<times> render_history_point" where
  "selected_point c = (case c of (i, t, v) \<Rightarrow> (i, RenderValue t v))"

text \<open>\<open>keep_best better\<close> is the update of \<open>strongest\<close>, \<open>minimum\<close> and \<open>maximum\<close>.\<close>

definition keep_best :: "(f64 \<Rightarrow> f64 \<Rightarrow> bool) \<Rightarrow> candidate option \<Rightarrow> candidate \<Rightarrow> candidate option" where
  "keep_best better best c =
     (case best of None \<Rightarrow> Some c
      | Some b \<Rightarrow> if better (snd (snd c)) (snd (snd b)) then Some c else best)"

definition best_candidate :: "(f64 \<Rightarrow> f64 \<Rightarrow> bool) \<Rightarrow> candidate list \<Rightarrow> candidate option" where
  "best_candidate better cs = foldl (keep_best better) None cs"

definition bucket_pair :: "'d decimal_ops \<Rightarrow> nat \<Rightarrow> 'd history_point list \<Rightarrow> candidate list" where
  "bucket_pair D base bucket =
     (let cs = candidates D base bucket;
          minimum = best_candidate f64_lt cs;
          maximum = best_candidate (\<lambda>v w. f64_lt w v) cs
      in sort_key fst (List.map_filter id [minimum, maximum]))"

definition push_selected :: "nat \<Rightarrow> selection \<Rightarrow> candidate \<Rightarrow> selection" where
  "push_selected budget selected c =
     (if selected \<noteq> [] \<and> fst (last selected) = fst c then selected
      else if length selected = budget then selected
      else selected @ [selected_point c])"

function chunks :: "nat \<Rightarrow> 'a list \<Rightarrow> 'a list list" where
  "chunks n xs = (if n = 0 \<or> xs = [] then [] else take n xs # chunks n (drop n xs))"
  by pat_completeness auto
termination by (relation "measure (\<lambda>(n, xs). length xs)") auto

declare chunks.simps [simp del]

definition select_buckets ::
  "'d decimal_ops \<Rightarrow> nat \<Rightarrow> nat \<Rightarrow> nat \<Rightarrow> 'd history_point list list \<Rightarrow> selection" where
  "select_buckets D base budget bucket_size buckets =
     foldl (\<lambda>selected (k, bucket).
         foldl (push_selected budget) selected (bucket_pair D (base + k * bucket_size) bucket))
       [] (enumerate 0 buckets)"

definition add_last_point :: "nat \<Rightarrow> candidate list \<Rightarrow> selection \<Rightarrow> selection" where
  "add_last_point budget cs selected =
     (if length selected < budget \<and> cs \<noteq> [] \<and> fst (last cs) \<notin> fst ` set selected
      then selected @ [selected_point (last cs)] else selected)"

definition downsample_segment ::
  "'d decimal_ops \<Rightarrow> 'd history_point list \<Rightarrow> nat \<Rightarrow> nat \<Rightarrow> selection" where
  "downsample_segment D segment base budget =
     (if budget = 0 \<or> segment = [] then []
      else if length segment \<le> budget then map selected_point (candidates D base segment)
      else if budget = 1 then
        (case best_candidate (\<lambda>v w. f64_lt (f64_abs w) (f64_abs v)) (candidates D base segment) of
           None \<Rightarrow> [] | Some c \<Rightarrow> [selected_point c])
      else
        let bucket_count = max (budget div 2) 1;
            bucket_size = div_ceil (length segment) bucket_count;
            selected = select_buckets D base budget bucket_size (chunks bucket_size segment)
        in take budget (sort_key fst (add_last_point budget (candidates D base segment) selected)))"

subsection \<open>The whole history\<close>

record segment_scan =
  scn_gaps :: selection
  scn_segments :: "(nat \<times> nat \<times> nat) list"
  scn_segment_start :: "nat option"
  scn_segment_values :: nat
  scn_numeric_total :: nat

definition scan_point :: "'d decimal_ops \<Rightarrow> segment_scan \<Rightarrow> nat \<times> 'd history_point \<Rightarrow> segment_scan" where
  "scan_point D s entry =
     (case entry of (index, point) \<Rightarrow>
       if renderable_value D point \<noteq> None then
         s\<lparr>scn_segment_start := (case scn_segment_start s of None \<Rightarrow> Some index | Some i \<Rightarrow> Some i),
           scn_segment_values := usize_add (scn_segment_values s) 1,
           scn_numeric_total := usize_add (scn_numeric_total s) 1\<rparr>
       else
         let s' = (case scn_segment_start s of None \<Rightarrow> s
             | Some start \<Rightarrow> s\<lparr>scn_segment_start := None, scn_segment_values := 0,
                 scn_segments := scn_segments s @ [(start, index, scn_segment_values s)]\<rparr>)
         in s'\<lparr>scn_gaps := scn_gaps s' @ [(index, render_gap point)]\<rparr>)"

definition scan_history :: "'d decimal_ops \<Rightarrow> 'd history_point list \<Rightarrow> segment_scan" where
  "scan_history D history =
     (let s = foldl (scan_point D) \<lparr>scn_gaps = [], scn_segments = [], scn_segment_start = None,
                scn_segment_values = 0, scn_numeric_total = 0\<rparr> (enumerate 0 history)
      in case scn_segment_start s of None \<Rightarrow> s
         | Some start \<Rightarrow> s\<lparr>scn_segments := scn_segments s @ [(start, length history, scn_segment_values s)]\<rparr>)"

definition segment_budget :: "nat \<Rightarrow> nat \<Rightarrow> nat \<Rightarrow> nat" where
  "segment_budget remaining_budget remaining_values segment_len =
     (if remaining_values = 0 then 0
      else min (max (div_ceil (min (remaining_budget * segment_len) USIZE_MAX) remaining_values) 1) remaining_budget)"

fun downsample_segments ::
  "'d decimal_ops \<Rightarrow> 'd history_point list \<Rightarrow> nat \<Rightarrow> nat \<Rightarrow> (nat \<times> nat \<times> nat) list \<Rightarrow> selection" where
  "downsample_segments D history remaining_budget remaining_values [] = []"
| "downsample_segments D history remaining_budget remaining_values ((start, stop, segment_len) # segments) =
     (if remaining_budget = 0 then []
      else
        let budget = segment_budget remaining_budget remaining_values segment_len;
            chosen = downsample_segment D (take (stop - start) (drop start history)) start budget
        in chosen @ downsample_segments D history (remaining_budget - length chosen) (remaining_values - segment_len) segments)"

definition downsample_min_max ::
  "'d decimal_ops \<Rightarrow> 'd history_point list \<Rightarrow> nat \<Rightarrow> render_history_point list" where
  "downsample_min_max D history width =
     (if width = 0 \<or> history = [] then []
      else
        let s = scan_history D history; gaps = scn_gaps s in
        if length gaps \<ge> width then map snd (take width gaps)
        else
          let chosen = downsample_segments D history (width - length gaps) (scn_numeric_total s) (scn_segments s)
          in map snd (take width (sort_key fst (gaps @ chosen))))"

end
