(* ===== verification/Downsample_Properties.thy ===== *)
theory Downsample_Properties
  imports Telemetry_Downsample Samples "HOL-Library.Sublist"
begin

text \<open>
  The reduced history is an ordered part of the rendered history, no longer than the width, with every
  gap; it is the whole history where that fits; and a bucketed segment keeps its extremes.
\<close>

definition rendered :: "'d decimal_ops \<Rightarrow> 'd history_point \<Rightarrow> render_history_point" where
  "rendered D point =
     (case renderable_value D point of Some (t, v) \<Rightarrow> RenderValue t v | None \<Rightarrow> render_gap point)"

definition renderable :: "'d decimal_ops \<Rightarrow> 'd history_point \<Rightarrow> bool" where
  "renderable D point \<longleftrightarrow> renderable_value D point \<noteq> None"

subsection \<open>Candidates\<close>

lemma candidates_simps [simp]:
  "candidates D base [] = []"
  "candidates D base (p # ps) =
     (case renderable_value D p of None \<Rightarrow> [] | Some tv \<Rightarrow> [(base, tv)]) @ candidates D (Suc base) ps"
  by (simp_all add: candidates_def map_filter_simps split: option.splits)

lemma candidates_append:
  "candidates D base (ps @ qs) = candidates D base ps @ candidates D (base + length ps) qs"
  by (induction ps arbitrary: base) simp_all

lemma candidates_in:
  "c \<in> set (candidates D base ps) \<Longrightarrow>
     base \<le> fst c \<and> fst c < base + length ps \<and> renderable_value D (ps ! (fst c - base)) = Some (snd c)"
proof (induction ps arbitrary: base)
  case (Cons p ps)
  show ?case
  proof (cases "c \<in> set (candidates D (Suc base) ps)")
    case True
    from Cons.IH [OF this] show ?thesis by (auto simp: nth_Cons')
  next
    case False
    with Cons.prems show ?thesis by (auto split: option.splits)
  qed
qed simp

lemma candidates_sorted: "sorted_wrt (<) (map fst (candidates D base ps))"
proof (induction ps arbitrary: base)
  case (Cons p ps)
  have "\<forall>c \<in> set (candidates D (Suc base) ps). base < fst c" using candidates_in by fastforce
  with Cons show ?case by (auto split: option.splits)
qed simp

lemma candidates_length: "length (candidates D base ps) \<le> length ps"
proof (induction ps arbitrary: base)
  case (Cons p ps)
  from Cons [of "Suc base"] show ?case by (auto split: option.splits)
qed simp

lemma candidates_all:
  "list_all (renderable D) ps \<Longrightarrow> map fst (candidates D base ps) = [base ..< base + length ps]"
proof (induction ps arbitrary: base)
  case (Cons p ps)
  have "[base ..< base + length (p # ps)] = base # [Suc base ..< Suc base + length ps]"
    by (simp add: upt_conv_Cons del: upt_Suc)
  with Cons show ?case by (auto simp: renderable_def simp del: upt_Suc)
qed simp

lemma selected_point_simps [simp]: "fst (selected_point c) = fst c" "fst \<circ> selected_point = fst"
  by (auto simp: selected_point_def split: prod.splits)

lemma selected_rendered:
  assumes "c \<in> set (candidates D base ps)"
  shows "snd (selected_point c) = rendered D (ps ! (fst c - base))"
  using candidates_in [OF assms] by (auto simp: selected_point_def rendered_def split: prod.splits)

text \<open>The values of candidates are numbers.\<close>

lemma candidates_finite: "c \<in> set (candidates D base ps) \<Longrightarrow> f64_is_finite (snd (snd c))"
  using candidates_in [of c D base ps]
  by (cases "snd c") (auto simp: renderable_value_def render_value_def bind_eq_Some_conv split: history_point.splits if_splits)

subsection \<open>The best candidate\<close>

primrec f64_rat :: "f64 \<Rightarrow> rat" where
  "f64_rat (Finite x) = x"
| "f64_rat (Infinite n) = 0"
| "f64_rat NotANumber = 0"

text \<open>
  What the three searches share: on numbers, the comparison prefers the larger rank. The result is then
  an element of largest rank.
\<close>

locale preference =
  fixes better :: "f64 \<Rightarrow> f64 \<Rightarrow> bool" and rank :: "f64 \<Rightarrow> rat"
  assumes better_iff: "f64_is_finite v \<Longrightarrow> f64_is_finite w \<Longrightarrow> better v w \<longleftrightarrow> rank w < rank v"
begin

lemma keep_best_fold:
  assumes "\<forall>c \<in> set cs. f64_is_finite (snd (snd c))" and "f64_is_finite (snd (snd b))"
  shows "\<exists>c. foldl (keep_best better) (Some b) cs = Some c \<and> c \<in> insert b (set cs) \<and>
    (\<forall>d \<in> insert b (set cs). rank (snd (snd d)) \<le> rank (snd (snd c)))"
  using assms
proof (induction cs arbitrary: b)
  case (Cons a cs)
  define b' where "b' = (if better (snd (snd a)) (snd (snd b)) then a else b)"
  have b': "f64_is_finite (snd (snd b'))" "b' \<in> {a, b}" "rank (snd (snd a)) \<le> rank (snd (snd b'))"
    "rank (snd (snd b)) \<le> rank (snd (snd b'))"
    using Cons.prems better_iff [of "snd (snd a)" "snd (snd b)"] by (auto simp: b'_def)
  have "keep_best better (Some b) a = Some b'" by (simp add: keep_best_def b'_def)
  moreover obtain c where c: "foldl (keep_best better) (Some b') cs = Some c" "c \<in> insert b' (set cs)"
    "\<forall>d \<in> insert b' (set cs). rank (snd (snd d)) \<le> rank (snd (snd c))"
    using Cons.IH [OF _ b'(1)] Cons.prems by auto
  ultimately show ?case using b' by (intro exI [of _ c]) (auto intro: order_trans)
qed simp

lemma best_candidate:
  assumes "\<forall>c \<in> set cs. f64_is_finite (snd (snd c))" and "cs \<noteq> []"
  shows "\<exists>c \<in> set cs. best_candidate better cs = Some c \<and>
    (\<forall>d \<in> set cs. rank (snd (snd d)) \<le> rank (snd (snd c)))"
proof -
  obtain b bs where cs: "cs = b # bs" using assms(2) by (cases cs) auto
  from keep_best_fold [of bs b] assms show ?thesis
    by (auto simp: cs best_candidate_def keep_best_def)
qed

end

lemma best_candidate_Nil [simp]: "best_candidate better [] = None"
  by (simp add: best_candidate_def)

lemma f64_lt_Finite: "f64_is_finite v \<Longrightarrow> f64_is_finite w \<Longrightarrow> f64_lt v w \<longleftrightarrow> f64_rat v < f64_rat w"
  by (cases v; cases w) (auto simp: f64_is_finite_def f64_lt_def)

interpretation minimum: preference f64_lt "\<lambda>v. - f64_rat v"
  by unfold_locales (simp add: f64_lt_Finite)

interpretation maximum: preference "\<lambda>v w. f64_lt w v" f64_rat
  by unfold_locales (simp add: f64_lt_Finite)

interpretation strongest: preference "\<lambda>v w. f64_lt (f64_abs w) (f64_abs v)" "\<lambda>v. \<bar>f64_rat v\<bar>"
proof unfold_locales
  fix v w assume "f64_is_finite v" "f64_is_finite w"
  then show "f64_lt (f64_abs w) (f64_abs v) \<longleftrightarrow> \<bar>f64_rat w\<bar> < \<bar>f64_rat v\<bar>"
    by (cases v; cases w) (auto simp: f64_is_finite_def f64_lt_def)
qed

subsection \<open>Buckets\<close>

lemma chunks_Nil [simp]: "chunks n [] = []"
  by (simp add: chunks.simps)

lemma chunks_step: "0 < n \<Longrightarrow> ps \<noteq> [] \<Longrightarrow> chunks n ps = take n ps # chunks n (drop n ps)"
  by (simp add: chunks.simps [of n ps])

lemma chunks_concat_candidates:
  assumes "0 < n"
  shows "concat (map (\<lambda>(k, bucket). candidates D (base + k * n) bucket) (enumerate j (chunks n ps))) =
    candidates D (base + j * n) ps"
  using assms
proof (induction n ps arbitrary: j rule: chunks.induct)
  case (1 n ps)
  show ?case
  proof (cases "ps = []")
    case True
    then show ?thesis by simp
  next
    case False
    have "candidates D (base + j * n) (take n ps) @ candidates D (base + Suc j * n) (drop n ps) =
        candidates D (base + j * n) (take n ps @ drop n ps)"
      by (cases "n \<le> length ps") (simp_all add: candidates_append min_def algebra_simps del: append_take_drop_id)
    with 1 False show ?thesis by (simp add: chunks_step)
  qed
qed

lemma length_chunks: "length ps \<le> m * n \<Longrightarrow> 0 < n \<Longrightarrow> length (chunks n ps) \<le> m"
proof (induction n ps arbitrary: m rule: chunks.induct)
  case (1 n ps)
  show ?case
  proof (cases "ps = []")
    case True
    then show ?thesis by simp
  next
    case False
    with 1 obtain m' where m: "m = Suc m'" by (cases m) auto
    with 1 False have "length (chunks n (drop n ps)) \<le> m'" by auto
    with m False 1 show ?thesis by (simp add: chunks_step)
  qed
qed

lemma bucket_pair:
  "set (bucket_pair D base bucket) \<subseteq> set (candidates D base bucket)"
  "sorted (map fst (bucket_pair D base bucket))" "length (bucket_pair D base bucket) \<le> 2"
  "\<forall>c \<in> set (candidates D base bucket). \<exists>d \<in> set (bucket_pair D base bucket).
     f64_rat (snd (snd c)) \<le> f64_rat (snd (snd d))"
  "\<forall>c \<in> set (candidates D base bucket). \<exists>d \<in> set (bucket_pair D base bucket).
     f64_rat (snd (snd d)) \<le> f64_rat (snd (snd c))"
proof -
  let ?cs = "candidates D base bucket"
  have fin: "\<forall>c \<in> set ?cs. f64_is_finite (snd (snd c))" using candidates_finite by blast
  show "sorted (map fst (bucket_pair D base bucket))" by (simp add: bucket_pair_def Let_def)
  show "length (bucket_pair D base bucket) \<le> 2"
    by (simp add: bucket_pair_def Let_def map_filter_simps split: option.splits)
  have "set (bucket_pair D base bucket) \<subseteq> set ?cs \<and>
    (\<forall>c \<in> set ?cs. \<exists>d \<in> set (bucket_pair D base bucket). f64_rat (snd (snd c)) \<le> f64_rat (snd (snd d))) \<and>
    (\<forall>c \<in> set ?cs. \<exists>d \<in> set (bucket_pair D base bucket). f64_rat (snd (snd d)) \<le> f64_rat (snd (snd c)))"
  proof (cases "?cs = []")
    case True
    then show ?thesis by (simp add: bucket_pair_def map_filter_simps)
  next
    case False
    from minimum.best_candidate [OF fin False] obtain lo where
      lo: "lo \<in> set ?cs" "best_candidate f64_lt ?cs = Some lo"
        "\<forall>d \<in> set ?cs. f64_rat (snd (snd lo)) \<le> f64_rat (snd (snd d))" by auto
    from maximum.best_candidate [OF fin False] obtain hi where
      hi: "hi \<in> set ?cs" "best_candidate (\<lambda>v w. f64_lt w v) ?cs = Some hi"
        "\<forall>d \<in> set ?cs. f64_rat (snd (snd d)) \<le> f64_rat (snd (snd hi))" by auto
    have "set (bucket_pair D base bucket) = {lo, hi}"
      by (auto simp: bucket_pair_def Let_def lo(2) hi(2) map_filter_simps)
    with lo hi show ?thesis by auto
  qed
  then show "set (bucket_pair D base bucket) \<subseteq> set ?cs"
    "\<forall>c \<in> set ?cs. \<exists>d \<in> set (bucket_pair D base bucket). f64_rat (snd (snd c)) \<le> f64_rat (snd (snd d))"
    "\<forall>c \<in> set ?cs. \<exists>d \<in> set (bucket_pair D base bucket). f64_rat (snd (snd d)) \<le> f64_rat (snd (snd c))"
    by blast+
qed

text \<open>Pushing candidates in the order of their indices.\<close>

lemma push_selected_fold:
  assumes "sorted_wrt (<) (map fst sel)" and "sorted (map fst cs)"
    and "\<forall>s \<in> set sel. \<forall>c \<in> set cs. fst s \<le> fst c" and "length sel \<le> budget"
  shows "sorted_wrt (<) (map fst (foldl (push_selected budget) sel cs)) \<and>
    set (foldl (push_selected budget) sel cs) \<subseteq> set sel \<union> selected_point ` set cs \<and>
    length (foldl (push_selected budget) sel cs) \<le> budget \<and>
    set sel \<subseteq> set (foldl (push_selected budget) sel cs) \<and>
    (length sel + length cs \<le> budget \<longrightarrow> fst ` set sel \<union> fst ` set cs \<subseteq> fst ` set (foldl (push_selected budget) sel cs))"
  using assms
proof (induction cs arbitrary: sel)
  case (Cons c cs)
  let ?sel = "push_selected budget sel c"
  have last: "sel \<noteq> [] \<Longrightarrow> last sel \<in> set sel" by simp
  have strict: "\<forall>s \<in> set sel. fst s < fst c" if "sel \<noteq> []" "fst (last sel) \<noteq> fst c"
  proof
    fix s assume s: "s \<in> set sel"
    note ne = that(1)
    obtain xs x where xs: "sel = xs @ [x]" using ne by (cases sel rule: rev_cases) auto
    have "fst s \<le> fst x"
    proof (cases "s = x")
      case False
      with s xs have "s \<in> set xs" by simp
      with Cons.prems(1) show ?thesis by (auto simp: xs sorted_wrt_append)
    qed simp
    then have "fst s \<le> fst (last sel)" by (simp add: xs)
    moreover have "fst (last sel) \<le> fst c" using Cons.prems(3) last that(1) by simp
    ultimately show "fst s < fst c" using that(2) by simp
  qed
  have in_sel: "fst c \<in> fst ` set sel" if "sel \<noteq> []" "fst (last sel) = fst c"
    using last [OF that(1)] that(2) by (metis image_eqI)
  have strict': "\<forall>s \<in> set sel. fst s < fst c" if "fst (last sel) \<noteq> fst c \<or> sel = []"
    using strict that by (cases "sel = []") simp_all
  have "sorted_wrt (<) (map fst (sel @ [selected_point c]))" if "fst (last sel) \<noteq> fst c \<or> sel = []"
    using Cons.prems(1) strict' [OF that] by (simp add: sorted_wrt_append)
  then have step: "sorted_wrt (<) (map fst ?sel)"
    using Cons.prems(1) by (simp add: push_selected_def)
  have more: "length ?sel \<le> budget" "set sel \<subseteq> set ?sel"
    "set ?sel \<subseteq> insert (selected_point c) (set sel)" "length ?sel \<le> Suc (length sel)"
    "length sel < budget \<Longrightarrow> fst c \<in> fst ` set ?sel"
    using Cons.prems(4) in_sel by (auto simp: push_selected_def)
  note step = step more
  have "\<forall>s \<in> set ?sel. \<forall>d \<in> set cs. fst s \<le> fst d" using step(4) Cons.prems(2,3) by fastforce
  from Cons.IH [OF step(1) _ this step(2)] Cons.prems(2)
  have ih: "sorted_wrt (<) (map fst (foldl (push_selected budget) ?sel cs))"
    "set (foldl (push_selected budget) ?sel cs) \<subseteq> set ?sel \<union> selected_point ` set cs"
    "length (foldl (push_selected budget) ?sel cs) \<le> budget" "set ?sel \<subseteq> set (foldl (push_selected budget) ?sel cs)"
    "length ?sel + length cs \<le> budget \<Longrightarrow> fst ` set ?sel \<union> fst ` set cs \<subseteq> fst ` set (foldl (push_selected budget) ?sel cs)"
    by auto
  have "fst ` set sel \<union> fst ` set (c # cs) \<subseteq> fst ` set (foldl (push_selected budget) sel (c # cs))"
    if "length sel + length (c # cs) \<le> budget"
  proof -
    have "fst c \<in> fst ` set ?sel" "fst ` set sel \<subseteq> fst ` set ?sel" using step that by auto
    with ih(5) step(5) that show ?thesis by simp blast
  qed
  then show ?case using ih(1-4) step(3,4) by auto
qed simp

lemma foldl_push_concat:
  "foldl (\<lambda>sel (k, bucket). foldl (push_selected budget) sel (bucket_pair D (base + k * n) bucket)) sel kbs =
     foldl (push_selected budget) sel (concat (map (\<lambda>(k, bucket). bucket_pair D (base + k * n) bucket) kbs))"
  by (induction kbs arbitrary: sel) (auto split: prod.splits)

lemma sorted_concat_parts:
  assumes "sorted_wrt (<) (map (f :: 'b \<Rightarrow> nat) (concat (map g xs)))"
    and "\<forall>x \<in> set xs. set (h x) \<subseteq> set (g x) \<and> sorted (map f (h x))"
  shows "sorted (map f (concat (map h xs)))"
  using assms
proof (induction xs)
  case (Cons x xs)
  have "\<forall>a \<in> set (h x). \<forall>b \<in> set (concat (map h xs)). f a \<le> f b"
  proof (intro ballI)
    fix a b assume "a \<in> set (h x)" and "b \<in> set (concat (map h xs))"
    with Cons.prems(2) have "a \<in> set (g x)" "b \<in> set (concat (map g xs))" by auto
    with Cons.prems(1) show "f a \<le> f b" by (auto simp: sorted_wrt_append less_imp_le)
  qed
  with Cons show ?case by (auto simp: sorted_append sorted_wrt_append)
qed simp

lemma select_buckets:
  fixes D :: "'d decimal_ops" and base :: nat
  assumes "2 \<le> budget" and "segment \<noteq> []"
  defines "n \<equiv> div_ceil (length segment) (max (budget div 2) 1)"
  defines "sel \<equiv> select_buckets D base budget n (chunks n segment)"
  shows "sorted_wrt (<) (map fst sel)" and "set sel \<subseteq> selected_point ` set (candidates D base segment)"
    and "length sel \<le> budget"
    and "\<forall>c \<in> set (candidates D base segment). \<exists>d \<in> set (candidates D base segment). fst d \<in> fst ` set sel \<and>
      f64_rat (snd (snd c)) \<le> f64_rat (snd (snd d))"
    and "\<forall>c \<in> set (candidates D base segment). \<exists>d \<in> set (candidates D base segment). fst d \<in> fst ` set sel \<and>
      f64_rat (snd (snd d)) \<le> f64_rat (snd (snd c))"
proof -
  let ?m = "max (budget div 2) 1"
  have len: "length segment \<le> ?m * n"
    using div_ceil_bounds(1) [of ?m "length segment"] by (simp add: n_def mult.commute)
  have "0 < n" using len assms(2) by (cases n) auto
  define kbs where "kbs = enumerate 0 (chunks n segment)"
  let ?g = "\<lambda>(k, bucket). candidates D (base + k * n) bucket"
  let ?h = "\<lambda>(k, bucket). bucket_pair D (base + k * n) bucket"
  have all: "concat (map ?g kbs) = candidates D base segment"
    using chunks_concat_candidates [OF \<open>0 < n\<close>, of D base 0 segment] by (simp add: kbs_def)
  have parts: "\<forall>x \<in> set kbs. set (?h x) \<subseteq> set (?g x) \<and> sorted (map fst (?h x))"
    using bucket_pair(1,2) by (auto split: prod.splits) blast
  define cs where "cs = concat (map ?h kbs)"
  have sub: "set cs \<subseteq> set (candidates D base segment)"
    unfolding all [symmetric] cs_def using parts by fastforce
  have sorted: "sorted (map fst cs)"
    unfolding cs_def by (rule sorted_concat_parts [OF _ parts]) (simp add: all candidates_sorted)
  have "length cs \<le> 2 * length kbs"
    unfolding cs_def
  proof (induction kbs)
    case (Cons x kbs)
    with bucket_pair(3) [of D "base + fst x * n" "snd x"] show ?case by (auto simp: case_prod_beta)
  qed simp
  also have "\<dots> \<le> 2 * ?m" using length_chunks [OF len \<open>0 < n\<close>] by (simp add: kbs_def)
  also have "\<dots> \<le> budget" using assms(1) by auto
  finally have "length cs \<le> budget" .
  have sel: "sel = foldl (push_selected budget) [] cs"
    unfolding sel_def select_buckets_def foldl_push_concat cs_def kbs_def by simp
  from push_selected_fold [of "[]" cs budget] sorted \<open>length cs \<le> budget\<close>
  have f: "sorted_wrt (<) (map fst sel)" "set sel \<subseteq> selected_point ` set cs" "length sel \<le> budget"
    "fst ` set cs \<subseteq> fst ` set sel" by (simp_all add: sel)
  show "sorted_wrt (<) (map fst sel)" "length sel \<le> budget" using f by simp_all
  show "set sel \<subseteq> selected_point ` set (candidates D base segment)" using f(2) sub by blast
  have "\<exists>d \<in> set cs. f64_rat (snd (snd c)) \<le> f64_rat (snd (snd d))"
      "\<exists>d \<in> set cs. f64_rat (snd (snd d)) \<le> f64_rat (snd (snd c))"
    if "c \<in> set (candidates D base segment)" for c
  proof -
    from that obtain k b where kb: "(k, b) \<in> set kbs" "c \<in> set (candidates D (base + k * n) b)"
      unfolding all [symmetric] by auto
    have "set (bucket_pair D (base + k * n) b) \<subseteq> set cs" using kb(1) by (force simp: cs_def)
    with bucket_pair(4,5) [of D "base + k * n" b] kb(2)
    show "\<exists>d \<in> set cs. f64_rat (snd (snd c)) \<le> f64_rat (snd (snd d))"
      "\<exists>d \<in> set cs. f64_rat (snd (snd d)) \<le> f64_rat (snd (snd c))" by blast+
  qed
  then show "\<forall>c \<in> set (candidates D base segment). \<exists>d \<in> set (candidates D base segment). fst d \<in> fst ` set sel \<and>
      f64_rat (snd (snd c)) \<le> f64_rat (snd (snd d))"
    "\<forall>c \<in> set (candidates D base segment). \<exists>d \<in> set (candidates D base segment). fst d \<in> fst ` set sel \<and>
      f64_rat (snd (snd d)) \<le> f64_rat (snd (snd c))"
    using f(4) sub by (meson image_eqI subsetD)+
qed

subsection \<open>One segment\<close>

text \<open>A selection from candidates: in the order of the indices, without repetition.\<close>

definition selection_of :: "candidate list \<Rightarrow> selection \<Rightarrow> bool" where
  "selection_of cs sel \<longleftrightarrow> sorted_wrt (<) (map fst sel) \<and> set sel \<subseteq> selected_point ` set cs"

lemma sort_key_strict: "sorted_wrt (<) (map fst xs) \<Longrightarrow> sort_key (fst :: nat \<times> 'b \<Rightarrow> nat) xs = xs"
  by (rule sort_key_id_if_sorted) (simp add: strict_sorted_iff)

lemma sort_key_distinct:
  assumes "distinct (map fst xs)"
  shows "sorted_wrt (<) (map (fst :: nat \<times> 'b \<Rightarrow> nat) (sort_key fst xs))"
proof -
  have "distinct (map fst (sort_key fst xs))"
    using assms by (metis distinct_map distinct_sort set_sort)
  then show ?thesis by (simp add: strict_sorted_iff)
qed

lemma sorted_wrt_take: "sorted_wrt P xs \<Longrightarrow> sorted_wrt P (take n xs)"
  by (metis append_take_drop_id sorted_wrt_append)

lemma downsample_segment:
  "length (downsample_segment D segment base budget) \<le> budget"
  "selection_of (candidates D base segment) (downsample_segment D segment base budget)"
proof -
  let ?cs = "candidates D base segment"
  have "length (downsample_segment D segment base budget) \<le> budget \<and>
    selection_of ?cs (downsample_segment D segment base budget)"
  proof (cases "budget = 0 \<or> segment = []")
    case True
    then show ?thesis by (auto simp: downsample_segment_def selection_of_def)
  next
    case False
    consider "length segment \<le> budget" | "budget < length segment" "budget = 1" | "budget < length segment" "2 \<le> budget"
      using False by linarith
    then show ?thesis
    proof cases
      case 1
      have "length ?cs \<le> budget" using candidates_length [of D base segment] 1 by linarith
      with False 1 candidates_sorted [of D base segment] show ?thesis
        by (simp add: downsample_segment_def selection_of_def)
    next
      case 2
      then have "downsample_segment D segment base budget =
          (case best_candidate (\<lambda>v w. f64_lt (f64_abs w) (f64_abs v)) ?cs of None \<Rightarrow> [] | Some c \<Rightarrow> [selected_point c])"
        using False by (simp add: downsample_segment_def)
      moreover have "\<forall>c \<in> set ?cs. f64_is_finite (snd (snd c))" using candidates_finite by blast
      ultimately show ?thesis
        using strongest.best_candidate [of ?cs] 2 by (cases "?cs = []") (auto simp: selection_of_def)
    next
      case 3
      let ?n = "div_ceil (length segment) (max (budget div 2) 1)"
      define sel where "sel = select_buckets D base budget ?n (chunks ?n segment)"
      note b = select_buckets [OF 3(2), of segment D base, folded sel_def]
      define full where "full = add_last_point budget ?cs sel"
      have full: "distinct (map fst full)" "set full \<subseteq> selected_point ` set ?cs"
        using b(1,2) False last_in_set [of ?cs]
        by (auto simp: full_def add_last_point_def strict_sorted_iff)
      have "downsample_segment D segment base budget = take budget (sort_key fst full)"
        using 3 False by (simp add: downsample_segment_def Let_def sel_def full_def)
      moreover have "sorted_wrt (<) (map fst (take budget (sort_key fst full)))"
        using sort_key_distinct [OF full(1)] by (simp add: take_map [symmetric] sorted_wrt_take)
      moreover have "set (take budget (sort_key fst full)) \<subseteq> set full" using set_take_subset by fastforce
      ultimately show ?thesis using full(2) by (auto simp: selection_of_def)
    qed
  qed
  then show "length (downsample_segment D segment base budget) \<le> budget"
    "selection_of ?cs (downsample_segment D segment base budget)" by simp_all
qed

text \<open>
  C36. A reduced segment keeps its extremes. With a budget of at least two points, however many samples
  fall into a bucket, some selected point is at least as large as any renderable sample of the segment,
  and some selected point is at most as small: the displayed curve has the true minimum and maximum.
\<close>
theorem downsample_keeps_extremes:
  assumes "2 \<le> budget" and "c \<in> set (candidates D base segment)"
  shows "(\<exists>d \<in> set (candidates D base segment). selected_point d \<in> set (downsample_segment D segment base budget) \<and>
      f64_rat (snd (snd c)) \<le> f64_rat (snd (snd d))) \<and>
    (\<exists>d \<in> set (candidates D base segment). selected_point d \<in> set (downsample_segment D segment base budget) \<and>
      f64_rat (snd (snd d)) \<le> f64_rat (snd (snd c)))"
proof (cases "length segment \<le> budget")
  case True
  with assms show ?thesis by (auto simp: downsample_segment_def)
next
  case False
  let ?cs = "candidates D base segment"
  from assms(2) have ne: "segment \<noteq> []" by auto
  let ?n = "div_ceil (length segment) (max (budget div 2) 1)"
  define sel where "sel = select_buckets D base budget ?n (chunks ?n segment)"
  note b = select_buckets [OF assms(1) ne, of D base, folded sel_def]
  have len: "length (add_last_point budget ?cs sel) \<le> budget" using b(3) by (auto simp: add_last_point_def)
  have "downsample_segment D segment base budget = sort_key fst (add_last_point budget ?cs sel)"
    using False assms(1) ne len by (simp add: downsample_segment_def Let_def sel_def)
  then have sub: "set sel \<subseteq> set (downsample_segment D segment base budget)" by (auto simp: add_last_point_def)
  have dist: "distinct (map fst ?cs)" using candidates_sorted [of D base segment] by (simp add: strict_sorted_iff)
  have keep: "selected_point d \<in> set sel" if "d \<in> set ?cs" "fst d \<in> fst ` set sel" for d
  proof -
    from that(2) obtain x where x: "x \<in> set sel" "fst x = fst d" by (metis imageE)
    then obtain e where "e \<in> set ?cs" "x = selected_point e" using b(2) by blast
    with x have e: "e \<in> set ?cs" "fst e = fst d" "selected_point e \<in> set sel" by simp_all
    with dist that(1) have "e = d" by (metis eq_key_imp_eq_value prod.collapse)
    with e(3) show ?thesis by simp
  qed
  from b(4,5) assms(2) keep sub show ?thesis by blast
qed

subsection \<open>The runs of a history\<close>

definition gap_entries :: "'d decimal_ops \<Rightarrow> 'd history_point list \<Rightarrow> selection" where
  "gap_entries D h = map (\<lambda>i. (i, render_gap (h ! i))) (filter (\<lambda>i. \<not> renderable D (h ! i)) [0 ..< length h])"

definition run_indices :: "(nat \<times> nat \<times> nat) list \<Rightarrow> nat list" where
  "run_indices segments = concat (map (\<lambda>(s, e, l). [s ..< e]) segments)"

definition runs_ok :: "(nat \<times> nat \<times> nat) list \<Rightarrow> bool" where
  "runs_ok segments \<longleftrightarrow> (\<forall>(s, e, l) \<in> set segments. s < e \<and> l = min (e - s) USIZE_MAX)"

text \<open>The scan, after the prefix \<open>h\<close>: finished runs and the current one list the renderable indices in order.\<close>

definition scan_ok :: "'d decimal_ops \<Rightarrow> 'd history_point list \<Rightarrow> segment_scan \<Rightarrow> bool" where
  "scan_ok D h s \<longleftrightarrow>
     scn_gaps s = gap_entries D h \<and> runs_ok (scn_segments s) \<and>
     run_indices (scn_segments s) @ (case scn_segment_start s of None \<Rightarrow> [] | Some i \<Rightarrow> [i ..< length h]) =
       filter (\<lambda>i. renderable D (h ! i)) [0 ..< length h] \<and>
     (case scn_segment_start s of None \<Rightarrow> scn_segment_values s = 0
      | Some i \<Rightarrow> i < length h \<and> scn_segment_values s = min (length h - i) USIZE_MAX) \<and>
     scn_numeric_total s = min (length (filter (renderable D) h)) USIZE_MAX"

lemma filter_nth_append:
  "filter (\<lambda>i. P ((xs @ [x]) ! i)) [0 ..< length (xs @ [x])] =
     filter (\<lambda>i. P (xs ! i)) [0 ..< length xs] @ (if P x then [length xs] else [])"
  by (auto simp: nth_append intro: filter_cong)

lemma gap_entries_append:
  "gap_entries D (h @ [p]) = gap_entries D h @ (if renderable D p then [] else [(length h, render_gap p)])"
  unfolding gap_entries_def filter_nth_append [of "\<lambda>p. \<not> renderable D p"]
  by (auto simp: nth_append)

lemma run_indices_append [simp]: "run_indices (ss @ [(s, e, l)]) = run_indices ss @ [s ..< e]"
  by (simp add: run_indices_def)

lemma scan_ok_point:
  assumes "scan_ok D h s"
  shows "scan_ok D (h @ [p]) (scan_point D s (length h, p))"
proof (cases "renderable_value D p")
  case (Some tv)
  then have ren: "renderable D p" by (simp add: renderable_def)
  have usize: "usize_add (min a USIZE_MAX) 1 = min (Suc a) USIZE_MAX" for a by (auto simp: usize_add_def)
  show ?thesis
  proof (cases "scn_segment_start s")
    case None
    have "usize_add 0 1 = min 1 USIZE_MAX" by (simp add: usize_add_def USIZE_MAX_def)
    then show ?thesis
      using assms Some ren None usize
      by (simp add: scan_ok_def scan_point_def gap_entries_append filter_nth_append del: upt_Suc length_append) simp
  next
    case (Some i)
    then have i: "i < length h" using assms by (simp add: scan_ok_def)
    then have "[i ..< length (h @ [p])] = [i ..< length h] @ [length h]" "length (h @ [p]) - i = Suc (length h - i)" by simp_all
    then show ?thesis
      using assms ren \<open>renderable_value D p = Some tv\<close> Some usize i
      by (simp add: scan_ok_def scan_point_def gap_entries_append filter_nth_append del: upt_Suc length_append) simp
  qed
next
  case None
  then have "\<not> renderable D p" by (simp add: renderable_def)
  with None show ?thesis
    using assms
    by (cases "scn_segment_start s")
      (auto simp: scan_ok_def scan_point_def gap_entries_append filter_nth_append runs_ok_def Let_def simp del: upt_Suc length_append)
qed

lemma scan_ok_foldl: "scan_ok D h (foldl (scan_point D) \<lparr>scn_gaps = [], scn_segments = [], scn_segment_start = None,
                scn_segment_values = 0, scn_numeric_total = 0\<rparr> (enumerate 0 h))"
proof (induction h rule: rev_induct)
  case Nil
  then show ?case by (simp add: scan_ok_def gap_entries_def runs_ok_def run_indices_def)
next
  case (snoc p h)
  have "enumerate 0 (h @ [p]) = enumerate 0 h @ [(length h, p)]" by (simp add: enumerate_append_eq)
  with scan_ok_point [OF snoc] show ?case by simp
qed

lemma scan_history:
  "scn_gaps (scan_history D h) = gap_entries D h" "runs_ok (scn_segments (scan_history D h))"
  "run_indices (scn_segments (scan_history D h)) = filter (\<lambda>i. renderable D (h ! i)) [0 ..< length h]"
  "scn_numeric_total (scan_history D h) = min (length (filter (renderable D) h)) USIZE_MAX"
  using scan_ok_foldl [of D h]
  by (auto simp: scan_history_def Let_def scan_ok_def runs_ok_def split: option.splits)

subsection \<open>All runs\<close>

definition entry_of :: "'d decimal_ops \<Rightarrow> 'd history_point list \<Rightarrow> nat \<Rightarrow> nat \<times> render_history_point" where
  "entry_of D h i = (i, rendered D (h ! i))"

lemma entry_of_simps [simp]: "fst (entry_of D h i) = i" "map fst (map (entry_of D h) xs) = xs"
  by (simp_all add: entry_of_def o_def)

lemma gap_entries_rendered:
  "gap_entries D h = map (entry_of D h) (filter (\<lambda>i. \<not> renderable D (h ! i)) [0 ..< length h])"
  by (auto simp: gap_entries_def entry_of_def rendered_def renderable_def split: option.splits)

text \<open>The candidates of a run, as entries of the history.\<close>

lemma run_candidates:
  assumes "s < e" and "e \<le> length h" and "\<forall>i \<in> {s ..< e}. renderable D (h ! i)"
  shows "map selected_point (candidates D s (take (e - s) (drop s h))) = map (entry_of D h) [s ..< e]"
proof -
  let ?seg = "take (e - s) (drop s h)"
  have nth: "?seg ! k = h ! (s + k)" if "k < e - s" for k using that assms by simp
  have len: "length ?seg = e - s" using assms by simp
  have "list_all (renderable D) ?seg" using assms(3) nth by (auto simp: list_all_length len)
  from candidates_all [OF this, of s] have fst: "map fst (candidates D s ?seg) = [s ..< e]"
    using assms by simp
  have "selected_point c = entry_of D h (fst c)" if "c \<in> set (candidates D s ?seg)" for c
  proof -
    from candidates_in [OF that] have "s \<le> fst c" "fst c - s < e - s" using len by linarith+
    with selected_rendered [OF that] nth have "snd (selected_point c) = rendered D (h ! fst c)" by simp
    then show ?thesis by (simp add: prod_eq_iff entry_of_def)
  qed
  then have "map selected_point (candidates D s ?seg) = map (entry_of D h) (map fst (candidates D s ?seg))" by simp
  then show ?thesis unfolding fst .
qed

definition runs_in :: "'d decimal_ops \<Rightarrow> 'd history_point list \<Rightarrow> (nat \<times> nat \<times> nat) list \<Rightarrow> bool" where
  "runs_in D h segments \<longleftrightarrow> runs_ok segments \<and> sorted_wrt (<) (run_indices segments) \<and>
     (\<forall>i \<in> set (run_indices segments). i < length h \<and> renderable D (h ! i))"

lemma runs_in_Cons:
  assumes "runs_in D h ((s, e, l) # segments)"
  shows "s < e" "e \<le> length h" "l = min (e - s) USIZE_MAX" "\<forall>i \<in> {s ..< e}. renderable D (h ! i)" "runs_in D h segments"
    "run_indices ((s, e, l) # segments) = [s ..< e] @ run_indices segments"
    "\<forall>i \<in> set (run_indices segments). e \<le> i"
proof -
  show i: "run_indices ((s, e, l) # segments) = [s ..< e] @ run_indices segments" by (simp add: run_indices_def)
  show se: "s < e" "l = min (e - s) USIZE_MAX" using assms by (auto simp: runs_in_def runs_ok_def)
  have "e - 1 \<in> set [s ..< e]" using se by auto
  then have "e - 1 < length h" using assms by (simp add: runs_in_def i)
  then show "e \<le> length h" by linarith
  show "\<forall>i \<in> {s ..< e}. renderable D (h ! i)" using assms by (simp add: runs_in_def i)
  show "runs_in D h segments" using assms by (auto simp: runs_in_def i runs_ok_def sorted_wrt_append)
  show "\<forall>i \<in> set (run_indices segments). e \<le> i"
  proof
    fix i assume "i \<in> set (run_indices segments)"
    then have "e - 1 < i" using assms \<open>e - 1 \<in> set [s ..< e]\<close> by (auto simp: runs_in_def \<open>run_indices _ = _\<close> sorted_wrt_append)
    then show "e \<le> i" by linarith
  qed
qed

lemma downsample_segments_part:
  assumes "runs_in D h segments"
  shows "length (downsample_segments D h rb rv segments) \<le> rb \<and>
    sorted_wrt (<) (map fst (downsample_segments D h rb rv segments)) \<and>
    set (downsample_segments D h rb rv segments) \<subseteq> entry_of D h ` set (run_indices segments)"
  using assms
proof (induction segments arbitrary: rb rv)
  case (Cons segment segments)
  obtain s e l where seg: "segment = (s, e, l)" using prod_cases3 by blast
  note r = runs_in_Cons [OF Cons.prems [unfolded seg]]
  define chosen where "chosen = downsample_segment D (take (e - s) (drop s h)) s (segment_budget rb rv l)"
  have c: "length chosen \<le> segment_budget rb rv l" "selection_of (candidates D s (take (e - s) (drop s h))) chosen"
    unfolding chosen_def by (rule downsample_segment)+
  have "segment_budget rb rv l \<le> rb" by (simp add: segment_budget_def)
  have "set (map selected_point (candidates D s (take (e - s) (drop s h)))) = entry_of D h ` set [s ..< e]"
    unfolding run_candidates [OF r(1,2,4)] by simp
  with c(2) have sub: "set chosen \<subseteq> entry_of D h ` set [s ..< e]" and ord: "sorted_wrt (<) (map fst chosen)"
    by (simp_all add: selection_of_def)
  let ?rest = "downsample_segments D h (rb - length chosen) (rv - l) segments"
  from Cons.IH [OF r(5), of "rb - length chosen" "rv - l"]
  have ih: "length ?rest \<le> rb - length chosen" "sorted_wrt (<) (map fst ?rest)"
    "set ?rest \<subseteq> entry_of D h ` set (run_indices segments)" by blast+
  have "\<forall>a \<in> set chosen. \<forall>b \<in> set ?rest. fst a < fst b"
  proof (intro ballI)
    fix a b assume "a \<in> set chosen" and "b \<in> set ?rest"
    with sub ih(3) obtain i j where "a = entry_of D h i" "i \<in> set [s ..< e]" "b = entry_of D h j" "j \<in> set (run_indices segments)" by blast
    with r(7) show "fst a < fst b" by auto
  qed
  with ord ih(2) have "sorted_wrt (<) (map fst (chosen @ ?rest))" by (simp add: sorted_wrt_append)
  moreover have "length (chosen @ ?rest) \<le> rb" using ih(1) c(1) \<open>segment_budget rb rv l \<le> rb\<close> by simp
  moreover have "set (chosen @ ?rest) \<subseteq> entry_of D h ` set (run_indices (segment # segments))"
    using sub ih(3) unfolding seg r(6) by auto
  ultimately show ?case by (simp add: seg chosen_def Let_def)
qed simp

lemma segment_budget_enough:
  assumes "rv \<le> rb" and "0 < rv" and "l \<le> rv" and "rv * l \<le> USIZE_MAX"
  shows "l \<le> segment_budget rb rv l"
proof -
  have "rv * l \<le> min (rb * l) USIZE_MAX" using assms by (simp add: mult_le_mono1)
  also have "\<dots> \<le> div_ceil (min (rb * l) USIZE_MAX) rv * rv" by (rule div_ceil_bounds(1) [OF assms(2)])
  finally have "l \<le> div_ceil (min (rb * l) USIZE_MAX) rv" using assms(2) by (simp add: mult.commute)
  with assms show ?thesis by (simp add: segment_budget_def)
qed

lemma downsample_segments_all:
  assumes "runs_in D h segments" and "length (run_indices segments) \<le> rv" and "rv \<le> rb" and "rv < 2 ^ 32"
  shows "downsample_segments D h rb rv segments = map (entry_of D h) (run_indices segments)"
  using assms
proof (induction segments arbitrary: rb rv)
  case Nil
  then show ?case by (simp add: run_indices_def)
next
  case (Cons segment segments)
  obtain s e l where seg: "segment = (s, e, l)" using prod_cases3 by blast
  note r = runs_in_Cons [OF Cons.prems(1) [unfolded seg]]
  have len: "e - s + length (run_indices segments) \<le> rv" using Cons.prems(2) unfolding seg r(6) by simp
  have l: "l = e - s" using r(3) len Cons.prems(4) by (simp add: USIZE_MAX_def)
  have "rv * l \<le> (2 ^ 32 - 1) * (2 ^ 32 - 1)" using len l Cons.prems(4) by (intro mult_le_mono) auto
  also have "\<dots> \<le> USIZE_MAX" by (simp add: USIZE_MAX_def)
  finally have budget: "l \<le> segment_budget rb rv l"
    using len l r(1) Cons.prems(3) by (intro segment_budget_enough) auto
  have "length (take (e - s) (drop s h)) \<le> segment_budget rb rv l" using budget r(2) by (simp add: l)
  moreover have "0 < segment_budget rb rv l" using budget l r(1) by linarith
  moreover have "take (e - s) (drop s h) \<noteq> []" using r(1,2) by simp
  ultimately have chosen: "downsample_segment D (take (e - s) (drop s h)) s (segment_budget rb rv l) = map (entry_of D h) [s ..< e]"
    unfolding run_candidates [OF r(1,2,4), symmetric] by (simp add: downsample_segment_def)
  have "downsample_segments D h (rb - (e - s)) (rv - l) segments = map (entry_of D h) (run_indices segments)"
    using len l Cons.prems by (intro Cons.IH [OF r(5)]) auto
  moreover have "rb \<noteq> 0" using len r(1) Cons.prems(3) by linarith
  ultimately show ?case unfolding seg r(6) by (simp add: chosen Let_def)
qed

subsection \<open>The whole history\<close>

definition render_history :: "'d decimal_ops \<Rightarrow> 'd history_point list \<Rightarrow> render_history_point list" where
  "render_history D h = map (rendered D) h"

definition is_gap :: "render_history_point \<Rightarrow> bool" where
  "is_gap r \<longleftrightarrow> (case r of RenderGap _ _ \<Rightarrow> True | RenderValue _ _ \<Rightarrow> False)"

lemma is_gap_rendered: "is_gap (rendered D p) \<longleftrightarrow> \<not> renderable D p"
  by (auto simp: is_gap_def rendered_def renderable_def render_gap_def split: option.splits history_point.splits)

lemma subseq_indices:
  assumes "sorted_wrt (<) is" and "\<forall>i \<in> set is. i < length xs"
  shows "subseq (map ((!) xs) is) xs"
proof -
  have "sorted_wrt (<) (filter (\<lambda>i. i \<in> set is) [0 ..< length xs])" by (simp add: sorted_wrt_filter)
  with assms have "is = filter (\<lambda>i. i \<in> set is) [0 ..< length xs]"
    by (intro sorted_distinct_set_unique) (auto simp: strict_sorted_iff)
  then have "subseq is [0 ..< length xs]" by (metis subseq_filter_left)
  then have "subseq (map ((!) xs) is) (map ((!) xs) [0 ..< length xs])" by (rule subseq_map)
  then show ?thesis by (simp add: map_nth)
qed

lemma rebuild_map: "map f xs = ys \<Longrightarrow> \<forall>x \<in> set xs. x = g (f x) \<Longrightarrow> xs = map g ys"
  by (induction xs arbitrary: ys) auto

lemma runs_of_history: "runs_in D h (scn_segments (scan_history D h))"
  using scan_history [of D h] by (auto simp: runs_in_def sorted_wrt_filter)

lemma gap_count: "length (gap_entries D h) = length (filter (\<lambda>p. \<not> renderable D p) h)"
  unfolding gap_entries_def length_map by (simp add: length_filter_conv_card cong: conj_cong)

text \<open>The selection of which the reduced history is the second part.\<close>

lemma downsample_selection:
  assumes "width \<noteq> 0"
  obtains sel where "downsample_min_max D h width = map snd sel" "sorted_wrt (<) (map fst sel)" "length sel \<le> width"
    "set sel \<subseteq> entry_of D h ` {0 ..< length h}"
    "length (filter (is_gap \<circ> snd) sel) = min width (length (gap_entries D h))"
proof (cases "h = []")
  case True
  then show ?thesis by (intro that [of "[]"]) (simp_all add: downsample_min_max_def gap_entries_def)
next
  case False
  let ?gaps = "gap_entries D h"
  have gap: "is_gap (snd x)" if "x \<in> set ?gaps" for x
    using that by (auto simp: gap_entries_def is_gap_def render_gap_def split: history_point.splits)
  have gaps: "set ?gaps \<subseteq> entry_of D h ` {0 ..< length h}" "sorted_wrt (<) (map fst ?gaps)"
    by (auto simp: gap_entries_rendered sorted_wrt_filter simp del: map_map)
  show ?thesis
  proof (cases "width \<le> length ?gaps")
    case True
    show ?thesis
    proof (rule that)
      show "downsample_min_max D h width = map snd (take width ?gaps)"
        using True False assms by (simp add: downsample_min_max_def scan_history Let_def)
      show "sorted_wrt (<) (map fst (take width ?gaps))"
        using gaps(2) by (simp add: take_map [symmetric] sorted_wrt_take)
      show "length (take width ?gaps) \<le> width" by simp
      show "set (take width ?gaps) \<subseteq> entry_of D h ` {0 ..< length h}" using gaps(1) set_take_subset by fastforce
      have "filter (is_gap \<circ> snd) (take width ?gaps) = take width ?gaps"
        by (rule filter_True) (use gap in_set_takeD in fastforce)
      then show "length (filter (is_gap \<circ> snd) (take width ?gaps)) = min width (length ?gaps)" by simp
    qed
  next
    case False
    let ?s = "scan_history D h"
    define chosen where "chosen = downsample_segments D h (width - length ?gaps) (scn_numeric_total ?s) (scn_segments ?s)"
    from downsample_segments_part [OF runs_of_history, of D h "width - length ?gaps" "scn_numeric_total ?s"]
    have c: "length chosen \<le> width - length ?gaps" "sorted_wrt (<) (map fst chosen)"
      "set chosen \<subseteq> entry_of D h ` set (filter (\<lambda>i. renderable D (h ! i)) [0 ..< length h])"
      by (simp_all add: chosen_def scan_history(3))
    have len: "length (sort_key fst (?gaps @ chosen)) \<le> width" using c(1) False by simp
    have disj: "set (map fst ?gaps) \<inter> set (map fst chosen) = {}"
      using c(3) by (auto simp: gap_entries_rendered simp del: map_map)
    have "distinct (map fst (?gaps @ chosen))"
      using gaps(2) c(2) disj by (simp add: strict_sorted_iff)
    note sorted = sort_key_distinct [OF this]
    have "\<not> is_gap (snd x)" if "x \<in> set chosen" for x
      using that c(3) by (auto simp: entry_of_def is_gap_rendered)
    then have "filter (is_gap \<circ> snd) (?gaps @ chosen) = ?gaps"
      using gap by (simp add: filter_empty_conv)
    then have count: "length (filter (is_gap \<circ> snd) (sort_key fst (?gaps @ chosen))) = length ?gaps"
      by (simp only: filter_sort length_sort)
    show ?thesis
    proof (rule that)
      show "downsample_min_max D h width = map snd (sort_key fst (?gaps @ chosen))"
        using False \<open>h \<noteq> []\<close> assms len by (simp add: downsample_min_max_def scan_history Let_def chosen_def)
      show "set (sort_key fst (?gaps @ chosen)) \<subseteq> entry_of D h ` {0 ..< length h}" using gaps(1) c(3) by auto
      show "length (filter (is_gap \<circ> snd) (sort_key fst (?gaps @ chosen))) = min width (length ?gaps)"
        using count False by simp
    qed (use sorted len in auto)
  qed
qed

text \<open>
  The reduced history is an honest picture. Its points are points of the rendered history, in their
  order and without repetition, and there are at most as many as the width; every quality gap is shown,
  as long as the width has room for all of them.
\<close>
theorem downsample_is_ordered_part:
  "length (downsample_min_max D h width) \<le> width \<and>
   subseq (downsample_min_max D h width) (render_history D h) \<and>
   length (filter is_gap (downsample_min_max D h width)) = min width (length (filter is_gap (render_history D h)))"
proof (cases "width = 0")
  case True
  then show ?thesis by (simp add: downsample_min_max_def)
next
  case False
  then obtain sel where sel: "downsample_min_max D h width = map snd sel" "sorted_wrt (<) (map fst sel)" "length sel \<le> width"
    "set sel \<subseteq> entry_of D h ` {0 ..< length h}"
    "length (filter (is_gap \<circ> snd) sel) = min width (length (gap_entries D h))"
    by (rule downsample_selection)
  have "map snd sel = map ((!) (render_history D h)) (map fst sel)"
    using sel(4) by (auto simp: entry_of_def render_history_def)
  moreover have "\<forall>i \<in> set (map fst sel). i < length (render_history D h)"
    using sel(4) by (auto simp: render_history_def)
  ultimately have "subseq (map snd sel) (render_history D h)" using subseq_indices [OF sel(2)] by metis
  moreover have "length (filter is_gap (render_history D h)) = length (gap_entries D h)"
    by (simp add: render_history_def filter_map is_gap_rendered gap_count o_def)
  ultimately show ?thesis using sel(1,3,5) by (simp add: filter_map)
qed

text \<open>
  A history that fits is shown whole: when it has no more points than the width (and fewer than
  \<open>2 ^ 32\<close>, so that the share of a segment cannot saturate), the reduction is the plain rendering of
  every point.
\<close>
theorem downsample_shows_all_that_fits:
  assumes "length h \<le> width" and "length h < 2 ^ 32"
  shows "downsample_min_max D h width = render_history D h"
proof (cases "h = []")
  case True
  then show ?thesis by (simp add: downsample_min_max_def render_history_def)
next
  case False
  let ?P = "\<lambda>i. renderable D (h ! i)"
  let ?s = "scan_history D h"
  have split: "length (filter ?P [0 ..< length h]) + length (filter (\<lambda>i. \<not> ?P i) [0 ..< length h]) = length h"
    using sum_length_filter_compl [of ?P "[0 ..< length h]"] by simp
  have total: "scn_numeric_total ?s = length (filter ?P [0 ..< length h])"
  proof -
    have "length (filter (renderable D) h) = length (filter ?P [0 ..< length h])"
      by (simp add: length_filter_conv_card cong: conj_cong)
    moreover have "length (filter (renderable D) h) < 2 ^ 32" using assms(2) length_filter_le le_less_trans by blast
    ultimately show ?thesis by (simp add: scan_history(4) USIZE_MAX_def)
  qed
  have gaps: "length (gap_entries D h) = length (filter (\<lambda>i. \<not> ?P i) [0 ..< length h])" by (simp add: gap_entries_def)
  have all: "downsample_segments D h (width - length (gap_entries D h)) (scn_numeric_total ?s) (scn_segments ?s) =
      map (entry_of D h) (filter ?P [0 ..< length h])"
    using downsample_segments_all [OF runs_of_history, of D h "scn_numeric_total ?s" "width - length (gap_entries D h)"]
      total split gaps assms by (simp add: scan_history(3))
  define es where "es = gap_entries D h @ map (entry_of D h) (filter ?P [0 ..< length h])"
  have es: "es = map (entry_of D h) (filter (\<lambda>i. \<not> ?P i) [0 ..< length h] @ filter ?P [0 ..< length h])"
    by (simp add: es_def gap_entries_rendered)
  have fst: "map fst es = filter (\<lambda>i. \<not> ?P i) [0 ..< length h] @ filter ?P [0 ..< length h]"
    unfolding es by (rule entry_of_simps)
  have "distinct (map fst es)" unfolding fst by auto
  note sorted = sort_key_distinct [OF this]
  then have srt: "sorted (map fst (sort_key fst es))" "distinct (map fst (sort_key fst es))"
    unfolding strict_sorted_iff by blast+
  have "set (map fst (sort_key fst es)) = set (map fst es)" by (simp only: set_map set_sort)
  also have "\<dots> = set [0 ..< length h]" unfolding fst by auto
  finally have "map fst (sort_key fst es) = [0 ..< length h]"
    by (rule sorted_distinct_set_unique [OF srt sorted_upt distinct_upt])
  moreover have "\<forall>x \<in> set (sort_key fst es). x = entry_of D h (fst x)" unfolding es by auto
  ultimately have eq: "sort_key fst es = map (entry_of D h) [0 ..< length h]"
    by (rule rebuild_map)
  have "downsample_min_max D h width = map snd (sort_key fst es)"
  proof (cases "width \<le> length (gap_entries D h)")
    case True
    then have "length (filter ?P [0 ..< length h]) = 0" "width = length (gap_entries D h)" using split gaps assms by linarith+
    then have "filter ?P [0 ..< length h] = []" "width = length (gap_entries D h)" by (simp_all only: length_0_conv)
    moreover from this have es_gaps: "es = gap_entries D h" by (simp only: es_def list.map append_Nil2)
    moreover have "sort_key fst (gap_entries D h) = gap_entries D h"
      by (rule sort_key_strict) (simp add: gap_entries_rendered sorted_wrt_filter del: map_map)
    ultimately have "map snd (sort_key fst es) = map snd (take width (gap_entries D h))" by (simp only: take_all order_refl)
    then show ?thesis using True False assms(1) by (simp add: downsample_min_max_def scan_history(1) Let_def)
  next
    case wide: False
    have "length (sort_key fst es) \<le> width" using eq assms by simp
    with wide False assms show ?thesis by (simp add: downsample_min_max_def scan_history(1) Let_def all es_def)
  qed
  also have "\<dots> = map (\<lambda>i. rendered D (h ! i)) [0 ..< length h]" unfolding eq by (simp add: entry_of_def o_def)
  also have "\<dots> = render_history D h" by (simp add: render_history_def map_equality_iff)
  finally show ?thesis .
qed

subsection \<open>Witnesses\<close>

definition zero_sample :: "monotonic_instant \<Rightarrow> rat telemetry_sample_core" where
  "zero_sample t = \<lparr>tsc_session_id = 1, tsc_parameter_id = ''ramp'', tsc_raw = [0], tsc_engineering = Fixed 0,
     tsc_quality = Good, tsc_monotonic_time = t, tsc_utc_time = 0, tsc_request_id = 1\<rparr>"

lemma zero_renderable: "renderable_value rat_decimal (SamplePoint (zero_sample t)) = Some (t, Finite 0)"
  by (simp add: renderable_value_def zero_sample_def render_value_def rat_decimal_def f64_round_def f64_is_finite_def)

lemma downsample_keeps_extremes_witness:
  "\<exists>d. selected_point d \<in> set (downsample_segment rat_decimal [SamplePoint (zero_sample 1), SamplePoint (zero_sample 2), SamplePoint (zero_sample 3)] 0 2)"
  using downsample_keeps_extremes [of 2 "(1, 2, Finite 0)" rat_decimal 0
      "[SamplePoint (zero_sample 1), SamplePoint (zero_sample 2), SamplePoint (zero_sample 3)]"]
  by (auto simp: zero_renderable)

lemma downsample_shows_all_that_fits_witness:
  "downsample_min_max rat_decimal [SamplePoint (zero_sample 1), GapPoint 2 Timeout] 2 = [RenderValue 1 (Finite 0), RenderGap 2 Timeout]"
  using downsample_shows_all_that_fits [of "[SamplePoint (zero_sample 1), GapPoint 2 Timeout]" 2 rat_decimal]
  by (simp add: render_history_def rendered_def zero_renderable) (simp add: renderable_value_def render_gap_def)

text \<open>
  The shares are rounded up, so that earlier runs can use up the width and the newest run is not shown at
  all, although it is as long as ever: here the sample after the gap, of five points at width four.
\<close>

lemma downsample_drops_newest_run:
  "downsample_min_max rat_decimal
     [SamplePoint (zero_sample 1), SamplePoint (zero_sample 2), SamplePoint (zero_sample 3), GapPoint 4 Timeout,
      SamplePoint (zero_sample 5)] 4 =
   [RenderValue 1 (Finite 0), RenderValue 2 (Finite 0), RenderValue 3 (Finite 0), RenderGap 4 Timeout]"
  by (simp add: downsample_min_max_def scan_history_def scan_point_def zero_renderable usize_add_def USIZE_MAX_def Let_def
    segment_budget_def div_ceil_def downsample_segment_def selected_point_def)
    (simp add: renderable_value_def render_gap_def)

end
