(* ===== verification/Faults.thy ===== *)
theory Faults
  imports Telemetry_State Session Texts
begin

unbundle bit_operations_syntax

text \<open>
  The fault timeline (\<open>lantern-app/src/faults.rs\<close>, \<open>lantern-domain/src/fault.rs\<close>): the observation
  of the profile's fault source, the transitions of scalar codes and of bit sets, the parameters of the
  freeze frame, and the bounded list of events. The \<open>Debug\<close> text of a telemetry error, which the
  compiler derives, is the parameter \<open>debug_text\<close>.
\<close>

subsection \<open>Data\<close>

type_synonym fault_event_id = u128

definition MAX_FAULT_EVENTS :: nat where "MAX_FAULT_EVENTS = 256"
definition MAX_FREEZE_FRAME_PARAMETERS :: nat where "MAX_FREEZE_FRAME_PARAMETERS = 64"
definition FAULT_MAXIMUM_AGE :: duration where "FAULT_MAXIMUM_AGE = from_millis 500"

record fault_meaning =
  fme_raw :: u64
  fme_code :: "string option"
  fme_name :: "string option"
  fme_description :: "string option"
  fme_severity :: "fault_severity option"

datatype fault_transition =
    FaultRaised fault_meaning
  | FaultChanged fault_meaning fault_meaning
  | FaultCleared fault_meaning
  | BitsChanged "fault_meaning list" "fault_meaning list"

record 'd freeze_frame_value =
  ffv_parameter_id :: parameter_id
  ffv_raw :: "raw_registers option"
  ffv_engineering :: "'d engineering_value option"
  ffv_quality :: telemetry_quality
  ffv_observed_at :: "utc_timestamp option"
  ffv_age :: "duration option"
  ffv_error :: "string option"

datatype (plugins only: code size) freeze_frame_completeness =
    FramePending | FrameComplete | FramePartial | FrameUnavailable

record 'd freeze_frame =
  ffr_pre_fault :: "'d freeze_frame_value list"
  ffr_captured :: "'d freeze_frame_value list"
  ffr_completeness :: freeze_frame_completeness
  ffr_errors :: "string list"

record 'd fault_event =
  fev_event_id :: fault_event_id
  fev_session_id :: session_id
  fev_fingerprint :: device_fingerprint
  fev_profile_hash :: string
  fev_transition :: fault_transition
  fev_first_observed_at :: utc_timestamp
  fev_last_observed_at :: utc_timestamp
  fev_acknowledged :: bool
  fev_freeze_frame :: "'d freeze_frame"

record 'd fault_event_view =
  few_event :: "'d fault_event"
  few_bus :: bus_statistics_snapshot

record 'd fault_timeline_view =
  ftv_events :: "'d fault_event_view list"
  ftv_evicted_events :: u64
  ftv_last_export :: "path option"
  ftv_error :: "string option"

record fault_identity_context =
  fic_session_id :: session_id
  fic_fingerprint :: device_fingerprint
  fic_profile_hash :: string

record fault_detection =
  fdt_event_id :: fault_event_id
  fdt_session_id :: session_id
  fdt_freeze_frame_parameters :: "parameter_id list"

record 'd fault_tracker =
  ftr_events :: "'d fault_event_view list"
  ftr_evicted_events :: u64
  ftr_last_raw :: "u64 option"
  ftr_active_event_id :: "fault_event_id option"
  ftr_next_event_id :: u128
  ftr_last_export :: "path option"
  ftr_error :: "string option"

datatype fault_tracker_error = MissingFaultSourceParameter | FaultDecode codec_error

definition fault_tracker_default :: "'d fault_tracker" where
  "fault_tracker_default = \<lparr>ftr_events = [], ftr_evicted_events = 0, ftr_last_raw = None,
     ftr_active_event_id = None, ftr_next_event_id = 1, ftr_last_export = None, ftr_error = None\<rparr>"

subsection \<open>Transitions\<close>

definition fault_meaning_of :: "'d validated_device_profile \<Rightarrow> u64 \<Rightarrow> fault_meaning" where
  "fault_meaning_of profile raw =
     (case bt_get (vdp_faults profile) raw of
        None \<Rightarrow> \<lparr>fme_raw = raw, fme_code = None, fme_name = None, fme_description = None, fme_severity = None\<rparr>
      | Some f \<Rightarrow> \<lparr>fme_raw = raw, fme_code = Some (vfd_code f), fme_name = Some (vfd_name f),
          fme_description = Some (vfd_description f), fme_severity = Some (vfd_severity f)\<rparr>)"

definition scalar_transition ::
  "'d validated_device_profile \<Rightarrow> u64 \<Rightarrow> u64 \<Rightarrow> u64 \<Rightarrow> fault_transition option" where
  "scalar_transition profile no_fault previous current =
     (case (previous = no_fault, current = no_fault) of
        (True, True) \<Rightarrow> None
      | (True, False) \<Rightarrow> Some (FaultRaised (fault_meaning_of profile current))
      | (False, True) \<Rightarrow> Some (FaultCleared (fault_meaning_of profile previous))
      | (False, False) \<Rightarrow>
          if previous \<noteq> current
          then Some (FaultChanged (fault_meaning_of profile previous) (fault_meaning_of profile current))
          else None)"

definition trailing_zeros :: "u64 \<Rightarrow> nat" where
  "trailing_zeros w = length (takeWhile (\<lambda>i. \<not> bit w i) [0 ..< 64])"

text \<open>The loop clears the lowest set bit until none is left.\<close>

lemma clear_lowest_less:
  fixes w :: u64
  assumes "w \<noteq> 0"
  shows "trailing_zeros w < 64" and "bit w (trailing_zeros w)"
    and "unat (w AND NOT (push_bit (trailing_zeros w) 1)) < unat w"
proof -
  have ex: "\<exists>i < 64. bit w i"
  proof (rule ccontr)
    assume "\<not> ?thesis"
    then have "w = 0" by (intro bit_eqI) (simp add: bit_simps)
    with assms show False by contradiction
  qed
  let ?k = "trailing_zeros w"
  have "?k < length [0 ..< 64]"
    using ex unfolding trailing_zeros_def by (metis atLeast0LessThan atLeastLessThan_upt length_takeWhile_le lessThan_iff nat_less_le takeWhile_eq_all_conv le_neq_implies_less takeWhile_eq_take take_all_iff)
  then show k: "?k < 64" by simp
  then have "\<not> \<not> bit w ([0 ..< 64] ! ?k)"
    unfolding trailing_zeros_def by (intro nth_length_takeWhile) simp
  with k show b: "bit w ?k" by simp
  have "w AND NOT (push_bit ?k 1) \<noteq> w"
  proof
    assume "w AND NOT (push_bit ?k 1) = w"
    then have "bit (w AND NOT (push_bit ?k 1)) ?k" using b by simp
    then show False using k by (simp add: bit_simps)
  qed
  moreover have "w AND NOT (push_bit ?k 1) \<le> w" by (simp add: word_and_le2)
  ultimately have "w AND NOT (push_bit ?k 1) < w" by (simp add: order_le_less)
  then show "unat (w AND NOT (push_bit ?k 1)) < unat w" by (simp add: word_less_nat_alt)
qed

function bit_meanings :: "'d validated_device_profile \<Rightarrow> u64 \<Rightarrow> fault_meaning list" where
  "bit_meanings profile bits =
     (if bits = 0 then []
      else let b = push_bit (trailing_zeros bits) 1
           in fault_meaning_of profile b # bit_meanings profile (bits AND NOT b))"
  by pat_completeness auto
termination
  by (relation "measure (\<lambda>(profile, bits). unat bits)") (auto simp: push_bit_eq_mult dest: clear_lowest_less(3))

declare bit_meanings.simps [simp del]

definition bitset_transition :: "'d validated_device_profile \<Rightarrow> u64 \<Rightarrow> u64 \<Rightarrow> fault_transition option" where
  "bitset_transition profile previous current =
     (let raised = current AND NOT previous; cleared = previous AND NOT current
      in if raised = 0 \<and> cleared = 0 then None
         else Some (BitsChanged (bit_meanings profile raised) (bit_meanings profile cleared)))"

subsection \<open>The freeze frame\<close>

definition transition_meanings :: "fault_transition \<Rightarrow> fault_meaning list" where
  "transition_meanings change =
     (case change of
        FaultRaised current \<Rightarrow> [current]
      | FaultChanged previous current \<Rightarrow> [previous, current]
      | FaultCleared previous \<Rightarrow> [previous]
      | BitsChanged raised cleared \<Rightarrow> raised @ cleared)"

text \<open>The set \<open>unique\<close> of the code holds what \<open>result\<close> holds.\<close>

definition push_parameter :: "parameter_id \<Rightarrow> parameter_id list \<Rightarrow> parameter_id list" where
  "push_parameter i result =
     (if length result < MAX_FREEZE_FRAME_PARAMETERS \<and> i \<notin> set result then result @ [i] else result)"

text \<open>The loop over the freeze frames of the meanings, left as soon as the result is full.\<close>

fun push_definition :: "parameter_id list \<Rightarrow> parameter_id list \<Rightarrow> bool \<times> parameter_id list" where
  "push_definition [] result = (False, result)"
| "push_definition (i # ids) result =
     (let result' = push_parameter i result
      in if length result' \<ge> MAX_FREEZE_FRAME_PARAMETERS then (True, result') else push_definition ids result')"

fun push_meanings :: "'d validated_device_profile \<Rightarrow> fault_meaning list \<Rightarrow> parameter_id list \<Rightarrow> parameter_id list" where
  "push_meanings profile [] result = result"
| "push_meanings profile (m # ms) result =
     (case bt_get (vdp_faults profile) (fme_raw m) of
        None \<Rightarrow> push_meanings profile ms result
      | Some f \<Rightarrow>
          (case push_definition (take MAX_FREEZE_FRAME_PARAMETERS (vfd_freeze_frame f)) result of
             (True, result') \<Rightarrow> result'
           | (False, result') \<Rightarrow> push_meanings profile ms result'))"

definition freeze_frame_parameters ::
  "'d validated_device_profile \<Rightarrow> parameter_id \<Rightarrow> fault_transition \<Rightarrow> parameter_id list" where
  "freeze_frame_parameters profile source change =
     push_meanings profile (transition_meanings change) (push_parameter source [])"

definition pre_fault_value ::
  "(telemetry_attempt_error \<Rightarrow> string) \<Rightarrow> 'd latest_values option \<Rightarrow> parameter_id \<Rightarrow> 'd freeze_frame_value" where
  "pre_fault_value debug_text latest i =
     (case Option.bind latest (\<lambda>values. latest_values_value values i) of
        None \<Rightarrow> \<lparr>ffv_parameter_id = i, ffv_raw = None, ffv_engineering = None, ffv_quality = Unavailable,
          ffv_observed_at = None, ffv_age = None, ffv_error = Some ''no pre-fault observation available''\<rparr>
      | Some value \<Rightarrow>
          (let sample = lva_last_good value
           in \<lparr>ffv_parameter_id = i, ffv_raw = map_option tsc_raw sample,
               ffv_engineering = map_option tsc_engineering sample, ffv_quality = lva_current_quality value,
               ffv_observed_at = map_option tsc_utc_time sample, ffv_age = lva_age value,
               ffv_error = map_option debug_text (lva_last_error value)\<rparr>))"

definition pre_fault_values ::
  "(telemetry_attempt_error \<Rightarrow> string) \<Rightarrow> 'd latest_values option \<Rightarrow> parameter_id list \<Rightarrow> 'd freeze_frame_value list" where
  "pre_fault_values debug_text latest ids = map (pre_fault_value debug_text latest) ids"

subsection \<open>The tracker\<close>

text \<open>The first event with this identifier is updated (\<open>iter_mut().find\<close>).\<close>

fun update_event ::
  "fault_event_id \<Rightarrow> ('d fault_event \<Rightarrow> 'd fault_event) \<Rightarrow> 'd fault_event_view list \<Rightarrow> 'd fault_event_view list" where
  "update_event i f [] = []"
| "update_event i f (v # vs) =
     (if fev_event_id (few_event v) = i then v\<lparr>few_event := f (few_event v)\<rparr> # vs else v # update_event i f vs)"

definition touch :: "fault_event_id \<Rightarrow> utc_timestamp \<Rightarrow> 'd fault_tracker \<Rightarrow> 'd fault_tracker" where
  "touch i observed_at t =
     t\<lparr>ftr_events := update_event i (\<lambda>e. e\<lparr>fev_last_observed_at := observed_at\<rparr>) (ftr_events t)\<rparr>"

function evict :: "'d fault_tracker \<Rightarrow> 'd fault_tracker" where
  "evict t =
     (if length (ftr_events t) > MAX_FAULT_EVENTS
      then evict (t\<lparr>ftr_events := tl (ftr_events t), ftr_evicted_events := sat_inc (ftr_evicted_events t)\<rparr>)
      else t)"
  by pat_completeness auto
termination by (relation "measure (\<lambda>t. length (ftr_events t))") auto

declare evict.simps [simp del]

definition new_event ::
  "(telemetry_attempt_error \<Rightarrow> string) \<Rightarrow> 'd fault_tracker \<Rightarrow> fault_identity_context \<Rightarrow> fault_transition
     \<Rightarrow> utc_timestamp \<Rightarrow> 'd latest_values option \<Rightarrow> parameter_id list \<Rightarrow> 'd fault_event" where
  "new_event debug_text t identity change observed_at latest parameters =
     \<lparr>fev_event_id = ftr_next_event_id t, fev_session_id = fic_session_id identity,
      fev_fingerprint = fic_fingerprint identity, fev_profile_hash = fic_profile_hash identity,
      fev_transition = change, fev_first_observed_at = observed_at, fev_last_observed_at = observed_at,
      fev_acknowledged = False,
      fev_freeze_frame = \<lparr>ffr_pre_fault = pre_fault_values debug_text latest parameters, ffr_captured = [],
        ffr_completeness = FramePending, ffr_errors = []\<rparr>\<rparr>"

text \<open>\<open>observe\<close> from the raw value of the source on.\<close>

definition observe_raw ::
  "(telemetry_attempt_error \<Rightarrow> string) \<Rightarrow> 'd validated_device_profile \<Rightarrow> validated_fault_source \<Rightarrow> u64 \<Rightarrow> utc_timestamp
     \<Rightarrow> 'd latest_values option \<Rightarrow> fault_identity_context \<Rightarrow> bus_statistics_snapshot \<Rightarrow> 'd fault_tracker
     \<Rightarrow> fault_detection option \<times> 'd fault_tracker" where
  "observe_raw debug_text profile source raw observed_at latest identity bus t =
     (let previous = (case ftr_last_raw t of None \<Rightarrow> vfs_no_fault source | Some r \<Rightarrow> r)
      in if ftr_last_raw t = None \<and> raw = vfs_no_fault source then (None, t\<lparr>ftr_last_raw := Some raw\<rparr>)
         else if ftr_last_raw t = Some raw then
           (None, case ftr_active_event_id t of None \<Rightarrow> t | Some i \<Rightarrow> touch i observed_at t)
         else
           case (case vfs_kind source of
                   ScalarCode \<Rightarrow> scalar_transition profile (vfs_no_fault source) previous raw
                 | BitSet \<Rightarrow> bitset_transition profile previous raw) of
             None \<Rightarrow> (None, t\<lparr>ftr_last_raw := Some raw, ftr_active_event_id := None\<rparr>)
           | Some change \<Rightarrow>
               let i = ftr_next_event_id t;
                   parameters = freeze_frame_parameters profile (vfs_parameter_id source) change;
                   view = \<lparr>few_event = new_event debug_text t identity change observed_at latest parameters,
                            few_bus = bus\<rparr>;
                   t1 = evict (t\<lparr>ftr_next_event_id := sat_inc i, ftr_events := ftr_events t @ [view]\<rparr>)
               in (Some \<lparr>fdt_event_id = i, fdt_session_id = fic_session_id identity,
                         fdt_freeze_frame_parameters = parameters\<rparr>,
                   t1\<lparr>ftr_last_raw := Some raw,
                      ftr_active_event_id := (if raw = vfs_no_fault source then None else Some i),
                      ftr_error := None\<rparr>))"

definition observe ::
  "(telemetry_attempt_error \<Rightarrow> string) \<Rightarrow> 'd validated_device_profile \<Rightarrow> 'd telemetry_event \<Rightarrow> 'd latest_values option
     \<Rightarrow> fault_identity_context \<Rightarrow> bus_statistics_snapshot \<Rightarrow> 'd fault_tracker
     \<Rightarrow> (fault_tracker_error + fault_detection option) \<times> 'd fault_tracker" where
  "observe debug_text profile event latest identity bus t =
     (case vdp_fault_source profile of
        None \<Rightarrow> (Ok None, t)
      | Some source \<Rightarrow>
          if tev_session_id event \<noteq> fic_session_id identity \<or> tev_parameter_id event \<noteq> vfs_parameter_id source
          then (Ok None, t)
          else if tev_quality event \<noteq> Good then (Ok None, t)
          else case tev_sample event of
              None \<Rightarrow> (Ok None, t)
            | Some sample \<Rightarrow>
                (case profile_parameter profile (vfs_parameter_id source) of
                   None \<Rightarrow> (Err MissingFaultSourceParameter, t)
                 | Some p \<Rightarrow>
                     (case raw_bits (vp_codec p) (tsc_raw sample) of
                        Inl e \<Rightarrow> (Err (FaultDecode e), t)
                      | Inr raw \<Rightarrow>
                          (case observe_raw debug_text profile source raw (tsc_utc_time sample) latest identity bus t of
                             (detection, t') \<Rightarrow> (Ok detection, t')))))"

definition complete_freeze_frame ::
  "fault_event_id \<Rightarrow> 'd freeze_frame_value list \<Rightarrow> string list \<Rightarrow> 'd fault_tracker \<Rightarrow> 'd fault_tracker" where
  "complete_freeze_frame i captured errors t =
     t\<lparr>ftr_events := update_event i (\<lambda>e.
        let expected = length (ffr_pre_fault (fev_freeze_frame e));
            good = length (filter (\<lambda>v. ffv_quality v = Good \<and> ffv_raw v \<noteq> None) captured);
            completeness = (if errors = [] \<and> good = expected then FrameComplete
                            else if good = 0 then FrameUnavailable else FramePartial)
        in e\<lparr>fev_freeze_frame := (fev_freeze_frame e)\<lparr>ffr_captured := captured,
               ffr_completeness := completeness, ffr_errors := errors\<rparr>\<rparr>) (ftr_events t)\<rparr>"

definition has_event :: "fault_event_id \<Rightarrow> 'd fault_tracker \<Rightarrow> bool" where
  "has_event i t \<longleftrightarrow> list_ex (\<lambda>v. fev_event_id (few_event v) = i) (ftr_events t)"

definition acknowledge :: "fault_event_id \<Rightarrow> 'd fault_tracker \<Rightarrow> 'd fault_tracker" where
  "acknowledge i t =
     (if has_event i t
      then t\<lparr>ftr_events := update_event i (\<lambda>e. e\<lparr>fev_acknowledged := True\<rparr>) (ftr_events t), ftr_error := None\<rparr>
      else t)"

definition export_event :: "fault_event_id \<Rightarrow> 'd fault_tracker \<Rightarrow> 'd fault_event_view option" where
  "export_event i t = find (\<lambda>v. fev_event_id (few_event v) = i) (ftr_events t)"

definition set_error :: "string \<Rightarrow> 'd fault_tracker \<Rightarrow> 'd fault_tracker" where
  "set_error e t = t\<lparr>ftr_error := Some e\<rparr>"

definition export_finished :: "string + path \<Rightarrow> 'd fault_tracker \<Rightarrow> 'd fault_tracker" where
  "export_finished result t =
     (case result of Inr p \<Rightarrow> t\<lparr>ftr_last_export := Some p, ftr_error := None\<rparr>
      | Inl e \<Rightarrow> t\<lparr>ftr_error := Some e\<rparr>)"

definition fault_view :: "'d fault_tracker \<Rightarrow> 'd fault_timeline_view" where
  "fault_view t = \<lparr>ftv_events = ftr_events t, ftv_evicted_events = ftr_evicted_events t,
     ftv_last_export = ftr_last_export t, ftv_error = ftr_error t\<rparr>"

definition fault_subscription ::
  "'d validated_device_profile \<Rightarrow> poll_plan_error + read_subscription option" where
  "fault_subscription profile =
     (case vdp_fault_source profile of
        None \<Rightarrow> Ok None
      | Some source \<Rightarrow>
          and_then (subscriber_id_parse (''fault:'' @ vfs_parameter_id source)) (\<lambda>subscriber.
          and_then (read_subscription_new (vfs_parameter_id source) FastPoll subscriber ForFault False FAULT_MAXIMUM_AGE)
            (\<lambda>s. Ok (Some s))))"

subsection \<open>The actions of the application\<close>

datatype 'd fault_action =
    ObserveTelemetry "'d telemetry_event" bus_statistics_snapshot
  | FreezeFrameCompleted fault_event_id "'d freeze_frame_value list" "string list"
  | AcknowledgeFault fault_event_id
  | ExportFault fault_event_id
  | FaultExportFinished "string + path"

datatype 'd fault_effect =
    CaptureFreezeFrame fault_event_id session_id "'d validated_device_profile" "parameter_id list"
  | ExportFaultEvent string "'d fault_event_view"

definition fault_tracker_error_text :: "fault_tracker_error \<Rightarrow> string" where
  "fault_tracker_error_text e =
     (case e of
        MissingFaultSourceParameter \<Rightarrow> ''validated profile lost its fault-source parameter''
      | FaultDecode c \<Rightarrow> ''fault source could not be decoded: '' @ codec_error_text c)"

definition fault_identity :: "active_session \<Rightarrow> fault_identity_context" where
  "fault_identity a =
     \<lparr>fic_session_id = as_session_id a, fic_fingerprint = vdi_fingerprint (vsi_device (as_identity a)),
      fic_profile_hash = to_hex (vsi_profile_hash (as_identity a))\<rparr>"

definition reduce_fault_export ::
  "session_state \<Rightarrow> fault_event_id \<Rightarrow> 'd fault_tracker \<Rightarrow> 'd fault_effect list \<times> 'd fault_tracker" where
  "reduce_fault_export session i t =
     (case session of
        Active a \<Rightarrow>
          (case export_event i t of
             None \<Rightarrow> ([], set_error ''fault event is no longer in the bounded timeline'' t)
           | Some v \<Rightarrow>
               if fev_session_id (few_event v) \<noteq> as_session_id a \<or>
                  fev_fingerprint (few_event v) \<noteq> vdi_fingerprint (vsi_device (as_identity a)) \<or>
                  fev_profile_hash (few_event v) \<noteq> to_hex (vsi_profile_hash (as_identity a))
               then ([], set_error ''fault export identity does not match the active Verified session'' t)
               else ([ExportFaultEvent (''fault-'' @ nat_text (unat (as_session_id a)) @ ''-'' @ nat_text (unat i)) v], t))
      | _ \<Rightarrow> ([], set_error ''fault export requires an active Verified session'' t))"

definition reduce_faults ::
  "(telemetry_attempt_error \<Rightarrow> string) \<Rightarrow> 'd validated_device_profile option \<Rightarrow> session_state
     \<Rightarrow> 'd latest_values option \<Rightarrow> 'd fault_action \<Rightarrow> 'd fault_tracker \<Rightarrow> 'd fault_effect list \<times> 'd fault_tracker" where
  "reduce_faults debug_text selected_profile session latest action t =
     (case action of
        ObserveTelemetry event bus \<Rightarrow>
          (case (selected_profile, session) of
             (Some profile, Active a) \<Rightarrow>
               (case observe debug_text profile event latest (fault_identity a) bus t of
                  (Inl e, t') \<Rightarrow> ([], set_error (fault_tracker_error_text e) t')
                | (Inr None, t') \<Rightarrow> ([], t')
                | (Inr (Some d), t') \<Rightarrow>
                    ([CaptureFreezeFrame (fdt_event_id d) (fdt_session_id d) profile (fdt_freeze_frame_parameters d)], t'))
           | _ \<Rightarrow> ([], t))
      | FreezeFrameCompleted i captured errors \<Rightarrow> ([], complete_freeze_frame i captured errors t)
      | AcknowledgeFault i \<Rightarrow> ([], acknowledge i t)
      | ExportFault i \<Rightarrow> reduce_fault_export session i t
      | FaultExportFinished result \<Rightarrow> ([], export_finished result t))"

end
