(* ===== verification/Fault_Plan.thy ===== *)
theory Fault_Plan
  imports Faults
begin

text \<open>
  The one-shot read plan of a freeze frame (\<open>lantern-app/src/fault_plan.rs\<close>). As in the poll planner
  an outer \<open>None\<close> stands for the panic of \<open>RegisterBlock::end\<close>.
\<close>

record frame_candidate =
  fca_parameter_id :: parameter_id
  fca_block :: register_block
  fca_do_not_bridge :: bool
  fca_maximum_bridge_gap :: u16

record frame_slice =
  fsl_parameter_id :: parameter_id
  fsl_register_offset :: u16
  fsl_register_count :: register_count

record frame_block =
  fbl_function :: modbus_function
  fbl_block :: register_block
  fbl_parameters :: "frame_slice list"

type_synonym frame_plan = "frame_block list"

definition frame_request_class :: "frame_plan \<Rightarrow> request_class" where
  "frame_request_class plan = Interactive"

datatype frame_plan_error =
    TooManyFrameParameters nat
  | UnknownFrameParameter parameter_id
  | InvalidFrameBlock

definition frame_candidate_of :: "parameter_id \<Rightarrow> 'd validated_parameter \<Rightarrow> frame_candidate" where
  "frame_candidate_of i p =
     \<lparr>fca_parameter_id = i, fca_block = vp_block p, fca_do_not_bridge = vp_do_not_bridge p,
      fca_maximum_bridge_gap = vp_maximum_bridge_gap p\<rparr>"

fun frame_candidates ::
  "'d validated_device_profile \<Rightarrow> parameter_id set \<Rightarrow> parameter_id list \<Rightarrow> frame_plan_error + frame_candidate list" where
  "frame_candidates profile unique [] = Ok []"
| "frame_candidates profile unique (i # ids) =
     (if i \<in> unique then frame_candidates profile unique ids
      else and_then (ok_or (UnknownFrameParameter i) (profile_parameter profile i)) (\<lambda>p.
           and_then (frame_candidates profile (insert i unique) ids) (\<lambda>cs. Ok (frame_candidate_of i p # cs))))"

definition frame_start :: "frame_candidate list \<Rightarrow> u16" where
  "frame_start g = min_list (map (\<lambda>c. rb_start (fca_block c)) g)"

definition frame_end :: "frame_candidate list \<Rightarrow> u16 option" where
  "frame_end g = map_option max_list (those (map (\<lambda>c. register_block_end (fca_block c)) g))"

definition frame_can_append :: "frame_candidate list \<Rightarrow> frame_candidate \<Rightarrow> bool option" where
  "frame_can_append g c =
     (if rb_table (fca_block (hd g)) \<noteq> rb_table (fca_block c) then Some False
      else case (frame_end g, register_block_end (fca_block c)) of
          (Some end_address, Some next_end) \<Rightarrow>
            (let start = frame_start g;
                 combined_end = max end_address next_end;
                 next_start = rb_start (fca_block c)
             in if int (unat combined_end) - int (unat start) + 1 > 125 then Some False
                else if next_start \<le> sat_add end_address 1 then Some True
                else
                  let gap = next_start - end_address - 1;
                      group_gap = min_list (map fca_maximum_bridge_gap g)
                  in Some (\<not> list_ex fca_do_not_bridge g \<and> \<not> fca_do_not_bridge c \<and>
                           gap \<le> min group_gap (fca_maximum_bridge_gap c)))
        | _ \<Rightarrow> None)"

fun frame_groups :: "frame_candidate list list \<Rightarrow> frame_candidate list \<Rightarrow> frame_candidate list list option" where
  "frame_groups groups [] = Some groups"
| "frame_groups groups (c # cs) =
     (if groups = [] then frame_groups [[c]] cs
      else case frame_can_append (last groups) c of
          None \<Rightarrow> None
        | Some True \<Rightarrow> frame_groups (butlast groups @ [last groups @ [c]]) cs
        | Some False \<Rightarrow> frame_groups (groups @ [[c]]) cs)"

definition frame_position :: "frame_candidate \<Rightarrow> nat \<times> u16 \<times> parameter_id" where
  "frame_position c = (table_rank (rb_table (fca_block c)), rb_start (fca_block c), fca_parameter_id c)"

definition frame_slice_of :: "u16 \<Rightarrow> frame_candidate \<Rightarrow> frame_plan_error + frame_slice" where
  "frame_slice_of start c =
     and_then (ok_or InvalidFrameBlock (checked_sub_word (rb_start (fca_block c)) start)) (\<lambda>offset.
     Ok \<lparr>fsl_parameter_id = fca_parameter_id c, fsl_register_offset = offset,
         fsl_register_count = rb_count (fca_block c)\<rparr>)"

fun frame_slices :: "u16 \<Rightarrow> frame_candidate list \<Rightarrow> frame_plan_error + frame_slice list" where
  "frame_slices start [] = Ok []"
| "frame_slices start (c # cs) =
     and_then (frame_slice_of start c) (\<lambda>s. and_then (frame_slices start cs) (\<lambda>ss. Ok (s # ss)))"

definition frame_block_of :: "frame_candidate list \<Rightarrow> (frame_plan_error + frame_block) option" where
  "frame_block_of g =
     (case frame_end g of
        None \<Rightarrow> None
      | Some end_address \<Rightarrow>
          let start = frame_start g;
              table = rb_table (fca_block (hd g));
              function = read_function table
          in case Option.bind (checked_sub_word end_address start) (\<lambda>span. checked_add_word span 1) of
               None \<Rightarrow> Some (Err InvalidFrameBlock)
             | Some count \<Rightarrow>
                 if count = 0 then Some (Err InvalidFrameBlock)
                 else case register_block_new table start count function of
                   Inl _ \<Rightarrow> Some (Err InvalidFrameBlock)
                 | Inr block \<Rightarrow>
                     Some (and_then (frame_slices start g) (\<lambda>slices.
                       Ok \<lparr>fbl_function = function, fbl_block = block,
                           fbl_parameters = sort_key (\<lambda>s. (fsl_register_offset s, fsl_parameter_id s)) slices\<rparr>)))"

fun frame_blocks :: "frame_candidate list list \<Rightarrow> (frame_plan_error + frame_plan) option" where
  "frame_blocks [] = Some (Ok [])"
| "frame_blocks (g # gs) =
     (case frame_block_of g of
        None \<Rightarrow> None
      | Some (Inl e) \<Rightarrow> Some (Err e)
      | Some (Inr b) \<Rightarrow> map_option (\<lambda>r. and_then r (\<lambda>bs. Ok (b # bs))) (frame_blocks gs))"

definition build_fault_freeze_frame ::
  "'d validated_device_profile \<Rightarrow> parameter_id list \<Rightarrow> (frame_plan_error + frame_plan) option" where
  "build_fault_freeze_frame profile ids =
     (if length ids > MAX_FREEZE_FRAME_PARAMETERS then Some (Err (TooManyFrameParameters (length ids)))
      else case frame_candidates profile {} ids of
          Inl e \<Rightarrow> Some (Err e)
        | Inr cs \<Rightarrow>
            (case frame_groups [] (sort_key frame_position cs) of
               None \<Rightarrow> None
             | Some groups \<Rightarrow> frame_blocks groups))"

end
