(* ===== verification/Fault_Properties.thy ===== *)
theory Fault_Properties
  imports Faults Samples "HOL-Library.Sublist"
begin

unbundle bit_operations_syntax

text \<open>
  The fault timeline records every change of the fault source exactly once, in order, and keeps the
  newest 256; bit sets are split into their bits; freeze frames stay within their bound.
\<close>

subsection \<open>Bit sets\<close>

lemma trailing_zeros_split:
  fixes w :: u64
  assumes "w \<noteq> 0"
  shows "filter (bit w) [0 ..< 64] =
    trailing_zeros w # filter (bit (w AND NOT (push_bit (trailing_zeros w) 1))) [0 ..< 64]"
proof -
  let ?k = "trailing_zeros w"
  have k: "?k < 64" "bit w ?k" using clear_lowest_less [OF assms] by simp_all
  have low: "\<not> bit w i" if "i < ?k" for i
  proof -
    have "i < length (takeWhile (\<lambda>i. \<not> bit w i) [0 ..< 64])" using that by (simp add: trailing_zeros_def)
    then have "takeWhile (\<lambda>i. \<not> bit w i) [0 ..< 64] ! i \<in> set (takeWhile (\<lambda>i. \<not> bit w i) [0 ..< 64])" by (rule nth_mem)
    moreover have "takeWhile (\<lambda>i. \<not> bit w i) [0 ..< 64] ! i = i"
      using that k by (simp add: takeWhile_nth trailing_zeros_def)
    ultimately show ?thesis by (metis set_takeWhileD)
  qed
  have upt: "[0 ..< 64] = [0 ..< ?k] @ ?k # [Suc ?k ..< 64]"
    using k upt_add_eq_append [of 0 ?k "64 - ?k"] by (simp add: upt_conv_Cons del: upt_Suc)
  have b: "bit (w AND NOT (push_bit ?k 1)) i \<longleftrightarrow> bit w i \<and> i \<noteq> ?k" if "i < 64" for i
    using that by (auto simp: bit_simps)
  have "filter (bit w) [0 ..< 64] = ?k # filter (bit w) [Suc ?k ..< 64]"
    unfolding upt using low k by simp
  moreover have "filter (bit (w AND NOT (push_bit ?k 1))) [0 ..< 64] = filter (bit w) [Suc ?k ..< 64]"
    unfolding upt using low k b by (auto intro!: filter_cong simp: filter_empty_conv)
  ultimately show ?thesis by simp
qed

lemma fme_raw_fault_meaning_of [simp]: "fme_raw (fault_meaning_of profile raw) = raw"
  by (simp add: fault_meaning_of_def split: option.splits)

text \<open>
  The loop that clears the lowest set bit computes the reference: the meanings of exactly the set
  bits of the word, each once, in ascending order.
\<close>
theorem bit_meanings_reference:
  "bit_meanings profile bits = map (\<lambda>i. fault_meaning_of profile (push_bit i 1)) (filter (bit bits) [0 ..< 64])"
proof (induction profile bits rule: bit_meanings.induct)
  case (1 profile bits)
  then show ?case
    by (cases "bits = 0")
      (simp_all add: bit_meanings.simps [of profile] trailing_zeros_split Let_def)
qed

subsection \<open>Freeze frames\<close>

definition frame_ok :: "parameter_id list \<Rightarrow> bool" where
  "frame_ok ids \<longleftrightarrow> distinct ids \<and> length ids \<le> MAX_FREEZE_FRAME_PARAMETERS"

lemma push_parameter_ok:
  "frame_ok ids \<Longrightarrow> frame_ok (push_parameter i ids) \<and> prefix ids (push_parameter i ids) \<and> set (push_parameter i ids) \<subseteq> insert i (set ids)"
  by (auto simp: frame_ok_def push_parameter_def)

lemma push_definition_ok:
  assumes "push_definition is ids = (full, ids')" and "frame_ok ids"
  shows "frame_ok ids' \<and> prefix ids ids' \<and> set ids' \<subseteq> set ids \<union> set is \<and>
    (if full then length ids' \<ge> MAX_FREEZE_FRAME_PARAMETERS else set is \<subseteq> set ids')"
  using assms
proof (induction "is" ids rule: push_definition.induct)
  case (2 i "is" ids)
  let ?ids = "push_parameter i ids"
  note p = push_parameter_ok [OF 2(3), of i]
  show ?case
  proof (cases "length ?ids \<ge> MAX_FREEZE_FRAME_PARAMETERS")
    case True
    with 2(2) p show ?thesis by auto
  next
    case False
    then have i: "i \<in> set ?ids" by (auto simp: push_parameter_def split: if_splits)
    from False 2(2) have d: "push_definition is ?ids = (full, ids')" by (simp add: Let_def)
    from p have "frame_ok ?ids" by blast
    note ih = 2(1) [OF refl False d this]
    have "prefix ids ids'" using p ih prefix_order.trans by blast
    moreover have "i \<in> set ids'" using ih i set_mono_prefix by blast
    ultimately show ?thesis using ih p by (cases full) auto
  qed
qed auto

lemma push_meanings_ok:
  assumes "frame_ok ids"
  shows "frame_ok (push_meanings profile ms ids) \<and> prefix ids (push_meanings profile ms ids) \<and>
    set (push_meanings profile ms ids) \<subseteq> set ids \<union>
      (\<Union>m \<in> set ms. \<Union>f \<in> set_option (bt_get (vdp_faults profile) (fme_raw m)). set (vfd_freeze_frame f)) \<and>
    (length (push_meanings profile ms ids) < MAX_FREEZE_FRAME_PARAMETERS \<longrightarrow>
      (\<forall>m \<in> set ms. \<forall>f. bt_get (vdp_faults profile) (fme_raw m) = Some f \<longrightarrow>
        set (take MAX_FREEZE_FRAME_PARAMETERS (vfd_freeze_frame f)) \<subseteq> set (push_meanings profile ms ids)))"
  using assms
proof (induction ms arbitrary: ids)
  case (Cons m ms)
  show ?case
  proof (cases "bt_get (vdp_faults profile) (fme_raw m)")
    case None
    with Cons show ?thesis by simp
  next
    case (Some f)
    let ?is = "take MAX_FREEZE_FRAME_PARAMETERS (vfd_freeze_frame f)"
    obtain full ids' where d: "push_definition ?is ids = (full, ids')" by fastforce
    note step = push_definition_ok [OF this Cons.prems]
    have sub: "set ?is \<subseteq> set (vfd_freeze_frame f)" by (rule set_take_subset)
    show ?thesis
    proof (cases full)
      case True
      with step Some d sub show ?thesis by auto
    next
      case False
      from step have "frame_ok ids'" by blast
      note ih = Cons.IH [OF this]
      have "prefix ids (push_meanings profile ms ids')" using ih step prefix_order.trans by blast
      moreover have "set ?is \<subseteq> set (push_meanings profile ms ids')" using ih step False set_mono_prefix by fastforce
      ultimately show ?thesis using ih step Some d False sub by auto
    qed
  qed
qed simp

lemma freeze_frame_bound:
  "distinct (freeze_frame_parameters profile source change) \<and>
   length (freeze_frame_parameters profile source change) \<le> 64 \<and>
   hd (freeze_frame_parameters profile source change) = source \<and>
   set (freeze_frame_parameters profile source change) \<subseteq> insert source
     (\<Union>m \<in> set (transition_meanings change). \<Union>f \<in> set_option (bt_get (vdp_faults profile) (fme_raw m)). set (vfd_freeze_frame f)) \<and>
   (length (freeze_frame_parameters profile source change) < 64 \<longrightarrow>
     (\<forall>m \<in> set (transition_meanings change). \<forall>f. bt_get (vdp_faults profile) (fme_raw m) = Some f \<longrightarrow>
        set (take 64 (vfd_freeze_frame f)) \<subseteq> set (freeze_frame_parameters profile source change)))"
proof -
  have one: "push_parameter source [] = [source]" by (simp add: push_parameter_def MAX_FREEZE_FRAME_PARAMETERS_def)
  have "frame_ok [source]" by (simp add: frame_ok_def MAX_FREEZE_FRAME_PARAMETERS_def)
  note all = push_meanings_ok [OF this, of profile "transition_meanings change", folded one, folded freeze_frame_parameters_def]
  then obtain zs where "freeze_frame_parameters profile source change = source # zs"
    unfolding one by (auto simp: prefix_def)
  then have "hd (freeze_frame_parameters profile source change) = source" by simp
  then show ?thesis using all unfolding one frame_ok_def MAX_FREEZE_FRAME_PARAMETERS_def by simp
qed

text \<open>
  The freeze frame of a fault is bounded and complete. Its parameters start with the fault source, are
  distinct and at most 64, and belong to the source or to the freeze frame of a fault that the change
  names; below the bound none of those is missing.
\<close>
theorem freeze_frame_is_bounded:
  "distinct (freeze_frame_parameters profile source change) \<and>
   length (freeze_frame_parameters profile source change) \<le> 64 \<and>
   hd (freeze_frame_parameters profile source change) = source \<and>
   set (freeze_frame_parameters profile source change) \<subseteq> insert source
     (\<Union>m \<in> set (transition_meanings change). \<Union>f \<in> set_option (bt_get (vdp_faults profile) (fme_raw m)). set (vfd_freeze_frame f)) \<and>
   (length (freeze_frame_parameters profile source change) < 64 \<longrightarrow>
     (\<forall>m \<in> set (transition_meanings change). \<forall>f. bt_get (vdp_faults profile) (fme_raw m) = Some f \<longrightarrow>
        set (take 64 (vfd_freeze_frame f)) \<subseteq> set (freeze_frame_parameters profile source change)))"
  by (rule freeze_frame_bound)

subsection \<open>The timeline\<close>

text \<open>
  The specification: the changes of a stream of raw values, from the value for no fault on. The tracker
  implements it with its list of events, whose identifiers count the changes.
\<close>

fun fault_changes :: "u64 \<Rightarrow> u64 list \<Rightarrow> (u64 \<times> u64) list" where
  "fault_changes previous [] = []"
| "fault_changes previous (raw # raws) =
     (if raw = previous then fault_changes previous raws else (previous, raw) # fault_changes raw raws)"

lemma fault_changes_snoc:
  "fault_changes p (rs @ [r]) = fault_changes p rs @ (if r = last (p # rs) then [] else [(last (p # rs), r)])"
  by (induction p rs rule: fault_changes.induct) auto

lemma length_fault_changes: "length (fault_changes p rs) \<le> length rs"
proof (induction p rs rule: fault_changes.induct)
  case (2 p r rs)
  then show ?case by (cases "r = p") auto
qed simp

lemma fault_changes_no_fault: "fault_changes p rs = [] \<longleftrightarrow> set rs \<subseteq> {p}"
  by (induction p rs rule: fault_changes.induct) auto

definition change_of ::
  "'d validated_device_profile \<Rightarrow> validated_fault_source \<Rightarrow> u64 \<times> u64 \<Rightarrow> fault_transition option" where
  "change_of profile source c =
     (case vfs_kind source of
        ScalarCode \<Rightarrow> scalar_transition profile (vfs_no_fault source) (fst c) (snd c)
      | BitSet \<Rightarrow> bitset_transition profile (fst c) (snd c))"

lemma bits_equal: "a AND NOT b = 0 \<Longrightarrow> b AND NOT a = 0 \<Longrightarrow> a = b" for a b :: u64
  by (rule bit_eqI) (metis bit_0_eq bit_and_iff bit_not_iff bot_apply bot_bool_def possible_bit_word)

lemma change_of_Some: "p \<noteq> c \<Longrightarrow> \<exists>x. change_of profile source (p, c) = Some x"
  by (cases "vfs_kind source")
    (auto simp: change_of_def scalar_transition_def bitset_transition_def Let_def dest: bits_equal split: bool.splits)

text \<open>The part of the tracker that the timeline theorem is about.\<close>

definition event_skeleton :: "'d fault_tracker \<Rightarrow> (fault_event_id \<times> fault_transition) list" where
  "event_skeleton t = map (\<lambda>v. (fev_event_id (few_event v), fev_transition (few_event v))) (ftr_events t)"

definition tracker_core ::
  "'d fault_tracker \<Rightarrow> (fault_event_id \<times> fault_transition) list \<times> u64 \<times> u64 option \<times> fault_event_id option \<times> u128" where
  "tracker_core t = (event_skeleton t, ftr_evicted_events t, ftr_last_raw t, ftr_active_event_id t, ftr_next_event_id t)"

lemma update_event_skeleton:
  assumes "\<And>e. fev_event_id (f e) = fev_event_id e \<and> fev_transition (f e) = fev_transition e"
  shows "map (\<lambda>v. (fev_event_id (few_event v), fev_transition (few_event v))) (update_event i f vs) =
    map (\<lambda>v. (fev_event_id (few_event v), fev_transition (few_event v))) vs"
  by (induction vs) (simp_all add: assms)

lemma touch_core [simp]: "tracker_core (touch i u t) = tracker_core t"
  by (simp add: tracker_core_def touch_def event_skeleton_def update_event_skeleton)

lemma complete_core [simp]: "tracker_core (complete_freeze_frame i cs es t) = tracker_core t"
  by (simp add: tracker_core_def complete_freeze_frame_def event_skeleton_def update_event_skeleton Let_def)

lemma acknowledge_core [simp]: "tracker_core (acknowledge i t) = tracker_core t"
  by (simp add: tracker_core_def acknowledge_def event_skeleton_def update_event_skeleton)

lemma error_core [simp]: "tracker_core (set_error e t) = tracker_core t"
  by (simp add: tracker_core_def set_error_def event_skeleton_def)

lemma export_core [simp]: "tracker_core (export_finished r t) = tracker_core t"
  by (cases r) (simp_all add: tracker_core_def export_finished_def event_skeleton_def)

lemma export_event_core [simp]: "tracker_core (snd (reduce_fault_export session i t)) = tracker_core t"
  by (simp add: reduce_fault_export_def split: session_state.splits option.splits)

lemma evict_once:
  assumes "length (ftr_events t) \<le> MAX_FAULT_EVENTS + 1"
  shows "evict t = (if length (ftr_events t) = MAX_FAULT_EVENTS + 1
    then t\<lparr>ftr_events := tl (ftr_events t), ftr_evicted_events := sat_inc (ftr_evicted_events t)\<rparr> else t)"
  using assms by (subst evict.simps) (auto simp: evict.simps [of "t\<lparr>ftr_events := tl (ftr_events t), ftr_evicted_events := sat_inc (ftr_evicted_events t)\<rparr>"])

text \<open>What the tracker holds when the source has shown \<open>rs\<close>.\<close>

definition timeline_ok ::
  "'d validated_device_profile \<Rightarrow> validated_fault_source \<Rightarrow> u64 list \<Rightarrow> 'd fault_tracker \<Rightarrow> bool" where
  "timeline_ok profile source rs t \<longleftrightarrow>
     (let changes = fault_changes (vfs_no_fault source) rs; dropped = length changes - MAX_FAULT_EVENTS in
      map (\<lambda>(i, x). (i, Some x)) (event_skeleton t) =
        drop dropped (map (\<lambda>(k, c). (of_nat (k + 1), change_of profile source c)) (enumerate 0 changes)) \<and>
      unat (ftr_evicted_events t) = dropped \<and>
      ftr_last_raw t = (if rs = [] then None else Some (last rs)) \<and>
      ftr_active_event_id t =
        (if last (vfs_no_fault source # rs) = vfs_no_fault source then None else Some (of_nat (length changes))) \<and>
      ftr_next_event_id t = of_nat (length changes + 1))"

lemma timeline_core: "timeline_ok profile source rs t = timeline_ok profile source rs t'" if "tracker_core t = tracker_core t'"
  using that by (simp add: timeline_ok_def tracker_core_def)

lemma sat_inc_eq: "unat a + 1 < 2 ^ LENGTH('a) \<Longrightarrow> sat_inc a = a + 1" for a :: "'a::len word"
  by (cases "LENGTH('a) = 1") (simp_all add: sat_add_def)

lemma observe_raw_timeline:
  fixes raw :: u64
  assumes ok: "timeline_ok profile source rs t" and short: "length rs + 2 < 2 ^ 64"
  shows "timeline_ok profile source (rs @ [raw]) (snd (observe_raw debug_text profile source raw u latest identity bus t))"
proof -
  let ?p = "last (vfs_no_fault source # rs)"
  let ?changes = "fault_changes (vfs_no_fault source) rs"
  let ?n = "length ?changes"
  define entries where "entries = map (\<lambda>(k, c). (of_nat (k + 1) :: fault_event_id, change_of profile source c)) (enumerate 0 ?changes)"
  have n: "?n + 2 < 2 ^ 64" using short length_fault_changes [of "vfs_no_fault source" rs] by linarith
  have len: "length entries = ?n" by (simp add: entries_def)
  from ok have inv: "map (\<lambda>(i, x). (i, Some x)) (event_skeleton t) = drop (?n - MAX_FAULT_EVENTS) entries"
    "unat (ftr_evicted_events t) = ?n - MAX_FAULT_EVENTS" "ftr_last_raw t = (if rs = [] then None else Some (last rs))"
    "ftr_active_event_id t = (if ?p = vfs_no_fault source then None else Some (of_nat ?n))"
    "ftr_next_event_id t = of_nat (?n + 1)"
    by (simp_all add: timeline_ok_def Let_def entries_def)
  show ?thesis
  proof (cases "raw = ?p")
    case True
    have "timeline_ok profile source (rs @ [raw]) (t\<lparr>ftr_last_raw := Some raw\<rparr>)"
      using ok True by (auto simp: timeline_ok_def fault_changes_snoc event_skeleton_def Let_def)
    moreover have "tracker_core (snd (observe_raw debug_text profile source raw u latest identity bus t)) = tracker_core (t\<lparr>ftr_last_raw := Some raw\<rparr>)"
      using True inv(3) by (auto simp: observe_raw_def Let_def tracker_core_def event_skeleton_def touch_def update_event_skeleton split: option.splits)
    ultimately show ?thesis using timeline_core by blast
  next
    case False
    from change_of_Some [of ?p raw profile source] False obtain x where x: "change_of profile source (?p, raw) = Some x" by auto
    have prev: "(case ftr_last_raw t of None \<Rightarrow> vfs_no_fault source | Some r \<Rightarrow> r) = ?p" by (simp add: inv(3))
    define view where "view = \<lparr>few_event = new_event debug_text t identity x u latest
      (freeze_frame_parameters profile (vfs_parameter_id source) x), few_bus = bus\<rparr>"
    define t1 where "t1 = t\<lparr>ftr_next_event_id := sat_inc (ftr_next_event_id t), ftr_events := ftr_events t @ [view]\<rparr>"
    have obs: "snd (observe_raw debug_text profile source raw u latest identity bus t) = (evict t1)\<lparr>ftr_last_raw := Some raw,
        ftr_active_event_id := (if raw = vfs_no_fault source then None else Some (ftr_next_event_id t)), ftr_error := None\<rparr>"
    proof -
      have ch: "(case vfs_kind source of ScalarCode \<Rightarrow> scalar_transition profile (vfs_no_fault source) ?p raw
          | BitSet \<Rightarrow> bitset_transition profile ?p raw) = Some x"
        using x by (simp only: change_of_def fst_conv snd_conv)
      have "\<not> (ftr_last_raw t = None \<and> raw = vfs_no_fault source)" "ftr_last_raw t \<noteq> Some raw"
        using False inv(3) by (auto split: if_splits)
      then show ?thesis
        unfolding observe_raw_def Let_def prev ch by (simp only: if_False option.case snd_conv view_def t1_def)
    qed
    have "length (event_skeleton t) = length (ftr_events t)" by (simp add: event_skeleton_def)
    moreover have "length (event_skeleton t) = ?n - (?n - MAX_FAULT_EVENTS)" using arg_cong [OF inv(1), of length] len by simp
    ultimately have events: "length (ftr_events t) = min ?n MAX_FAULT_EVENTS" by linarith
    then have t1: "evict t1 = (if MAX_FAULT_EVENTS \<le> ?n
        then t1\<lparr>ftr_events := tl (ftr_events t1), ftr_evicted_events := sat_inc (ftr_evicted_events t1)\<rparr> else t1)"
      by (subst evict_once) (simp_all add: t1_def min_def)
    have skel: "map (\<lambda>(i, x). (i, Some x)) (event_skeleton t1) = drop (?n - MAX_FAULT_EVENTS) (entries @ [(of_nat (?n + 1), Some x)])"
      using inv(1,5) len by (simp add: t1_def event_skeleton_def view_def new_event_def)
    have next_id: "sat_inc (of_nat (?n + 1) :: u128) = of_nat (?n + 2)"
    proof -
      have "take_bit 128 (?n + 1) = ?n + 1" using n by (intro take_bit_nat_eq_self) simp
      then have "unat (of_nat (?n + 1) :: u128) = ?n + 1" by (simp only: unsigned_of_nat) simp
      then show ?thesis using n by (subst sat_inc_eq) simp_all
    qed
    have evicted: "sat_inc (ftr_evicted_events t) = ftr_evicted_events t + 1" "unat (ftr_evicted_events t + 1) = ?n - MAX_FAULT_EVENTS + 1"
      using inv(2) n by (simp_all add: sat_inc_eq unat_word_ariths)
    have tl: "map (\<lambda>(i, x). (i, Some x)) (event_skeleton (t1\<lparr>ftr_events := tl (ftr_events t1), ftr_evicted_events := e\<rparr>)) =
        drop (Suc (?n - MAX_FAULT_EVENTS)) (entries @ [(of_nat (?n + 1), Some x)])" for e
    proof -
      have "map (\<lambda>(i, x). (i, Some x)) (event_skeleton (t1\<lparr>ftr_events := tl (ftr_events t1), ftr_evicted_events := e\<rparr>)) =
          tl (map (\<lambda>(i, x). (i, Some x)) (event_skeleton t1))" by (simp add: event_skeleton_def map_tl)
      then show ?thesis by (simp only: skel drop_Suc tl_drop)
    qed
    have entries': "map (\<lambda>(k, c). (of_nat (k + 1) :: fault_event_id, change_of profile source c))
        (enumerate 0 (fault_changes (vfs_no_fault source) (rs @ [raw]))) = entries @ [(of_nat (?n + 1), Some x)]"
      using False x by (simp add: fault_changes_snoc enumerate_append_eq entries_def)
    have count: "length (fault_changes (vfs_no_fault source) (rs @ [raw])) = Suc ?n" using False by (simp add: fault_changes_snoc)
    show ?thesis
    proof (cases "MAX_FAULT_EVENTS \<le> ?n")
      case True
      then show ?thesis
        using tl evicted next_id inv(5) unfolding timeline_ok_def Let_def entries' count obs t1
        by (simp add: event_skeleton_def t1_def Suc_diff_le)
    next
      case few: False
      then show ?thesis
        using skel inv(2,5) next_id unfolding timeline_ok_def Let_def entries' count obs t1
        by (simp add: event_skeleton_def t1_def)
    qed
  qed
qed

text \<open>The raw value that an action shows of the fault source, if it is a Good sample of this session.\<close>

definition fault_raw :: "'d validated_device_profile \<Rightarrow> session_id \<Rightarrow> 'd fault_action \<Rightarrow> u64 option" where
  "fault_raw profile session_id action =
     (case action of
        ObserveTelemetry event bus \<Rightarrow>
          Option.bind (vdp_fault_source profile) (\<lambda>source.
            if tev_session_id event = session_id \<and> tev_parameter_id event = vfs_parameter_id source \<and> tev_quality event = Good
            then Option.bind (tev_sample event) (\<lambda>sample.
              Option.bind (profile_parameter profile (vfs_parameter_id source)) (\<lambda>p.
                result_ok (raw_bits (vp_codec p) (tsc_raw sample))))
            else None)
      | _ \<Rightarrow> None)"

definition fault_step ::
  "(telemetry_attempt_error \<Rightarrow> string) \<Rightarrow> 'd validated_device_profile \<Rightarrow> active_session
     \<Rightarrow> 'd fault_tracker \<Rightarrow> 'd latest_values option \<times> 'd fault_action \<Rightarrow> 'd fault_tracker" where
  "fault_step debug_text profile a t entry =
     snd (reduce_faults debug_text (Some profile) (Active a) (fst entry) (snd entry) t)"

lemma fault_step_None:
  assumes "fault_raw profile (as_session_id a) action = None"
  shows "tracker_core (fault_step debug_text profile a t (latest, action)) = tracker_core t"
proof (cases action)
  case (ObserveTelemetry event bus)
  with assms show ?thesis
    by (auto simp: fault_step_def reduce_faults_def observe_def fault_raw_def fault_identity_def bind_eq_None_conv
      split: option.splits sum.splits)
qed (simp_all add: fault_step_def reduce_faults_def)

lemma fault_step_Some:
  assumes "fault_raw profile (as_session_id a) action = Some raw" and "vdp_fault_source profile = Some source"
  shows "\<exists>u identity bus. fault_step debug_text profile a t (latest, action) =
    snd (observe_raw debug_text profile source raw u latest identity bus t)"
proof -
  from assms obtain event bus sample p where e: "action = ObserveTelemetry event bus"
    "tev_session_id event = as_session_id a" "tev_parameter_id event = vfs_parameter_id source" "tev_quality event = Good"
    "tev_sample event = Some sample" "profile_parameter profile (vfs_parameter_id source) = Some p"
    "raw_bits (vp_codec p) (tsc_raw sample) = Ok raw"
    by (auto simp: fault_raw_def bind_eq_Some_conv split: fault_action.splits if_splits)
  obtain d t' where o: "observe_raw debug_text profile source raw (tsc_utc_time sample) latest (fault_identity a) bus t = (d, t')"
    by fastforce
  have "observe debug_text profile event latest (fault_identity a) bus t = (Ok d, t')"
    using e assms(2) o by (simp add: observe_def fault_identity_def)
  then have "fault_step debug_text profile a t (latest, action) = t'"
    by (cases d) (simp_all add: fault_step_def reduce_faults_def e(1))
  then show ?thesis using o by (metis snd_conv)
qed

text \<open>
  C37. The timeline records every change of the fault source. Whatever else happens in a session
  (acknowledgements, exports, freeze frames, samples of other parameters or of bad quality), the tracker
  holds exactly the newest 256 changes of the stream of Good raw values, each with the transition
  between its two values and the number of the change as its identifier; it counts the evicted ones, and an
  event is active exactly while the last value is not the value for no fault.
\<close>
theorem fault_timeline_records_every_change:
  assumes "vdp_fault_source profile = Some source" and "length inputs < 2 ^ 63"
  shows "timeline_ok profile source (List.map_filter (fault_raw profile (as_session_id a) \<circ> snd) inputs)
    (foldl (fault_step debug_text profile a) fault_tracker_default inputs)"
  using assms(2)
proof (induction inputs rule: rev_induct)
  case Nil
  then show ?case
    by (simp add: timeline_ok_def fault_tracker_default_def event_skeleton_def map_filter_simps)
next
  case (snoc x inputs)
  let ?t = "foldl (fault_step debug_text profile a) fault_tracker_default inputs"
  let ?rs = "List.map_filter (fault_raw profile (as_session_id a) \<circ> snd) inputs"
  obtain latest action where x: "x = (latest, action)" by fastforce
  have ok: "timeline_ok profile source ?rs ?t" using snoc by (simp add: comp_def)
  have "length ?rs \<le> length inputs" by (simp add: List.map_filter_def length_filter_le)
  then have short: "length ?rs + 2 < 2 ^ 64" using snoc.prems by simp
  show ?case
  proof (cases "fault_raw profile (as_session_id a) action")
    case None
    then have "List.map_filter (fault_raw profile (as_session_id a) \<circ> snd) (inputs @ [x]) = ?rs"
      by (simp add: List.map_filter_def x)
    moreover have "tracker_core (fault_step debug_text profile a ?t x) = tracker_core ?t"
      using fault_step_None [OF None] x by simp
    ultimately show ?thesis using ok
      by (simp only: foldl_append foldl_Cons foldl_Nil timeline_core [of "fault_step debug_text profile a ?t x" ?t])
  next
    case (Some raw)
    then have "List.map_filter (fault_raw profile (as_session_id a) \<circ> snd) (inputs @ [x]) = ?rs @ [raw]"
      by (simp add: List.map_filter_def x)
    moreover obtain u identity bus where "fault_step debug_text profile a ?t x =
        snd (observe_raw debug_text profile source raw u latest identity bus ?t)"
      using fault_step_Some [OF Some assms(1)] x by blast
    ultimately show ?thesis using observe_raw_timeline [OF ok short]
      by (simp only: foldl_append foldl_Cons foldl_Nil)
  qed
qed

subsection \<open>Witnesses\<close>

definition demo_fault_source :: validated_fault_source where
  "demo_fault_source = \<lparr>vfs_kind = ScalarCode, vfs_parameter_id = ''state'', vfs_no_fault = 0\<rparr>"

definition demo_fault_definition :: validated_fault_definition where
  "demo_fault_definition = \<lparr>vfd_raw = 5, vfd_code = ''F5'', vfd_name = ''Overcurrent'', vfd_description = '''',
     vfd_severity = SevCritical, vfd_freeze_frame = [''ramp'', ''state'']\<rparr>"

definition demo_fault_profile :: "rat validated_device_profile" where
  "demo_fault_profile = demo_profile\<lparr>vdp_fault_source := Some demo_fault_source, vdp_faults := [(5, demo_fault_definition)]\<rparr>"

definition demo_fault_event :: "rat telemetry_event" where
  "demo_fault_event = \<lparr>tev_session_id = as_session_id demo_active, tev_parameter_id = ''state'', tev_monotonic_time = 0,
     tev_quality = Good, tev_sample = Some \<lparr>tsc_session_id = as_session_id demo_active, tsc_parameter_id = ''state'',
       tsc_raw = [5], tsc_engineering = Fixed 5, tsc_quality = Good, tsc_monotonic_time = 0, tsc_utc_time = 9,
       tsc_request_id = 1\<rparr>, tev_error = None\<rparr>"

lemma demo_fault_raw: "fault_raw demo_fault_profile (as_session_id demo_active) (ObserveTelemetry demo_fault_event bus) = Some 5"
  by (simp add: fault_raw_def demo_fault_profile_def demo_fault_source_def demo_fault_event_def profile_parameter_def demo_profile_def
    demo_state_parameter_def demo_parameter_def raw_bits_def demo_codec_def validate_width_def words_to_bits_def shift_in_word_eq ordered_word_def)

lemma fault_timeline_records_every_change_witness:
  "\<forall>bus. timeline_ok demo_fault_profile demo_fault_source [5]
     (foldl (fault_step (\<lambda>_. '''') demo_fault_profile demo_active) fault_tracker_default
       [(None, AcknowledgeFault 3), (None, ObserveTelemetry demo_fault_event bus)])"
proof
  fix bus
  have "fault_raw demo_fault_profile (as_session_id demo_active) (AcknowledgeFault 3) = None" by (simp add: fault_raw_def)
  then show "timeline_ok demo_fault_profile demo_fault_source [5]
     (foldl (fault_step (\<lambda>_. '''') demo_fault_profile demo_active) fault_tracker_default
       [(None, AcknowledgeFault 3), (None, ObserveTelemetry demo_fault_event bus)])"
    using fault_timeline_records_every_change [of demo_fault_profile demo_fault_source
        "[(None, AcknowledgeFault 3), (None, ObserveTelemetry demo_fault_event bus)]" demo_active "\<lambda>_. ''''"]
    by (simp add: demo_fault_raw map_filter_simps) (simp add: demo_fault_profile_def)
qed

lemma freeze_frame_is_bounded_witness:
  "set (freeze_frame_parameters demo_fault_profile ''state'' (FaultRaised (fault_meaning_of demo_fault_profile 5))) \<supseteq> {''ramp'', ''state''}
   \<or> length (freeze_frame_parameters demo_fault_profile ''state'' (FaultRaised (fault_meaning_of demo_fault_profile 5))) = 64"
  using freeze_frame_is_bounded [of demo_fault_profile "''state''" "FaultRaised (fault_meaning_of demo_fault_profile 5)"]
  by (auto simp: transition_meanings_def demo_fault_profile_def demo_fault_definition_def)

text \<open>
  A subscription to the fault source adds a prefix to its identifier, so that a legal identifier of more
  than 122 characters is too long for a subscriber.
\<close>

lemma fault_subscription_too_long:
  assumes "vdp_fault_source profile = Some source" and "length (vfs_parameter_id source) > 122"
  shows "\<exists>e. fault_subscription profile = Err e"
  using assms by (simp add: fault_subscription_def subscriber_id_parse_def MAX_SUBSCRIBER_ID_BYTES_def)

end
