(* ===== verification/Fault_Plan_Properties.thy ===== *)
theory Fault_Plan_Properties
  imports Fault_Plan Fault_Properties Profile_Samples
begin

text \<open>
  The freeze-frame plan reads every requested parameter once, in legal blocks. Its grouping is that of
  the poll planner, so the facts of that grouping carry over; for an accepted profile the plan of any
  detected fault exists.
\<close>

subsection \<open>The grouping is that of the poll planner\<close>

definition demand_of :: "frame_candidate \<Rightarrow> demand" where
  "demand_of c = \<lparr>dm_parameter_id = fca_parameter_id c, dm_block = fca_block c, dm_frequency = FastPoll,
     dm_request_class = Interactive, dm_maximum_age = 0, dm_subscribers = [], dm_reasons = [],
     dm_history_required = False, dm_do_not_bridge = fca_do_not_bridge c,
     dm_maximum_bridge_gap = fca_maximum_bridge_gap c, dm_budget_rank = 0\<rparr>"

lemma demand_of_simps [simp]:
  "dm_parameter_id (demand_of c) = fca_parameter_id c" "dm_block (demand_of c) = fca_block c"
  "dm_do_not_bridge (demand_of c) = fca_do_not_bridge c" "dm_maximum_bridge_gap (demand_of c) = fca_maximum_bridge_gap c"
  by (simp_all add: demand_of_def)

lemma frame_group_simps:
  "group_start (map demand_of g) = frame_start g" "group_end (map demand_of g) = frame_end g"
  by (simp_all add: group_start_def frame_start_def group_end_def frame_end_def comp_def)

lemma group_key_demand_of:
  "group_key (demand_of a) = group_key (demand_of b) \<longleftrightarrow> rb_table (fca_block a) = rb_table (fca_block b)"
  by (simp add: group_key_def demand_of_def table_rank_inj)

lemma frame_can_append_eq: "g \<noteq> [] \<Longrightarrow> frame_can_append g c = can_append (map demand_of g) (demand_of c)"
proof -
  assume ne: "g \<noteq> []"
  have "map dm_maximum_bridge_gap (map demand_of g) = map fca_maximum_bridge_gap g"
    "list_ex dm_do_not_bridge (map demand_of g) = list_ex fca_do_not_bridge g"
    by (simp_all add: list_ex_iff)
  then show ?thesis
    unfolding frame_can_append_def can_append_def hd_map [OF ne] group_key_demand_of
    by (simp only: frame_group_simps demand_of_simps)
qed

lemma frame_groups_eq:
  "\<forall>g \<in> set gs. g \<noteq> [] \<Longrightarrow>
     group_demands (map (map demand_of) gs) (map demand_of cs) = map_option (map (map demand_of)) (frame_groups gs cs)"
proof (induction gs cs rule: frame_groups.induct)
  case (2 gs c cs)
  show ?case
  proof (cases "gs = []")
    case True
    with 2(1) show ?thesis by simp
  next
    case False
    have eq: "frame_can_append (last gs) c = can_append (map demand_of (last gs)) (demand_of c)"
      using 2 False by (intro frame_can_append_eq) simp
    show ?thesis
    proof (cases "frame_can_append (last gs) c")
      case None
      with False eq show ?thesis by (simp add: last_map)
    next
      case (Some b)
      then show ?thesis
        using 2 False eq by (cases b) (auto simp: last_map map_butlast dest: in_set_butlastD)
    qed
  qed
qed simp

lemma demand_position_of: "demand_position (demand_of c) = ((3, FastPoll, fst (frame_position c)), snd (frame_position c))"
  by (simp add: demand_position_def demand_of_def group_key_def poll_class_rank_def frame_position_def)

lemma sorted_demand_position: "sorted (map frame_position cs) \<Longrightarrow> sorted (map demand_position (map demand_of cs))"
  by (induction cs) (auto simp: demand_position_of less_eq_prod_def less_prod_def)

lemma frame_groups_total:
  assumes "\<forall>c \<in> set cs. readable_block (fca_block c)"
  shows "\<exists>gs. frame_groups [] (sort_key frame_position cs) = Some gs \<and> concat gs = sort_key frame_position cs \<and>
    (\<forall>g \<in> set gs. group_uniform (map demand_of g) \<and> group_small (map demand_of g))"
proof -
  let ?cs = "sort_key frame_position cs"
  have "demands_readable (map demand_of ?cs)" using assms by (simp add: demands_readable_def list_all_iff)
  moreover have "sorted (map demand_position (concat [] @ map demand_of ?cs))"
    using sorted_demand_position [of ?cs] by simp
  ultimately obtain ds where ds: "group_demands [] (map demand_of ?cs) = Some ds" "list_all group_small ds"
    using group_demands_total [of "[]" "map demand_of ?cs"] by auto
  have "group_demands [] (map demand_of ?cs) = map_option (map (map demand_of)) (frame_groups [] ?cs)"
    using frame_groups_eq [of "[]" ?cs] by simp
  with ds(1) obtain gs where gs: "frame_groups [] ?cs = Some gs" "ds = map (map demand_of) gs"
    by (cases "frame_groups [] ?cs") auto
  from group_demands_inv [OF ds(1)] have inv: "list_all group_uniform ds" "concat ds = map demand_of ?cs" by simp_all
  have "inj demand_of"
    by (rule injI) (auto simp: demand_of_def intro: frame_candidate.equality)
  moreover have "map demand_of (concat gs) = map demand_of ?cs" using inv(2) gs(2) by (simp add: map_concat)
  ultimately have "concat gs = ?cs" by (simp add: inj_map_eq_map)
  with gs ds(2) inv(1) show ?thesis by (auto simp: list_all_iff)
qed

subsection \<open>Blocks and slices\<close>

definition slice_matches :: "register_block \<Rightarrow> frame_candidate \<Rightarrow> frame_slice \<Rightarrow> bool" where
  "slice_matches b c s \<longleftrightarrow>
     fsl_parameter_id s = fca_parameter_id c \<and> fsl_register_count s = rb_count (fca_block c) \<and>
     unat (rb_start b) + unat (fsl_register_offset s) = unat (rb_start (fca_block c)) \<and>
     unat (fsl_register_offset s) + unat (fsl_register_count s) \<le> unat (rb_count b)"

lemma frame_slices_total:
  assumes "\<forall>c \<in> set cs. rb_start b \<le> rb_start (fca_block c) \<and>
    unat (rb_start (fca_block c)) + unat (rb_count (fca_block c)) \<le> unat (rb_start b) + unat (rb_count b)"
  shows "\<exists>ss. frame_slices (rb_start b) cs = Ok ss \<and> list_all2 (slice_matches b) cs ss"
  using assms
proof (induction cs)
  case (Cons c cs)
  let ?o = "rb_start (fca_block c) - rb_start b"
  have sub: "checked_sub_word (rb_start (fca_block c)) (rb_start b) = Some ?o"
    using Cons.prems by (simp add: checked_sub_word_def word_le_nat_alt)
  have o: "unat (rb_start b) + unat ?o = unat (rb_start (fca_block c))"
    using checked_sub_word_Some [OF sub] by linarith
  define s where "s = \<lparr>fsl_parameter_id = fca_parameter_id c, fsl_register_offset = ?o, fsl_register_count = rb_count (fca_block c)\<rparr>"
  have "frame_slice_of (rb_start b) c = Ok s" using sub by (simp add: frame_slice_of_def ok_or_def s_def)
  moreover have "slice_matches b c s" using o Cons.prems by (auto simp: slice_matches_def s_def)
  moreover obtain ss where "frame_slices (rb_start b) cs = Ok ss" "list_all2 (slice_matches b) cs ss" using Cons by auto
  ultimately show ?case by (intro exI [of _ "s # ss"]) simp
qed simp

lemma frame_block_total:
  assumes "group_uniform (map demand_of g)" and "group_small (map demand_of g)"
  shows "\<exists>b ss. frame_block_of g = Some (Ok b) \<and> fbl_function b = read_function (rb_table (fbl_block b)) \<and>
    unat (rb_count (fbl_block b)) \<le> 125 \<and> list_all2 (slice_matches (fbl_block b)) g ss \<and> mset (fbl_parameters b) = mset ss \<and>
    (\<forall>c \<in> set g. rb_table (fca_block c) = rb_table (fbl_block b))"
proof -
  have ne: "g \<noteq> []" using assms(2) by (simp add: group_small_def)
  obtain e count where b: "frame_end g = Some e"
    "Option.bind (checked_sub_word e (frame_start g)) (\<lambda>span. checked_add_word span 1) = Some count"
    "count \<noteq> 0" "unat (frame_start g) + unat count = unat e + 1" "unat count \<le> 125"
    "\<And>t. register_block_new t (frame_start g) count (read_function t) = Ok \<lparr>rb_table = t, rb_start = frame_start g, rb_count = count\<rparr>"
    using group_block_total [OF assms(2)] unfolding frame_group_simps by blast
  let ?t = "rb_table (fca_block (hd g))"
  let ?b = "\<lparr>rb_table = ?t, rb_start = frame_start g, rb_count = count\<rparr>"
  have tables: "\<forall>c \<in> set g. rb_table (fca_block c) = ?t"
  proof
    fix c assume "c \<in> set g"
    then have "group_key (demand_of c) = group_key (hd (map demand_of g))" using assms(1) by (simp add: group_uniform_def)
    then show "rb_table (fca_block c) = ?t" by (simp only: hd_map [OF ne] group_key_demand_of)
  qed
  have "rb_start ?b \<le> rb_start (fca_block c) \<and>
      unat (rb_start (fca_block c)) + unat (rb_count (fca_block c)) \<le> unat (rb_start ?b) + unat (rb_count ?b)"
    if c: "c \<in> set g" for c
  proof -
    have "frame_start g \<le> rb_start (fca_block c)" unfolding frame_start_def by (rule min_list_le) (use c in simp)
    moreover obtain x where x: "register_block_end (fca_block c) = Some x" "x \<le> e"
      using group_end_Some [of "map demand_of g" e "demand_of c"] b(1) c by (auto simp: frame_group_simps)
    ultimately show ?thesis using block_end_SomeD [OF x(1)] b(4) by (simp add: word_le_nat_alt)
  qed
  then obtain ss where ss: "frame_slices (frame_start g) g = Ok ss" "list_all2 (slice_matches ?b) g ss"
    using frame_slices_total [of g ?b] by auto
  define b' where "b' = \<lparr>fbl_function = read_function ?t, fbl_block = ?b,
    fbl_parameters = sort_key (\<lambda>s. (fsl_register_offset s, fsl_parameter_id s)) ss\<rparr>"
  have "frame_block_of g = Some (Ok b')"
    using b(1-3,6) ss(1) by (simp add: frame_block_of_def Let_def b'_def)
  moreover have "fbl_function b' = read_function (rb_table (fbl_block b'))" "fbl_block b' = ?b"
    "mset (fbl_parameters b') = mset ss" by (simp_all add: b'_def)
  ultimately show ?thesis using b(5) ss(2) tables by (intro exI [of _ b'] exI [of _ ss]) simp
qed

subsection \<open>The plan\<close>

text \<open>Every requested parameter is read exactly once, by a legal read block that contains its registers.\<close>

definition frame_plan_ok :: "'d validated_device_profile \<Rightarrow> parameter_id list \<Rightarrow> frame_plan \<Rightarrow> bool" where
  "frame_plan_ok profile ids plan \<longleftrightarrow>
     mset (concat (map (\<lambda>b. map fsl_parameter_id (fbl_parameters b)) plan)) = mset_set (set ids) \<and>
     (\<forall>b \<in> set plan. fbl_function b = read_function (rb_table (fbl_block b)) \<and> unat (rb_count (fbl_block b)) \<le> 125 \<and>
        (\<forall>s \<in> set (fbl_parameters b). \<exists>p. profile_parameter profile (fsl_parameter_id s) = Some p \<and>
           rb_table (vp_block p) = rb_table (fbl_block b) \<and> slice_matches (fbl_block b) (frame_candidate_of (fsl_parameter_id s) p) s))"

lemma frame_candidates_total:
  assumes "\<forall>i \<in> set ids. profile_parameter profile i \<noteq> None"
  shows "\<exists>cs. frame_candidates profile U ids = Ok cs \<and> distinct (map fca_parameter_id cs) \<and>
    set (map fca_parameter_id cs) = set ids - U \<and>
    (\<forall>c \<in> set cs. \<exists>p. profile_parameter profile (fca_parameter_id c) = Some p \<and> c = frame_candidate_of (fca_parameter_id c) p)"
  using assms
proof (induction ids arbitrary: U)
  case (Cons i ids)
  show ?case
  proof (cases "i \<in> U")
    case True
    with Cons.IH [of U] Cons.prems show ?thesis by auto
  next
    case False
    obtain p where p: "profile_parameter profile i = Some p" using Cons.prems by auto
    from Cons.IH [of "insert i U"] Cons.prems obtain cs where
      "frame_candidates profile (insert i U) ids = Ok cs" "distinct (map fca_parameter_id cs)"
      "set (map fca_parameter_id cs) = set ids - insert i U"
      "\<forall>c \<in> set cs. \<exists>p. profile_parameter profile (fca_parameter_id c) = Some p \<and> c = frame_candidate_of (fca_parameter_id c) p"
      by auto
    with False p show ?thesis by (intro exI [of _ "frame_candidate_of i p # cs"]) (auto simp: frame_candidate_of_def ok_or_def)
  qed
qed simp

lemma frame_blocks_total:
  assumes "\<forall>g \<in> set gs. group_uniform (map demand_of g) \<and> group_small (map demand_of g)"
    and "\<forall>c \<in> set (concat gs). \<exists>p. profile_parameter profile (fca_parameter_id c) = Some p \<and> c = frame_candidate_of (fca_parameter_id c) p"
  shows "\<exists>plan. frame_blocks gs = Some (Ok plan) \<and>
    mset (concat (map (\<lambda>b. map fsl_parameter_id (fbl_parameters b)) plan)) = mset (map fca_parameter_id (concat gs)) \<and>
    (\<forall>b \<in> set plan. fbl_function b = read_function (rb_table (fbl_block b)) \<and> unat (rb_count (fbl_block b)) \<le> 125 \<and>
      (\<forall>s \<in> set (fbl_parameters b). \<exists>p. profile_parameter profile (fsl_parameter_id s) = Some p \<and>
         rb_table (vp_block p) = rb_table (fbl_block b) \<and> slice_matches (fbl_block b) (frame_candidate_of (fsl_parameter_id s) p) s))"
  using assms
proof (induction gs)
  case (Cons g gs)
  from frame_block_total [of g] Cons.prems obtain b ss where
    b: "frame_block_of g = Some (Ok b)" "fbl_function b = read_function (rb_table (fbl_block b))"
    "unat (rb_count (fbl_block b)) \<le> 125" "list_all2 (slice_matches (fbl_block b)) g ss" "mset (fbl_parameters b) = mset ss"
    "\<forall>c \<in> set g. rb_table (fca_block c) = rb_table (fbl_block b)" by auto
  from Cons.IH Cons.prems obtain plan where plan: "frame_blocks gs = Some (Ok plan)"
    "mset (concat (map (\<lambda>b. map fsl_parameter_id (fbl_parameters b)) plan)) = mset (map fca_parameter_id (concat gs))"
    "\<forall>b \<in> set plan. fbl_function b = read_function (rb_table (fbl_block b)) \<and> unat (rb_count (fbl_block b)) \<le> 125 \<and>
      (\<forall>s \<in> set (fbl_parameters b). \<exists>p. profile_parameter profile (fsl_parameter_id s) = Some p \<and>
         rb_table (vp_block p) = rb_table (fbl_block b) \<and> slice_matches (fbl_block b) (frame_candidate_of (fsl_parameter_id s) p) s)"
    by auto
  have "map fsl_parameter_id ss = map fca_parameter_id g"
    using b(4) by (induction rule: list_all2_induct) (auto simp: slice_matches_def)
  then have ids: "mset (map fsl_parameter_id (fbl_parameters b)) = mset (map fca_parameter_id g)"
    using b(5) by (metis mset_map)
  have "\<exists>p. profile_parameter profile (fsl_parameter_id s) = Some p \<and>
      rb_table (vp_block p) = rb_table (fbl_block b) \<and> slice_matches (fbl_block b) (frame_candidate_of (fsl_parameter_id s) p) s"
    if s: "s \<in> set (fbl_parameters b)" for s
  proof -
    from s b(5) have "s \<in> set ss" by (metis mset_eq_setD)
    with b(4) obtain c where c: "c \<in> set g" "slice_matches (fbl_block b) c s"
      by (metis list_all2_conv_all_nth in_set_conv_nth)
    with Cons.prems(2) obtain p where "profile_parameter profile (fca_parameter_id c) = Some p"
      "c = frame_candidate_of (fca_parameter_id c) p" by auto
    moreover have "fsl_parameter_id s = fca_parameter_id c" using c(2) by (simp add: slice_matches_def)
    ultimately show ?thesis using c b(6) by (metis frame_candidate.select_convs(2) frame_candidate_of_def)
  qed
  with b plan ids show ?case by (intro exI [of _ "b # plan"]) auto
qed simp

lemma freeze_frame_plan_total:
  assumes "\<forall>k p. profile_parameter profile k = Some p \<longrightarrow> readable_block (vp_block p)"
    and "\<forall>i \<in> set ids. profile_parameter profile i \<noteq> None" and "length ids \<le> 64"
  shows "\<exists>plan. build_fault_freeze_frame profile ids = Some (Ok plan) \<and> frame_plan_ok profile ids plan"
proof -
  from frame_candidates_total [OF assms(2), of "{}"] obtain cs where
    cs: "frame_candidates profile {} ids = Ok cs" "distinct (map fca_parameter_id cs)" "set (map fca_parameter_id cs) = set ids"
    "\<forall>c \<in> set cs. \<exists>p. profile_parameter profile (fca_parameter_id c) = Some p \<and> c = frame_candidate_of (fca_parameter_id c) p" by auto
  have "\<forall>c \<in> set cs. readable_block (fca_block c)"
    using cs(4) assms(1) by (metis frame_candidate.select_convs(2) frame_candidate_of_def)
  from frame_groups_total [OF this] obtain gs where gs: "frame_groups [] (sort_key frame_position cs) = Some gs"
    "concat gs = sort_key frame_position cs" "\<forall>g \<in> set gs. group_uniform (map demand_of g) \<and> group_small (map demand_of g)" by blast
  have "set (concat gs) = set cs" by (simp only: gs(2) set_sort)
  with frame_blocks_total [OF gs(3)] cs(4) obtain plan where plan: "frame_blocks gs = Some (Ok plan)"
    "mset (concat (map (\<lambda>b. map fsl_parameter_id (fbl_parameters b)) plan)) = mset (map fca_parameter_id (concat gs))"
    "\<forall>b \<in> set plan. fbl_function b = read_function (rb_table (fbl_block b)) \<and> unat (rb_count (fbl_block b)) \<le> 125 \<and>
      (\<forall>s \<in> set (fbl_parameters b). \<exists>p. profile_parameter profile (fsl_parameter_id s) = Some p \<and>
         rb_table (vp_block p) = rb_table (fbl_block b) \<and> slice_matches (fbl_block b) (frame_candidate_of (fsl_parameter_id s) p) s)"
    by metis
  have "mset (map fca_parameter_id (concat gs)) = mset (map fca_parameter_id cs)" by (simp only: gs(2) mset_map mset_sort)
  also have "\<dots> = mset_set (set ids)" using cs(2,3) by (metis mset_set_set)
  finally have "frame_plan_ok profile ids plan" using plan(2,3) by (simp add: frame_plan_ok_def)
  moreover have "build_fault_freeze_frame profile ids = Some (Ok plan)"
    using assms(3) cs(1) gs(1) plan(1) by (simp add: build_fault_freeze_frame_def MAX_FREEZE_FRAME_PARAMETERS_def)
  ultimately show ?thesis by blast
qed

text \<open>
  C38. Whatever fault an accepted profile detects, its freeze frame can be read: the parameters that
  the tracker asks for are within the planner's bound and known to the profile, and the plan exists, without a
  panic or an error. It reads every one of these parameters exactly once, in blocks of at most 125
  registers, at the offset at which its registers stand in the block.
\<close>
theorem validated_freeze_frame_is_plannable:
  assumes "validate_profile E d h = Some (Ok (v, d'))" and "vdp_fault_source v = Some source"
  shows "\<exists>plan. build_fault_freeze_frame v (freeze_frame_parameters v (vfs_parameter_id source) change) = Some (Ok plan) \<and>
    frame_plan_ok v (freeze_frame_parameters v (vfs_parameter_id source) change) plan"
proof (rule freeze_frame_plan_total)
  show "\<forall>k p. profile_parameter v k = Some p \<longrightarrow> readable_block (vp_block p)"
    by (rule validated_profile_blocks(4) [OF assms(1)])
  note frame = freeze_frame_bound [of v "vfs_parameter_id source" change]
  show "length (freeze_frame_parameters v (vfs_parameter_id source) change) \<le> 64" using frame by blast
  from validated_faults [OF assms(1)] assms(2) have source: "fault_source_ok (vdp_parameters v) source"
    and faults: "\<forall>(raw, f) \<in> set (vdp_faults v). fault_ok (vdp_parameters v) source f" by auto
  show "\<forall>i \<in> set (freeze_frame_parameters v (vfs_parameter_id source) change). profile_parameter v i \<noteq> None"
  proof
    fix i assume "i \<in> set (freeze_frame_parameters v (vfs_parameter_id source) change)"
    then have "i \<in> insert (vfs_parameter_id source) (\<Union>m \<in> set (transition_meanings change).
        \<Union>f \<in> set_option (bt_get (vdp_faults v) (fme_raw m)). set (vfd_freeze_frame f))"
      using frame by blast
    then consider "i = vfs_parameter_id source"
      | m :: fault_meaning and f where "bt_get (vdp_faults v) (fme_raw m) = Some f" "i \<in> set (vfd_freeze_frame f)" by auto
    then show "profile_parameter v i \<noteq> None"
    proof cases
      case 1
      with source show ?thesis by (auto simp: fault_source_ok_def profile_parameter_def)
    next
      case 2
      from 2(1) have "(fme_raw m, f) \<in> set (vdp_faults v)" by (rule map_of_SomeD)
      with faults have "fault_ok (vdp_parameters v) source f" by blast
      with 2(2) show ?thesis by (simp add: fault_ok_def ids_known_def profile_parameter_def)
    qed
  qed
qed

subsection \<open>Witness\<close>

definition demo_fault_document :: profile_document where
  "demo_fault_document = (demo_document 10)\<lparr>
     pd_fault_source := Some \<lparr>fosd_kind = DocScalarCode, fosd_parameter_id = ''ramp'', fosd_no_fault = 0\<rparr>,
     pd_faults := [(''5'', (demo_fault ''v'')\<lparr>fdd_freeze_frame := [''ramp'']\<rparr>)]\<rparr>"

lemma front_without_faults: "validate_front E (d\<lparr>pd_fault_source := s, pd_faults := fs\<rparr>) = validate_front E d"
  by (simp add: validate_front_def validate_header_def validate_parameters_def)

lemma demo_fault_validates:
  "\<exists>v d' s. validate_profile demo_profile_env demo_fault_document h = Some (Ok (v, d')) \<and> vdp_fault_source v = Some s"
proof -
  obtain pd ds where "validate_front demo_profile_env (demo_document 10) = Ok (''vfd.a'', pd, [(''ramp'', demo_validated 10)], ds)"
    using demo_front by blast
  then have front: "validate_front demo_profile_env demo_fault_document = Ok (''vfd.a'', pd, [(''ramp'', demo_validated 10)], ds)"
    by (simp only: demo_fault_document_def front_without_faults)
  have e: "rc_encoding demo_codec = Unsigned16" by (simp add: demo_codec_def)
  have faults: "\<exists>s fs. validate_faults (demo_fault_document\<lparr>pd_protocol := snd pd, pd_parameters := ds\<rparr>) [(''ramp'', demo_validated 10)] = Ok (Some s, fs)"
    by (simp add: demo_fault_document_def validate_faults_def MAX_FAULTS_def reject_def map_some_def validate_fault_source_def parse_at_def demo_texts ok_or_def
      demo_validated_def e fault_width_bits_def is_float_encoding_def maximum_raw_def is_bitfield_encoding_def Let_def
      validate_fault_def demo_keys demo_fault_def validate_fault_text_def demo_text_ok validate_fault_raw_def
      validate_parameter_references_def validate_reference_def insert_all_def demo_document_def)
  then obtain s fs where f: "validate_faults (demo_fault_document\<lparr>pd_protocol := snd pd, pd_parameters := ds\<rparr>) [(''ramp'', demo_validated 10)] = Ok (Some s, fs)"
    by blast
  obtain v d' where "finish_profile demo_profile_env (demo_document 10\<lparr>pd_protocol := snd pd, pd_parameters := ds\<rparr>) h ''vfd.a'' (fst pd) [(''ramp'', demo_validated 10)] = Ok (v, d')"
    using demo_finish by blast
  then obtain v' d'' where "finish_profile demo_profile_env (demo_fault_document\<lparr>pd_protocol := snd pd, pd_parameters := ds\<rparr>) h ''vfd.a'' (fst pd) [(''ramp'', demo_validated 10)] = Ok (v', d'')"
    "vdp_fault_source v' = Some s"
    using f by (auto simp: finish_profile_def Let_def and_then_Ok_iff demo_fault_document_def validate_probes_def validate_aliases_def
      validate_groups_def validate_drive_state_source_def validate_presets_def validate_restore_order_def demo_profile_env_def)
  then show ?thesis
    using front by (cases pd) (simp add: validate_profile_def demo_overlaps)
qed

lemma validated_freeze_frame_is_plannable_witness:
  "\<exists>v d' s plan. validate_profile demo_profile_env demo_fault_document [] = Some (Ok (v, d')) \<and> vdp_fault_source v = Some s \<and>
     build_fault_freeze_frame v (freeze_frame_parameters v (vfs_parameter_id s) (FaultRaised (fault_meaning_of v 5))) = Some (Ok plan)"
  using demo_fault_validates [of "[]"] validated_freeze_frame_is_plannable by metis

end
