(* ===== verification/Identification.thy ===== *)
theory Identification
  imports Telemetry_State Session Texts Ports
begin

text \<open>
  The identification of a device by the probes of the selected profile
  (\<open>lantern-app/src/identification.rs\<close>). SHA-256 is the parameter \<open>sha256\<close>; the fingerprint text
  is legal for every digest of 32 bytes, so that the \<open>expect\<close> on it cannot fail.
\<close>

subsection \<open>Data\<close>

record 'd identification_probe_diagnostic =
  ipd_probe_id :: string
  ipd_description :: string
  ipd_block :: register_block
  ipd_expected_raw :: "raw_registers list"
  ipd_raw :: "raw_registers option"
  ipd_engineering :: "'d engineering_value option"
  ipd_quality :: telemetry_quality
  ipd_elapsed :: duration
  ipd_matched :: bool
  ipd_error :: "string option"

record 'd identification_diagnostics =
  idg_profile_id :: string
  idg_outcome :: identification_match
  idg_probes :: "'d identification_probe_diagnostic list"
  idg_fingerprint_candidate :: "device_fingerprint option"
  idg_profile_hash :: string
  idg_elapsed :: duration
  idg_error :: "string option"

record 'd identification_attempt =
  iat_report :: identification_report
  iat_verified :: "verified_session_identity option"
  iat_diagnostics :: "'d identification_diagnostics"

record 'd identification_request =
  irq_selected_profile :: "'d validated_device_profile"
  irq_candidate_profiles :: "'d validated_device_profile list"
  irq_adapter :: adapter_identity
  irq_session_id :: session_id
  irq_slave_id :: slave_id
  irq_timeout :: duration

subsection \<open>The fingerprint\<close>

definition evidence_bytes ::
  "'d validated_device_profile \<Rightarrow> adapter_identity \<Rightarrow> 'd identification_probe_diagnostic list \<Rightarrow> u8 list" where
  "evidence_bytes profile adapter probes =
     str_bytes (to_hex (vdp_profile_hash profile)) @
     (case ai_stable_id adapter of
        Some stable_id \<Rightarrow> str_bytes ''stable-id:'' @ str_bytes stable_id
      | None \<Rightarrow> str_bytes ''canonical-device:'' @ str_bytes (ai_canonical_device adapter)) @
     (case ai_vendor_id adapter of None \<Rightarrow> [] | Some w \<Rightarrow> be_bytes 2 (unat w)) @
     (case ai_product_id adapter of None \<Rightarrow> [] | Some w \<Rightarrow> be_bytes 2 (unat w)) @
     (case ai_serial_number adapter of None \<Rightarrow> [] | Some s \<Rightarrow> str_bytes s) @
     concat (map (\<lambda>p. str_bytes (ipd_probe_id p) @
       (case ipd_raw p of None \<Rightarrow> [] | Some raw \<Rightarrow> concat (map (\<lambda>w. be_bytes 2 (unat w)) raw))) probes)"

definition evidence_fingerprint ::
  "(u8 list \<Rightarrow> u8 list) \<Rightarrow> 'd validated_device_profile \<Rightarrow> adapter_identity \<Rightarrow> 'd identification_probe_diagnostic list
     \<Rightarrow> device_fingerprint" where
  "evidence_fingerprint sha256 profile adapter probes = ''vfd:'' @ to_hex (sha256 (evidence_bytes profile adapter probes))"

definition profile_matches_observed ::
  "'d validated_device_profile \<Rightarrow> 'd identification_probe_diagnostic list \<Rightarrow> bool" where
  "profile_matches_observed profile observed \<longleftrightarrow>
     vdp_probes profile \<noteq> [] \<and> length (vdp_probes profile) = length observed \<and>
     list_all (\<lambda>probe. list_ex (\<lambda>actual. ipd_block actual = vpb_block probe \<and>
       (case ipd_raw actual of None \<Rightarrow> False | Some raw \<Rightarrow> raw \<in> set (vpb_expected_raw probe))) observed)
       (vdp_probes profile)"

subsection \<open>Attempts\<close>

definition identification_error_attempt_with_elapsed ::
  "(u8 list \<Rightarrow> u8 list) \<Rightarrow> 'd validated_device_profile \<Rightarrow> adapter_identity option \<Rightarrow> identification_probe_result list
     \<Rightarrow> 'd identification_probe_diagnostic list \<Rightarrow> duration \<Rightarrow> string \<Rightarrow> 'd identification_attempt" where
  "identification_error_attempt_with_elapsed sha256 profile adapter core_results diagnostics elapsed message =
     \<lparr>iat_report = \<lparr>ir_profile_id = vdp_profile_id profile, ir_outcome = IdentificationError, ir_probes = core_results\<rparr>,
      iat_verified = None,
      iat_diagnostics =
        \<lparr>idg_profile_id = vdp_profile_id profile, idg_outcome = IdentificationError, idg_probes = diagnostics,
         idg_fingerprint_candidate = map_option (\<lambda>a. evidence_fingerprint sha256 profile a diagnostics) adapter,
         idg_profile_hash = to_hex (vdp_profile_hash profile), idg_elapsed = elapsed, idg_error = Some message\<rparr>\<rparr>"

definition identification_error_attempt ::
  "(u8 list \<Rightarrow> u8 list) \<Rightarrow> 'd validated_device_profile \<Rightarrow> adapter_identity option \<Rightarrow> string \<Rightarrow> 'd identification_attempt" where
  "identification_error_attempt sha256 profile adapter message =
     identification_error_attempt_with_elapsed sha256 profile adapter [] [] 0 message"

definition probe_diagnostic ::
  "validated_probe \<Rightarrow> bus_error + raw_registers \<Rightarrow> duration \<Rightarrow> 'd identification_probe_diagnostic" where
  "probe_diagnostic probe answer elapsed =
     \<lparr>ipd_probe_id = vpb_id probe, ipd_description = vpb_description probe, ipd_block = vpb_block probe,
      ipd_expected_raw = vpb_expected_raw probe,
      ipd_raw = result_ok answer, ipd_engineering = None,
      ipd_quality = (case answer of Inl e \<Rightarrow> quality_for_bus_error e | Inr _ \<Rightarrow> Good), ipd_elapsed = elapsed,
      ipd_matched = (case answer of Inl _ \<Rightarrow> False | Inr raw \<Rightarrow> raw \<in> set (vpb_expected_raw probe)),
      ipd_error = (case answer of Inl e \<Rightarrow> Some (bus_error_text e) | Inr _ \<Rightarrow> None)\<rparr>"

definition probe_result :: "validated_probe \<Rightarrow> raw_registers \<Rightarrow> identification_probe_result" where
  "probe_result probe raw =
     \<lparr>ipr_probe_id = vpb_id probe, ipr_raw = raw, ipr_matched = raw \<in> set (vpb_expected_raw probe)\<rparr>"

subsection \<open>The probes\<close>

definition probe_request ::
  "'d identification_request \<Rightarrow> nat \<Rightarrow> validated_probe \<Rightarrow> instant \<Rightarrow> bus_error + read_bus_request" where
  "probe_request R index probe now =
     read_request_one_shot
       (interactive_context (of_nat (min (index + 1) (2 ^ 64 - 1))) (irq_session_id R) (now + irq_timeout R) None)
       (irq_slave_id R) (read_function (rb_table (vpb_block probe))) (vpb_block probe)"

type_synonym 'd probe_run = "identification_probe_result list \<times> 'd identification_probe_diagnostic list"

text \<open>The loop over the probes: \<open>Inl\<close> the bus error that ended it, with what had been observed.\<close>

fun probe_loop ::
  "('w, 'd) ports \<Rightarrow> 'd identification_request \<Rightarrow> nat \<Rightarrow> validated_probe list \<Rightarrow> 'd probe_run
     \<Rightarrow> ('w, 'd, 'z, bus_error \<times> 'd probe_run + 'd probe_run) port_monad" where
  "probe_loop P R index [] acc = State_Monad.return (Inr acc)"
| "probe_loop P R index (probe # probes) acc = do {
     probe_started_at \<leftarrow> call (po_instant_now P) EvNow;
     now \<leftarrow> call (po_instant_now P) EvNow;
     answer \<leftarrow> (case probe_request R index probe now of
         Inl e \<Rightarrow> State_Monad.return (Err e)
       | Inr request \<Rightarrow> call (po_read P request) (EvRead request));
     finished \<leftarrow> call (po_instant_now P) EvNow;
     (let diagnostics = snd acc @ [probe_diagnostic probe answer (finished - probe_started_at)] in
      case answer of
        Inl e \<Rightarrow> State_Monad.return (Inl (e, fst acc, diagnostics))
      | Inr raw \<Rightarrow> probe_loop P R (index + 1) probes (fst acc @ [probe_result probe raw], diagnostics))
   }"

definition identification_outcome ::
  "'d identification_request \<Rightarrow> identification_probe_result list \<Rightarrow> 'd identification_probe_diagnostic list
     \<Rightarrow> identification_match" where
  "identification_outcome R core_results diagnostics =
     (let matched = length (filter ipr_matched core_results);
          outcome = (if matched = length core_results then Match else if matched > 0 then Partial else Mismatch)
      in if outcome = Match \<and>
            list_ex (\<lambda>c. vdp_profile_id c \<noteq> vdp_profile_id (irq_selected_profile R) \<and>
              profile_matches_observed c diagnostics) (irq_candidate_profiles R)
         then Ambiguous else outcome)"

definition identification_finished_attempt ::
  "(u8 list \<Rightarrow> u8 list) \<Rightarrow> 'd identification_request \<Rightarrow> 'd probe_run \<Rightarrow> duration \<Rightarrow> 'd identification_attempt" where
  "identification_finished_attempt sha256 R run elapsed =
     (let profile = irq_selected_profile R;
          outcome = identification_outcome R (fst run) (snd run);
          fingerprint = evidence_fingerprint sha256 profile (irq_adapter R) (snd run)
      in \<lparr>iat_report = \<lparr>ir_profile_id = vdp_profile_id profile, ir_outcome = outcome, ir_probes = fst run\<rparr>,
          iat_verified =
            (if outcome = Match
             then Some \<lparr>vsi_device = \<lparr>vdi_profile_id = vdp_profile_id profile, vdi_fingerprint = fingerprint,
                          vdi_probes = fst run\<rparr>, vsi_profile_hash = vdp_profile_hash profile\<rparr>
             else None),
          iat_diagnostics =
            \<lparr>idg_profile_id = vdp_profile_id profile, idg_outcome = outcome, idg_probes = snd run,
             idg_fingerprint_candidate = Some fingerprint, idg_profile_hash = to_hex (vdp_profile_hash profile),
             idg_elapsed = elapsed, idg_error = None\<rparr>\<rparr>)"

definition identify_profile_via_bus_with_clock ::
  "(u8 list \<Rightarrow> u8 list) \<Rightarrow> ('w, 'd) ports \<Rightarrow> 'd identification_request
     \<Rightarrow> ('w, 'd, 'z, 'd identification_attempt) port_monad" where
  "identify_profile_via_bus_with_clock sha256 P R = do {
     started_at \<leftarrow> call (po_instant_now P) EvNow;
     (if vdp_probes (irq_selected_profile R) = [] then do {
        now \<leftarrow> call (po_instant_now P) EvNow;
        State_Monad.return (identification_error_attempt_with_elapsed sha256 (irq_selected_profile R)
          (Some (irq_adapter R)) [] [] (now - started_at) ''selected profile has no identification probes'')
      }
      else do {
        run \<leftarrow> probe_loop P R 0 (vdp_probes (irq_selected_profile R)) ([], []);
        now \<leftarrow> call (po_instant_now P) EvNow;
        State_Monad.return (case run of
            Inl (e, core_results, diagnostics) \<Rightarrow>
              identification_error_attempt_with_elapsed sha256 (irq_selected_profile R) (Some (irq_adapter R))
                core_results diagnostics (now - started_at) (bus_error_text e)
          | Inr results \<Rightarrow> identification_finished_attempt sha256 R results (now - started_at))
      })
   }"

end
