(* ===== verification/Identification_Properties.thy ===== *)
theory Identification_Properties
  imports Identification Samples
begin

text \<open>
  What identification reads, and when it verifies a device: only the declared probes, in order, and
  only if every one of them answers with an expected value and no other profile fits as well.
\<close>

subsection \<open>The reads of a trace\<close>

definition bus_reads :: "'d port_event list \<Rightarrow> (read_bus_request \<times> (bus_error + raw_registers)) list" where
  "bus_reads es = List.map_filter (\<lambda>e. case e of EvRead q a \<Rightarrow> Some (q, a) | _ \<Rightarrow> None) es"

lemma bus_reads_simps [simp]:
  "bus_reads [] = []" "bus_reads (EvNow n # es) = bus_reads es" "bus_reads (EvRead q a # es) = (q, a) # bus_reads es"
  "bus_reads (es @ fs) = bus_reads es @ bus_reads fs"
  by (simp_all add: bus_reads_def List.map_filter_def)

text \<open>A read of a probe: this block, as a one-shot of the interactive class, with a read function.\<close>

definition reads_probe ::
  "'d identification_request \<Rightarrow> validated_probe \<Rightarrow> read_bus_request \<times> (bus_error + raw_registers) \<Rightarrow> bool" where
  "reads_probe R probe qa \<longleftrightarrow>
     rbr_block (fst qa) = vpb_block probe \<and> rbr_slave (fst qa) = irq_slave_id R \<and> \<not> rbr_periodic (fst qa) \<and>
     \<not> is_write (rbr_function (fst qa)) \<and> brc_class (rbr_context (fst qa)) = Interactive \<and>
     brc_session_id (rbr_context (fst qa)) = irq_session_id R"

lemma probe_request_reads: "probe_request R i probe now = Ok q \<Longrightarrow> reads_probe R probe (q, a)"
  by (auto simp: probe_request_def read_request_one_shot_def Let_def and_then_Ok_iff reads_probe_def interactive_context_def
    bus_request_context_new_def read_function_def is_write_def split: modbus_table.splits)

definition answered :: "read_bus_request \<times> (bus_error + raw_registers) \<Rightarrow> bool" where
  "answered qa \<longleftrightarrow> (\<exists>raw. snd qa = Ok raw)"

text \<open>What the loop over the probes leaves, for the reads that it made.\<close>

definition diagnostic_of ::
  "validated_probe \<times> read_bus_request \<times> (bus_error + raw_registers) \<Rightarrow> 'd identification_probe_diagnostic \<Rightarrow> bool" where
  "diagnostic_of x d \<longleftrightarrow> (\<exists>t. d = probe_diagnostic (fst x) (snd (snd x)) t)"

definition result_of ::
  "validated_probe \<times> read_bus_request \<times> (bus_error + raw_registers) \<Rightarrow> identification_probe_result \<Rightarrow> bool" where
  "result_of x r \<longleftrightarrow> (\<exists>raw. snd (snd x) = Ok raw \<and> r = probe_result (fst x) raw)"

definition loop_result ::
  "'d identification_request \<Rightarrow> validated_probe list \<Rightarrow> 'd probe_run
     \<Rightarrow> (bus_error \<times> 'd probe_run + 'd probe_run) \<Rightarrow> 'd port_event list \<Rightarrow> bool" where
  "loop_result R probes acc r es \<longleftrightarrow>
     no_write es \<and>
     (\<exists>n. list_all2 (reads_probe R) (take n probes) (bus_reads es)) \<and>
     (case r of
        Inl _ \<Rightarrow> \<not> list_all2 (\<lambda>probe. answered) probes (bus_reads es)
      | Inr run \<Rightarrow> length (bus_reads es) = length probes \<and>
          (\<exists>rs ds. run = (fst acc @ rs, snd acc @ ds) \<and> list_all2 result_of (zip probes (bus_reads es)) rs \<and>
             list_all2 diagnostic_of (zip probes (bus_reads es)) ds))"

lemma loop_result_stop:
  assumes "case e of None \<Rightarrow> True | Some q \<Rightarrow> reads_probe R probe (q, Err b)"
  shows "loop_result R (probe # probes) acc (Inl x)
    (EvNow t # EvNow u # (case e of None \<Rightarrow> [] | Some q \<Rightarrow> [EvRead q (Err b)]) @ [EvNow v])"
  using assms
  by (cases e) (auto simp: loop_result_def answered_def intro: exI [of _ 0] exI [of _ 1])

lemma loop_result_step:
  assumes q: "reads_probe R probe (q, Ok raw)"
    and r: "loop_result R probes (fst acc @ [probe_result probe raw], snd acc @ [probe_diagnostic probe (Ok raw) d]) r es"
  shows "loop_result R (probe # probes) acc r (EvNow t # EvNow u # EvRead q (Ok raw) # EvNow v # es)"
proof -
  from r obtain n where n: "list_all2 (reads_probe R) (take n probes) (bus_reads es)" and w: "no_write es"
    by (auto simp: loop_result_def)
  have n': "list_all2 (reads_probe R) (take (Suc n) (probe # probes)) ((q, Ok raw) # bus_reads es)" using n q by simp
  have res: "result_of (probe, q, Ok raw) (probe_result probe raw)" by (simp add: result_of_def)
  have diag: "diagnostic_of (probe, q, Ok raw) (probe_diagnostic probe (Ok raw) d)" by (auto simp: diagnostic_of_def)
  show ?thesis
  proof (cases r)
    case (Inl e)
    with r w show ?thesis unfolding loop_result_def
      by (intro conjI exI [of _ "Suc n"]) (use n' in \<open>simp_all add: answered_def\<close>)
  next
    case (Inr run)
    with r obtain rs ds where "run = (fst acc @ probe_result probe raw # rs, snd acc @ probe_diagnostic probe (Ok raw) d # ds)"
      "list_all2 result_of (zip probes (bus_reads es)) rs" "list_all2 diagnostic_of (zip probes (bus_reads es)) ds"
      "length (bus_reads es) = length probes"
      by (auto simp: loop_result_def)
    then have "\<exists>rs ds. run = (fst acc @ rs, snd acc @ ds) \<and>
        list_all2 result_of (zip (probe # probes) ((q, Ok raw) # bus_reads es)) rs \<and>
        list_all2 diagnostic_of (zip (probe # probes) ((q, Ok raw) # bus_reads es)) ds"
      using res diag
      by (intro exI [of _ "probe_result probe raw # rs"] exI [of _ "probe_diagnostic probe (Ok raw) d # ds"]) simp
    with Inr r w show ?thesis unfolding loop_result_def
      by (intro conjI exI [of _ "Suc n"]) (use n' in simp_all)
  qed
qed

lemma probe_loop_emits:
  fixes P :: "('w, 'd) ports"
  shows "emits (probe_loop P R i probes acc :: ('w, 'd, 'z, bus_error \<times> 'd probe_run + 'd probe_run) port_monad)
    (loop_result R probes acc)"
proof (induction probes arbitrary: i acc)
  case Nil
  show ?case by (auto intro!: emits_return simp: loop_result_def)
next
  case (Cons probe probes)
  have fin: "emits (do { finished \<leftarrow> call (po_instant_now P) EvNow;
        (let diagnostics = snd acc @ [probe_diagnostic probe answer (finished - t)] in
         case answer of Inl e \<Rightarrow> State_Monad.return (Inl (e, fst acc, diagnostics))
         | Inr raw \<Rightarrow> (probe_loop P R (i + 1) probes (fst acc @ [probe_result probe raw], diagnostics)
             :: ('w, 'd, 'z, bus_error \<times> 'd probe_run + 'd probe_run) port_monad)) })
      (\<lambda>r fs. loop_result R (probe # probes) acc r (EvNow t # EvNow u # es @ fs))"
    if "(case answer of Inl b \<Rightarrow> es = [] \<or> (\<exists>q. es = [EvRead q (Err b)] \<and> reads_probe R probe (q, Err b))
         | Inr raw \<Rightarrow> \<exists>q. es = [EvRead q (Ok raw)] \<and> reads_probe R probe (q, Ok raw))" for answer t u es
  proof (rule emits_call_bind)
    fix v
    show "emits (let diagnostics = snd acc @ [probe_diagnostic probe answer (v - t)] in
         case answer of Inl e \<Rightarrow> State_Monad.return (Inl (e, fst acc, diagnostics))
         | Inr raw \<Rightarrow> (probe_loop P R (i + 1) probes (fst acc @ [probe_result probe raw], diagnostics)
             :: ('w, 'd, 'z, bus_error \<times> 'd probe_run + 'd probe_run) port_monad))
      (\<lambda>r fs. loop_result R (probe # probes) acc r (EvNow t # EvNow u # es @ EvNow v # fs))"
    proof (cases answer)
      case (Inl b)
      with that consider "es = []" | q where "es = [EvRead q (Err b)]" "reads_probe R probe (q, Err b)" by auto
      then have "loop_result R (probe # probes) acc (Inl x) (EvNow t # EvNow u # es @ [EvNow v])" for x
      proof cases
        case 1
        with loop_result_stop [where e = None and R = R and probe = probe and b = b] show ?thesis by simp
      next
        case 2
        with loop_result_stop [where e = "Some q" and R = R and probe = probe and b = b] show ?thesis by simp
      qed
      with Inl show ?thesis by (auto intro!: emits_return simp: Let_def)
    next
      case (Inr raw)
      with that obtain q where q: "es = [EvRead q (Ok raw)]" "reads_probe R probe (q, Ok raw)" by auto
      show ?thesis unfolding Inr Let_def sum.case
        by (rule emits_mono [OF Cons.IH]) (use loop_result_step [OF q(2)] q(1) in simp)
    qed
  qed
  have "emits (do { answer \<leftarrow> (case probe_request R i probe u of
         Inl e \<Rightarrow> State_Monad.return (Err e)
       | Inr request \<Rightarrow> call (po_read P request) (EvRead request));
       finished \<leftarrow> call (po_instant_now P) EvNow;
       (let diagnostics = snd acc @ [probe_diagnostic probe answer (finished - t)] in
         case answer of Inl e \<Rightarrow> State_Monad.return (Inl (e, fst acc, diagnostics))
         | Inr raw \<Rightarrow> (probe_loop P R (i + 1) probes (fst acc @ [probe_result probe raw], diagnostics)
             :: ('w, 'd, 'z, bus_error \<times> 'd probe_run + 'd probe_run) port_monad)) })
      (\<lambda>r fs. loop_result R (probe # probes) acc r (EvNow t # EvNow u # fs))" for t u
  proof (rule emits_bind [where P = "\<lambda>answer es. case answer of
        Inl b \<Rightarrow> es = [] \<or> (\<exists>q. es = [EvRead q (Err b)] \<and> reads_probe R probe (q, Err b))
      | Inr raw \<Rightarrow> \<exists>q. es = [EvRead q (Ok raw)] \<and> reads_probe R probe (q, Ok raw)"])
    show "emits (case probe_request R i probe u of
         Inl e \<Rightarrow> State_Monad.return (Err e)
       | Inr request \<Rightarrow> call (po_read P request) (EvRead request))
      (\<lambda>answer es. case answer of
        Inl b \<Rightarrow> es = [] \<or> (\<exists>q. es = [EvRead q (Err b)] \<and> reads_probe R probe (q, Err b))
      | Inr raw \<Rightarrow> \<exists>q. es = [EvRead q (Ok raw)] \<and> reads_probe R probe (q, Ok raw))"
      by (cases "probe_request R i probe u")
        (auto intro!: emits_return emits_call dest: probe_request_reads split: sum.splits)
  next
    fix answer and es :: "'d port_event list"
    assume "case answer of
        Inl b \<Rightarrow> es = [] \<or> (\<exists>q. es = [EvRead q (Err b)] \<and> reads_probe R probe (q, Err b))
      | Inr raw \<Rightarrow> \<exists>q. es = [EvRead q (Ok raw)] \<and> reads_probe R probe (q, Ok raw)"
    from fin [OF this, of t u]
    show "emits (do { finished \<leftarrow> call (po_instant_now P) EvNow;
       (let diagnostics = snd acc @ [probe_diagnostic probe answer (finished - t)] in
         case answer of Inl e \<Rightarrow> State_Monad.return (Inl (e, fst acc, diagnostics))
         | Inr raw \<Rightarrow> (probe_loop P R (i + 1) probes (fst acc @ [probe_result probe raw], diagnostics)
             :: ('w, 'd, 'z, bus_error \<times> 'd probe_run + 'd probe_run) port_monad)) })
      (\<lambda>r fs. loop_result R (probe # probes) acc r (EvNow t # EvNow u # es @ fs))" .
  qed
  then show ?case unfolding probe_loop.simps by (intro emits_call_bind) 
qed

subsection \<open>The verdict\<close>

definition candidate_observed ::
  "'d identification_request \<Rightarrow> (read_bus_request \<times> (bus_error + raw_registers)) list \<Rightarrow> 'd validated_device_profile \<Rightarrow> bool" where
  "candidate_observed R rs c \<longleftrightarrow>
     vdp_probes c \<noteq> [] \<and> length (vdp_probes c) = length rs \<and>
     (\<forall>probe \<in> set (vdp_probes c). \<exists>x \<in> set (zip (vdp_probes (irq_selected_profile R)) rs).
        vpb_block (fst x) = vpb_block probe \<and> (\<exists>raw \<in> set (vpb_expected_raw probe). snd (snd x) = Ok raw))"

definition identification_matches ::
  "'d identification_request \<Rightarrow> (read_bus_request \<times> (bus_error + raw_registers)) list \<Rightarrow> bool" where
  "identification_matches R rs \<longleftrightarrow>
     vdp_probes (irq_selected_profile R) \<noteq> [] \<and>
     list_all2 (\<lambda>probe qa. \<exists>raw \<in> set (vpb_expected_raw probe). snd qa = Ok raw) (vdp_probes (irq_selected_profile R)) rs \<and>
     \<not> (\<exists>c \<in> set (irq_candidate_profiles R). vdp_profile_id c \<noteq> vdp_profile_id (irq_selected_profile R) \<and> candidate_observed R rs c)"

lemma profile_matches_reads:
  assumes "list_all2 diagnostic_of (zip (vdp_probes (irq_selected_profile R)) rs) ds"
    and "length rs = length (vdp_probes (irq_selected_profile R))"
  shows "profile_matches_observed c ds \<longleftrightarrow> candidate_observed R rs c"
proof -
  have len: "length ds = length rs" using list_all2_lengthD [OF assms(1)] assms(2) by simp
  have "list_ex (\<lambda>actual. ipd_block actual = vpb_block probe \<and>
       (case ipd_raw actual of None \<Rightarrow> False | Some raw \<Rightarrow> raw \<in> set (vpb_expected_raw probe))) ds \<longleftrightarrow>
     (\<exists>x \<in> set (zip (vdp_probes (irq_selected_profile R)) rs). vpb_block (fst x) = vpb_block probe \<and>
       (\<exists>raw \<in> set (vpb_expected_raw probe). snd (snd x) = Ok raw))" for probe :: validated_probe
    using assms(1)
  proof (induction rule: list_all2_induct)
    case (Cons x xs d ds)
    have "ipd_block d = vpb_block (fst x)" "ipd_raw d = result_ok (snd (snd x))"
      using Cons(1) by (auto simp: diagnostic_of_def probe_diagnostic_def)
    with Cons show ?case by (cases "snd (snd x)") auto
  qed simp
  then show ?thesis unfolding profile_matches_observed_def candidate_observed_def len list_all_iff by (simp only:)
qed

lemma length_filter_all: "length (filter P xs) = length xs \<longleftrightarrow> list_all P xs"
proof (cases "list_all P xs")
  case False
  then obtain x where "x \<in> set xs" "\<not> P x" by (auto simp: list_all_iff)
  from length_filter_less [of x xs P, OF this] False show ?thesis by simp
qed (simp add: list_all_iff)

lemma matched_reads:
  assumes "list_all2 result_of (zip probes rs) core" and "length rs = length probes"
  shows "length (filter ipr_matched core) = length core \<longleftrightarrow>
    list_all2 (\<lambda>probe qa. \<exists>raw \<in> set (vpb_expected_raw probe). snd qa = Ok raw) probes rs"
proof -
  have "length (filter ipr_matched core) = length core \<longleftrightarrow> list_all ipr_matched core"
    by (rule length_filter_all)
  also have "\<dots> \<longleftrightarrow> (\<forall>x \<in> set (zip probes rs). \<exists>raw \<in> set (vpb_expected_raw (fst x)). snd (snd x) = Ok raw)"
    using assms(1)
    by (induction rule: list_all2_induct) (auto simp: result_of_def probe_result_def)
  finally show ?thesis using assms(2) by (simp add: list_all2_iff case_prod_beta)
qed

text \<open>
  C20. Identification is read-only and strict. Whatever the bus answers, it sends nothing but
  interactive one-shot reads of the probes of the selected profile, in their order and each at most once. It
  verifies the device exactly if there are probes, every one of them was answered with an expected
  value, and no candidate profile with another identifier fits the answers; the verified identity
  then is that of the selected profile with its hash and the reported probes. Any bus error, missing
  probe or second fitting profile leaves the device unverified.
\<close>
theorem identification_is_strict:
  "emits (identify_profile_via_bus_with_clock sha256 P R) (\<lambda>attempt es.
     no_write es \<and>
     (\<exists>n. list_all2 (reads_probe R) (take n (vdp_probes (irq_selected_profile R))) (bus_reads es)) \<and>
     (iat_verified attempt \<noteq> None \<longleftrightarrow> identification_matches R (bus_reads es)) \<and>
     (ir_outcome (iat_report attempt) = Match \<longleftrightarrow> identification_matches R (bus_reads es)) \<and>
     (case iat_verified attempt of None \<Rightarrow> True
      | Some v \<Rightarrow> vdi_profile_id (vsi_device v) = vdp_profile_id (irq_selected_profile R) \<and>
          vsi_profile_hash v = vdp_profile_hash (irq_selected_profile R) \<and>
          vdi_probes (vsi_device v) = ir_probes (iat_report attempt) \<and> iat_report attempt =
            \<lparr>ir_profile_id = vdp_profile_id (irq_selected_profile R), ir_outcome = Match,
             ir_probes = vdi_probes (vsi_device v)\<rparr>))"
  (is "emits _ ?Q")
proof -
  let ?probes = "vdp_probes (irq_selected_profile R)"
  have answered_all: "list_all2 (\<lambda>probe. answered) ?probes rs"
    if "list_all2 (\<lambda>probe qa. \<exists>raw \<in> set (vpb_expected_raw probe). snd qa = Ok raw) ?probes rs" for rs
    using that by (rule list_all2_mono) (auto simp: answered_def)
  have empty: "?Q (identification_error_attempt_with_elapsed sha256 (irq_selected_profile R) a core ds t m) es"
    if "no_write es" "\<exists>n. list_all2 (reads_probe R) (take n ?probes) (bus_reads es)" "\<not> identification_matches R (bus_reads es)"
    for a core ds t m es
    using that by (simp add: identification_error_attempt_with_elapsed_def)
  have finished: "?Q (case run of
        Inl (e, core, ds) \<Rightarrow> identification_error_attempt_with_elapsed sha256 (irq_selected_profile R) a core ds t (bus_error_text e)
      | Inr results \<Rightarrow> identification_finished_attempt sha256 R results t) (EvNow u # es @ [EvNow v])"
    if loop: "loop_result R ?probes ([], []) run es" and ne: "?probes \<noteq> []" for run es a t u v
  proof (cases run)
    case (Inl x)
    then have "\<not> list_all2 (\<lambda>probe. answered) ?probes (bus_reads es)" using loop by (simp add: loop_result_def)
    then have "\<not> identification_matches R (bus_reads es)"
      unfolding identification_matches_def using answered_all by blast
    with loop Inl show ?thesis
      by (cases x) (auto simp: loop_result_def identification_error_attempt_with_elapsed_def)
  next
    case (Inr results)
    then obtain rs ds where r: "results = (rs, ds)" "length (bus_reads es) = length ?probes"
      "list_all2 result_of (zip ?probes (bus_reads es)) rs" "list_all2 diagnostic_of (zip ?probes (bus_reads es)) ds"
      using loop by (auto simp: loop_result_def)
    have "identification_outcome R rs ds = Match \<longleftrightarrow> identification_matches R (bus_reads es)"
      using matched_reads [OF r(3,2)] profile_matches_reads [OF r(4,2)] ne
      by (auto simp: identification_outcome_def Let_def identification_matches_def list_ex_iff)
    with loop Inr r(1) show ?thesis
      by (simp add: identification_finished_attempt_def Let_def loop_result_def)
  qed
  show ?thesis
    unfolding identify_profile_via_bus_with_clock_def
  proof (rule emits_call_bind, rule emits_if)
    fix started_at
    assume none: "?probes = []"
    show "emits (do { now \<leftarrow> call (po_instant_now P) EvNow;
        State_Monad.return (identification_error_attempt_with_elapsed sha256 (irq_selected_profile R)
          (Some (irq_adapter R)) [] [] (now - started_at) ''selected profile has no identification probes'') })
      (\<lambda>r fs. ?Q r (EvNow started_at # fs))"
      by (intro emits_call_bind emits_return empty) (simp_all add: none identification_matches_def)
  next
    fix started_at
    assume ne: "?probes \<noteq> []"
    show "emits (do { run \<leftarrow> probe_loop P R 0 ?probes ([], []);
        now \<leftarrow> call (po_instant_now P) EvNow;
        State_Monad.return (case run of
            Inl (e, core_results, diagnostics) \<Rightarrow>
              identification_error_attempt_with_elapsed sha256 (irq_selected_profile R) (Some (irq_adapter R))
                core_results diagnostics (now - started_at) (bus_error_text e)
          | Inr results \<Rightarrow> identification_finished_attempt sha256 R results (now - started_at)) })
      (\<lambda>r fs. ?Q r (EvNow started_at # fs))"
    proof (rule emits_bind [OF probe_loop_emits])
      fix run es assume loop: "loop_result R ?probes ([], []) run es"
      show "emits (do { now \<leftarrow> call (po_instant_now P) EvNow;
        State_Monad.return (case run of
            Inl (e, core_results, diagnostics) \<Rightarrow>
              identification_error_attempt_with_elapsed sha256 (irq_selected_profile R) (Some (irq_adapter R))
                core_results diagnostics (now - started_at) (bus_error_text e)
          | Inr results \<Rightarrow> identification_finished_attempt sha256 R results (now - started_at)) })
      (\<lambda>r fs. ?Q r (EvNow started_at # es @ fs))"
        by (intro emits_call_bind emits_return finished [OF loop ne])
    qed
  qed
qed

end
