(* ===== verification/Storage_Files.thy ===== *)
theory Storage_Files
  imports Records Texts
begin

text \<open>
  The file system as the storage crate uses it, and \<open>lantern-storage/src/atomic.rs\<close>. A \<open>disk\<close> maps
  paths to files and holds the faults of the operations to come: \<open>None\<close> for an operation that works,
  otherwise the error that the operation returns. What lies behind a symbolic link is not modelled: no
  file is read or written through one. A torn write leaves a prefix of its bytes behind,
  and a crash is a fault after which nothing more runs. A temporary file has a name that no other
  operation uses, so it is a value until it is renamed. Directories are only ever created.
\<close>

subsection \<open>Disks\<close>

record stored_file =
  fl_bytes :: "u8 list"
  fl_mode :: u32

datatype io_error = IoNotFound | IoAlreadyExists | IoOther string

datatype io_fault = Fault string | Torn nat string

record disk =
  dk_files :: "path \<Rightarrow> stored_file option"
  dk_directories :: "path set"
  dk_symlinks :: "path set"
  dk_faults :: "io_fault option list"

type_synonym 'r disk_io = "(disk, 'r) state"

definition io_error_text :: "io_error \<Rightarrow> string" where
  "io_error_text e =
     (case e of
        IoNotFound \<Rightarrow> ''No such file or directory (os error 2)''
      | IoAlreadyExists \<Rightarrow> ''File exists (os error 17)''
      | IoOther m \<Rightarrow> m)"

definition fault_error :: "io_fault \<Rightarrow> io_error" where
  "fault_error x = IoOther (case x of Fault m \<Rightarrow> m | Torn n m \<Rightarrow> m)"

text \<open>One operation of the system: \<open>f\<close> runs unless a fault is due; \<open>g\<close> is what a fault leaves behind.\<close>

definition io_step ::
  "(disk \<Rightarrow> (io_error + 'r) \<times> disk) \<Rightarrow> (io_fault \<Rightarrow> disk \<Rightarrow> disk) \<Rightarrow> (io_error + 'r) disk_io" where
  "io_step f g = State (\<lambda>d.
     case dk_faults d of
       [] \<Rightarrow> f d
     | None # xs \<Rightarrow> f (d\<lparr>dk_faults := xs\<rparr>)
     | Some x # xs \<Rightarrow> (Err (fault_error x), g x (d\<lparr>dk_faults := xs\<rparr>)))"

definition io_pure :: "(disk \<Rightarrow> io_error + 'r) \<Rightarrow> (io_error + 'r) disk_io" where
  "io_pure f = io_step (\<lambda>d. (f d, d)) (\<lambda>_ d. d)"

text \<open>The \<open>?\<close> of the source: an error ends the operation.\<close>

definition attempt :: "('s, 'e + 'a) state \<Rightarrow> ('a \<Rightarrow> ('s, 'e + 'b) state) \<Rightarrow> ('s, 'e + 'b) state" where
  "attempt m f = do { r \<leftarrow> m; (case r of Inl e \<Rightarrow> State_Monad.return (Inl e) | Inr x \<Rightarrow> f x) }"

definition with_error :: "('e \<Rightarrow> 'f) \<Rightarrow> ('s, 'e + 'a) state \<Rightarrow> ('s, 'f + 'a) state" where
  "with_error h m = do { r \<leftarrow> m; State_Monad.return (map_err h r) }"

lemma wp_return_fun: "wp (State_Monad.return x) Q = Q x"
  by (simp add: fun_eq_iff wp_return)

lemma wp_attempt [wp_simps]:
  "wp (attempt m f) Q s \<longleftrightarrow>
     wp m (\<lambda>r s'. case r of Inl e \<Rightarrow> Q (Inl e) s' | Inr x \<Rightarrow> wp (f x) Q s') s"
  unfolding attempt_def wp_bind by (rule arg_cong [where f = "\<lambda>P. wp m P s"]) (auto simp: wp_return fun_eq_iff split: sum.splits)

lemma wp_with_error [wp_simps]: "wp (with_error h m) Q s \<longleftrightarrow> wp m (\<lambda>r. Q (map_err h r)) s"
  by (simp add: with_error_def wp_bind wp_return_fun)

subsection \<open>Operations\<close>

definition fs_read :: "path \<Rightarrow> (io_error + u8 list) disk_io" where
  "fs_read p = io_pure (\<lambda>d. case dk_files d p of None \<Rightarrow> Err IoNotFound | Some f \<Rightarrow> Ok (fl_bytes f))"

definition fs_length :: "path \<Rightarrow> (io_error + nat) disk_io" where
  "fs_length p = io_pure (\<lambda>d. case dk_files d p of None \<Rightarrow> Err IoNotFound | Some f \<Rightarrow> Ok (length (fl_bytes f)))"

definition fs_is_directory :: "path \<Rightarrow> (io_error + bool) disk_io" where
  "fs_is_directory p = io_pure (\<lambda>d.
     if p \<in> dk_directories d then Ok True else if dk_files d p \<noteq> None then Ok False else Err IoNotFound)"

fun last_slash :: "path \<Rightarrow> path option" where
  "last_slash [] = None"
| "last_slash (c # cs) =
     (case last_slash cs of Some q \<Rightarrow> Some (c # q) | None \<Rightarrow> if c = CHR ''/'' then Some [] else None)"

text \<open>
  \<open>Path::parent\<close> of a path with a last component and without doubled separators; a bare name
  has the empty parent, and the root stays itself.
\<close>

definition path_parent :: "path \<Rightarrow> path option" where
  "path_parent p =
     (if p = [] \<or> p = ''/'' then None
      else case last_slash p of None \<Rightarrow> Some [] | Some q \<Rightarrow> Some (if q = [] then ''/'' else q))"

definition path_join :: "path \<Rightarrow> string \<Rightarrow> path" where
  "path_join p name = (if p = [] \<or> last p = CHR ''/'' then p @ name else p @ CHR ''/'' # name)"

definition in_directory :: "disk \<Rightarrow> path \<Rightarrow> bool" where
  "in_directory d p \<longleftrightarrow> (case path_parent p of None \<Rightarrow> False | Some q \<Rightarrow> q \<in> dk_directories d)"

text \<open>The directories above the one created exist as well; no operation here depends on them.\<close>

definition fs_create_directories :: "path \<Rightarrow> (io_error + unit) disk_io" where
  "fs_create_directories p = io_step (\<lambda>d.
     if dk_files d p \<noteq> None then (Err IoAlreadyExists, d)
     else (Ok (), d\<lparr>dk_directories := insert p (dk_directories d)\<rparr>)) (\<lambda>_ d. d)"

definition fs_set_directory_mode :: "path \<Rightarrow> u32 \<Rightarrow> (io_error + unit) disk_io" where
  "fs_set_directory_mode p mode = io_pure (\<lambda>d. if p \<in> dk_directories d then Ok () else Err IoNotFound)"

definition put_file :: "path \<Rightarrow> stored_file \<Rightarrow> disk \<Rightarrow> disk" where
  "put_file p f d = d\<lparr>dk_files := (dk_files d)(p \<mapsto> f)\<rparr>"

definition fs_open_append :: "path \<Rightarrow> u32 \<Rightarrow> (io_error + unit) disk_io" where
  "fs_open_append p mode = io_step (\<lambda>d.
     if dk_files d p \<noteq> None then (Ok (), d)
     else if in_directory d p then (Ok (), put_file p \<lparr>fl_bytes = [], fl_mode = mode\<rparr> d)
     else (Err IoNotFound, d)) (\<lambda>_ d. d)"

definition fs_create_new :: "path \<Rightarrow> u32 \<Rightarrow> (io_error + unit) disk_io" where
  "fs_create_new p mode = io_step (\<lambda>d.
     if dk_files d p \<noteq> None \<or> p \<in> dk_directories d then (Err IoAlreadyExists, d)
     else if in_directory d p then (Ok (), put_file p \<lparr>fl_bytes = [], fl_mode = mode\<rparr> d)
     else (Err IoNotFound, d)) (\<lambda>_ d. d)"

definition append_bytes :: "path \<Rightarrow> u8 list \<Rightarrow> disk \<Rightarrow> disk" where
  "append_bytes p bs d =
     (case dk_files d p of None \<Rightarrow> d | Some f \<Rightarrow> put_file p (f\<lparr>fl_bytes := fl_bytes f @ bs\<rparr>) d)"

definition fs_set_mode :: "path \<Rightarrow> u32 \<Rightarrow> (io_error + unit) disk_io" where
  "fs_set_mode p mode = io_step (\<lambda>d.
     case dk_files d p of None \<Rightarrow> (Err IoNotFound, d) | Some f \<Rightarrow> (Ok (), put_file p (f\<lparr>fl_mode := mode\<rparr>) d))
     (\<lambda>_ d. d)"

definition fs_write_all :: "path \<Rightarrow> u8 list \<Rightarrow> (io_error + unit) disk_io" where
  "fs_write_all p bs = io_step (\<lambda>d. (Ok (), append_bytes p bs d))
     (\<lambda>x d. case x of Fault m \<Rightarrow> d | Torn n m \<Rightarrow> append_bytes p (take n bs) d)"

text \<open>An operation whose effect is not visible in the files: a sync, or one on a temporary file.\<close>

definition fs_hidden :: "(io_error + unit) disk_io" where
  "fs_hidden = io_pure (\<lambda>_. Ok ())"

text \<open>Opening a directory, or creating a temporary file in it.\<close>

definition fs_use_directory :: "path \<Rightarrow> (io_error + unit) disk_io" where
  "fs_use_directory p = io_pure (\<lambda>d. if p \<in> dk_directories d then Ok () else Err IoNotFound)"

definition fs_persist :: "stored_file \<Rightarrow> path \<Rightarrow> (io_error + unit) disk_io" where
  "fs_persist f p = io_step (\<lambda>d.
     if p \<in> dk_directories d then (Err IoAlreadyExists, d) else (Ok (), put_file p f d)) (\<lambda>_ d. d)"

definition fs_persist_new :: "stored_file \<Rightarrow> path \<Rightarrow> (io_error + unit) disk_io" where
  "fs_persist_new f p = io_step (\<lambda>d.
     if dk_files d p \<noteq> None \<or> p \<in> dk_directories d then (Err IoAlreadyExists, d)
     else (Ok (), put_file p f d)) (\<lambda>_ d. d)"

subsection \<open>Atomic writes\<close>

definition PRIVATE_FILE_MODE :: u32 where "PRIVATE_FILE_MODE = 0x180"

datatype atomic_write_error = InvalidPath path | AtomicIo path string

definition atomic_io :: "path \<Rightarrow> io_error \<Rightarrow> atomic_write_error" where
  "atomic_io p e = AtomicIo p (io_error_text e)"

definition atomic_write_error_text :: "atomic_write_error \<Rightarrow> string" where
  "atomic_write_error_text e =
     (case e of
        InvalidPath p \<Rightarrow> ''path has no parent directory: '' @ p
      | AtomicIo p m \<Rightarrow> ''atomic file operation failed for '' @ p @ '': '' @ m)"

definition parent_directory :: "path \<Rightarrow> atomic_write_error + path" where
  "parent_directory p =
     (case path_parent p of None \<Rightarrow> Err (InvalidPath p) | Some q \<Rightarrow> if q = [] then Err (InvalidPath p) else Ok q)"

definition sync_directory :: "path \<Rightarrow> (atomic_write_error + unit) disk_io" where
  "sync_directory p = with_error (atomic_io p) (attempt (fs_use_directory p) (\<lambda>_. fs_hidden))"

text \<open>Permissions, bytes and sync of the temporary file; on success it holds the bytes, privately.\<close>

definition prepare_private_file :: "path \<Rightarrow> u8 list \<Rightarrow> (atomic_write_error + stored_file) disk_io" where
  "prepare_private_file p bs =
     with_error (atomic_io p)
       (attempt fs_hidden (\<lambda>_. attempt fs_hidden (\<lambda>_. attempt fs_hidden (\<lambda>_.
          State_Monad.return (Ok \<lparr>fl_bytes = bs, fl_mode = PRIVATE_FILE_MODE\<rparr>)))))"

definition atomic_write :: "path \<Rightarrow> u8 list \<Rightarrow> (atomic_write_error + unit) disk_io" where
  "atomic_write p bs =
     attempt (State_Monad.return (parent_directory p)) (\<lambda>parent.
     attempt (with_error (atomic_io parent) (fs_create_directories parent)) (\<lambda>_.
     attempt (with_error (atomic_io parent) (fs_use_directory parent)) (\<lambda>_.
     attempt (prepare_private_file p bs) (\<lambda>temporary.
     attempt (with_error (atomic_io p) (fs_persist temporary p)) (\<lambda>_.
     sync_directory parent)))))"

definition atomic_create_new :: "path \<Rightarrow> u8 list \<Rightarrow> (atomic_write_error + unit) disk_io" where
  "atomic_create_new p bs =
     attempt (State_Monad.return (parent_directory p)) (\<lambda>parent.
     attempt (with_error (atomic_io parent) (fs_create_directories parent)) (\<lambda>_.
     attempt (with_error (atomic_io parent) (fs_use_directory parent)) (\<lambda>_.
     attempt (prepare_private_file p bs) (\<lambda>temporary.
     attempt (with_error (atomic_io p) (fs_persist_new temporary p)) (\<lambda>_.
     sync_directory parent)))))"

definition create_new_synced :: "path \<Rightarrow> u8 list \<Rightarrow> (atomic_write_error + unit) disk_io" where
  "create_new_synced p bs =
     attempt (State_Monad.return (parent_directory p)) (\<lambda>parent.
     attempt (with_error (atomic_io parent) (fs_create_directories parent)) (\<lambda>_.
     attempt (with_error (atomic_io p) (fs_create_new p PRIVATE_FILE_MODE)) (\<lambda>_.
     attempt (with_error (atomic_io p) (attempt (fs_write_all p bs) (\<lambda>_. fs_hidden))) (\<lambda>_.
     sync_directory parent))))"

subsection \<open>What an operation can do to the files\<close>

text \<open>
  \<open>does m A\<close>: from every state, \<open>m\<close> ends with a result and a state that are related to it by \<open>A\<close>.
  \<open>quiet\<close> relates disks with the same files, directories and links, whatever faults are still due.
\<close>

definition does :: "('s, 'r) state \<Rightarrow> ('s \<Rightarrow> 'r \<Rightarrow> 's \<Rightarrow> bool) \<Rightarrow> bool" where
  "does m A \<longleftrightarrow> (\<forall>d. wp m (A d) d)"

definition quiet :: "disk \<Rightarrow> disk \<Rightarrow> bool" where
  "quiet d e \<longleftrightarrow>
     dk_files e = dk_files d \<and> dk_directories e = dk_directories d \<and> dk_symlinks e = dk_symlinks d"

lemma does_mono: "does m A \<Longrightarrow> (\<And>d r e. A d r e \<Longrightarrow> B d r e) \<Longrightarrow> does m B"
  unfolding does_def by (blast intro: wp_mono)

lemma does_run: "does m A \<Longrightarrow> run_state m d = (r, e) \<Longrightarrow> A d r e"
  unfolding does_def wp_def by (auto dest: spec [where x = d])

lemma does_return: "does (State_Monad.return x) (\<lambda>d r e. r = x \<and> e = d)"
  by (simp add: does_def wp_return_fun)

lemma does_bind:
  assumes "does m A" and "\<And>x. does (f x) (B x)"
  shows "does (State_Monad.bind m f) (\<lambda>d r e. \<exists>x t. A d x t \<and> B x t r e)"
  unfolding does_def wp_bind
proof
  fix d
  from assms(1) have "wp m (A d) d" by (simp add: does_def)
  then show "wp m (\<lambda>x. wp (f x) (\<lambda>r e. \<exists>x t. A d x t \<and> B x t r e)) d"
  proof (rule wp_mono)
    fix x t
    assume "A d x t"
    moreover from assms(2) have "wp (f x) (B x t) t" by (simp add: does_def)
    ultimately show "wp (f x) (\<lambda>r e. \<exists>x t. A d x t \<and> B x t r e) t" by (blast intro: wp_mono)
  qed
qed

lemma does_attempt:
  assumes "does m A" and "\<And>x. does (f x) (B x)"
  shows "does (attempt m f) (\<lambda>d r e. (\<exists>x. r = Inl x \<and> A d (Inl x) e) \<or> (\<exists>x t. A d (Inr x) t \<and> B x t r e))"
  unfolding does_def
proof
  fix d
  from assms(1) have "wp m (A d) d" by (simp add: does_def)
  then show "wp (attempt m f) (\<lambda>r e. (\<exists>x. r = Inl x \<and> A d (Inl x) e) \<or> (\<exists>x t. A d (Inr x) t \<and> B x t r e)) d"
    unfolding wp_attempt
  proof (rule wp_mono)
    fix r t
    assume A: "A d r t"
    show "case r of Inl y \<Rightarrow> (\<exists>x. Inl y = Inl x \<and> A d (Inl x) t) \<or> (\<exists>x u. A d (Inr x) u \<and> B x u (Inl y) t)
        | Inr y \<Rightarrow> wp (f y) (\<lambda>r e. (\<exists>x. r = Inl x \<and> A d (Inl x) e) \<or> (\<exists>x t. A d (Inr x) t \<and> B x t r e)) t"
    proof (cases r)
      case (Inr y)
      from assms(2) have "wp (f y) (B y t) t" by (simp add: does_def)
      then have "wp (f y) (\<lambda>r e. (\<exists>x. r = Inl x \<and> A d (Inl x) e) \<or> (\<exists>x t. A d (Inr x) t \<and> B x t r e)) t"
        by (rule wp_mono) (use A Inr in blast)
      with Inr show ?thesis by simp
    qed (use A in simp)
  qed
qed

lemma Ok_eq_map_err [simp]: "Inr x = map_err f r \<longleftrightarrow> r = Inr x"
  by (cases r) auto

lemma does_with_error:
  assumes "does m A" shows "does (with_error h m) (\<lambda>d r e. \<exists>q. r = map_err h q \<and> A d q e)"
  unfolding does_def wp_with_error
proof
  fix d
  from assms have "wp m (A d) d" by (simp add: does_def)
  then show "wp m (\<lambda>r e. \<exists>q. map_err h r = map_err h q \<and> A d q e) d" by (rule wp_mono) blast
qed

lemma does_io_step:
  assumes "\<And>d xs. A d (fst (f (d\<lparr>dk_faults := xs\<rparr>))) (snd (f (d\<lparr>dk_faults := xs\<rparr>)))"
    and "\<And>d x xs. A d (Err (fault_error x)) (g x (d\<lparr>dk_faults := xs\<rparr>))"
  shows "does (io_step f g) A"
  unfolding does_def
proof
  fix d
  show "wp (io_step f g) (A d) d"
  proof (cases "dk_faults d")
    case Nil
    then have "d\<lparr>dk_faults := []\<rparr> = d" by simp
    with assms(1) [of d "[]"] Nil show ?thesis by (cases "f d") (simp add: io_step_def wp_State)
  next
    case (Cons a xs)
    with assms(1) [of d xs] assms(2) [of d] show ?thesis
      by (cases a; cases "f (d\<lparr>dk_faults := xs\<rparr>)") (simp_all add: io_step_def wp_State)
  qed
qed

lemma does_io_pure:
  assumes "\<And>d xs. f (d\<lparr>dk_faults := xs\<rparr>) = f d"
  shows "does (io_pure f) (\<lambda>d r e. quiet d e \<and> (r = f d \<or> (\<exists>m. r = Err (IoOther m))))"
  unfolding io_pure_def by (rule does_io_step) (auto simp: assms quiet_def fault_error_def)

lemma quiet_refl [simp]: "quiet d d"
  by (simp add: quiet_def)

lemma does_fs_read:
  "does (fs_read p) (\<lambda>d r e. quiet d e \<and>
     (r = (case dk_files d p of None \<Rightarrow> Err IoNotFound | Some f \<Rightarrow> Ok (fl_bytes f)) \<or> (\<exists>m. r = Err (IoOther m))))"
  unfolding fs_read_def by (rule does_io_pure) simp

lemma does_fs_length:
  "does (fs_length p) (\<lambda>d r e. quiet d e \<and>
     (r = (case dk_files d p of None \<Rightarrow> Err IoNotFound | Some f \<Rightarrow> Ok (length (fl_bytes f))) \<or>
      (\<exists>m. r = Err (IoOther m))))"
  unfolding fs_length_def by (rule does_io_pure) simp

lemma does_fs_hidden: "does fs_hidden (\<lambda>d r e. quiet d e)"
  unfolding fs_hidden_def by (rule does_mono [OF does_io_pure]) auto

lemma does_fs_use_directory: "does (fs_use_directory p) (\<lambda>d r e. quiet d e)"
  unfolding fs_use_directory_def by (rule does_mono [OF does_io_pure]) auto

lemma does_sync_directory: "does (sync_directory p) (\<lambda>d r e. quiet d e)"
  unfolding sync_directory_def
  by (rule does_mono [OF does_with_error [OF does_attempt [OF does_fs_use_directory does_fs_hidden]]])
    (auto simp: quiet_def)

lemma does_prepare_private_file:
  "does (prepare_private_file p bs) (\<lambda>d r e. quiet d e \<and>
     (\<forall>f. r = Ok f \<longrightarrow> f = \<lparr>fl_bytes = bs, fl_mode = PRIVATE_FILE_MODE\<rparr>))"
  unfolding prepare_private_file_def
  by (rule does_mono [OF does_with_error [OF does_attempt [OF does_fs_hidden
        does_attempt [OF does_fs_hidden does_attempt [OF does_fs_hidden does_return]]]]])
    (auto simp: quiet_def)

lemma does_fs_persist:
  "does (fs_persist f p) (\<lambda>d r e. if r = Ok () then quiet (put_file p f d) e else quiet d e)"
  unfolding fs_persist_def by (rule does_io_step) (auto simp: quiet_def put_file_def)

lemma does_fs_create_directories:
  "does (fs_create_directories p) (\<lambda>d r e. dk_files e = dk_files d)"
  unfolding fs_create_directories_def by (rule does_io_step) auto

text \<open>An atomic write leaves the old file or the new one, never a part; success means the new one.\<close>

lemma does_atomic_write:
  "does (atomic_write p bs) (\<lambda>d r e.
     dk_files e = dk_files d \<and> r \<noteq> Ok () \<or>
     dk_files e = (dk_files d)(p \<mapsto> \<lparr>fl_bytes = bs, fl_mode = PRIVATE_FILE_MODE\<rparr>))"
  unfolding atomic_write_def
  by (rule does_mono [OF does_attempt [OF does_return does_attempt [OF does_with_error [OF does_fs_create_directories]
        does_attempt [OF does_with_error [OF does_fs_use_directory] does_attempt [OF does_prepare_private_file
        does_attempt [OF does_with_error [OF does_fs_persist] does_sync_directory]]]]]])
    (auto simp: quiet_def put_file_def split: if_splits)

subsection \<open>Runs without faults\<close>

named_theorems faultless \<open>the run of an operation on a disk without faults\<close>

lemma run_io_step [faultless]: "dk_faults d = [] \<Longrightarrow> run_state (io_step f g) d = f d"
  by (simp add: io_step_def)

lemma run_io_pure [faultless]: "dk_faults d = [] \<Longrightarrow> run_state (io_pure f) d = (f d, d)"
  by (simp add: io_pure_def faultless)

lemma run_attempt [faultless]:
  "run_state (attempt m f) s = (case run_state m s of (Inl e, t) \<Rightarrow> (Inl e, t) | (Inr x, t) \<Rightarrow> run_state (f x) t)"
  by (auto simp: attempt_def split: prod.splits sum.splits)

lemma run_with_error [faultless]:
  "run_state (with_error h m) s = (case run_state m s of (r, t) \<Rightarrow> (map_err h r, t))"
  by (auto simp: with_error_def split: prod.splits)

lemma run_atomic_write [faultless]:
  assumes "dk_faults d = []" and "parent_directory p = Ok q" and "dk_files d q = None" and "p \<notin> dk_directories d" "p \<noteq> q"
  shows "run_state (atomic_write p bs) d =
    (Ok (), put_file p \<lparr>fl_bytes = bs, fl_mode = PRIVATE_FILE_MODE\<rparr> (d\<lparr>dk_directories := insert q (dk_directories d)\<rparr>))"
  using assms
  by (simp add: atomic_write_def faultless fs_create_directories_def fs_use_directory_def prepare_private_file_def
      fs_hidden_def fs_persist_def sync_directory_def put_file_def)

end
