(* ===== verification/Audit_Journal.thy ===== *)
theory Audit_Journal
  imports Storage_Files
begin

text \<open>
  The durable audit of the storage crate (\<open>lantern-storage/src/audit.rs\<close>): the journal of a session
  is a chain of records, each with the hash of its predecessor, and a head file says how many records
  there are and what the hash of the last one is. The JSON codecs that the derived serializers build
  on \<open>serde_jcs\<close> and \<open>serde_json\<close>, SHA-256 and the texts of floats and decimals are the
  parameters \<open>audit_codec\<close>.
\<close>

subsection \<open>Documents\<close>

datatype (plugins only: code size) json_number = PosInt u64 | NegInt int | FloatNumber u64

datatype (plugins only: code size) json =
    JsonNull
  | JsonBool bool
  | JsonNumber json_number
  | JsonString string
  | JsonArray "json list"
  | JsonObject "(string \<times> json) list"

definition json_object :: "(string \<times> json) list \<Rightarrow> json" where
  "json_object kvs = JsonObject (foldl (\<lambda>m (k, v). bt_insert k v m) [] kvs)"

definition json_unsigned :: "nat \<Rightarrow> json" where
  "json_unsigned n = JsonNumber (PosInt (of_nat n))"

definition json_signed :: "int \<Rightarrow> json" where
  "json_signed i = JsonNumber (if i < 0 then NegInt i else PosInt (word_of_int i))"

definition json_u128 :: "u128 \<Rightarrow> json" where
  "json_u128 w = JsonString (nat_text (unat w))"

definition json_registers :: "raw_registers \<Rightarrow> json" where
  "json_registers raw = JsonArray (map (\<lambda>w. json_unsigned (unat w)) raw)"

definition AUDIT_SCHEMA_VERSION :: u32 where "AUDIT_SCHEMA_VERSION = 1"
definition PRIVATE_DIR_MODE :: u32 where "PRIVATE_DIR_MODE = 0x1C0"

datatype (plugins only: code size) audit_verification =
    ValidFinalized | ValidOpen | Interrupted | RecordChanged | RecordMissing | TailTruncated
  | HeadMissing | HeadMismatch | RollbackDetected | UnsupportedSchema

datatype audit_storage_error =
    AuditIo path string
  | AuditSerialization string
  | AuditInconsistent string
  | InvalidAuditToken
  | RecursiveAuditUnavailable

record audit_head =
  ah_schema_version :: u32
  ah_session_id :: string
  ah_record_count :: u64
  ah_head_hash :: string
  ah_last_time :: string
  ah_open :: bool
  ah_finalized :: bool

record hash_material =
  hm_schema_version :: u32
  hm_sequence :: u64
  hm_session_id :: string
  hm_at :: string
  hm_kind :: string
  hm_previous_hash :: "string option"
  hm_body :: json

record audit_envelope =
  aen_material :: hash_material
  aen_record_hash :: string

record 'd audit_codec =
  ac_head_to_vec :: "audit_head \<Rightarrow> string + u8 list"
  ac_head_from_slice :: "u8 list \<Rightarrow> string + audit_head"
  ac_envelope_to_vec :: "audit_envelope \<Rightarrow> string + u8 list"
  ac_envelope_from_slice :: "u8 list \<Rightarrow> string + audit_envelope"
  ac_material_to_vec :: "hash_material \<Rightarrow> string + u8 list"
  ac_sha256 :: "u8 list \<Rightarrow> u8 list"
  ac_decimal_text :: "'d \<Rightarrow> string"
  ac_f32_text :: "u32 \<Rightarrow> string"
  ac_f64_text :: "u64 \<Rightarrow> string"

definition audit_storage_error_text :: "audit_storage_error \<Rightarrow> string" where
  "audit_storage_error_text e =
     (case e of
        AuditIo p m \<Rightarrow> ''audit filesystem operation failed for '' @ p @ '': '' @ m
      | AuditSerialization m \<Rightarrow> ''audit serialization failed: '' @ m
      | AuditInconsistent m \<Rightarrow> ''audit journal state is inconsistent: '' @ m
      | InvalidAuditToken \<Rightarrow> ''audit token is unknown, consumed, or bound to another operation''
      | RecursiveAuditUnavailable \<Rightarrow> ''AuditUnavailable must never be recursively persisted'')"

definition audit_error_of :: "audit_storage_error \<Rightarrow> audit_error" where
  "audit_error_of e = AuditErrPersistence (audit_storage_error_text e)"

definition audit_io :: "path \<Rightarrow> io_error \<Rightarrow> audit_storage_error" where
  "audit_io p e = AuditIo p (io_error_text e)"

subsection \<open>Bodies of the records\<close>

definition audit_decision_name :: "decision_outcome \<Rightarrow> string" where
  "audit_decision_name d =
     (case d of DecisionExpired \<Rightarrow> ''expired'' | DecisionCancelled \<Rightarrow> ''cancelled''
      | RejectedByPolicy \<Rightarrow> ''rejected_by_policy'' | ProfileNotTrusted \<Rightarrow> ''profile_not_trusted''
      | PreconditionChanged \<Rightarrow> ''precondition_changed''
      | DecisionAuditUnavailable \<Rightarrow> ''audit_unavailable'')"

definition device_outcome_name :: "device_write_outcome \<Rightarrow> string" where
  "device_outcome_name w =
     (case w of Verified \<Rightarrow> ''verified'' | DeviceRejected \<Rightarrow> ''device_rejected''
      | ReadBackMismatch \<Rightarrow> ''read_back_mismatch'' | OutcomeUnknown \<Rightarrow> ''outcome_unknown''
      | TransportLost \<Rightarrow> ''transport_lost'' | AuditDegraded \<Rightarrow> ''audit_degraded'')"

definition function_name :: "modbus_function \<Rightarrow> string" where
  "function_name f =
     (case f of ReadHoldingRegisters \<Rightarrow> ''fc03'' | ReadInputRegisters \<Rightarrow> ''fc04''
      | WriteSingleRegister \<Rightarrow> ''fc06'' | WriteMultipleRegisters \<Rightarrow> ''fc16'')"

definition engineering_json :: "'d audit_codec \<Rightarrow> 'd engineering_value \<Rightarrow> json" where
  "engineering_json C v =
     (case v of
        Fixed d \<Rightarrow> json_object [(''kind'', JsonString ''fixed''), (''text'', JsonString (ac_decimal_text C d))]
      | Float32Bits w \<Rightarrow> json_object [(''kind'', JsonString ''float32''),
          (''bits'', JsonString (to_hex (be_bytes 4 (unat w)))), (''text'', JsonString (ac_f32_text C w))]
      | Float64Bits w \<Rightarrow> json_object [(''kind'', JsonString ''float64''),
          (''bits'', JsonString (to_hex (be_bytes 8 (unat w)))), (''text'', JsonString (ac_f64_text C w))]
      | EnumRaw i \<Rightarrow> json_object [(''kind'', JsonString ''enum''), (''raw'', json_signed i)]
      | BitfieldRaw w \<Rightarrow> json_object [(''kind'', JsonString ''bitfield''), (''raw'', json_unsigned (unat w))])"

definition read_back_json :: "read_back_evidence \<Rightarrow> json" where
  "read_back_json v =
     (case v of
        EvNotAttempted \<Rightarrow> json_object [(''kind'', JsonString ''not_attempted'')]
      | EvVerified attempts raw \<Rightarrow> json_object [(''kind'', JsonString ''verified''),
          (''attempts'', json_unsigned (unat attempts)), (''raw'', json_registers raw)]
      | EvMismatch attempts raw \<Rightarrow> json_object [(''kind'', JsonString ''mismatch''),
          (''attempts'', json_unsigned (unat attempts)), (''last_raw'', json_registers raw)]
      | EvUnavailable attempts reason \<Rightarrow> json_object [(''kind'', JsonString ''unavailable''),
          (''attempts'', json_unsigned (unat attempts)), (''reason'', JsonString reason)])"

definition decision_body :: "decision_audit_record \<Rightarrow> json" where
  "decision_body r = json_object
     [(''plan_id'', json_u128 (dar_plan_id r)), (''fingerprint'', JsonString (dar_fingerprint r)),
      (''profile_hash'', JsonString (dar_profile_hash r)), (''parameter_id'', JsonString (dar_parameter_id r)),
      (''context_hash'', case dar_context_hash r of None \<Rightarrow> JsonNull | Some h \<Rightarrow> JsonString h),
      (''decision'', JsonString (audit_decision_name (dar_decision r)))]"

definition preparation_body :: "'d audit_codec \<Rightarrow> u128 \<Rightarrow> 'd device_write_preparation \<Rightarrow> json" where
  "preparation_body C token_id p = json_object
     [(''token_id'', json_u128 token_id), (''plan_id'', json_u128 (dwp_plan_id p)),
      (''operation_id'', json_u128 (dwp_operation_id p)),
      (''request_id'', json_unsigned (unat (dwp_request_id p))), (''fingerprint'', JsonString (dwp_fingerprint p)),
      (''profile_hash'', JsonString (dwp_profile_hash p)), (''parameter_id'', JsonString (dwp_parameter_id p)),
      (''context_hash'', JsonString (dwp_context_hash p)), (''old_raw'', json_registers (dwp_old_raw p)),
      (''old_engineering'', engineering_json C (dwp_old_engineering p)),
      (''target_raw'', json_registers (dwp_target_raw p)),
      (''target_engineering'', engineering_json C (dwp_target_engineering p)),
      (''write_function'', JsonString (function_name (dwp_write_function p)))]"

definition finalize_body :: "u128 \<Rightarrow> device_write_outcome \<Rightarrow> read_back_evidence \<Rightarrow> json" where
  "finalize_body token_id outcome read_back = json_object
     [(''token_id'', json_u128 token_id), (''outcome'', JsonString (device_outcome_name outcome)),
      (''read_back'', read_back_json read_back)]"

definition operation_start_body :: "u128 \<Rightarrow> operation_audit_start \<Rightarrow> json" where
  "operation_start_body token_id s = json_object
     [(''token_id'', json_u128 token_id), (''operation_id'', json_u128 (oas_operation_id s)),
      (''backup_id'', json_u128 (oas_backup_id s)), (''plan_hash'', JsonString (oas_plan_hash s)),
      (''fingerprint'', JsonString (oas_fingerprint s)), (''profile_hash'', JsonString (oas_profile_hash s))]"

definition operation_finish_body :: "u128 \<Rightarrow> operation_audit_finish \<Rightarrow> json" where
  "operation_finish_body token_id f = json_object
     [(''token_id'', json_u128 token_id),
      (''outcome'', JsonString (case oaf_outcome f of OperationCompleted \<Rightarrow> ''completed'' | OperationAborted \<Rightarrow> ''aborted'')),
      (''final_step_index'', case oaf_final_step_index f of None \<Rightarrow> JsonNull | Some n \<Rightarrow> json_unsigned n),
      (''summary'', JsonString (oaf_summary f))]"

subsection \<open>Appending a record\<close>

definition journal_path :: "path \<Rightarrow> session_id \<Rightarrow> path" where
  "journal_path dir s = path_join dir (''audit_'' @ nat_text (unat s) @ ''.jsonl'')"

definition head_path :: "path \<Rightarrow> session_id \<Rightarrow> path" where
  "head_path dir s = path_join dir (''audit_'' @ nat_text (unat s) @ ''.head.json'')"

definition read_head :: "'d audit_codec \<Rightarrow> path \<Rightarrow> (audit_storage_error + audit_head option) disk_io" where
  "read_head C p = do {
     r \<leftarrow> fs_read p;
     State_Monad.return (case r of
         Inr bytes \<Rightarrow> map_err AuditSerialization (case ac_head_from_slice C bytes of Inl e \<Rightarrow> Err e | Inr h \<Rightarrow> Ok (Some h))
       | Inl IoNotFound \<Rightarrow> Ok None
       | Inl e \<Rightarrow> Err (audit_io p e))
   }"

definition write_head :: "'d audit_codec \<Rightarrow> path \<Rightarrow> audit_head \<Rightarrow> (audit_storage_error + unit) disk_io" where
  "write_head C p h =
     attempt (State_Monad.return (map_err AuditSerialization (ac_head_to_vec C h))) (\<lambda>bytes.
     with_error (\<lambda>e. AuditInconsistent (atomic_write_error_text e)) (atomic_write p bytes))"

definition hash_jcs :: "'d audit_codec \<Rightarrow> hash_material \<Rightarrow> audit_storage_error + string" where
  "hash_jcs C m = and_then (map_err AuditSerialization (ac_material_to_vec C m)) (\<lambda>canonical.
     Ok (to_hex (ac_sha256 C canonical)))"

text \<open>\<open>Path::metadata\<close> that fails counts as an empty journal, as \<open>is_ok_and\<close> does.\<close>

definition check_existing ::
  "path \<Rightarrow> audit_head option \<Rightarrow> (audit_storage_error + unit) disk_io" where
  "check_existing journal existing =
     (case existing of
        None \<Rightarrow> do {
          n \<leftarrow> fs_length journal;
          State_Monad.return (case n of
              Inr n \<Rightarrow> if n \<noteq> 0 then Err (AuditInconsistent ''journal exists without its durable head'') else Ok ()
            | Inl _ \<Rightarrow> Ok ())
        }
      | Some head \<Rightarrow> State_Monad.return
          (if \<not> ah_open head \<or> ah_finalized head
           then Err (AuditInconsistent ''cannot append to finalized audit session'')
           else if ah_schema_version head \<noteq> AUDIT_SCHEMA_VERSION
           then Err (AuditInconsistent ''unsupported existing audit schema'') else Ok ()))"

definition next_material ::
  "audit_head option \<Rightarrow> session_id \<Rightarrow> u128 \<Rightarrow> string \<Rightarrow> json \<Rightarrow> hash_material" where
  "next_material existing s at_time kind body =
     \<lparr>hm_schema_version = AUDIT_SCHEMA_VERSION,
      hm_sequence = (case existing of None \<Rightarrow> 1 | Some h \<Rightarrow> sat_inc (ah_record_count h)),
      hm_session_id = nat_text (unat s), hm_at = nat_text (unat at_time), hm_kind = kind,
      hm_previous_hash = map_option ah_head_hash existing, hm_body = body\<rparr>"

definition next_head :: "hash_material \<Rightarrow> string \<Rightarrow> audit_head" where
  "next_head m record_hash =
     \<lparr>ah_schema_version = AUDIT_SCHEMA_VERSION, ah_session_id = hm_session_id m, ah_record_count = hm_sequence m,
      ah_head_hash = record_hash, ah_last_time = hm_at m, ah_open = True, ah_finalized = False\<rparr>"

definition write_line :: "path \<Rightarrow> u8 list \<Rightarrow> (audit_storage_error + unit) disk_io" where
  "write_line journal bytes = with_error (audit_io journal)
     (attempt (fs_open_append journal PRIVATE_FILE_MODE) (\<lambda>_.
      attempt (fs_set_mode journal PRIVATE_FILE_MODE) (\<lambda>_.
      attempt (fs_write_all journal bytes) (\<lambda>_. fs_hidden))))"

definition append_record ::
  "'d audit_codec \<Rightarrow> path \<Rightarrow> session_id \<Rightarrow> u128 \<Rightarrow> string \<Rightarrow> json \<Rightarrow> (audit_storage_error + unit) disk_io" where
  "append_record C dir s at_time kind body =
     attempt (read_head C (head_path dir s)) (\<lambda>existing.
     attempt (check_existing (journal_path dir s) existing) (\<lambda>_.
     (let m = next_material existing s at_time kind body in
     attempt (State_Monad.return (hash_jcs C m)) (\<lambda>record_hash.
     attempt (State_Monad.return (map_err AuditSerialization
       (ac_envelope_to_vec C \<lparr>aen_material = m, aen_record_hash = record_hash\<rparr>))) (\<lambda>bytes.
     attempt (write_line (journal_path dir s) (bytes @ [10])) (\<lambda>_.
     write_head C (head_path dir s) (next_head m record_hash)))))))"

definition finalize_session :: "'d audit_codec \<Rightarrow> path \<Rightarrow> session_id \<Rightarrow> (audit_storage_error + unit) disk_io" where
  "finalize_session C dir s =
     attempt (read_head C (head_path dir s)) (\<lambda>found.
     (case found of
        None \<Rightarrow> State_Monad.return (Err (AuditInconsistent ''cannot finalize missing head''))
      | Some head \<Rightarrow>
          if ah_schema_version head \<noteq> AUDIT_SCHEMA_VERSION
          then State_Monad.return (Err (AuditInconsistent ''cannot finalize unsupported audit schema''))
          else write_head C (head_path dir s) (head\<lparr>ah_open := False, ah_finalized := True\<rparr>)))"

subsection \<open>Verification\<close>

fun split_lines :: "u8 list \<Rightarrow> u8 list list" where
  "split_lines [] = [[]]"
| "split_lines (b # bs) =
     (if b = 10 then [] # split_lines bs
      else case split_lines bs of [] \<Rightarrow> [[b]] | line # lines \<Rightarrow> (b # line) # lines)"

text \<open>The records of a journal, or what is wrong with the first bad one.\<close>

fun verify_records ::
  "'d audit_codec \<Rightarrow> string \<Rightarrow> nat \<Rightarrow> string option \<Rightarrow> u8 list list \<Rightarrow> audit_verification + audit_envelope list" where
  "verify_records C session_text index expected_previous [] = Ok []"
| "verify_records C session_text index expected_previous (line # lines) =
     (case ac_envelope_from_slice C line of
        Inl _ \<Rightarrow> Err RecordChanged
      | Inr r \<Rightarrow>
          let m = aen_material r in
          if hm_schema_version m \<noteq> AUDIT_SCHEMA_VERSION then Err UnsupportedSchema
          else if hm_sequence m \<noteq> sat_inc (of_nat index) then Err RecordMissing
          else if hm_session_id m \<noteq> session_text \<or> hm_previous_hash m \<noteq> expected_previous then Err RecordChanged
          else case hash_jcs C m of
              Inl _ \<Rightarrow> Err RecordChanged
            | Inr h \<Rightarrow>
                if h \<noteq> aen_record_hash r then Err RecordChanged
                else and_then (verify_records C session_text (index + 1) (Some (aen_record_hash r)) lines)
                       (\<lambda>rs. Ok (r # rs)))"

definition verify_against_head :: "audit_head \<Rightarrow> audit_envelope list \<Rightarrow> audit_verification" where
  "verify_against_head head records =
     (let count = of_nat (length records) in
      if count < ah_record_count head then RollbackDetected
      else if count > ah_record_count head then
        (if ah_record_count head = 0 \<or>
            (unat (ah_record_count head - 1) < length records \<and>
             aen_record_hash (records ! unat (ah_record_count head - 1)) = ah_head_hash head)
         then Interrupted else HeadMismatch)
      else if records = [] \<or> aen_record_hash (last records) \<noteq> ah_head_hash head then HeadMismatch
      else if ah_finalized head \<and> \<not> ah_open head then ValidFinalized
      else if ah_open head \<and> \<not> ah_finalized head then ValidOpen
      else HeadMismatch)"

definition verify_journal :: "'d audit_codec \<Rightarrow> audit_head \<Rightarrow> u8 list \<Rightarrow> audit_verification" where
  "verify_journal C head bytes =
     (if bytes \<noteq> [] \<and> last bytes \<noteq> 10 then TailTruncated
      else case verify_records C (ah_session_id head) 0 None (filter (\<lambda>l. l \<noteq> []) (split_lines bytes)) of
          Inl bad \<Rightarrow> bad
        | Inr records \<Rightarrow> verify_against_head head records)"

definition verify_audit_session :: "'d audit_codec \<Rightarrow> path \<Rightarrow> session_id \<Rightarrow> audit_verification disk_io" where
  "verify_audit_session C dir s = do {
     found \<leftarrow> read_head C (head_path dir s);
     (case found of
        Inr (Some head) \<Rightarrow>
          if ah_schema_version head \<noteq> AUDIT_SCHEMA_VERSION then State_Monad.return UnsupportedSchema
          else if ah_session_id head \<noteq> nat_text (unat s) then State_Monad.return HeadMismatch
          else do {
            r \<leftarrow> fs_read (journal_path dir s);
            State_Monad.return (case r of
                Inl _ \<Rightarrow> if ah_record_count head = 0 then HeadMismatch else RecordMissing
              | Inr bytes \<Rightarrow> verify_journal C head bytes)
          }
      | _ \<Rightarrow> State_Monad.return HeadMissing)
   }"

end
