(* ===== verification/Audit_Port.thy ===== *)
theory Audit_Port
  imports Audit_Journal Ports
begin

text \<open>
  \<open>FilesystemAuditPort\<close> of \<open>lantern-storage/src/audit.rs\<close>: the audit port of the application on
  the journal, with the tokens that are out. The world holds the disk, the token state and the answers
  of the time source.
\<close>

record prepared_binding =
  pbi_plan_id :: u128
  pbi_request_id :: u64
  pbi_session_id :: u128
  pbi_context_hash :: string

record operation_binding =
  obi_operation_id :: u128
  obi_backup_id :: u128
  obi_plan_hash :: string
  obi_session_id :: u128
  obi_fingerprint :: string
  obi_profile_hash :: string

record audit_state =
  aus_next_token_id :: u128
  aus_prepared :: "(u128, prepared_binding) btree_map"
  aus_operations :: "(u128, operation_binding) btree_map"

record audit_world =
  aw_root :: path
  aw_disk :: disk
  aw_state :: audit_state
  aw_now_nanos :: "nat \<Rightarrow> u128"
  aw_clock_reads :: nat

type_synonym 'r audit_io_monad = "(audit_world, 'r) state"

definition on_disk :: "'r disk_io \<Rightarrow> 'r audit_io_monad" where
  "on_disk m = State (\<lambda>w. case run_state m (aw_disk w) of (r, d) \<Rightarrow> (r, w\<lparr>aw_disk := d\<rparr>))"

lemma wp_on_disk [wp_simps]: "wp (on_disk m) Q w \<longleftrightarrow> wp m (\<lambda>r d. Q r (w\<lparr>aw_disk := d\<rparr>)) (aw_disk w)"
  by (simp add: on_disk_def wp_def split: prod.splits)

definition audit_state_new :: audit_state where
  "audit_state_new = \<lparr>aus_next_token_id = 1, aus_prepared = [], aus_operations = []\<rparr>"

definition filesystem_audit_new :: "path \<Rightarrow> (nat \<Rightarrow> u128) \<Rightarrow> (audit_storage_error + (disk \<Rightarrow> audit_world)) disk_io" where
  "filesystem_audit_new dir clock =
     attempt (with_error (audit_io dir) (fs_create_directories dir)) (\<lambda>_.
     attempt (with_error (audit_io dir) (fs_set_directory_mode dir PRIVATE_DIR_MODE)) (\<lambda>_.
     State_Monad.return (Ok (\<lambda>d. \<lparr>aw_root = dir, aw_disk = d, aw_state = audit_state_new, aw_now_nanos = clock,
       aw_clock_reads = 0\<rparr>))))"

definition allocate_token_id :: "u128 audit_io_monad" where
  "allocate_token_id = State (\<lambda>w. (aus_next_token_id (aw_state w),
     w\<lparr>aw_state := (aw_state w)\<lparr>aus_next_token_id := sat_inc (aus_next_token_id (aw_state w))\<rparr>\<rparr>))"

definition audit_now_nanos :: "u128 audit_io_monad" where
  "audit_now_nanos = State (\<lambda>w. (aw_now_nanos w (aw_clock_reads w), w\<lparr>aw_clock_reads := aw_clock_reads w + 1\<rparr>))"

definition audit_append ::
  "'d audit_codec \<Rightarrow> session_id \<Rightarrow> u128 \<Rightarrow> string \<Rightarrow> json \<Rightarrow> (audit_storage_error + unit) audit_io_monad" where
  "audit_append C s at_time kind body = do {
     w \<leftarrow> State_Monad.get;
     on_disk (append_record C (aw_root w) s at_time kind body)
   }"

definition audit_is_available :: "bool audit_io_monad" where
  "audit_is_available = do {
     w \<leftarrow> State_Monad.get;
     r \<leftarrow> on_disk (fs_is_directory (aw_root w));
     State_Monad.return (case r of Inl _ \<Rightarrow> False | Inr b \<Rightarrow> b)
   }"

definition audit_record_decision ::
  "'d audit_codec \<Rightarrow> decision_audit_record \<Rightarrow> (audit_error + unit) audit_io_monad" where
  "audit_record_decision C r = with_error audit_error_of
     (if dar_decision r = DecisionAuditUnavailable then State_Monad.return (Err RecursiveAuditUnavailable)
      else audit_append C (dar_session_id r) (dar_at r) ''decision'' (decision_body r))"

definition insert_prepared :: "u128 \<Rightarrow> prepared_binding \<Rightarrow> audit_world \<Rightarrow> audit_world" where
  "insert_prepared i b w = w\<lparr>aw_state := (aw_state w)\<lparr>aus_prepared := bt_insert i b (aus_prepared (aw_state w))\<rparr>\<rparr>"

definition prepared_binding_of :: "'d device_write_preparation \<Rightarrow> prepared_binding" where
  "prepared_binding_of p =
     \<lparr>pbi_plan_id = dwp_plan_id p, pbi_request_id = dwp_request_id p, pbi_session_id = dwp_session_id p,
      pbi_context_hash = dwp_context_hash p\<rparr>"

definition audit_prepare_device_write ::
  "'d audit_codec \<Rightarrow> 'd device_write_preparation \<Rightarrow> (audit_error + prepared_token) audit_io_monad" where
  "audit_prepare_device_write C p = do {
     token_id \<leftarrow> allocate_token_id;
     with_error audit_error_of
       (attempt (audit_append C (dwp_session_id p) 0 ''device_write_prepared'' (preparation_body C token_id p)) (\<lambda>_.
        State (\<lambda>w. (Ok (for_preparation token_id p), insert_prepared token_id (prepared_binding_of p) w))))
   }"

definition take_prepared :: "u128 \<Rightarrow> prepared_binding option audit_io_monad" where
  "take_prepared i = State (\<lambda>w. (bt_get (aus_prepared (aw_state w)) i,
     w\<lparr>aw_state := (aw_state w)\<lparr>aus_prepared := bt_remove i (aus_prepared (aw_state w))\<rparr>\<rparr>))"

definition audit_finalize_device_write ::
  "'d audit_codec \<Rightarrow> prepared_token \<Rightarrow> device_write_outcome \<Rightarrow> read_back_evidence
     \<Rightarrow> (audit_error + unit) audit_io_monad" where
  "audit_finalize_device_write C token outcome read_back = do {
     binding \<leftarrow> take_prepared (pt_token_id token);
     with_error audit_error_of (case binding of
         Some b \<Rightarrow>
           if pbi_plan_id b = pt_plan_id token \<and> pbi_request_id b = pt_request_id token \<and>
              pbi_context_hash b = pt_context_hash token
           then do {
             now \<leftarrow> audit_now_nanos;
             audit_append C (pbi_session_id b) now ''device_write_finalized''
               (finalize_body (pt_token_id token) outcome read_back)
           }
           else State_Monad.return (Err InvalidAuditToken)
       | None \<Rightarrow> State_Monad.return (Err InvalidAuditToken))
   }"

definition operation_binding_of :: "operation_audit_start \<Rightarrow> operation_binding" where
  "operation_binding_of s =
     \<lparr>obi_operation_id = oas_operation_id s, obi_backup_id = oas_backup_id s, obi_plan_hash = oas_plan_hash s,
      obi_session_id = oas_session_id s, obi_fingerprint = oas_fingerprint s, obi_profile_hash = oas_profile_hash s\<rparr>"

definition insert_operation :: "u128 \<Rightarrow> operation_binding \<Rightarrow> audit_world \<Rightarrow> audit_world" where
  "insert_operation i b w =
     w\<lparr>aw_state := (aw_state w)\<lparr>aus_operations := bt_insert i b (aus_operations (aw_state w))\<rparr>\<rparr>"

definition audit_begin_operation ::
  "'d audit_codec \<Rightarrow> operation_audit_start \<Rightarrow> (audit_error + operation_token) audit_io_monad" where
  "audit_begin_operation C s = do {
     token_id \<leftarrow> allocate_token_id;
     with_error audit_error_of
       (attempt (audit_append C (oas_session_id s) (oas_at s) ''operation_started'' (operation_start_body token_id s)) (\<lambda>_.
        State (\<lambda>w. (Ok (for_start token_id s), insert_operation token_id (operation_binding_of s) w))))
   }"

definition take_operation :: "u128 \<Rightarrow> operation_binding option audit_io_monad" where
  "take_operation i = State (\<lambda>w. (bt_get (aus_operations (aw_state w)) i,
     w\<lparr>aw_state := (aw_state w)\<lparr>aus_operations := bt_remove i (aus_operations (aw_state w))\<rparr>\<rparr>))"

definition audit_finish_operation ::
  "'d audit_codec \<Rightarrow> operation_token \<Rightarrow> operation_audit_finish \<Rightarrow> (audit_error + unit) audit_io_monad" where
  "audit_finish_operation C token finish = do {
     binding \<leftarrow> take_operation (ot_token_id token);
     with_error audit_error_of (case binding of
         Some b \<Rightarrow>
           if obi_operation_id b = ot_operation_id token \<and> obi_backup_id b = ot_backup_id token \<and>
              obi_plan_hash b = ot_plan_hash token \<and> obi_session_id b = ot_session_id token \<and>
              obi_fingerprint b = ot_fingerprint token \<and> obi_profile_hash b = ot_profile_hash token
           then audit_append C (ot_session_id token) (oaf_at finish) ''operation_finished''
                  (operation_finish_body (ot_token_id token) finish)
           else State_Monad.return (Err InvalidAuditToken)
       | None \<Rightarrow> State_Monad.return (Err InvalidAuditToken))
   }"

text \<open>The audit operations as the ports of a handler whose world is the audit world and another one.\<close>

definition in_world :: "'r audit_io_monad \<Rightarrow> audit_world \<times> 'w \<Rightarrow> 'r \<times> (audit_world \<times> 'w)" where
  "in_world m w = (case run_state m (fst w) of (r, a) \<Rightarrow> (r, a, snd w))"

definition with_filesystem_audit ::
  "'d audit_codec \<Rightarrow> (audit_world \<times> 'w, 'd) ports \<Rightarrow> (audit_world \<times> 'w, 'd) ports" where
  "with_filesystem_audit C P = P\<lparr>
     po_is_available := in_world audit_is_available,
     po_record_decision := \<lambda>r. in_world (audit_record_decision C r),
     po_prepare_device_write := \<lambda>p. in_world (audit_prepare_device_write C p),
     po_finalize_device_write := \<lambda>t outcome read_back. in_world (audit_finalize_device_write C t outcome read_back),
     po_begin_operation := \<lambda>s. in_world (audit_begin_operation C s),
     po_finish_operation := \<lambda>t f. in_world (audit_finish_operation C t f)\<rparr>"

end
