(* ===== verification/Audit_Facts.thy ===== *)
theory Audit_Facts
  imports Audit_Port
begin

text \<open>
  Lemmas about the durable audit: the effect of every file operation under faults, chains of records,
  and the verdict of verification on a journal that continues a chain.
\<close>

subsection \<open>Journals on a disk\<close>

definition bytes_at :: "disk \<Rightarrow> path \<Rightarrow> u8 list" where
  "bytes_at d p = (case dk_files d p of None \<Rightarrow> [] | Some f \<Rightarrow> fl_bytes f)"

definition head_at :: "'d audit_codec \<Rightarrow> disk \<Rightarrow> path \<Rightarrow> audit_storage_error + audit_head option" where
  "head_at C d p =
     (case dk_files d p of
        None \<Rightarrow> Ok None
      | Some f \<Rightarrow> (case ac_head_from_slice C (fl_bytes f) of Inl e \<Rightarrow> Err (AuditSerialization e) | Inr h \<Rightarrow> Ok (Some h)))"

definition record_text :: "'d audit_codec \<Rightarrow> audit_envelope \<Rightarrow> u8 list" where
  "record_text C r = (case ac_envelope_to_vec C r of Inl _ \<Rightarrow> [] | Inr bs \<Rightarrow> bs)"

definition journal_bytes :: "'d audit_codec \<Rightarrow> audit_envelope list \<Rightarrow> u8 list" where
  "journal_bytes C rs = concat (map (\<lambda>r. record_text C r @ [10]) rs)"

text \<open>The codec reads back what it has written; a record is one line.\<close>

definition reads_back_record :: "'d audit_codec \<Rightarrow> audit_envelope \<Rightarrow> bool" where
  "reads_back_record C r \<longleftrightarrow>
     ac_envelope_to_vec C r = Ok (record_text C r) \<and> ac_envelope_from_slice C (record_text C r) = Ok r \<and>
     record_text C r \<noteq> [] \<and> 10 \<notin> set (record_text C r)"

definition reads_back_head :: "'d audit_codec \<Rightarrow> audit_head \<Rightarrow> bool" where
  "reads_back_head C h \<longleftrightarrow> (\<exists>bs. ac_head_to_vec C h = Ok bs \<and> ac_head_from_slice C bs = Ok h)"

fun chained :: "'d audit_codec \<Rightarrow> string \<Rightarrow> nat \<Rightarrow> string option \<Rightarrow> audit_envelope list \<Rightarrow> bool" where
  "chained C t i prev [] = True"
| "chained C t i prev (r # rs) =
     (hm_schema_version (aen_material r) = AUDIT_SCHEMA_VERSION \<and> hm_sequence (aen_material r) = sat_inc (of_nat i) \<and>
      hm_session_id (aen_material r) = t \<and> hm_previous_hash (aen_material r) = prev \<and>
      hash_jcs C (aen_material r) = Ok (aen_record_hash r) \<and> chained C t (i + 1) (Some (aen_record_hash r)) rs)"

definition head_of :: "audit_envelope list \<Rightarrow> audit_head option" where
  "head_of rs = (if rs = [] then None else Some (next_head (aen_material (last rs)) (aen_record_hash (last rs))))"

definition holds_journal :: "'d audit_codec \<Rightarrow> path \<Rightarrow> session_id \<Rightarrow> disk \<Rightarrow> audit_envelope list \<Rightarrow> bool" where
  "holds_journal C dir s d rs \<longleftrightarrow>
     chained C (nat_text (unat s)) 0 None rs \<and> list_all (reads_back_record C) rs \<and> length rs < 2 ^ 64 \<and>
     bytes_at d (journal_path dir s) = journal_bytes C rs \<and> head_at C d (head_path dir s) = Ok (head_of rs)"

definition next_record ::
  "'d audit_codec \<Rightarrow> session_id \<Rightarrow> audit_envelope list \<Rightarrow> u128 \<Rightarrow> string \<Rightarrow> json \<Rightarrow> audit_storage_error + audit_envelope" where
  "next_record C s rs at_time kind body =
     (let m = next_material (head_of rs) s at_time kind body
      in and_then (hash_jcs C m) (\<lambda>h. Ok \<lparr>aen_material = m, aen_record_hash = h\<rparr>))"

text \<open>What \<open>verify_audit_session\<close> says when it can read the files.\<close>

definition verdict :: "'d audit_codec \<Rightarrow> path \<Rightarrow> session_id \<Rightarrow> disk \<Rightarrow> audit_verification" where
  "verdict C dir s d = fst (run_state (verify_audit_session C dir s) (d\<lparr>dk_faults := []\<rparr>))"

lemma verdict_eq:
  "verdict C dir s d =
     (case head_at C d (head_path dir s) of
        Inr (Some h) \<Rightarrow>
          if ah_schema_version h \<noteq> AUDIT_SCHEMA_VERSION then UnsupportedSchema
          else if ah_session_id h \<noteq> nat_text (unat s) then HeadMismatch
          else (case dk_files d (journal_path dir s) of
              None \<Rightarrow> if ah_record_count h = 0 then HeadMismatch else RecordMissing
            | Some f \<Rightarrow> verify_journal C h (fl_bytes f))
      | _ \<Rightarrow> HeadMissing)"
  unfolding verdict_def verify_audit_session_def read_head_def fs_read_def head_at_def
  by (simp add: faultless split: option.splits sum.splits)

subsection \<open>Chains\<close>

lemma sat_inc_of_nat:
  assumes "i + 1 < 2 ^ 64" shows "sat_inc (of_nat i :: u64) = of_nat (i + 1)"
proof -
  have small: "unat (of_nat k :: u64) = k" if "k < 2 ^ 64" for k
    using that by (simp add: unat_of_nat take_bit_nat_eq_self)
  from assms small [of i] have "unat (sat_inc (of_nat i :: u64)) = i + 1" by (simp add: unat_sat_add)
  with small [OF assms] show ?thesis by (simp only: word_unat_eq_iff)
qed

lemma chained_append:
  "chained C t i prev (xs @ ys) \<longleftrightarrow>
     chained C t i prev xs \<and> chained C t (i + length xs) (if xs = [] then prev else Some (aen_record_hash (last xs))) ys"
  by (induction xs arbitrary: i prev) auto

lemma chained_last_sequence:
  assumes "chained C t 0 None rs" and "rs \<noteq> []" and "length rs < 2 ^ 64"
  shows "hm_sequence (aen_material (last rs)) = of_nat (length rs)"
    and "hm_session_id (aen_material (last rs)) = t"
proof -
  from assms(2) obtain xs r where rs: "rs = xs @ [r]" by (metis append_butlast_last_id)
  with assms(1) have "hm_sequence (aen_material r) = sat_inc (of_nat (length xs))" "hm_session_id (aen_material r) = t"
    by (simp_all add: chained_append)
  with rs sat_inc_of_nat [of "length xs"] assms(3)
  show "hm_sequence (aen_material (last rs)) = of_nat (length rs)" "hm_session_id (aen_material (last rs)) = t"
    by (simp_all add: add.commute)
qed

lemma chained_next:
  assumes "chained C (nat_text (unat s)) 0 None rs" and "length rs + 1 < 2 ^ 64"
    and r: "next_record C s rs at_time kind body = Ok r"
  shows "chained C (nat_text (unat s)) 0 None (rs @ [r])"
proof -
  from r obtain h where r: "r = \<lparr>aen_material = next_material (head_of rs) s at_time kind body, aen_record_hash = h\<rparr>"
    and h: "hash_jcs C (next_material (head_of rs) s at_time kind body) = Ok h"
    by (auto simp: next_record_def Let_def and_then_Ok_iff)
  show ?thesis
  proof (cases "rs = []")
    case True
    with r h sat_inc_of_nat [of 0] show ?thesis by (simp add: head_of_def next_material_def)
  next
    case False
    from chained_last_sequence [OF assms(1) False] assms(2) False assms(1) r h show ?thesis
      by (simp add: chained_append head_of_def next_material_def next_head_def)
  qed
qed

lemma split_lines_newline: "10 \<notin> set l \<Longrightarrow> split_lines (l @ 10 # rest) = l # split_lines rest"
  by (induction l) auto

lemma split_lines_plain: "10 \<notin> set l \<Longrightarrow> split_lines l = [l]"
  by (induction l) auto

definition nonempty_lines :: "u8 list \<Rightarrow> u8 list list" where
  "nonempty_lines bytes = filter (\<lambda>l. l \<noteq> []) (split_lines bytes)"

lemma nonempty_lines_journal:
  "list_all (reads_back_record C) rs \<Longrightarrow>
     nonempty_lines (journal_bytes C rs @ rest) = map (record_text C) rs @ nonempty_lines rest"
  by (induction rs) (auto simp: nonempty_lines_def journal_bytes_def reads_back_record_def split_lines_newline)

lemma verify_records_chained:
  "chained C t i prev rs \<Longrightarrow> list_all (reads_back_record C) rs \<Longrightarrow>
     verify_records C t i prev (map (record_text C) rs @ lines) =
       and_then (verify_records C t (i + length rs) (if rs = [] then prev else Some (aen_record_hash (last rs))) lines)
         (\<lambda>qs. Ok (rs @ qs))"
proof (induction rs arbitrary: i prev)
  case Nil
  show ?case by (cases "verify_records C t i prev lines") simp_all
next
  case (Cons r rs)
  then have "verify_records C t (i + 1) (Some (aen_record_hash r)) (map (record_text C) rs @ lines) =
      and_then (verify_records C t (i + 1 + length rs) (if rs = [] then Some (aen_record_hash r) else Some (aen_record_hash (last rs))) lines)
        (\<lambda>qs. Ok (rs @ qs))"
    by simp
  with Cons.prems show ?case
    by (cases "rs = []"; cases "verify_records C t (i + 1 + length rs)
        (if rs = [] then Some (aen_record_hash r) else Some (aen_record_hash (last rs))) lines")
      (auto simp: reads_back_record_def Let_def)
qed

subsection \<open>What an append can leave behind\<close>

lemma does_read_head:
  "does (read_head C p) (\<lambda>d r e. quiet d e \<and> (r = head_at C d p \<or> (\<exists>x. r = Inl x)))"
  unfolding does_def read_head_def wp_bind wp_return_fun
  by (intro allI wp_mono [OF does_fs_read [unfolded does_def, rule_format]])
    (auto simp: head_at_def split: option.splits sum.splits io_error.splits)

lemma does_check_existing:
  "does (check_existing journal existing) (\<lambda>d r e. quiet d e)"
  unfolding does_def check_existing_def
  by (auto simp: wp_bind wp_return_fun split: option.splits
    intro!: wp_mono [OF does_fs_length [unfolded does_def, rule_format]])

definition touches :: "path \<Rightarrow> disk \<Rightarrow> disk \<Rightarrow> bool" where
  "touches p d e \<longleftrightarrow> (\<forall>q. q \<noteq> p \<longrightarrow> dk_files e q = dk_files d q)"

definition mode_at :: "disk \<Rightarrow> path \<Rightarrow> u32 option" where
  "mode_at d p = map_option fl_mode (dk_files d p)"

lemma does_fs_open_append:
  "does (fs_open_append p mode) (\<lambda>d r e. touches p d e \<and> bytes_at e p = bytes_at d p)"
  unfolding fs_open_append_def by (rule does_io_step) (auto simp: touches_def put_file_def bytes_at_def)

lemma does_fs_set_mode:
  "does (fs_set_mode p mode) (\<lambda>d r e. touches p d e \<and> bytes_at e p = bytes_at d p \<and>
     (r = Ok () \<longrightarrow> mode_at e p = Some mode))"
  unfolding fs_set_mode_def
  by (rule does_io_step) (auto simp: touches_def put_file_def bytes_at_def mode_at_def split: option.splits)

lemma bytes_at_append_bytes:
  "touches p d (append_bytes p bs d)" "mode_at (append_bytes p bs d) p = mode_at d p"
  "mode_at d p \<noteq> None \<Longrightarrow> bytes_at (append_bytes p bs d) p = bytes_at d p @ bs"
  "mode_at d p = None \<Longrightarrow> append_bytes p bs d = d"
  by (auto simp: append_bytes_def touches_def put_file_def bytes_at_def mode_at_def split: option.splits)

lemma faults_irrelevant [simp]:
  "touches p (d\<lparr>dk_faults := xs\<rparr>) e = touches p d e" "mode_at (d\<lparr>dk_faults := xs\<rparr>) q = mode_at d q"
  "bytes_at (d\<lparr>dk_faults := xs\<rparr>) q = bytes_at d q" "touches p d d"
  by (simp_all add: touches_def mode_at_def bytes_at_def)

lemma does_fs_write_all:
  "does (fs_write_all p bs) (\<lambda>d r e. touches p d e \<and> mode_at e p = mode_at d p \<and>
     (mode_at d p \<noteq> None \<longrightarrow> (\<exists>n. bytes_at e p = bytes_at d p @ take n bs \<and> (r = Ok () \<longrightarrow> length bs \<le> n))))"
  unfolding fs_write_all_def
proof (rule does_io_step, goal_cases)
  case (1 d xs)
  from bytes_at_append_bytes [where p = p and d = "d\<lparr>dk_faults := xs\<rparr>" and bs = bs] show ?case
    by (auto intro: exI [where x = "length bs"])
next
  case (2 d x xs)
  show ?case
  proof (cases x)
    case (Torn n m)
    with bytes_at_append_bytes [where p = p and d = "d\<lparr>dk_faults := xs\<rparr>" and bs = "take n bs"] show ?thesis
      by (auto simp: fault_error_def)
  qed (auto simp: touches_def mode_at_def bytes_at_def intro: exI [where x = 0])
qed

lemma quiet_same:
  "quiet t e \<Longrightarrow> bytes_at e p = bytes_at t p" "quiet t e \<Longrightarrow> mode_at e p = mode_at t p"
  "quiet t e \<Longrightarrow> touches p d t \<Longrightarrow> touches p d e"
  by (simp_all add: quiet_def bytes_at_def mode_at_def touches_def)

lemma touches_trans: "touches p d t \<Longrightarrow> touches p t e \<Longrightarrow> touches p d e"
  by (simp add: touches_def)

text \<open>A line is written from its start: a part of it, or all of it privately when the write succeeds.\<close>

definition grows :: "path \<Rightarrow> u8 list \<Rightarrow> disk \<Rightarrow> io_error + unit \<Rightarrow> disk \<Rightarrow> bool" where
  "grows p bs d r e \<longleftrightarrow> touches p d e \<and>
     (\<exists>n. bytes_at e p = bytes_at d p @ take n bs \<and> (r = Ok () \<longrightarrow> length bs \<le> n \<and> mode_at e p = Some PRIVATE_FILE_MODE))"

lemma growsI_none: "touches p d e \<Longrightarrow> bytes_at e p = bytes_at d p \<Longrightarrow> grows p bs d (Inl x) e"
  by (auto simp: grows_def intro: exI [where x = 0])

lemma grows_after: "touches p d t \<Longrightarrow> bytes_at t p = bytes_at d p \<Longrightarrow> grows p bs t r e \<Longrightarrow> grows p bs d r e"
  by (auto simp: grows_def intro: touches_trans)

lemma does_private_write:
  "does (attempt (fs_write_all p bs) (\<lambda>_. fs_hidden)) (\<lambda>d r e. mode_at d p = Some PRIVATE_FILE_MODE \<longrightarrow> grows p bs d r e)"
proof (rule does_mono [OF does_attempt [OF does_fs_write_all does_fs_hidden]], elim disjE exE conjE, goal_cases)
  case (1 d r e x)
  then show ?case by (auto simp: grows_def)
next
  case (2 d r e x t)
  then show ?case using quiet_same [of t e] by (auto simp: grows_def)
qed

lemma does_write_line:
  "does (write_line p bs) (\<lambda>d r e. \<exists>q. r = map_err (audit_io p) q \<and> grows p bs d q e)"
proof -
  have "does (attempt (fs_set_mode p PRIVATE_FILE_MODE) (\<lambda>_. attempt (fs_write_all p bs) (\<lambda>_. fs_hidden))) (grows p bs)"
  proof (rule does_mono [OF does_attempt [OF does_fs_set_mode does_private_write]], elim disjE exE conjE, goal_cases)
    case (1 d r e x)
    then show ?case by (simp add: growsI_none)
  next
    case (2 d r e x t)
    then show ?case by (auto intro: grows_after)
  qed
  note this [THEN does_attempt [OF does_fs_open_append [where p = p and mode = PRIVATE_FILE_MODE]]]
  then have "does (attempt (fs_open_append p PRIVATE_FILE_MODE)
      (\<lambda>_. attempt (fs_set_mode p PRIVATE_FILE_MODE) (\<lambda>_. attempt (fs_write_all p bs) (\<lambda>_. fs_hidden)))) (grows p bs)"
    by (rule does_mono) (auto intro: grows_after growsI_none)
  then show ?thesis unfolding write_line_def by (rule does_with_error)
qed

lemma journal_not_head: "journal_path dir s \<noteq> head_path dir t"
proof
  assume "journal_path dir s = head_path dir t"
  then have "last (journal_path dir s) = last (head_path dir t)" by simp
  then show False by (simp add: journal_path_def head_path_def path_join_def split: if_splits)
qed

lemma does_write_head:
  "does (write_head C p h) (\<lambda>d r e. dk_files e = dk_files d \<and> r \<noteq> Ok () \<or>
     (\<exists>bs. ac_head_to_vec C h = Ok bs \<and> dk_files e = (dk_files d)(p \<mapsto> \<lparr>fl_bytes = bs, fl_mode = PRIVATE_FILE_MODE\<rparr>)))"
  unfolding write_head_def
  by (rule does_mono [OF does_attempt [OF does_return does_with_error [OF does_atomic_write]]]) auto

text \<open>What an append may have done when it stops: nothing, part of a line, or a line and perhaps the head.\<close>

definition append_effect ::
  "'d audit_codec \<Rightarrow> path \<Rightarrow> path \<Rightarrow> hash_material \<Rightarrow> disk \<Rightarrow> audit_storage_error + unit \<Rightarrow> disk \<Rightarrow> bool" where
  "append_effect C J H m d r e \<longleftrightarrow>
     (\<forall>q. q \<noteq> J \<and> q \<noteq> H \<longrightarrow> dk_files e q = dk_files d q) \<and>
     (bytes_at e J = bytes_at d J \<and> dk_files e H = dk_files d H \<and> r \<noteq> Ok () \<or>
      (\<exists>h bs n. hash_jcs C m = Ok h \<and> ac_envelope_to_vec C \<lparr>aen_material = m, aen_record_hash = h\<rparr> = Ok bs \<and>
         bytes_at e J = bytes_at d J @ take n (bs @ [10]) \<and>
         (r \<noteq> Ok () \<and> dk_files e H = dk_files d H \<or>
          length bs < n \<and> mode_at e J = Some PRIVATE_FILE_MODE \<and> (\<exists>hb. ac_head_to_vec C (next_head m h) = Ok hb \<and>
            dk_files e H = Some \<lparr>fl_bytes = hb, fl_mode = PRIVATE_FILE_MODE\<rparr>))))"

lemma append_effect_quiet: "quiet d t \<Longrightarrow> append_effect C J H m t r e \<Longrightarrow> append_effect C J H m d r e"
  by (simp add: append_effect_def quiet_def bytes_at_def)

lemma append_effect_none: "quiet d e \<Longrightarrow> append_effect C J H m d (Inl x) e"
  by (simp add: append_effect_def quiet_def bytes_at_def)

lemma does_write_record:
  assumes "J \<noteq> H" and "hash_jcs C m = Ok h" and "ac_envelope_to_vec C \<lparr>aen_material = m, aen_record_hash = h\<rparr> = Ok bs"
  shows "does (attempt (write_line J (bs @ [10])) (\<lambda>_. write_head C H (next_head m h))) (append_effect C J H m)"
proof (rule does_mono [OF does_attempt [OF does_write_line does_write_head]], elim disjE exE conjE, goal_cases)
  case (1 d r e x q)
  then obtain n where "bytes_at e J = bytes_at d J @ take n (bs @ [10])" by (auto simp: grows_def)
  with 1 assms show ?case by (auto simp: append_effect_def grows_def touches_def)
next
  case (2 d r e x t q)
  then have n: "\<exists>n. bytes_at e J = bytes_at d J @ take n (bs @ [10])"
    by (auto simp: grows_def bytes_at_def)
  from 2 assms have "dk_files e H = dk_files d H" "\<forall>q. q \<noteq> J \<and> q \<noteq> H \<longrightarrow> dk_files e q = dk_files d q"
    by (simp_all add: grows_def touches_def)
  with n 2 assms show ?case by (auto simp: append_effect_def)
next
  case (3 d r e x t q hb)
  from 3(1) have q: "q = Ok ()" by simp
  with 3(2) obtain n where n: "touches J d t" "bytes_at t J = bytes_at d J @ take n (bs @ [10])"
    "length (bs @ [10]) \<le> n" "mode_at t J = Some PRIVATE_FILE_MODE"
    by (auto simp: grows_def)
  from 3(4) assms(1) n have "bytes_at e J = bytes_at d J @ take n (bs @ [10])" "mode_at e J = Some PRIVATE_FILE_MODE"
    by (simp_all add: bytes_at_def mode_at_def)
  moreover from 3(4) n(1) have "\<forall>q. q \<noteq> J \<and> q \<noteq> H \<longrightarrow> dk_files e q = dk_files d q"
    by (simp add: touches_def)
  moreover from 3(4) have "dk_files e H = Some \<lparr>fl_bytes = hb, fl_mode = PRIVATE_FILE_MODE\<rparr>" by simp
  moreover from n(3) have "length bs < n" by simp
  ultimately show ?case using assms 3(3) unfolding append_effect_def by blast
qed

lemma does_append_record:
  "does (append_record C dir s at_time kind body) (\<lambda>d r e.
     quiet d e \<and> r \<noteq> Ok () \<or>
     (\<exists>existing. head_at C d (head_path dir s) = Ok existing \<and>
        append_effect C (journal_path dir s) (head_path dir s) (next_material existing s at_time kind body) d r e))"
proof -
  let ?J = "journal_path dir s" and ?H = "head_path dir s"
  have steps: "does (let m = next_material existing s at_time kind body in
      attempt (State_Monad.return (hash_jcs C m)) (\<lambda>h.
      attempt (State_Monad.return (map_err AuditSerialization (ac_envelope_to_vec C \<lparr>aen_material = m, aen_record_hash = h\<rparr>))) (\<lambda>bytes.
      attempt (write_line ?J (bytes @ [10])) (\<lambda>_. write_head C ?H (next_head m h)))))
     (append_effect C ?J ?H (next_material existing s at_time kind body))" for existing
  proof -
    let ?m = "next_material existing s at_time kind body"
    show ?thesis
    proof (cases "hash_jcs C ?m")
      case (Inl e)
      then show ?thesis by (auto simp: does_def attempt_def wp_bind wp_return_fun Let_def append_effect_none)
    next
      case (Inr h)
      show ?thesis
      proof (cases "ac_envelope_to_vec C \<lparr>aen_material = ?m, aen_record_hash = h\<rparr>")
        case (Inl e)
        with Inr show ?thesis by (auto simp: does_def attempt_def wp_bind wp_return_fun Let_def append_effect_none)
      next
        case bs: (Inr bs)
        from does_write_record [OF journal_not_head Inr bs] Inr bs show ?thesis
          by (simp add: does_def attempt_def wp_bind wp_return_fun Let_def)
      qed
    qed
  qed
  show ?thesis
    unfolding append_record_def
  proof (rule does_mono [OF does_attempt [OF does_read_head does_attempt [OF does_check_existing steps]]], goal_cases)
    case (1 d r e)
    then consider "quiet d e" "r \<noteq> Ok ()"
      | x u where "append_effect C ?J ?H (next_material x s at_time kind body) u r e" "Ok x = head_at C d ?H" "quiet d u"
      by (elim disjE exE conjE) (fastforce simp: quiet_def)+
    then show ?case
    proof cases
      case 2
      then show ?thesis using append_effect_quiet by metis
    qed blast
  qed
qed

subsection \<open>Verdicts\<close>

lemma holds_head:
  assumes "holds_journal C dir s d rs" and "rs \<noteq> []"
  shows "head_of rs = Some (next_head (aen_material (last rs)) (aen_record_hash (last rs)))"
    and "ah_record_count (next_head (aen_material (last rs)) (aen_record_hash (last rs))) = of_nat (length rs)"
    and "ah_session_id (next_head (aen_material (last rs)) (aen_record_hash (last rs))) = nat_text (unat s)"
  using assms chained_last_sequence [of C "nat_text (unat s)" rs]
  by (simp_all add: holds_journal_def head_of_def next_head_def)

lemma unat_small: "n < 2 ^ 64 \<Longrightarrow> unat (of_nat n :: u64) = n"
  by (simp add: unat_of_nat take_bit_nat_eq_self)

text \<open>The head of \<open>rs\<close> in front of a journal that starts with \<open>rs\<close> and goes on with \<open>rest\<close>.\<close>

lemma verdict_holding:
  assumes "chained C (nat_text (unat s)) 0 None rs" and "list_all (reads_back_record C) rs" and "length rs < 2 ^ 64"
    and ne: "rs \<noteq> []" and head: "head_at C e (head_path dir s) = Ok (head_of rs)"
    and bytes: "bytes_at e (journal_path dir s) = journal_bytes C rs @ rest"
  shows "verdict C dir s e =
    (if rest \<noteq> [] \<and> last rest \<noteq> 10 then TailTruncated
     else case verify_records C (nat_text (unat s)) (length rs) (Some (aen_record_hash (last rs))) (nonempty_lines rest) of
         Inl bad \<Rightarrow> bad
       | Inr qs \<Rightarrow> verify_against_head (next_head (aen_material (last rs)) (aen_record_hash (last rs))) (rs @ qs))"
proof -
  let ?h = "next_head (aen_material (last rs)) (aen_record_hash (last rs))"
  from ne have "journal_bytes C rs \<noteq> []" by (cases rs) (auto simp: journal_bytes_def)
  moreover have "last (journal_bytes C rs) = 10"
    using ne by (induction rs rule: rev_induct) (simp_all add: journal_bytes_def)
  ultimately have last: "journal_bytes C rs @ rest \<noteq> []"
    "last (journal_bytes C rs @ rest) \<noteq> 10 \<longleftrightarrow> rest \<noteq> [] \<and> last rest \<noteq> 10"
    by (auto simp: last_append)
  then obtain f where f: "dk_files e (journal_path dir s) = Some f" "fl_bytes f = journal_bytes C rs @ rest"
    using bytes by (auto simp: bytes_at_def split: option.splits)
  have session: "ah_session_id ?h = nat_text (unat s)"
    using chained_last_sequence(2) [OF assms(1) ne assms(3)] by (simp add: next_head_def)
  have "verdict C dir s e = verify_journal C ?h (journal_bytes C rs @ rest)"
    using head ne f chained_last_sequence(2) [OF assms(1) ne assms(3)]
    by (simp add: verdict_eq head_of_def next_head_def)
  also have "\<dots> = (if rest \<noteq> [] \<and> last rest \<noteq> 10 then TailTruncated
     else case verify_records C (nat_text (unat s)) (length rs) (Some (aen_record_hash (last rs))) (nonempty_lines rest) of
         Inl bad \<Rightarrow> bad
       | Inr qs \<Rightarrow> verify_against_head ?h (rs @ qs))"
    unfolding verify_journal_def nonempty_lines_def [symmetric] nonempty_lines_journal [OF assms(2)] session
      verify_records_chained [OF assms(1,2)]
    using last ne
    by (cases "verify_records C (nat_text (unat s)) (length rs) (Some (aen_record_hash (last rs))) (nonempty_lines rest)") auto
  finally show ?thesis .
qed

lemma verdict_holds:
  assumes "holds_journal C dir s d rs"
  shows "verdict C dir s d = (if rs = [] then HeadMissing else ValidOpen)"
proof (cases "rs = []")
  case True
  with assms show ?thesis by (simp add: holds_journal_def head_of_def verdict_eq)
next
  case False
  have "nonempty_lines [] = []" by (simp add: nonempty_lines_def)
  with False assms holds_head [OF assms False] show ?thesis
    by (subst verdict_holding [where rs = rs and rest = "[]"])
      (auto simp: holds_journal_def verify_against_head_def Let_def next_head_def)
qed

lemma verdict_torn:
  assumes "holds_journal C dir s d rs" and "reads_back_record C r" and "0 < n" "n \<le> length (record_text C r)"
    and "head_at C e (head_path dir s) = Ok (head_of rs)"
    and "bytes_at e (journal_path dir s) = journal_bytes C rs @ take n (record_text C r @ [10])"
  shows "verdict C dir s e = (if rs = [] then HeadMissing else TailTruncated)"
proof (cases "rs = []")
  case True
  with assms(5) show ?thesis by (simp add: head_of_def verdict_eq)
next
  case False
  have "take n (record_text C r @ [10]) = take n (record_text C r)" using assms(4) by simp
  moreover have "take n (record_text C r) \<noteq> []" using assms(2,3) by (simp add: reads_back_record_def)
  moreover from this have "last (take n (record_text C r)) \<noteq> 10"
    using assms(2) in_set_takeD last_in_set unfolding reads_back_record_def by metis
  ultimately show ?thesis
    using assms False by (subst verdict_holding [where rs = rs and rest = "take n (record_text C r)"])
      (auto simp: holds_journal_def)
qed

lemma verdict_lagging:
  assumes "holds_journal C dir s d rs" and "reads_back_record C r" and "length rs + 1 < 2 ^ 64"
    and "chained C (nat_text (unat s)) 0 None (rs @ [r])"
    and "head_at C e (head_path dir s) = Ok (head_of rs)"
    and "bytes_at e (journal_path dir s) = journal_bytes C rs @ record_text C r @ [10]"
  shows "verdict C dir s e = (if rs = [] then HeadMissing else Interrupted)"
proof (cases "rs = []")
  case True
  with assms(5) show ?thesis by (simp add: head_of_def verdict_eq)
next
  case False
  let ?h = "next_head (aen_material (last rs)) (aen_record_hash (last rs))"
  have "nonempty_lines (record_text C r @ [10]) = [record_text C r]"
    using assms(2) by (simp add: nonempty_lines_def reads_back_record_def split_lines_newline)
  moreover have "chained C (nat_text (unat s)) (length rs) (Some (aen_record_hash (last rs))) [r]"
    using assms(4) False by (simp add: chained_append)
  from verify_records_chained [OF this, of "[]"] assms(2)
  have "verify_records C (nat_text (unat s)) (length rs) (Some (aen_record_hash (last rs))) [record_text C r] = Ok [r]"
    by simp
  moreover have "verify_against_head ?h (rs @ [r]) = Interrupted"
  proof -
    have count: "unat (ah_record_count ?h) = length rs" using holds_head(2) [OF assms(1) False] assms(3) unat_small by simp
    have "unat (of_nat (length (rs @ [r])) :: u64) = length rs + 1" using assms(3) unat_small [of "length rs + 1"] by simp
    moreover have "unat (ah_record_count ?h - 1) = length rs - 1"
    proof -
      have "(of_nat (length rs) :: u64) - 1 = of_nat (length rs - 1)" using False by (cases rs) simp_all
      with holds_head(2) [OF assms(1) False] assms(3) unat_small [of "length rs - 1"] show ?thesis by simp
    qed
    ultimately show ?thesis
      using count False by (auto simp: verify_against_head_def Let_def word_less_nat_alt nth_append last_conv_nth next_head_def)
  qed
  ultimately show ?thesis
    using assms False by (subst verdict_holding [where rs = rs and rest = "record_text C r @ [10]"])
      (auto simp: holds_journal_def)
qed

end
