(* ===== verification/Audit_Properties.thy ===== *)
theory Audit_Properties
  imports Audit_Facts
begin

text \<open>
  Correctness of the durable audit: what an append can leave behind under every fault of the file
  system and what verification then says, that a verified journal cannot be changed without a hash
  collision, and that tokens are bound and used once.
\<close>

subsection \<open>Paths\<close>

lemma nat_text_digits: "set (nat_text n) \<subseteq> hex_digit ` {..<10}"
proof (induction n rule: nat_text.induct)
  case (1 n)
  have "set (nat_text n) \<subseteq> (if n < 10 then {hex_digit n} else set (nat_text (n div 10)) \<union> {hex_digit (n mod 10)})"
    by (subst nat_text.simps) simp
  with 1 show ?case by (auto split: if_splits)
qed

lemma slash_not_digit: "CHR ''/'' \<notin> set (nat_text n)"
proof
  assume "CHR ''/'' \<in> set (nat_text n)"
  with nat_text_digits obtain k where k: "k < 10" "CHR ''/'' = hex_digit k" by blast
  from k(2) have "(of_char (CHR ''/'') :: nat) = of_char (hex_digit k)" by simp
  with k(1) show False by (simp add: hex_digit_def)
qed

lemma nat_text_inj: "nat_text m = nat_text n \<longleftrightarrow> m = n"
proof
  show "nat_text m = nat_text n \<Longrightarrow> m = n"
  proof (induction m arbitrary: n rule: nat_text.induct)
    case (1 m)
    have snoc: "nat_text k = (if k < 10 then [] else nat_text (k div 10)) @ [hex_digit (k mod 10)]" for k
      by (subst nat_text.simps) simp
    have ne: "nat_text k \<noteq> []" for k by (subst snoc) simp
    from "1.prems" have "(if m < 10 then [] else nat_text (m div 10)) = (if n < 10 then [] else nat_text (n div 10)) \<and>
        hex_digit (m mod 10) = hex_digit (n mod 10)"
      by (subst (asm) snoc [of m], subst (asm) snoc [of n]) simp
    moreover from this have "m mod 10 = n mod 10" using hex_digit_inj [of "m mod 10" "n mod 10"] by simp
    moreover have "m < 10 \<longleftrightarrow> n < 10" using calculation(1) ne by (metis append_is_Nil_conv)
    moreover have "\<not> m < 10 \<Longrightarrow> m div 10 = n div 10" using calculation(1,3) "1.IH" [of "n div 10"] by simp
    ultimately show "m = n" by (metis div_mult_mod_eq mod_less)
  qed
qed simp

lemma path_join_inj: "path_join dir a = path_join dir b \<longleftrightarrow> a = b"
  by (simp add: path_join_def)

lemma journal_path_inj: "journal_path dir s = journal_path dir t \<longleftrightarrow> s = t"
  by (simp add: journal_path_def path_join_inj nat_text_inj word_unat_eq_iff)

lemma head_path_inj: "head_path dir s = head_path dir t \<longleftrightarrow> s = t"
  by (simp add: head_path_def path_join_inj nat_text_inj word_unat_eq_iff)

lemma last_slash_join: "CHR ''/'' \<notin> set name \<Longrightarrow> last_slash (dir @ CHR ''/'' # name) = Some dir"
proof (induction dir)
  case Nil
  have "CHR ''/'' \<notin> set name \<Longrightarrow> last_slash name = None" by (induction name) auto
  with Nil show ?case by simp
qed simp

lemma path_parent_join:
  assumes "dir \<noteq> []" and "last dir \<noteq> CHR ''/''" and "CHR ''/'' \<notin> set name"
  shows "path_parent (path_join dir name) = Some dir"
  using assms last_slash_join [OF assms(3)] by (cases dir) (simp_all add: path_parent_def path_join_def)

text \<open>The audit directory exists, its files are not directories, and no fault is due.\<close>

definition audit_directory_ready :: "path \<Rightarrow> session_id \<Rightarrow> disk \<Rightarrow> bool" where
  "audit_directory_ready dir s d \<longleftrightarrow>
     dk_faults d = [] \<and> dir \<noteq> [] \<and> last dir \<noteq> CHR ''/'' \<and> dir \<in> dk_directories d \<and> dk_files d dir = None \<and>
     head_path dir s \<notin> dk_directories d"

lemma run_write_line:
  assumes "dk_faults d = []" and "in_directory d p"
  shows "run_state (write_line p bs) d =
    (Ok (), put_file p \<lparr>fl_bytes = bytes_at d p @ bs, fl_mode = PRIVATE_FILE_MODE\<rparr> d)"
proof (cases "dk_files d p")
  case None
  with assms show ?thesis
    by (simp add: write_line_def faultless fs_open_append_def fs_set_mode_def fs_write_all_def fs_hidden_def
      put_file_def append_bytes_def bytes_at_def)
next
  case (Some f)
  with assms show ?thesis
    by (cases f) (simp add: write_line_def faultless fs_open_append_def fs_set_mode_def fs_write_all_def fs_hidden_def
      put_file_def append_bytes_def bytes_at_def)
qed

lemma run_append_ready:
  assumes "audit_directory_ready dir s d" and head: "head_at C d (head_path dir s) = Ok (head_of rs)"
    and empty: "rs = [] \<Longrightarrow> bytes_at d (journal_path dir s) = []"
    and "next_record C s rs at_time kind body = Ok r" and "reads_back_record C r"
    and "reads_back_head C (next_head (aen_material r) (aen_record_hash r))"
  shows "fst (run_state (append_record C dir s at_time kind body) d) = Ok ()"
proof -
  let ?J = "journal_path dir s" and ?H = "head_path dir s" and ?m = "next_material (head_of rs) s at_time kind body"
  from assms(4) obtain h where r: "r = \<lparr>aen_material = ?m, aen_record_hash = h\<rparr>" and h: "hash_jcs C ?m = Ok h"
    by (auto simp: next_record_def Let_def and_then_Ok_iff)
  from assms(1) have faults: "dk_faults d = []" by (simp add: audit_directory_ready_def)
  from assms(1) slash_not_digit have parent: "path_parent ?J = Some dir" "path_parent ?H = Some dir"
    by (simp_all add: audit_directory_ready_def journal_path_def head_path_def path_parent_join)
  have read: "run_state (read_head C ?H) d = (Ok (head_of rs), d)"
    using head faults by (auto simp: read_head_def fs_read_def head_at_def faultless split: option.splits sum.splits)
  have check: "run_state (check_existing ?J (head_of rs)) d = (Ok (), d)"
    using empty faults
    by (cases "rs = []") (auto simp: check_existing_def fs_length_def faultless head_of_def next_head_def
      bytes_at_def split: option.splits)
  from assms(5) r obtain bs where bs: "ac_envelope_to_vec C \<lparr>aen_material = ?m, aen_record_hash = h\<rparr> = Ok bs"
    by (auto simp: reads_back_record_def)
  from assms(6) r obtain hb where hb: "ac_head_to_vec C (next_head ?m h) = Ok hb" by (auto simp: reads_back_head_def)
  define e where "e = put_file ?J \<lparr>fl_bytes = bytes_at d ?J @ bs @ [10], fl_mode = PRIVATE_FILE_MODE\<rparr> d"
  have line: "run_state (write_line ?J (bs @ [10])) d = (Ok (), e)"
    unfolding e_def by (rule run_write_line) (use faults parent assms(1) in \<open>simp_all add: in_directory_def audit_directory_ready_def\<close>)
  have "dir \<noteq> ?J" "?H \<noteq> dir"
    by (auto simp: journal_path_def head_path_def path_join_def dest: arg_cong [where f = length])
  then have "run_state (atomic_write ?H hb) e = (Ok (), put_file ?H \<lparr>fl_bytes = hb, fl_mode = PRIVATE_FILE_MODE\<rparr>
      (e\<lparr>dk_directories := insert dir (dk_directories e)\<rparr>))"
    using assms(1) parent by (intro run_atomic_write)
      (simp_all add: e_def put_file_def audit_directory_ready_def parent_directory_def)
  then have "fst (run_state (write_head C ?H (next_head ?m h)) e) = Ok ()"
    using hb by (simp add: write_head_def faultless)
  with read check h bs line show ?thesis
    by (simp add: append_record_def faultless Let_def split: prod.splits)
qed

subsection \<open>Appends\<close>

text \<open>A new record that the codec can write and read back, for a journal with room for it.\<close>

definition appendable ::
  "'d audit_codec \<Rightarrow> session_id \<Rightarrow> audit_envelope list \<Rightarrow> u128 \<Rightarrow> string \<Rightarrow> json \<Rightarrow> audit_envelope \<Rightarrow> bool" where
  "appendable C s rs at_time kind body r \<longleftrightarrow>
     next_record C s rs at_time kind body = Ok r \<and> reads_back_record C r \<and>
     reads_back_head C (next_head (aen_material r) (aen_record_hash r)) \<and> length rs + 1 < 2 ^ 64"

lemma appendable_material:
  assumes "appendable C s rs at_time kind body r"
  shows "hash_jcs C (next_material (head_of rs) s at_time kind body) = Ok (aen_record_hash r)"
    and "aen_material r = next_material (head_of rs) s at_time kind body"
  using assms by (auto simp: appendable_def next_record_def Let_def and_then_Ok_iff)

lemma appendable_chain:
  assumes "holds_journal C dir s d rs" and "appendable C s rs at_time kind body r"
  shows "chained C (nat_text (unat s)) 0 None (rs @ [r])"
  using assms chained_next [of C s rs at_time kind body r] by (simp add: holds_journal_def appendable_def)

lemma append_outcome:
  assumes d: "holds_journal C dir s d rs" and r: "appendable C s rs at_time kind body r"
    and run: "run_state (append_record C dir s at_time kind body) d = (res, e)"
  shows "(\<forall>q. q \<noteq> journal_path dir s \<and> q \<noteq> head_path dir s \<longrightarrow> dk_files e q = dk_files d q) \<and>
    (holds_journal C dir s e rs \<and> res \<noteq> Ok () \<or>
     res \<noteq> Ok () \<and> head_at C e (head_path dir s) = Ok (head_of rs) \<and> (\<exists>n>0.
       bytes_at e (journal_path dir s) = journal_bytes C rs @ take n (record_text C r @ [10])) \<or>
     holds_journal C dir s e (rs @ [r]) \<and> mode_at e (journal_path dir s) = Some PRIVATE_FILE_MODE \<and>
       mode_at e (head_path dir s) = Some PRIVATE_FILE_MODE)"
proof -
  let ?J = "journal_path dir s" and ?H = "head_path dir s"
  let ?m = "next_material (head_of rs) s at_time kind body"
  from d have head: "head_at C d ?H = Ok (head_of rs)" and bytes: "bytes_at d ?J = journal_bytes C rs"
    by (simp_all add: holds_journal_def)
  from does_run [OF does_append_record run] head
  consider "quiet d e" "res \<noteq> Ok ()" | "append_effect C ?J ?H ?m d res e" by auto
  then show ?thesis
  proof cases
    case 1
    then have "holds_journal C dir s e rs" using d by (simp add: holds_journal_def quiet_def bytes_at_def head_at_def)
    with 1 show ?thesis by (simp add: quiet_def)
  next
    case 2
    then have frame: "\<forall>q. q \<noteq> ?J \<and> q \<noteq> ?H \<longrightarrow> dk_files e q = dk_files d q" by (simp add: append_effect_def)
    have same_head: "head_at C e ?H = Ok (head_of rs)" if "dk_files e ?H = dk_files d ?H"
      using head that by (simp add: head_at_def)
    from 2 consider "bytes_at e ?J = bytes_at d ?J" "dk_files e ?H = dk_files d ?H" "res \<noteq> Ok ()"
      | h bs n where "hash_jcs C ?m = Ok h" "ac_envelope_to_vec C \<lparr>aen_material = ?m, aen_record_hash = h\<rparr> = Ok bs"
          "bytes_at e ?J = bytes_at d ?J @ take n (bs @ [10])"
          "res \<noteq> Ok () \<and> dk_files e ?H = dk_files d ?H \<or>
           length bs < n \<and> mode_at e ?J = Some PRIVATE_FILE_MODE \<and> (\<exists>hb. ac_head_to_vec C (next_head ?m h) = Ok hb \<and>
             dk_files e ?H = Some \<lparr>fl_bytes = hb, fl_mode = PRIVATE_FILE_MODE\<rparr>)"
      unfolding append_effect_def by blast
    then show ?thesis
    proof cases
      case 1
      then have "holds_journal C dir s e rs" using d same_head by (simp add: holds_journal_def)
      with 1 frame show ?thesis by simp
    next
      case (2 h bs n)
      from r 2(1) appendable_material [OF r] have h: "r = \<lparr>aen_material = ?m, aen_record_hash = h\<rparr>" by simp
      with 2(2) r have bs: "bs = record_text C r" by (simp add: appendable_def reads_back_record_def)
      show ?thesis
      proof (cases "res \<noteq> Ok () \<and> dk_files e ?H = dk_files d ?H")
        case True
        show ?thesis
        proof (cases "n = 0")
          case True
          with 2(3) bytes \<open>res \<noteq> Ok () \<and> _\<close> d same_head have "holds_journal C dir s e rs" by (simp add: holds_journal_def)
          with \<open>res \<noteq> Ok () \<and> _\<close> frame show ?thesis by simp
        next
          case False
          with 2(3) bytes bs same_head \<open>res \<noteq> Ok () \<and> _\<close> frame show ?thesis by (auto intro: exI [of _ n])
        qed
      next
        case False
        with 2(4) obtain hb where hb: "length bs < n" "mode_at e ?J = Some PRIVATE_FILE_MODE"
          "ac_head_to_vec C (next_head ?m h) = Ok hb" "dk_files e ?H = Some \<lparr>fl_bytes = hb, fl_mode = PRIVATE_FILE_MODE\<rparr>"
          by blast
        have chain: "chained C (nat_text (unat s)) 0 None (rs @ [r])"
          by (rule appendable_chain [OF d r])
        have head: "head_at C e ?H = Ok (head_of (rs @ [r]))"
          using r hb(3,4) h by (auto simp: appendable_def reads_back_head_def head_at_def head_of_def)
        have journal: "bytes_at e ?J = journal_bytes C (rs @ [r])"
          using 2(3) bytes bs hb(1) by (simp add: journal_bytes_def)
        have "list_all (reads_back_record C) (rs @ [r])" "length (rs @ [r]) < 2 ^ 64"
          using d r by (simp_all add: holds_journal_def appendable_def)
        with chain head journal have "holds_journal C dir s e (rs @ [r])" unfolding holds_journal_def by blast
        with frame hb(2,4) show ?thesis by (simp add: mode_at_def)
      qed
    qed
  qed
qed

text \<open>
  C13. An append to a consistent journal succeeds when no operation of the file system fails. Whatever
  fails, success means that the record is at the end of the verified chain, in private files; and
  after an error the journal is as before, or the record is there after all, or verification reports
  a missing head, a truncated tail or an interrupted append, never a valid journal with another
  content. The journals of the other sessions are not touched.
\<close>

theorem audit_append_is_durable_or_detected:
  fixes C :: "'d audit_codec"
  assumes "holds_journal C dir s d rs" and "appendable C s rs at_time kind body r"
    and "run_state (append_record C dir s at_time kind body) d = (res, e)"
  shows "(audit_directory_ready dir s d \<longrightarrow> res = Ok ()) \<and>
    (res = Ok () \<longrightarrow> holds_journal C dir s e (rs @ [r]) \<and> verdict C dir s e = ValidOpen \<and>
       mode_at e (journal_path dir s) = Some 0x180 \<and> mode_at e (head_path dir s) = Some 0x180) \<and>
    (res \<noteq> Ok () \<longrightarrow> holds_journal C dir s e rs \<or> holds_journal C dir s e (rs @ [r]) \<or>
       verdict C dir s e = (if rs = [] then HeadMissing else TailTruncated) \<or>
       verdict C dir s e = (if rs = [] then HeadMissing else Interrupted)) \<and>
    (\<forall>t. t \<noteq> s \<longrightarrow> verdict C dir t e = verdict C dir t d)"
proof (intro conjI impI allI)
  note outcome = append_outcome [OF assms]
  show "res = Ok ()" if "audit_directory_ready dir s d"
    using run_append_ready [OF that, of C rs at_time kind body r] assms
    by (auto simp: appendable_def holds_journal_def journal_bytes_def)
  from outcome have ok: "holds_journal C dir s e (rs @ [r])" "mode_at e (journal_path dir s) = Some PRIVATE_FILE_MODE"
    "mode_at e (head_path dir s) = Some PRIVATE_FILE_MODE" if "res = Ok ()"
    using that by auto
  from ok show "holds_journal C dir s e (rs @ [r])" "mode_at e (journal_path dir s) = Some 0x180"
    "mode_at e (head_path dir s) = Some 0x180" if "res = Ok ()"
    using that by (simp_all add: PRIVATE_FILE_MODE_def)
  from verdict_holds [OF ok(1)] show "verdict C dir s e = ValidOpen" if "res = Ok ()" using that by simp
  show "verdict C dir t e = verdict C dir t d" if "t \<noteq> s" for t
  proof -
    from that journal_not_head have same: "dk_files e (head_path dir t) = dk_files d (head_path dir t)"
      "dk_files e (journal_path dir t) = dk_files d (journal_path dir t)"
      using outcome journal_path_inj head_path_inj by metis+
    show ?thesis unfolding verdict_eq head_at_def same ..
  qed
  assume failed: "res \<noteq> Ok ()"
  have text_r: "reads_back_record C r" "length rs + 1 < 2 ^ 64" using assms(2) by (simp_all add: appendable_def)
  have chain: "chained C (nat_text (unat s)) 0 None (rs @ [r])"
    by (rule appendable_chain [OF assms(1,2)])
  from outcome consider "holds_journal C dir s e rs" | "holds_journal C dir s e (rs @ [r])"
    | n where "head_at C e (head_path dir s) = Ok (head_of rs)" "0 < n"
        "bytes_at e (journal_path dir s) = journal_bytes C rs @ take n (record_text C r @ [10])"
    by blast
  then show "holds_journal C dir s e rs \<or> holds_journal C dir s e (rs @ [r]) \<or>
       verdict C dir s e = (if rs = [] then HeadMissing else TailTruncated) \<or>
       verdict C dir s e = (if rs = [] then HeadMissing else Interrupted)"
  proof cases
    case (3 n)
    show ?thesis
    proof (cases "n \<le> length (record_text C r)")
      case True
      from verdict_torn [OF assms(1) text_r(1) 3(2) True 3(1,3)] show ?thesis by blast
    next
      case False
      with 3(3) have "bytes_at e (journal_path dir s) = journal_bytes C rs @ record_text C r @ [10]" by simp
      from verdict_lagging [OF assms(1) text_r chain 3(1) this] show ?thesis by blast
    qed
  qed auto
qed

text \<open>
  C19. An append does not look at the end of the journal. When a crash or a fault has left a line that
  the head does not count, verification says so; but the next append to that session succeeds, gives
  its record the sequence number of the uncounted one, and from then on verification reports a missing
  record.
\<close>

theorem audit_append_breaks_interrupted_journal:
  fixes C :: "'d audit_codec"
  assumes rs: "holds_journal C dir s d rs" "rs \<noteq> []" and r: "appendable C s rs at_time kind body r"
    and r': "appendable C s rs at_time' kind' body' r'" and ready: "audit_directory_ready dir s e"
    and head: "head_at C e (head_path dir s) = Ok (head_of rs)"
    and journal: "bytes_at e (journal_path dir s) = journal_bytes C (rs @ [r])" and room: "length rs + 2 < 2 ^ 64"
  shows "verdict C dir s e = Interrupted \<and>
    (case run_state (append_record C dir s at_time' kind' body') e of (res, e') \<Rightarrow>
       res = Ok () \<and> verdict C dir s e' = RecordMissing)"
proof (intro conjI)
  let ?J = "journal_path dir s" and ?H = "head_path dir s" and ?t = "nat_text (unat s)"
  let ?m' = "next_material (head_of rs) s at_time' kind' body'"
  have texts: "reads_back_record C r" "length rs + 1 < 2 ^ 64" "reads_back_record C r'"
    using r r' by (simp_all add: appendable_def)
  have chain: "chained C ?t 0 None (rs @ [r])" by (rule appendable_chain [OF rs(1) r])
  have lagging: "bytes_at e ?J = journal_bytes C rs @ record_text C r @ [10]"
    using journal by (simp add: journal_bytes_def)
  from verdict_lagging [OF rs(1) texts(1,2) chain head lagging] rs(2) show "verdict C dir s e = Interrupted" by simp
  obtain res e' where run: "run_state (append_record C dir s at_time' kind' body') e = (res, e')" by fastforce
  have ok: "res = Ok ()"
    using run_append_ready [OF ready head, of at_time' kind' body' r'] r' rs(2) run by (simp add: appendable_def)
  from does_run [OF does_append_record run] ok head have "append_effect C ?J ?H ?m' e (Ok ()) e'" by auto
  then obtain h bs n hb where eff: "hash_jcs C ?m' = Ok h"
    "ac_envelope_to_vec C \<lparr>aen_material = ?m', aen_record_hash = h\<rparr> = Ok bs"
    "bytes_at e' ?J = bytes_at e ?J @ take n (bs @ [10])" "length bs < n"
    "ac_head_to_vec C (next_head ?m' h) = Ok hb" "dk_files e' ?H = Some \<lparr>fl_bytes = hb, fl_mode = PRIVATE_FILE_MODE\<rparr>"
    unfolding append_effect_def by auto
  from eff(1) appendable_material [OF r'] have h: "r' = \<lparr>aen_material = ?m', aen_record_hash = h\<rparr>" by simp
  with eff(2) texts(3) have bs: "bs = record_text C r'" by (simp add: reads_back_record_def)
  have bytes: "bytes_at e' ?J = journal_bytes C (rs @ [r]) @ record_text C r' @ [10]"
    using eff(3,4) journal bs by simp
  have session: "hm_session_id ?m' = ?t" "hm_schema_version ?m' = AUDIT_SCHEMA_VERSION" by (simp_all add: next_material_def)
  have sequence: "hm_sequence ?m' = of_nat (length rs + 1)"
    using appendable_chain [OF rs(1) r'] h sat_inc_of_nat [OF texts(2)] by (simp add: chained_append)
  have new_head: "head_at C e' ?H = Ok (Some (next_head ?m' h))"
    using r' h eff(5,6) by (auto simp: appendable_def reads_back_head_def head_at_def)
  have "sat_inc (of_nat (length rs + 1) :: u64) = of_nat (length rs + 2)"
    using sat_inc_of_nat [of "length rs + 1"] room by simp
  moreover have "(of_nat (length rs + 2) :: u64) \<noteq> of_nat (length rs + 1)" by simp
  ultimately have "sat_inc (of_nat (length rs + 1) :: u64) \<noteq> hm_sequence ?m'" using sequence by simp
  then have bad: "verify_records C ?t (length (rs @ [r])) (Some (aen_record_hash r)) [record_text C r'] = Err RecordMissing"
    using texts(3) h session by (simp add: reads_back_record_def Let_def)
  have all: "list_all (reads_back_record C) (rs @ [r])" using rs(1) texts(1) by (simp add: holds_journal_def)
  have lines: "nonempty_lines (journal_bytes C (rs @ [r]) @ record_text C r' @ [10]) =
      map (record_text C) (rs @ [r]) @ [record_text C r']"
    using nonempty_lines_journal [OF all, of "record_text C r' @ [10]"] texts(3)
    by (simp add: nonempty_lines_def reads_back_record_def split_lines_newline)
  have "verify_journal C (next_head ?m' h) (journal_bytes C (rs @ [r]) @ record_text C r' @ [10]) = RecordMissing"
    unfolding verify_journal_def nonempty_lines_def [symmetric] lines
    using verify_records_chained [OF chain all, of "[record_text C r']"] bad session(1) by (simp add: next_head_def)
  moreover obtain f where "dk_files e' ?J = Some f" "fl_bytes f = bytes_at e' ?J"
    using bytes by (auto simp: bytes_at_def split: option.splits)
  ultimately have "verdict C dir s e' = RecordMissing"
    using new_head bytes session by (simp add: verdict_eq next_head_def)
  with ok run show "case run_state (append_record C dir s at_time' kind' body') e of (res, e') \<Rightarrow>
       res = Ok () \<and> verdict C dir s e' = RecordMissing" by simp
qed

subsection \<open>Tampering\<close>

lemma verify_records_Ok:
  "verify_records C t i prev lines = Ok rs \<Longrightarrow>
     chained C t i prev rs \<and> map (ac_envelope_from_slice C) lines = map Ok rs"
proof (induction C t i prev lines arbitrary: rs rule: verify_records.induct)
  case (2 C t i prev line lines)
  then show ?case by (auto simp: Let_def and_then_Ok_iff split: sum.splits if_splits)
qed simp

lemma hash_chain_binds:
  assumes "chained C t 0 None xs" and "chained C t 0 None ys" and "xs \<noteq> []" and "ys \<noteq> []"
    and "aen_record_hash (last xs) = aen_record_hash (last ys)"
  shows "xs = ys \<or> (\<exists>m n h. m \<noteq> n \<and> hash_jcs C m = Ok h \<and> hash_jcs C n = Ok h)"
  using assms
proof (induction xs arbitrary: ys rule: rev_induct)
  case (snoc x xs)
  from snoc.prems(4) obtain zs z where ys: "ys = zs @ [z]" by (metis append_butlast_last_id)
  from snoc.prems ys have x: "hash_jcs C (aen_material x) = Ok (aen_record_hash x)"
    "hm_previous_hash (aen_material x) = (if xs = [] then None else Some (aen_record_hash (last xs)))"
    and z: "hash_jcs C (aen_material z) = Ok (aen_record_hash x)" "aen_record_hash z = aen_record_hash x"
    "hm_previous_hash (aen_material z) = (if zs = [] then None else Some (aen_record_hash (last zs)))"
    by (auto simp: chained_append)
  show ?case
  proof (cases "aen_material x = aen_material z")
    case True
    with z(2) have "x = z" by simp
    from True x(2) z(3) have last: "xs = [] \<longleftrightarrow> zs = []" "xs \<noteq> [] \<Longrightarrow> aen_record_hash (last xs) = aen_record_hash (last zs)"
      by (auto split: if_splits)
    have "xs = zs \<or> (\<exists>m n h. m \<noteq> n \<and> hash_jcs C m = Ok h \<and> hash_jcs C n = Ok h)"
    proof (cases "xs = []")
      case False
      with last snoc.prems ys show ?thesis by (intro snoc.IH) (auto simp: chained_append)
    qed (use last in simp)
    with \<open>x = z\<close> ys show ?thesis by auto
  next
    case False
    with x(1) z(1) show ?thesis by blast
  qed
qed simp

text \<open>The records of a journal as the codec reads them.\<close>

definition journal_records :: "'d audit_codec \<Rightarrow> path \<Rightarrow> session_id \<Rightarrow> disk \<Rightarrow> (string + audit_envelope) list" where
  "journal_records C dir s d = map (ac_envelope_from_slice C) (nonempty_lines (bytes_at d (journal_path dir s)))"

lemma verified_journal:
  assumes "verdict C dir s d \<in> {ValidOpen, ValidFinalized}" and "head_at C d (head_path dir s) = Ok (Some h)"
  obtains rs where "chained C (nat_text (unat s)) 0 None rs" "rs \<noteq> []" "aen_record_hash (last rs) = ah_head_hash h"
    "journal_records C dir s d = map Ok rs"
proof -
  from assms obtain f where f: "dk_files d (journal_path dir s) = Some f" and t: "ah_session_id h = nat_text (unat s)"
    and v: "verify_journal C h (fl_bytes f) \<in> {ValidOpen, ValidFinalized}"
    by (auto simp: verdict_eq split: if_splits option.splits)
  have bad: "bad \<notin> {ValidOpen, ValidFinalized}" if "verify_records C u i prev lines = Err bad" for u i prev lines bad
    using that
    by (induction C u i prev lines rule: verify_records.induct) (auto simp: Let_def and_then_def split: sum.splits if_splits)
  from v bad obtain rs where rs: "verify_records C (ah_session_id h) 0 None (nonempty_lines (fl_bytes f)) = Ok rs"
    and head: "verify_against_head h rs \<in> {ValidOpen, ValidFinalized}"
    unfolding verify_journal_def nonempty_lines_def by (auto split: if_splits sum.splits)
  from head have "rs \<noteq> []" "aen_record_hash (last rs) = ah_head_hash h"
    by (auto simp: verify_against_head_def Let_def split: if_splits)
  with verify_records_Ok [OF rs] f t that show ?thesis by (auto simp: journal_records_def bytes_at_def)
qed


subsection \<open>Tokens\<close>

lemma run_audit_append:
  "run_state (audit_append C s t k b) w =
     (case run_state (append_record C (aw_root w) s t k b) (aw_disk w) of (r, d) \<Rightarrow> (r, w\<lparr>aw_disk := d\<rparr>))"
  by (simp add: audit_append_def on_disk_def)

text \<open>
  C15. A token finalizes at most one write: only a token that is out and bound to the same plan, request
  and context reaches the journal, and whatever happened then, the token is gone, so that using it
  again fails and changes nothing on the disk. A token that the audit hands out is bound to the
  preparation it was asked for.
\<close>

theorem audit_tokens_are_single_use:
  "(\<forall>(C :: 'd audit_codec) token outcome read_back w. case run_state (audit_finalize_device_write C token outcome read_back) w of (r, w1) \<Rightarrow>
     ((\<exists>b. bt_get (aus_prepared (aw_state w)) (pt_token_id token) = Some b \<and>
        pbi_plan_id b = pt_plan_id token \<and> pbi_request_id b = pt_request_id token \<and>
        pbi_context_hash b = pt_context_hash token) \<or>
      r = Err (audit_error_of InvalidAuditToken) \<and> aw_disk w1 = aw_disk w) \<and>
     (\<forall>outcome' read_back'. case run_state (audit_finalize_device_write C token outcome' read_back') w1 of (r', w2) \<Rightarrow>
        r' = Err (audit_error_of InvalidAuditToken) \<and> aw_disk w2 = aw_disk w1)) \<and>
   (\<forall>(C :: 'd audit_codec) p w. case run_state (audit_prepare_device_write C p) w of (r, w1) \<Rightarrow>
     case r of
       Inl e \<Rightarrow> aus_prepared (aw_state w1) = aus_prepared (aw_state w)
     | Inr token \<Rightarrow> matches_preparation token p \<and>
         bt_get (aus_prepared (aw_state w1)) (pt_token_id token) = Some (prepared_binding_of p))"
proof (intro conjI allI)
  fix C :: "'d audit_codec" and token :: prepared_token and outcome read_back w
  define gone where "gone v \<longleftrightarrow> bt_get (aus_prepared (aw_state v)) (pt_token_id token) = None" for v :: audit_world
  have again: "case run_state (audit_finalize_device_write C token outcome' read_back') v of (r', w2) \<Rightarrow>
      r' = Err (audit_error_of InvalidAuditToken) \<and> aw_disk w2 = aw_disk v" if "gone v" for outcome' read_back' v
    using that by (simp add: audit_finalize_device_write_def take_prepared_def with_error_def gone_def)
  obtain r w1 where run: "run_state (audit_finalize_device_write C token outcome read_back) w = (r, w1)" by fastforce
  then have "gone w1"
    by (auto simp: audit_finalize_device_write_def take_prepared_def with_error_def audit_now_nanos_def run_audit_append gone_def
      split: option.splits prod.splits if_splits)
  moreover from run have "(\<exists>b. bt_get (aus_prepared (aw_state w)) (pt_token_id token) = Some b \<and>
        pbi_plan_id b = pt_plan_id token \<and> pbi_request_id b = pt_request_id token \<and>
        pbi_context_hash b = pt_context_hash token) \<or>
      r = Err (audit_error_of InvalidAuditToken) \<and> aw_disk w1 = aw_disk w"
    by (auto simp: audit_finalize_device_write_def take_prepared_def with_error_def
      split: option.splits prod.splits if_splits)
  ultimately show "case run_state (audit_finalize_device_write C token outcome read_back) w of (r, w1) \<Rightarrow>
     ((\<exists>b. bt_get (aus_prepared (aw_state w)) (pt_token_id token) = Some b \<and>
        pbi_plan_id b = pt_plan_id token \<and> pbi_request_id b = pt_request_id token \<and>
        pbi_context_hash b = pt_context_hash token) \<or>
      r = Err (audit_error_of InvalidAuditToken) \<and> aw_disk w1 = aw_disk w) \<and>
     (\<forall>outcome' read_back'. case run_state (audit_finalize_device_write C token outcome' read_back') w1 of (r', w2) \<Rightarrow>
        r' = Err (audit_error_of InvalidAuditToken) \<and> aw_disk w2 = aw_disk w1)"
    using run again by simp
next
  fix C :: "'d audit_codec" and p :: "'d device_write_preparation" and w
  show "case run_state (audit_prepare_device_write C p) w of (r, w1) \<Rightarrow>
     case r of
       Inl e \<Rightarrow> aus_prepared (aw_state w1) = aus_prepared (aw_state w)
     | Inr token \<Rightarrow> matches_preparation token p \<and>
         bt_get (aus_prepared (aw_state w1)) (pt_token_id token) = Some (prepared_binding_of p)"
    by (auto simp: audit_prepare_device_write_def allocate_token_id_def faultless run_audit_append insert_prepared_def
      for_preparation_def matches_preparation_def split: prod.splits sum.splits)
qed

subsection \<open>A concrete journal\<close>

text \<open>
  A codec for the records of one session whose text is one byte, their sequence number, and whose hash
  is the hexadecimal text of it; it shows that the hypotheses above can hold together.
\<close>

definition sample_audit_record :: "u8 \<Rightarrow> audit_envelope" where
  "sample_audit_record c =
     \<lparr>aen_material = \<lparr>hm_schema_version = AUDIT_SCHEMA_VERSION, hm_sequence = of_nat (unat c), hm_session_id = nat_text 1,
        hm_at = nat_text 7, hm_kind = ''decision'',
        hm_previous_hash = (if c = 1 then None else Some (to_hex [c - 1])), hm_body = JsonNull\<rparr>,
      aen_record_hash = to_hex [c]\<rparr>"

definition sample_audit_head :: "u8 \<Rightarrow> audit_head" where
  "sample_audit_head c = next_head (aen_material (sample_audit_record c)) (to_hex [c])"

definition sample_codec :: "unit audit_codec" where
  "sample_codec =
     \<lparr>ac_head_to_vec = \<lambda>h. Ok [ucast (ah_record_count h)],
      ac_head_from_slice = \<lambda>bs. if bs = [] then Err ''EOF'' else Ok (sample_audit_head (hd bs)),
      ac_envelope_to_vec = \<lambda>r. Ok [ucast (hm_sequence (aen_material r))],
      ac_envelope_from_slice = \<lambda>bs. if bs = [] then Err ''EOF'' else Ok (sample_audit_record (hd bs)),
      ac_material_to_vec = \<lambda>m. Ok [ucast (hm_sequence m)], ac_sha256 = \<lambda>bs. bs,
      ac_decimal_text = \<lambda>_. [], ac_f32_text = \<lambda>_. [], ac_f64_text = \<lambda>_. []\<rparr>"

definition sample_audit_disk :: "(path \<times> u8 list) list \<Rightarrow> disk" where
  "sample_audit_disk kvs =
     \<lparr>dk_files = \<lambda>p. map_option (\<lambda>bs. \<lparr>fl_bytes = bs, fl_mode = PRIVATE_FILE_MODE\<rparr>) (map_of kvs p),
      dk_directories = {''a''}, dk_symlinks = {}, dk_faults = []\<rparr>"

definition sample_journal :: "u8 list \<Rightarrow> u8 \<Rightarrow> disk" where
  "sample_journal bs c = sample_audit_disk [(journal_path ''a'' 1, bs), (head_path ''a'' 1, [c])]"

lemma sample_reads_back:
  "c = 1 \<or> c = 2 \<Longrightarrow> reads_back_record sample_codec (sample_audit_record c)"
  "c = 1 \<or> c = 2 \<Longrightarrow> record_text sample_codec (sample_audit_record c) = [c]"
  "c = 1 \<or> c = 2 \<Longrightarrow> reads_back_head sample_codec (sample_audit_head c)"
  "c = 1 \<or> c = 2 \<Longrightarrow> hash_jcs sample_codec (aen_material (sample_audit_record c)) = Ok (to_hex [c])"
  by (auto simp: reads_back_record_def record_text_def sample_codec_def sample_audit_record_def reads_back_head_def
      sample_audit_head_def next_head_def hash_jcs_def)

lemma sample_sequence [simp]: "sat_inc (0 :: u64) = 1" "sat_inc (1 :: u64) = 2"
  using sat_inc_of_nat [of 0] sat_inc_of_nat [of 1] by simp_all

lemma sample_next:
  "next_material None 1 7 ''decision'' JsonNull = aen_material (sample_audit_record 1)"
  "next_material (head_of [sample_audit_record 1]) 1 7 ''decision'' JsonNull = aen_material (sample_audit_record 2)"
  by (simp_all add: next_material_def sample_audit_record_def head_of_def next_head_def)

lemma sample_record_hash [simp]: "aen_record_hash (sample_audit_record c) = to_hex [c]"
  by (simp add: sample_audit_record_def)

lemma sample_appendable:
  "appendable sample_codec 1 [] 7 ''decision'' JsonNull (sample_audit_record 1)"
  "appendable sample_codec 1 [sample_audit_record 1] 7 ''decision'' JsonNull (sample_audit_record 2)"
  using sample_reads_back(1,3,4) [of 1] sample_reads_back(1,3,4) [of 2] sample_next
  by (simp_all add: appendable_def next_record_def head_of_def Let_def sample_audit_head_def)

lemma sample_holds:
  "holds_journal sample_codec ''a'' 1 (sample_journal [1, 10] 1) [sample_audit_record 1]"
  unfolding holds_journal_def
proof (intro conjI)
  show "chained sample_codec (nat_text (unat (1 :: u128))) 0 None [sample_audit_record 1]"
    using chained_next [of sample_codec 1 "[]" 7 "''decision''" JsonNull "sample_audit_record 1"] sample_appendable(1)
    by (simp add: appendable_def)
  show "head_at sample_codec (sample_journal [1, 10] 1) (head_path ''a'' 1) = Ok (head_of [sample_audit_record 1])"
    using journal_not_head [of "''a''" 1 1]
    by (auto simp: sample_journal_def sample_audit_disk_def head_at_def head_of_def sample_codec_def sample_audit_head_def)
qed (use sample_reads_back [of 1] in
  \<open>simp_all add: sample_journal_def sample_audit_disk_def bytes_at_def journal_bytes_def\<close>)

lemma sample_ready: "audit_directory_ready ''a'' 1 (sample_journal bs c)"
  using path_join_inj
  by (auto simp: audit_directory_ready_def sample_journal_def sample_audit_disk_def journal_path_def head_path_def path_join_def)

text \<open>Witnesses: the properties above at this journal.\<close>

lemma audit_append_is_durable_or_detected_witness:
  "\<exists>e. run_state (append_record sample_codec ''a'' 1 7 ''decision'' JsonNull) (sample_journal [1, 10] 1) = (Ok (), e) \<and>
     verdict sample_codec ''a'' 1 e = ValidOpen"
proof -
  obtain res e where run: "run_state (append_record sample_codec ''a'' 1 7 ''decision'' JsonNull) (sample_journal [1, 10] 1) = (res, e)"
    by fastforce
  from audit_append_is_durable_or_detected [OF sample_holds sample_appendable(2) run] sample_ready run show ?thesis by auto
qed

lemma audit_append_breaks_interrupted_journal_witness:
  "verdict sample_codec ''a'' 1 (sample_journal [1, 10, 2, 10] 1) = Interrupted \<and>
   (case run_state (append_record sample_codec ''a'' 1 7 ''decision'' JsonNull) (sample_journal [1, 10, 2, 10] 1) of (res, e) \<Rightarrow>
     res = Ok () \<and> verdict sample_codec ''a'' 1 e = RecordMissing)"
proof (rule audit_append_breaks_interrupted_journal [OF sample_holds _ sample_appendable(2) sample_appendable(2) sample_ready])
  show "head_at sample_codec (sample_journal [1, 10, 2, 10] 1) (head_path ''a'' 1) = Ok (head_of [sample_audit_record 1])"
    using journal_not_head [of "''a''" 1 1]
    by (auto simp: sample_journal_def sample_audit_disk_def head_at_def head_of_def sample_codec_def sample_audit_head_def)
  show "bytes_at (sample_journal [1, 10, 2, 10] 1) (journal_path ''a'' 1) =
      journal_bytes sample_codec ([sample_audit_record 1] @ [sample_audit_record 2])"
    using sample_reads_back(2) by (simp add: sample_journal_def sample_audit_disk_def bytes_at_def journal_bytes_def)
qed simp_all


end
