(* ===== verification/Profile_Sources.thy ===== *)
theory Profile_Sources
  imports Storage_Files Profile_References
begin

text \<open>
  The profile files (\<open>lantern-app/src/ports.rs\<close>, \<open>lantern-storage/src/profile_source.rs\<close>): the tiers
  and formats of sources, reading one file within its limit and never through a symbolic link, and the
  scan of the configured locations. The order in which the system lists a directory is the parameter
  \<open>listing\<close>.
\<close>

datatype (plugins only: code size) profile_source_tier = SystemTier | UserTier | ExplicitTier

definition tier_precedence :: "profile_source_tier \<Rightarrow> nat" where
  "tier_precedence t = (case t of SystemTier \<Rightarrow> 0 | UserTier \<Rightarrow> 1 | ExplicitTier \<Rightarrow> 2)"

record profile_source =
  psr_path :: path
  psr_bytes :: "u8 list"
  psr_format :: profile_format
  psr_tier :: profile_source_tier

datatype profile_source_error =
    SourceSymlink path
  | SourceNotRegular path
  | SourceUnsupportedExtension path
  | SourceFileTooLarge path nat nat
  | SourceTooManyFiles nat
  | SourceTooManyBytes nat
  | SourceIo path string

definition source_io :: "path \<Rightarrow> io_error \<Rightarrow> profile_source_error" where
  "source_io p e = SourceIo p (io_error_text e)"

record profile_scan_limits =
  psl_maximum_files :: nat
  psl_maximum_total_bytes :: nat
  psl_maximum_file_bytes :: nat

definition MAX_PROFILE_FILES :: nat where "MAX_PROFILE_FILES = 1024"
definition MAX_PROFILE_SCAN_BYTES :: nat where "MAX_PROFILE_SCAN_BYTES = 64 * 1024 * 1024"
definition MAX_PROFILE_FILE_BYTES :: nat where "MAX_PROFILE_FILE_BYTES = 4 * 1024 * 1024"

definition scan_limits_default :: profile_scan_limits where
  "scan_limits_default =
     \<lparr>psl_maximum_files = MAX_PROFILE_FILES, psl_maximum_total_bytes = MAX_PROFILE_SCAN_BYTES,
      psl_maximum_file_bytes = MAX_PROFILE_FILE_BYTES\<rparr>"

record profile_locations =
  plo_explicit :: "path list"
  plo_user_directory :: "path option"
  plo_system_directory :: "path option"

subsection \<open>Paths\<close>

text \<open>The components of a path, by which paths are ordered.\<close>

fun path_components :: "path \<Rightarrow> string list" where
  "path_components [] = [[]]"
| "path_components (c # cs) =
     (if c = CHR ''/'' then [] # path_components cs
      else case path_components cs of [] \<Rightarrow> [[c]] | q # qs \<Rightarrow> (c # q) # qs)"

fun after_last_dot :: "string \<Rightarrow> string option" where
  "after_last_dot [] = None"
| "after_last_dot (c # cs) =
     (case after_last_dot cs of Some q \<Rightarrow> Some q | None \<Rightarrow> if c = CHR ''.'' then Some cs else None)"

text \<open>A name that starts with its only dot has no extension, and neither has the name of the parent.\<close>

definition path_extension :: "path \<Rightarrow> string option" where
  "path_extension p =
     (let name = last (path_components p) in
      if name = [] \<or> name = ''..'' then None else after_last_dot (tl name))"

definition ascii_lower :: "char \<Rightarrow> char" where
  "ascii_lower c = (let n = (of_char c :: nat) in if 65 \<le> n \<and> n \<le> 90 then char_of (n + 32) else c)"

definition source_format_of :: "path \<Rightarrow> profile_format option" where
  "source_format_of p =
     (case path_extension p of
        None \<Rightarrow> None
      | Some x \<Rightarrow>
          let low = map ascii_lower x in
          if low = ''toml'' then Some TomlFormat else if low = ''json'' then Some JsonFormat else None)"

subsection \<open>Files\<close>

datatype file_kind = RegularFile nat | DirectoryFile | SymlinkFile

definition fs_symlink_metadata :: "path \<Rightarrow> (io_error + file_kind) disk_io" where
  "fs_symlink_metadata p = io_pure (\<lambda>d.
     if p \<in> dk_symlinks d then Ok SymlinkFile
     else if p \<in> dk_directories d then Ok DirectoryFile
     else case dk_files d p of None \<Rightarrow> Err IoNotFound | Some f \<Rightarrow> Ok (RegularFile (length (fl_bytes f))))"

definition fs_open :: "path \<Rightarrow> (io_error + unit) disk_io" where
  "fs_open p = io_pure (\<lambda>d. if dk_files d p = None then Err IoNotFound else Ok ())"

definition fs_read_at_most :: "nat \<Rightarrow> path \<Rightarrow> (io_error + u8 list) disk_io" where
  "fs_read_at_most n p = io_pure (\<lambda>d.
     case dk_files d p of None \<Rightarrow> Err IoNotFound | Some f \<Rightarrow> Ok (take n (fl_bytes f)))"

definition fs_exists :: "path \<Rightarrow> (io_error + unit) disk_io" where
  "fs_exists p = io_pure (\<lambda>d. if p \<in> dk_directories d \<or> dk_files d p \<noteq> None then Ok () else Err IoNotFound)"

definition fs_read_directory :: "(disk \<Rightarrow> path \<Rightarrow> path list) \<Rightarrow> path \<Rightarrow> (io_error + path list) disk_io" where
  "fs_read_directory listing p = io_pure (\<lambda>d.
     if p \<in> dk_directories d then Ok (listing (d\<lparr>dk_faults := []\<rparr>) p) else Err IoNotFound)"

definition fail :: "'e \<Rightarrow> ('s, 'e + 'a) state" where
  "fail e = State_Monad.return (Err e)"

definition read_profile_file ::
  "path \<Rightarrow> profile_source_tier \<Rightarrow> profile_scan_limits \<Rightarrow> (profile_source_error + profile_source) disk_io" where
  "read_profile_file p tier limits =
     attempt (with_error (source_io p) (fs_symlink_metadata p)) (\<lambda>metadata.
     (case metadata of
        SymlinkFile \<Rightarrow> fail (SourceSymlink p)
      | DirectoryFile \<Rightarrow> fail (SourceNotRegular p)
      | RegularFile n \<Rightarrow>
          if n > psl_maximum_file_bytes limits then fail (SourceFileTooLarge p n (psl_maximum_file_bytes limits))
          else case source_format_of p of
              None \<Rightarrow> fail (SourceUnsupportedExtension p)
            | Some format \<Rightarrow>
                attempt (with_error (source_io p) (fs_open p)) (\<lambda>_.
                attempt (with_error (source_io p) (fs_read_at_most (psl_maximum_file_bytes limits + 1) p)) (\<lambda>bytes.
                if length bytes > psl_maximum_file_bytes limits
                then fail (SourceFileTooLarge p (length bytes) (psl_maximum_file_bytes limits))
                else State_Monad.return (Ok
                  \<lparr>psr_path = p, psr_bytes = bytes, psr_format = format, psr_tier = tier\<rparr>)))))"

definition load_single :: "path \<Rightarrow> (profile_source_error + profile_source) disk_io" where
  "load_single p = read_profile_file p ExplicitTier scan_limits_default"

subsection \<open>The scan\<close>

fun collect_entries :: "profile_source_tier \<Rightarrow> path list \<Rightarrow> (profile_source_error + (path \<times> profile_source_tier) list) disk_io" where
  "collect_entries tier [] = State_Monad.return (Ok [])"
| "collect_entries tier (p # ps) =
     attempt (with_error (source_io p) (fs_symlink_metadata p)) (\<lambda>metadata.
     if metadata = SymlinkFile then fail (SourceSymlink p)
     else attempt (collect_entries tier ps) (\<lambda>rest. State_Monad.return (Ok
       (if metadata \<noteq> DirectoryFile \<and> source_format_of p \<noteq> None then (p, tier) # rest else rest))))"

text \<open>A directory that does not exist contributes nothing; \<open>exists\<close> takes every error for absence.\<close>

definition collect_directory ::
  "(disk \<Rightarrow> path \<Rightarrow> path list) \<Rightarrow> profile_source_tier \<Rightarrow> path option
     \<Rightarrow> (profile_source_error + (path \<times> profile_source_tier) list) disk_io" where
  "collect_directory listing tier directory =
     (case directory of
        None \<Rightarrow> State_Monad.return (Ok [])
      | Some p \<Rightarrow> do {
          found \<leftarrow> fs_exists p;
          (case found of
             Inl _ \<Rightarrow> State_Monad.return (Ok [])
           | Inr _ \<Rightarrow> attempt (with_error (source_io p) (fs_read_directory listing p)) (collect_entries tier))
        })"

definition candidate_key :: "path \<times> profile_source_tier \<Rightarrow> nat \<times> string list" where
  "candidate_key c = (tier_precedence (snd c), path_components (fst c))"

text \<open>The loop over the candidates with the set of those seen, the number of sources and their bytes.\<close>

fun read_candidates ::
  "profile_scan_limits \<Rightarrow> (profile_source_tier \<times> path) set \<Rightarrow> nat \<Rightarrow> nat \<Rightarrow> (path \<times> profile_source_tier) list
     \<Rightarrow> (profile_source_error + profile_source list) disk_io" where
  "read_candidates limits seen n total_bytes [] = State_Monad.return (Ok [])"
| "read_candidates limits seen n total_bytes ((p, tier) # cs) =
     (if (tier, p) \<in> seen then read_candidates limits seen n total_bytes cs
      else if n \<ge> psl_maximum_files limits then fail (SourceTooManyFiles (psl_maximum_files limits))
      else attempt (read_profile_file p tier limits) (\<lambda>source.
           let total = total_bytes + length (psr_bytes source) in
           if total > 2 ^ 64 - 1 \<or> total > psl_maximum_total_bytes limits
           then fail (SourceTooManyBytes (psl_maximum_total_bytes limits))
           else attempt (read_candidates limits (insert (tier, p) seen) (n + 1) total cs) (\<lambda>sources.
             State_Monad.return (Ok (source # sources)))))"

definition load_profile_sources ::
  "(disk \<Rightarrow> path \<Rightarrow> path list) \<Rightarrow> profile_locations \<Rightarrow> profile_scan_limits
     \<Rightarrow> (profile_source_error + profile_source list) disk_io" where
  "load_profile_sources listing locations limits =
     attempt (collect_directory listing UserTier (plo_user_directory locations)) (\<lambda>user.
     attempt (collect_directory listing SystemTier (plo_system_directory locations)) (\<lambda>system.
     read_candidates limits {} 0 0
       (sort_key candidate_key (map (\<lambda>p. (p, ExplicitTier)) (plo_explicit locations) @ user @ system))))"

end
