(* ===== verification/Profile_Registry.thy ===== *)
theory Profile_Registry
  imports Profile_Sources
begin

text \<open>
  The profile registry (\<open>lantern-app/src/profile_registry.rs\<close>): the profiles of all sources by their
  identifier, the source of the highest tier first, and whether a profile is the one that the manifest
  embedded in the program names. Profile and identifier errors are carried as such and not as their texts, and \<open>None\<close> is a panic of
  the validation.
\<close>

datatype (plugins only: code size) profile_origin = Packaged | LocalUntrusted

record 'd profile_registry_entry =
  pre_profile :: "'d validated_device_profile"
  pre_path :: path
  pre_tier :: profile_source_tier
  pre_origin :: profile_origin

record packaged_profile_entry =
  ppe_profile_id :: string
  ppe_revision :: u32
  ppe_profile_hash :: string
  ppe_write_capable :: bool
  ppe_qualification_report_id :: "string option"

record packaged_profiles_manifest =
  ppm_schema_version :: u32
  ppm_build_id :: string
  ppm_profiles :: "packaged_profile_entry list"

datatype qualification_evidence_kind = PhysicalHardware

record qualification_report =
  qre_report_id :: string
  qre_profile_hash :: string
  qre_evidence_kind :: qualification_evidence_kind
  qre_hardware_model :: string
  qre_firmware :: string
  qre_manual_revision :: string
  qre_safe_write_scope :: string

record qualification_index =
  qix_schema_version :: u32
  qix_reports_by_profile_hash :: "(string, qualification_report) btree_map"

type_synonym 'd profile_registry = "(profile_id, 'd profile_registry_entry) btree_map"

datatype profile_registry_error =
    RegistrySource profile_source_error
  | InvalidProfile path profile_error
  | SameTierCollision profile_id path path profile_source_tier
  | InvalidManifest string
  | InvalidManifestId id_error
  | MissingQualification profile_id string

definition is_sha256_hex :: "string \<Rightarrow> bool" where
  "is_sha256_hex s \<longleftrightarrow> length s = 64 \<and>
     list_all (\<lambda>c. let n = (of_char c :: nat) in (48 \<le> n \<and> n \<le> 57) \<or> (97 \<le> n \<and> n \<le> 102)) s"

definition profile_write_capable :: "'d validated_device_profile \<Rightarrow> bool" where
  "profile_write_capable p \<longleftrightarrow> list_ex (\<lambda>(i, q). vp_access q \<noteq> ReadOnly) (vdp_parameters p)"

definition is_qualified :: "string option \<Rightarrow> bool" where
  "is_qualified r \<longleftrightarrow> (case r of None \<Rightarrow> False | Some v \<Rightarrow> v \<noteq> [])"

definition manifest_entry_matches :: "'d validated_device_profile \<Rightarrow> packaged_profile_entry \<Rightarrow> bool" where
  "manifest_entry_matches p e \<longleftrightarrow>
     ppe_profile_id e = vdp_profile_id p \<and> ppe_revision e = vdp_revision p \<and>
     ppe_profile_hash e = to_hex (vdp_profile_hash p) \<and> ppe_write_capable e = profile_write_capable p \<and>
     (\<not> profile_write_capable p \<or> is_qualified (ppe_qualification_report_id e))"

definition determine_origin ::
  "'d validated_device_profile \<Rightarrow> profile_source_tier \<Rightarrow> packaged_profiles_manifest \<Rightarrow> profile_origin" where
  "determine_origin p tier manifest =
     (if tier \<noteq> SystemTier then LocalUntrusted
      else if list_ex (manifest_entry_matches p) (ppm_profiles manifest) then Packaged else LocalUntrusted)"

fun validate_manifest_entries ::
  "profile_id set \<Rightarrow> packaged_profile_entry list \<Rightarrow> profile_registry_error + unit" where
  "validate_manifest_entries ids [] = Ok ()"
| "validate_manifest_entries ids (e # es) =
     and_then (map_err InvalidManifestId (parse_id (ppe_profile_id e))) (\<lambda>i.
       if ppe_revision e = 0 then Err (InvalidManifest (''profile '' @ i @ '' has revision zero''))
       else if \<not> is_sha256_hex (ppe_profile_hash e)
       then Err (InvalidManifest (''profile '' @ i @ '' has an invalid profile_hash''))
       else if ppe_write_capable e \<and> \<not> is_qualified (ppe_qualification_report_id e)
       then Err (InvalidManifest (''write-capable profile '' @ i @ '' lacks qualification_report_id''))
       else if i \<in> ids then Err (InvalidManifest (''duplicate profile '' @ i))
       else validate_manifest_entries (insert i ids) es)"

definition validate_manifest :: "packaged_profiles_manifest \<Rightarrow> profile_registry_error + unit" where
  "validate_manifest m =
     (if ppm_schema_version m \<noteq> 1 then Err (InvalidManifest ''schema_version must be 1'')
      else if ppm_build_id m = [] then Err (InvalidManifest ''build_id must not be empty'')
      else validate_manifest_entries {} (ppm_profiles m))"

definition validate_qualification_report :: "string \<Rightarrow> qualification_report \<Rightarrow> profile_registry_error + unit" where
  "validate_qualification_report expected_hash r =
     (if qre_profile_hash r \<noteq> expected_hash \<or> \<not> is_sha256_hex (qre_profile_hash r)
      then Err (InvalidManifest ''qualification report profile_hash does not match the exact validated profile'')
      else if qre_report_id r = [] \<or> qre_hardware_model r = [] \<or> qre_firmware r = [] \<or>
              qre_manual_revision r = [] \<or> qre_safe_write_scope r = []
      then Err (InvalidManifest ''qualification report must contain report ID, physical hardware, firmware, manual revision, and safe write scope'')
      else Ok ())"

subsection \<open>Loading\<close>

definition source_key :: "profile_source \<Rightarrow> nat \<times> string list" where
  "source_key s = (tier_precedence (psr_tier s), path_components (psr_path s))"

definition registry_insert ::
  "packaged_profiles_manifest \<Rightarrow> profile_source \<Rightarrow> 'd validated_device_profile \<Rightarrow> 'd profile_registry
     \<Rightarrow> profile_registry_error + 'd profile_registry" where
  "registry_insert manifest s profile entries =
     (let i = vdp_profile_id profile;
          entry = \<lparr>pre_profile = profile, pre_path = psr_path s, pre_tier = psr_tier s,
                   pre_origin = determine_origin profile (psr_tier s) manifest\<rparr>
      in case bt_get entries i of
           None \<Rightarrow> Ok (bt_insert i entry entries)
         | Some existing \<Rightarrow>
             if pre_tier existing = psr_tier s
             then Err (SameTierCollision i (pre_path existing) (psr_path s) (psr_tier s))
             else if tier_precedence (pre_tier existing) > tier_precedence (psr_tier s) then Ok entries
             else Ok (bt_insert i entry entries))"

fun registry_fold ::
  "'d profile_env \<Rightarrow> packaged_profiles_manifest \<Rightarrow> profile_source list \<Rightarrow> 'd profile_registry
     \<Rightarrow> (profile_registry_error + 'd profile_registry) option" where
  "registry_fold E manifest [] entries = Some (Ok entries)"
| "registry_fold E manifest (s # ss) entries =
     (case parse_and_validate_profile E (psr_bytes s) (psr_format s) of
        None \<Rightarrow> None
      | Some (Inl e) \<Rightarrow> Some (Err (InvalidProfile (psr_path s) e))
      | Some (Inr (profile, _)) \<Rightarrow>
          (case registry_insert manifest s profile entries of
             Inl e \<Rightarrow> Some (Err e)
           | Inr entries' \<Rightarrow> registry_fold E manifest ss entries'))"

definition from_sources ::
  "'d profile_env \<Rightarrow> profile_source list \<Rightarrow> packaged_profiles_manifest
     \<Rightarrow> (profile_registry_error + 'd profile_registry) option" where
  "from_sources E sources manifest =
     (case validate_manifest manifest of
        Inl e \<Rightarrow> Some (Err e)
      | Inr _ \<Rightarrow> registry_fold E manifest (sort_key source_key sources) [])"

definition registry_load ::
  "'d profile_env \<Rightarrow> (disk \<Rightarrow> path \<Rightarrow> path list) \<Rightarrow> profile_locations \<Rightarrow> profile_scan_limits \<Rightarrow> packaged_profiles_manifest
     \<Rightarrow> (profile_registry_error + 'd profile_registry) option disk_io" where
  "registry_load E listing locations limits manifest = do {
     r \<leftarrow> load_profile_sources listing locations limits;
     State_Monad.return (case r of
         Inl e \<Rightarrow> Some (Err (RegistrySource e))
       | Inr sources \<Rightarrow> from_sources E sources manifest)
   }"

definition find_by_hash :: "'d profile_registry \<Rightarrow> string \<Rightarrow> 'd profile_registry_entry option" where
  "find_by_hash registry profile_hash =
     find (\<lambda>e. to_hex (vdp_profile_hash (pre_profile e)) = profile_hash) (map snd registry)"

definition validate_source ::
  "'d profile_env \<Rightarrow> profile_source \<Rightarrow> (profile_error + 'd validated_device_profile) option" where
  "validate_source E s =
     map_option (\<lambda>r. and_then r (\<lambda>(profile, _). Ok profile)) (parse_and_validate_profile E (psr_bytes s) (psr_format s))"

subsection \<open>Building a manifest\<close>

definition manifest_entry ::
  "qualification_index \<Rightarrow> 'd validated_device_profile \<Rightarrow> profile_registry_error + packaged_profile_entry" where
  "manifest_entry index p =
     (let hash = to_hex (vdp_profile_hash p) in
      and_then (case bt_get (qix_reports_by_profile_hash index) hash of
          None \<Rightarrow> Ok None
        | Some r \<Rightarrow> and_then (validate_qualification_report hash r) (\<lambda>_. Ok (Some (qre_report_id r)))) (\<lambda>report_id.
      if profile_write_capable p \<and> \<not> is_qualified report_id then Err (MissingQualification (vdp_profile_id p) hash)
      else Ok \<lparr>ppe_profile_id = vdp_profile_id p, ppe_revision = vdp_revision p, ppe_profile_hash = hash,
               ppe_write_capable = profile_write_capable p, ppe_qualification_report_id = report_id\<rparr>))"

fun manifest_entries ::
  "qualification_index \<Rightarrow> 'd validated_device_profile list \<Rightarrow> profile_registry_error + packaged_profile_entry list" where
  "manifest_entries index [] = Ok []"
| "manifest_entries index (p # ps) =
     and_then (manifest_entry index p) (\<lambda>e. and_then (manifest_entries index ps) (\<lambda>es. Ok (e # es)))"

definition build_manifest ::
  "string \<Rightarrow> 'd validated_device_profile list \<Rightarrow> qualification_index \<Rightarrow> profile_registry_error + packaged_profiles_manifest" where
  "build_manifest build_id profiles index =
     (if qix_schema_version index \<noteq> 1 then Err (InvalidManifest ''qualification index schema_version must be 1'')
      else and_then (manifest_entries index profiles) (\<lambda>entries.
        let manifest = \<lparr>ppm_schema_version = 1, ppm_build_id = build_id, ppm_profiles = sort_key ppe_profile_id entries\<rparr>
        in and_then (validate_manifest manifest) (\<lambda>_. Ok manifest)))"

end
