(* ===== verification/Profile_Trust.thy ===== *)
theory Profile_Trust
  imports Profile_Registry Ports
begin

text \<open>
  The trust in profiles (\<open>lantern-storage/src/profile_trust.rs\<close>): the store of the operator's local
  approvals, and the runtime trust that reads the profile file and the store again at every check. The
  serializer of the store, the time and the version of the program are parameters. An option around a
  result stands for a panic of the profile validation.
\<close>

record local_profile_approval =
  lpa_profile_id :: string
  lpa_revision :: u32
  lpa_profile_hash :: string
  lpa_approved_unix_nanos :: string
  lpa_app_version :: string
  lpa_manual_source :: string
  lpa_operator_summary :: string

record local_profile_trust_store =
  lts_schema_version :: u32
  lts_approvals :: "local_profile_approval list"

datatype (plugins only: code size) manifest_copy_status = CopyMatch | CopyMissing | CopyMismatch

datatype profile_trust_storage_error =
    TrustSymlink path
  | TrustNotRegular path
  | TrustTooLarge
  | TrustInvalid string
  | TrustIo path string
  | HashConfirmationMismatch
  | InvalidOperatorText

definition trust_io :: "path \<Rightarrow> io_error \<Rightarrow> profile_trust_storage_error" where
  "trust_io p e = TrustIo p (io_error_text e)"

definition LOCAL_PROFILE_TRUST_SCHEMA_VERSION :: u32 where "LOCAL_PROFILE_TRUST_SCHEMA_VERSION = 1"
definition MAX_TRUST_STORE_BYTES :: nat where "MAX_TRUST_STORE_BYTES = 1024 * 1024"
definition MAX_OPERATOR_TEXT_CHARS :: nat where "MAX_OPERATOR_TEXT_CHARS = 4096"
definition TRUST_DIR_MODE :: u32 where "TRUST_DIR_MODE = 0x1C0"

record 'd trust_env =
  tre_profiles :: "'d profile_env"
  tre_store_to_vec :: "local_profile_trust_store \<Rightarrow> string + u8 list"
  tre_store_from_slice :: "u8 list \<Rightarrow> string + local_profile_trust_store"
  tre_now_nanos :: u128
  tre_app_version :: string

subsection \<open>The store\<close>

text \<open>The characters of a UTF-8 text are its bytes without the continuation bytes.\<close>

definition char_count :: "string \<Rightarrow> nat" where
  "char_count s = length (filter (\<lambda>c. let n = (of_char c :: nat) in n < 0x80 \<or> n \<ge> 0xC0) s)"

definition valid_operator_text :: "string \<Rightarrow> bool" where
  "valid_operator_text s \<longleftrightarrow>
     s \<noteq> [] \<and> char_count s \<le> MAX_OPERATOR_TEXT_CHARS \<and> first_control 0 (map of_char s) = None"

definition approval_well_formed :: "local_profile_approval \<Rightarrow> bool" where
  "approval_well_formed a \<longleftrightarrow>
     parse_id (lpa_profile_id a) = Ok (lpa_profile_id a) \<and> lpa_revision a \<noteq> 0 \<and> is_sha256_hex (lpa_profile_hash a) \<and>
     lpa_app_version a \<noteq> [] \<and> valid_operator_text (lpa_manual_source a) \<and> valid_operator_text (lpa_operator_summary a)"

definition parse_store ::
  "'d trust_env \<Rightarrow> u8 list \<Rightarrow> profile_trust_storage_error + local_profile_trust_store" where
  "parse_store E bytes =
     (if length bytes > MAX_TRUST_STORE_BYTES then Err TrustTooLarge
      else and_then (map_err TrustInvalid (tre_store_from_slice E bytes)) (\<lambda>store.
        if lts_schema_version store \<noteq> LOCAL_PROFILE_TRUST_SCHEMA_VERSION
        then Err (TrustInvalid ''unsupported local profile trust schema'')
        else if \<not> list_all approval_well_formed (lts_approvals store)
        then Err (TrustInvalid ''local approval contains invalid fields'')
        else Ok store))"

definition regular_file ::
  "path \<Rightarrow> file_kind \<Rightarrow> profile_trust_storage_error + unit" where
  "regular_file p kind =
     (case kind of
        SymlinkFile \<Rightarrow> Err (TrustSymlink p)
      | DirectoryFile \<Rightarrow> Err (TrustNotRegular p)
      | RegularFile n \<Rightarrow> if n > MAX_TRUST_STORE_BYTES then Err TrustTooLarge else Ok ())"

definition load_store ::
  "'d trust_env \<Rightarrow> path \<Rightarrow> (profile_trust_storage_error + local_profile_trust_store option) disk_io" where
  "load_store E p = do {
     metadata \<leftarrow> fs_symlink_metadata p;
     (case metadata of
        Inl IoNotFound \<Rightarrow> State_Monad.return (Ok None)
      | Inl e \<Rightarrow> fail (trust_io p e)
      | Inr kind \<Rightarrow>
          attempt (State_Monad.return (regular_file p kind)) (\<lambda>_.
          attempt (with_error (trust_io p) (fs_read p)) (\<lambda>bytes.
          State_Monad.return (and_then (parse_store E bytes) (\<lambda>store. Ok (Some store))))))
   }"

definition ensure_private_parent :: "path \<Rightarrow> (profile_trust_storage_error + unit) disk_io" where
  "ensure_private_parent p =
     attempt (State_Monad.return (case path_parent p of
         None \<Rightarrow> Err (TrustInvalid ''trust path has no parent'')
       | Some q \<Rightarrow> if q = [] then Err (TrustInvalid ''trust path has no parent'') else Ok q)) (\<lambda>parent. do {
       metadata \<leftarrow> fs_symlink_metadata parent;
       (case metadata of
          Inr SymlinkFile \<Rightarrow> fail (TrustSymlink parent)
        | Inr (RegularFile n) \<Rightarrow> fail (TrustNotRegular parent)
        | _ \<Rightarrow>
            attempt (with_error (trust_io parent) (fs_create_directories parent)) (\<lambda>_.
            with_error (trust_io parent) (fs_set_directory_mode parent TRUST_DIR_MODE)))
     })"

definition add_approval :: "local_profile_approval \<Rightarrow> local_profile_trust_store \<Rightarrow> local_profile_trust_store" where
  "add_approval a store =
     store\<lparr>lts_approvals :=
       sort_key lpa_profile_id (filter (\<lambda>b. lpa_profile_id b \<noteq> lpa_profile_id a) (lts_approvals store) @ [a])\<rparr>"

definition approval_of ::
  "'d trust_env \<Rightarrow> 'd validated_device_profile \<Rightarrow> string \<Rightarrow> string \<Rightarrow> string \<Rightarrow> local_profile_approval" where
  "approval_of E profile expected_hash manual_source operator_summary =
     \<lparr>lpa_profile_id = vdp_profile_id profile, lpa_revision = vdp_revision profile, lpa_profile_hash = expected_hash,
      lpa_approved_unix_nanos = nat_text (unat (tre_now_nanos E)), lpa_app_version = tre_app_version E,
      lpa_manual_source = manual_source, lpa_operator_summary = operator_summary\<rparr>"

definition approve_local_profile ::
  "'d trust_env \<Rightarrow> path \<Rightarrow> 'd validated_device_profile \<Rightarrow> string \<Rightarrow> string \<Rightarrow> string
     \<Rightarrow> (profile_trust_storage_error + local_profile_approval) disk_io" where
  "approve_local_profile E p profile expected_hash manual_source operator_summary =
     (if to_hex (vdp_profile_hash profile) \<noteq> expected_hash then fail HashConfirmationMismatch
      else if \<not> valid_operator_text manual_source \<or> \<not> valid_operator_text operator_summary then fail InvalidOperatorText
      else
        let approval = approval_of E profile expected_hash manual_source operator_summary in
        attempt (load_store E p) (\<lambda>found.
        let store = (case found of
              None \<Rightarrow> \<lparr>lts_schema_version = LOCAL_PROFILE_TRUST_SCHEMA_VERSION, lts_approvals = []\<rparr> | Some s \<Rightarrow> s)
        in if lts_schema_version store \<noteq> LOCAL_PROFILE_TRUST_SCHEMA_VERSION
           then fail (TrustInvalid ''unsupported local profile trust schema'')
           else
             attempt (ensure_private_parent p) (\<lambda>_.
             attempt (State_Monad.return (map_err TrustInvalid (tre_store_to_vec E (add_approval approval store)))) (\<lambda>bytes.
             if length bytes > MAX_TRUST_STORE_BYTES then fail TrustTooLarge
             else attempt (with_error (\<lambda>e. TrustInvalid (atomic_write_error_text e)) (atomic_write p bytes)) (\<lambda>_.
               State_Monad.return (Ok approval))))))"

definition verify_packaged_manifest_copy ::
  "path \<Rightarrow> u8 list \<Rightarrow> (profile_trust_storage_error + manifest_copy_status) disk_io" where
  "verify_packaged_manifest_copy p embedded = do {
     metadata \<leftarrow> fs_symlink_metadata p;
     (case metadata of
        Inl IoNotFound \<Rightarrow> State_Monad.return (Ok CopyMissing)
      | Inl e \<Rightarrow> fail (trust_io p e)
      | Inr kind \<Rightarrow>
          attempt (State_Monad.return (regular_file p kind)) (\<lambda>_.
          attempt (with_error (trust_io p) (fs_read p)) (\<lambda>bytes.
          State_Monad.return (Ok (if bytes = embedded then CopyMatch else CopyMismatch)))))
   }"

subsection \<open>The runtime trust\<close>

record 'd runtime_profile_trust =
  rpt_registry :: "'d profile_registry"
  rpt_trust_store_path :: path

definition same_profile :: "'d validated_device_profile \<Rightarrow> 'd validated_device_profile \<Rightarrow> bool" where
  "same_profile p q \<longleftrightarrow>
     vdp_profile_id p = vdp_profile_id q \<and> vdp_revision p = vdp_revision q \<and> vdp_profile_hash p = vdp_profile_hash q"

definition entry_is_current :: "'d trust_env \<Rightarrow> 'd profile_registry_entry \<Rightarrow> bool option disk_io" where
  "entry_is_current E entry = do {
     source \<leftarrow> load_single (pre_path entry);
     State_Monad.return (case source of
         Inl _ \<Rightarrow> Some False
       | Inr s \<Rightarrow> map_option (\<lambda>r. case r of Inl _ \<Rightarrow> False | Inr current \<Rightarrow> same_profile current (pre_profile entry))
           (validate_source (tre_profiles E) s))
   }"

definition approval_matches :: "'d validated_device_profile \<Rightarrow> local_profile_approval \<Rightarrow> bool" where
  "approval_matches p a \<longleftrightarrow>
     lpa_profile_id a = vdp_profile_id p \<and> lpa_revision a = vdp_revision p \<and>
     lpa_profile_hash a = to_hex (vdp_profile_hash p)"

definition local_approval_matches ::
  "'d trust_env \<Rightarrow> path \<Rightarrow> 'd profile_registry_entry \<Rightarrow> bool disk_io" where
  "local_approval_matches E p entry = do {
     store \<leftarrow> load_store E p;
     State_Monad.return (case store of
         Inr (Some s) \<Rightarrow> list_ex (approval_matches (pre_profile entry)) (lts_approvals s)
       | _ \<Rightarrow> False)
   }"

definition trust_is_trusted ::
  "'d trust_env \<Rightarrow> 'd runtime_profile_trust \<Rightarrow> profile_id \<Rightarrow> bool option disk_io" where
  "trust_is_trusted E T i =
     (case bt_get (rpt_registry T) i of
        None \<Rightarrow> State_Monad.return (Some False)
      | Some entry \<Rightarrow> do {
          current \<leftarrow> entry_is_current E entry;
          (case current of
             None \<Rightarrow> State_Monad.return None
           | Some False \<Rightarrow> State_Monad.return (Some False)
           | Some True \<Rightarrow>
               (case pre_origin entry of
                  Packaged \<Rightarrow> State_Monad.return (Some True)
                | LocalUntrusted \<Rightarrow> do {
                    b \<leftarrow> local_approval_matches E (rpt_trust_store_path T) entry;
                    State_Monad.return (Some b)
                  }))
        })"

definition trust_active_profile_by_hash ::
  "'d trust_env \<Rightarrow> 'd runtime_profile_trust \<Rightarrow> string
     \<Rightarrow> (profile_trust_error + 'd validated_device_profile) option disk_io" where
  "trust_active_profile_by_hash E T profile_hash =
     (case find_by_hash (rpt_registry T) profile_hash of
        None \<Rightarrow> State_Monad.return (Some (Err (TrustHashMismatch profile_hash)))
      | Some entry \<Rightarrow> do {
          current \<leftarrow> entry_is_current E entry;
          State_Monad.return (map_option (\<lambda>b. if b then Ok (pre_profile entry) else Err (TrustHashMismatch profile_hash)) current)
        })"

end
