(* ===== verification/Trust_Properties.thy ===== *)
theory Trust_Properties
  imports Profile_Trust "HOL-Library.Multiset"
begin

text \<open>
  What the trust in a profile is worth: the registry keeps one source of the highest tier per profile;
  a trusted profile is, at the moment of the check, the one that the manifest of the program or an
  approval of the operator names by its hash; and a packaged profile is recognised.
\<close>

subsection \<open>Reading files\<close>

lemma does_fs_symlink_metadata:
  "does (fs_symlink_metadata p) (\<lambda>d r e. quiet d e \<and>
     (r = (if p \<in> dk_symlinks d then Ok SymlinkFile
           else if p \<in> dk_directories d then Ok DirectoryFile
           else case dk_files d p of None \<Rightarrow> Err IoNotFound | Some f \<Rightarrow> Ok (RegularFile (length (fl_bytes f)))) \<or>
      (\<exists>m. r = Err (IoOther m))))"
  unfolding fs_symlink_metadata_def by (rule does_io_pure) simp

lemma does_fs_open: "does (fs_open p) (\<lambda>d r e. quiet d e)"
  unfolding fs_open_def by (rule does_mono [OF does_io_pure]) auto

lemma does_fs_read_at_most:
  "does (fs_read_at_most n p) (\<lambda>d r e. quiet d e \<and>
     (\<forall>bytes. r = Ok bytes \<longrightarrow> (\<exists>f. dk_files d p = Some f \<and> bytes = take n (fl_bytes f))))"
  unfolding fs_read_at_most_def by (rule does_mono [OF does_io_pure]) (auto split: option.splits)

lemma does_fail: "does (fail x) (\<lambda>d r e. r = Err x \<and> quiet d e)"
  unfolding fail_def by (rule does_mono [OF does_return]) auto

lemma does_fail_iff [simp]: "does (fail x) A \<longleftrightarrow> (\<forall>d. A d (Err x) d)"
  by (simp add: does_def fail_def wp_return_fun)

text \<open>The file at \<open>p\<close> is a source: regular, within the limit, of a known format.\<close>

definition source_on_disk :: "disk \<Rightarrow> path \<Rightarrow> profile_source \<Rightarrow> bool" where
  "source_on_disk d p s \<longleftrightarrow>
     (\<exists>f. dk_files d p = Some f \<and> p \<notin> dk_symlinks d \<and> p \<notin> dk_directories d \<and>
        length (fl_bytes f) \<le> MAX_PROFILE_FILE_BYTES \<and> psr_path s = p \<and> psr_bytes s = fl_bytes f \<and>
        source_format_of p = Some (psr_format s))"

lemma quiet_source: "quiet d e \<Longrightarrow> source_on_disk e p s = source_on_disk d p s"
  by (simp add: quiet_def source_on_disk_def)

lemma does_load_single:
  "does (load_single p) (\<lambda>d r e. quiet d e \<and> (\<forall>s. r = Ok s \<longrightarrow> source_on_disk d p s))"
proof -
  let ?R = "\<lambda>d (r :: profile_source_error + profile_source) e. quiet d e \<and> (\<forall>s. r = Ok s \<longrightarrow> source_on_disk d p s)"
  let ?M = MAX_PROFILE_FILE_BYTES
  have rest: "does (case metadata of
        SymlinkFile \<Rightarrow> fail (SourceSymlink p)
      | DirectoryFile \<Rightarrow> fail (SourceNotRegular p)
      | RegularFile n \<Rightarrow>
          if n > ?M then fail (SourceFileTooLarge p n ?M)
          else case source_format_of p of
              None \<Rightarrow> fail (SourceUnsupportedExtension p)
            | Some format \<Rightarrow>
                attempt (with_error (source_io p) (fs_open p)) (\<lambda>_.
                attempt (with_error (source_io p) (fs_read_at_most (?M + 1) p)) (\<lambda>bytes.
                if length bytes > ?M
                then fail (SourceFileTooLarge p (length bytes) ?M)
                else State_Monad.return (Ok
                  \<lparr>psr_path = p, psr_bytes = bytes, psr_format = format, psr_tier = ExplicitTier\<rparr>))))
      (\<lambda>d r e. quiet d e \<and> (\<forall>s. r = Ok s \<longrightarrow> (\<exists>n. metadata = RegularFile n) \<and>
         (p \<notin> dk_symlinks d \<and> p \<notin> dk_directories d \<longrightarrow> source_on_disk d p s)))" for metadata
  proof -
    have read: "does (attempt (with_error (source_io p) (fs_open p)) (\<lambda>_.
        attempt (with_error (source_io p) (fs_read_at_most (?M + 1) p)) (\<lambda>bytes.
        if length bytes > ?M then fail (SourceFileTooLarge p (length bytes) ?M)
        else State_Monad.return (Ok \<lparr>psr_path = p, psr_bytes = bytes, psr_format = format, psr_tier = ExplicitTier\<rparr>))))
      (\<lambda>d r e. quiet d e \<and> (\<forall>s. r = Ok s \<longrightarrow>
         (p \<notin> dk_symlinks d \<and> p \<notin> dk_directories d \<longrightarrow> source_on_disk d p s)))"
      if "source_format_of p = Some format" for format
    proof -
      have last: "does (if length bytes > ?M then fail (SourceFileTooLarge p (length bytes) ?M)
          else State_Monad.return (Ok \<lparr>psr_path = p, psr_bytes = bytes, psr_format = format, psr_tier = ExplicitTier\<rparr>))
        (\<lambda>d r e. quiet d e \<and> (\<forall>s. r = Ok s \<longrightarrow> length bytes \<le> ?M \<and>
           s = \<lparr>psr_path = p, psr_bytes = bytes, psr_format = format, psr_tier = ExplicitTier\<rparr>))" for bytes
        by (auto intro: does_mono [OF does_fail] does_mono [OF does_return])
      have short: "length (take (Suc n) xs) \<le> n \<Longrightarrow> take (Suc n) xs = xs \<and> length xs \<le> n" for n and xs :: "u8 list"
        by (simp add: min_def split: if_splits)
      show ?thesis
        by (rule does_mono [OF does_attempt [OF does_with_error [OF does_fs_open]
              does_attempt [OF does_with_error [OF does_fs_read_at_most] last]]])
          (auto simp: quiet_def source_on_disk_def that dest!: short)
    qed
    show ?thesis
      using read by (cases metadata; cases "source_format_of p") auto
  qed
  show ?thesis
    unfolding load_single_def read_profile_file_def scan_limits_default_def profile_scan_limits.simps
    by (rule does_mono [OF does_attempt [OF does_with_error [OF does_fs_symlink_metadata] rest]])
      (auto simp: quiet_def source_on_disk_def split: if_splits option.splits)
qed

lemma does_load_store:
  "does (load_store E p) (\<lambda>d r e. quiet d e \<and> (\<forall>s. r = Ok (Some s) \<longrightarrow>
     (\<exists>f. dk_files d p = Some f \<and> p \<notin> dk_symlinks d \<and> p \<notin> dk_directories d \<and> parse_store E (fl_bytes f) = Ok s)) \<and>
     (\<forall>x. r = Ok x \<longrightarrow> p \<notin> dk_symlinks d \<and> p \<notin> dk_directories d) \<and>
     (r = Ok None \<longrightarrow> dk_files d p = None))"
proof -
  have read: "does (attempt (State_Monad.return (regular_file p kind)) (\<lambda>_.
      attempt (with_error (trust_io p) (fs_read p)) (\<lambda>bytes.
      State_Monad.return (and_then (parse_store E bytes) (\<lambda>store. Ok (Some store))))))
    (\<lambda>d r e. quiet d e \<and> (\<forall>x. r = Ok x \<longrightarrow> (\<exists>n. kind = RegularFile n) \<and>
       (\<exists>f s. x = Some s \<and> dk_files d p = Some f \<and> parse_store E (fl_bytes f) = Ok s)))" for kind
    by (rule does_mono [OF does_attempt [OF does_return does_attempt [OF does_with_error [OF does_fs_read] does_return]]])
      (auto simp: quiet_def regular_file_def and_then_Ok_iff split: file_kind.splits option.splits if_splits)
  have rest: "does (case metadata of
        Inl IoNotFound \<Rightarrow> State_Monad.return (Ok None)
      | Inl e \<Rightarrow> fail (trust_io p e)
      | Inr kind \<Rightarrow>
          attempt (State_Monad.return (regular_file p kind)) (\<lambda>_.
          attempt (with_error (trust_io p) (fs_read p)) (\<lambda>bytes.
          State_Monad.return (and_then (parse_store E bytes) (\<lambda>store. Ok (Some store))))))
    (\<lambda>d r e. quiet d e \<and> (\<forall>x. r = Ok x \<longrightarrow> metadata = Err IoNotFound \<and> x = None \<or>
       (\<exists>n f s. metadata = Ok (RegularFile n) \<and> x = Some s \<and> dk_files d p = Some f \<and> parse_store E (fl_bytes f) = Ok s)))"
    for metadata
  proof (cases metadata)
    case (Inl x)
    then show ?thesis by (cases x) (auto intro: does_mono [OF does_fail] does_mono [OF does_return])
  next
    case (Inr kind)
    then show ?thesis by (auto intro!: does_mono [OF read [of kind]])
  qed
  show ?thesis
    unfolding load_store_def
    by (rule does_mono [OF does_bind [OF does_fs_symlink_metadata rest]])
      (auto simp: quiet_def split: if_splits option.splits)
qed

subsection \<open>The registry\<close>

definition source_profile :: "'d profile_env \<Rightarrow> profile_source \<Rightarrow> 'd validated_device_profile \<Rightarrow> bool" where
  "source_profile E s p \<longleftrightarrow> validate_source E s = Some (Ok p)"

lemma source_profile_iff:
  "source_profile E s p \<longleftrightarrow> (\<exists>doc. parse_and_validate_profile E (psr_bytes s) (psr_format s) = Some (Ok (p, doc)))"
  by (auto simp: source_profile_def validate_source_def and_then_Ok_iff)

lemma source_profile_unique: "source_profile E s p \<Longrightarrow> source_profile E s q \<Longrightarrow> p = q"
  by (simp add: source_profile_def)

definition source_identity :: "'d profile_env \<Rightarrow> profile_source \<Rightarrow> profile_source_tier \<times> (unit + profile_id) option" where
  "source_identity E s =
     (psr_tier s, map_option (map_err (\<lambda>_. ()) \<circ> (\<lambda>r. and_then r (\<lambda>p. Ok (vdp_profile_id p)))) (validate_source E s))"

text \<open>What the entries say about the sources \<open>ss\<close> read so far, in the order of their tiers.\<close>

definition registry_inv ::
  "'d profile_env \<Rightarrow> packaged_profiles_manifest \<Rightarrow> profile_source list \<Rightarrow> 'd profile_registry \<Rightarrow> bool" where
  "registry_inv E manifest ss registry \<longleftrightarrow>
     (\<forall>s \<in> set ss. \<exists>p entry. source_profile E s p \<and> bt_get registry (vdp_profile_id p) = Some entry \<and>
        tier_precedence (psr_tier s) \<le> tier_precedence (pre_tier entry)) \<and>
     (\<forall>i entry. bt_get registry i = Some entry \<longrightarrow> vdp_profile_id (pre_profile entry) = i \<and>
        pre_origin entry = determine_origin (pre_profile entry) (pre_tier entry) manifest \<and>
        (\<exists>s \<in> set ss. source_profile E s (pre_profile entry) \<and> psr_path s = pre_path entry \<and> psr_tier s = pre_tier entry)) \<and>
     distinct (map (source_identity E) ss)"

lemma source_identity_profile: "source_profile E s p \<Longrightarrow> source_identity E s = (psr_tier s, Some (Ok (vdp_profile_id p)))"
  by (simp add: source_identity_def source_profile_def)

lemma tier_precedence_inj: "tier_precedence s = tier_precedence t \<longleftrightarrow> s = t"
  by (auto simp: tier_precedence_def split: profile_source_tier.splits)

lemma registry_step:
  assumes inv: "registry_inv E manifest ss registry" and p: "source_profile E s p"
    and order: "\<forall>t \<in> set ss. tier_precedence (psr_tier t) \<le> tier_precedence (psr_tier s)"
    and ins: "registry_insert manifest s p registry = Ok registry'"
  shows "registry_inv E manifest (ss @ [s]) registry'"
proof -
  let ?i = "vdp_profile_id p"
  let ?entry = "\<lparr>pre_profile = p, pre_path = psr_path s, pre_tier = psr_tier s,
    pre_origin = determine_origin p (psr_tier s) manifest\<rparr>"
  have below: "tier_precedence (pre_tier e) \<le> tier_precedence (psr_tier s)" if "bt_get registry i = Some e" for i e
  proof -
    from inv that obtain t where "t \<in> set ss" "psr_tier t = pre_tier e" unfolding registry_inv_def by blast
    with order show ?thesis by metis
  qed
  have reg: "registry' = bt_insert ?i ?entry registry" "\<forall>e. bt_get registry ?i = Some e \<longrightarrow> pre_tier e \<noteq> psr_tier s"
    using ins below [of ?i] tier_precedence_inj
    by (auto simp: registry_insert_def Let_def not_less split: option.splits if_splits)
      (metis leD)?
  have new: "source_identity E s \<notin> set (map (source_identity E) ss)"
  proof
    assume "source_identity E s \<in> set (map (source_identity E) ss)"
    then obtain t where t: "t \<in> set ss" "source_identity E t = source_identity E s" by auto
    from inv t(1) obtain q entry where q: "source_profile E t q" "bt_get registry (vdp_profile_id q) = Some entry"
      "tier_precedence (psr_tier t) \<le> tier_precedence (pre_tier entry)"
      unfolding registry_inv_def by blast
    from t(2) source_identity_profile [OF q(1)] source_identity_profile [OF p]
    have "psr_tier t = psr_tier s" "vdp_profile_id q = ?i" by simp_all
    with q below [OF q(2)] tier_precedence_inj reg(2) show False by (metis le_antisym)
  qed
  have sources: "\<exists>p entry. source_profile E t p \<and> bt_get registry' (vdp_profile_id p) = Some entry \<and>
      tier_precedence (psr_tier t) \<le> tier_precedence (pre_tier entry)" if t: "t \<in> set (ss @ [s])" for t
  proof (cases "t = s")
    case True
    with p reg(1) show ?thesis by auto
  next
    case False
    with t inv obtain q entry where q: "source_profile E t q" "bt_get registry (vdp_profile_id q) = Some entry"
      "tier_precedence (psr_tier t) \<le> tier_precedence (pre_tier entry)"
      unfolding registry_inv_def by auto
    show ?thesis
    proof (cases "vdp_profile_id q = ?i")
      case True
      from False t order have "tier_precedence (psr_tier t) \<le> tier_precedence (psr_tier s)" by simp
      with True q(1) reg(1) show ?thesis by (intro exI [of _ q] exI [of _ ?entry]) simp
    next
      case False
      with q reg(1) show ?thesis by (intro exI [of _ q] exI [of _ entry]) simp
    qed
  qed
  have entries: "vdp_profile_id (pre_profile e) = i \<and> pre_origin e = determine_origin (pre_profile e) (pre_tier e) manifest \<and>
      (\<exists>t \<in> set (ss @ [s]). source_profile E t (pre_profile e) \<and> psr_path t = pre_path e \<and> psr_tier t = pre_tier e)"
    if e: "bt_get registry' i = Some e" for i e
  proof (cases "i = ?i")
    case True
    with e reg(1) p show ?thesis by auto
  next
    case False
    with e reg(1) have "bt_get registry i = Some e" by simp
    with inv show ?thesis unfolding registry_inv_def by fastforce
  qed
  from inv new have "distinct (map (source_identity E) (ss @ [s]))"
    by (simp add: registry_inv_def)
  with sources entries show ?thesis unfolding registry_inv_def by blast
qed

lemma registry_fold_inv:
  "registry_fold E manifest ts registry = Some (Ok registry') \<Longrightarrow> registry_inv E manifest ss registry \<Longrightarrow>
     sorted (map (\<lambda>s. tier_precedence (psr_tier s)) (ss @ ts)) \<Longrightarrow> registry_inv E manifest (ss @ ts) registry'"
proof (induction ts arbitrary: ss registry)
  case (Cons t ts)
  from Cons.prems(1) obtain p doc reg where p: "parse_and_validate_profile E (psr_bytes t) (psr_format t) = Some (Ok (p, doc))"
    and reg: "registry_insert manifest t p registry = Ok reg" "registry_fold E manifest ts reg = Some (Ok registry')"
    by (auto split: option.splits sum.splits)
  from p have "source_profile E t p" by (auto simp: source_profile_iff)
  from registry_step [OF Cons.prems(2) this _ reg(1)] Cons.prems(3)
  have "registry_inv E manifest (ss @ [t]) reg" by (auto simp: sorted_append)
  from Cons.IH [OF reg(2) this] Cons.prems(3) show ?case by simp
qed simp

lemma from_sources_inv:
  assumes "from_sources E sources manifest = Some (Ok registry)"
  shows "registry_inv E manifest (sort_key source_key sources) registry"
proof -
  from assms have run: "registry_fold E manifest (sort_key source_key sources) [] = Some (Ok registry)"
    by (auto simp: from_sources_def split: sum.splits)
  have "sorted (map source_key (sort_key source_key sources))" by simp
  then have "sorted (map (\<lambda>s. tier_precedence (psr_tier s)) (sort_key source_key sources))"
    unfolding sorted_map by (rule sorted_wrt_mono_rel [rotated]) (auto simp: source_key_def less_eq_prod_def)
  with registry_fold_inv [OF run, of "[]"] show ?thesis by (simp add: registry_inv_def)
qed

text \<open>
  C17. The registry has an entry for the profile of every source, from a source of the highest tier that
  has the profile, and no two sources of one tier have the same profile: the registry is refused rather
  than one of them being chosen. An entry counts as packaged only for a source of the system tier.
\<close>

theorem registry_prefers_highest_tier:
  assumes "from_sources E sources manifest = Some (Ok registry)"
  shows "(\<forall>s \<in> set sources. \<exists>p entry. source_profile E s p \<and> bt_get registry (vdp_profile_id p) = Some entry \<and>
      tier_precedence (psr_tier s) \<le> tier_precedence (pre_tier entry)) \<and>
    (\<forall>i entry. bt_get registry i = Some entry \<longrightarrow> vdp_profile_id (pre_profile entry) = i \<and>
      (\<exists>s \<in> set sources. source_profile E s (pre_profile entry) \<and> psr_path s = pre_path entry \<and> psr_tier s = pre_tier entry) \<and>
      (pre_origin entry = Packaged \<longrightarrow> pre_tier entry = SystemTier)) \<and>
    distinct (map (source_identity E) sources)"
proof (intro conjI)
  note inv = from_sources_inv [OF assms, unfolded registry_inv_def set_sort]
  from inv show "\<forall>s \<in> set sources. \<exists>p entry. source_profile E s p \<and> bt_get registry (vdp_profile_id p) = Some entry \<and>
      tier_precedence (psr_tier s) \<le> tier_precedence (pre_tier entry)" by blast
  from inv show "\<forall>i entry. bt_get registry i = Some entry \<longrightarrow> vdp_profile_id (pre_profile entry) = i \<and>
      (\<exists>s \<in> set sources. source_profile E s (pre_profile entry) \<and> psr_path s = pre_path entry \<and> psr_tier s = pre_tier entry) \<and>
      (pre_origin entry = Packaged \<longrightarrow> pre_tier entry = SystemTier)"
    by (auto simp: determine_origin_def split: if_splits)
  from inv have "distinct (map (source_identity E) (sort_key source_key sources))" by blast
  then show "distinct (map (source_identity E) sources)"
    by (simp add: distinct_count_atmost_1)
qed

subsection \<open>Trust\<close>

lemma does_entry_is_current:
  "does (entry_is_current E entry) (\<lambda>d r e. quiet d e \<and> (r = Some True \<longrightarrow> (\<exists>s current.
     source_on_disk d (pre_path entry) s \<and> source_profile (tre_profiles E) s current \<and> same_profile current (pre_profile entry))))"
proof -
  have ok: "case_sum (\<lambda>_. False) f z \<longleftrightarrow> (\<exists>x. z = Ok x \<and> f x)" for z :: "profile_error + 'a validated_device_profile" and f
    by (cases z) auto
  have some: "Some True = map_option f x \<longleftrightarrow> (\<exists>z. x = Some z \<and> f z)" for f :: "profile_error + 'a validated_device_profile \<Rightarrow> bool" and x
    by (cases x) auto
  show ?thesis
    unfolding entry_is_current_def
    by (rule does_mono [OF does_bind [OF does_load_single does_return]])
      (auto simp: source_profile_def ok some split_sum_ex)
qed

lemma does_local_approval_matches:
  "does (local_approval_matches E p entry) (\<lambda>d r e. quiet d e \<and> (r \<longrightarrow> (\<exists>f store a.
     dk_files d p = Some f \<and> p \<notin> dk_symlinks d \<and> p \<notin> dk_directories d \<and> parse_store E (fl_bytes f) = Ok store \<and>
     a \<in> set (lts_approvals store) \<and> approval_matches (pre_profile entry) a)))"
  unfolding local_approval_matches_def
  by (rule does_mono [OF does_bind [OF does_load_store does_return]])
    (fastforce simp: list_ex_iff split: sum.splits option.splits)

lemma parse_store_approval:
  "parse_store E bytes = Ok store \<Longrightarrow> a \<in> set (lts_approvals store) \<Longrightarrow> approval_well_formed a"
  by (auto simp: parse_store_def and_then_Ok_iff list_all_iff split: if_splits)

text \<open>
  C16. When the trust check answers yes, then at that moment the profile's own file, a regular file of at
  most four megabytes that is not reached through a link, validates to the identifier, the revision and the hash
  of the profile in use; and either that profile came from the system tier and the manifest of the
  program names it by that hash, with a qualification report if it can write, or a well-formed approval
  in the operator's store names exactly that identifier, revision and hash. The check changes nothing.
\<close>

theorem trusted_profile_is_current_and_approved:
  assumes registry: "from_sources (tre_profiles E) sources manifest = Some (Ok registry)"
    and run: "run_state (trust_is_trusted E \<lparr>rpt_registry = registry, rpt_trust_store_path = p\<rparr> i) d = (Some True, e)"
  shows "\<exists>entry s current. bt_get registry i = Some entry \<and> source_on_disk d (pre_path entry) s \<and>
    source_profile (tre_profiles E) s current \<and> vdp_profile_id current = i \<and>
    vdp_revision current = vdp_revision (pre_profile entry) \<and> vdp_profile_hash current = vdp_profile_hash (pre_profile entry) \<and>
    quiet d e \<and>
    (pre_tier entry = SystemTier \<and> (\<exists>m \<in> set (ppm_profiles manifest). ppe_profile_id m = i \<and>
        ppe_revision m = vdp_revision current \<and> ppe_profile_hash m = to_hex (vdp_profile_hash current) \<and>
        (\<not> profile_write_capable (pre_profile entry) \<or> (\<exists>r. ppe_qualification_report_id m = Some r \<and> r \<noteq> []))) \<or>
     (\<exists>f store a. dk_files d p = Some f \<and> p \<notin> dk_symlinks d \<and> parse_store E (fl_bytes f) = Ok store \<and>
        a \<in> set (lts_approvals store) \<and> approval_well_formed a \<and> lpa_profile_id a = i \<and>
        lpa_revision a = vdp_revision current \<and> lpa_profile_hash a = to_hex (vdp_profile_hash current)))"
proof -
  from run obtain entry where entry: "bt_get registry i = Some entry"
    by (auto simp: trust_is_trusted_def split: option.splits)
  with from_sources_inv [OF registry] have origin: "vdp_profile_id (pre_profile entry) = i"
    "pre_origin entry = determine_origin (pre_profile entry) (pre_tier entry) manifest"
    unfolding registry_inv_def by blast+
  obtain b t where current: "run_state (entry_is_current E entry) d = (b, t)" by fastforce
  with run entry have b: "b = Some True"
    by (auto simp: trust_is_trusted_def split: option.splits bool.splits)
  from does_run [OF does_entry_is_current current] b obtain s c where s: "quiet d t" "source_on_disk d (pre_path entry) s"
    "source_profile (tre_profiles E) s c" "same_profile c (pre_profile entry)" by auto
  from s(4) origin(1) have id: "vdp_profile_id c = i" "vdp_revision c = vdp_revision (pre_profile entry)"
    "vdp_profile_hash c = vdp_profile_hash (pre_profile entry)" by (simp_all add: same_profile_def)
  show ?thesis
  proof (cases "pre_origin entry")
    case Packaged
    with run entry current b have "e = t" by (simp add: trust_is_trusted_def)
    moreover from Packaged origin(2) have "pre_tier entry = SystemTier"
      "\<exists>m \<in> set (ppm_profiles manifest). manifest_entry_matches (pre_profile entry) m"
      by (auto simp: determine_origin_def list_ex_iff split: if_splits)
    then have "pre_tier entry = SystemTier \<and> (\<exists>m \<in> set (ppm_profiles manifest). ppe_profile_id m = i \<and>
        ppe_revision m = vdp_revision c \<and> ppe_profile_hash m = to_hex (vdp_profile_hash c) \<and>
        (\<not> profile_write_capable (pre_profile entry) \<or> (\<exists>r. ppe_qualification_report_id m = Some r \<and> r \<noteq> [])))"
      using origin(1) id by (fastforce simp: manifest_entry_matches_def is_qualified_def split: option.splits)
    ultimately show ?thesis using entry s id by blast
  next
    case LocalUntrusted
    with run entry current b have local: "run_state (local_approval_matches E p entry) t = (True, e)"
      by (auto simp: trust_is_trusted_def split: prod.splits)
    from does_run [OF does_local_approval_matches local] obtain f store a where a: "quiet t e" "dk_files t p = Some f"
      "p \<notin> dk_symlinks t" "parse_store E (fl_bytes f) = Ok store" "a \<in> set (lts_approvals store)"
      "approval_matches (pre_profile entry) a" by blast
    from a(6) origin(1) id have "lpa_profile_id a = i" "lpa_revision a = vdp_revision c"
      "lpa_profile_hash a = to_hex (vdp_profile_hash c)" by (simp_all add: approval_matches_def)
    moreover from a(1) s(1) have "quiet d e" by (simp add: quiet_def)
    moreover from a(2,3) s(1) have "dk_files d p = Some f" "p \<notin> dk_symlinks d" by (simp_all add: quiet_def)
    ultimately show ?thesis using entry s id a(4,5) parse_store_approval [OF a(4,5)] by blast
  qed
qed

subsection \<open>Approvals\<close>

lemma does_ensure_private_parent: "does (ensure_private_parent p) (\<lambda>d r e. dk_files e = dk_files d)"
proof -
  have mode: "does (fs_set_directory_mode q m) (\<lambda>d r e. dk_files e = dk_files d)" for q m
    unfolding fs_set_directory_mode_def by (rule does_mono [OF does_io_pure]) (auto simp: quiet_def)
  have make: "does (attempt (with_error (trust_io q) (fs_create_directories q)) (\<lambda>_.
      with_error (trust_io q) (fs_set_directory_mode q TRUST_DIR_MODE))) (\<lambda>d r e. dk_files e = dk_files d)" for q
    by (rule does_mono [OF does_attempt [OF does_with_error [OF does_fs_create_directories] does_with_error [OF mode]]]) auto
  have rest: "does (case metadata of
        Inr SymlinkFile \<Rightarrow> fail (TrustSymlink q)
      | Inr (RegularFile n) \<Rightarrow> fail (TrustNotRegular q)
      | _ \<Rightarrow> attempt (with_error (trust_io q) (fs_create_directories q)) (\<lambda>_.
          with_error (trust_io q) (fs_set_directory_mode q TRUST_DIR_MODE))) (\<lambda>d r e. dk_files e = dk_files d)" for metadata q
    using make [of q] by (auto split: sum.splits file_kind.splits)
  show ?thesis
    unfolding ensure_private_parent_def
    by (rule does_mono [OF does_attempt [OF does_return does_bind [OF does_fs_symlink_metadata rest]]]) (auto simp: quiet_def)
qed

text \<open>What the store held: nothing when there is no file, and the approvals of a valid file otherwise.\<close>

definition stored_approvals :: "'d trust_env \<Rightarrow> path \<Rightarrow> disk \<Rightarrow> local_profile_approval list \<Rightarrow> bool" where
  "stored_approvals E p d as \<longleftrightarrow>
     (case dk_files d p of
        None \<Rightarrow> as = []
      | Some f \<Rightarrow> (\<exists>store. parse_store E (fl_bytes f) = Ok store \<and> lts_approvals store = as))"

lemma does_load_store_approvals:
  "does (load_store E p) (\<lambda>d r e. dk_files e = dk_files d \<and> (r = Ok None \<longrightarrow> stored_approvals E p d []) \<and>
     (\<forall>s. r = Ok (Some s) \<longrightarrow> stored_approvals E p d (lts_approvals s)))"
  by (rule does_mono [OF does_load_store]) (auto simp: quiet_def stored_approvals_def)

lemma does_approve:
  "does (approve_local_profile E p profile h manual summ) (\<lambda>d r e. \<forall>a. r = Ok a \<longrightarrow>
     to_hex (vdp_profile_hash profile) = h \<and> a = approval_of E profile h manual summ \<and>
     valid_operator_text manual \<and> valid_operator_text summ \<and>
     (\<exists>store bytes. lts_schema_version store = LOCAL_PROFILE_TRUST_SCHEMA_VERSION \<and> stored_approvals E p d (lts_approvals store) \<and>
        tre_store_to_vec E (add_approval a store) = Ok bytes \<and> length bytes \<le> MAX_TRUST_STORE_BYTES \<and>
        dk_files e = (dk_files d)(p \<mapsto> \<lparr>fl_bytes = bytes, fl_mode = PRIVATE_FILE_MODE\<rparr>)))"
proof -
  let ?a = "approval_of E profile h manual summ"
  let ?store = "\<lambda>found. case found of None \<Rightarrow> \<lparr>lts_schema_version = LOCAL_PROFILE_TRUST_SCHEMA_VERSION, lts_approvals = []\<rparr> | Some s \<Rightarrow> s"
  have put: "does (if length bytes > MAX_TRUST_STORE_BYTES then fail TrustTooLarge
      else attempt (with_error (\<lambda>e. TrustInvalid (atomic_write_error_text e)) (atomic_write p bytes)) (\<lambda>_. State_Monad.return (Ok ?a)))
    (\<lambda>d r e. \<forall>a. r = Ok a \<longrightarrow> a = ?a \<and> length bytes \<le> MAX_TRUST_STORE_BYTES \<and>
       dk_files e = (dk_files d)(p \<mapsto> \<lparr>fl_bytes = bytes, fl_mode = PRIVATE_FILE_MODE\<rparr>))" for bytes
    by (auto intro!: does_mono [OF does_attempt [OF does_with_error [OF does_atomic_write] does_return]])
  have store: "does (if lts_schema_version s \<noteq> LOCAL_PROFILE_TRUST_SCHEMA_VERSION
       then fail (TrustInvalid ''unsupported local profile trust schema'')
       else attempt (ensure_private_parent p) (\<lambda>_.
         attempt (State_Monad.return (map_err TrustInvalid (tre_store_to_vec E (add_approval ?a s)))) (\<lambda>bytes.
         if length bytes > MAX_TRUST_STORE_BYTES then fail TrustTooLarge
         else attempt (with_error (\<lambda>e. TrustInvalid (atomic_write_error_text e)) (atomic_write p bytes)) (\<lambda>_.
           State_Monad.return (Ok ?a)))))
    (\<lambda>d r e. \<forall>a. r = Ok a \<longrightarrow> a = ?a \<and> lts_schema_version s = LOCAL_PROFILE_TRUST_SCHEMA_VERSION \<and>
       (\<exists>bytes. tre_store_to_vec E (add_approval ?a s) = Ok bytes \<and> length bytes \<le> MAX_TRUST_STORE_BYTES \<and>
         dk_files e = (dk_files d)(p \<mapsto> \<lparr>fl_bytes = bytes, fl_mode = PRIVATE_FILE_MODE\<rparr>)))" for s
    by (auto intro!: does_mono [OF does_attempt [OF does_ensure_private_parent does_attempt [OF does_return put]]])
  have found: "stored_approvals E p d (lts_approvals (?store found))"
    if "found = None \<longrightarrow> stored_approvals E p d []" "\<forall>s. found = Some s \<longrightarrow> stored_approvals E p d (lts_approvals s)" for found d
    using that by (cases found) auto
  show ?thesis
  proof (cases "to_hex (vdp_profile_hash profile) \<noteq> h \<or> \<not> valid_operator_text manual \<or> \<not> valid_operator_text summ")
    case True
    then show ?thesis by (auto simp: approve_local_profile_def)
  next
    case False
    show ?thesis
      unfolding approve_local_profile_def Let_def
      using False by (auto intro!: does_mono [OF does_attempt [OF does_load_store_approvals store]])
        (rule exI, rule conjI, assumption, rule conjI, rule found, blast, blast, blast)
  qed
qed


text \<open>
  C18. An approval is stored as it was given: after it, whatever failed before, the file of the store is
  replaced whole, no other file has changed, and what the file says about the approved profile is exactly
  this approval, of the hash that the operator confirmed, while every approval of another profile is as it was. When the
  approval is well-formed the store can be read again, so that the trust check finds the approval. The
  serializer reads back what it wrote.
\<close>

theorem approval_is_stored_exactly:
  assumes codec: "\<And>s bytes. tre_store_to_vec E s = Ok bytes \<Longrightarrow> tre_store_from_slice E bytes = Ok s"
    and run: "run_state (approve_local_profile E p profile h manual summ) d = (Ok a, e)"
  shows "\<exists>old store f. stored_approvals E p d old \<and> dk_files e = (dk_files d)(p \<mapsto> f) \<and> fl_mode f = PRIVATE_FILE_MODE \<and>
    tre_store_from_slice E (fl_bytes f) = Ok store \<and>
    filter (\<lambda>b. lpa_profile_id b = vdp_profile_id profile) (lts_approvals store) = [a] \<and>
    {b \<in> set (lts_approvals store). lpa_profile_id b \<noteq> vdp_profile_id profile} =
      {b \<in> set old. lpa_profile_id b \<noteq> vdp_profile_id profile} \<and>
    lpa_revision a = vdp_revision profile \<and> lpa_profile_hash a = h \<and> h = to_hex (vdp_profile_hash profile) \<and>
    (approval_well_formed a \<longrightarrow> parse_store E (fl_bytes f) = Ok store)"
proof -
  from does_run [OF does_approve run] obtain s bytes where s: "to_hex (vdp_profile_hash profile) = h"
    "a = approval_of E profile h manual summ" "lts_schema_version s = LOCAL_PROFILE_TRUST_SCHEMA_VERSION"
    "stored_approvals E p d (lts_approvals s)" "tre_store_to_vec E (add_approval a s) = Ok bytes"
    "length bytes \<le> MAX_TRUST_STORE_BYTES" "dk_files e = (dk_files d)(p \<mapsto> \<lparr>fl_bytes = bytes, fl_mode = PRIVATE_FILE_MODE\<rparr>)"
    by blast
  have i: "lpa_profile_id a = vdp_profile_id profile" by (simp add: s(2) approval_of_def)
  have one: "filter (\<lambda>b. lpa_profile_id b = vdp_profile_id profile) (lts_approvals (add_approval a s)) = [a]"
    by (simp add: add_approval_def filter_sort i)
  have others: "{b \<in> set (lts_approvals (add_approval a s)). lpa_profile_id b \<noteq> vdp_profile_id profile} =
      {b \<in> set (lts_approvals s). lpa_profile_id b \<noteq> vdp_profile_id profile}"
    by (auto simp: add_approval_def i)
  have match: "lpa_revision a = vdp_revision profile" "lpa_profile_hash a = h" "h = to_hex (vdp_profile_hash profile)"
    using s(1) by (simp_all add: s(2) approval_of_def)
  have old: "\<forall>b \<in> set (lts_approvals s). approval_well_formed b"
    using s(4) by (auto simp: stored_approvals_def split: option.splits) (metis parse_store_approval)
  have "parse_store E bytes = Ok (add_approval a s)" if "approval_well_formed a"
    using that old codec [OF s(5)] s(3,6) by (auto simp: parse_store_def list_all_iff add_approval_def)
  with s(4,7) one others match codec [OF s(5)] show ?thesis
    by (intro exI [of _ "lts_approvals s"] exI [of _ "add_approval a s"]
        exI [of _ "\<lparr>fl_bytes = bytes, fl_mode = PRIVATE_FILE_MODE\<rparr>"]) simp
qed

subsection \<open>Packaging\<close>

lemma manifest_entry_sound:
  assumes "manifest_entry index p = Ok m"
  shows "manifest_entry_matches p m"
    and "profile_write_capable p \<Longrightarrow> \<exists>r. bt_get (qix_reports_by_profile_hash index) (to_hex (vdp_profile_hash p)) = Some r \<and>
      validate_qualification_report (to_hex (vdp_profile_hash p)) r = Ok () \<and> ppe_qualification_report_id m = Some (qre_report_id r)"
  using assms
  by (auto simp: manifest_entry_def Let_def and_then_Ok_iff manifest_entry_matches_def is_qualified_def
    split: option.splits if_splits)

lemma manifest_entries_sound:
  "manifest_entries index ps = Ok es \<Longrightarrow> list_all2 (\<lambda>p m. manifest_entry index p = Ok m) ps es"
  by (induction ps arbitrary: es) (auto simp: and_then_Ok_iff)

text \<open>
  What the packaging tool accepts, the program recognises: a manifest that was built for a list of
  profiles passes the validation at start, every one of them is packaged when it comes from the system
  tier, and from no other tier; and a profile that can write got in only with a complete qualification
  report for its exact hash.
\<close>

theorem packaged_profiles_are_recognised:
  assumes "build_manifest build_id ps index = Ok manifest"
  shows "validate_manifest manifest = Ok () \<and>
    (\<forall>p \<in> set ps. determine_origin p tier manifest = (if tier = SystemTier then Packaged else LocalUntrusted)) \<and>
    (\<forall>p \<in> set ps. profile_write_capable p \<longrightarrow> (\<exists>r.
       bt_get (qix_reports_by_profile_hash index) (to_hex (vdp_profile_hash p)) = Some r \<and>
       qre_profile_hash r = to_hex (vdp_profile_hash p) \<and> [] \<notin> {qre_report_id r, qre_hardware_model r, qre_firmware r,
         qre_manual_revision r, qre_safe_write_scope r}))"
proof -
  from assms obtain es where es: "manifest_entries index ps = Ok es" "ppm_profiles manifest = sort_key ppe_profile_id es"
    and valid: "validate_manifest manifest = Ok ()"
    by (auto simp: build_manifest_def Let_def and_then_Ok_iff split: if_splits)
  have entry: "\<exists>m \<in> set (ppm_profiles manifest). manifest_entry index p = Ok m" if "p \<in> set ps" for p
    using manifest_entries_sound [OF es(1)] that es(2) by (force simp: list_all2_conv_all_nth in_set_conv_nth)
  have "determine_origin p tier manifest = (if tier = SystemTier then Packaged else LocalUntrusted)" if "p \<in> set ps" for p
    using entry [OF that] manifest_entry_sound(1) by (auto simp: determine_origin_def list_ex_iff)
  moreover have "\<exists>r. bt_get (qix_reports_by_profile_hash index) (to_hex (vdp_profile_hash p)) = Some r \<and>
       qre_profile_hash r = to_hex (vdp_profile_hash p) \<and> [] \<notin> {qre_report_id r, qre_hardware_model r, qre_firmware r,
         qre_manual_revision r, qre_safe_write_scope r}" if "p \<in> set ps" "profile_write_capable p" for p
  proof -
    from entry [OF that(1)] manifest_entry_sound(2) [OF _ that(2)] obtain r where
      "bt_get (qix_reports_by_profile_hash index) (to_hex (vdp_profile_hash p)) = Some r"
      "validate_qualification_report (to_hex (vdp_profile_hash p)) r = Ok ()" by blast
    then show ?thesis by (intro exI [of _ r]) (auto simp: validate_qualification_report_def split: if_splits)
  qed
  ultimately show ?thesis using valid by blast
qed

end
