(* ===== verification/Trust_Samples.thy ===== *)
theory Trust_Samples
  imports Trust_Properties Profile_Samples
begin

text \<open>
  The sample profile in the registry: on a disk, from two tiers, named by a manifest, and approved
  locally; the witnesses of the properties of trust.
\<close>

definition demo_hash :: string where
  "demo_hash = to_hex ([1, 2] @ replicate 30 0)"

lemma demo_hash_valid: "is_sha256_hex demo_hash"
  by code_simp

definition demo_source :: "profile_source_tier \<Rightarrow> profile_source" where
  "demo_source tier = \<lparr>psr_path = ''/p/a.toml'', psr_bytes = [9, 9], psr_format = TomlFormat, psr_tier = tier\<rparr>"

lemma demo_profile:
  obtains v where "source_profile demo_profile_env (demo_source tier) v" "vdp_profile_id v = ''vfd.a''"
    "vdp_revision v = 1" "to_hex (vdp_profile_hash v) = demo_hash" "vdp_parameters v = [(''ramp'', demo_validated 10)]"
proof -
  let ?h = "pfe_sha256 demo_profile_env [9, 9]"
  obtain v d' where v: "validate_profile demo_profile_env (demo_document 10) ?h = Some (Ok (v, d'))"
    using demo_validates [of 10 ?h] by auto
  obtain pd ds where f: "validate_front demo_profile_env (demo_document 10) = Ok (''vfd.a'', pd, [(''ramp'', demo_validated 10)], ds)"
    using demo_front by blast
  from v f have "vdp_profile_id v = ''vfd.a'' \<and> vdp_revision v = 1 \<and> to_hex (vdp_profile_hash v) = demo_hash \<and>
      vdp_parameters v = [(''ramp'', demo_validated 10)]"
    by (auto simp: validate_profile_def finish_profile_def and_then_Ok_iff demo_hash_def demo_profile_env_def demo_document_def Let_def
      split: option.splits prod.splits)
  moreover have "source_profile demo_profile_env (demo_source tier) v"
    using v by (simp add: source_profile_iff parse_and_validate_profile_def demo_source_def MAX_PROFILE_BYTES_def demo_profile_env_def)
  ultimately show thesis using that by blast
qed

subsection \<open>Two tiers\<close>

definition demo_manifest :: packaged_profiles_manifest where
  "demo_manifest = \<lparr>ppm_schema_version = 1, ppm_build_id = ''b'', ppm_profiles =
     [\<lparr>ppe_profile_id = ''vfd.a'', ppe_revision = 1, ppe_profile_hash = demo_hash, ppe_write_capable = True,
       ppe_qualification_report_id = Some ''q''\<rparr>]\<rparr>"

lemma demo_manifest_valid: "validate_manifest demo_manifest = Ok ()"
  by (simp add: validate_manifest_def demo_manifest_def demo_texts demo_hash_valid is_qualified_def)

lemma demo_registry:
  assumes "source_profile demo_profile_env (demo_source tier) v" and "vdp_profile_id v = ''vfd.a''"
  shows "from_sources demo_profile_env [demo_source tier] demo_manifest = Some (Ok
    [(''vfd.a'', \<lparr>pre_profile = v, pre_path = ''/p/a.toml'', pre_tier = tier, pre_origin = determine_origin v tier demo_manifest\<rparr>)])"
  using assms
  by (auto simp: source_profile_iff from_sources_def demo_manifest_valid registry_insert_def Let_def demo_source_def)

lemma demo_registry_two:
  assumes "source_profile demo_profile_env (demo_source ExplicitTier) v" and "vdp_profile_id v = ''vfd.a''"
  shows "\<exists>registry. from_sources demo_profile_env [demo_source ExplicitTier, demo_source SystemTier] demo_manifest = Some (Ok registry)"
proof -
  have sorted: "sort_key source_key [demo_source ExplicitTier, demo_source SystemTier] = [demo_source SystemTier, demo_source ExplicitTier]"
    by (simp add: source_key_def demo_source_def tier_precedence_def less_eq_prod_def)
  show ?thesis
    using assms
    by (auto simp: source_profile_iff from_sources_def demo_manifest_valid sorted registry_insert_def Let_def demo_source_def
      tier_precedence_def)
qed

lemma registry_prefers_highest_tier_witness:
  "\<exists>registry entry. from_sources demo_profile_env [demo_source ExplicitTier, demo_source SystemTier] demo_manifest = Some (Ok registry) \<and>
     bt_get registry ''vfd.a'' = Some entry \<and> pre_tier entry = ExplicitTier"
proof -
  obtain v where v: "source_profile demo_profile_env (demo_source ExplicitTier) v" "vdp_profile_id v = ''vfd.a''"
    using demo_profile by blast
  from demo_registry_two [OF this] obtain registry where
    r: "from_sources demo_profile_env [demo_source ExplicitTier, demo_source SystemTier] demo_manifest = Some (Ok registry)" by blast
  from registry_prefers_highest_tier [OF r] obtain p entry where
    "source_profile demo_profile_env (demo_source ExplicitTier) p" "bt_get registry (vdp_profile_id p) = Some entry"
    "tier_precedence ExplicitTier \<le> tier_precedence (pre_tier entry)" by (auto simp: demo_source_def)
  with v source_profile_unique [OF this(1) v(1)] r show ?thesis
    by (auto simp: tier_precedence_def split: profile_source_tier.splits)
qed

subsection \<open>The trust check\<close>

definition demo_trust_disk :: disk where
  "demo_trust_disk = \<lparr>dk_files = [''/p/a.toml'' \<mapsto> \<lparr>fl_bytes = [9, 9], fl_mode = 0\<rparr>], dk_directories = {''/p''},
     dk_symlinks = {}, dk_faults = []\<rparr>"

definition demo_approval :: local_profile_approval where
  "demo_approval = \<lparr>lpa_profile_id = ''vfd.a'', lpa_revision = 1, lpa_profile_hash = demo_hash, lpa_approved_unix_nanos = ''0'',
     lpa_app_version = ''1'', lpa_manual_source = ''m'', lpa_operator_summary = ''m''\<rparr>"

definition demo_trust_store :: local_profile_trust_store where
  "demo_trust_store = \<lparr>lts_schema_version = 1, lts_approvals = [demo_approval]\<rparr>"

definition demo_trust_env :: "rat trust_env" where
  "demo_trust_env = \<lparr>tre_profiles = demo_profile_env,
     tre_store_to_vec = (\<lambda>s. if s = demo_trust_store then Ok [7] else Err ''x''),
     tre_store_from_slice = (\<lambda>bs. if bs = [7] then Ok demo_trust_store else Err ''x''),
     tre_now_nanos = 0, tre_app_version = ''1''\<rparr>"

lemma demo_load_single:
  "run_state (load_single ''/p/a.toml'') demo_trust_disk = (Ok (demo_source ExplicitTier), demo_trust_disk)"
proof -
  have "source_format_of ''/p/a.toml'' = Some TomlFormat" by code_simp
  then show ?thesis
    by (simp add: load_single_def read_profile_file_def scan_limits_default_def MAX_PROFILE_FILE_BYTES_def faultless
      fs_symlink_metadata_def fs_open_def fs_read_at_most_def demo_trust_disk_def demo_source_def)
qed

lemma trusted_profile_is_current_and_approved_witness:
  "\<exists>registry entry s. run_state (trust_is_trusted demo_trust_env \<lparr>rpt_registry = registry, rpt_trust_store_path = ''/p/t''\<rparr> ''vfd.a'')
       demo_trust_disk = (Some True, demo_trust_disk) \<and> bt_get registry ''vfd.a'' = Some entry \<and>
     pre_tier entry = SystemTier \<and> source_on_disk demo_trust_disk (pre_path entry) s"
proof -
  obtain v where v: "source_profile demo_profile_env (demo_source SystemTier) v" "vdp_profile_id v = ''vfd.a''"
    "vdp_revision v = 1" "to_hex (vdp_profile_hash v) = demo_hash" "vdp_parameters v = [(''ramp'', demo_validated 10)]"
    by (rule demo_profile)
  let ?entry = "\<lparr>pre_profile = v, pre_path = ''/p/a.toml'', pre_tier = SystemTier, pre_origin = Packaged\<rparr>"
  let ?registry = "[(''vfd.a'', ?entry)]"
  have "determine_origin v SystemTier demo_manifest = Packaged"
    by (simp add: determine_origin_def demo_manifest_def manifest_entry_matches_def v profile_write_capable_def demo_validated_def is_qualified_def)
  with demo_registry [OF v(1,2)] have reg: "from_sources (tre_profiles demo_trust_env) [demo_source SystemTier] demo_manifest = Some (Ok ?registry)"
    by (simp add: demo_trust_env_def)
  have "validate_source demo_profile_env (demo_source ExplicitTier) = Some (Ok v)"
    using v(1) by (simp add: source_profile_def validate_source_def demo_source_def)
  then have run: "run_state (trust_is_trusted demo_trust_env \<lparr>rpt_registry = ?registry, rpt_trust_store_path = ''/p/t''\<rparr> ''vfd.a'')
      demo_trust_disk = (Some True, demo_trust_disk)"
    by (simp add: trust_is_trusted_def entry_is_current_def demo_load_single same_profile_def demo_trust_env_def)
  from trusted_profile_is_current_and_approved [OF reg run] obtain s where "source_on_disk demo_trust_disk ''/p/a.toml'' s"
    by auto
  with run show ?thesis by (intro exI [of _ ?registry] exI [of _ ?entry] exI [of _ s]) simp
qed

subsection \<open>An approval\<close>

lemma demo_operator_text: "valid_operator_text ''m''"
  by code_simp

lemma demo_approval_well_formed: "approval_well_formed demo_approval"
  by (simp add: approval_well_formed_def demo_approval_def demo_texts(2) demo_hash_valid demo_operator_text)

lemma demo_approve:
  assumes "vdp_profile_id v = ''vfd.a''" "vdp_revision v = 1" "to_hex (vdp_profile_hash v) = demo_hash"
  shows "\<exists>e. run_state (approve_local_profile demo_trust_env ''/p/t'' v demo_hash ''m'' ''m'') demo_trust_disk = (Ok demo_approval, e)"
proof -
  have parent: "path_parent ''/p/t'' = Some ''/p''" by code_simp
  then have file_parent: "parent_directory ''/p/t'' = Ok ''/p''" by (simp add: parent_directory_def)
  have approval: "approval_of demo_trust_env v demo_hash ''m'' ''m'' = demo_approval"
  proof -
    have "nat_text 0 = ''0''" by code_simp
    then show ?thesis by (simp add: approval_of_def demo_trust_env_def demo_approval_def assms)
  qed
  have load: "run_state (load_store demo_trust_env ''/p/t'') demo_trust_disk = (Ok None, demo_trust_disk)"
    by (simp add: load_store_def fs_symlink_metadata_def faultless demo_trust_disk_def)
  have dirs: "run_state (ensure_private_parent ''/p/t'') demo_trust_disk = (Ok (), demo_trust_disk)"
    by (simp add: ensure_private_parent_def parent faultless fs_symlink_metadata_def fs_create_directories_def
      fs_set_directory_mode_def demo_trust_disk_def)
  have store: "add_approval demo_approval \<lparr>lts_schema_version = LOCAL_PROFILE_TRUST_SCHEMA_VERSION, lts_approvals = []\<rparr> = demo_trust_store"
    by (simp add: add_approval_def demo_trust_store_def LOCAL_PROFILE_TRUST_SCHEMA_VERSION_def)
  have "\<exists>e. run_state (atomic_write ''/p/t'' [7]) demo_trust_disk = (Ok (), e)"
    by (simp add: run_atomic_write file_parent demo_trust_disk_def)
  then obtain e where put: "run_state (atomic_write ''/p/t'' [7]) demo_trust_disk = (Ok (), e)" by blast
  show ?thesis
    by (simp add: put approve_local_profile_def assms demo_operator_text approval load dirs store Let_def run_attempt run_with_error
      demo_trust_env_def [THEN arg_cong [where f = tre_store_to_vec]] MAX_TRUST_STORE_BYTES_def)
qed

lemma approval_is_stored_exactly_witness:
  "\<exists>v e f. run_state (approve_local_profile demo_trust_env ''/p/t'' v demo_hash ''m'' ''m'') demo_trust_disk = (Ok demo_approval, e) \<and>
     dk_files e ''/p/t'' = Some f \<and> parse_store demo_trust_env (fl_bytes f) = Ok demo_trust_store"
proof -
  obtain v :: "rat validated_device_profile" where v: "vdp_profile_id v = ''vfd.a''" "vdp_revision v = 1"
      "to_hex (vdp_profile_hash v) = demo_hash"
    by (rule demo_profile [of SystemTier])
  then obtain e where run: "run_state (approve_local_profile demo_trust_env ''/p/t'' v demo_hash ''m'' ''m'') demo_trust_disk = (Ok demo_approval, e)"
    using demo_approve by blast
  have codec: "tre_store_from_slice demo_trust_env bytes = Ok s" if "tre_store_to_vec demo_trust_env s = Ok bytes" for s bytes
    using that by (auto simp: demo_trust_env_def split: if_splits)
  from approval_is_stored_exactly [of demo_trust_env, OF codec run] demo_approval_well_formed obtain store f where
    "dk_files e ''/p/t'' = Some f" "tre_store_from_slice demo_trust_env (fl_bytes f) = Ok store"
    "parse_store demo_trust_env (fl_bytes f) = Ok store" by auto
  moreover from this(2) have "store = demo_trust_store" by (auto simp: demo_trust_env_def split: if_splits)
  ultimately show ?thesis using run by blast
qed

end
