(* ===== verification/Spec2Isabelle.thy ===== *)
theory Spec2Isabelle
  imports Session Write_Properties Domain_Properties Restore_Properties Runtime_Properties Bus_Properties Poll_Properties Poll_Runs
    Telemetry_Properties Telemetry_Delivery Profile_Samples Downsample_Properties Fault_Plan_Properties
    Identification_Properties Audit_Properties Trust_Samples
begin

text \<open>
  A verification development for vfd-lantern, a terminal program that monitors and configures
  variable-frequency drives over Modbus RTU. Paths are relative to \<open>src/crates\<close>.

  \<^bold>\<open>The program.\<close> A device profile, a text document, is validated once and then tells the rest of
  the program which registers a drive has and how they are read and written. A session connects to a
  port, identifies the drive by the probes of the profile, and can be armed for writing. All traffic
  goes through one bus actor, which schedules commands of five classes on a serial line. The poll
  planner turns the subscriptions of all consumers into blocks of registers within a bus budget, the
  executor reads the blocks, and the telemetry pipeline decodes them, keeps values and histories,
  and feeds the screen and a CSV log; a fault tracker watches the fault source. A write is planned,
  confirmed by a challenge, recorded durably, executed once and read back. A backup captures the
  writable parameters; a restore is a sequence of guarded writes under a single-use permit. Every
  write and operation is recorded in a hash-chained journal before it happens.

  \<^bold>\<open>Theories and code.\<close>
  \<^item> \<open>Prelude\<close>: machine integers, results, ordered maps (the locale \<open>ordered_map\<close>), hexadecimal text,
    and weakest preconditions of the state monad. \<open>Texts\<close>, \<open>Samples\<close>: display texts, concrete values.
  \<^item> Domain (\<open>lantern-domain\<close>): \<open>Modbus\<close> (\<open>modbus.rs\<close>), \<open>Values\<close> (\<open>ids.rs\<close>, \<open>value.rs\<close>,
    \<open>quantity.rs\<close>), \<open>Codec\<close> (\<open>codec.rs\<close>), \<open>Records\<close> (\<open>write.rs\<close>, \<open>backup.rs\<close>, \<open>telemetry.rs\<close>); facts in
    \<open>Codec_Facts\<close> and \<open>Domain_Properties\<close>: accepted blocks stay in the address space, and decoding and
    encoding undo each other.
  \<^item> Profiles (\<open>lantern-profile\<close>): \<open>Profile\<close> (the validated profile), \<open>Profile_Document\<close>,
    \<open>Profile_Validation\<close>, \<open>Profile_References\<close> (\<open>document.rs\<close>, \<open>validate\<close>). \<open>Profile_Facts\<close> (the locale
    \<open>unique_walk\<close> of the loops that refuse duplicates), \<open>Profile_Properties\<close>, \<open>Profile_Samples\<close>: what an
    accepted document guarantees, up to a poll planner that cannot fail on it.
  \<^item> Bus: \<open>Bus\<close> (\<open>lantern-app/src/bus.rs\<close>), \<open>Bus_Scheduler\<close>, \<open>Bus_Actor\<close>
    (\<open>lantern-transport/src/bus_actor.rs\<close>); \<open>Bus_Safety\<close>, \<open>Bus_Properties\<close>: no class starves, every accepted
    request is answered exactly once, transmissions are spaced, shutdown ends. The locale
    \<open>deadline_queue\<close> is the contract of the queues.
  \<^item> Polling (\<open>lantern-app/src/poll.rs\<close>): \<open>Poll_Planner\<close>, \<open>Poll_Executor\<close>; \<open>Poll_Facts\<close>,
    \<open>Poll_Properties\<close>, \<open>Poll_Runs\<close>, \<open>Poll_Samples\<close>: budget, coverage, freshness, the phase of the schedule.
  \<^item> Telemetry (\<open>lantern-app/src/telemetry\<close>): \<open>Telemetry_State\<close>, \<open>Telemetry_Pipeline\<close>,
    \<open>Telemetry_Downsample\<close>; \<open>Telemetry_Facts\<close>, \<open>Telemetry_Properties\<close>, \<open>Telemetry_Delivery\<close>,
    \<open>Downsample_Properties\<close> (the locale \<open>preference\<close>): values that may guard a write are fresh, the
    CSV stream accounts for every sample, reduced histories keep extremes.
  \<^item> Faults: \<open>Faults\<close> (\<open>faults.rs\<close>, \<open>application/faults.rs\<close>), \<open>Fault_Plan\<close> (\<open>fault_plan.rs\<close>);
    \<open>Fault_Properties\<close>, \<open>Fault_Plan_Properties\<close>: the timeline is the sequence of the changes of the
    source, and the plan of a freeze frame always exists for an accepted profile.
  \<^item> Sessions: \<open>Session\<close> (\<open>session.rs\<close>), \<open>Identification\<close> (\<open>identification.rs\<close>), \<open>Runtime_Session\<close>
    (\<open>vfd-lantern/src/write_runtime.rs\<close>); \<open>Identification_Properties\<close>, \<open>Runtime_Properties\<close>: who may write
    and when. The locale \<open>session_control\<close> is the interface that the write kernel sees.
  \<^item> Writing: \<open>Ports\<close> (\<open>ports.rs\<close>), \<open>Backup\<close> (\<open>backup.rs\<close>), \<open>Restore\<close> (\<open>restore.rs\<close>,
    \<open>restore_permit.rs\<close>), \<open>Write_Coordinator\<close>, \<open>Restore_Execution\<close> (\<open>write_coordinator.rs\<close>), \<open>Floats\<close>;
    \<open>Write_Safety\<close>, \<open>Write_Properties\<close>, \<open>Write_Samples\<close>, \<open>Restore_Safety\<close>, \<open>Restore_Properties\<close>.
  \<^item> Durable audit (\<open>lantern-storage\<close>): \<open>Storage_Files\<close> (\<open>atomic.rs\<close> and the file system),
    \<open>Audit_Journal\<close>, \<open>Audit_Port\<close> (\<open>audit.rs\<close>); \<open>Audit_Facts\<close>, \<open>Audit_Properties\<close>: an append is complete,
    absent or detected under every fault, and a verified journal is bound by its last hash.
  \<^item> Trust in profiles: \<open>Profile_Sources\<close> (\<open>lantern-storage/src/profile_source.rs\<close>), \<open>Profile_Registry\<close>
    (\<open>lantern-app/src/profile_registry.rs\<close>), \<open>Profile_Trust\<close> (\<open>lantern-storage/src/profile_trust.rs\<close>) on the
    file system of \<open>Storage_Files\<close>; \<open>Trust_Properties\<close>, \<open>Trust_Samples\<close>: one source of the highest tier
    per profile, a trusted profile is current and named by its exact hash, approvals are stored whole.

  \<^bold>\<open>How the code is rendered.\<close> Machine integers are words; a duration or an instant is its number of
  nanoseconds. A \<open>Result\<close> is a sum with \<open>Err\<close> and \<open>Ok\<close>, and an outer option stands for a panic, which
  the release profile raises on overflow. A \<open>BTreeMap\<close> is a key-ordered list. Handlers that await are in the state
  monad: every call of a port hands the world to the adapter, which may change it in any way, and
  records the call and its answer in a trace that no handler reads. The properties of handlers are
  stated over that trace (\<open>emits\<close>), hence for every adapter and every interleaving at the awaits.
  State machines are functions from a state and an input to the next state and its effects; properties
  of runs are proved by induction over lists of inputs. Decimals (\<open>rust_decimal\<close>), SHA-256, the derived
  serializers and the serial backend are parameters; what a property needs of them is a hypothesis, and
  its witness instantiates it.

  \<^bold>\<open>Bounds.\<close> No definition has fuel: every loop is structural or has a measure, and the loops of the
  bus actor and the executor are single iterations that the properties compose into runs. The
  bounds in the statements are those of the code: 125 registers of a read, 70 percent of the bus, eight
  safety commands in a burst, 256 fault events, \<open>2 ^ 64\<close> records of a journal.

  \<^bold>\<open>Not modelled.\<close> The reducer that composes the states of the application
  (\<open>lantern-app/src/application.rs\<close>), the connection wizard, the dashboard, parameter and settings
  views; they select and pass on what the modelled parts compute. The
  terminal interface, the command line and the runtime's task wiring, which are presentation and glue.
  Port discovery and the ioctl calls. The files of backups, CSV logs and diagnostics,
  behind ports that are modelled. The simulator, its conformance tooling and the release tooling, which
  are not part of the running program. Loss of unsynced data in a power failure is covered by torn
  writes, and permissions only as far as the modes of files. The derived equality of the JSON texts with
  the documents they come from is the codec's, a parameter.
\<close>

end
